(* ===== verification/Prelude.thy ===== *)
theory Prelude
  imports Main
begin

text \<open>
  Shared vocabulary of the development: results of fallible operations
  (\<open>'e + 'a\<close>), the Python string and list operations the services use, and the
  ORM-table operations (lookup by key, in-place update, insert) with the lemmas the
  components' proofs rest on. Nothing here is specific to one service.
\<close>

named_theorems res_simps \<open>evaluation and inversion of results\<close>
named_theorems table_simps \<open>lookup and update of ORM tables\<close>
named_theorems chain_simps \<open>facts on approval chains\<close>

section \<open>Results\<close>

fun rbind :: "'e + 'a \<Rightarrow> ('a \<Rightarrow> 'e + 'b) \<Rightarrow> 'e + 'b" where
  "rbind (Inl e) f = Inl e"
| "rbind (Inr x) f = f x"

text \<open>\<open>raise_if c e k\<close>: \<open>if c: raise e\<close>, then the rest \<open>k\<close>.\<close>

definition raise_if :: "bool \<Rightarrow> 'e \<Rightarrow> 'e + 'a \<Rightarrow> 'e + 'a" where
  "raise_if c e k = (if c then Inl e else k)"

definition is_ok :: "'e + 'a \<Rightarrow> bool" where
  "is_ok r = (case r of Inl _ \<Rightarrow> False | Inr _ \<Rightarrow> True)"

lemma is_ok_simps [simp]: "is_ok (Inr x)" "\<not> is_ok (Inl e)"
  by (simp_all add: is_ok_def)

lemma is_ok_iff: "is_ok r \<longleftrightarrow> (\<exists>x. r = Inr x)"
  by (cases r) auto

lemma rbind_Inr_iff [res_simps]: "rbind m f = Inr y \<longleftrightarrow> (\<exists>x. m = Inr x \<and> f x = Inr y)"
  by (cases m) auto

lemma Inr_rbind_iff [res_simps]: "Inr y = rbind m f \<longleftrightarrow> (\<exists>x. m = Inr x \<and> f x = Inr y)"
  by (cases m) auto

lemma rbind_Inl_iff: "rbind m f = Inl e \<longleftrightarrow> m = Inl e \<or> (\<exists>x. m = Inr x \<and> f x = Inl e)"
  by (cases m) auto

lemma rbind_assoc: "rbind (rbind m f) g = rbind m (\<lambda>x. rbind (f x) g)"
  by (cases m) simp_all

lemma raise_if_Inr_iff [res_simps]: "raise_if c e k = Inr y \<longleftrightarrow> \<not> c \<and> k = Inr y"
  by (simp add: raise_if_def)

lemma raise_if_simps [simp]: "raise_if True e k = Inl e" "raise_if False e k = k"
  by (simp_all add: raise_if_def)

lemma is_ok_raise_if [res_simps]: "is_ok (raise_if c e k) \<longleftrightarrow> \<not> c \<and> is_ok k"
  by (simp add: raise_if_def)

lemma is_ok_rbind [res_simps]: "is_ok (rbind m f) \<longleftrightarrow> (\<exists>x. m = Inr x \<and> is_ok (f x))"
  by (cases m) auto

section \<open>Python strings\<close>

text \<open>
  A Python \<open>str\<close> is a HOL \<open>string\<close>: the code points below 256. \<open>py_isspace\<close> and
  \<open>py_lower\<close> agree with \<open>str.isspace\<close> and \<open>str.lower\<close> on these code points.
\<close>

definition char_code :: "char \<Rightarrow> nat" where
  "char_code c = of_char c"

definition py_isspace :: "char \<Rightarrow> bool" where
  "py_isspace c \<longleftrightarrow> (9 \<le> char_code c \<and> char_code c \<le> 13) \<or> (28 \<le> char_code c \<and> char_code c \<le> 32)
     \<or> char_code c = 133 \<or> char_code c = 160"

definition py_lstrip :: "string \<Rightarrow> string" where
  "py_lstrip s = dropWhile py_isspace s"

definition py_strip :: "string \<Rightarrow> string" where
  "py_strip s = rev (py_lstrip (rev (py_lstrip s)))"

definition lower_char :: "char \<Rightarrow> char" where
  "lower_char c =
     (let n = char_code c in
      if (65 \<le> n \<and> n \<le> 90) \<or> (192 \<le> n \<and> n \<le> 222 \<and> n \<noteq> 215) then char_of (n + 32) else c)"

definition py_lower :: "string \<Rightarrow> string" where
  "py_lower s = map lower_char s"

definition py_upper_ascii :: "string \<Rightarrow> string" where
  "py_upper_ascii s =
     map (\<lambda>c. if 97 \<le> char_code c \<and> char_code c \<le> 122 then char_of (char_code c - 32) else c) s"

text \<open>\<open>a or b\<close> on strings, where the empty string is false.\<close>

definition or_str :: "string \<Rightarrow> string \<Rightarrow> string" where
  "or_str a b = (if a = [] then b else a)"

text \<open>\<open>a or b\<close> on optional strings.\<close>

definition or_opt :: "string option \<Rightarrow> string \<Rightarrow> string" where
  "or_opt a b = (case a of None \<Rightarrow> b | Some s \<Rightarrow> or_str s b)"

definition truthy :: "string option \<Rightarrow> bool" where
  "truthy a = (case a of None \<Rightarrow> False | Some s \<Rightarrow> s \<noteq> [])"

text \<open>\<open>str(n)\<close> and \<open>sep.join(xs)\<close>.\<close>

fun nat_digits :: "nat \<Rightarrow> string" where
  "nat_digits n = (if n < 10 then [char_of (48 + n)] else nat_digits (n div 10) @ [char_of (48 + n mod 10)])"

declare nat_digits.simps [simp del]

definition py_str_int :: "int \<Rightarrow> string" where
  "py_str_int i = (if i < 0 then CHR ''-'' # nat_digits (nat (- i)) else nat_digits (nat i))"

fun py_join :: "string \<Rightarrow> string list \<Rightarrow> string" where
  "py_join sep [] = []"
| "py_join sep [x] = x"
| "py_join sep (x # xs) = x @ sep @ py_join sep xs"

text \<open>\<open>s.split(c)\<close> for a one-character separator: never empty.\<close>

fun py_split :: "char \<Rightarrow> string \<Rightarrow> string list" where
  "py_split c [] = [[]]"
| "py_split c (x # xs) =
     (if x = c then [] # py_split c xs
      else (case py_split c xs of [] \<Rightarrow> [[x]] | w # ws \<Rightarrow> (x # w) # ws))"

text \<open>\<open>sub in s\<close> for strings.\<close>

fun py_contains :: "string \<Rightarrow> string \<Rightarrow> bool" where
  "py_contains sub [] = (sub = [])"
| "py_contains sub (x # xs) = (take (length sub) (x # xs) = sub \<or> py_contains sub xs)"

text \<open>\<open>\w\<close> of \<open>re\<close>: the alphanumeric characters and the underscore.\<close>

definition word_char :: "char \<Rightarrow> bool" where
  "word_char c \<longleftrightarrow> (let n = char_code c in
     (48 \<le> n \<and> n \<le> 57) \<or> (65 \<le> n \<and> n \<le> 90) \<or> (97 \<le> n \<and> n \<le> 122) \<or> n = 95
     \<or> n \<in> {170, 178, 179, 181, 185, 186, 188, 189, 190} \<or> (192 \<le> n \<and> n \<noteq> 215 \<and> n \<noteq> 247))"

lemma py_strip_Nil [simp]: "py_strip [] = []"
  by (simp add: py_strip_def py_lstrip_def)

section \<open>Lists\<close>

text \<open>
  \<open>upd_first p f xs\<close> mutates the first element that satisfies \<open>p\<close>: the code finds
  an element with \<open>next(x for x in xs if p(x))\<close> and assigns to it in place.
\<close>

fun upd_first :: "('a \<Rightarrow> bool) \<Rightarrow> ('a \<Rightarrow> 'a) \<Rightarrow> 'a list \<Rightarrow> 'a list" where
  "upd_first p f [] = []"
| "upd_first p f (x # xs) = (if p x then f x # xs else x # upd_first p f xs)"

lemma length_upd_first [simp]: "length (upd_first p f xs) = length xs"
  by (induction xs) auto

lemma upd_first_split:
  "find p xs = Some x \<Longrightarrow>
     \<exists>ys zs. xs = ys @ x # zs \<and> p x \<and> (\<forall>y\<in>set ys. \<not> p y) \<and> upd_first p f xs = ys @ f x # zs"
proof (induction xs)
  case Nil
  then show ?case by simp
next
  case (Cons a xs)
  show ?case
  proof (cases "p a")
    case True
    with Cons.prems have "a = x" by simp
    with True have "a # xs = [] @ x # xs \<and> p x \<and> upd_first p f (a # xs) = [] @ f x # xs" by simp
    then show ?thesis by (metis empty_iff empty_set)
  next
    case False
    with Cons.prems have "find p xs = Some x" by simp
    then obtain ys zs where "xs = ys @ x # zs" "p x" "\<forall>y\<in>set ys. \<not> p y"
      "upd_first p f xs = ys @ f x # zs" using Cons.IH by blast
    with False have "a # xs = (a # ys) @ x # zs \<and> p x \<and> (\<forall>y\<in>set (a # ys). \<not> p y)
       \<and> upd_first p f (a # xs) = (a # ys) @ f x # zs" by simp
    then show ?thesis by blast
  qed
qed

lemma find_None_upd_first: "find p xs = None \<Longrightarrow> upd_first p f xs = xs"
  by (induction xs) (auto split: if_splits)

lemma find_Some_in: "find p xs = Some x \<Longrightarrow> x \<in> set xs \<and> p x"
  by (auto simp: find_Some_iff)

lemma find_None_all: "find p xs = None \<longleftrightarrow> (\<forall>x\<in>set xs. \<not> p x)"
  by (auto simp: find_None_iff)

text \<open>Page \<open>p\<close> of size \<open>n\<close>: \<open>xs[(p - 1) * n : p * n]\<close>, also \<open>OFFSET\<close> and \<open>LIMIT\<close>.\<close>

definition page_of :: "nat \<Rightarrow> nat \<Rightarrow> 'a list \<Rightarrow> 'a list" where
  "page_of p n xs = take n (drop ((p - 1) * n) xs)"

lemma length_page_of: "length (page_of p n xs) \<le> n"
  by (simp add: page_of_def)

lemma set_page_of: "set (page_of p n xs) \<subseteq> set xs"
  unfolding page_of_def by (meson order_trans set_drop_subset set_take_subset)

section \<open>Keyed tables\<close>

text \<open>
  A database table is the list of its rows in insertion order, with a key function for
  its primary key. \<open>row_get\<close> is a select by primary key; \<open>row_put\<close> flushes a changed
  ORM object back to its row.
\<close>

definition row_get :: "('r \<Rightarrow> int) \<Rightarrow> int \<Rightarrow> 'r list \<Rightarrow> 'r option" where
  "row_get key k rows = find (\<lambda>r. key r = k) rows"

definition row_put :: "('r \<Rightarrow> int) \<Rightarrow> 'r \<Rightarrow> 'r list \<Rightarrow> 'r list" where
  "row_put key r rows = map (\<lambda>x. if key x = key r then r else x) rows"

lemma row_get_key: "row_get key k rows = Some r \<Longrightarrow> key r = k \<and> r \<in> set rows"
  by (auto simp: row_get_def dest: find_Some_in)

lemma row_get_Nil [table_simps]: "row_get key k [] = None"
  by (simp add: row_get_def)

lemma row_get_Cons [table_simps]:
  "row_get key k (r # rows) = (if key r = k then Some r else row_get key k rows)"
  by (simp add: row_get_def)

lemma row_get_put [table_simps]:
  "row_get key k (row_put key r rows) =
     (if k = key r then map_option (\<lambda>_. r) (row_get key k rows) else row_get key k rows)"
  by (induction rows) (auto simp: row_get_def row_put_def)

lemma row_get_append [table_simps]:
  "row_get key k (rows @ [r]) =
     (case row_get key k rows of Some x \<Rightarrow> Some x | None \<Rightarrow> if key r = k then Some r else None)"
  by (induction rows) (auto simp: row_get_def)

lemma map_key_row_put [table_simps]: "map key (row_put key r rows) = map key rows"
  by (auto simp: row_put_def)

lemma set_row_put: "x \<in> set (row_put key r rows) \<Longrightarrow> x = r \<or> x \<in> set rows"
  by (auto simp: row_put_def split: if_splits)

lemma row_get_distinct:
  "distinct (map key rows) \<Longrightarrow> r \<in> set rows \<Longrightarrow> row_get key (key r) rows = Some r"
  by (induction rows) (auto simp: row_get_def image_iff)

lemma row_get_None_iff: "row_get key k rows = None \<longleftrightarrow> k \<notin> key ` set rows"
  by (auto simp: row_get_def find_None_iff)

lemma filter_row_put_other:
  "\<not> P r \<Longrightarrow> (\<And>x. x \<in> set rows \<Longrightarrow> key x = key r \<Longrightarrow> \<not> P x) \<Longrightarrow> filter P (row_put key r rows) = filter P rows"
  by (induction rows) (auto simp: row_put_def)

lemma row_put_same: "distinct (map key rows) \<Longrightarrow> r \<in> set rows \<Longrightarrow> row_put key r rows = rows"
  by (auto simp: row_put_def intro!: map_idI dest: row_get_distinct) (metis option.inject row_get_distinct)

end
