(* ===== verification/Sql_Analyzer.thy ===== *)
theory Sql_Analyzer
  imports Prelude
begin

text \<open>
  \<^verbatim>\<open>app/services/sql_analyzer.py\<close>: the facts the services extract from a parsed SQL
  statement. The parser itself (sqlglot) is not part of the repository: it is the
  argument \<open>parse\<close> of \<open>analyze_sql\<close>. What the code reads of a sqlglot expression
  is the datatype \<open>ast\<close>: the class name, \<open>str(this)\<close>, \<open>name\<close>, \<open>db\<close>,
  \<open>alias\<close>, the SQL name of a function node, and the \<open>args\<close> dictionary with the
  sub-expressions under each key. \<open>walk\<close>, \<open>find_all\<close> and \<open>find\<close> traverse
  breadth first, as sqlglot's do by default.
\<close>

section \<open>Expression trees\<close>

datatype ast =
  Ast (ast_class: string) (ast_this: string) (ast_name: string) (ast_db: string)
      (ast_alias: string) (ast_fn: string) (ast_args: "(string \<times> ast list) list")

type_synonym table_ref = "string \<times> string"  \<comment> \<open>schema, name\<close>

definition ast_arg :: "string \<Rightarrow> ast \<Rightarrow> ast list" where
  "ast_arg k t = (case map_of (ast_args t) k of None \<Rightarrow> [] | Some ts \<Rightarrow> ts)"

definition ast_children :: "ast \<Rightarrow> ast list" where
  "ast_children t = concat (map snd (ast_args t))"

lemma size_children: "sum_list (map size (concat (map snd (args :: (string \<times> ast list) list))))
    \<le> size_list (size_prod (\<lambda>_. 0) (size_list size)) args"
proof (induction args)
  case Nil
  then show ?case by simp
next
  case (Cons a args)
  have "sum_list (map size ts) \<le> size_list size ts" for ts :: "ast list"
    by (induction ts) auto
  from this [of "snd a"] Cons show ?case by (cases a) simp
qed

lemma size_ast_children: "sum_list (map size (ast_children t)) < size t"
  using size_children [of "ast_args t"] by (cases t) (simp add: ast_children_def)

function bfs :: "ast list \<Rightarrow> ast list" where
  "bfs [] = []"
| "bfs (t # q) = t # bfs (q @ ast_children t)"
  by pat_completeness auto
termination
  by (relation "measure (\<lambda>q. sum_list (map size q))") (use size_ast_children in auto)

definition walk :: "ast \<Rightarrow> ast list" where
  "walk t = bfs [t]"

definition find_all :: "string \<Rightarrow> ast \<Rightarrow> ast list" where
  "find_all c t = filter (\<lambda>n. ast_class n = c) (walk t)"

definition find_class :: "string \<Rightarrow> ast \<Rightarrow> ast option" where
  "find_class c t = find (\<lambda>n. ast_class n = c) (walk t)"

inductive subterm :: "ast \<Rightarrow> ast \<Rightarrow> bool" where
  sub_refl: "subterm t t"
| sub_child: "c \<in> set (ast_children t) \<Longrightarrow> subterm u c \<Longrightarrow> subterm u t"

inductive_cases subtermE: "subterm u t"

lemma set_bfs: "set (bfs q) = {u. \<exists>t\<in>set q. subterm u t}"
proof (induction q rule: bfs.induct)
  case 1
  then show ?case by simp
next
  case (2 t q)
  have eq: "subterm u t \<longleftrightarrow> u = t \<or> (\<exists>c\<in>set (ast_children t). subterm u c)" for u
    by (auto intro: subterm.intros elim: subtermE)
  have "set (bfs (t # q)) = insert t {u. \<exists>x\<in>set (q @ ast_children t). subterm u x}"
    using 2 by simp
  also have "\<dots> = {u. \<exists>x\<in>set (t # q). subterm u x}" by (auto simp: eq)
  finally show ?case .
qed

lemma set_walk: "set (walk t) = {u. subterm u t}"
  unfolding walk_def set_bfs by simp

lemma find_class_None: "find_class c t = None \<longleftrightarrow> (\<forall>u. subterm u t \<longrightarrow> ast_class u \<noteq> c)"
  by (auto simp: find_class_def find_None_iff set_walk)

section \<open>Constants and small string helpers\<close>

definition RELATIONAL_DB_TYPES :: "string list" where
  "RELATIONAL_DB_TYPES = [''mysql'', ''tidb'', ''pgsql'', ''postgres'', ''postgresql'',
     ''oracle'', ''mssql'', ''clickhouse'', ''starrocks'', ''doris'']"

definition SQLGLOT_DIALECTS :: "(string \<times> string) list" where
  "SQLGLOT_DIALECTS = [(''mysql'', ''mysql''), (''tidb'', ''mysql''), (''doris'', ''mysql''),
     (''starrocks'', ''mysql''), (''pgsql'', ''postgres''), (''postgres'', ''postgres''),
     (''postgresql'', ''postgres''), (''oracle'', ''oracle''), (''mssql'', ''tsql''),
     (''clickhouse'', ''clickhouse'')]"

text \<open>The dialects of \<^verbatim>\<open>app/services/masking.py\<close>.\<close>

definition DIALECT_MAP :: "(string \<times> string) list" where
  "DIALECT_MAP = [(''mysql'', ''mysql''), (''starrocks'', ''mysql''), (''pgsql'', ''postgres''), (''oracle'', ''oracle''),
     (''clickhouse'', ''clickhouse''), (''mssql'', ''tsql''), (''doris'', ''doris''), (''elasticsearch'', ''mysql''),
     (''mongo'', ''mysql''), (''redis'', ''mysql''), (''cassandra'', ''mysql'')]"

definition BULK_INSERT_ROWS :: nat where
  "BULK_INSERT_ROWS = 100"

definition WRITE_EXPR_NAMES :: "string list" where
  "WRITE_EXPR_NAMES = [''Insert'', ''Update'', ''Delete'', ''Create'', ''Drop'',
     ''TruncateTable'', ''Merge'', ''Execute'', ''Command'', ''Copy'', ''Alter'']"

definition SIDE_EFFECT_FUNCTIONS :: "string list" where
  "SIDE_EFFECT_FUNCTIONS = [''get_lock'', ''release_lock'', ''set_config'',
     ''pg_advisory_lock'', ''pg_advisory_xact_lock'', ''pg_terminate_backend'',
     ''pg_cancel_backend'', ''sleep'', ''benchmark'']"

definition is_relational_db_type :: "string \<Rightarrow> bool" where
  "is_relational_db_type db_type \<longleftrightarrow> py_lower db_type \<in> set RELATIONAL_DB_TYPES"

definition dialect_for_db_type :: "string \<Rightarrow> string" where
  "dialect_for_db_type db_type =
     (case map_of SQLGLOT_DIALECTS (py_lower db_type) of Some d \<Rightarrow> d | None \<Rightarrow> ''mysql'')"

definition rstrip_semicolons :: "string \<Rightarrow> string" where
  "rstrip_semicolons s = rev (dropWhile (\<lambda>c. c = CHR '';'') (rev s))"

definition clean_sql :: "string \<Rightarrow> string" where
  "clean_sql sql = py_strip (rstrip_semicolons (py_strip sql))"

definition has_extra_statement :: "string \<Rightarrow> bool" where
  "has_extra_statement sql \<longleftrightarrow> CHR '';'' \<in> set (rstrip_semicolons (py_strip sql))"

section \<open>Facts of a tree\<close>

definition cte_names :: "ast \<Rightarrow> string list" where
  "cte_names tree = map (\<lambda>c. py_lower (ast_alias c))
     (filter (\<lambda>c. ast_alias c \<noteq> []) (find_all ''CTE'' tree))"

text \<open>The loop of \<open>table_refs_from_tree\<close>: \<open>refs\<close> doubles as the \<open>seen\<close> set.\<close>

fun collect_refs :: "string \<Rightarrow> string list \<Rightarrow> ast list \<Rightarrow> table_ref list \<Rightarrow> table_ref list" where
  "collect_refs default_schema ctes [] refs = refs"
| "collect_refs default_schema ctes (tbl # tbls) refs =
     (if ast_name tbl = [] \<or> py_lower (ast_name tbl) \<in> set ctes
      then collect_refs default_schema ctes tbls refs
      else let r = (or_str (ast_db tbl) default_schema, ast_name tbl) in
           collect_refs default_schema ctes tbls (if r \<in> set refs then refs else refs @ [r]))"

definition table_refs_from_tree :: "ast \<Rightarrow> string \<Rightarrow> string \<Rightarrow> table_ref list" where
  "table_refs_from_tree tree db_name db_type =
     collect_refs (if db_type = ''pgsql'' then [] else db_name) (cte_names tree)
       (find_all ''Table'' tree) []"

definition has_write_expression :: "ast \<Rightarrow> bool" where
  "has_write_expression tree \<longleftrightarrow> (\<exists>c \<in> set WRITE_EXPR_NAMES. find_class c tree \<noteq> None)"

definition has_select_into :: "ast \<Rightarrow> bool" where
  "has_select_into tree \<longleftrightarrow> (\<exists>n \<in> set (find_all ''Select'' tree). ast_arg ''into'' n \<noteq> [])"

definition has_locking_read :: "ast \<Rightarrow> bool" where
  "has_locking_read tree \<longleftrightarrow> (\<exists>n \<in> set (find_all ''Select'' tree). ast_arg ''locks'' n \<noteq> [])"

definition has_side_effect_function :: "ast \<Rightarrow> bool" where
  "has_side_effect_function tree \<longleftrightarrow>
     (\<exists>n \<in> set (walk tree).
        let name = (if ast_class n = ''Anonymous'' then ast_this n else ast_fn n)
        in name \<noteq> [] \<and> py_lower name \<in> set SIDE_EFFECT_FUNCTIONS)"

definition DDL_CLASSES :: "string list" where
  "DDL_CLASSES = [''Create'', ''Drop'', ''Alter'', ''AlterTable'', ''TruncateTable'']"

text \<open>The default table name is a fixed Chinese text in the source, \<open>target\<close> here.\<close>

definition table_name_of :: "ast \<Rightarrow> string" where
  "table_name_of tree = (case find_class ''Table'' tree of Some t \<Rightarrow> ast_name t | None \<Rightarrow> ''target'')"

definition update_columns_of :: "ast \<Rightarrow> string list" where
  "update_columns_of tree =
     (let eqs = find_all ''EQ'' tree;
          cols = concat (map (\<lambda>e. case ast_arg ''this'' e of
                     [] \<Rightarrow> [] | l # _ \<Rightarrow> if ast_class l = ''Column'' then [ast_name l] else []) eqs)
      in rev (remdups (rev cols)))"

record sql_facts =
  f_index :: nat
  f_command_name :: string
  f_table_name :: string
  f_table_refs :: "table_ref list"
  f_update_columns :: "string list"
  is_select :: bool
  is_insert :: bool
  is_update :: bool
  is_delete :: bool
  is_ddl :: bool
  is_insert_select :: bool
  bulk_insert_rows :: nat
  has_where :: bool
  f_select_star :: bool
  f_write_expression :: bool
  f_select_into :: bool
  f_locking_read :: bool
  f_side_effect_function :: bool

definition statement_facts :: "nat \<Rightarrow> ast \<Rightarrow> string \<Rightarrow> string \<Rightarrow> sql_facts" where
  "statement_facts index stmt db_type db_name =
     (let command = py_upper_ascii (ast_this stmt);
          expression = ast_arg ''expression'' stmt;
          ins = (ast_class stmt = ''Insert'')
      in \<lparr> f_index = index,
           f_command_name = command,
           f_table_name = table_name_of stmt,
           f_table_refs = table_refs_from_tree stmt db_name db_type,
           f_update_columns = update_columns_of stmt,
           is_select = (ast_class stmt = ''Select''),
           is_insert = ins,
           is_update = (ast_class stmt = ''Update''),
           is_delete = (ast_class stmt = ''Delete''),
           is_ddl = (ast_class stmt \<in> set DDL_CLASSES \<or> command \<in> {''RENAME'', ''TRUNCATE''}),
           is_insert_select = (ins \<and> (case expression of [] \<Rightarrow> False | e # _ \<Rightarrow> ast_class e = ''Select'')),
           bulk_insert_rows = (case expression of [] \<Rightarrow> 0
              | e # _ \<Rightarrow> if ast_class e = ''Values'' then length (ast_arg ''expressions'' e) else 0),
           has_where = (find_class ''Where'' stmt \<noteq> None),
           f_select_star = (find_all ''Star'' stmt \<noteq> []),
           f_write_expression = has_write_expression stmt,
           f_select_into = has_select_into stmt,
           f_locking_read = has_locking_read stmt,
           f_side_effect_function = has_side_effect_function stmt \<rparr>)"

record sql_analysis =
  an_dialect :: string
  an_raw_sql :: string
  an_statements :: "sql_facts list"
  an_parse_error :: "string option"
  an_is_empty :: bool

text \<open>\<open>parse dialect sql\<close> is \<open>sqlglot.parse\<close>: an error text, or the list of
  statements, in which an empty statement is \<open>None\<close>.\<close>

type_synonym sql_parser = "string \<Rightarrow> string \<Rightarrow> string + ast option list"

fun number_facts :: "nat \<Rightarrow> string \<Rightarrow> string \<Rightarrow> ast list \<Rightarrow> sql_facts list" where
  "number_facts i db_type db_name [] = []"
| "number_facts i db_type db_name (s # ss) =
     statement_facts i s db_type db_name # number_facts (Suc i) db_type db_name ss"

definition analyze_sql :: "sql_parser \<Rightarrow> string \<Rightarrow> string \<Rightarrow> string \<Rightarrow> sql_analysis" where
  "analyze_sql parse db_type db_name sql =
     (let raw = py_strip sql; dialect = dialect_for_db_type db_type in
      if raw = [] then
        \<lparr> an_dialect = dialect, an_raw_sql = raw, an_statements = [], an_parse_error = None, an_is_empty = True \<rparr>
      else case parse dialect raw of
        Inl e \<Rightarrow> \<lparr> an_dialect = dialect, an_raw_sql = raw, an_statements = [],
                   an_parse_error = Some e, an_is_empty = False \<rparr>
      | Inr parsed \<Rightarrow> \<lparr> an_dialect = dialect, an_raw_sql = raw,
                   an_statements = number_facts 1 (py_lower db_type) db_name
                     (map the (filter (\<lambda>s. s \<noteq> None) parsed)),
                   an_parse_error = None, an_is_empty = False \<rparr>)"

definition has_multiple_statements :: "sql_analysis \<Rightarrow> bool" where
  "has_multiple_statements a \<longleftrightarrow> length (an_statements a) > 1"

section \<open>Lemmas\<close>

lemma facts_of_class:
  "is_delete (statement_facts i s t d) \<longleftrightarrow> ast_class s = ''Delete''"
  "is_update (statement_facts i s t d) \<longleftrightarrow> ast_class s = ''Update''"
  "is_insert (statement_facts i s t d) \<longleftrightarrow> ast_class s = ''Insert''"
  by (simp_all add: statement_facts_def Let_def)

lemma has_where_iff:
  "has_where (statement_facts i s t d) \<longleftrightarrow> (\<exists>u. subterm u s \<and> ast_class u = ''Where'')"
  using find_class_None [of "''Where''" s] by (auto simp: statement_facts_def Let_def)

lemma in_number_facts:
  "f \<in> set (number_facts i t d ss) \<Longrightarrow> \<exists>j. \<exists>s\<in>set ss. f = statement_facts j s t d"
  by (induction ss arbitrary: i) (fastforce+)

lemma collect_refs_mono: "set refs \<subseteq> set (collect_refs ds ctes tbls refs)"
  by (induction tbls arbitrary: refs) (force simp: Let_def)+

lemma distinct_collect_refs: "distinct refs \<Longrightarrow> distinct (collect_refs ds ctes tbls refs)"
  by (induction tbls arbitrary: refs) (auto simp: Let_def)

lemma in_collect_refs:
  "r \<in> set (collect_refs ds ctes tbls refs) \<longleftrightarrow> r \<in> set refs \<or>
     (\<exists>t\<in>set tbls. ast_name t \<noteq> [] \<and> py_lower (ast_name t) \<notin> set ctes
        \<and> r = (or_str (ast_db t) ds, ast_name t))"
  by (induction tbls arbitrary: refs) (auto simp: Let_def)

text \<open>
  The references of a statement are exactly the named tables anywhere in its tree that
  are not common table expressions, each once, under its own schema or the default.
\<close>

lemma table_refs_complete:
  "set (table_refs_from_tree tree db ty) =
     {r. \<exists>t. subterm t tree \<and> ast_class t = ''Table'' \<and> ast_name t \<noteq> []
        \<and> py_lower (ast_name t) \<notin> set (cte_names tree)
        \<and> r = (or_str (ast_db t) (if ty = ''pgsql'' then [] else db), ast_name t)}"
  unfolding table_refs_from_tree_def by (auto simp: in_collect_refs find_all_def set_walk)

lemma distinct_table_refs: "distinct (table_refs_from_tree tree db ty)"
  by (simp add: table_refs_from_tree_def distinct_collect_refs)

end
