(* ===== verification/Exceptions.thy ===== *)
theory Exceptions
  imports Prelude
begin

text \<open>
  \<^verbatim>\<open>app/core/exceptions.py\<close>: the application exceptions and their HTTP status. The
  Chinese message texts are constructors, one datatype per service, with the values they
  interpolate. \<open>RawException\<close> stands for the Python and SQLAlchemy exceptions that no
  service converts; the generic handler turns them into status 500.
\<close>

datatype (plugins only: code) flow_msg =
    FlowNotFound int | FlowDisabled string | FlowNoNodes string
  | OrderNotUnique | OrderNotSequential | ApproverIdsMissing | FieldConstraint string

datatype (plugins only: code) audit_msg =
    WorkflowNotFound int | AuditMissing | UnsupportedAction string | PassNotAllowed
  | ChainFinished | RejectNotAllowed | CancelNotAllowed | CancelNotOwner | CancelOperated
  | NoReviewPermission string string | NotInApprovers string | NotInResourceGroup string
  | NotManager | ApplicantUnknown | NotInUserGroup string | UserGroupMissing
  | NotInRole string | RoleMissing | ApproverTypeUnsupported string

datatype (plugins only: code) workflow_msg =
    FlowRequired | InstanceNotFound int | DbTypeUnsupported string | GroupOutOfScope
  | InstanceOutOfScope | PrecheckError string | PrecheckRejected | HighRiskNeedsPermission
  | RiskRemarkRequired | NotExecutable | ScheduleTimeMissing | ScheduleTimePast
  | ExternalTimeMissing | ExternalStatusMissing | ExternalRemarkMissing | ViewUnsupported

datatype (plugins only: code) archive_msg =
    JobNotFound int | ArchiveUnsupported string | BadIdentifier string | MongoConditionNotJson
  | MongoConditionEmpty | ConditionEmpty | ConditionIsStatement | ConditionMultiStatement
  | ConditionAlwaysTrue | BadTableName string | ConditionUnparsable string | NoArchiveExecute
  | ArchiveOutOfScope | DestInstanceRequired | EstimateFailed string | JobNotExecutable
  | PauseNotAllowed | ResumeNotAllowed | JobCancelNotOwner | JobCancelNotAllowed
  | BatchFailed int string | InsertFailed int string | SourceDeleteFailed int string
  | DestUnsupported string | TooManyBatches | PartialDelete int int int

datatype (plugins only: code) priv_msg =
    ApplyNotFound int | PrivilegeNotFound int | UserContextMissing | PrivInstanceMissing int
  | PrivInstanceOutOfScope | PrivGroupMismatch | PrivNoGroup | PrivRemarkRequired
  | ApplyAlreadyAudited | ApplyChainFinished | NoAuditAbility | OverridePast | OverrideTooLong
  | BadAction | ApplyCancelNotOwner | ApplyCancelNotPending | ApplyCancelOperated
  | RevokeForbidden | AlreadyRevoked | LogNotFound

datatype (plugins only: code) msg =
    FlowMsg flow_msg | AuditMsg audit_msg | WorkflowMsg workflow_msg | ArchiveMsg archive_msg
  | PrivMsg priv_msg | TextMsg string | NoPermission | AlreadyExists

datatype (plugins only: code) raw_exc =
    JSONDecodeError | MultipleResultsFound | PyTypeError | PyValueError | PyIndexError
  | EngineRaised string

datatype (plugins only: code) exc =
    AppException msg int "string option"
  | RawException raw_exc

type_synonym 'a res = "exc + 'a"

definition app_exc :: "msg \<Rightarrow> int \<Rightarrow> exc" where
  "app_exc m c = AppException m c None"

definition not_found_exc :: "msg \<Rightarrow> exc" where
  "not_found_exc m = AppException m 404 None"

definition forbidden_exc :: exc where
  "forbidden_exc = AppException NoPermission 403 None"

definition conflict_exc :: exc where
  "conflict_exc = AppException AlreadyExists 409 None"

definition engine_exc :: "msg \<Rightarrow> string \<Rightarrow> exc" where
  "engine_exc m db_type = AppException m 500 (Some db_type)"

text \<open>The exception handlers: the status of the JSON response.\<close>

fun http_status :: "exc \<Rightarrow> int" where
  "http_status (AppException m c d) = c"
| "http_status (RawException e) = 500"

fun is_app_exc :: "exc \<Rightarrow> bool" where
  "is_app_exc (AppException m c d) = True"
| "is_app_exc (RawException e) = False"

lemma is_app_exc_simps [simp]:
  "is_app_exc (app_exc m c)" "is_app_exc (not_found_exc m)"
  by (simp_all add: app_exc_def not_found_exc_def)

lemma http_status_simps [simp]:
  "http_status (app_exc m c) = c" "http_status (not_found_exc m) = 404"
  by (simp_all add: app_exc_def not_found_exc_def)

text \<open>SQLAlchemy's \<open>scalar_one_or_none\<close> on the selected rows.\<close>

fun scalar_one_or_none :: "'a list \<Rightarrow> 'a option res" where
  "scalar_one_or_none [] = Inr None"
| "scalar_one_or_none [x] = Inr (Some x)"
| "scalar_one_or_none (x # y # zs) = Inl (RawException MultipleResultsFound)"

lemma scalar_Some_iff: "scalar_one_or_none xs = Inr (Some x) \<longleftrightarrow> xs = [x]"
  by (cases xs rule: scalar_one_or_none.cases) auto

lemma scalar_None_iff: "scalar_one_or_none xs = Inr None \<longleftrightarrow> xs = []"
  by (cases xs rule: scalar_one_or_none.cases) auto

end
