(* ===== verification/Models.thy ===== *)
theory Models
  imports Exceptions Risk_Plan
begin

text \<open>
  The data of the workflow subsystem: \<^verbatim>\<open>app/models/workflow.py\<close>,
  \<^verbatim>\<open>app/models/approval_flow.py\<close>, \<^verbatim>\<open>app/models/archive.py\<close>,
  \<^verbatim>\<open>app/models/query.py\<close>, the columns of \<^verbatim>\<open>app/models/instance.py\<close>,
  \<^verbatim>\<open>app/models/user.py\<close> and \<^verbatim>\<open>app/models/role.py\<close> that the services read,
  and the user dictionary built by \<^verbatim>\<open>app/core/deps.py\<close>. A time is a number of
  microseconds since the epoch in UTC, a date a number of days; \<open>isoformat\<close> texts are
  represented by the time itself. \<open>tenant_id\<close> (constant 1) and \<open>updated_at\<close>
  (never read by a service) are left out.
\<close>

type_synonym time = int
type_synonym date = int

text \<open>A Python \<open>datetime\<close>: naive, or with a UTC offset.\<close>

datatype py_datetime = NaiveDT int | AwareDT int int

fun ensure_aware_utc :: "py_datetime \<Rightarrow> time" where
  "ensure_aware_utc (NaiveDT t) = t"
| "ensure_aware_utc (AwareDT t off) = t - off"

section \<open>Enumerations\<close>

datatype workflow_status =
    PENDING_REVIEW | AUTO_REVIEW_FAIL | REVIEW_PASS | TIMING_TASK | QUEUING | EXECUTING
  | FINISH | EXCEPTION | ABORT

fun workflow_status_int :: "workflow_status \<Rightarrow> int" where
  "workflow_status_int PENDING_REVIEW = 0"
| "workflow_status_int AUTO_REVIEW_FAIL = 1"
| "workflow_status_int REVIEW_PASS = 2"
| "workflow_status_int TIMING_TASK = 3"
| "workflow_status_int QUEUING = 4"
| "workflow_status_int EXECUTING = 5"
| "workflow_status_int FINISH = 6"
| "workflow_status_int EXCEPTION = 7"
| "workflow_status_int ABORT = 8"

lemma workflow_status_int_inj: "workflow_status_int a = workflow_status_int b \<longleftrightarrow> a = b"
  by (cases a; cases b) simp_all

datatype workflow_type = WT_QUERY | WT_SQL | WT_ARCHIVE | WT_MONITOR

datatype audit_status = PENDING | PASSED | REJECTED | CANCELED

datatype archive_status =
    JOB_PENDING_REVIEW | JOB_APPROVED | JOB_SCHEDULED | JOB_QUEUED | JOB_RUNNING | JOB_PAUSING
  | JOB_PAUSED | JOB_CANCELING | JOB_CANCELED | JOB_SUCCESS | JOB_FAILED

datatype batch_status = BATCH_SUCCESS | BATCH_FAILED

section \<open>Approval nodes\<close>

text \<open>
  A node of an approval chain as the snapshot dictionaries hold it: the keys of
  \<open>snapshot_for_workflow\<close>, the manager keys added at submission, and the keys written
  when the node is handled. A key that is absent, or \<open>null\<close>, is \<open>None\<close>.
\<close>

record node =
  n_order :: int
  n_node_id :: "int option"
  n_node_name :: string
  n_approver_type :: string
  n_approver_ids :: "int list"
  n_approver_group_id :: "int option"
  n_approver_role_id :: "int option"
  n_required_permission :: "string option"
  n_applicant_id :: "int option"
  n_applicant_name :: "string option"
  n_status :: audit_status
  n_operator :: "string option"
  n_operator_display :: "string option"
  n_operated_at :: "time option"
  n_adjusted_valid_date :: "date option"

text \<open>
  The JSON text column \<open>audit_auth_groups_info\<close>, as what \<open>json.loads\<close> makes of it:
  the empty string, a list of nodes, another JSON value, or a text that is not JSON.
\<close>

datatype nodes_json = NodesEmpty | NodesList "node list" | NodesOther | NodesInvalid

section \<open>Workflow tables\<close>

datatype exec_result =
    ResNone
  | ResPlatform bool string
  | ResRaised string
  | ResExternal bool string time string string
  | ResArchive string bool archive_status int int "msg option"

record workflow =
  wf_id :: int
  wf_name :: string
  wf_group_id :: int
  wf_group_name :: string
  wf_instance_id :: int
  wf_db_name :: string
  wf_syntax_type :: int
  wf_is_backup :: bool
  wf_engineer :: string
  wf_engineer_display :: string
  wf_engineer_id :: int
  wf_status :: workflow_status
  wf_audit_auth_groups :: string
  wf_run_date_start :: "time option"
  wf_run_date_end :: "time option"
  wf_execute_mode :: "string option"
  wf_scheduled_execute_at :: "time option"
  wf_executed_by_id :: "int option"
  wf_executed_by_name :: "string option"
  wf_external_executed_at :: "time option"
  wf_external_result_status :: "string option"
  wf_external_result_remark :: "string option"
  wf_finish_time :: "time option"
  wf_flow_id :: "int option"
  wf_export_format :: "string option"
  wf_created_at :: time

record workflow_content =
  wc_id :: int
  wc_workflow_id :: int
  wc_sql_content :: string
  wc_review_content :: "(string \<times> int \<times> string) list"
  wc_execute_result :: exec_result
  wc_risk_plan :: "risk_plan option"
  wc_risk_remark :: string

record workflow_audit =
  wa_id :: int
  wa_workflow_id :: int
  wa_workflow_type :: workflow_type
  wa_workflow_title :: string
  wa_current_audit_auth_group :: string
  wa_current_status :: audit_status
  wa_audit_auth_groups :: string
  wa_nodes :: nodes_json
  wa_create_user :: string
  wa_create_user_id :: int

record workflow_log =
  wl_id :: int
  wl_audit_id :: int
  wl_operator :: string
  wl_operator_id :: int
  wl_operation_type :: string
  wl_remark :: string
  wl_created_at :: time

section \<open>Approval-flow templates\<close>

record approval_flow_node =
  fn_id :: int
  fn_flow_id :: int
  fn_order :: int
  fn_node_name :: string
  fn_approver_type :: string
  fn_approver_ids :: "int list"
  fn_approver_group_id :: "int option"
  fn_approver_role_id :: "int option"

record approval_flow =
  fl_id :: int
  fl_name :: string
  fl_description :: string
  fl_is_active :: bool
  fl_created_by :: string
  fl_created_by_id :: "int option"
  fl_created_at :: time

section \<open>Archive jobs\<close>

record archive_job =
  aj_id :: int
  aj_workflow_id :: "int option"
  aj_celery_task_id :: string
  aj_status :: archive_status
  aj_archive_mode :: string
  aj_source_instance_id :: int
  aj_source_db :: string
  aj_source_table :: string
  aj_condition :: string
  aj_dest_instance_id :: "int option"
  aj_dest_db :: string
  aj_dest_table :: string
  aj_batch_size :: int
  aj_sleep_ms :: int
  aj_estimated_rows :: int
  aj_processed_rows :: int
  aj_current_batch :: int
  aj_row_count_is_estimated :: bool
  aj_apply_reason :: string
  aj_risk_plan :: "risk_plan option"
  aj_risk_remark :: string
  aj_error_message :: "msg option"
  aj_created_by :: string
  aj_created_by_id :: int
  aj_started_at :: "time option"
  aj_finished_at :: "time option"
  aj_created_at :: time

record archive_batch =
  ab_id :: int
  ab_job_id :: int
  ab_batch_no :: int
  ab_status :: batch_status
  ab_selected_rows :: int
  ab_inserted_rows :: int
  ab_deleted_rows :: int
  ab_message :: "msg option"
  ab_started_at :: "time option"
  ab_finished_at :: "time option"

section \<open>Query privileges\<close>

record query_privilege =
  qp_id :: int
  qp_user_id :: "int option"
  qp_user_group_id :: "int option"
  qp_instance_id :: "int option"
  qp_resource_group_id :: "int option"
  qp_scope_type :: string
  qp_db_name :: string
  qp_table_name :: string
  qp_valid_date :: date
  qp_limit_num :: int
  qp_priv_type :: int
  qp_is_deleted :: int
  qp_revoked_at :: "time option"
  qp_revoked_by_id :: "int option"
  qp_revoked_by_name :: "string option"
  qp_revoke_reason :: "string option"
  qp_created_at :: time

record privilege_apply =
  qa_id :: int
  qa_title :: string
  qa_user_id :: int
  qa_user_group_id :: "int option"
  qa_instance_id :: "int option"
  qa_resource_group_id :: "int option"
  qa_group_id :: int
  qa_scope_type :: string
  qa_db_name :: string
  qa_table_name :: string
  qa_valid_date :: date
  qa_limit_num :: int
  qa_priv_type :: int
  qa_apply_reason :: string
  qa_risk_plan :: risk_plan
  qa_risk_remark :: string
  qa_status :: audit_status
  qa_audit_auth_groups :: string
  qa_flow_id :: "int option"
  qa_nodes :: nodes_json
  qa_created_at :: time

record query_log =
  ql_id :: int
  ql_user_id :: "int option"
  ql_instance_id :: "int option"
  ql_db_name :: string
  ql_sqllog :: string
  ql_operation_type :: string
  ql_export_format :: string
  ql_username :: string
  ql_instance_name :: string
  ql_db_type :: string
  ql_client_ip :: string
  ql_error :: string
  ql_effect_row :: int
  ql_cost_time_ms :: int
  ql_priv_check :: bool
  ql_hit_rule :: bool
  ql_masking :: bool
  ql_is_favorite :: bool
  ql_created_at :: time

section \<open>Instances, users and groups\<close>

record resource_group =
  rg_id :: int
  rg_group_name :: string
  rg_is_active :: bool

record db_instance =
  in_id :: int
  in_name :: string
  in_db_type :: string
  in_is_active :: bool
  in_resource_groups :: "resource_group list"

record user_row =
  us_id :: int
  us_username :: string
  us_display_name :: string
  us_is_active :: bool
  us_manager_id :: "int option"

text \<open>The rows of \<open>user_group_member\<close> and \<open>group_resource_group\<close> are kept with the group.\<close>

record user_group =
  ug_id :: int
  ug_leader_id :: "int option"
  ug_is_active :: bool
  ug_members :: "int list"
  ug_resource_groups :: "resource_group list"

text \<open>
  The user dictionary. \<open>id\<close> and \<open>username\<close> are set by every caller; the other keys
  have the default the code reads them with (\<open>False\<close>, the empty list, \<open>None\<close>, the
  empty string).
\<close>

record operator =
  op_id :: int
  op_username :: string
  op_display_name :: string
  op_is_superuser :: bool
  op_permissions :: "string list"
  op_role :: "string option"
  op_role_id :: "int option"
  op_resource_groups :: "int list"

definition has_perm :: "operator \<Rightarrow> string \<Rightarrow> bool" where
  "has_perm u p \<longleftrightarrow> p \<in> set (op_permissions u)"

definition require_perm :: "string \<Rightarrow> operator \<Rightarrow> unit res" where
  "require_perm p u =
     (if op_is_superuser u then Inr () else if has_perm u p then Inr ()
      else Inl (app_exc (TextMsg p) 403))"

definition operator_display :: "operator \<Rightarrow> string" where
  "operator_display u = or_str (op_display_name u) (or_str (op_username u) (py_str_int (op_id u)))"

definition display_or_username :: "operator \<Rightarrow> string" where
  "display_or_username u = or_str (op_display_name u) (op_username u)"

text \<open>
  \<open>load_user_context\<close> from the row of an active user: permissions come from the role
  only, resource groups from the user groups only. \<open>role\<close> is the role's name, id and
  permission codes.
\<close>

definition user_context :: "user_row \<Rightarrow> bool \<Rightarrow> (string \<times> int \<times> string list) option \<Rightarrow> user_group list \<Rightarrow> operator" where
  "user_context u superuser role groups =
     \<lparr> op_id = us_id u, op_username = us_username u, op_display_name = us_display_name u,
       op_is_superuser = superuser,
       op_permissions = (case role of None \<Rightarrow> [] | Some (_, _, ps) \<Rightarrow> remdups ps),
       op_role = map_option fst role,
       op_role_id = map_option (\<lambda>(_, i, _). i) role,
       op_resource_groups = remdups (concat (map (\<lambda>g. map rg_id (ug_resource_groups g))
         (filter (\<lambda>g. us_id u \<in> set (ug_members g)) groups))) \<rparr>"

end
