(* ===== verification/Store.thy ===== *)
theory Store
  imports Models
begin

text \<open>
  The database as one record of tables, with the notification events and Celery tasks a
  transaction enqueues. Selects by primary key, updates of a loaded object and inserts
  are the operations \<open>get_\<close>, \<open>put_\<close> and \<open>add_\<close> of each table; the locale
  \<open>orm_table\<close> states what the services rely on, and is interpreted for every table.
  One id sequence serves all tables (PostgreSQL has one per table; only freshness is
  used). A handler that raises leaves the database as its last commit left it, which is
  why an operation with a single commit returns either an exception or the new store.
\<close>

text \<open>
  \<open>NotifyService.enqueue_event\<close>: kind, subject type and id, application type, approval
  node, recipients, permission and excluded users. The display texts are left out.
\<close>

record notify_event =
  ev_type :: string
  ev_subject_type :: string
  ev_subject_id :: int
  ev_app_type :: workflow_type
  ev_node :: "node option"
  ev_user_ids :: "int list"
  ev_permission :: "string option"
  ev_exclude :: "int list"

datatype celery_task = ExecuteWorkflow int int | ExecuteArchiveJob int int

record store =
  st_workflows :: "workflow list"
  st_contents :: "workflow_content list"
  st_audits :: "workflow_audit list"
  st_logs :: "workflow_log list"
  st_flows :: "approval_flow list"
  st_flow_nodes :: "approval_flow_node list"
  st_jobs :: "archive_job list"
  st_batches :: "archive_batch list"
  st_privileges :: "query_privilege list"
  st_applies :: "privilege_apply list"
  st_query_logs :: "query_log list"
  st_instances :: "db_instance list"
  st_users :: "user_row list"
  st_groups :: "user_group list"
  st_next_id :: int
  st_events :: "notify_event list"
  st_tasks :: "celery_task list"

definition emit :: "notify_event \<Rightarrow> store \<Rightarrow> store" where
  "emit e s = s\<lparr>st_events := st_events s @ [e]\<rparr>"

definition deliver :: "celery_task \<Rightarrow> store \<Rightarrow> store" where
  "deliver t s = s\<lparr>st_tasks := st_tasks s @ [t]\<rparr>"

section \<open>The contract of a table\<close>

locale orm_table =
  fixes key :: "'r \<Rightarrow> int"
    and sel :: "'s \<Rightarrow> int \<Rightarrow> 'r option"
    and put :: "'r \<Rightarrow> 's \<Rightarrow> 's"
    and fresh :: "'s \<Rightarrow> int"
    and add :: "'r \<Rightarrow> 's \<Rightarrow> 's"
    and ok :: "'s \<Rightarrow> bool"
  assumes sel_key: "sel s k = Some r \<Longrightarrow> key r = k"
    and sel_put: "sel (put r s) k = (if k = key r then map_option (\<lambda>_. r) (sel s k) else sel s k)"
    and ok_put: "ok s \<Longrightarrow> ok (put r s)"
    and sel_fresh: "ok s \<Longrightarrow> sel s (fresh s) = None"
    and sel_add: "ok s \<Longrightarrow> key r = fresh s \<Longrightarrow> sel (add r s) k = (if k = key r then Some r else sel s k)"
    and ok_add: "ok s \<Longrightarrow> key r = fresh s \<Longrightarrow> ok (add r s)"
begin

lemma sel_put_same: "sel s (key r) = Some r0 \<Longrightarrow> sel (put r s) (key r) = Some r"
  by (simp add: sel_put)

lemma sel_put_other: "k \<noteq> key r \<Longrightarrow> sel (put r s) k = sel s k"
  by (simp add: sel_put)

lemma sel_put_None [simp]: "sel (put r s) k = None \<longleftrightarrow> sel s k = None"
  by (simp add: sel_put)

lemma sel_put_loaded:
  "sel s k = Some r0 \<Longrightarrow> key r = key r0 \<Longrightarrow> sel (put r s) k = Some r"
  using sel_key [of s k r0] by (simp add: sel_put)

lemma sel_put_SomeE:
  "sel (put r s) k = Some x \<Longrightarrow> (x = r \<and> k = key r) \<or> sel s k = Some x"
  by (auto simp: sel_put split: if_splits)

lemma sel_add_mono: "ok s \<Longrightarrow> key r = fresh s \<Longrightarrow> sel s k = Some x \<Longrightarrow> sel (add r s) k = Some x"
  using sel_fresh [of s] by (auto simp: sel_add)

lemma sel_add_new: "ok s \<Longrightarrow> key r = fresh s \<Longrightarrow> sel (add r s) (fresh s) = Some r"
  by (simp add: sel_add)

end

definition table_wf :: "('r \<Rightarrow> int) \<Rightarrow> 'r list \<Rightarrow> int \<Rightarrow> bool" where
  "table_wf key rows n \<longleftrightarrow> distinct (map key rows) \<and> (\<forall>r\<in>set rows. key r < n)"

lemma table_wf_put: "table_wf key rows n \<Longrightarrow> table_wf key (row_put key r rows) n"
  by (auto simp: table_wf_def table_simps) (auto simp: row_put_def split: if_splits)

lemma table_wf_add: "table_wf key rows n \<Longrightarrow> key r = n \<Longrightarrow> table_wf key (rows @ [r]) (n + 1)"
  by (auto simp: table_wf_def)

lemma table_wf_mono: "table_wf key rows n \<Longrightarrow> n \<le> m \<Longrightarrow> table_wf key rows m"
  by (auto simp: table_wf_def)

lemma table_wf_put_later: "table_wf key rows n \<Longrightarrow> table_wf key (row_put key r rows) (n + 1)"
  by (drule table_wf_put [where r = r], erule table_wf_mono) simp

lemma table_wf_later: "table_wf key rows n \<Longrightarrow> table_wf key rows (n + 1)"
  by (erule table_wf_mono) simp

lemma table_wf_fresh: "table_wf key rows n \<Longrightarrow> row_get key n rows = None"
  by (auto simp: table_wf_def row_get_None_iff)

lemma row_get_add:
  "table_wf key rows n \<Longrightarrow> key r = n \<Longrightarrow>
     row_get key k (rows @ [r]) = (if k = n then Some r else row_get key k rows)"
  using table_wf_fresh [of key rows n] by (auto simp: table_simps split: option.splits)

section \<open>Tables\<close>

definition get_workflow :: "store \<Rightarrow> int \<Rightarrow> workflow option" where
  "get_workflow s k = row_get wf_id k (st_workflows s)"

definition put_workflow :: "workflow \<Rightarrow> store \<Rightarrow> store" where
  "put_workflow r s = s\<lparr>st_workflows := row_put wf_id r (st_workflows s)\<rparr>"

definition add_workflow :: "workflow \<Rightarrow> store \<Rightarrow> store" where
  "add_workflow r s = s\<lparr>st_workflows := st_workflows s @ [r], st_next_id := st_next_id s + 1\<rparr>"

definition workflows_wf :: "store \<Rightarrow> bool" where
  "workflows_wf s \<longleftrightarrow> table_wf wf_id (st_workflows s) (st_next_id s)"

definition get_audit :: "store \<Rightarrow> int \<Rightarrow> workflow_audit option" where
  "get_audit s k = row_get wa_id k (st_audits s)"

definition put_audit :: "workflow_audit \<Rightarrow> store \<Rightarrow> store" where
  "put_audit r s = s\<lparr>st_audits := row_put wa_id r (st_audits s)\<rparr>"

definition add_audit :: "workflow_audit \<Rightarrow> store \<Rightarrow> store" where
  "add_audit r s = s\<lparr>st_audits := st_audits s @ [r], st_next_id := st_next_id s + 1\<rparr>"

definition audits_wf :: "store \<Rightarrow> bool" where
  "audits_wf s \<longleftrightarrow> table_wf wa_id (st_audits s) (st_next_id s)"

definition get_job :: "store \<Rightarrow> int \<Rightarrow> archive_job option" where
  "get_job s k = row_get aj_id k (st_jobs s)"

definition put_job :: "archive_job \<Rightarrow> store \<Rightarrow> store" where
  "put_job r s = s\<lparr>st_jobs := row_put aj_id r (st_jobs s)\<rparr>"

definition add_job :: "archive_job \<Rightarrow> store \<Rightarrow> store" where
  "add_job r s = s\<lparr>st_jobs := st_jobs s @ [r], st_next_id := st_next_id s + 1\<rparr>"

definition jobs_wf :: "store \<Rightarrow> bool" where
  "jobs_wf s \<longleftrightarrow> table_wf aj_id (st_jobs s) (st_next_id s)"

definition get_apply :: "store \<Rightarrow> int \<Rightarrow> privilege_apply option" where
  "get_apply s k = row_get qa_id k (st_applies s)"

definition put_apply :: "privilege_apply \<Rightarrow> store \<Rightarrow> store" where
  "put_apply r s = s\<lparr>st_applies := row_put qa_id r (st_applies s)\<rparr>"

definition add_apply :: "privilege_apply \<Rightarrow> store \<Rightarrow> store" where
  "add_apply r s = s\<lparr>st_applies := st_applies s @ [r], st_next_id := st_next_id s + 1\<rparr>"

definition applies_wf :: "store \<Rightarrow> bool" where
  "applies_wf s \<longleftrightarrow> table_wf qa_id (st_applies s) (st_next_id s)"

definition get_privilege :: "store \<Rightarrow> int \<Rightarrow> query_privilege option" where
  "get_privilege s k = row_get qp_id k (st_privileges s)"

definition put_privilege :: "query_privilege \<Rightarrow> store \<Rightarrow> store" where
  "put_privilege r s = s\<lparr>st_privileges := row_put qp_id r (st_privileges s)\<rparr>"

definition add_privilege :: "query_privilege \<Rightarrow> store \<Rightarrow> store" where
  "add_privilege r s = s\<lparr>st_privileges := st_privileges s @ [r], st_next_id := st_next_id s + 1\<rparr>"

definition privileges_wf :: "store \<Rightarrow> bool" where
  "privileges_wf s \<longleftrightarrow> table_wf qp_id (st_privileges s) (st_next_id s)"

definition get_flow :: "store \<Rightarrow> int \<Rightarrow> approval_flow option" where
  "get_flow s k = row_get fl_id k (st_flows s)"

definition put_flow :: "approval_flow \<Rightarrow> store \<Rightarrow> store" where
  "put_flow r s = s\<lparr>st_flows := row_put fl_id r (st_flows s)\<rparr>"

definition add_flow :: "approval_flow \<Rightarrow> store \<Rightarrow> store" where
  "add_flow r s = s\<lparr>st_flows := st_flows s @ [r], st_next_id := st_next_id s + 1\<rparr>"

definition flows_wf :: "store \<Rightarrow> bool" where
  "flows_wf s \<longleftrightarrow> table_wf fl_id (st_flows s) (st_next_id s)"

lemma orm_table_rows:
  assumes "\<And>s k. sel s k = row_get key k (rows s)"
    and "\<And>r s. rows (put r s) = row_put key r (rows s)" "\<And>r s. fresh (put r s) = fresh s"
    and "\<And>r s. rows (add r s) = rows s @ [r]" "\<And>r s. fresh (add r s) = fresh s + 1"
    and "\<And>s. ok s \<longleftrightarrow> table_wf key (rows s) (fresh s)"
  shows "orm_table key sel put fresh add ok"
proof (unfold_locales, goal_cases)
  case (1 s k r)
  then show ?case using assms(1) by (auto dest: row_get_key)
next
  case (2 r s k)
  show ?case by (simp add: assms(1,2) table_simps)
next
  case (3 s r)
  then show ?case by (simp add: assms(2,3,6) table_wf_put)
next
  case (4 s)
  then show ?case by (simp add: assms(1,6) table_wf_fresh)
next
  case (5 s r k)
  then show ?case by (simp add: assms(1,4,6) row_get_add)
next
  case (6 s r)
  then show ?case by (simp add: assms(4,5,6) table_wf_add)
qed

interpretation workflow_tab: orm_table wf_id get_workflow put_workflow st_next_id add_workflow workflows_wf
  by (rule orm_table_rows [where rows = st_workflows])
    (simp_all add: get_workflow_def put_workflow_def add_workflow_def workflows_wf_def)

interpretation audit_tab: orm_table wa_id get_audit put_audit st_next_id add_audit audits_wf
  by (rule orm_table_rows [where rows = st_audits])
    (simp_all add: get_audit_def put_audit_def add_audit_def audits_wf_def)

interpretation job_tab: orm_table aj_id get_job put_job st_next_id add_job jobs_wf
  by (rule orm_table_rows [where rows = st_jobs])
    (simp_all add: get_job_def put_job_def add_job_def jobs_wf_def)

interpretation apply_tab: orm_table qa_id get_apply put_apply st_next_id add_apply applies_wf
  by (rule orm_table_rows [where rows = st_applies])
    (simp_all add: get_apply_def put_apply_def add_apply_def applies_wf_def)

interpretation privilege_tab: orm_table qp_id get_privilege put_privilege st_next_id add_privilege privileges_wf
  by (rule orm_table_rows [where rows = st_privileges])
    (simp_all add: get_privilege_def put_privilege_def add_privilege_def privileges_wf_def)

interpretation flow_tab: orm_table fl_id get_flow put_flow st_next_id add_flow flows_wf
  by (rule orm_table_rows [where rows = st_flows])
    (simp_all add: get_flow_def put_flow_def add_flow_def flows_wf_def)

section \<open>Other reads and writes\<close>

definition get_instance :: "store \<Rightarrow> int \<Rightarrow> db_instance option" where
  "get_instance s k = row_get in_id k (st_instances s)"

definition get_user :: "store \<Rightarrow> int \<Rightarrow> user_row option" where
  "get_user s k = row_get us_id k (st_users s)"

definition groups_of_user :: "store \<Rightarrow> int \<Rightarrow> user_group list" where
  "groups_of_user s u = filter (\<lambda>g. u \<in> set (ug_members g)) (st_groups s)"

definition content_of :: "store \<Rightarrow> int \<Rightarrow> workflow_content option" where
  "content_of s wid = find (\<lambda>c. wc_workflow_id c = wid) (st_contents s)"

definition set_execute_result :: "int \<Rightarrow> exec_result \<Rightarrow> store \<Rightarrow> store" where
  "set_execute_result wid r s = s\<lparr>st_contents :=
     upd_first (\<lambda>c. wc_workflow_id c = wid) (\<lambda>c. c\<lparr>wc_execute_result := r\<rparr>) (st_contents s)\<rparr>"

definition audits_of :: "store \<Rightarrow> int \<Rightarrow> workflow_audit list" where
  "audits_of s wid = filter (\<lambda>a. wa_workflow_id a = wid) (st_audits s)"

definition find_audit :: "store \<Rightarrow> int \<Rightarrow> workflow_audit option res" where
  "find_audit s wid = scalar_one_or_none (audits_of s wid)"

definition find_job_of_workflow :: "store \<Rightarrow> int \<Rightarrow> archive_job option res" where
  "find_job_of_workflow s wid =
     scalar_one_or_none (filter (\<lambda>j. aj_workflow_id j = Some wid) (st_jobs s))"

definition add_log :: "workflow_log \<Rightarrow> store \<Rightarrow> store" where
  "add_log l s = s\<lparr>st_logs := st_logs s @ [l], st_next_id := st_next_id s + 1\<rparr>"

definition add_content :: "workflow_content \<Rightarrow> store \<Rightarrow> store" where
  "add_content c s = s\<lparr>st_contents := st_contents s @ [c], st_next_id := st_next_id s + 1\<rparr>"

definition add_batch :: "archive_batch \<Rightarrow> store \<Rightarrow> store" where
  "add_batch b s = s\<lparr>st_batches := st_batches s @ [b], st_next_id := st_next_id s + 1\<rparr>"

lemmas store_defs =
  get_workflow_def put_workflow_def add_workflow_def get_audit_def put_audit_def add_audit_def
  get_job_def put_job_def add_job_def get_apply_def put_apply_def add_apply_def
  get_privilege_def put_privilege_def add_privilege_def get_flow_def put_flow_def add_flow_def
  emit_def deliver_def add_log_def add_content_def add_batch_def set_execute_result_def

text \<open>Every update leaves the other tables alone.\<close>

lemma get_workflow_frame [simp]:
  "get_workflow (put_audit a s) k = get_workflow s k"
  "get_workflow (put_job j s) k = get_workflow s k"
  "get_workflow (put_apply p s) k = get_workflow s k"
  "get_workflow (add_log l s) k = get_workflow s k"
  "get_workflow (add_audit a s) k = get_workflow s k"
  "get_workflow (add_content c s) k = get_workflow s k"
  "get_workflow (add_job j s) k = get_workflow s k"
  "get_workflow (add_batch b s) k = get_workflow s k"
  "get_workflow (set_execute_result i r s) k = get_workflow s k"
  "get_workflow (emit e s) k = get_workflow s k"
  "get_workflow (deliver t s) k = get_workflow s k"
  by (simp_all add: store_defs)

lemma audits_of_frame [simp]:
  "audits_of (put_workflow w s) k = audits_of s k"
  "audits_of (put_job j s) k = audits_of s k"
  "audits_of (add_workflow w s) k = audits_of s k"
  "audits_of (add_log l s) k = audits_of s k"
  "audits_of (add_content c s) k = audits_of s k"
  "audits_of (add_job j s) k = audits_of s k"
  "audits_of (add_batch b s) k = audits_of s k"
  "audits_of (set_execute_result i r s) k = audits_of s k"
  "audits_of (emit e s) k = audits_of s k"
  "audits_of (deliver t s) k = audits_of s k"
  by (simp_all add: store_defs audits_of_def)

lemma get_job_frame [simp]:
  "get_job (put_workflow w s) k = get_job s k"
  "get_job (put_audit a s) k = get_job s k"
  "get_job (add_log l s) k = get_job s k"
  "get_job (add_batch b s) k = get_job s k"
  "get_job (set_execute_result i r s) k = get_job s k"
  "get_job (emit e s) k = get_job s k"
  "get_job (deliver t s) k = get_job s k"
  by (simp_all add: store_defs)

lemma audits_of_put_audit:
  assumes "audits_of s wid = [a]" "wa_id a' = wa_id a" "wa_workflow_id a' = wid" "audits_wf s"
  shows "audits_of (put_audit a' s) wid = [a']"
proof -
  have d: "distinct (map wa_id (st_audits s))" using assms(4) by (simp add: audits_wf_def table_wf_def)
  have "filter (\<lambda>a. wa_workflow_id a = wid) (row_put wa_id a' rows) = [a']"
    if "filter (\<lambda>a. wa_workflow_id a = wid) rows = [a]" "distinct (map wa_id rows)" for rows
    using that
  proof (induction rows)
    case Nil
    then show ?case by simp
  next
    case (Cons r rows)
    show ?case
    proof (cases "wa_workflow_id r = wid")
      case True
      with Cons.prems have "r = a" and none: "filter (\<lambda>a. wa_workflow_id a = wid) rows = []" by simp_all
      with Cons.prems assms(2) have "row_put wa_id a' rows = rows"
        by (auto simp: row_put_def intro!: map_idI) (metis image_eqI)
      with none \<open>r = a\<close> assms(2,3) show ?thesis by (simp add: row_put_def)
    next
      case False
      from Cons.prems False have "a \<in> set (filter (\<lambda>a. wa_workflow_id a = wid) rows)" by simp
      then have "a \<in> set rows" by simp
      with Cons.prems have "wa_id r \<noteq> wa_id a" by auto
      with False Cons assms(2) show ?thesis by (simp add: row_put_def)
    qed
  qed
  with assms(1) d show ?thesis by (simp add: audits_of_def put_audit_def)
qed

lemma audits_of_put_audit_other:
  assumes "get_audit s (wa_id a') = Some a" "wa_workflow_id a' = wa_workflow_id a"
    "wa_workflow_id a \<noteq> wid" "audits_wf s"
  shows "audits_of (put_audit a' s) wid = audits_of s wid"
  unfolding audits_of_def put_audit_def
proof (simp, rule filter_row_put_other)
  show "wa_workflow_id a' \<noteq> wid" using assms by simp
  fix x assume "x \<in> set (st_audits s)" "wa_id x = wa_id a'"
  then have "x = a" using assms(1,4)
    by (metis audits_wf_def get_audit_def option.inject row_get_distinct table_wf_def)
  then show "wa_workflow_id x \<noteq> wid" using assms by simp
qed

end
