(* ===== verification/Approval_Chain.thy ===== *)
theory Approval_Chain
  imports Store
begin

text \<open>
  Approval chains as lists of nodes: loading them from the JSON column, finding the
  current node, \<^verbatim>\<open>app/services/cancel_policy.py\<close>, and the applicant decoration both
  \<open>WorkflowService\<close> and \<open>QueryPrivService\<close> apply to a snapshot. The locale
  \<open>approval_gate\<close> is the contract of an approver check; \<open>approve_run\<close> is the
  abstract chain a sequence of approvers walks through, which the audit service refines.
\<close>

section \<open>Loading\<close>

text \<open>\<open>json.loads(raw or "[]")\<close>, then iteration over the result.\<close>

fun loads_nodes :: "nodes_json \<Rightarrow> node list res" where
  "loads_nodes NodesEmpty = Inr []"
| "loads_nodes (NodesList ns) = Inr ns"
| "loads_nodes NodesOther = Inl (RawException PyTypeError)"
| "loads_nodes NodesInvalid = Inl (RawException JSONDecodeError)"

text \<open>\<open>ApplicationCancelPolicy.load_nodes\<close>\<close>

fun load_nodes :: "nodes_json \<Rightarrow> node list" where
  "load_nodes NodesEmpty = []"
| "load_nodes (NodesList ns) = ns"
| "load_nodes NodesOther = []"
| "load_nodes NodesInvalid = []"

lemma loads_nodes_load: "loads_nodes j = Inr ns \<Longrightarrow> load_nodes j = ns"
  by (cases j) auto

definition is_pending :: "node \<Rightarrow> bool" where
  "is_pending n \<longleftrightarrow> n_status n = PENDING"

definition current_pending :: "node list \<Rightarrow> node option" where
  "current_pending ns = find is_pending ns"

section \<open>ApplicationCancelPolicy\<close>

definition has_operated_node :: "node list \<Rightarrow> bool" where
  "has_operated_node ns \<longleftrightarrow> list_ex (\<lambda>n. n_status n \<noteq> PENDING) ns"

definition can_cancel_before_approval ::
    "int option \<Rightarrow> string option \<Rightarrow> operator \<Rightarrow> 'st \<Rightarrow> 'st \<Rightarrow> node list \<Rightarrow> bool" where
  "can_cancel_before_approval applicant_id applicant_username u status pending_status nodes =
     (if status \<noteq> pending_status then False
      else if \<not> op_is_superuser u \<and>
        (case applicant_id of Some i \<Rightarrow> op_id u \<noteq> i
         | None \<Rightarrow> (case applicant_username of Some n \<Rightarrow> op_username u \<noteq> n | None \<Rightarrow> False))
      then False
      else \<not> has_operated_node nodes)"

definition cancel_node :: "operator \<Rightarrow> time option \<Rightarrow> node \<Rightarrow> node" where
  "cancel_node u operated_at n =
     (if n_status n \<noteq> PENDING then n
      else n\<lparr>n_status := CANCELED, n_operator := Some (op_username u),
             n_operator_display := Some (display_or_username u),
             n_operated_at := (case operated_at of Some t \<Rightarrow> Some t | None \<Rightarrow> n_operated_at n)\<rparr>)"

definition cancel_pending_nodes :: "node list \<Rightarrow> operator \<Rightarrow> time option \<Rightarrow> node list" where
  "cancel_pending_nodes ns u operated_at = map (cancel_node u operated_at) ns"

section \<open>Applicant decoration\<close>

definition decorate_node :: "operator \<Rightarrow> node \<Rightarrow> node" where
  "decorate_node applicant n =
     (if n_approver_type n = ''manager''
      then n\<lparr>n_applicant_id := Some (op_id applicant),
             n_applicant_name := Some (display_or_username applicant)\<rparr>
      else n)"

definition decorate_snapshot_for_applicant :: "node list \<Rightarrow> operator \<Rightarrow> node list" where
  "decorate_snapshot_for_applicant ns applicant = map (decorate_node applicant) ns"

section \<open>Chains\<close>

definition pass_node :: "operator \<Rightarrow> time \<Rightarrow> node \<Rightarrow> node" where
  "pass_node u now n =
     n\<lparr>n_status := PASSED, n_operator := Some (op_username u), n_operated_at := Some now\<rparr>"

definition pass_current :: "operator \<Rightarrow> time \<Rightarrow> node list \<Rightarrow> node list" where
  "pass_current u now ns = upd_first is_pending (pass_node u now) ns"

definition all_passed :: "node list \<Rightarrow> bool" where
  "all_passed ns \<longleftrightarrow> (\<forall>n\<in>set ns. n_status n = PASSED)"

definition all_pending :: "node list \<Rightarrow> bool" where
  "all_pending ns \<longleftrightarrow> (\<forall>n\<in>set ns. n_status n = PENDING)"

definition pending_count :: "node list \<Rightarrow> nat" where
  "pending_count ns = length (filter is_pending ns)"

text \<open>A chain in review: approved nodes, then nodes that still wait.\<close>

definition chain_ok :: "node list \<Rightarrow> bool" where
  "chain_ok ns \<longleftrightarrow> (\<exists>ps qs. ns = ps @ qs \<and> all_passed ps \<and> all_pending qs)"

lemma pass_node_simps [simp]:
  "n_status (pass_node u t n) = PASSED" "n_operator (pass_node u t n) = Some (op_username u)"
  "n_approver_type (pass_node u t n) = n_approver_type n"
  by (simp_all add: pass_node_def)

lemma current_pending_Some: "current_pending ns = Some n \<Longrightarrow> n \<in> set ns \<and> n_status n = PENDING"
  unfolding current_pending_def by (auto dest: find_Some_in simp: is_pending_def)

lemma current_pending_None: "current_pending ns = None \<longleftrightarrow> (\<forall>n\<in>set ns. n_status n \<noteq> PENDING)"
  by (auto simp: current_pending_def find_None_all is_pending_def)

lemma pending_count_0: "pending_count ns = 0 \<longleftrightarrow> current_pending ns = None"
  by (auto simp: pending_count_def current_pending_None filter_empty_conv is_pending_def)

lemma pass_current_split:
  "current_pending ns = Some n \<Longrightarrow>
     \<exists>ys zs. ns = ys @ n # zs \<and> (\<forall>y\<in>set ys. n_status y \<noteq> PENDING)
       \<and> pass_current u t ns = ys @ pass_node u t n # zs"
  unfolding current_pending_def pass_current_def
  by (drule upd_first_split [where f = "pass_node u t"]) (auto simp: is_pending_def)

lemma pending_count_pass:
  "current_pending ns = Some n \<Longrightarrow> Suc (pending_count (pass_current u t ns)) = pending_count ns"
  using pass_current_split [of ns n u t] current_pending_Some [of ns n]
  by (auto simp: pending_count_def is_pending_def)

lemma chain_ok_pending: "all_pending ns \<Longrightarrow> chain_ok ns"
  unfolding chain_ok_def by (rule exI [of _ "[]"]) (simp add: all_passed_def)

lemma chain_ok_no_pending: "chain_ok ns \<Longrightarrow> current_pending ns = None \<Longrightarrow> all_passed ns"
  by (auto simp: chain_ok_def current_pending_None all_passed_def all_pending_def)

lemma chain_ok_pass_current:
  assumes "chain_ok ns" "current_pending ns = Some n"
  shows "chain_ok (pass_current u t ns)"
proof -
  obtain ps qs where ns: "ns = ps @ qs" and ps: "all_passed ps" and qs: "all_pending qs"
    using assms(1) by (auto simp: chain_ok_def)
  have skip: "current_pending (ps @ qs) = current_pending qs
      \<and> pass_current u t (ps @ qs) = ps @ pass_current u t qs" if "all_passed ps" for ps
    using that by (induction ps) (auto simp: current_pending_def pass_current_def all_passed_def is_pending_def)
  have "qs = n # tl qs"
    using assms(2) ns skip [OF ps] qs
    by (cases qs) (auto simp: current_pending_def is_pending_def all_pending_def)
  then have "pass_current u t qs = pass_node u t n # tl qs"
    using qs by (metis all_pending_def is_pending_def list.set_intros(1) pass_current_def upd_first.simps(2))
  with ns skip [OF ps] have "pass_current u t ns = (ps @ [pass_node u t n]) @ tl qs" by simp
  moreover have "all_passed (ps @ [pass_node u t n])" using ps by (simp add: all_passed_def)
  moreover have "all_pending (tl qs)" using qs by (cases qs) (auto simp: all_pending_def)
  ultimately show ?thesis unfolding chain_ok_def by blast
qed

lemma not_operated_all_pending: "\<not> has_operated_node ns \<longleftrightarrow> all_pending ns"
  by (auto simp: has_operated_node_def all_pending_def list_ex_iff)

lemma decorate_node_simps [simp]:
  "n_status (decorate_node u n) = n_status n" "n_node_id (decorate_node u n) = n_node_id n"
  "n_approver_type (decorate_node u n) = n_approver_type n"
  by (simp_all add: decorate_node_def)

lemma all_pending_decorate [simp]:
  "all_pending (decorate_snapshot_for_applicant ns u) \<longleftrightarrow> all_pending ns"
  by (auto simp: all_pending_def decorate_snapshot_for_applicant_def)

lemma cancel_pending_nodes_status:
  "m \<in> set (cancel_pending_nodes ns u t) \<Longrightarrow> all_pending ns \<Longrightarrow> n_status m = CANCELED"
  by (auto simp: cancel_pending_nodes_def cancel_node_def all_pending_def)

lemma current_pending_cancel: "current_pending (cancel_pending_nodes ns u t) = None"
  by (auto simp: current_pending_None cancel_pending_nodes_def cancel_node_def)

lemmas chain_facts =
  current_pending_Some pending_count_pass chain_ok_pass_current chain_ok_no_pending

section \<open>Approver checks and the abstract chain\<close>

text \<open>
  A sequence of approvals: each approver is checked against the current node, which then
  passes. Both approval services follow this run.
\<close>

fun approve_run :: "(operator \<Rightarrow> node \<Rightarrow> unit res) \<Rightarrow> (operator \<times> time) list \<Rightarrow> node list \<Rightarrow> node list res" where
  "approve_run permits [] ns = Inr ns"
| "approve_run permits ((u, t) # us) ns =
     (case current_pending ns of
        None \<Rightarrow> Inl (app_exc (AuditMsg ChainFinished) 400)
      | Some n \<Rightarrow> rbind (permits u n) (\<lambda>_. approve_run permits us (pass_current u t ns)))"

locale approval_gate =
  fixes permits :: "store \<Rightarrow> operator \<Rightarrow> node \<Rightarrow> unit res"
  assumes superuser_permitted: "op_is_superuser u \<Longrightarrow> permits s u n = Inr ()"
    and refusal_is_app_exc: "permits s u n = Inl e \<Longrightarrow> is_app_exc e"
    and unknown_type_refused:
      "\<not> op_is_superuser u \<Longrightarrow> n_approver_type n = ''nobody'' \<Longrightarrow> permits s u n \<noteq> Inr ()"
    and users_node: "\<not> op_is_superuser u \<Longrightarrow> n_approver_type n = ''users'' \<Longrightarrow>
      permits s u n = Inr () \<longleftrightarrow> op_id u \<in> set (n_approver_ids n)"
begin

lemma approve_run_pending:
  "approve_run (permits s) us ns = Inr ns' \<Longrightarrow> pending_count ns' + length us = pending_count ns"
proof (induction us arbitrary: ns)
  case Nil
  then show ?case by simp
next
  case (Cons a us)
  obtain u t where a: "a = (u, t)" by (cases a)
  with Cons.prems obtain n where n: "current_pending ns = Some n"
    and rest: "approve_run (permits s) us (pass_current u t ns) = Inr ns'"
    by (auto simp: res_simps split: option.splits)
  from Cons.IH [OF rest] pending_count_pass [OF n, of u t] show ?case by simp
qed

lemma approve_run_chain_ok:
  "approve_run (permits s) us ns = Inr ns' \<Longrightarrow> chain_ok ns \<Longrightarrow> chain_ok ns'"
proof (induction us arbitrary: ns)
  case Nil
  then show ?case by simp
next
  case (Cons a us)
  obtain u t where a: "a = (u, t)" by (cases a)
  with Cons.prems obtain n where n: "current_pending ns = Some n"
    and rest: "approve_run (permits s) us (pass_current u t ns) = Inr ns'"
    by (auto simp: res_simps split: option.splits)
  from rest chain_ok_pass_current [OF Cons.prems(2) n] show ?case by (rule Cons.IH)
qed

lemma approve_run_complete:
  assumes "approve_run (permits s) us ns = Inr ns'" "chain_ok ns" "length us = pending_count ns"
  shows "all_passed ns'"
proof -
  have "pending_count ns' = 0" using approve_run_pending [OF assms(1)] assms(3) by simp
  then show ?thesis using approve_run_chain_ok [OF assms(1,2)]
    by (simp add: pending_count_0 chain_ok_no_pending)
qed

lemma superusers_complete:
  assumes "\<forall>(u, t)\<in>set us. op_is_superuser u" "length us = pending_count ns"
  shows "\<exists>ns'. approve_run (permits s) us ns = Inr ns'"
  using assms
proof (induction us arbitrary: ns)
  case Nil
  then show ?case by simp
next
  case (Cons a us)
  obtain u t where a: "a = (u, t)" by (cases a)
  from Cons.prems(2) have "pending_count ns \<noteq> 0" by auto
  then obtain n where n: "current_pending ns = Some n" by (cases "current_pending ns") (auto simp: pending_count_0)
  have "length us = pending_count (pass_current u t ns)"
    using pending_count_pass [OF n, of u t] Cons.prems(2) by simp
  then obtain ns' where "approve_run (permits s) us (pass_current u t ns) = Inr ns'"
    using Cons.IH Cons.prems(1) by auto
  with a n Cons.prems(1) show ?case by (auto simp: superuser_permitted)
qed

end

end
