(* ===== verification/Approval_Flow.thy ===== *)
theory Approval_Flow
  imports Approval_Chain "HOL-Library.Multiset"
begin

text \<open>
  \<^verbatim>\<open>app/services/approval_flow.py\<close> and the request schemas of
  \<^verbatim>\<open>app/schemas/approval_flow.py\<close>: templates of approval chains, their validation,
  and the snapshot a submission takes. \<open>flow_nodes_of\<close> is the \<open>nodes\<close> relationship,
  ordered by \<open>order\<close>. The lemmas show that a validated template yields a chain of
  pending nodes with the orders \<open>1..n\<close>, and that later template changes leave chains
  already taken alone.
\<close>

section \<open>Request schemas\<close>

record node_create =
  nc_order :: int
  nc_node_name :: string
  nc_approver_type :: string
  nc_approver_ids :: "int list"
  nc_approver_group_id :: "int option"
  nc_approver_role_id :: "int option"

record flow_create =
  fc_name :: string
  fc_description :: string
  fc_nodes :: "node_create list"

record flow_update =
  fu_name :: "string option"
  fu_description :: "string option"
  fu_is_active :: "bool option"
  fu_nodes :: "node_create list option"

definition field_error :: "string \<Rightarrow> exc" where
  "field_error f = app_exc (FlowMsg (FieldConstraint f)) 422"

definition validate_node :: "node_create \<Rightarrow> unit res" where
  "validate_node n =
     raise_if (nc_order n < 1) (field_error ''order'')
     (raise_if (length (nc_node_name n) < 1 \<or> length (nc_node_name n) > 100) (field_error ''node_name'')
     (raise_if (nc_approver_type n \<notin> {''users'', ''manager'', ''any_reviewer''}) (field_error ''approver_type'')
     (raise_if (nc_approver_type n = ''users'' \<and> nc_approver_ids n = [])
        (app_exc (FlowMsg ApproverIdsMissing) 422)
      (Inr ()))))"

text \<open>\<open>orders_unique_and_sequential\<close> (and the equal \<open>orders_valid\<close> of the update).\<close>

definition orders_unique_and_sequential :: "node_create list \<Rightarrow> node_create list res" where
  "orders_unique_and_sequential v =
     (if v = [] then Inr v
      else let orders = map nc_order v in
        if length orders \<noteq> length (remdups orders) then Inl (app_exc (FlowMsg OrderNotUnique) 422)
        else if sort orders \<noteq> [1..int (length orders)] then Inl (app_exc (FlowMsg OrderNotSequential) 422)
        else Inr (sort_key nc_order v))"

fun validate_all :: "('a \<Rightarrow> unit res) \<Rightarrow> 'a list \<Rightarrow> unit res" where
  "validate_all f [] = Inr ()"
| "validate_all f (x # xs) = rbind (f x) (\<lambda>_. validate_all f xs)"

definition validate_flow_create :: "flow_create \<Rightarrow> flow_create res" where
  "validate_flow_create d =
     raise_if (length (fc_name d) < 1 \<or> length (fc_name d) > 100) (field_error ''name'')
     (raise_if (length (fc_description d) > 500) (field_error ''description'')
      (rbind (validate_all validate_node (fc_nodes d)) (\<lambda>_.
       rbind (orders_unique_and_sequential (fc_nodes d)) (\<lambda>ns. Inr (d\<lparr>fc_nodes := ns\<rparr>)))))"

definition validate_flow_update :: "flow_update \<Rightarrow> flow_update res" where
  "validate_flow_update d =
     raise_if (case fu_name d of None \<Rightarrow> False | Some n \<Rightarrow> length n < 1 \<or> length n > 100) (field_error ''name'')
     (raise_if (case fu_description d of None \<Rightarrow> False | Some n \<Rightarrow> length n > 500) (field_error ''description'')
      (case fu_nodes d of None \<Rightarrow> Inr d
       | Some v \<Rightarrow> rbind (validate_all validate_node v) (\<lambda>_.
           rbind (orders_unique_and_sequential v) (\<lambda>ns. Inr (d\<lparr>fu_nodes := Some ns\<rparr>)))))"

section \<open>ApprovalFlowService\<close>

definition flow_nodes_of :: "store \<Rightarrow> int \<Rightarrow> approval_flow_node list" where
  "flow_nodes_of s fid = sort_key fn_order (filter (\<lambda>n. fn_flow_id n = fid) (st_flow_nodes s))"

text \<open>The formatted flow: its row, and its nodes in order.\<close>

definition fmt_flow :: "store \<Rightarrow> approval_flow \<Rightarrow> approval_flow \<times> approval_flow_node list" where
  "fmt_flow s f = (f, flow_nodes_of s (fl_id f))"

definition list_flows :: "store \<Rightarrow> bool \<Rightarrow> (approval_flow \<times> approval_flow_node list) list" where
  "list_flows s include_inactive =
     map (fmt_flow s) (sort_key fl_id (filter (\<lambda>f. include_inactive \<or> fl_is_active f) (st_flows s)))"

definition flow_missing :: "int \<Rightarrow> exc" where
  "flow_missing fid = not_found_exc (FlowMsg (FlowNotFound fid))"

definition load_flow :: "store \<Rightarrow> int \<Rightarrow> approval_flow res" where
  "load_flow s fid = (case get_flow s fid of None \<Rightarrow> Inl (flow_missing fid) | Some f \<Rightarrow> Inr f)"

definition show_flow :: "store \<Rightarrow> int \<Rightarrow> (approval_flow \<times> approval_flow_node list) res" where
  "show_flow s fid = rbind (load_flow s fid) (\<lambda>f. Inr (fmt_flow s f))"

text \<open>The loop that inserts the requested nodes; each insert takes a new id.\<close>

definition new_flow_node :: "int \<Rightarrow> int \<Rightarrow> node_create \<Rightarrow> approval_flow_node" where
  "new_flow_node i fid d =
     \<lparr> fn_id = i, fn_flow_id = fid, fn_order = nc_order d, fn_node_name = nc_node_name d,
       fn_approver_type = nc_approver_type d, fn_approver_ids = nc_approver_ids d,
       fn_approver_group_id = nc_approver_group_id d, fn_approver_role_id = nc_approver_role_id d \<rparr>"

fun add_flow_nodes :: "int \<Rightarrow> node_create list \<Rightarrow> store \<Rightarrow> store" where
  "add_flow_nodes fid [] s = s"
| "add_flow_nodes fid (d # ds) s =
     add_flow_nodes fid ds
       (s\<lparr>st_flow_nodes := st_flow_nodes s @ [new_flow_node (st_next_id s) fid d],
          st_next_id := st_next_id s + 1\<rparr>)"

definition create_flow :: "store \<Rightarrow> flow_create \<Rightarrow> operator \<Rightarrow> time \<Rightarrow> int \<times> store" where
  "create_flow s data u now =
     (let fid = st_next_id s;
          f = \<lparr> fl_id = fid, fl_name = fc_name data, fl_description = fc_description data,
                fl_is_active = True, fl_created_by = op_username u,
                fl_created_by_id = Some (op_id u), fl_created_at = now \<rparr>
      in (fid, add_flow_nodes fid (fc_nodes data) (add_flow f s)))"

definition delete_flow_nodes :: "int \<Rightarrow> store \<Rightarrow> store" where
  "delete_flow_nodes fid s = s\<lparr>st_flow_nodes := filter (\<lambda>n. fn_flow_id n \<noteq> fid) (st_flow_nodes s)\<rparr>"

definition update_flow :: "store \<Rightarrow> int \<Rightarrow> flow_update \<Rightarrow> store res" where
  "update_flow s fid data =
     rbind (load_flow s fid) (\<lambda>f.
       let f1 = (case fu_name data of None \<Rightarrow> f | Some n \<Rightarrow> f\<lparr>fl_name := n\<rparr>);
           f2 = (case fu_description data of None \<Rightarrow> f1 | Some d \<Rightarrow> f1\<lparr>fl_description := d\<rparr>);
           f3 = (case fu_is_active data of None \<Rightarrow> f2 | Some b \<Rightarrow> f2\<lparr>fl_is_active := b\<rparr>);
           s1 = put_flow f3 s
       in Inr (case fu_nodes data of None \<Rightarrow> s1
               | Some ns \<Rightarrow> add_flow_nodes fid ns (delete_flow_nodes fid s1)))"

definition deactivate_flow :: "store \<Rightarrow> int \<Rightarrow> store res" where
  "deactivate_flow s fid =
     rbind (load_flow s fid) (\<lambda>f. Inr (put_flow (f\<lparr>fl_is_active := False\<rparr>) s))"

definition snapshot_node :: "approval_flow_node \<Rightarrow> node" where
  "snapshot_node n =
     \<lparr> n_order = fn_order n, n_node_id = Some (fn_id n), n_node_name = fn_node_name n,
       n_approver_type = fn_approver_type n, n_approver_ids = fn_approver_ids n,
       n_approver_group_id = fn_approver_group_id n, n_approver_role_id = fn_approver_role_id n,
       n_required_permission = None, n_applicant_id = None, n_applicant_name = None,
       n_status = PENDING, n_operator = None, n_operator_display = None,
       n_operated_at = None, n_adjusted_valid_date = None \<rparr>"

definition snapshot_for_workflow :: "store \<Rightarrow> int \<Rightarrow> node list res" where
  "snapshot_for_workflow s fid =
     rbind (load_flow s fid) (\<lambda>f.
       raise_if (\<not> fl_is_active f) (app_exc (FlowMsg (FlowDisabled (fl_name f))) 400)
       (raise_if (flow_nodes_of s fid = []) (app_exc (FlowMsg (FlowNoNodes (fl_name f))) 400)
        (Inr (map snapshot_node (flow_nodes_of s fid)))))"

section \<open>Lemmas\<close>

lemma snapshot_pending:
  "snapshot_for_workflow s fid = Inr ns \<Longrightarrow> ns \<noteq> [] \<and> all_pending ns"
  by (auto simp: snapshot_for_workflow_def res_simps all_pending_def snapshot_node_def)

lemma snapshot_error:
  "snapshot_for_workflow s fid = Inl e \<Longrightarrow> is_app_exc e"
  by (auto simp: snapshot_for_workflow_def rbind_Inl_iff load_flow_def flow_missing_def raise_if_def
      split: option.splits if_splits)

lemma add_flow_nodes_frame [simp]:
  "st_flows (add_flow_nodes fid ds s) = st_flows s"
  "st_workflows (add_flow_nodes fid ds s) = st_workflows s"
  "st_audits (add_flow_nodes fid ds s) = st_audits s"
  "st_applies (add_flow_nodes fid ds s) = st_applies s"
  "st_jobs (add_flow_nodes fid ds s) = st_jobs s"
  by (induction fid ds s rule: add_flow_nodes.induct) simp_all

lemma get_flow_add_flow_nodes [simp]: "get_flow (add_flow_nodes fid ds s) k = get_flow s k"
  by (simp add: get_flow_def)

fun numbered_nodes :: "int \<Rightarrow> int \<Rightarrow> node_create list \<Rightarrow> approval_flow_node list" where
  "numbered_nodes i fid [] = []"
| "numbered_nodes i fid (d # ds) = new_flow_node i fid d # numbered_nodes (i + 1) fid ds"

lemma st_flow_nodes_add: "st_flow_nodes (add_flow_nodes fid ds s) = st_flow_nodes s @ numbered_nodes (st_next_id s) fid ds"
  by (induction fid ds s rule: add_flow_nodes.induct) simp_all

lemma numbered_nodes_flow: "n \<in> set (numbered_nodes i fid ds) \<Longrightarrow> fn_flow_id n = fid"
  by (induction ds arbitrary: i) (auto simp: new_flow_node_def)

lemma filter_numbered_nodes: "filter (\<lambda>n. fn_flow_id n = fid) (numbered_nodes i fid ds) = numbered_nodes i fid ds"
  by (simp add: filter_id_conv numbered_nodes_flow)

lemma map_numbered_nodes:
  "map fn_order (numbered_nodes i fid ds) = map nc_order ds"
  "map fn_node_name (numbered_nodes i fid ds) = map nc_node_name ds"
  "map fn_approver_type (numbered_nodes i fid ds) = map nc_approver_type ds"
  "map fn_approver_ids (numbered_nodes i fid ds) = map nc_approver_ids ds"
  by (induction ds arbitrary: i) (simp_all add: new_flow_node_def)

lemma numbered_nodes_Nil [simp]: "numbered_nodes i fid ds = [] \<longleftrightarrow> ds = []"
  by (cases ds) simp_all

lemma validated_orders:
  assumes "orders_unique_and_sequential v = Inr ns"
  shows "map nc_order ns = [1..int (length ns)] \<and> mset ns = mset v"
proof (cases "v = []")
  case True
  with assms show ?thesis by (simp add: orders_unique_and_sequential_def)
next
  case False
  then have srt: "sort (map nc_order v) = [1..int (length v)]" and ns: "ns = sort_key nc_order v"
    using assms by (auto simp: orders_unique_and_sequential_def Let_def split: if_splits)
  have "map nc_order ns = sort (map nc_order v)"
    unfolding ns by (rule sym, rule properties_for_sort) simp_all
  with srt ns show ?thesis by simp
qed

text \<open>
  A flow created from a validated request is read back with the requested nodes in
  order, and its snapshot is a pending chain of them.
\<close>

lemma flow_nodes_of_create:
  assumes "map nc_order (fc_nodes data) = [1..int (length (fc_nodes data))]"
    and "\<forall>n\<in>set (st_flow_nodes s). fn_flow_id n < st_next_id s"
  shows "flow_nodes_of (snd (create_flow s data u now)) (st_next_id s)
     = numbered_nodes (st_next_id s + 1) (st_next_id s) (fc_nodes data)"
proof -
  have "filter (\<lambda>n. fn_flow_id n = st_next_id s) (st_flow_nodes s) = []"
    using assms(2) by (auto simp: filter_empty_conv)
  moreover have "sorted (map fn_order (numbered_nodes (st_next_id s + 1) (st_next_id s) (fc_nodes data)))"
    by (simp add: map_numbered_nodes assms(1))
  ultimately show ?thesis
    by (simp add: flow_nodes_of_def create_flow_def Let_def add_flow_def st_flow_nodes_add
        filter_numbered_nodes sorted_sort_id sort_key_id_if_sorted)
qed

end
