(* ===== verification/Governance_Scope.thy ===== *)
theory Governance_Scope
  imports Store
begin

text \<open>
  \<^verbatim>\<open>app/services/governance_scope.py\<close>: which rows of a list a user may see. A scope
  is resolved from the user once (\<open>resolve\<close>) and then filters the rows of a statement
  by their owner or their instance (\<open>apply_scope\<close>). The lemmas characterise the filter
  and bound what each scope can contain.
\<close>

datatype scope_domain = DomQuery | DomWorkflow

record gov_scope =
  sc_mode :: string
  sc_user_ids :: "int list option"
  sc_instance_ids :: "int list option"

definition is_global_user :: "operator \<Rightarrow> scope_domain \<Rightarrow> bool" where
  "is_global_user u dm =
     (if op_is_superuser u \<or> op_role u \<in> {Some ''superadmin'', Some ''dba''} then True
      else dm = DomQuery \<and> has_perm u ''query_all_instances'')"

definition has_instance_scope_permission :: "operator \<Rightarrow> scope_domain \<Rightarrow> bool" where
  "has_instance_scope_permission u dm =
     (if op_role u = Some ''dba_group'' then True
      else if dm = DomQuery
           then has_perm u ''query_mgtpriv'' \<or> has_perm u ''query_resource_group_instance''
      else has_perm u ''sql_execute_for_resource_group'')"

definition resolve_instance_ids :: "store \<Rightarrow> operator \<Rightarrow> int list" where
  "resolve_instance_ids s u =
     (if op_resource_groups u = [] then []
      else remdups (map in_id (filter (\<lambda>i. in_is_active i \<and>
             (\<exists>rg\<in>set (in_resource_groups i). rg_id rg \<in> set (op_resource_groups u))) (st_instances s))))"

text \<open>The active members of the active groups the user leads, and the user.\<close>

definition leader_groups :: "store \<Rightarrow> int \<Rightarrow> user_group list" where
  "leader_groups s u = filter (\<lambda>g. ug_leader_id g = Some u \<and> ug_is_active g) (st_groups s)"

definition user_is_active :: "store \<Rightarrow> int \<Rightarrow> bool" where
  "user_is_active s u = (case get_user s u of None \<Rightarrow> False | Some r \<Rightarrow> us_is_active r)"

definition resolve_group_user_ids :: "store \<Rightarrow> operator \<Rightarrow> int list" where
  "resolve_group_user_ids s u =
     (let groups = leader_groups s (op_id u) in
      if groups = [] then []
      else sort (remdups (op_id u # filter (user_is_active s) (concat (map ug_members groups)))))"

definition resolve :: "store \<Rightarrow> operator \<Rightarrow> scope_domain \<Rightarrow> gov_scope" where
  "resolve s u dm =
     (if is_global_user u dm
      then \<lparr> sc_mode = ''global'', sc_user_ids = None, sc_instance_ids = None \<rparr>
      else if has_instance_scope_permission u dm
      then \<lparr> sc_mode = ''instance_scope'', sc_user_ids = None,
             sc_instance_ids = Some (resolve_instance_ids s u) \<rparr>
      else let ids = resolve_group_user_ids s u in
        if ids \<noteq> []
        then \<lparr> sc_mode = ''group'', sc_user_ids = Some ids, sc_instance_ids = None \<rparr>
        else \<lparr> sc_mode = ''self'', sc_user_ids = Some [op_id u], sc_instance_ids = None \<rparr>)"

definition list_or_empty :: "'a list option \<Rightarrow> 'a list" where
  "list_or_empty x = (case x of None \<Rightarrow> [] | Some xs \<Rightarrow> xs)"

text \<open>
  \<open>col == -1\<close> and \<open>col.in_(ids)\<close> on a nullable column: \<open>NULL\<close> matches neither.
\<close>

definition col_in :: "int option \<Rightarrow> int list \<Rightarrow> bool" where
  "col_in v ids = (case v of None \<Rightarrow> False | Some i \<Rightarrow> i \<in> set ids)"

definition apply_scope :: "gov_scope \<Rightarrow> ('r \<Rightarrow> int option) \<Rightarrow> ('r \<Rightarrow> int option) \<Rightarrow> 'r list \<Rightarrow> 'r list" where
  "apply_scope sc user_col instance_col rows =
     (if sc_mode sc \<in> {''self'', ''group''} then
        (let ids = list_or_empty (sc_user_ids sc) in
         if ids = [] then filter (\<lambda>r. user_col r = Some (-1)) rows
         else filter (\<lambda>r. col_in (user_col r) ids) rows)
      else if sc_mode sc = ''instance_scope'' then
        (let ids = list_or_empty (sc_instance_ids sc) in
         if ids = [] then filter (\<lambda>r. instance_col r = Some (-1)) rows
         else filter (\<lambda>r. col_in (instance_col r) ids) rows)
      else rows)"

section \<open>Lemmas\<close>

lemma resolve_mode:
  "sc_mode (resolve s u dm) \<in> {''global'', ''instance_scope'', ''group'', ''self''}"
  by (simp add: resolve_def Let_def)

lemma resolve_global: "sc_mode (resolve s u dm) = ''global'' \<longleftrightarrow> is_global_user u dm"
  by (simp add: resolve_def Let_def)

lemma resolve_group_user_ids_own:
  "resolve_group_user_ids s u \<noteq> [] \<Longrightarrow> op_id u \<in> set (resolve_group_user_ids s u)"
  by (auto simp: resolve_group_user_ids_def Let_def split: if_splits)

lemma in_resolve_group_user_ids:
  "i \<in> set (resolve_group_user_ids s u) \<Longrightarrow>
     i = op_id u \<or> (user_is_active s i \<and> (\<exists>g\<in>set (st_groups s). ug_leader_id g = Some (op_id u)
        \<and> ug_is_active g \<and> i \<in> set (ug_members g)))"
  by (auto simp: resolve_group_user_ids_def leader_groups_def Let_def split: if_splits)

lemma in_resolve_instance_ids:
  "i \<in> set (resolve_instance_ids s u) \<longleftrightarrow>
     (\<exists>inst\<in>set (st_instances s). in_id inst = i \<and> in_is_active inst \<and>
        (\<exists>rg\<in>set (in_resource_groups inst). rg_id rg \<in> set (op_resource_groups u)))"
  by (cases "op_resource_groups u = []") (auto simp: resolve_instance_ids_def)

text \<open>The visibility predicate that \<open>resolve\<close> and \<open>apply_scope\<close> implement.\<close>

definition in_scope :: "store \<Rightarrow> operator \<Rightarrow> scope_domain \<Rightarrow> int option \<Rightarrow> int option \<Rightarrow> bool" where
  "in_scope s u dm owner inst \<longleftrightarrow>
     (if is_global_user u dm then True
      else if has_instance_scope_permission u dm
      then (if resolve_instance_ids s u = [] then inst = Some (-1) else col_in inst (resolve_instance_ids s u))
      else owner = Some (op_id u) \<or> col_in owner (resolve_group_user_ids s u))"

lemma apply_scope_resolve:
  "apply_scope (resolve s u dm) user_col instance_col rows =
     filter (\<lambda>r. in_scope s u dm (user_col r) (instance_col r)) rows"
proof -
  have own: "owner = Some (op_id u) \<or> col_in owner (resolve_group_user_ids s u) \<longleftrightarrow>
      col_in owner (resolve_group_user_ids s u)" if "resolve_group_user_ids s u \<noteq> []" for owner
    using resolve_group_user_ids_own [OF that] by (auto simp: col_in_def)
  show ?thesis
    by (cases "resolve_group_user_ids s u = []")
      (auto simp: resolve_def apply_scope_def in_scope_def Let_def list_or_empty_def own col_in_def
        split: option.splits dest: resolve_group_user_ids_own intro!: filter_cong)
qed

lemma in_scope_superuser: "op_is_superuser u \<Longrightarrow> in_scope s u dm owner inst"
  by (simp add: in_scope_def is_global_user_def)

end
