(* ===== verification/Workflow_Format.thy ===== *)
theory Workflow_Format
  imports Approval_Chain
begin

text \<open>
  The parts of \<^verbatim>\<open>app/services/workflow.py\<close> that format a workflow and that
  \<open>AuditService\<close> calls back: \<open>_fmt_workflow\<close>, \<open>_build_audit_chain_text\<close>,
  \<open>_get_current_node_name\<close> and \<open>_can_cancel_workflow\<close>. The columns that
  \<open>_fmt_workflow\<close> copies unchanged are kept as the row itself. Fixed Chinese texts are
  rendered in English here and in the other theories, with the values they interpolate.
\<close>

definition can_cancel_workflow :: "workflow \<Rightarrow> operator \<Rightarrow> node list \<Rightarrow> bool" where
  "can_cancel_workflow w u nodes =
     can_cancel_before_approval None (Some (wf_engineer w)) u (wf_status w) PENDING_REVIEW nodes"

fun STATUS_DESC :: "workflow_status \<Rightarrow> string" where
  "STATUS_DESC PENDING_REVIEW = ''pending review''"
| "STATUS_DESC AUTO_REVIEW_FAIL = ''rejected''"
| "STATUS_DESC REVIEW_PASS = ''approved''"
| "STATUS_DESC TIMING_TASK = ''scheduled''"
| "STATUS_DESC QUEUING = ''queued''"
| "STATUS_DESC EXECUTING = ''executing''"
| "STATUS_DESC FINISH = ''succeeded''"
| "STATUS_DESC EXCEPTION = ''failed''"
| "STATUS_DESC ABORT = ''canceled''"

fun WORKFLOW_TYPE_LABEL :: "workflow_type \<Rightarrow> string" where
  "WORKFLOW_TYPE_LABEL WT_QUERY = ''query privilege''"
| "WORKFLOW_TYPE_LABEL WT_SQL = ''SQL workflow''"
| "WORKFLOW_TYPE_LABEL WT_ARCHIVE = ''data archive''"
| "WORKFLOW_TYPE_LABEL WT_MONITOR = ''monitor privilege''"

text \<open>\<open>str(node_name or default)\<close> and the chain of node names or of the operators.\<close>

definition node_title :: "node \<Rightarrow> string" where
  "node_title n = or_str (n_node_name n) (''level '' @ py_str_int (n_order n) @ '' approval'')"

fun actor_chain :: "(string \<times> string) list \<Rightarrow> node list \<Rightarrow> string list" where
  "actor_chain m [] = []"
| "actor_chain m (n # ns) =
     (let op = py_strip (or_opt (n_operator n) []) in
      if op \<noteq> [] then (case map_of m op of None \<Rightarrow> op | Some d \<Rightarrow> d) # actor_chain m ns
      else actor_chain m ns)"

definition build_audit_chain_text :: "node list \<Rightarrow> workflow_status \<Rightarrow> (string \<times> string) list \<Rightarrow> string" where
  "build_audit_chain_text nodes status display_map =
     (if nodes = [] then ''-''
      else if status = PENDING_REVIEW then py_join '' -> '' (map node_title nodes)
      else let chain = actor_chain display_map nodes in
        if chain \<noteq> [] then py_join '' -> '' chain else ''-'')"

definition get_current_node_name :: "node list \<Rightarrow> workflow_status \<Rightarrow> string" where
  "get_current_node_name nodes status =
     (if status \<noteq> PENDING_REVIEW then ''-''
      else case current_pending nodes of None \<Rightarrow> ''-'' | Some n \<Rightarrow> n_node_name n)"

record workflow_item =
  wi_row :: workflow
  wi_instance_name :: string
  wi_status_desc :: string
  wi_type :: workflow_type
  wi_type_label :: string
  wi_current_node_name :: string
  wi_audit_chain_text :: string
  wi_risk_level :: "risk_level option"
  wi_risk_summary :: "plan_summary option"
  wi_risk_remark :: string
  wi_can_cancel :: bool

text \<open>\<open>wf.content\<close> is a parameter: the list views load it with the row.\<close>

definition fmt_workflow :: "workflow \<Rightarrow> workflow_content option \<Rightarrow> string \<Rightarrow> workflow_item" where
  "fmt_workflow w content instance_name =
     (let plan = (case content of None \<Rightarrow> None | Some c \<Rightarrow> wc_risk_plan c) in
      \<lparr> wi_row = w, wi_instance_name = instance_name,
        wi_status_desc = STATUS_DESC (wf_status w),
        wi_type = WT_SQL, wi_type_label = WORKFLOW_TYPE_LABEL WT_SQL,
        wi_current_node_name = ''-'', wi_audit_chain_text = ''-'',
        wi_risk_level = map_option rp_level plan,
        wi_risk_summary = map_option rp_summary plan,
        wi_risk_remark = (case content of None \<Rightarrow> [] | Some c \<Rightarrow> wc_risk_remark c),
        wi_can_cancel = False \<rparr>)"

lemma can_cancel_workflow_iff:
  "can_cancel_workflow w u nodes \<longleftrightarrow> wf_status w = PENDING_REVIEW
     \<and> (op_is_superuser u \<or> op_username u = wf_engineer w) \<and> \<not> has_operated_node nodes"
  by (auto simp: can_cancel_workflow_def can_cancel_before_approval_def)

end
