(* ===== verification/Sample_Data.thy ===== *)
theory Sample_Data
  imports Approval_Flow
begin

text \<open>
  A small concrete database on which the theorems of the components are applied: three
  operators, one instance, one SQL workflow and one archive workflow in review with
  two-level chains, and an archive job. \<open>sample_simps\<close> evaluates its tables.
\<close>

definition root_op :: operator where
  "root_op = \<lparr> op_id = 1, op_username = ''root'', op_display_name = [], op_is_superuser = True,
     op_permissions = [], op_role = None, op_role_id = None, op_resource_groups = [] \<rparr>"

definition dev_op :: operator where
  "dev_op = \<lparr> op_id = 7, op_username = ''dev'', op_display_name = ''Dev'', op_is_superuser = False,
     op_permissions = [''query_submit''], op_role = Some ''developer'', op_role_id = Some 3,
     op_resource_groups = [1] \<rparr>"

definition dba_op :: operator where
  "dba_op = \<lparr> op_id = 9, op_username = ''dba'', op_display_name = [], op_is_superuser = False,
     op_permissions = [''sql_review'', ''sql_execute'', ''archive_review'', ''archive_execute''],
     op_role = Some ''dba_group'', op_role_id = Some 2, op_resource_groups = [1] \<rparr>"

definition sample_node :: "int \<Rightarrow> string \<Rightarrow> int list \<Rightarrow> audit_status \<Rightarrow> node" where
  "sample_node order ty ids st =
     \<lparr> n_order = order, n_node_id = Some order, n_node_name = ''node'', n_approver_type = ty,
       n_approver_ids = ids, n_approver_group_id = None, n_approver_role_id = None,
       n_required_permission = None, n_applicant_id = None, n_applicant_name = None,
       n_status = st, n_operator = None, n_operator_display = None,
       n_operated_at = None, n_adjusted_valid_date = None \<rparr>"

definition sample_nodes :: "node list" where
  "sample_nodes = [sample_node 1 ''users'' [9] PENDING, sample_node 2 ''any_reviewer'' [] PENDING]"

definition sample_workflow :: "int \<Rightarrow> workflow_status \<Rightarrow> workflow" where
  "sample_workflow i st =
     \<lparr> wf_id = i, wf_name = ''change'', wf_group_id = 1, wf_group_name = ''rg'', wf_instance_id = 5,
       wf_db_name = ''app'', wf_syntax_type = 2, wf_is_backup = True, wf_engineer = ''dev'',
       wf_engineer_display = ''Dev'', wf_engineer_id = 7, wf_status = st, wf_audit_auth_groups = ''1'',
       wf_run_date_start = None, wf_run_date_end = None, wf_execute_mode = None,
       wf_scheduled_execute_at = None, wf_executed_by_id = None, wf_executed_by_name = None,
       wf_external_executed_at = None, wf_external_result_status = None,
       wf_external_result_remark = None, wf_finish_time = None, wf_flow_id = Some 1,
       wf_export_format = None, wf_created_at = 100 \<rparr>"

definition sample_audit :: "int \<Rightarrow> int \<Rightarrow> workflow_type \<Rightarrow> node list \<Rightarrow> workflow_audit" where
  "sample_audit i wid ty ns =
     \<lparr> wa_id = i, wa_workflow_id = wid, wa_workflow_type = ty, wa_workflow_title = ''change'',
       wa_current_audit_auth_group = ''1'', wa_current_status = PENDING, wa_audit_auth_groups = ''1,2'',
       wa_nodes = NodesList ns, wa_create_user = ''dev'', wa_create_user_id = 7 \<rparr>"

definition sample_job :: "archive_status \<Rightarrow> archive_job" where
  "sample_job st =
     \<lparr> aj_id = 5, aj_workflow_id = Some 3, aj_celery_task_id = [], aj_status = st,
       aj_archive_mode = ''purge'', aj_source_instance_id = 5, aj_source_db = ''app'',
       aj_source_table = ''log'', aj_condition = ''id < 10'', aj_dest_instance_id = None,
       aj_dest_db = ''app'', aj_dest_table = ''log'', aj_batch_size = 10, aj_sleep_ms = 0,
       aj_estimated_rows = 15, aj_processed_rows = 0, aj_current_batch = 0,
       aj_row_count_is_estimated = False, aj_apply_reason = [], aj_risk_plan = None,
       aj_risk_remark = ''restore from backup'', aj_error_message = None, aj_created_by = ''dev'',
       aj_created_by_id = 7, aj_started_at = None, aj_finished_at = None,
       aj_created_at = 100 \<rparr>"

definition sample_group :: resource_group where
  "sample_group = \<lparr> rg_id = 1, rg_group_name = ''rg'', rg_is_active = True \<rparr>"

definition sample_instance :: db_instance where
  "sample_instance = \<lparr> in_id = 5, in_name = ''db1'', in_db_type = ''mysql'', in_is_active = True,
     in_resource_groups = [sample_group] \<rparr>"

definition sample_user :: "int \<Rightarrow> string \<Rightarrow> user_row" where
  "sample_user i n = \<lparr> us_id = i, us_username = n, us_display_name = [], us_is_active = True,
     us_manager_id = Some 9 \<rparr>"

definition sample_content :: "int \<Rightarrow> workflow_content" where
  "sample_content wid = \<lparr> wc_id = wid + 10, wc_workflow_id = wid, wc_sql_content = ''delete from log'',
     wc_review_content = [], wc_execute_result = ResNone, wc_risk_plan = None, wc_risk_remark = [] \<rparr>"

definition sample_store :: store where
  "sample_store =
     \<lparr> st_workflows = [sample_workflow 1 PENDING_REVIEW, sample_workflow 3 PENDING_REVIEW],
       st_contents = [sample_content 1, sample_content 3],
       st_audits = [sample_audit 2 1 WT_SQL sample_nodes, sample_audit 4 3 WT_ARCHIVE sample_nodes],
       st_logs = [], st_flows = [], st_flow_nodes = [], st_jobs = [sample_job JOB_PENDING_REVIEW],
       st_batches = [], st_privileges = [], st_applies = [], st_query_logs = [],
       st_instances = [sample_instance],
       st_users = [sample_user 1 ''root'', sample_user 7 ''dev'', sample_user 9 ''dba''],
       st_groups = [], st_next_id = 20, st_events = [], st_tasks = [] \<rparr>"

lemmas sample_defs =
  root_op_def dev_op_def dba_op_def sample_node_def sample_nodes_def sample_workflow_def
  sample_audit_def sample_job_def sample_group_def sample_instance_def sample_user_def
  sample_content_def sample_store_def

lemma sample_wf [simp]:
  "workflows_wf sample_store" "audits_wf sample_store" "jobs_wf sample_store"
  by (simp_all add: workflows_wf_def audits_wf_def jobs_wf_def table_wf_def sample_defs)

lemma sample_tables [simp]:
  "st_jobs sample_store = [sample_job JOB_PENDING_REVIEW]"
  "st_workflows sample_store = [sample_workflow 1 PENDING_REVIEW, sample_workflow 3 PENDING_REVIEW]"
  "st_instances sample_store = [sample_instance]" "st_groups sample_store = []"
  by (simp_all add: sample_store_def)

lemma sample_gets [simp]:
  "get_workflow sample_store 1 = Some (sample_workflow 1 PENDING_REVIEW)"
  "get_workflow sample_store 3 = Some (sample_workflow 3 PENDING_REVIEW)"
  "get_job sample_store 5 = Some (sample_job JOB_PENDING_REVIEW)"
  "audits_of sample_store 1 = [sample_audit 2 1 WT_SQL sample_nodes]"
  "audits_of sample_store 3 = [sample_audit 4 3 WT_ARCHIVE sample_nodes]"
  by (simp_all add: get_workflow_def get_job_def audits_of_def sample_defs table_simps)

end
