(* ===== verification/Audit_Service.thy ===== *)
theory Audit_Service
  imports Workflow_Format Sample_Data
begin

text \<open>
  \<^verbatim>\<open>app/services/audit.py\<close>: the approval of workflows. A workflow has one audit
  record whose nodes are approved in order; \<open>operate\<close> passes, rejects or cancels it,
  and the last pass releases the workflow (and its archive job). \<open>now\<close> is
  \<open>datetime.now(UTC)\<close>. An operation that raises leaves the store unchanged. The lemmas
  give each branch of \<open>operate\<close>, interpret \<open>approval_gate\<close> on
  \<open>_check_approver_permission\<close>, and relate a sequence of passes to \<open>approve_run\<close>.
\<close>

definition OP_SUBMIT :: string where "OP_SUBMIT = ''submit''"
definition OP_PASS :: string where "OP_PASS = ''pass''"
definition OP_REJECT :: string where "OP_REJECT = ''reject''"
definition OP_CANCEL :: string where "OP_CANCEL = ''cancel''"
definition OP_EXECUTE :: string where "OP_EXECUTE = ''execute''"
definition OP_TIMING :: string where "OP_TIMING = ''timing''"

lemmas op_defs = OP_SUBMIT_def OP_PASS_def OP_REJECT_def OP_CANCEL_def OP_EXECUTE_def OP_TIMING_def

section \<open>Log and events\<close>

definition write_log :: "store \<Rightarrow> int \<Rightarrow> operator \<Rightarrow> string \<Rightarrow> string \<Rightarrow> time \<Rightarrow> store" where
  "write_log s audit_id u operation_type remark now =
     add_log \<lparr> wl_id = st_next_id s, wl_audit_id = audit_id, wl_operator = op_username u,
       wl_operator_id = op_id u, wl_operation_type = operation_type, wl_remark = remark,
       wl_created_at = now \<rparr> s"

definition workflow_event ::
    "workflow \<Rightarrow> workflow_audit \<Rightarrow> string \<Rightarrow> node option \<Rightarrow> int list \<Rightarrow> string option \<Rightarrow> notify_event" where
  "workflow_event w a event_type nd user_ids permission =
     \<lparr> ev_type = event_type, ev_subject_type = ''workflow'', ev_subject_id = wf_id w,
       ev_app_type = (if wa_workflow_type a = WT_ARCHIVE then WT_ARCHIVE else WT_SQL),
       ev_node = nd, ev_user_ids = user_ids, ev_permission = permission,
       ev_exclude = (if event_type = ''approval_pending'' \<and> wf_engineer_id w \<noteq> 0
                     then [wf_engineer_id w] else []) \<rparr>"

section \<open>Creation\<close>

definition legacy_node :: "int \<Rightarrow> string \<Rightarrow> node" where
  "legacy_node order name =
     \<lparr> n_order = order, n_node_id = None, n_node_name = name, n_approver_type = ''any_reviewer'',
       n_approver_ids = [], n_approver_group_id = None, n_approver_role_id = None,
       n_required_permission = None, n_applicant_id = None, n_applicant_name = None,
       n_status = PENDING, n_operator = None, n_operator_display = None,
       n_operated_at = None, n_adjusted_valid_date = None \<rparr>"

definition str_opt_id :: "int option \<Rightarrow> string" where
  "str_opt_id i = (case i of None \<Rightarrow> ''None'' | Some k \<Rightarrow> py_str_int k)"

definition raw_groups :: "string \<Rightarrow> string list" where
  "raw_groups auth_groups =
     map py_strip (filter (\<lambda>g. py_strip g \<noteq> []) (py_split (CHR '','') auth_groups))"

definition legacy_nodes :: "string list \<Rightarrow> node list" where
  "legacy_nodes groups =
     (if groups = [] then [legacy_node 1 ''approval'']
      else map (\<lambda>i. legacy_node i (''level '' @ py_str_int i @ '' approval'')) [1..int (length groups)])"

definition create_audit ::
    "store \<Rightarrow> workflow \<Rightarrow> workflow_type \<Rightarrow> operator \<Rightarrow> node list option \<Rightarrow> time \<Rightarrow> workflow_audit \<times> store" where
  "create_audit s w wtype u nodes_snapshot now =
     (let raw = raw_groups (wf_audit_auth_groups w);
          (groups_info, current_group, audit_groups_str) =
            (case nodes_snapshot of
               Some ns \<Rightarrow> (ns, (case ns of [] \<Rightarrow> [] | n # _ \<Rightarrow> str_opt_id (n_node_id n)),
                 py_join '','' (map (\<lambda>n. str_opt_id (n_node_id n)) ns))
             | None \<Rightarrow> (legacy_nodes raw, (case raw of [] \<Rightarrow> [] | g # _ \<Rightarrow> g), wf_audit_auth_groups w));
          a = \<lparr> wa_id = st_next_id s, wa_workflow_id = wf_id w, wa_workflow_type = wtype,
                wa_workflow_title = wf_name w, wa_current_audit_auth_group = current_group,
                wa_current_status = PENDING, wa_audit_auth_groups = audit_groups_str,
                wa_nodes = NodesList groups_info, wa_create_user = op_username u,
                wa_create_user_id = op_id u \<rparr>;
          s1 = write_log (add_audit a s) (wa_id a) u OP_SUBMIT (''submitted: '' @ wf_name w) now
      in (a, s1))"

section \<open>Approver permission\<close>

definition refuse :: "audit_msg \<Rightarrow> unit res" where
  "refuse m = Inl (app_exc (AuditMsg m) 403)"

text \<open>\<open>selectinload(Users.user_groups).selectinload(resource_groups)\<close>: empty without the user row.\<close>

definition group_rg_ids :: "store \<Rightarrow> int \<Rightarrow> int list" where
  "group_rg_ids s uid =
     (case get_user s uid of None \<Rightarrow> []
      | Some _ \<Rightarrow> concat (map (\<lambda>g. map rg_id (ug_resource_groups g)) (groups_of_user s uid)))"

definition is_group_member :: "store \<Rightarrow> int \<Rightarrow> int \<Rightarrow> bool" where
  "is_group_member s gid uid \<longleftrightarrow> (\<exists>g\<in>set (st_groups s). ug_id g = gid \<and> uid \<in> set (ug_members g))"

text \<open>\<open>x or 0\<close> on an optional id: \<open>None\<close> and \<open>0\<close> are false.\<close>

definition truthy_id :: "int option \<Rightarrow> bool" where
  "truthy_id i \<longleftrightarrow> i \<noteq> None \<and> i \<noteq> Some 0"

definition check_approver_permission :: "store \<Rightarrow> operator \<Rightarrow> node \<Rightarrow> unit res" where
  "check_approver_permission s u n =
     (if op_is_superuser u then Inr ()
      else if n_approver_type n = ''any_reviewer'' then
        (let required = (case n_required_permission n of None \<Rightarrow> ''sql_review'' | Some p \<Rightarrow> p) in
         if has_perm u required then Inr () else refuse (NoReviewPermission (n_node_name n) required))
      else if n_approver_type n = ''users'' then
        (if op_id u \<in> set (n_approver_ids n) then Inr () else refuse (NotInApprovers (n_node_name n)))
      else if n_approver_type n = ''group'' then
        (if \<exists>gid\<in>set (group_rg_ids s (op_id u)). gid \<in> set (n_approver_ids n)
         then Inr () else refuse (NotInResourceGroup (n_node_name n)))
      else if n_approver_type n = ''manager'' then
        (if truthy_id (n_applicant_id n) then
           (case get_user s (the (n_applicant_id n)) of
              None \<Rightarrow> refuse NotManager
            | Some a \<Rightarrow> if us_manager_id a = Some (op_id u) then Inr () else refuse NotManager)
         else refuse ApplicantUnknown)
      else if n_approver_type n = ''user_group'' then
        (if truthy_id (n_approver_group_id n) then
           (if is_group_member s (the (n_approver_group_id n)) (op_id u)
            then Inr () else refuse (NotInUserGroup (n_node_name n)))
         else refuse UserGroupMissing)
      else if n_approver_type n = ''role'' then
        (if truthy_id (n_approver_role_id n) then
           (if op_role_id u = n_approver_role_id n then Inr () else refuse (NotInRole (n_node_name n)))
         else refuse RoleMissing)
      else Inl (app_exc (AuditMsg (ApproverTypeUnsupported (n_approver_type n))) 400))"

lemma check_approver_app_exc: "check_approver_permission s u n = Inl e \<Longrightarrow> is_app_exc e"
  unfolding check_approver_permission_def refuse_def Let_def
  by (auto split: if_split_asm option.split_asm)

interpretation audit_gate: approval_gate check_approver_permission
proof (unfold_locales, goal_cases)
  case (1 u s n)
  then show ?case by (simp add: check_approver_permission_def)
next
  case (2 s u n e)
  then show ?case by (rule check_approver_app_exc)
next
  case (3 u n s)
  then show ?case by (simp add: check_approver_permission_def)
next
  case (4 u n s)
  then show ?case by (simp add: check_approver_permission_def refuse_def)
qed

section \<open>Archive jobs that follow their workflow\<close>

text \<open>\<open>ArchiveService.mark_workflow_approved\<close> and \<open>mark_workflow_canceled\<close>.\<close>

definition mark_workflow_approved :: "store \<Rightarrow> int \<Rightarrow> store res" where
  "mark_workflow_approved s wid =
     rbind (find_job_of_workflow s wid) (\<lambda>jo. case jo of
         None \<Rightarrow> Inr s
       | Some j \<Rightarrow> if aj_status j = JOB_PENDING_REVIEW
                   then Inr (put_job (j\<lparr>aj_status := JOB_APPROVED\<rparr>) s) else Inr s)"

definition mark_workflow_canceled :: "store \<Rightarrow> int \<Rightarrow> time \<Rightarrow> store res" where
  "mark_workflow_canceled s wid now =
     rbind (find_job_of_workflow s wid) (\<lambda>jo. case jo of
         None \<Rightarrow> Inr s
       | Some j \<Rightarrow>
           if aj_status j \<in> {JOB_PENDING_REVIEW, JOB_APPROVED, JOB_SCHEDULED, JOB_QUEUED}
           then Inr (put_job (j\<lparr>aj_status := JOB_CANCELED, aj_finished_at := Some now\<rparr>) s) else Inr s)"

section \<open>Operations\<close>

type_synonym op_reply = "string \<times> workflow_status \<times> store"

definition level_passed_msg :: "node \<Rightarrow> node \<Rightarrow> string" where
  "level_passed_msg current next_pending =
     ''level '' @ py_str_int (n_order current) @ '' ['' @ n_node_name current
     @ ''] passed, waiting for ['' @ n_node_name next_pending @ '']''"

definition do_pass :: "store \<Rightarrow> workflow \<Rightarrow> workflow_audit \<Rightarrow> operator \<Rightarrow> string \<Rightarrow> time \<Rightarrow> op_reply res" where
  "do_pass s w a u remark now =
     raise_if (wf_status w \<notin> {PENDING_REVIEW, REVIEW_PASS}) (app_exc (AuditMsg PassNotAllowed) 400)
     (rbind (loads_nodes (wa_nodes a)) (\<lambda>groups_info.
      case current_pending groups_info of
        None \<Rightarrow> Inl (app_exc (AuditMsg ChainFinished) 400)
      | Some current \<Rightarrow>
          rbind (check_approver_permission s u current) (\<lambda>_.
            let groups_info = pass_current u now groups_info;
                a1 = a\<lparr>wa_nodes := NodesList groups_info\<rparr>
            in case current_pending groups_info of
                 Some next_pending \<Rightarrow>
                   (let a2 = a1\<lparr>wa_current_audit_auth_group := str_opt_id (n_node_id next_pending),
                                wa_current_status := PENDING\<rparr>;
                        w1 = w\<lparr>wf_status := PENDING_REVIEW\<rparr>;
                        m = level_passed_msg current next_pending;
                        s1 = put_workflow w1 (put_audit a2 s);
                        s2 = write_log s1 (wa_id a) u OP_PASS (or_str remark m) now
                    in Inr (m, wf_status w1,
                         emit (workflow_event w1 a2 ''approval_pending'' (Some next_pending) [] None) s2))
               | None \<Rightarrow>
                   (let a2 = a1\<lparr>wa_current_status := PASSED\<rparr>;
                        w1 = w\<lparr>wf_status := REVIEW_PASS\<rparr>;
                        m = ''all levels passed'';
                        s1 = put_workflow w1 (put_audit a2 s)
                    in rbind (if wa_workflow_type a = WT_ARCHIVE
                              then mark_workflow_approved s1 (wf_id w) else Inr s1) (\<lambda>s2.
                       let s3 = write_log s2 (wa_id a) u OP_PASS (or_str remark m) now
                       in Inr (m, wf_status w1,
                            emit (workflow_event w1 a2 ''ready_to_execute'' None []
                                    (Some (if wa_workflow_type a = WT_ARCHIVE
                                           then ''archive_execute'' else ''sql_execute'')))
                              (emit (workflow_event w1 a2 ''approval_passed'' None [wf_engineer_id w] None)
                                s3)))))))"

definition do_reject :: "store \<Rightarrow> workflow \<Rightarrow> workflow_audit \<Rightarrow> operator \<Rightarrow> string \<Rightarrow> time \<Rightarrow> op_reply res" where
  "do_reject s w a u remark now =
     raise_if (wf_status w \<notin> {PENDING_REVIEW, REVIEW_PASS}) (app_exc (AuditMsg RejectNotAllowed) 400)
     (rbind (loads_nodes (wa_nodes a)) (\<lambda>groups_info.
      rbind (case current_pending groups_info of
               Some current \<Rightarrow> check_approver_permission s u current
             | None \<Rightarrow> Inr ()) (\<lambda>_.
        let a1 = a\<lparr>wa_current_status := REJECTED\<rparr>;
            w1 = w\<lparr>wf_status := AUTO_REVIEW_FAIL\<rparr>;
            node_desc = (case current_pending groups_info of
                Some current \<Rightarrow> ''['' @ n_node_name current @ '']'' | None \<Rightarrow> []);
            s1 = write_log (put_workflow w1 (put_audit a1 s)) (wa_id a) u OP_REJECT
                   (or_str remark (node_desc @ ''rejected by approver'')) now
        in Inr (''rejected'', wf_status w1,
             emit (workflow_event w1 a1 ''approval_rejected'' None [wf_engineer_id w] None) s1))))"

definition do_cancel :: "store \<Rightarrow> workflow \<Rightarrow> workflow_audit \<Rightarrow> operator \<Rightarrow> string \<Rightarrow> time \<Rightarrow> op_reply res" where
  "do_cancel s w a u remark now =
     raise_if (wf_status w \<noteq> PENDING_REVIEW) (app_exc (AuditMsg CancelNotAllowed) 400)
     (raise_if (\<not> op_is_superuser u \<and> op_username u \<noteq> wf_engineer w) (app_exc (AuditMsg CancelNotOwner) 403)
     (let groups_info = load_nodes (wa_nodes a) in
      raise_if (has_operated_node groups_info) (app_exc (AuditMsg CancelOperated) 400)
      (let a1 = a\<lparr>wa_current_status := CANCELED,
                  wa_nodes := NodesList (cancel_pending_nodes groups_info u (Some now))\<rparr>;
           w1 = w\<lparr>wf_status := ABORT\<rparr>;
           s1 = put_workflow w1 (put_audit a1 s)
       in rbind (if wa_workflow_type a = WT_ARCHIVE
                 then mark_workflow_canceled s1 (wf_id w) now else Inr s1) (\<lambda>s2.
          let s3 = write_log s2 (wa_id a) u OP_CANCEL (or_str remark ''canceled'') now
          in Inr (''canceled'', wf_status w1,
               emit (workflow_event w1 a1 ''application_canceled'' None
                       (if wf_engineer_id w \<noteq> 0 then [wf_engineer_id w] else []) None) s3)))))"

definition operate :: "store \<Rightarrow> int \<Rightarrow> string \<Rightarrow> operator \<Rightarrow> string \<Rightarrow> time \<Rightarrow> op_reply res" where
  "operate s workflow_id action u remark now =
     (case get_workflow s workflow_id of
        None \<Rightarrow> Inl (not_found_exc (AuditMsg (WorkflowNotFound workflow_id)))
      | Some w \<Rightarrow> rbind (find_audit s workflow_id) (\<lambda>ao. case ao of
            None \<Rightarrow> Inl (app_exc (AuditMsg AuditMissing) 400)
          | Some a \<Rightarrow>
              if action = OP_PASS then do_pass s w a u remark now
              else if action = OP_REJECT then do_reject s w a u remark now
              else if action = OP_CANCEL then do_cancel s w a u remark now
              else Inl (app_exc (AuditMsg (UnsupportedAction action)) 400)))"

section \<open>Reads\<close>

text \<open>The join of workflows in review with their audit records, newest first.\<close>

definition pending_rows :: "store \<Rightarrow> (workflow \<times> workflow_audit) list" where
  "pending_rows s =
     sort_key (\<lambda>(w, a). - wf_created_at w)
       (concat (map (\<lambda>w. map (\<lambda>a. (w, a)) (audits_of s (wf_id w)))
          (filter (\<lambda>w. wf_status w = PENDING_REVIEW) (st_workflows s))))"

fun authorized_ids :: "store \<Rightarrow> operator \<Rightarrow> (workflow \<times> workflow_audit) list \<Rightarrow> int list res" where
  "authorized_ids s u [] = Inr []"
| "authorized_ids s u ((w, a) # rows) =
     rbind (loads_nodes (wa_nodes a)) (\<lambda>groups_info.
       case current_pending groups_info of
         None \<Rightarrow> authorized_ids s u rows
       | Some current \<Rightarrow>
           (case check_approver_permission s u current of
              Inr _ \<Rightarrow> rbind (authorized_ids s u rows) (\<lambda>ids. Inr (wf_id w # ids))
            | Inl e \<Rightarrow> if is_app_exc e then authorized_ids s u rows else Inl e))"

definition get_pending_workflow_ids_for_user :: "store \<Rightarrow> operator \<Rightarrow> int list res" where
  "get_pending_workflow_ids_for_user s u = authorized_ids s u (pending_rows s)"

definition get_audited_workflow_ids_for_user :: "store \<Rightarrow> operator \<Rightarrow> int list" where
  "get_audited_workflow_ids_for_user s u =
     concat (map (\<lambda>a. map (\<lambda>l. wa_workflow_id a)
       (filter (\<lambda>l. wl_audit_id l = wa_id a \<and> wl_operator_id l = op_id u
          \<and> wl_operation_type l \<in> {OP_PASS, OP_REJECT}) (st_logs s))) (st_audits s))"

text \<open>\<open>outerjoin(Instance)\<close> then \<open>inst_name or ""\<close>.\<close>

definition instance_name_of :: "store \<Rightarrow> int \<Rightarrow> string" where
  "instance_name_of s i = (case get_instance s i of None \<Rightarrow> [] | Some inst \<Rightarrow> in_name inst)"

fun authorized_rows :: "int list \<Rightarrow> (workflow \<times> workflow_audit) list \<Rightarrow> (workflow \<times> node) list res" where
  "authorized_rows ids [] = Inr []"
| "authorized_rows ids ((w, a) # rows) =
     (if wf_id w \<notin> set ids then authorized_rows ids rows
      else rbind (loads_nodes (wa_nodes a)) (\<lambda>groups_info.
        case current_pending groups_info of
          None \<Rightarrow> authorized_rows ids rows
        | Some current \<Rightarrow> rbind (authorized_rows ids rows) (\<lambda>rs. Inr ((w, current) # rs))))"

text \<open>The item, and its \<open>current_node\<close>: order, name and approver type.\<close>

definition pending_item :: "store \<Rightarrow> workflow \<times> node \<Rightarrow> workflow_item \<times> int \<times> string \<times> string" where
  "pending_item s wn = (case wn of (w, n) \<Rightarrow>
     (fmt_workflow w (content_of s (wf_id w)) (instance_name_of s (wf_instance_id w)),
      n_order n, n_node_name n, n_approver_type n))"

definition get_pending_for_user ::
    "store \<Rightarrow> operator \<Rightarrow> nat \<Rightarrow> nat \<Rightarrow> (nat \<times> (workflow_item \<times> int \<times> string \<times> string) list) res" where
  "get_pending_for_user s u page page_size =
     rbind (get_pending_workflow_ids_for_user s u) (\<lambda>ids.
     rbind (authorized_rows ids (pending_rows s)) (\<lambda>rows.
       Inr (length rows, map (pending_item s) (page_of page page_size rows))))"

record log_item =
  li_operator :: string
  li_operation_type :: string
  li_remark :: string
  li_created_at :: time

definition log_operator_name :: "store \<Rightarrow> workflow_log \<Rightarrow> string" where
  "log_operator_name s l =
     (case (if wl_operator_id l = 0 then None else get_user s (wl_operator_id l)) of
        Some r \<Rightarrow> if us_display_name r \<noteq> [] then us_display_name r else wl_operator l
      | None \<Rightarrow> wl_operator l)"

definition get_audit_logs :: "store \<Rightarrow> int \<Rightarrow> log_item list res" where
  "get_audit_logs s workflow_id =
     rbind (find_audit s workflow_id) (\<lambda>ao. case ao of
         None \<Rightarrow> Inr []
       | Some a \<Rightarrow> Inr (map (\<lambda>l. \<lparr> li_operator = log_operator_name s l,
             li_operation_type = wl_operation_type l, li_remark = wl_remark l,
             li_created_at = wl_created_at l \<rparr>)
           (sort_key wl_created_at (filter (\<lambda>l. wl_audit_id l = wa_id a) (st_logs s)))))"

text \<open>
  The nodes of \<open>get_audit_info\<close> keep eleven keys: not \<open>node_id\<close>, \<open>required_permission\<close>,
  \<open>operator_display\<close> or \<open>adjusted_valid_date\<close>.
\<close>

definition audit_info_node :: "node \<Rightarrow> node" where
  "audit_info_node n = n\<lparr>n_node_id := None, n_required_permission := None,
     n_operator_display := None, n_adjusted_valid_date := None\<rparr>"

record audit_info =
  ai_workflow_type :: workflow_type
  ai_current_audit_auth_group :: string
  ai_current_status :: audit_status
  ai_nodes :: "node list"

definition get_audit_info :: "store \<Rightarrow> int \<Rightarrow> audit_info option res" where
  "get_audit_info s workflow_id =
     rbind (find_audit s workflow_id) (\<lambda>ao. case ao of
         None \<Rightarrow> Inr None
       | Some a \<Rightarrow> rbind (loads_nodes (wa_nodes a)) (\<lambda>groups_info.
           Inr (Some \<lparr> ai_workflow_type = wa_workflow_type a,
             ai_current_audit_auth_group = wa_current_audit_auth_group a,
             ai_current_status = wa_current_status a,
             ai_nodes = map audit_info_node groups_info \<rparr>)))"

section \<open>Frames\<close>

lemma write_log_frame [simp]:
  "get_workflow (write_log s i u ty r now) k = get_workflow s k"
  "audits_of (write_log s i u ty r now) k = audits_of s k"
  "get_job (write_log s i u ty r now) k = get_job s k"
  "st_users (write_log s i u ty r now) = st_users s"
  "st_groups (write_log s i u ty r now) = st_groups s"
  "st_jobs (write_log s i u ty r now) = st_jobs s"
  "st_workflows (write_log s i u ty r now) = st_workflows s"
  "st_audits (write_log s i u ty r now) = st_audits s"
  by (simp_all add: write_log_def store_defs audits_of_def)

lemma put_emit_fields [simp]:
  "st_users (put_workflow w s) = st_users s" "st_groups (put_workflow w s) = st_groups s"
  "st_users (put_audit a s) = st_users s" "st_groups (put_audit a s) = st_groups s"
  "st_users (put_job j s) = st_users s" "st_groups (put_job j s) = st_groups s"
  "st_users (emit e s) = st_users s" "st_groups (emit e s) = st_groups s"
  "st_jobs (put_workflow w s) = st_jobs s" "st_jobs (put_audit a s) = st_jobs s"
  "st_jobs (emit e s) = st_jobs s"
  "st_audits (put_job j s) = st_audits s" "st_audits (put_workflow w s) = st_audits s"
  "st_audits (emit e s) = st_audits s"
  "st_workflows (put_job j s) = st_workflows s" "st_workflows (put_audit a s) = st_workflows s"
  "st_workflows (emit e s) = st_workflows s"
  "st_next_id (put_job j s) = st_next_id s" "st_next_id (put_workflow w s) = st_next_id s"
  "st_next_id (put_audit a s) = st_next_id s" "st_next_id (emit e s) = st_next_id s"
  by (simp_all add: store_defs)

lemma find_job_frame [simp]:
  "find_job_of_workflow (put_workflow w s) k = find_job_of_workflow s k"
  "find_job_of_workflow (put_audit a s) k = find_job_of_workflow s k"
  by (simp_all add: find_job_of_workflow_def)

lemma mark_approved_frame:
  assumes "mark_workflow_approved s wid = Inr s'"
  shows "st_workflows s' = st_workflows s" "st_audits s' = st_audits s"
    "st_users s' = st_users s" "st_groups s' = st_groups s" "st_next_id s' = st_next_id s"
  using assms by (auto simp: mark_workflow_approved_def res_simps split: option.splits if_splits)

lemma mark_canceled_frame:
  assumes "mark_workflow_canceled s wid now = Inr s'"
  shows "st_workflows s' = st_workflows s" "st_audits s' = st_audits s"
    "st_users s' = st_users s" "st_groups s' = st_groups s" "st_next_id s' = st_next_id s"
  using assms by (auto simp: mark_workflow_canceled_def res_simps split: option.splits if_splits)

lemma mark_approved_cases:
  assumes "mark_workflow_approved s wid = Inr s'"
  shows "s' = s \<or> (\<exists>j. find_job_of_workflow s wid = Inr (Some j) \<and> aj_status j = JOB_PENDING_REVIEW
      \<and> s' = put_job (j\<lparr>aj_status := JOB_APPROVED\<rparr>) s)"
  using assms by (auto simp: mark_workflow_approved_def res_simps split: option.splits if_splits)

lemma mark_canceled_cases:
  assumes "mark_workflow_canceled s wid now = Inr s'"
  shows "s' = s \<or> (\<exists>j. find_job_of_workflow s wid = Inr (Some j)
      \<and> aj_status j \<in> {JOB_PENDING_REVIEW, JOB_APPROVED, JOB_SCHEDULED, JOB_QUEUED}
      \<and> s' = put_job (j\<lparr>aj_status := JOB_CANCELED, aj_finished_at := Some now\<rparr>) s)"
  using assms by (auto simp: mark_workflow_canceled_def res_simps split: option.splits if_splits)

lemma mark_users_groups:
  shows "mark_workflow_approved s wid = Inr s' \<Longrightarrow> st_users s' = st_users s \<and> st_groups s' = st_groups s"
    and "mark_workflow_canceled s wid now = Inr s' \<Longrightarrow> st_users s' = st_users s \<and> st_groups s' = st_groups s"
  using mark_approved_frame(3,4) [of s wid s'] mark_canceled_frame(3,4) [of s wid now s'] by simp_all

lemma get_workflow_cong: "st_workflows s' = st_workflows s \<Longrightarrow> get_workflow s' k = get_workflow s k"
  by (simp add: get_workflow_def)

lemma audits_of_cong: "st_audits s' = st_audits s \<Longrightarrow> audits_of s' k = audits_of s k"
  by (simp add: audits_of_def)

lemma check_approver_cong:
  "st_users s' = st_users s \<Longrightarrow> st_groups s' = st_groups s \<Longrightarrow>
     check_approver_permission s' u n = check_approver_permission s u n"
  by (simp add: check_approver_permission_def group_rg_ids_def get_user_def groups_of_user_def
      is_group_member_def)

lemma mark_ok:
  "mark_workflow_approved s wid = Inl e \<longleftrightarrow> find_job_of_workflow s wid = Inl e"
  "mark_workflow_canceled s wid now = Inl e \<longleftrightarrow> find_job_of_workflow s wid = Inl e"
  by (auto simp: mark_workflow_approved_def mark_workflow_canceled_def rbind_Inl_iff split: option.splits)

text \<open>A job lookup that cannot raise: at most one job per workflow.\<close>

definition job_unique :: "store \<Rightarrow> int \<Rightarrow> bool" where
  "job_unique s wid \<longleftrightarrow> length (filter (\<lambda>j. aj_workflow_id j = Some wid) (st_jobs s)) \<le> 1"

lemma job_unique_find: "job_unique s wid \<Longrightarrow> \<exists>jo. find_job_of_workflow s wid = Inr jo"
  unfolding job_unique_def find_job_of_workflow_def
  by (cases "filter (\<lambda>j. aj_workflow_id j = Some wid) (st_jobs s)" rule: scalar_one_or_none.cases) auto

lemma job_unique_cong: "st_jobs s' = st_jobs s \<Longrightarrow> job_unique s' wid = job_unique s wid"
  by (simp add: job_unique_def)

lemma job_unique_put_job:
  assumes "aj_workflow_id j = aj_workflow_id j0" "get_job s (aj_id j) = Some j0" "jobs_wf s"
  shows "job_unique (put_job j s) wid = job_unique s wid"
proof -
  have "length (filter (\<lambda>j. aj_workflow_id j = Some wid) (row_put aj_id j rows))
      = length (filter (\<lambda>j. aj_workflow_id j = Some wid) rows)"
    if "\<forall>x\<in>set rows. aj_id x = aj_id j \<longrightarrow> x = j0" for rows
    using that by (induction rows) (auto simp: row_put_def assms(1))
  moreover have "\<forall>x\<in>set (st_jobs s). aj_id x = aj_id j \<longrightarrow> x = j0"
    using assms(2,3) by (metis get_job_def jobs_wf_def option.inject row_get_distinct table_wf_def)
  ultimately show ?thesis by (simp add: job_unique_def put_job_def)
qed

section \<open>The abstract review\<close>

text \<open>
  What the approval of one workflow means, without tables: the workflow status, the audit
  status and the chain. \<open>review_action\<close> is the contract of \<open>operate\<close>; the refinement
  lemma shows that \<open>operate\<close> on the store implements it, errors included.
\<close>

record review =
  rv_workflow :: workflow_status
  rv_audit :: audit_status
  rv_nodes :: "node list"

definition review_of :: "store \<Rightarrow> int \<Rightarrow> review option" where
  "review_of s wid =
     (case (get_workflow s wid, audits_of s wid) of
        (Some w, [a]) \<Rightarrow>
          (case loads_nodes (wa_nodes a) of
             Inr ns \<Rightarrow> Some \<lparr> rv_workflow = wf_status w, rv_audit = wa_current_status a, rv_nodes = ns \<rparr>
           | Inl _ \<Rightarrow> None)
      | _ \<Rightarrow> None)"

definition review_pass :: "(operator \<Rightarrow> node \<Rightarrow> unit res) \<Rightarrow> operator \<Rightarrow> time \<Rightarrow> review \<Rightarrow> review res" where
  "review_pass permits u t rv =
     raise_if (rv_workflow rv \<notin> {PENDING_REVIEW, REVIEW_PASS}) (app_exc (AuditMsg PassNotAllowed) 400)
     (rbind (approve_run permits [(u, t)] (rv_nodes rv)) (\<lambda>ns.
        Inr (if current_pending ns = None
             then \<lparr> rv_workflow = REVIEW_PASS, rv_audit = PASSED, rv_nodes = ns \<rparr>
             else \<lparr> rv_workflow = PENDING_REVIEW, rv_audit = PENDING, rv_nodes = ns \<rparr>)))"

definition review_reject :: "(operator \<Rightarrow> node \<Rightarrow> unit res) \<Rightarrow> operator \<Rightarrow> review \<Rightarrow> review res" where
  "review_reject permits u rv =
     raise_if (rv_workflow rv \<notin> {PENDING_REVIEW, REVIEW_PASS}) (app_exc (AuditMsg RejectNotAllowed) 400)
     (rbind (case current_pending (rv_nodes rv) of Some n \<Rightarrow> permits u n | None \<Rightarrow> Inr ()) (\<lambda>_.
        Inr (rv\<lparr>rv_workflow := AUTO_REVIEW_FAIL, rv_audit := REJECTED\<rparr>)))"

definition review_cancel :: "string \<Rightarrow> operator \<Rightarrow> time \<Rightarrow> review \<Rightarrow> review res" where
  "review_cancel owner u t rv =
     raise_if (rv_workflow rv \<noteq> PENDING_REVIEW) (app_exc (AuditMsg CancelNotAllowed) 400)
     (raise_if (\<not> op_is_superuser u \<and> op_username u \<noteq> owner) (app_exc (AuditMsg CancelNotOwner) 403)
     (raise_if (\<not> all_pending (rv_nodes rv)) (app_exc (AuditMsg CancelOperated) 400)
        (Inr \<lparr> rv_workflow = ABORT, rv_audit = CANCELED,
               rv_nodes = cancel_pending_nodes (rv_nodes rv) u (Some t) \<rparr>)))"

definition review_action ::
    "(operator \<Rightarrow> node \<Rightarrow> unit res) \<Rightarrow> string \<Rightarrow> string \<Rightarrow> operator \<Rightarrow> time \<Rightarrow> review \<Rightarrow> review res" where
  "review_action permits owner action u t rv =
     (if action = OP_PASS then review_pass permits u t rv
      else if action = OP_REJECT then review_reject permits u rv
      else if action = OP_CANCEL then review_cancel owner u t rv
      else Inl (app_exc (AuditMsg (UnsupportedAction action)) 400))"

text \<open>The outcome of an operation, seen as a review.\<close>

definition reply_review :: "int \<Rightarrow> op_reply res \<Rightarrow> review option res" where
  "reply_review wid r = (case r of Inl e \<Rightarrow> Inl e | Inr (m, st, s') \<Rightarrow> Inr (review_of s' wid))"

lemma review_of_Some:
  "review_of s wid = Some rv \<longleftrightarrow>
     (\<exists>w a ns. get_workflow s wid = Some w \<and> audits_of s wid = [a] \<and> loads_nodes (wa_nodes a) = Inr ns
        \<and> rv = \<lparr> rv_workflow = wf_status w, rv_audit = wa_current_status a, rv_nodes = ns \<rparr>)"
  by (auto simp: review_of_def split: option.splits list.splits sum.splits)

lemma review_of_cong:
  "st_workflows s' = st_workflows s \<Longrightarrow> st_audits s' = st_audits s \<Longrightarrow> review_of s' wid = review_of s wid"
  by (simp add: review_of_def get_workflow_def audits_of_def)

lemma review_of_frame [simp]:
  "review_of (write_log s i u ty r now) wid = review_of s wid"
  "review_of (emit e s) wid = review_of s wid"
  by (simp_all add: review_of_def)

lemma review_of_put:
  assumes "get_workflow s wid = Some w" "audits_of s wid = [a]" "audits_wf s"
    and "wf_id w1 = wid" "wa_id a1 = wa_id a" "wa_workflow_id a1 = wid" "loads_nodes (wa_nodes a1) = Inr ns"
  shows "review_of (put_workflow w1 (put_audit a1 s)) wid =
     Some \<lparr> rv_workflow = wf_status w1, rv_audit = wa_current_status a1, rv_nodes = ns \<rparr>"
proof -
  have "get_workflow (put_workflow w1 (put_audit a1 s)) wid = Some w1"
    using assms(1,4) by (simp add: workflow_tab.sel_put)
  moreover have "audits_of (put_workflow w1 (put_audit a1 s)) wid = [a1]"
    using audits_of_put_audit [OF assms(2,5,6,3)] by simp
  ultimately show ?thesis using assms(7) by (simp add: review_of_Some)
qed

lemma audits_of_in:
  assumes "audits_of s wid = [a]"
  shows "wa_workflow_id a = wid \<and> a \<in> set (st_audits s)"
proof -
  have "a \<in> set (audits_of s wid)" using assms by simp
  then show ?thesis by (simp add: audits_of_def)
qed

text \<open>Each handler implements its abstract action.\<close>

lemma do_pass_refines:
  assumes w: "get_workflow s wid = Some w" and a: "audits_of s wid = [a]" and ns: "loads_nodes (wa_nodes a) = Inr ns"
    and wf: "audits_wf s" "job_unique s wid"
  shows "reply_review wid (do_pass s w a u r t) = map_sum id Some
     (review_pass (check_approver_permission s) u t
       \<lparr> rv_workflow = wf_status w, rv_audit = wa_current_status a, rv_nodes = ns \<rparr>)"
proof -
  have ids: "wf_id w = wid" "wa_workflow_id a = wid"
    using workflow_tab.sel_key [OF w] audits_of_in [OF a] by simp_all
  note put = review_of_put [OF w a wf(1)]
  have mark: "\<exists>s2. mark_workflow_approved (put_workflow w1 (put_audit a1 s)) wid = Inr s2
      \<and> review_of s2 wid = review_of (put_workflow w1 (put_audit a1 s)) wid" for w1 a1
  proof -
    have "job_unique (put_workflow w1 (put_audit a1 s)) wid"
      using wf(2) by (simp add: job_unique_def)
    then obtain s2 where s2: "mark_workflow_approved (put_workflow w1 (put_audit a1 s)) wid = Inr s2"
      using job_unique_find mark_ok(1) by (metis old.sum.exhaust sum.distinct(1))
    with review_of_cong [OF mark_approved_frame(1,2) [OF s2]] show ?thesis by blast
  qed
  show ?thesis
  proof (cases "current_pending ns")
    case None
    then show ?thesis
      by (auto simp: do_pass_def review_pass_def raise_if_def ns reply_review_def)
  next
    case (Some n)
    note cur = this
    show ?thesis
    proof (cases "check_approver_permission s u n")
      case (Inl e)
      with cur show ?thesis
        by (auto simp: do_pass_def review_pass_def raise_if_def ns reply_review_def)
    next
      case (Inr x)
      show ?thesis
      proof (cases "current_pending (pass_current u t ns)")
        case (Some n')
        with cur Inr show ?thesis
          by (auto simp: do_pass_def review_pass_def raise_if_def ns reply_review_def Let_def put ids)
      next
        case None
        from mark [of "w\<lparr>wf_status := REVIEW_PASS\<rparr>"
            "a\<lparr>wa_nodes := NodesList (pass_current u t ns), wa_current_status := PASSED\<rparr>"]
        obtain s2 where s2: "mark_workflow_approved (put_workflow (w\<lparr>wf_status := REVIEW_PASS\<rparr>)
              (put_audit (a\<lparr>wa_nodes := NodesList (pass_current u t ns), wa_current_status := PASSED\<rparr>) s)) wid = Inr s2"
          and rv: "review_of s2 wid = Some \<lparr> rv_workflow = REVIEW_PASS, rv_audit = PASSED, rv_nodes = pass_current u t ns \<rparr>"
          by (auto simp: put ids)
        with cur Inr None show ?thesis
          by (auto simp: do_pass_def review_pass_def raise_if_def ns reply_review_def Let_def put ids)
      qed
    qed
  qed
qed

lemma do_reject_refines:
  assumes w: "get_workflow s wid = Some w" and a: "audits_of s wid = [a]" and ns: "loads_nodes (wa_nodes a) = Inr ns"
    and wf: "audits_wf s"
  shows "reply_review wid (do_reject s w a u r t) = map_sum id Some
     (review_reject (check_approver_permission s) u
       \<lparr> rv_workflow = wf_status w, rv_audit = wa_current_status a, rv_nodes = ns \<rparr>)"
proof -
  have ids: "wf_id w = wid" "wa_workflow_id a = wid"
    using workflow_tab.sel_key [OF w] audits_of_in [OF a] by simp_all
  note simps = do_reject_def review_reject_def raise_if_def ns reply_review_def Let_def
    review_of_put [OF w a wf] ids
  show ?thesis
  proof (cases "current_pending ns")
    case None
    then show ?thesis by (simp add: simps)
  next
    case (Some n)
    then show ?thesis by (cases "check_approver_permission s u n") (simp_all add: simps)
  qed
qed

lemma do_cancel_refines:
  assumes w: "get_workflow s wid = Some w" and a: "audits_of s wid = [a]" and ns: "loads_nodes (wa_nodes a) = Inr ns"
    and wf: "audits_wf s" "job_unique s wid"
  shows "reply_review wid (do_cancel s w a u r t) = map_sum id Some
     (review_cancel (wf_engineer w) u t
       \<lparr> rv_workflow = wf_status w, rv_audit = wa_current_status a, rv_nodes = ns \<rparr>)"
proof -
  have ids: "wf_id w = wid" "wa_workflow_id a = wid"
    using workflow_tab.sel_key [OF w] audits_of_in [OF a] by simp_all
  note put = review_of_put [OF w a wf(1)]
  define s1 where "s1 = put_workflow (w\<lparr>wf_status := ABORT\<rparr>) (put_audit (a\<lparr>wa_current_status := CANCELED,
      wa_nodes := NodesList (cancel_pending_nodes ns u (Some t))\<rparr>) s)"
  have "job_unique s1 wid" using wf(2) by (simp add: s1_def job_unique_def)
  then obtain s2 where s2: "mark_workflow_canceled s1 wid t = Inr s2"
    using job_unique_find mark_ok(2) by (metis old.sum.exhaust sum.distinct(1))
  have rv1: "review_of s1 wid = Some \<lparr> rv_workflow = ABORT, rv_audit = CANCELED,
      rv_nodes = cancel_pending_nodes ns u (Some t) \<rparr>"
    unfolding s1_def by (simp add: put ids)
  with review_of_cong [OF mark_canceled_frame(1,2) [OF s2]]
  have rv2: "review_of s2 wid = review_of s1 wid" by simp
  show ?thesis
    using s2 rv1 rv2
    by (auto simp: do_cancel_def review_cancel_def raise_if_def reply_review_def Let_def ids
        loads_nodes_load [OF ns] simp flip: s1_def not_operated_all_pending)
qed

text \<open>\<open>operate\<close> implements the abstract action on the reviewed workflow.\<close>

lemma operate_refines:
  assumes "get_workflow s wid = Some w" "review_of s wid = Some rv" "audits_wf s" "job_unique s wid"
  shows "reply_review wid (operate s wid action u r t) =
     map_sum id Some (review_action (check_approver_permission s) (wf_engineer w) action u t rv)"
proof -
  obtain a ns where a: "audits_of s wid = [a]" and ns: "loads_nodes (wa_nodes a) = Inr ns"
    and rv: "rv = \<lparr> rv_workflow = wf_status w, rv_audit = wa_current_status a, rv_nodes = ns \<rparr>"
    using assms(1,2) by (auto simp: review_of_Some)
  have "find_audit s wid = Inr (Some a)" by (simp add: find_audit_def a)
  with assms(1) show ?thesis
    using do_pass_refines [OF assms(1) a ns assms(3,4)] do_reject_refines [OF assms(1) a ns assms(3)]
      do_cancel_refines [OF assms(1) a ns assms(3,4)]
    by (auto simp: operate_def review_action_def rv reply_review_def [of wid "Inl _"])
qed

lemma operate_ok:
  assumes "operate s wid action u r t = Inr (m, st, s')"
  obtains w a where "get_workflow s wid = Some w" "audits_of s wid = [a]"
    "(action = OP_PASS \<and> do_pass s w a u r t = Inr (m, st, s'))
     \<or> (action = OP_REJECT \<and> do_reject s w a u r t = Inr (m, st, s'))
     \<or> (action = OP_CANCEL \<and> do_cancel s w a u r t = Inr (m, st, s'))"
proof -
  from assms obtain w where w: "get_workflow s wid = Some w" by (cases "get_workflow s wid") (simp_all add: operate_def)
  from assms w obtain ao where "find_audit s wid = Inr ao" by (auto simp: operate_def res_simps)
  with assms w obtain a where a: "find_audit s wid = Inr (Some a)"
    by (cases ao) (simp_all add: operate_def)
  then have "audits_of s wid = [a]" by (simp add: find_audit_def scalar_Some_iff)
  moreover from assms w a have "(action = OP_PASS \<and> do_pass s w a u r t = Inr (m, st, s'))
     \<or> (action = OP_REJECT \<and> do_reject s w a u r t = Inr (m, st, s'))
     \<or> (action = OP_CANCEL \<and> do_cancel s w a u r t = Inr (m, st, s'))"
    by (simp add: operate_def split: if_split_asm)
  ultimately show ?thesis using w that by blast
qed

text \<open>
  \<open>settled s s' w1 a1\<close>: going from \<open>s\<close> to \<open>s'\<close> wrote the workflow row \<open>w1\<close> and the
  audit row \<open>a1\<close>, one log row and events, and at most changed the status of the job of
  the workflow.
\<close>

definition job_reviewed :: "archive_job \<Rightarrow> archive_job \<Rightarrow> bool" where
  "job_reviewed j j1 \<longleftrightarrow>
     (aj_status j = JOB_PENDING_REVIEW \<and> j1 = j\<lparr>aj_status := JOB_APPROVED\<rparr>)
     \<or> (aj_status j \<in> {JOB_PENDING_REVIEW, JOB_APPROVED, JOB_SCHEDULED, JOB_QUEUED}
         \<and> (\<exists>t. j1 = j\<lparr>aj_status := JOB_CANCELED, aj_finished_at := Some t\<rparr>))"

definition job_settled :: "store \<Rightarrow> store \<Rightarrow> workflow \<Rightarrow> bool" where
  "job_settled s s' w1 \<longleftrightarrow> st_jobs s' = st_jobs s \<or>
     (\<exists>j j1. find_job_of_workflow s (wf_id w1) = Inr (Some j) \<and> st_jobs s' = row_put aj_id j1 (st_jobs s)
        \<and> job_reviewed j j1 \<and> (aj_status j1 = JOB_APPROVED \<longrightarrow> wf_status w1 = REVIEW_PASS))"

lemma job_reviewed_key: "job_reviewed j j1 \<Longrightarrow> aj_id j1 = aj_id j \<and> aj_workflow_id j1 = aj_workflow_id j"
  by (auto simp: job_reviewed_def)

definition settled :: "store \<Rightarrow> store \<Rightarrow> workflow \<Rightarrow> workflow_audit \<Rightarrow> bool" where
  "settled s s' w1 a1 \<longleftrightarrow>
     st_workflows s' = row_put wf_id w1 (st_workflows s) \<and> st_audits s' = row_put wa_id a1 (st_audits s)
     \<and> st_next_id s' = st_next_id s + 1 \<and> job_settled s s' w1
     \<and> st_contents s' = st_contents s \<and> st_users s' = st_users s \<and> st_groups s' = st_groups s
     \<and> st_instances s' = st_instances s \<and> st_tasks s' = st_tasks s
     \<and> st_privileges s' = st_privileges s \<and> st_applies s' = st_applies s"

lemma settled_plain:
  "settled s (emit e (write_log (put_workflow w1 (put_audit a1 s)) i u ty r t)) w1 a1"
  "settled s (emit e' (emit e (write_log (put_workflow w1 (put_audit a1 s)) i u ty r t))) w1 a1"
  by (simp_all add: settled_def job_settled_def write_log_def store_defs)

lemma job_reviewed_canceled:
  "aj_status j \<in> {JOB_PENDING_REVIEW, JOB_APPROVED, JOB_SCHEDULED, JOB_QUEUED} \<Longrightarrow>
     job_reviewed j (j\<lparr>aj_status := JOB_CANCELED, aj_finished_at := Some t\<rparr>)"
  unfolding job_reviewed_def by blast

lemma mark_reviewed:
  "mark_workflow_approved s wid = Inr s' \<Longrightarrow>
     s' = s \<or> (\<exists>j j1. find_job_of_workflow s wid = Inr (Some j) \<and> s' = put_job j1 s \<and> job_reviewed j j1)"
  "mark_workflow_canceled s wid t = Inr s' \<Longrightarrow>
     s' = s \<or> (\<exists>j j1. find_job_of_workflow s wid = Inr (Some j) \<and> s' = put_job j1 s \<and> job_reviewed j j1
       \<and> aj_status j1 = JOB_CANCELED)"
proof -
  assume "mark_workflow_approved s wid = Inr s'"
  from mark_approved_cases [OF this]
  show "s' = s \<or> (\<exists>j j1. find_job_of_workflow s wid = Inr (Some j) \<and> s' = put_job j1 s \<and> job_reviewed j j1)"
    by (elim disjE exE conjE) (rule disjI1, assumption, rule disjI2, intro exI conjI, assumption+, simp add: job_reviewed_def)
next
  assume "mark_workflow_canceled s wid t = Inr s'"
  from mark_canceled_cases [OF this]
  show "s' = s \<or> (\<exists>j j1. find_job_of_workflow s wid = Inr (Some j) \<and> s' = put_job j1 s \<and> job_reviewed j j1
       \<and> aj_status j1 = JOB_CANCELED)"
    by (elim disjE exE conjE) (rule disjI1, assumption, rule disjI2, intro exI conjI, assumption+, simp_all add: job_reviewed_canceled)
qed

lemma settled_marked:
  assumes "(mark_workflow_approved (put_workflow w1 (put_audit a1 s)) (wf_id w1) = Inr s2 \<and> wf_status w1 = REVIEW_PASS)
    \<or> mark_workflow_canceled (put_workflow w1 (put_audit a1 s)) (wf_id w1) t = Inr s2"
  shows "settled s (emit e (write_log s2 i u ty r t)) w1 a1"
    "settled s (emit e' (emit e (write_log s2 i u ty r t))) w1 a1"
proof -
  let ?s1 = "put_workflow w1 (put_audit a1 s)"
  have "s2 = ?s1 \<or> (\<exists>j j1. find_job_of_workflow s (wf_id w1) = Inr (Some j) \<and> s2 = put_job j1 ?s1
      \<and> job_reviewed j j1 \<and> (aj_status j1 = JOB_APPROVED \<longrightarrow> wf_status w1 = REVIEW_PASS))"
    using assms mark_reviewed(1) [of ?s1 "wf_id w1" s2] mark_reviewed(2) [of ?s1 "wf_id w1" t s2] by auto
  then show "settled s (emit e (write_log s2 i u ty r t)) w1 a1"
    "settled s (emit e' (emit e (write_log s2 i u ty r t))) w1 a1"
    by (auto simp: settled_def job_settled_def write_log_def store_defs)
qed

lemma do_pass_ok:
  assumes "do_pass s w a u r t = Inr (m, st, s')"
  obtains ns n a1 where "wf_status w \<in> {PENDING_REVIEW, REVIEW_PASS}" "loads_nodes (wa_nodes a) = Inr ns"
    "current_pending ns = Some n" "check_approver_permission s u n = Inr ()"
    "settled s s' (w\<lparr>wf_status := st\<rparr>) a1" "wa_id a1 = wa_id a" "wa_workflow_id a1 = wa_workflow_id a"
    "wa_workflow_type a1 = wa_workflow_type a" "wa_nodes a1 = NodesList (pass_current u t ns)"
    "st = (if current_pending (pass_current u t ns) = None then REVIEW_PASS else PENDING_REVIEW)"
    "wa_current_status a1 = (if current_pending (pass_current u t ns) = None then PASSED else PENDING)"
proof -
  from assms obtain ns n where A: "wf_status w \<in> {PENDING_REVIEW, REVIEW_PASS}" "loads_nodes (wa_nodes a) = Inr ns"
    "current_pending ns = Some n" "check_approver_permission s u n = Inr ()"
    by (auto simp: do_pass_def res_simps split: option.splits)
  let ?a0 = "a\<lparr>wa_nodes := NodesList (pass_current u t ns)\<rparr>"
  show ?thesis
  proof (cases "current_pending (pass_current u t ns)")
    case (Some n')
    with assms A have "st = PENDING_REVIEW" "settled s s' (w\<lparr>wf_status := PENDING_REVIEW\<rparr>)
        (?a0\<lparr>wa_current_audit_auth_group := str_opt_id (n_node_id n'), wa_current_status := PENDING\<rparr>)"
      by (auto simp: do_pass_def raise_if_def Let_def intro: settled_plain)
    with Some A show ?thesis
      by (intro that [of ns n "?a0\<lparr>wa_current_audit_auth_group := str_opt_id (n_node_id n'),
            wa_current_status := PENDING\<rparr>"]) simp_all
  next
    case None
    from assms A None obtain s2 where s2: "(if wa_workflow_type a = WT_ARCHIVE
        then mark_workflow_approved (put_workflow (w\<lparr>wf_status := REVIEW_PASS\<rparr>) (put_audit (?a0\<lparr>wa_current_status := PASSED\<rparr>) s)) (wf_id w)
        else Inr (put_workflow (w\<lparr>wf_status := REVIEW_PASS\<rparr>) (put_audit (?a0\<lparr>wa_current_status := PASSED\<rparr>) s))) = Inr s2"
      and st: "st = REVIEW_PASS" and s': "\<exists>e e' rm. s' = emit e' (emit e (write_log s2 (wa_id a) u OP_PASS rm t))"
      by (auto simp: do_pass_def raise_if_def Let_def res_simps) blast+
    have "settled s s' (w\<lparr>wf_status := REVIEW_PASS\<rparr>) (?a0\<lparr>wa_current_status := PASSED\<rparr>)"
      using s2 s' settled_marked(2) [of "w\<lparr>wf_status := REVIEW_PASS\<rparr>" "?a0\<lparr>wa_current_status := PASSED\<rparr>" s s2]
        settled_plain(2) by (auto split: if_split_asm)
    with None A st show ?thesis
      by (intro that [of ns n "?a0\<lparr>wa_current_status := PASSED\<rparr>"]) simp_all
  qed
qed

lemma do_reject_ok:
  assumes "do_reject s w a u r t = Inr (m, st, s')"
  shows "wf_status w \<in> {PENDING_REVIEW, REVIEW_PASS} \<and> st = AUTO_REVIEW_FAIL
    \<and> settled s s' (w\<lparr>wf_status := st\<rparr>) (a\<lparr>wa_current_status := REJECTED\<rparr>)"
  using assms by (auto simp: do_reject_def res_simps Let_def intro: settled_plain)

lemma do_cancel_ok:
  assumes "do_cancel s w a u r t = Inr (m, st, s')"
  shows "wf_status w = PENDING_REVIEW \<and> (op_is_superuser u \<or> op_username u = wf_engineer w)
    \<and> \<not> has_operated_node (load_nodes (wa_nodes a)) \<and> st = ABORT
    \<and> settled s s' (w\<lparr>wf_status := st\<rparr>) (a\<lparr>wa_current_status := CANCELED,
         wa_nodes := NodesList (cancel_pending_nodes (load_nodes (wa_nodes a)) u (Some t))\<rparr>)"
proof -
  let ?a1 = "a\<lparr>wa_current_status := CANCELED,
         wa_nodes := NodesList (cancel_pending_nodes (load_nodes (wa_nodes a)) u (Some t))\<rparr>"
  let ?w1 = "w\<lparr>wf_status := ABORT\<rparr>"
  from assms obtain s2 where s2: "(if wa_workflow_type a = WT_ARCHIVE
        then mark_workflow_canceled (put_workflow ?w1 (put_audit ?a1 s)) (wf_id w) t
        else Inr (put_workflow ?w1 (put_audit ?a1 s))) = Inr s2"
    and st: "st = ABORT" and s': "\<exists>e rm. s' = emit e (write_log s2 (wa_id a) u OP_CANCEL rm t)"
    and g: "wf_status w = PENDING_REVIEW" "op_is_superuser u \<or> op_username u = wf_engineer w"
      "\<not> has_operated_node (load_nodes (wa_nodes a))"
    by (auto simp: do_cancel_def res_simps Let_def)
  have "settled s s' ?w1 ?a1"
    using s2 s' settled_marked(1) [of ?w1 ?a1 s s2 t] settled_plain(1) by (auto split: if_split_asm)
  with st g show ?thesis by simp
qed

lemma operate_settled:
  assumes "operate s wid action u r t = Inr (m, st, s')"
  obtains w a a1 where "get_workflow s wid = Some w" "audits_of s wid = [a]"
    "wf_status w \<in> {PENDING_REVIEW, REVIEW_PASS}" "wa_id a1 = wa_id a" "wa_workflow_id a1 = wa_workflow_id a"
    "wa_workflow_type a1 = wa_workflow_type a" "settled s s' (w\<lparr>wf_status := st\<rparr>) a1"
  using assms
proof (cases rule: operate_ok)
  case (1 w a)
  from 1(3) show ?thesis
  proof (elim disjE conjE)
    assume "do_pass s w a u r t = Inr (m, st, s')"
    then show ?thesis by (rule do_pass_ok) (rule that [OF 1(1,2)]; simp)
  next
    assume "do_reject s w a u r t = Inr (m, st, s')"
    from do_reject_ok [OF this] show ?thesis
      by (intro that [OF 1(1,2), of "a\<lparr>wa_current_status := REJECTED\<rparr>"]) auto
  next
    assume "do_cancel s w a u r t = Inr (m, st, s')"
    from do_cancel_ok [OF this] show ?thesis
      by (intro that [OF 1(1,2), of "a\<lparr>wa_current_status := CANCELED,
         wa_nodes := NodesList (cancel_pending_nodes (load_nodes (wa_nodes a)) u (Some t))\<rparr>"]) auto
  qed
qed

section \<open>Invariants and runs\<close>

definition review_wf :: "store \<Rightarrow> int \<Rightarrow> bool" where
  "review_wf s wid \<longleftrightarrow> audits_wf s \<and> jobs_wf s \<and> job_unique s wid"

lemma settled_audits_wf: "settled s s' w1 a1 \<Longrightarrow> audits_wf s \<Longrightarrow> audits_wf s'"
  by (auto simp: settled_def audits_wf_def intro: table_wf_later table_wf_put_later)

lemma settled_workflows_wf: "settled s s' w1 a1 \<Longrightarrow> workflows_wf s \<Longrightarrow> workflows_wf s'"
  by (auto simp: settled_def workflows_wf_def intro: table_wf_later table_wf_put_later)

lemma settled_jobs_wf: "settled s s' w1 a1 \<Longrightarrow> jobs_wf s \<Longrightarrow> jobs_wf s'"
  by (auto simp: settled_def job_settled_def jobs_wf_def intro: table_wf_later table_wf_put_later)

lemma find_job_in:
  assumes "find_job_of_workflow s wid = Inr (Some j)"
  shows "j \<in> set (st_jobs s) \<and> aj_workflow_id j = Some wid"
proof -
  have "j \<in> set (filter (\<lambda>j. aj_workflow_id j = Some wid) (st_jobs s))"
    using assms by (simp add: find_job_of_workflow_def scalar_Some_iff)
  then show ?thesis by simp
qed

lemma settled_job_unique:
  assumes "settled s s' w1 a1" "jobs_wf s" "job_unique s k"
  shows "job_unique s' k"
proof -
  have "st_jobs s' = st_jobs s \<or> (\<exists>j j1. j \<in> set (st_jobs s) \<and> st_jobs s' = row_put aj_id j1 (st_jobs s)
      \<and> aj_id j1 = aj_id j \<and> aj_workflow_id j1 = aj_workflow_id j)"
    using assms(1) by (auto simp: settled_def job_settled_def dest: find_job_in job_reviewed_key)
  then show ?thesis
  proof (elim disjE exE conjE)
    assume "st_jobs s' = st_jobs s"
    with assms(3) show ?thesis by (simp add: job_unique_def)
  next
    fix j j1
    assume j: "j \<in> set (st_jobs s)" and s': "st_jobs s' = row_put aj_id j1 (st_jobs s)"
      and j1: "aj_id j1 = aj_id j" "aj_workflow_id j1 = aj_workflow_id j"
    have "get_job s (aj_id j1) = Some j"
      using j j1(1) assms(2) by (simp add: get_job_def jobs_wf_def table_wf_def row_get_distinct)
    from job_unique_put_job [OF j1(2) this assms(2), of k] assms(3) s'
    show ?thesis by (simp add: job_unique_def put_job_def)
  qed
qed

lemma operate_review_wf:
  "operate s wid action u r t = Inr (m, st, s') \<Longrightarrow> review_wf s k \<Longrightarrow> review_wf s' k"
  by (erule operate_settled)
    (auto simp: review_wf_def intro: settled_audits_wf settled_jobs_wf settled_job_unique)

lemma operate_frame:
  assumes "operate s wid action u r t = Inr (m, st, s')"
  shows "st_users s' = st_users s \<and> st_groups s' = st_groups s"
  using assms by (rule operate_settled) (simp add: settled_def)

text \<open>A pass that succeeds, seen as one step of the abstract chain.\<close>

lemma operate_pass_step:
  assumes "operate s wid OP_PASS u r t = Inr (m, st, s')" "review_of s wid = Some rv" "review_wf s wid"
  shows "\<exists>rv'. approve_run (check_approver_permission s) [(u, t)] (rv_nodes rv) = Inr (rv_nodes rv')
    \<and> review_of s' wid = Some rv'
    \<and> rv_workflow rv' = (if current_pending (rv_nodes rv') = None then REVIEW_PASS else PENDING_REVIEW)
    \<and> rv_audit rv' = (if current_pending (rv_nodes rv') = None then PASSED else PENDING)"
proof -
  obtain w where "get_workflow s wid = Some w" using assms(2) by (auto simp: review_of_Some)
  from operate_refines [OF this assms(2), of OP_PASS u r t] assms(1,3)
  have "map_sum id Some (review_pass (check_approver_permission s) u t rv) = Inr (review_of s' wid)"
    by (simp add: reply_review_def review_wf_def review_action_def)
  then obtain rv' where rv': "review_pass (check_approver_permission s) u t rv = Inr rv'" "review_of s' wid = Some rv'"
    by (cases "review_pass (check_approver_permission s) u t rv") auto
  then obtain ns where ns: "approve_run (check_approver_permission s) [(u, t)] (rv_nodes rv) = Inr ns"
    and "rv' = (if current_pending ns = None then \<lparr> rv_workflow = REVIEW_PASS, rv_audit = PASSED, rv_nodes = ns \<rparr>
             else \<lparr> rv_workflow = PENDING_REVIEW, rv_audit = PENDING, rv_nodes = ns \<rparr>)"
    unfolding review_pass_def by (auto simp only: res_simps sum.inject)
  then have "rv_nodes rv' = ns
      \<and> rv_workflow rv' = (if current_pending ns = None then REVIEW_PASS else PENDING_REVIEW)
      \<and> rv_audit rv' = (if current_pending ns = None then PASSED else PENDING)" by simp
  with rv'(2) ns show ?thesis by blast
qed

text \<open>A sequence of passes by the given approvers.\<close>

fun pass_run :: "store \<Rightarrow> int \<Rightarrow> (operator \<times> time) list \<Rightarrow> store res" where
  "pass_run s wid [] = Inr s"
| "pass_run s wid ((u, t) # us) =
     rbind (operate s wid OP_PASS u [] t) (\<lambda>(m, st, s'). pass_run s' wid us)"

lemma approve_run_Cons:
  "approve_run p (x # us) ns = rbind (approve_run p [x] ns) (approve_run p us)"
  by (cases x) (simp add: rbind_assoc split: option.split)

lemma pass_run_refines:
  assumes "pass_run s wid us = Inr s'" "review_of s wid = Some rv" "review_wf s wid"
  shows "\<exists>rv'. review_of s' wid = Some rv' \<and> review_wf s' wid
    \<and> approve_run (check_approver_permission s) us (rv_nodes rv) = Inr (rv_nodes rv')
    \<and> (us \<noteq> [] \<longrightarrow> rv_workflow rv' = (if current_pending (rv_nodes rv') = None then REVIEW_PASS else PENDING_REVIEW))"
  using assms
proof (induction us arbitrary: s rv)
  case Nil
  then show ?case by simp
next
  case (Cons a us)
  obtain u t where a: "a = (u, t)" by (cases a)
  with Cons.prems(1) obtain m st s1 where op: "operate s wid OP_PASS u [] t = Inr (m, st, s1)"
    and rest: "pass_run s1 wid us = Inr s'" by (auto simp: res_simps)
  from operate_pass_step [OF op Cons.prems(2,3)] obtain rv1
    where run1: "approve_run (check_approver_permission s) [(u, t)] (rv_nodes rv) = Inr (rv_nodes rv1)"
      and rv1: "review_of s1 wid = Some rv1"
        "rv_workflow rv1 = (if current_pending (rv_nodes rv1) = None then REVIEW_PASS else PENDING_REVIEW)" by (elim exE conjE) (rule that; assumption)
  have perm: "check_approver_permission s1 = check_approver_permission s"
    using operate_frame [OF op] by (intro ext check_approver_cong) simp_all
  from Cons.IH [OF rest rv1(1) operate_review_wf [OF op Cons.prems(3)]] obtain rv'
    where rv': "review_of s' wid = Some rv'" "review_wf s' wid"
      "approve_run (check_approver_permission s) us (rv_nodes rv1) = Inr (rv_nodes rv')"
      "us \<noteq> [] \<longrightarrow> rv_workflow rv' = (if current_pending (rv_nodes rv') = None then REVIEW_PASS else PENDING_REVIEW)"
    unfolding perm by (elim exE conjE) (rule that; assumption)
  moreover have "approve_run (check_approver_permission s) (a # us) (rv_nodes rv) = Inr (rv_nodes rv')"
    using approve_run_Cons [of "check_approver_permission s" a us] run1 rv'(3) a by simp
  moreover have "rv_workflow rv' = (if current_pending (rv_nodes rv') = None then REVIEW_PASS else PENDING_REVIEW)"
  proof (cases "us = []")
    case True
    with rest have "s' = s1" by simp
    with rv1 rv'(1) show ?thesis by simp
  next
    case False
    with rv'(4) show ?thesis by simp
  qed
  ultimately show ?case by (intro exI [of _ rv']) simp
qed

lemma is_ok_map_sum [simp]: "is_ok (map_sum f g r) = is_ok r"
  by (cases r) simp_all

lemma is_ok_reply_review [simp]: "is_ok (reply_review wid r) = is_ok r"
  by (cases r) (auto simp: reply_review_def)

lemma operate_is_ok:
  assumes "get_workflow s wid = Some w" "review_of s wid = Some rv" "review_wf s wid"
  shows "is_ok (operate s wid action u r t) =
    is_ok (review_action (check_approver_permission s) (wf_engineer w) action u t rv)"
  using operate_refines [OF assms(1,2), of action u r t] assms(3)
  by (metis is_ok_map_sum is_ok_reply_review review_wf_def)

lemma pass_run_exists:
  assumes "approve_run (check_approver_permission s) us (rv_nodes rv) = Inr ns'"
    "review_of s wid = Some rv" "rv_workflow rv \<in> {PENDING_REVIEW, REVIEW_PASS}" "review_wf s wid"
  shows "\<exists>s'. pass_run s wid us = Inr s'"
  using assms
proof (induction us arbitrary: s rv)
  case Nil
  then show ?case by simp
next
  case (Cons a us)
  obtain u t where a: "a = (u, t)" by (cases a)
  let ?p = "check_approver_permission s"
  from Cons.prems(1) obtain ns where ns: "approve_run ?p [(u, t)] (rv_nodes rv) = Inr ns"
    and rest: "approve_run ?p us ns = Inr ns'"
    unfolding a approve_run_Cons [of ?p "(u, t)" us] by (simp only: res_simps) blast
  obtain w where w: "get_workflow s wid = Some w" using Cons.prems(2) by (auto simp: review_of_Some)
  have "is_ok (operate s wid OP_PASS u [] t)"
    using Cons.prems(3) ns
    by (simp only: operate_is_ok [OF w Cons.prems(2,4)] review_action_def review_pass_def) (auto simp: raise_if_def)
  then obtain m st s1 where op: "operate s wid OP_PASS u [] t = Inr (m, st, s1)"
    by (auto simp: is_ok_iff)
  from operate_pass_step [OF op Cons.prems(2,4)] obtain rv1
    where run1: "approve_run ?p [(u, t)] (rv_nodes rv) = Inr (rv_nodes rv1)"
      and rv1: "review_of s1 wid = Some rv1"
        "rv_workflow rv1 = (if current_pending (rv_nodes rv1) = None then REVIEW_PASS else PENDING_REVIEW)"
    by (elim exE conjE) (rule that; assumption)
  have perm: "check_approver_permission s1 = ?p"
    using operate_frame [OF op] by (intro ext check_approver_cong) simp_all
  have "\<exists>s'. pass_run s1 wid us = Inr s'"
  proof (rule Cons.IH)
    show "approve_run (check_approver_permission s1) us (rv_nodes rv1) = Inr ns'"
      using rest ns run1 by (simp add: perm)
    show "rv_workflow rv1 \<in> {PENDING_REVIEW, REVIEW_PASS}" using rv1(2) by simp
  qed (use rv1 operate_review_wf [OF op Cons.prems(4)] in simp_all)
  with op a show ?case by auto
qed

section \<open>The pending list\<close>

definition may_approve :: "store \<Rightarrow> operator \<Rightarrow> workflow_audit \<Rightarrow> bool" where
  "may_approve s u a \<longleftrightarrow> (\<exists>ns n. loads_nodes (wa_nodes a) = Inr ns
     \<and> current_pending ns = Some n \<and> check_approver_permission s u n = Inr ())"

lemma authorized_ids_iff:
  assumes "authorized_ids s u rows = Inr ids"
  shows "i \<in> set ids \<longleftrightarrow> (\<exists>row \<in> set rows. wf_id (fst row) = i \<and> may_approve s u (snd row))"
  using assms
proof (induction rows arbitrary: ids)
  case Nil
  then show ?case by simp
next
  case (Cons row rows)
  obtain w a where row: "row = (w, a)" by (cases row)
  from Cons.prems row obtain ns where ns: "loads_nodes (wa_nodes a) = Inr ns" by (auto simp: res_simps)
  have may: "may_approve s u a \<longleftrightarrow> (\<exists>n. current_pending ns = Some n \<and> check_approver_permission s u n = Inr ())"
    by (simp add: may_approve_def ns)
  show ?case
  proof (cases "\<exists>n. current_pending ns = Some n \<and> check_approver_permission s u n = Inr ()")
    case False
    then have "authorized_ids s u rows = Inr ids"
      using Cons.prems row ns by (auto simp: check_approver_app_exc split: option.splits sum.splits)
    moreover have "\<not> may_approve s u a" using False may by blast
    ultimately show ?thesis using Cons.IH row by simp
  next
    case True
    then obtain n where n: "current_pending ns = Some n" "check_approver_permission s u n = Inr ()" by blast
    with Cons.prems row ns obtain ids' where rest: "authorized_ids s u rows = Inr ids'"
      and ids: "ids = wf_id w # ids'" by (auto simp: res_simps)
    from Cons.IH [OF rest] n row may ids show ?thesis by auto
  qed
qed

lemma in_pending_rows:
  "(w, a) \<in> set (pending_rows s) \<longleftrightarrow>
     w \<in> set (st_workflows s) \<and> wf_status w = PENDING_REVIEW \<and> a \<in> set (audits_of s (wf_id w))"
  by (auto simp: pending_rows_def)

lemma workflow_row_get:
  "workflows_wf s \<Longrightarrow> w \<in> set (st_workflows s) \<Longrightarrow> get_workflow s (wf_id w) = Some w"
  by (simp add: workflows_wf_def table_wf_def get_workflow_def row_get_distinct)

lemma pass_is_ok:
  assumes "get_workflow s wid = Some w" "review_of s wid = Some rv" "review_wf s wid"
  shows "is_ok (operate s wid OP_PASS u r t) \<longleftrightarrow> wf_status w \<in> {PENDING_REVIEW, REVIEW_PASS}
    \<and> (\<exists>n. current_pending (rv_nodes rv) = Some n \<and> check_approver_permission s u n = Inr ())"
proof -
  have "rv_workflow rv = wf_status w" using assms(1,2) by (auto simp: review_of_Some)
  then show ?thesis
    by (auto simp: operate_is_ok [OF assms] review_action_def review_pass_def res_simps split: option.split)
qed

section \<open>Properties\<close>

lemma sample_review_wf [simp]: "review_wf sample_store k"
  by (simp add: review_wf_def job_unique_def)

lemma sample_review [simp]:
  "review_of sample_store 1 = Some \<lparr> rv_workflow = PENDING_REVIEW, rv_audit = PENDING, rv_nodes = sample_nodes \<rparr>"
  by (simp add: review_of_Some) (simp add: sample_workflow_def sample_audit_def)

lemma sample_check [simp]:
  "check_approver_permission s dba_op (sample_node 1 ''users'' [9] PENDING) = Inr ()"
  "check_approver_permission s root_op n = Inr ()"
  by (simp_all add: check_approver_permission_def dba_op_def root_op_def sample_node_def)

lemma sample_current [simp]:
  "current_pending sample_nodes = Some (sample_node 1 ''users'' [9] PENDING)"
  by (simp add: sample_nodes_def current_pending_def is_pending_def sample_node_def)

text \<open>
C3: On a workflow in review, \<open>AuditService.operate\<close> does to the three tables exactly
what the abstract review does to (workflow status, audit status, chain): same new state,
same exception, for every action, actor and time.
\<close>

theorem operate_implements_review:
  assumes "get_workflow s wid = Some w" "review_of s wid = Some rv" "review_wf s wid"
  shows "reply_review wid (operate s wid action u remark now) =
     map_sum id Some (review_action (check_approver_permission s) (wf_engineer w) action u now rv)"
  using assms operate_refines [OF assms(1,2)] by (simp add: review_wf_def)

theorem operate_implements_review_witness:
  "reply_review 1 (operate sample_store 1 OP_PASS dba_op [] 50) = Inr (Some
     \<lparr> rv_workflow = PENDING_REVIEW, rv_audit = PENDING,
       rv_nodes = pass_current dba_op 50 sample_nodes \<rparr>)"
proof -
  have "current_pending (pass_current dba_op 50 sample_nodes) \<noteq> None"
    by (simp add: pass_current_def current_pending_def sample_nodes_def is_pending_def sample_node_def pass_node_def)
  then show ?thesis
    using operate_implements_review [of sample_store 1 _ _ OP_PASS dba_op "[]" 50]
    by (simp add: review_action_def review_pass_def)
qed

text \<open>
C28: Approval completes. If the chain has \<open>k\<close> nodes left and the sequence of approvers is
accepted node by node (abstractly), then the real passes all succeed; and once \<open>k\<close>
passes have succeeded, every node is passed and the workflow is REVIEW_PASS.
\<close>

theorem passes_complete_review:
  assumes "review_of s wid = Some rv" "review_wf s wid" "chain_ok (rv_nodes rv)"
    and "rv_workflow rv \<in> {PENDING_REVIEW, REVIEW_PASS}"
    and "length us = pending_count (rv_nodes rv)" "us \<noteq> []"
  shows "is_ok (approve_run (check_approver_permission s) us (rv_nodes rv)) = is_ok (pass_run s wid us)
    \<and> (\<forall>s'. pass_run s wid us = Inr s' \<longrightarrow>
        (\<exists>rv'. review_of s' wid = Some rv' \<and> rv_workflow rv' = REVIEW_PASS \<and> all_passed (rv_nodes rv')))"
proof (intro conjI allI impI)
  show "is_ok (approve_run (check_approver_permission s) us (rv_nodes rv)) = is_ok (pass_run s wid us)"
    using pass_run_exists [OF _ assms(1,4,2)] pass_run_refines [OF _ assms(1,2)] by (fastforce simp: is_ok_iff)
next
  fix s' assume "pass_run s wid us = Inr s'"
  from pass_run_refines [OF this assms(1,2)] obtain rv' where rv': "review_of s' wid = Some rv'"
    and run: "approve_run (check_approver_permission s) us (rv_nodes rv) = Inr (rv_nodes rv')"
    and st: "rv_workflow rv' = (if current_pending (rv_nodes rv') = None then REVIEW_PASS else PENDING_REVIEW)"
    using assms(6) by blast
  have "pending_count (rv_nodes rv') = 0"
    using audit_gate.approve_run_pending [OF run] assms(5) by simp
  with st have "rv_workflow rv' = REVIEW_PASS" by (simp add: pending_count_0)
  with rv' audit_gate.approve_run_complete [OF run assms(3,5)]
  show "\<exists>rv'. review_of s' wid = Some rv' \<and> rv_workflow rv' = REVIEW_PASS \<and> all_passed (rv_nodes rv')"
    by blast
qed

lemma sample_chain [simp]: "chain_ok sample_nodes" "pending_count sample_nodes = 2"
  by (rule chain_ok_pending)
    (simp_all add: sample_nodes_def all_pending_def pending_count_def is_pending_def sample_node_def)

theorem passes_complete_review_witness:
  "\<exists>s' rv'. pass_run sample_store 1 [(dba_op, 50), (root_op, 60)] = Inr s' \<and> review_of s' 1 = Some rv'
     \<and> rv_workflow rv' = REVIEW_PASS \<and> all_passed (rv_nodes rv')"
proof -
  have "is_ok (approve_run (check_approver_permission sample_store) [(dba_op, 50), (root_op, 60)] sample_nodes)"
    by (simp add: pass_current_def is_pending_def)
      (simp add: sample_nodes_def sample_node_def current_pending_def is_pending_def pass_node_def)
  then show ?thesis
    using passes_complete_review [of sample_store 1 _ "[(dba_op, 50), (root_op, 60)]"]
    by (auto simp: is_ok_iff)
qed

lemma settled_other:
  assumes "settled s s' w1 a1" "wf_id w1 = wid" "audits_of s wid = [a]" "wa_id a1 = wa_id a"
    "wa_workflow_id a1 = wa_workflow_id a" "audits_wf s" "k \<noteq> wid"
  shows "get_workflow s' k = get_workflow s k \<and> audits_of s' k = audits_of s k"
proof
  show "get_workflow s' k = get_workflow s k"
    using assms(1,2,7) by (simp add: settled_def get_workflow_def row_get_put)
  have in_a: "wa_workflow_id a = wid" "a \<in> set (st_audits s)" using audits_of_in [OF assms(3)] by simp_all
  then have "get_audit s (wa_id a1) = Some a"
    using assms(4,6) by (simp add: get_audit_def audits_wf_def table_wf_def row_get_distinct)
  from audits_of_put_audit_other [OF this assms(5) _ assms(6)] in_a(1) assms(1,7)
  show "audits_of s' k = audits_of s k"
    by (simp add: settled_def audits_of_def put_audit_def)
qed

text \<open>
C24: A pass that succeeds was made by someone whom the current node, the first one still
pending, authorises; it marks exactly this node, with the actor and the time, and leaves
every other workflow and audit record alone.
\<close>

theorem pass_is_authorised_and_local:
  assumes "operate s wid OP_PASS u remark now = Inr (m, st, s')" "review_wf s wid"
  shows "\<exists>a a' ys n zs. audits_of s wid = [a] \<and> loads_nodes (wa_nodes a) = Inr (ys @ n # zs)
    \<and> (\<forall>y\<in>set ys. n_status y \<noteq> PENDING) \<and> n_status n = PENDING
    \<and> check_approver_permission s u n = Inr ()
    \<and> audits_of s' wid = [a'] \<and> wa_nodes a' = NodesList (ys @ pass_node u now n # zs)
    \<and> (\<forall>k. k \<noteq> wid \<longrightarrow> get_workflow s' k = get_workflow s k \<and> audits_of s' k = audits_of s k)"
  using assms(1)
proof (cases rule: operate_ok)
  case (1 w a)
  then have "do_pass s w a u remark now = Inr (m, st, s')" by (auto simp: op_defs)
  then show ?thesis
  proof (rule do_pass_ok)
    fix ns n a1
    assume ns: "loads_nodes (wa_nodes a) = Inr ns" and cur: "current_pending ns = Some n"
      and perm: "check_approver_permission s u n = Inr ()"
      and set: "settled s s' (w\<lparr>wf_status := st\<rparr>) a1"
      and a1: "wa_id a1 = wa_id a" "wa_workflow_id a1 = wa_workflow_id a"
        "wa_nodes a1 = NodesList (pass_current u now ns)"
    obtain ys zs where split: "ns = ys @ n # zs" "\<forall>y\<in>set ys. n_status y \<noteq> PENDING"
      "pass_current u now ns = ys @ pass_node u now n # zs"
      using pass_current_split [OF cur] by blast
    have wfs: "audits_wf s" using assms(2) by (simp add: review_wf_def)
    have wid: "wf_id (w\<lparr>wf_status := st\<rparr>) = wid" using workflow_tab.sel_key [OF 1(1)] by simp
    have "audits_of s' wid = audits_of (put_audit a1 s) wid"
      using set by (simp add: settled_def audits_of_def put_audit_def)
    also have "\<dots> = [a1]"
      using audits_of_put_audit [OF 1(2) a1(1) _ wfs] a1(2) audits_of_in [OF 1(2)] by simp
    finally have "audits_of s' wid = [a1]" .
    with 1(2) ns split perm a1(3) current_pending_Some [OF cur] settled_other [OF set wid 1(2) a1(1,2) wfs]
    show ?thesis by (intro exI [of _ a] exI [of _ a1] exI [of _ ys] exI [of _ n] exI [of _ zs]) simp
  qed
qed

theorem pass_is_authorised_and_local_witness:
  "\<exists>m st s'. operate sample_store 1 OP_PASS dba_op [] 50 = Inr (m, st, s')
     \<and> get_workflow s' 3 = get_workflow sample_store 3"
proof -
  have "is_ok (operate sample_store 1 OP_PASS dba_op [] 50)"
    by (simp add: pass_is_ok [of sample_store 1 "sample_workflow 1 PENDING_REVIEW"])
      (simp add: sample_workflow_def)
  then obtain m st s' where "operate sample_store 1 OP_PASS dba_op [] 50 = Inr (m, st, s')"
    by (auto simp: is_ok_iff)
  with pass_is_authorised_and_local [OF this] show ?thesis by auto
qed

text \<open>
The \<open>can_cancel\<close> flag the views return is exact: cancelling succeeds if and only
if the flag is set, so only the submitter or a superuser can cancel, and only before any
node has been handled.
\<close>

theorem can_cancel_flag_exact:
  assumes "get_workflow s wid = Some w" "audits_of s wid = [a]" "loads_nodes (wa_nodes a) = Inr ns" "review_wf s wid"
  shows "can_cancel_workflow w u ns = is_ok (operate s wid OP_CANCEL u remark now)"
proof -
  have rv: "review_of s wid = Some \<lparr> rv_workflow = wf_status w, rv_audit = wa_current_status a, rv_nodes = ns \<rparr>"
    using assms by (simp add: review_of_Some)
  show ?thesis
    by (simp add: operate_is_ok [OF assms(1) rv assms(4)] review_action_def op_defs review_cancel_def
        can_cancel_workflow_iff res_simps not_operated_all_pending)
qed

theorem can_cancel_flag_exact_witness:
  "can_cancel_workflow (sample_workflow 1 PENDING_REVIEW) dev_op sample_nodes
     = is_ok (operate sample_store 1 OP_CANCEL dev_op [] 50)"
  by (rule can_cancel_flag_exact [of _ _ _ "sample_audit 2 1 WT_SQL sample_nodes"])
    (simp_all add: sample_audit_def)

text \<open>
C36: The pending list is exact: a workflow is listed for a user if and only if it is in
review and this user's pass would succeed.
\<close>

theorem pending_list_exact:
  assumes "get_pending_workflow_ids_for_user s u = Inr ids" "workflows_wf s" "review_wf s wid"
    and "audits_of s wid = [a]"
  shows "wid \<in> set ids \<longleftrightarrow> (\<exists>w. get_workflow s wid = Some w \<and> wf_status w = PENDING_REVIEW
    \<and> is_ok (operate s wid OP_PASS u remark now))"
proof
  assume "wid \<in> set ids"
  then obtain w where w: "w \<in> set (st_workflows s)" "wf_status w = PENDING_REVIEW" "wf_id w = wid"
    and may: "may_approve s u a"
    using authorized_ids_iff [of s u "pending_rows s" ids wid] assms(1,4)
    by (auto simp: get_pending_workflow_ids_for_user_def in_pending_rows)
  then have g: "get_workflow s wid = Some w" using workflow_row_get assms(2) by blast
  from may obtain ns n where "loads_nodes (wa_nodes a) = Inr ns" "current_pending ns = Some n"
    "check_approver_permission s u n = Inr ()" by (auto simp: may_approve_def)
  moreover from this(1) have "review_of s wid = Some \<lparr> rv_workflow = wf_status w,
      rv_audit = wa_current_status a, rv_nodes = ns \<rparr>" using g assms(4) by (simp add: review_of_Some)
  ultimately have "is_ok (operate s wid OP_PASS u remark now)"
    using pass_is_ok [OF g _ assms(3), of _ u remark now] w(2) by simp
  with g w(2) show "\<exists>w. get_workflow s wid = Some w \<and> wf_status w = PENDING_REVIEW
    \<and> is_ok (operate s wid OP_PASS u remark now)" by blast
next
  assume "\<exists>w. get_workflow s wid = Some w \<and> wf_status w = PENDING_REVIEW
    \<and> is_ok (operate s wid OP_PASS u remark now)"
  then obtain w m st s' where g: "get_workflow s wid = Some w" "wf_status w = PENDING_REVIEW"
    and op: "operate s wid OP_PASS u remark now = Inr (m, st, s')" by (auto simp: is_ok_iff)
  from op have "may_approve s u a"
  proof (cases rule: operate_ok)
    case (1 w' a')
    then have "do_pass s w' a u remark now = Inr (m, st, s')" using assms(4) by (auto simp: op_defs)
    then show ?thesis by (rule do_pass_ok) (auto simp: may_approve_def)
  qed
  moreover have "w \<in> set (st_workflows s) \<and> wf_id w = wid"
    using g(1) row_get_key by (fastforce simp: get_workflow_def)
  ultimately show "wid \<in> set ids"
    using authorized_ids_iff [of s u "pending_rows s" ids wid] assms(1,4) g(2)
    by (auto simp: get_pending_workflow_ids_for_user_def in_pending_rows intro!: bexI [of _ "(w, a)"])
qed

lemma sample_pending_rows:
  "pending_rows sample_store =
     [(sample_workflow 1 PENDING_REVIEW, sample_audit 2 1 WT_SQL sample_nodes),
      (sample_workflow 3 PENDING_REVIEW, sample_audit 4 3 WT_ARCHIVE sample_nodes)]"
proof -
  have "audits_of sample_store (wf_id (sample_workflow 1 PENDING_REVIEW)) = [sample_audit 2 1 WT_SQL sample_nodes]"
    "audits_of sample_store (wf_id (sample_workflow 3 PENDING_REVIEW)) = [sample_audit 4 3 WT_ARCHIVE sample_nodes]"
    by (simp_all add: sample_workflow_def)
  then show ?thesis by (simp add: pending_rows_def sample_workflow_def)
qed

theorem pending_list_exact_witness:
  "\<exists>ids. get_pending_workflow_ids_for_user sample_store dba_op = Inr ids \<and> 1 \<in> set ids
     \<and> is_ok (operate sample_store 1 OP_PASS dba_op [] 50)"
proof -
  have ids: "get_pending_workflow_ids_for_user sample_store dba_op = Inr [1, 3]"
    by (simp add: get_pending_workflow_ids_for_user_def sample_pending_rows sample_audit_def)
      (simp add: sample_workflow_def)
  show ?thesis
    using pending_list_exact [OF ids sample_wf(1) sample_review_wf, of 1 _ "[]" 50] ids by auto
qed

text \<open>
A rejected or cancelled workflow is closed: whatever anyone tries next, pass, reject,
cancel or an unknown action, is refused with an application error and changes nothing.
\<close>

theorem closed_review_stays_closed:
  assumes "operate s wid action u remark now = Inr (m, st, s')" "action \<in> {OP_REJECT, OP_CANCEL}"
    and "review_of s wid = Some rv" "review_wf s wid"
  shows "\<exists>e. operate s' wid action' u' remark' now' = Inl e \<and> is_app_exc e"
proof -
  obtain w where w: "get_workflow s wid = Some w" using assms(3) by (auto simp: review_of_Some)
  have wf': "review_wf s' wid" using operate_review_wf [OF assms(1,4)] .
  from operate_refines [OF w assms(3), of action u remark now] assms(1,4)
  have "map_sum id Some (review_action (check_approver_permission s) (wf_engineer w) action u now rv)
      = Inr (review_of s' wid)" by (simp add: reply_review_def review_wf_def)
  then obtain rv' where act: "review_action (check_approver_permission s) (wf_engineer w) action u now rv = Inr rv'"
    and rv': "review_of s' wid = Some rv'"
    by (cases "review_action (check_approver_permission s) (wf_engineer w) action u now rv") auto
  have st: "rv_workflow rv' \<in> {AUTO_REVIEW_FAIL, ABORT}"
    using act assms(2) by (auto simp: review_action_def op_defs review_reject_def review_cancel_def res_simps)
  obtain w' where w': "get_workflow s' wid = Some w'" using rv' by (auto simp: review_of_Some)
  have "\<exists>e. review_action (check_approver_permission s') (wf_engineer w') action' u' now' rv' = Inl e \<and> is_app_exc e"
    using st by (auto simp: review_action_def op_defs review_pass_def review_reject_def review_cancel_def)
  then obtain e where e: "review_action (check_approver_permission s') (wf_engineer w') action' u' now' rv' = Inl e"
    "is_app_exc e" by blast
  with operate_refines [OF w' rv', of action' u' remark' now'] wf'
  have "reply_review wid (operate s' wid action' u' remark' now') = Inl e"
    by (simp add: review_wf_def)
  then have "operate s' wid action' u' remark' now' = Inl e"
    by (cases "operate s' wid action' u' remark' now'") (auto simp: reply_review_def)
  with e(2) show ?thesis by blast
qed

theorem closed_review_stays_closed_witness:
  "\<exists>m st s' e. operate sample_store 1 OP_CANCEL dev_op [] 50 = Inr (m, st, s')
     \<and> operate s' 1 OP_PASS root_op [] 60 = Inl e"
proof -
  have "is_ok (operate sample_store 1 OP_CANCEL dev_op [] 50)"
    by (simp add: operate_is_ok [of sample_store 1 "sample_workflow 1 PENDING_REVIEW"] review_action_def op_defs
        review_cancel_def res_simps)
      (simp add: sample_workflow_def dev_op_def sample_nodes_def all_pending_def sample_node_def)
  then obtain m st s' where "operate sample_store 1 OP_CANCEL dev_op [] 50 = Inr (m, st, s')"
    by (auto simp: is_ok_iff)
  with closed_review_stays_closed [OF this, of _ OP_PASS root_op "[]" 60] show ?thesis by auto
qed

text \<open>
Once the chain of a workflow is finished and the workflow waits for execution, any
operator at all, with no permission and no part in the chain, can reject it: the approver
check is skipped when no node is pending.
\<close>

theorem anyone_rejects_approved_workflow:
  assumes "get_workflow s wid = Some w" "wf_status w = REVIEW_PASS" "audits_of s wid = [a]"
    and "loads_nodes (wa_nodes a) = Inr ns" "all_passed ns"
  shows "\<exists>m s'. operate s wid OP_REJECT u remark now = Inr (m, AUTO_REVIEW_FAIL, s')"
proof -
  have "current_pending ns = None" using assms(5) by (simp add: current_pending_None all_passed_def)
  then show ?thesis using assms
    by (simp add: operate_def find_audit_def op_defs do_reject_def Let_def)
qed

definition approved_store :: store where
  "approved_store = sample_store\<lparr>st_workflows := [sample_workflow 1 REVIEW_PASS],
     st_audits := [sample_audit 2 1 WT_SQL [sample_node 1 ''users'' [9] PASSED]]\<rparr>"

theorem anyone_rejects_approved_workflow_witness:
  "\<exists>m s'. operate approved_store 1 OP_REJECT dev_op [] 50 = Inr (m, AUTO_REVIEW_FAIL, s')"
  by (rule anyone_rejects_approved_workflow
      [of _ _ "sample_workflow 1 REVIEW_PASS" "sample_audit 2 1 WT_SQL [sample_node 1 ''users'' [9] PASSED]"
        "[sample_node 1 ''users'' [9] PASSED]"])
    (simp_all add: approved_store_def get_workflow_def audits_of_def table_simps sample_workflow_def
      sample_audit_def sample_node_def all_passed_def)

end
