(* ===== verification/Engine_Models.thy ===== *)
theory Engine_Models
  imports Exceptions
begin

text \<open>
  \<^verbatim>\<open>app/engines/models.py\<close>: what the services read of an engine's replies. The
  engines themselves are parameters of the operations that call them: a call either
  raises (\<open>Inl\<close> with the text of the exception) or returns one of these records. Cells of
  a result row are the texts \<open>str(value)\<close>, \<open>None\<close> for \<open>NULL\<close>.
\<close>

record sql_item =
  si_id :: int
  si_errlevel :: int
  si_stagestatus :: string
  si_errormessage :: string
  si_sql :: string
  si_affected_rows :: int

definition item_is_error :: "sql_item \<Rightarrow> bool" where
  "item_is_error i \<longleftrightarrow> si_errlevel i = 2"

definition item_is_warning :: "sql_item \<Rightarrow> bool" where
  "item_is_warning i \<longleftrightarrow> si_errlevel i = 1"

record review_set =
  rs_rows :: "sql_item list"
  rs_error :: string
  rs_warning_count :: nat
  rs_error_count :: nat

definition recount :: "review_set \<Rightarrow> review_set" where
  "recount r = r\<lparr>rs_warning_count := length (filter item_is_warning (rs_rows r)),
                 rs_error_count := length (filter item_is_error (rs_rows r))\<rparr>"

definition append_item :: "review_set \<Rightarrow> sql_item \<Rightarrow> review_set" where
  "append_item r i =
     r\<lparr>rs_rows := rs_rows r @ [i],
       rs_warning_count := rs_warning_count r + (if item_is_warning i then 1 else 0),
       rs_error_count := rs_error_count r + (if item_is_error i then 1 else 0)\<rparr>"

definition review_is_success :: "review_set \<Rightarrow> bool" where
  "review_is_success r \<longleftrightarrow> rs_error r = [] \<and> rs_error_count r = 0"

text \<open>A result row: a tuple or list, or a dictionary.\<close>

datatype result_row =
    RowTuple "string option list"
  | RowDict "(string \<times> string option) list"

record result_set =
  qs_error :: string
  qs_column_list :: "string list"
  qs_rows :: "result_row list"
  qs_affected_rows :: int
  qs_cost_time :: int

text \<open>The counters of a review set that is only built with \<open>append\<close> stay exact.\<close>

lemma append_item_recount: "recount r = r \<Longrightarrow> recount (append_item r i) = append_item r i"
  by (cases r) (auto simp: recount_def append_item_def)

text \<open>
  \<open>get_engine(inst)\<close>, which raises for an unknown type or a suspended licence, and the call
  the services make on the engine it returns.
\<close>

type_synonym 'a raised = "string + 'a"
type_synonym 'i check_engine = "'i \<Rightarrow> (string \<Rightarrow> string \<Rightarrow> review_set raised) res"

definition lift_raised :: "'a raised \<Rightarrow> 'a res" where
  "lift_raised r = map_sum (\<lambda>t. RawException (EngineRaised t)) id r"

lemma lift_raised_simps [simp]:
  "lift_raised (Inl t) = Inl (RawException (EngineRaised t))" "lift_raised (Inr x) = Inr x"
  by (simp_all add: lift_raised_def)

end
