(* ===== verification/Workflow_Service.thy ===== *)
theory Workflow_Service
  imports Audit_Service Governance_Scope Engine_Models Approval_Flow
begin

text \<open>
  \<^verbatim>\<open>app/services/workflow.py\<close> and \<^verbatim>\<open>app/tasks/execute_sql.py\<close>: submitting a SQL
  workflow, the decision to execute it (now, later, or already done outside), the worker
  and the dispatcher that execute it, and the views with their object-level
  authorisation. Engines, the SQL parser, the availability of Celery and the current
  time are arguments. An operation with several commits returns its result together
  with the store of its last commit (\<open>outcome\<close>).
\<close>

type_synonym 'a outcome = "'a res \<times> store"

section \<open>Requests\<close>

record workflow_create =
  cr_workflow_name :: string
  cr_group_id :: "int option"
  cr_instance_id :: int
  cr_db_name :: string
  cr_sql_content :: string
  cr_syntax_type :: int
  cr_is_backup :: bool
  cr_run_date_start :: "time option"
  cr_run_date_end :: "time option"
  cr_flow_id :: "int option"
  cr_risk_remark :: string

definition field_constraint :: "string \<Rightarrow> exc" where
  "field_constraint f = app_exc (FlowMsg (FieldConstraint f)) 422"

definition validate_workflow_create :: "workflow_create \<Rightarrow> workflow_create res" where
  "validate_workflow_create d =
     raise_if (length (cr_workflow_name d) < 1 \<or> length (cr_workflow_name d) > 50) (field_constraint ''workflow_name'')
     (raise_if (length (cr_sql_content d) < 1 \<or> py_strip (cr_sql_content d) = []) (field_constraint ''sql_content'')
     (raise_if (length (cr_risk_remark d) > 500) (field_constraint ''risk_remark'') (Inr d)))"

record execute_request =
  ex_mode :: string
  ex_scheduled_at :: "py_datetime option"
  ex_timing_time :: "py_datetime option"
  ex_external_executed_at :: "py_datetime option"
  ex_external_status :: "string option"
  ex_external_remark :: "string option"

definition mode_aliases :: "(string \<times> string) list" where
  "mode_aliases = [(''auto'', ''immediate''), (''manual'', ''external''), (''timing'', ''scheduled'')]"

definition mode_valid :: "string \<Rightarrow> string res" where
  "mode_valid v =
     (let normalized = (case map_of mode_aliases v of Some m \<Rightarrow> m | None \<Rightarrow> v) in
      if normalized \<notin> {''immediate'', ''scheduled'', ''external''} then Inl (field_constraint ''mode'')
      else Inr normalized)"

definition validate_execute_request :: "execute_request \<Rightarrow> execute_request res" where
  "validate_execute_request d =
     rbind (mode_valid (ex_mode d)) (\<lambda>m.
       raise_if (ex_external_status d \<notin> {None, Some ''success'', Some ''failed''}) (field_constraint ''external_status'')
       (raise_if (case ex_external_remark d of None \<Rightarrow> False | Some r \<Rightarrow> length r > 500) (field_constraint ''external_remark'')
       (Inr (d\<lparr>ex_mode := m\<rparr>))))"

definition default_execute_request :: "string \<Rightarrow> execute_request" where
  "default_execute_request mode =
     \<lparr> ex_mode = mode, ex_scheduled_at = None, ex_timing_time = None, ex_external_executed_at = None,
       ex_external_status = None, ex_external_remark = None \<rparr>"

section \<open>Submission\<close>

definition WORKFLOW_UNSUPPORTED_DB_TYPES :: "string list" where
  "WORKFLOW_UNSUPPORTED_DB_TYPES = [''redis'', ''elasticsearch'', ''opensearch'', ''cassandra'']"

definition can_submit_high_risk_sql :: "operator \<Rightarrow> bool" where
  "can_submit_high_risk_sql u \<longleftrightarrow> op_is_superuser u \<or> op_role u \<in> {Some ''dba'', Some ''dba_group''}
     \<or> has_perm u ''sql_submit_high_risk''"

definition matched_groups :: "operator \<Rightarrow> db_instance \<Rightarrow> resource_group list" where
  "matched_groups u inst =
     filter (\<lambda>rg. rg_id rg \<in> set (op_resource_groups u)) (filter rg_is_active (in_resource_groups inst))"

text \<open>\<open>sorted(matched, key=id)[0]\<close>, or the 400 or 403 refusal.\<close>

definition pick_group :: "operator \<Rightarrow> db_instance \<Rightarrow> int option \<Rightarrow> resource_group res" where
  "pick_group u inst group_id =
     (let matched = matched_groups u inst;
          chosen = (case group_id of None \<Rightarrow> matched | Some g \<Rightarrow> filter (\<lambda>rg. rg_id rg = g) matched)
      in raise_if (group_id \<noteq> None \<and> chosen = []) (app_exc (WorkflowMsg GroupOutOfScope) 400)
         (raise_if (chosen = []) (app_exc (WorkflowMsg InstanceOutOfScope) 403)
          (Inr (hd (sort_key rg_id chosen)))))"

text \<open>The snapshot, or \<open>None\<close> when \<open>flow_id\<close> is 0.\<close>

definition submission_snapshot :: "store \<Rightarrow> int option \<Rightarrow> operator \<Rightarrow> node list option res" where
  "submission_snapshot s flow_id u =
     (if truthy_id flow_id
      then rbind (snapshot_for_workflow s (the flow_id)) (\<lambda>ns.
             Inr (Some (decorate_snapshot_for_applicant ns u)))
      else Inr None)"

text \<open>The refusals that follow the SQL check, in the order of the code.\<close>

definition precheck_gate ::
    "review_set \<Rightarrow> risk_plan \<Rightarrow> bool \<Rightarrow> bool \<Rightarrow> string \<Rightarrow> unit res" where
  "precheck_gate review_set plan privileged can_submit risk_remark =
     raise_if (rs_error review_set \<noteq> []) (app_exc (WorkflowMsg (PrecheckError (rs_error review_set))) 400)
     (raise_if (rs_error_count review_set > 0 \<and> \<not> (privileged \<and> can_submit) \<and> privileged)
        (app_exc (WorkflowMsg HighRiskNeedsPermission) 403)
     (raise_if (rs_error_count review_set > 0 \<and> \<not> (privileged \<and> can_submit))
        (app_exc (WorkflowMsg PrecheckRejected) 400)
     (raise_if (privileged \<and> \<not> can_submit) (app_exc (WorkflowMsg HighRiskNeedsPermission) 403)
     (raise_if (rp_requires_manual_remark plan \<and> py_strip risk_remark = [])
        (app_exc (WorkflowMsg RiskRemarkRequired) 400)
      (Inr ())))))"

definition new_workflow :: "int \<Rightarrow> workflow_create \<Rightarrow> resource_group \<Rightarrow> operator \<Rightarrow> time \<Rightarrow> workflow" where
  "new_workflow i d rg u now =
     \<lparr> wf_id = i, wf_name = cr_workflow_name d, wf_group_id = rg_id rg, wf_group_name = rg_group_name rg,
       wf_instance_id = cr_instance_id d, wf_db_name = cr_db_name d, wf_syntax_type = cr_syntax_type d,
       wf_is_backup = cr_is_backup d, wf_engineer = op_username u, wf_engineer_display = op_display_name u,
       wf_engineer_id = op_id u, wf_status = PENDING_REVIEW, wf_audit_auth_groups = py_str_int (rg_id rg),
       wf_run_date_start = cr_run_date_start d, wf_run_date_end = cr_run_date_end d, wf_execute_mode = None,
       wf_scheduled_execute_at = None, wf_executed_by_id = None, wf_executed_by_name = None,
       wf_external_executed_at = None, wf_external_result_status = None, wf_external_result_remark = None,
       wf_finish_time = None, wf_flow_id = cr_flow_id d, wf_export_format = None, wf_created_at = now \<rparr>"

definition submitted_event :: "workflow \<Rightarrow> workflow_type \<Rightarrow> node \<Rightarrow> notify_event" where
  "submitted_event w ty n =
     \<lparr> ev_type = ''approval_pending'', ev_subject_type = ''workflow'', ev_subject_id = wf_id w,
       ev_app_type = ty, ev_node = Some n, ev_user_ids = [], ev_permission = None,
       ev_exclude = [wf_engineer_id w] \<rparr>"

definition emit_submitted :: "workflow \<Rightarrow> workflow_type \<Rightarrow> workflow_audit \<Rightarrow> store \<Rightarrow> store" where
  "emit_submitted w ty a s =
     (case current_pending (load_nodes (wa_nodes a)) of
        None \<Rightarrow> s | Some n \<Rightarrow> emit (submitted_event w ty n) s)"

definition insert_workflow ::
    "store \<Rightarrow> workflow_create \<Rightarrow> resource_group \<Rightarrow> operator \<Rightarrow> review_set \<Rightarrow> risk_plan \<Rightarrow> node list option \<Rightarrow> time \<Rightarrow> int \<times> store" where
  "insert_workflow s d rg u review_set plan nodes_snapshot now =
     (let w = new_workflow (st_next_id s) d rg u now;
          s1 = add_workflow w s;
          s2 = add_content \<lparr> wc_id = st_next_id s1, wc_workflow_id = wf_id w,
                 wc_sql_content = cr_sql_content d,
                 wc_review_content = map (\<lambda>i. (si_sql i, si_errlevel i, si_errormessage i)) (rs_rows review_set),
                 wc_execute_result = ResNone, wc_risk_plan = Some plan, wc_risk_remark = cr_risk_remark d \<rparr> s1;
          (a, s3) = create_audit s2 w WT_SQL u nodes_snapshot now
      in (wf_id w, emit_submitted w WT_SQL a s3))"

definition create ::
    "store \<Rightarrow> workflow_create \<Rightarrow> operator \<Rightarrow> sql_parser \<Rightarrow> db_instance check_engine \<Rightarrow> time \<Rightarrow> (int \<times> store) res" where
  "create s d u parse engines now =
     raise_if (cr_flow_id d = None) (app_exc (WorkflowMsg FlowRequired) 400)
     (case get_instance s (cr_instance_id d) of
        None \<Rightarrow> Inl (not_found_exc (WorkflowMsg (InstanceNotFound (cr_instance_id d))))
      | Some inst \<Rightarrow>
          (let db_type = py_lower (in_db_type inst) in
           raise_if (db_type \<in> set WORKFLOW_UNSUPPORTED_DB_TYPES) (app_exc (WorkflowMsg (DbTypeUnsupported db_type)) 400)
           (rbind (pick_group u inst (cr_group_id d)) (\<lambda>rg.
            rbind (submission_snapshot s (cr_flow_id d) u) (\<lambda>nodes_snapshot.
              let plan = build_workflow_plan parse db_type (cr_db_name d) (cr_sql_content d);
                  privileged = (rp_level plan = High \<and> is_privileged_workflow_sql parse db_type (cr_sql_content d))
              in rbind (engines inst) (\<lambda>execute_check.
                 rbind (lift_raised (execute_check (cr_db_name d) (cr_sql_content d))) (\<lambda>review_set.
                 rbind (precheck_gate review_set plan privileged (can_submit_high_risk_sql u) (cr_risk_remark d)) (\<lambda>_.
                   Inr (insert_workflow s d rg u review_set plan nodes_snapshot now)))))))))"

section \<open>Execution\<close>

type_synonym exec_engines = "db_instance \<Rightarrow> (string \<Rightarrow> string \<Rightarrow> review_set raised) res"

text \<open>\<open>_write_execution_log\<close>: nothing is written for a workflow without audit record.\<close>

definition write_execution_log :: "store \<Rightarrow> int \<Rightarrow> operator \<Rightarrow> string \<Rightarrow> string \<Rightarrow> time \<Rightarrow> store res" where
  "write_execution_log s wid u operation_type remark now =
     rbind (find_audit s wid) (\<lambda>ao. case ao of
         None \<Rightarrow> Inr s
       | Some a \<Rightarrow> Inr (write_log s (wa_id a) u operation_type remark now))"

definition run_result :: "review_set raised \<Rightarrow> workflow_status \<times> exec_result" where
  "run_result r =
     (case r of Inl e \<Rightarrow> (EXCEPTION, ResRaised e)
      | Inr rs \<Rightarrow> (if rs_error rs = [] then FINISH else EXCEPTION, ResPlatform (rs_error rs = []) (rs_error rs)))"

definition sql_of_workflow :: "store \<Rightarrow> int \<Rightarrow> string" where
  "sql_of_workflow s wid = (case content_of s wid of None \<Rightarrow> [] | Some c \<Rightarrow> wc_sql_content c)"

text \<open>
  The end of a platform run: the result, the final status and the log, in one commit;
  \<open>s\<close> is the store after the commit that set EXECUTING.
\<close>

definition finish_run ::
    "store \<Rightarrow> workflow \<Rightarrow> operator \<Rightarrow> review_set raised \<Rightarrow> (workflow_status \<Rightarrow> string) \<Rightarrow> time \<Rightarrow> (workflow \<times> store) res" where
  "finish_run s w u r describe now =
     (let (st, res) = run_result r;
          w1 = w\<lparr>wf_status := st, wf_finish_time := Some now\<rparr>
      in rbind (write_execution_log (put_workflow w1 (set_execute_result (wf_id w) res s))
             (wf_id w) u OP_EXECUTE (''done: '' @ describe st) now) (\<lambda>s1. Inr (w1, s1)))"

definition execute_sync :: "store \<Rightarrow> workflow \<Rightarrow> operator \<Rightarrow> exec_engines \<Rightarrow> time \<Rightarrow> unit outcome" where
  "execute_sync s w u engines now =
     (case get_instance s (wf_instance_id w) of
        None \<Rightarrow> (Inr (), put_workflow (w\<lparr>wf_status := EXCEPTION\<rparr>) s)
      | Some inst \<Rightarrow>
          (let w1 = w\<lparr>wf_status := EXECUTING\<rparr>; s1 = put_workflow w1 s in
           case engines inst of
             Inl e \<Rightarrow> (Inl e, s1)
           | Inr run \<Rightarrow>
               (case finish_run s1 w1 u (run (wf_db_name w) (sql_of_workflow s1 (wf_id w))) STATUS_DESC now of
                  Inl e \<Rightarrow> (Inl e, s1)
                | Inr (w2, s2) \<Rightarrow> (Inr (), s2))))"

datatype execute_reply = Queued int | DoneSync int | Scheduled int time | External int workflow_status

definition execute_immediately ::
    "store \<Rightarrow> workflow \<Rightarrow> operator \<Rightarrow> bool \<Rightarrow> exec_engines \<Rightarrow> time \<Rightarrow> execute_reply outcome" where
  "execute_immediately s w u celery engines now =
     (let w1 = w\<lparr>wf_execute_mode := Some ''immediate'', wf_executed_by_id := Some (op_id u),
                wf_executed_by_name := Some (operator_display u), wf_scheduled_execute_at := None,
                wf_status := QUEUING\<rparr>
      in case write_execution_log (put_workflow w1 s) (wf_id w) u OP_EXECUTE ''queued for platform execution'' now of
           Inl e \<Rightarrow> (Inl e, s)
         | Inr s1 \<Rightarrow>
             if celery then (Inr (Queued (wf_id w)), deliver (ExecuteWorkflow (wf_id w) (op_id u)) s1)
             else (case execute_sync s1 w1 u engines now of
                     (Inl e, s2) \<Rightarrow> (Inl e, s2)
                   | (Inr _, s2) \<Rightarrow> (Inr (DoneSync (wf_id w)), s2)))"

definition schedule_execution ::
    "store \<Rightarrow> workflow \<Rightarrow> operator \<Rightarrow> execute_request \<Rightarrow> time \<Rightarrow> (execute_reply \<times> store) res" where
  "schedule_execution s w u d now =
     (case (case ex_scheduled_at d of Some t \<Rightarrow> Some t | None \<Rightarrow> ex_timing_time d) of
        None \<Rightarrow> Inl (app_exc (WorkflowMsg ScheduleTimeMissing) 400)
      | Some t \<Rightarrow>
          (let scheduled_at = ensure_aware_utc t in
           raise_if (scheduled_at \<le> now) (app_exc (WorkflowMsg ScheduleTimePast) 400)
           (let w1 = w\<lparr>wf_execute_mode := Some ''scheduled'', wf_scheduled_execute_at := Some scheduled_at,
                      wf_executed_by_id := Some (op_id u), wf_executed_by_name := Some (operator_display u),
                      wf_status := TIMING_TASK\<rparr>
            in rbind (write_execution_log (put_workflow w1 s) (wf_id w) u OP_TIMING
                   (''scheduled for '' @ py_str_int scheduled_at) now) (\<lambda>s1.
                 Inr (Scheduled (wf_id w) scheduled_at, s1)))))"

definition record_external_execution ::
    "store \<Rightarrow> workflow \<Rightarrow> operator \<Rightarrow> execute_request \<Rightarrow> time \<Rightarrow> (execute_reply \<times> store) res" where
  "record_external_execution s w u d now =
     (case ex_external_executed_at d of
        None \<Rightarrow> Inl (app_exc (WorkflowMsg ExternalTimeMissing) 400)
      | Some t \<Rightarrow>
          (let remark = py_strip (or_opt (ex_external_remark d) []) in
           raise_if (\<not> truthy (ex_external_status d)) (app_exc (WorkflowMsg ExternalStatusMissing) 400)
           (raise_if (remark = []) (app_exc (WorkflowMsg ExternalRemarkMissing) 400)
            (let executed_at = ensure_aware_utc t;
                 result = the (ex_external_status d);
                 ok = (result = ''success'');
                 w1 = w\<lparr>wf_execute_mode := Some ''external'', wf_executed_by_id := Some (op_id u),
                        wf_executed_by_name := Some (operator_display u),
                        wf_external_executed_at := Some executed_at,
                        wf_external_result_status := Some result, wf_external_result_remark := Some remark,
                        wf_finish_time := Some executed_at, wf_status := (if ok then FINISH else EXCEPTION)\<rparr>;
                 s1 = set_execute_result (wf_id w)
                        (ResExternal ok result executed_at (operator_display u) remark) (put_workflow w1 s)
             in rbind (write_execution_log s1 (wf_id w) u OP_EXECUTE
                    (''recorded external execution: '' @ result @ '', '' @ remark) now) (\<lambda>s2.
                  Inr (External (wf_id w) (wf_status w1), s2))))))"

text \<open>A handler with one commit, as an outcome: an exception leaves the store alone.\<close>

definition one_commit :: "store \<Rightarrow> ('a \<times> store) res \<Rightarrow> 'a outcome" where
  "one_commit s r = (case r of Inl e \<Rightarrow> (Inl e, s) | Inr (x, s1) \<Rightarrow> (Inr x, s1))"

definition execute ::
    "store \<Rightarrow> int \<Rightarrow> operator \<Rightarrow> execute_request \<Rightarrow> bool \<Rightarrow> exec_engines \<Rightarrow> time \<Rightarrow> execute_reply outcome" where
  "execute s wid u d celery engines now =
     (case get_workflow s wid of
        None \<Rightarrow> (Inl (not_found_exc (AuditMsg (WorkflowNotFound wid))), s)
      | Some w \<Rightarrow>
          if wf_status w \<noteq> REVIEW_PASS then (Inl (app_exc (WorkflowMsg NotExecutable) 400), s)
          else if ex_mode d = ''scheduled'' then one_commit s (schedule_execution s w u d now)
          else if ex_mode d = ''external'' then one_commit s (record_external_execution s w u d now)
          else execute_immediately s w u celery engines now)"

section \<open>Worker and dispatcher\<close>

text \<open>The operator dictionary of the worker: id and username only.\<close>

definition task_operator :: "int \<Rightarrow> string \<Rightarrow> operator" where
  "task_operator i n =
     \<lparr> op_id = i, op_username = n, op_display_name = [], op_is_superuser = False, op_permissions = [],
       op_role = None, op_role_id = None, op_resource_groups = [] \<rparr>"

definition run_event :: "string \<Rightarrow> workflow \<Rightarrow> int \<Rightarrow> notify_event" where
  "run_event ty w operator_id =
     \<lparr> ev_type = ty, ev_subject_type = ''workflow'', ev_subject_id = wf_id w, ev_app_type = WT_SQL,
       ev_node = None,
       ev_user_ids = filter (\<lambda>i. i \<noteq> 0) (remdups [wf_engineer_id w, operator_id]),
       ev_permission = None, ev_exclude = [] \<rparr>"

definition execute_async :: "store \<Rightarrow> int \<Rightarrow> int \<Rightarrow> exec_engines \<Rightarrow> time \<Rightarrow> unit outcome" where
  "execute_async s wid operator_id engines now =
     (case get_workflow s wid of
        None \<Rightarrow> (Inr (), s)
      | Some w \<Rightarrow>
          if wf_status w \<notin> {QUEUING, TIMING_TASK} then (Inr (), s)
          else
            (let username = (case get_user s operator_id of None \<Rightarrow> ''system'' | Some r \<Rightarrow> us_username r);
                 u = task_operator operator_id username
             in case get_instance s (wf_instance_id w) of
                  None \<Rightarrow> (Inr (), put_workflow (w\<lparr>wf_status := EXCEPTION\<rparr>) s)
                | Some inst \<Rightarrow>
                    (let w1 = w\<lparr>wf_execute_mode := Some (or_opt (wf_execute_mode w) ''immediate''),
                               wf_executed_by_id := (if truthy_id (wf_executed_by_id w) then wf_executed_by_id w
                                                     else Some operator_id),
                               wf_executed_by_name := Some (or_opt (wf_executed_by_name w) username),
                               wf_status := EXECUTING\<rparr>;
                         s1 = emit (run_event ''execution_started'' w1 operator_id) (put_workflow w1 s)
                     in case engines inst of
                          Inl e \<Rightarrow> (Inl e, s1)
                        | Inr run \<Rightarrow>
                            (case finish_run s1 w1 u (run (wf_db_name w) (sql_of_workflow s1 wid))
                                    (\<lambda>st. py_str_int (workflow_status_int st)) now of
                               Inl e \<Rightarrow> (Inl e, s1)
                             | Inr (w2, s2) \<Rightarrow>
                                 (Inr (), emit (run_event (if wf_status w2 = FINISH then ''execution_succeeded''
                                                           else ''execution_failed'') w2 operator_id) s2)))))"

text \<open>
  The due rows in the order of the query; rows locked by another transaction are skipped.
\<close>

definition due_workflows :: "store \<Rightarrow> time \<Rightarrow> (int \<Rightarrow> bool) \<Rightarrow> nat \<Rightarrow> workflow list" where
  "due_workflows s now locked lim =
     take lim (filter (\<lambda>w. \<not> locked (wf_id w))
       (sort_key (\<lambda>w. the (wf_scheduled_execute_at w)) (sort_key wf_id
         (filter (\<lambda>w. wf_status w = TIMING_TASK \<and> (case wf_scheduled_execute_at w of None \<Rightarrow> False | Some t \<Rightarrow> t \<le> now))
           (st_workflows s)))))"

text \<open>
  The loop of the dispatcher: \<open>delay\<close> may fail for a workflow; the tasks sent before the
  failure stay sent, the row changes are rolled back.
\<close>

fun dispatch_loop :: "(int \<Rightarrow> bool) \<Rightarrow> workflow list \<Rightarrow> store \<Rightarrow> celery_task list \<Rightarrow> store option \<times> celery_task list" where
  "dispatch_loop delay_ok [] s sent = (Some s, sent)"
| "dispatch_loop delay_ok (w # ws) s sent =
     (let operator_id = (if truthy_id (wf_executed_by_id w) then the (wf_executed_by_id w) else wf_engineer_id w);
          s1 = put_workflow (w\<lparr>wf_status := QUEUING, wf_execute_mode := Some ''scheduled''\<rparr>) s
      in if delay_ok (wf_id w)
         then dispatch_loop delay_ok ws s1 (sent @ [ExecuteWorkflow (wf_id w) operator_id])
         else (None, sent))"

definition dispatch_scheduled :: "store \<Rightarrow> time \<Rightarrow> (int \<Rightarrow> bool) \<Rightarrow> (int \<Rightarrow> bool) \<Rightarrow> nat \<Rightarrow> nat outcome" where
  "dispatch_scheduled s now locked delay_ok lim =
     (case dispatch_loop delay_ok (due_workflows s now locked lim) s [] of
        (Some s1, sent) \<Rightarrow> (Inr (length sent), fold deliver sent s1)
      | (None, sent) \<Rightarrow> (Inl (RawException (EngineRaised ''broker'')), fold deliver sent s))"

section \<open>Views\<close>

definition EXECUTION_RECORD_STATUSES :: "workflow_status list" where
  "EXECUTION_RECORD_STATUSES = [REVIEW_PASS, TIMING_TASK, QUEUING, EXECUTING, FINISH, EXCEPTION]"

text \<open>
  The filters of the list. \<open>ilike pattern text\<close> is PostgreSQL's operator and
  \<open>fromisoformat\<close> the parser of the two date filters (\<open>None\<close>: \<open>ValueError\<close>, the
  filter is dropped); \<open>day\<close> is the \<open>timedelta(days=1)\<close>.
\<close>

record list_filter =
  lf_view :: string
  lf_status :: "int option"
  lf_instance_id :: "int option"
  lf_search :: "string option"
  lf_engineer :: "string option"
  lf_db_name :: "string option"
  lf_date_start :: "string option"
  lf_date_end :: "string option"

definition opt_filter :: "string option \<Rightarrow> (string \<Rightarrow> bool) \<Rightarrow> bool" where
  "opt_filter x f = (truthy x \<longrightarrow> f (the x))"

definition contains_pattern :: "string \<Rightarrow> string" where
  "contains_pattern x = ''%'' @ x @ ''%''"

definition day :: time where "day = 86400000000"

definition matches_filter :: "(string \<Rightarrow> string \<Rightarrow> bool) \<Rightarrow> (string \<Rightarrow> time option) \<Rightarrow> list_filter \<Rightarrow> workflow \<Rightarrow> bool" where
  "matches_filter ilike fromisoformat f w \<longleftrightarrow>
     (case lf_status f of None \<Rightarrow> True | Some n \<Rightarrow> workflow_status_int (wf_status w) = n)
     \<and> (if truthy_id (lf_instance_id f) then wf_instance_id w = the (lf_instance_id f) else True)
     \<and> opt_filter (lf_search f) (\<lambda>x. ilike (contains_pattern x) (wf_name w))
     \<and> opt_filter (lf_engineer f) (\<lambda>x. ilike (contains_pattern x) (wf_engineer w)
          \<or> ilike (contains_pattern x) (wf_engineer_display w))
     \<and> opt_filter (lf_db_name f) (\<lambda>x. ilike (contains_pattern x) (wf_db_name w))
     \<and> opt_filter (lf_date_start f) (\<lambda>x. case fromisoformat x of None \<Rightarrow> True | Some ds \<Rightarrow> wf_created_at w \<ge> ds)
     \<and> opt_filter (lf_date_end f) (\<lambda>x. case fromisoformat x of None \<Rightarrow> True | Some de \<Rightarrow> wf_created_at w < de + day)"

definition related_ids :: "store \<Rightarrow> operator \<Rightarrow> int list res" where
  "related_ids s u =
     rbind (get_pending_workflow_ids_for_user s u) (\<lambda>pending.
       Inr (pending @ get_audited_workflow_ids_for_user s u))"

text \<open>The rows of a view, before the other filters, and the scope of the scope view.\<close>

definition view_rows :: "store \<Rightarrow> operator \<Rightarrow> string \<Rightarrow> (workflow list \<times> gov_scope option) res" where
  "view_rows s u view =
     (let rows = st_workflows s in
      if view = ''mine'' then Inr (filter (\<lambda>w. wf_engineer_id w = op_id u) rows, None)
      else if view = ''audit'' then
        rbind (related_ids s u) (\<lambda>ids.
          Inr (if ids \<noteq> [] then filter (\<lambda>w. wf_id w \<in> set ids) rows
               else filter (\<lambda>w. wf_id w = -1) rows, None))
      else if view = ''execute'' then
        (let done = filter (\<lambda>w. wf_status w \<in> set EXECUTION_RECORD_STATUSES) rows in
         Inr (if \<not> op_is_superuser u \<and> \<not> has_perm u ''sql_execute''
              then filter (\<lambda>w. wf_engineer_id w = op_id u) done else done, None))
      else if view = ''scope'' then
        (let sc = resolve s u DomWorkflow in
         Inr (apply_scope sc (\<lambda>w. Some (wf_engineer_id w)) (\<lambda>w. Some (wf_instance_id w)) rows, Some sc))
      else Inl (app_exc (WorkflowMsg ViewUnsupported) 400))"

text \<open>\<open>{audit.workflow_id: audit}\<close>: the last record of a workflow wins.\<close>

definition audit_map :: "store \<Rightarrow> int \<Rightarrow> workflow_audit option" where
  "audit_map s wid = (case rev (audits_of s wid) of [] \<Rightarrow> None | a # _ \<Rightarrow> Some a)"

fun operator_usernames :: "workflow_audit list \<Rightarrow> string list res" where
  "operator_usernames [] = Inr []"
| "operator_usernames (a # as) =
     rbind (loads_nodes (wa_nodes a)) (\<lambda>nodes.
     rbind (operator_usernames as) (\<lambda>names.
       Inr (map (\<lambda>n. py_strip (the (n_operator n))) (filter (\<lambda>n. truthy (n_operator n)) nodes) @ names)))"

definition operator_display_map :: "store \<Rightarrow> string list \<Rightarrow> (string \<times> string) list" where
  "operator_display_map s names =
     map (\<lambda>r. (us_username r, or_str (us_display_name r) (us_username r)))
       (filter (\<lambda>r. us_username r \<in> set names) (st_users s))"

definition list_item :: "store \<Rightarrow> operator \<Rightarrow> (string \<times> string) list \<Rightarrow> workflow \<Rightarrow> workflow_item res" where
  "list_item s u display_map w =
     (let item = fmt_workflow w (content_of s (wf_id w)) (instance_name_of s (wf_instance_id w)) in
      case audit_map s (wf_id w) of
        None \<Rightarrow> Inr (item\<lparr>wi_can_cancel := can_cancel_workflow w u []\<rparr>)
      | Some a \<Rightarrow>
          rbind (loads_nodes (wa_nodes a)) (\<lambda>nodes.
            let item1 = item\<lparr>wi_type := wa_workflow_type a, wi_type_label := WORKFLOW_TYPE_LABEL (wa_workflow_type a)\<rparr>;
                item2 = (if wa_nodes a = NodesEmpty then item1
                         else item1\<lparr>wi_current_node_name := get_current_node_name nodes (wf_status w),
                                    wi_audit_chain_text := build_audit_chain_text nodes (wf_status w) display_map\<rparr>)
            in Inr (item2\<lparr>wi_can_cancel := can_cancel_workflow w u nodes\<rparr>)))"

fun list_items :: "store \<Rightarrow> operator \<Rightarrow> (string \<times> string) list \<Rightarrow> workflow list \<Rightarrow> workflow_item list res" where
  "list_items s u m [] = Inr []"
| "list_items s u m (w # ws) =
     rbind (list_item s u m w) (\<lambda>i. rbind (list_items s u m ws) (\<lambda>is. Inr (i # is)))"

definition list_workflows ::
    "store \<Rightarrow> operator \<Rightarrow> (string \<Rightarrow> string \<Rightarrow> bool) \<Rightarrow> (string \<Rightarrow> time option) \<Rightarrow> list_filter \<Rightarrow> nat \<Rightarrow> nat
       \<Rightarrow> (nat \<times> workflow_item list \<times> string option) res" where
  "list_workflows s u ilike fromisoformat f page page_size =
     rbind (view_rows s u (lf_view f)) (\<lambda>(rows, sc).
       let matching = filter (matches_filter ilike fromisoformat f) rows;
           shown = page_of page page_size (sort_key (\<lambda>w. - wf_created_at w) matching);
           audits = concat (map (\<lambda>w. case audit_map s (wf_id w) of None \<Rightarrow> [] | Some a \<Rightarrow> [a]) shown)
       in rbind (operator_usernames audits) (\<lambda>names.
          rbind (list_items s u (operator_display_map s names) shown) (\<lambda>items.
            Inr (length matching, items, map_option sc_mode sc))))"

text \<open>Object-level authorisation.\<close>

definition can_view_workflow :: "store \<Rightarrow> workflow \<Rightarrow> operator \<Rightarrow> bool res" where
  "can_view_workflow s w u =
     (if op_is_superuser u then Inr True
      else if wf_engineer_id w = op_id u then Inr True
      else rbind (related_ids s u) (\<lambda>ids.
        if wf_id w \<in> set ids then Inr True
        else let sc = resolve s u DomWorkflow in
          if sc_mode sc = ''global'' then Inr True
          else if sc_mode sc = ''instance_scope''
          then Inr (wf_instance_id w \<in> set (list_or_empty (sc_instance_ids sc)))
          else Inr False))"

record workflow_detail =
  wd_item :: workflow_item
  wd_sql_content :: string
  wd_review_content :: "(string \<times> int \<times> string) list"
  wd_execute_result :: exec_result
  wd_risk_plan :: "risk_plan option"
  wd_audit_logs :: "log_item list"
  wd_audit_info :: "audit_info option"
  wd_can_audit :: bool
  wd_can_execute :: bool
  wd_can_cancel :: bool

definition can_audit_flag :: "store \<Rightarrow> operator \<Rightarrow> workflow \<Rightarrow> audit_info option \<Rightarrow> bool res" where
  "can_audit_flag s u w info =
     (case (case info of None \<Rightarrow> None | Some i \<Rightarrow> current_pending (ai_nodes i)) of
        None \<Rightarrow> Inr False
      | Some n \<Rightarrow>
          if wf_status w = PENDING_REVIEW
          then (case check_approver_permission s u n of
                  Inr _ \<Rightarrow> Inr True | Inl e \<Rightarrow> if is_app_exc e then Inr False else Inl e)
          else Inr False)"

definition can_execute_flag :: "operator \<Rightarrow> workflow \<Rightarrow> bool" where
  "can_execute_flag u w \<longleftrightarrow> wf_status w = REVIEW_PASS \<and> (op_is_superuser u \<or> has_perm u ''sql_execute'')"

definition get_detail :: "store \<Rightarrow> int \<Rightarrow> operator \<Rightarrow> workflow_detail res" where
  "get_detail s wid u =
     (case get_workflow s wid of
        None \<Rightarrow> Inl (not_found_exc (AuditMsg (WorkflowNotFound wid)))
      | Some w \<Rightarrow>
          rbind (can_view_workflow s w u) (\<lambda>visible.
          raise_if (\<not> visible) (not_found_exc (AuditMsg (WorkflowNotFound wid)))
          (let content = content_of s wid;
               item = fmt_workflow w content (instance_name_of s (wf_instance_id w))
           in rbind (get_audit_info s wid) (\<lambda>info.
              rbind (get_audit_logs s wid) (\<lambda>logs.
              rbind (can_audit_flag s u w info) (\<lambda>can_audit.
                Inr \<lparr> wd_item = (case info of None \<Rightarrow> item
                         | Some i \<Rightarrow> item\<lparr>wi_type := ai_workflow_type i,
                                        wi_type_label := WORKFLOW_TYPE_LABEL (ai_workflow_type i)\<rparr>),
                      wd_sql_content = (case content of None \<Rightarrow> [] | Some c \<Rightarrow> wc_sql_content c),
                      wd_review_content = (case content of None \<Rightarrow> [] | Some c \<Rightarrow> wc_review_content c),
                      wd_execute_result = (case content of None \<Rightarrow> ResNone | Some c \<Rightarrow> wc_execute_result c),
                      wd_risk_plan = (case content of None \<Rightarrow> None | Some c \<Rightarrow> wc_risk_plan c),
                      wd_audit_logs = logs, wd_audit_info = info,
                      wd_can_audit = can_audit,
                      wd_can_execute = can_execute_flag u w,
                      wd_can_cancel = can_cancel_workflow w u
                        (case info of None \<Rightarrow> [] | Some i \<Rightarrow> ai_nodes i) \<rparr>))))))"

definition check_sql ::
    "store \<Rightarrow> db_instance check_engine \<Rightarrow> int \<Rightarrow> string \<Rightarrow> string \<Rightarrow> (int \<times> string \<times> int \<times> string \<times> string) list res" where
  "check_sql s engines instance_id db_name sql =
     (case get_instance s instance_id of
        None \<Rightarrow> Inl (not_found_exc (WorkflowMsg (InstanceNotFound instance_id)))
      | Some inst \<Rightarrow>
          rbind (engines inst) (\<lambda>execute_check.
          rbind (lift_raised (execute_check db_name sql)) (\<lambda>rs.
            Inr (map (\<lambda>i. (si_id i, si_sql i, si_errlevel i, si_errormessage i, si_stagestatus i)) (rs_rows rs)))))"

definition pending_for_me ::
    "store \<Rightarrow> operator \<Rightarrow> nat \<Rightarrow> nat \<Rightarrow> (nat \<times> (workflow_item \<times> int \<times> string \<times> string) list) res" where
  "pending_for_me s u page page_size = get_pending_for_user s u page page_size"

section \<open>Submission: lemmas\<close>

lemma precheck_gate_ok:
  "precheck_gate rs plan priv can remark = Inr x \<longleftrightarrow>
     rs_error rs = [] \<and> (rs_error_count rs > 0 \<longrightarrow> priv) \<and> (priv \<longrightarrow> can)
     \<and> (rp_requires_manual_remark plan \<longrightarrow> py_strip remark \<noteq> [])"
  by (auto simp: precheck_gate_def res_simps)

lemma pick_group_ok:
  assumes "pick_group u inst g = Inr rg"
  shows "rg \<in> set (matched_groups u inst) \<and> (g = None \<or> g = Some (rg_id rg))"
proof -
  let ?chosen = "case g of None \<Rightarrow> matched_groups u inst | Some i \<Rightarrow> filter (\<lambda>rg. rg_id rg = i) (matched_groups u inst)"
  have "?chosen \<noteq> []" and rg: "rg = hd (sort_key rg_id ?chosen)"
    using assms by (auto simp: pick_group_def Let_def res_simps)
  then have "sort_key rg_id ?chosen \<noteq> []" by (metis set_empty set_sort)
  then have "rg \<in> set (sort_key rg_id ?chosen)" unfolding rg by (rule hd_in_set)
  then have "rg \<in> set ?chosen" by simp
  then show ?thesis by (cases g) auto
qed

lemma submission_snapshot_ok:
  assumes "submission_snapshot s f u = Inr ns"
  shows "case ns of None \<Rightarrow> f = None \<or> f = Some 0 | Some nodes \<Rightarrow> nodes \<noteq> [] \<and> all_pending nodes"
  using assms snapshot_pending
  by (auto simp: submission_snapshot_def truthy_id_def res_simps decorate_snapshot_for_applicant_def
      all_pending_def split: if_splits)

lemma legacy_nodes_pending: "legacy_nodes gs \<noteq> [] \<and> all_pending (legacy_nodes gs)"
  by (auto simp: legacy_nodes_def all_pending_def legacy_node_def)

definition audit_nodes_of :: "workflow \<Rightarrow> node list option \<Rightarrow> node list" where
  "audit_nodes_of w nodes = (case nodes of Some ns \<Rightarrow> ns | None \<Rightarrow> legacy_nodes (raw_groups (wf_audit_auth_groups w)))"

lemma create_audit_record:
  assumes "create_audit s w ty u nodes now = (a, s')"
  shows "wa_id a = st_next_id s \<and> wa_workflow_id a = wf_id w \<and> wa_workflow_type a = ty
    \<and> wa_current_status a = PENDING \<and> wa_nodes a = NodesList (audit_nodes_of w nodes)
    \<and> st_audits s' = st_audits s @ [a] \<and> st_workflows s' = st_workflows s
    \<and> st_contents s' = st_contents s \<and> st_jobs s' = st_jobs s \<and> st_next_id s' = st_next_id s + 2"
  using assms
  by (cases nodes) (auto simp: create_audit_def Let_def audit_nodes_of_def write_log_def add_log_def add_audit_def)

lemma emit_submitted_tables [simp]:
  "st_workflows (emit_submitted w ty a s) = st_workflows s" "st_audits (emit_submitted w ty a s) = st_audits s"
  "st_contents (emit_submitted w ty a s) = st_contents s" "st_jobs (emit_submitted w ty a s) = st_jobs s"
  "st_next_id (emit_submitted w ty a s) = st_next_id s"
  by (auto simp: emit_submitted_def emit_def split: option.splits)

lemma insert_workflow_tables:
  assumes "insert_workflow s d rg u rs plan nodes now = (wid, s')"
  shows "wid = st_next_id s"
    "st_workflows s' = st_workflows s @ [new_workflow wid d rg u now]"
    "\<exists>a. st_audits s' = st_audits s @ [a] \<and> wa_workflow_id a = wid \<and> wa_id a = wid + 2 \<and> wa_workflow_type a = WT_SQL
      \<and> wa_current_status a = PENDING \<and> wa_nodes a = NodesList (audit_nodes_of (new_workflow wid d rg u now) nodes)"
    "\<exists>c. st_contents s' = st_contents s @ [c] \<and> wc_workflow_id c = wid \<and> wc_sql_content c = cr_sql_content d
      \<and> wc_risk_plan c = Some plan \<and> wc_execute_result c = ResNone"
    "st_next_id s' = st_next_id s + 4" "st_jobs s' = st_jobs s"
proof -
  let ?w = "new_workflow (st_next_id s) d rg u now"
  let ?c = "\<lparr> wc_id = st_next_id s + 1, wc_workflow_id = wf_id ?w, wc_sql_content = cr_sql_content d,
      wc_review_content = map (\<lambda>i. (si_sql i, si_errlevel i, si_errormessage i)) (rs_rows rs),
      wc_execute_result = ResNone, wc_risk_plan = Some plan, wc_risk_remark = cr_risk_remark d \<rparr>"
  let ?s2 = "add_content ?c (add_workflow ?w s)"
  have i: "wf_id ?w = st_next_id s" by (simp add: new_workflow_def)
  obtain a s3 where ca: "create_audit ?s2 ?w WT_SQL u nodes now = (a, s3)" by fastforce
  have e: "wid = st_next_id s" "s' = emit_submitted ?w WT_SQL a s3"
    using assms ca i by (auto simp: insert_workflow_def Let_def add_workflow_def)
  note rec = create_audit_record [OF ca]
  have two: "st_next_id ?s2 = st_next_id s + 2" "st_workflows ?s2 = st_workflows s @ [?w]"
    "st_contents ?s2 = st_contents s @ [?c]" "st_audits ?s2 = st_audits s" "st_jobs ?s2 = st_jobs s"
    by (simp_all add: add_content_def add_workflow_def)
  show "wid = st_next_id s" by (fact e(1))
  show "st_workflows s' = st_workflows s @ [new_workflow wid d rg u now]"
    using rec two e by simp
  show "\<exists>a. st_audits s' = st_audits s @ [a] \<and> wa_workflow_id a = wid \<and> wa_id a = wid + 2 \<and> wa_workflow_type a = WT_SQL
      \<and> wa_current_status a = PENDING \<and> wa_nodes a = NodesList (audit_nodes_of (new_workflow wid d rg u now) nodes)"
    using rec two e i by (intro exI [of _ a]) simp
  show "\<exists>c. st_contents s' = st_contents s @ [c] \<and> wc_workflow_id c = wid \<and> wc_sql_content c = cr_sql_content d
      \<and> wc_risk_plan c = Some plan \<and> wc_execute_result c = ResNone"
    using rec two e i by (intro exI [of _ ?c]) simp
  show "st_next_id s' = st_next_id s + 4" "st_jobs s' = st_jobs s"
    using rec two e by simp_all
qed

lemma create_ok:
  assumes "create s d u parse engines now = Inr (wid, s')"
  obtains inst rg nodes plan rs chk where
    "cr_flow_id d \<noteq> None" "get_instance s (cr_instance_id d) = Some inst"
    "py_lower (in_db_type inst) \<notin> set WORKFLOW_UNSUPPORTED_DB_TYPES"
    "pick_group u inst (cr_group_id d) = Inr rg" "submission_snapshot s (cr_flow_id d) u = Inr nodes"
    "plan = build_workflow_plan parse (py_lower (in_db_type inst)) (cr_db_name d) (cr_sql_content d)"
    "engines inst = Inr chk" "chk (cr_db_name d) (cr_sql_content d) = Inr rs"
    "precheck_gate rs plan (rp_level plan = High
        \<and> is_privileged_workflow_sql parse (py_lower (in_db_type inst)) (cr_sql_content d))
        (can_submit_high_risk_sql u) (cr_risk_remark d) = Inr ()"
    "insert_workflow s d rg u rs plan nodes now = (wid, s')"
proof -
  have lift: "lift_raised r = Inr x \<longleftrightarrow> r = Inr x" for r :: "'b raised" and x by (cases r) simp_all
  from assms obtain inst where inst: "get_instance s (cr_instance_id d) = Some inst"
    by (cases "get_instance s (cr_instance_id d)") (auto simp: create_def res_simps)
  from assms show ?thesis
    by (auto simp: create_def inst Let_def res_simps lift intro!: that [OF _ inst])
qed

section \<open>Execution: lemmas\<close>

lemma write_execution_log_frame:
  assumes "write_execution_log s wid u ty r now = Inr s1"
  shows "st_workflows s1 = st_workflows s" "st_audits s1 = st_audits s" "st_tasks s1 = st_tasks s"
    "st_contents s1 = st_contents s" "st_jobs s1 = st_jobs s" "st_instances s1 = st_instances s"
    "st_next_id s1 = st_next_id s \<or> st_next_id s1 = st_next_id s + 1"
  using assms by (auto simp: write_execution_log_def res_simps write_log_def add_log_def split: option.splits)

lemma write_execution_log_get [simp]:
  "write_execution_log s wid u ty r now = Inr s1 \<Longrightarrow> get_workflow s1 k = get_workflow s k"
  by (drule write_execution_log_frame(1)) (simp add: get_workflow_def)

lemma get_put_loaded:
  "get_workflow s wid = Some w \<Longrightarrow> wf_id w1 = wf_id w \<Longrightarrow> get_workflow (put_workflow w1 s) wid = Some w1"
  by (rule workflow_tab.sel_put_loaded)

lemma finish_run_ok:
  assumes "finish_run s w u r describe now = Inr (w1, s1)" "get_workflow s wid = Some w0" "wf_id w = wf_id w0"
  shows "w1 = w\<lparr>wf_status := fst (run_result r), wf_finish_time := Some now\<rparr>" "get_workflow s1 wid = Some w1"
proof -
  show w1: "w1 = w\<lparr>wf_status := fst (run_result r), wf_finish_time := Some now\<rparr>"
    using assms(1) by (auto simp: finish_run_def Let_def res_simps split: prod.splits)
  from assms(1) obtain s2 where "st_workflows s1 = st_workflows (put_workflow w1 s2)" "get_workflow s2 wid = Some w0"
    using assms(2) unfolding finish_run_def
    by (auto simp: Let_def res_simps w1 split: prod.splits dest!: write_execution_log_frame(1)) 
  then show "get_workflow s1 wid = Some w1"
    using get_put_loaded [of s2 wid w0 w1] assms(3) w1 by (simp add: get_workflow_def)
qed

lemma run_result_terminal: "fst (run_result r) \<in> {FINISH, EXCEPTION}"
  by (simp add: run_result_def split: sum.split)

lemma run_result_finish: "fst (run_result r) = FINISH \<longleftrightarrow> (\<exists>rs. r = Inr rs \<and> rs_error rs = [])"
  by (auto simp: run_result_def split: sum.split)

text \<open>The row of the workflow after a platform run.\<close>

lemma execute_sync_row:
  assumes "get_workflow s wid = Some w0" "wf_id w = wf_id w0"
  shows "\<exists>w1. get_workflow (snd (execute_sync s w u engines now)) wid = Some w1
    \<and> wf_status w1 \<in> {EXECUTING, FINISH, EXCEPTION}"
proof (cases "get_instance s (wf_instance_id w)")
  case None
  then show ?thesis using get_put_loaded [OF assms(1), of "w\<lparr>wf_status := EXCEPTION\<rparr>"] assms(2)
    by (simp add: execute_sync_def)
next
  case (Some inst)
  let ?w1 = "w\<lparr>wf_status := EXECUTING\<rparr>"
  have s1: "get_workflow (put_workflow ?w1 s) wid = Some ?w1"
    using get_put_loaded [OF assms(1), of ?w1] assms(2) by simp
  show ?thesis
  proof (cases "engines inst")
    case (Inl e)
    with Some s1 show ?thesis by (simp add: execute_sync_def)
  next
    case (Inr run)
    let ?r = "run (wf_db_name w) (sql_of_workflow (put_workflow ?w1 s) (wf_id w))"
    show ?thesis
    proof (cases "finish_run (put_workflow ?w1 s) ?w1 u ?r STATUS_DESC now")
      case (Inl e)
      with Some Inr s1 show ?thesis by (simp add: execute_sync_def)
    next
      case (Inr p)
      obtain w2 s2 where p: "p = (w2, s2)" by (cases p)
      from finish_run_ok [OF Inr [unfolded p] s1] run_result_terminal [of ?r]
      show ?thesis using Some \<open>engines inst = Inr run\<close> Inr p by (auto simp: execute_sync_def)
    qed
  qed
qed

lemma execute_ok:
  assumes "execute s wid u d celery engines now = (Inr reply, s1)"
  shows "\<exists>w w1. get_workflow s wid = Some w \<and> wf_status w = REVIEW_PASS \<and> get_workflow s1 wid = Some w1
    \<and> wf_status w1 \<in> {QUEUING, TIMING_TASK, EXECUTING, FINISH, EXCEPTION}"
proof -
  from assms obtain w where w: "get_workflow s wid = Some w" "wf_status w = REVIEW_PASS"
    by (auto simp: execute_def split: option.splits if_splits)
  have "\<exists>w1. get_workflow s1 wid = Some w1 \<and> wf_status w1 \<in> {QUEUING, TIMING_TASK, EXECUTING, FINISH, EXCEPTION}"
  proof (cases "ex_mode d = ''scheduled''")
    case True
    with assms w have "schedule_execution s w u d now = Inr (reply, s1)"
      by (auto simp: execute_def one_commit_def split: sum.splits)
    then show ?thesis using get_put_loaded [OF w(1)]
      by (auto simp: schedule_execution_def Let_def res_simps split: option.splits)
  next
    case False
    show ?thesis
    proof (cases "ex_mode d = ''external''")
      case True
      with assms w have "record_external_execution s w u d now = Inr (reply, s1)"
        by (auto simp: execute_def one_commit_def split: sum.splits)
      then show ?thesis using get_put_loaded [OF w(1)]
        by (auto simp: record_external_execution_def Let_def res_simps split: option.splits)
    next
      case False
      let ?w1 = "w\<lparr>wf_execute_mode := Some ''immediate'', wf_executed_by_id := Some (op_id u),
          wf_executed_by_name := Some (operator_display u), wf_scheduled_execute_at := None, wf_status := QUEUING\<rparr>"
      from False \<open>ex_mode d \<noteq> ''scheduled''\<close> assms w
      have im: "execute_immediately s w u celery engines now = (Inr reply, s1)" by (simp add: execute_def)
      then obtain s2 where s2: "write_execution_log (put_workflow ?w1 s) (wf_id w) u OP_EXECUTE
          ''queued for platform execution'' now = Inr s2"
        by (auto simp: execute_immediately_def Let_def split: sum.splits)
      then have g2: "get_workflow s2 wid = Some ?w1" using get_put_loaded [OF w(1), of ?w1] by simp
      show ?thesis
      proof (cases celery)
        case True
        with im s2 g2 show ?thesis by (auto simp: execute_immediately_def Let_def)
      next
        case False
        with im s2 have "s1 = snd (execute_sync s2 ?w1 u engines now)"
          by (auto simp: execute_immediately_def Let_def split: prod.splits sum.splits)
        with execute_sync_row [OF g2, of ?w1 u engines now] show ?thesis by auto
      qed
    qed
  qed
  with w show ?thesis by blast
qed

text \<open>The worker: what a run of it leaves in the row.\<close>

lemma execute_async_row:
  assumes "get_workflow s wid = Some w"
  shows "\<exists>w1. get_workflow (snd (execute_async s wid op engines now)) wid = Some w1
    \<and> wf_status w1 \<notin> {QUEUING, TIMING_TASK}
    \<and> (wf_status w \<in> {QUEUING, TIMING_TASK} \<longrightarrow> wf_status w1 \<in> {EXECUTING, FINISH, EXCEPTION})"
proof (cases "wf_status w \<in> {QUEUING, TIMING_TASK}")
  case False
  with assms show ?thesis by (simp add: execute_async_def)
next
  case True
  note st = this
  show ?thesis
  proof (cases "get_instance s (wf_instance_id w)")
    case None
    with st assms get_put_loaded [OF assms, of "w\<lparr>wf_status := EXCEPTION\<rparr>"]
    show ?thesis by (auto simp: execute_async_def Let_def)
  next
    case (Some inst)
    define name where "name = (case get_user s op of None \<Rightarrow> ''system'' | Some r \<Rightarrow> us_username r)"
    define w1 where "w1 = w\<lparr>wf_execute_mode := Some (or_opt (wf_execute_mode w) ''immediate''),
        wf_executed_by_id := (if truthy_id (wf_executed_by_id w) then wf_executed_by_id w else Some op),
        wf_executed_by_name := Some (or_opt (wf_executed_by_name w) name), wf_status := EXECUTING\<rparr>"
    define s1 where "s1 = emit (run_event ''execution_started'' w1 op) (put_workflow w1 s)"
    have id: "wf_id w1 = wf_id w" and ex: "wf_status w1 = EXECUTING" by (simp_all add: w1_def)
    have g1: "get_workflow s1 wid = Some w1" using get_put_loaded [OF assms id] by (simp add: s1_def)
    have run: "execute_async s wid op engines now = (case engines inst of
        Inl e \<Rightarrow> (Inl e, s1)
      | Inr run \<Rightarrow> (case finish_run s1 w1 (task_operator op name) (run (wf_db_name w) (sql_of_workflow s1 wid))
            (\<lambda>st. py_str_int (workflow_status_int st)) now of
          Inl e \<Rightarrow> (Inl e, s1)
        | Inr (w2, s2) \<Rightarrow> (Inr (), emit (run_event (if wf_status w2 = FINISH then ''execution_succeeded''
              else ''execution_failed'') w2 op) s2)))"
      using st assms Some unfolding execute_async_def s1_def w1_def name_def Let_def by simp
    show ?thesis
    proof (cases "engines inst")
      case (Inl e)
      with run g1 ex show ?thesis by simp
    next
      case (Inr r)
      note eng = this
      show ?thesis
      proof (cases "finish_run s1 w1 (task_operator op name) (r (wf_db_name w) (sql_of_workflow s1 wid))
            (\<lambda>st. py_str_int (workflow_status_int st)) now")
        case (Inl e)
        with run g1 ex eng show ?thesis by simp
      next
        case (Inr p)
        obtain w2 s2 where p: "p = (w2, s2)" by (cases p)
        note f = finish_run_ok [OF Inr [unfolded p] g1 refl]
        from f(1) run_result_terminal have "wf_status w2 \<in> {FINISH, EXCEPTION}" by auto
        with run eng Inr p f(2) show ?thesis by auto
      qed
    qed
  qed
qed

lemma execute_async_idle:
  "(\<And>w. get_workflow s wid = Some w \<Longrightarrow> wf_status w \<notin> {QUEUING, TIMING_TASK}) \<Longrightarrow>
     execute_async s wid op engines now = (Inr (), s)"
  by (cases "get_workflow s wid") (auto simp: execute_async_def)

section \<open>Dispatch: lemmas\<close>

definition is_due :: "time \<Rightarrow> workflow \<Rightarrow> bool" where
  "is_due now w \<longleftrightarrow> wf_status w = TIMING_TASK
     \<and> (case wf_scheduled_execute_at w of None \<Rightarrow> False | Some t \<Rightarrow> t \<le> now)"

lemma due_workflows_set:
  "w \<in> set (due_workflows s now locked lim) \<Longrightarrow> w \<in> set (st_workflows s) \<and> is_due now w \<and> \<not> locked (wf_id w)"
  unfolding due_workflows_def is_due_def
  by (drule in_set_takeD) simp

lemma distinct_due_workflows:
  assumes "workflows_wf s"
  shows "distinct (map wf_id (due_workflows s now locked lim))"
proof -
  have "distinct (map wf_id (filter p (sort_key f (sort_key wf_id (filter q (st_workflows s))))))" for p q and f :: "workflow \<Rightarrow> int"
  proof -
    have "distinct (map wf_id (filter q (st_workflows s)))"
      using assms by (simp add: workflows_wf_def table_wf_def distinct_map_filter)
    then have "distinct (map wf_id (sort_key f (sort_key wf_id (filter q (st_workflows s)))))"
      by (simp add: distinct_map)
    then show ?thesis by (rule distinct_map_filter)
  qed
  then show ?thesis by (simp add: due_workflows_def take_map [symmetric])
qed

definition dispatched :: "workflow \<Rightarrow> workflow" where
  "dispatched w = w\<lparr>wf_status := QUEUING, wf_execute_mode := Some ''scheduled''\<rparr>"

definition dispatch_task :: "workflow \<Rightarrow> celery_task" where
  "dispatch_task w = ExecuteWorkflow (wf_id w)
     (if truthy_id (wf_executed_by_id w) then the (wf_executed_by_id w) else wf_engineer_id w)"

lemma dispatch_loop_ok:
  assumes "dispatch_loop ok ws s sent = (Some s', sent')"
  shows "sent' = sent @ map dispatch_task ws"
    "get_workflow s' k = (if k \<in> wf_id ` set ws \<and> get_workflow s k \<noteq> None
       then (case find (\<lambda>w. wf_id w = k) (rev ws) of Some w \<Rightarrow> Some (dispatched w) | None \<Rightarrow> None) else get_workflow s k)"
    "st_tasks s' = st_tasks s"
proof -
  have "sent' = sent @ map dispatch_task ws \<and> st_tasks s' = st_tasks s \<and>
    get_workflow s' k = (if k \<in> wf_id ` set ws \<and> get_workflow s k \<noteq> None
       then (case find (\<lambda>w. wf_id w = k) (rev ws) of Some w \<Rightarrow> Some (dispatched w) | None \<Rightarrow> None) else get_workflow s k)"
    using assms
  proof (induction ws arbitrary: s sent)
    case Nil
    then show ?case by simp
  next
    case (Cons w ws)
    let ?s1 = "put_workflow (dispatched w) s"
    from Cons.prems have "ok (wf_id w)"
      and rest: "dispatch_loop ok ws ?s1 (sent @ [dispatch_task w]) = (Some s', sent')"
      by (auto simp: Let_def dispatched_def dispatch_task_def split: if_split_asm)
    have id: "wf_id (dispatched w) = wf_id w" by (simp add: dispatched_def)
    have app: "find p (xs @ [x]) = (case find p xs of Some y \<Rightarrow> Some y | None \<Rightarrow> if p x then Some x else None)" for p xs and x :: workflow
      by (induction xs) auto
    have none: "find (\<lambda>w. wf_id w = k) (rev ws) = None \<longleftrightarrow> k \<notin> wf_id ` set ws"
      by (auto simp: find_None_iff)
    have t1: "st_tasks ?s1 = st_tasks s" by (simp add: put_workflow_def)
    have g1: "get_workflow ?s1 j = (if j = wf_id w then map_option (\<lambda>_. dispatched w) (get_workflow s j) else get_workflow s j)" for j
      by (simp add: workflow_tab.sel_put id)
    from Cons.IH [OF rest] show ?case
      by (cases "get_workflow s k"; cases "k = wf_id w"; cases "find (\<lambda>w. wf_id w = k) (rev ws)")
        (use none in \<open>auto simp: g1 t1 app\<close>)
  qed
  then show "sent' = sent @ map dispatch_task ws"
    "get_workflow s' k = (if k \<in> wf_id ` set ws \<and> get_workflow s k \<noteq> None
       then (case find (\<lambda>w. wf_id w = k) (rev ws) of Some w \<Rightarrow> Some (dispatched w) | None \<Rightarrow> None) else get_workflow s k)"
    "st_tasks s' = st_tasks s" by auto
qed

section \<open>Properties\<close>


text \<open>A concrete submission: an insert, by the developer of the sample data.\<close>

definition insert_ast :: ast where
  "insert_ast = Ast ''Insert'' [] [] [] [] [] [(''this'', [Ast ''Table'' [] ''log'' [] [] [] []])]"

definition sample_parse :: sql_parser where
  "sample_parse dialect sql = Inr [Some insert_ast]"

definition ok_review :: review_set where
  "ok_review = \<lparr> rs_rows = [], rs_error = [], rs_warning_count = 0, rs_error_count = 0 \<rparr>"

definition sample_engines :: exec_engines where
  "sample_engines inst = Inr (\<lambda>db_name sql. Inr ok_review)"

definition sample_request :: workflow_create where
  "sample_request = \<lparr> cr_workflow_name = ''w'', cr_group_id = None, cr_instance_id = 5, cr_db_name = ''app'',
     cr_sql_content = ''insert into log'', cr_syntax_type = 2, cr_is_backup = True, cr_run_date_start = None,
     cr_run_date_end = None, cr_flow_id = Some 0, cr_risk_remark = ''rollback by delete'' \<rparr>"

lemma sample_instance_get [simp]: "get_instance sample_store 5 = Some sample_instance"
  by (simp add: get_instance_def table_simps) (simp add: sample_instance_def)

lemma sample_create:
  "is_ok (create sample_store sample_request dev_op sample_parse sample_engines 200)"
proof -
  have "py_lower (in_db_type sample_instance) = ''mysql''"
    by (simp add: sample_instance_def py_lower_def lower_char_def char_code_def Let_def)
  moreover have "\<not> is_privileged_workflow_sql sample_parse ''mysql'' sql" for sql
    by (simp add: is_privileged_workflow_sql_def analyze_sql_def Let_def sample_parse_def insert_ast_def
        privileged_facts_def statement_facts_def DDL_CLASSES_def py_upper_ascii_def)
  moreover have "pick_group dev_op sample_instance None = Inr sample_group"
    by (simp add: pick_group_def matched_groups_def sample_instance_def sample_group_def dev_op_def Let_def)
  moreover have "py_strip (cr_risk_remark sample_request) \<noteq> []"
    by (simp add: sample_request_def py_strip_def py_lstrip_def py_isspace_def char_code_def)
  ultimately show ?thesis
    by (simp add: create_def WORKFLOW_UNSUPPORTED_DB_TYPES_def submission_snapshot_def truthy_id_def
        sample_engines_def precheck_gate_def ok_review_def Let_def sample_request_def res_simps)
qed


text \<open>
What a submission stores: a fresh workflow in review owned by the submitter, its SQL
unchanged with the plan and no result, and one SQL audit record with a non-empty chain of
pending nodes; every other row of the tables is kept.
\<close>

theorem create_starts_review:
  assumes "create s d u parse engines now = Inr (wid, s')" "workflows_wf s"
    and "\<forall>a\<in>set (st_audits s). wa_workflow_id a < st_next_id s" "\<forall>c\<in>set (st_contents s). wc_workflow_id c < st_next_id s"
  shows "get_workflow s wid = None
    \<and> (\<exists>w. get_workflow s' wid = Some w \<and> wf_engineer_id w = op_id u \<and> wf_engineer w = op_username u)
    \<and> (\<exists>ns. review_of s' wid = Some \<lparr> rv_workflow = PENDING_REVIEW, rv_audit = PENDING, rv_nodes = ns \<rparr>
         \<and> ns \<noteq> [] \<and> all_pending ns)
    \<and> (\<exists>c. content_of s' wid = Some c \<and> wc_sql_content c = cr_sql_content d \<and> wc_execute_result c = ResNone)
    \<and> (\<forall>k. k \<noteq> wid \<longrightarrow> get_workflow s' k = get_workflow s k \<and> audits_of s' k = audits_of s k)"
  using assms(1)
proof (rule create_ok)
  fix inst rg nodes plan rs chk
  assume snap: "submission_snapshot s (cr_flow_id d) u = Inr nodes"
    and ins: "insert_workflow s d rg u rs plan nodes now = (wid, s')"
  note tabs = insert_workflow_tables [OF ins]
  let ?w = "new_workflow wid d rg u now"
  have w: "wf_id ?w = wid" "wf_engineer_id ?w = op_id u" "wf_engineer ?w = op_username u" "wf_status ?w = PENDING_REVIEW"
    by (simp_all add: new_workflow_def)
  have twf: "table_wf wf_id (st_workflows s) wid" using assms(2) tabs(1) by (simp add: workflows_wf_def)
  have g: "get_workflow s' k = (if k = wid then Some ?w else get_workflow s k)" for k
    using row_get_add [OF twf w(1)] by (simp add: get_workflow_def tabs(2))
  obtain a where a: "st_audits s' = st_audits s @ [a]" "wa_workflow_id a = wid" "wa_current_status a = PENDING"
    "wa_nodes a = NodesList (audit_nodes_of ?w nodes)" using tabs(3) by blast
  have old: "filter (\<lambda>a. wa_workflow_id a = wid) (st_audits s) = []"
    using assms(3) tabs(1) by (auto simp: filter_empty_conv)
  have "audit_nodes_of ?w nodes \<noteq> [] \<and> all_pending (audit_nodes_of ?w nodes)"
    using submission_snapshot_ok [OF snap] legacy_nodes_pending by (cases nodes) (simp_all add: audit_nodes_of_def)
  moreover have "review_of s' wid = Some \<lparr> rv_workflow = PENDING_REVIEW, rv_audit = PENDING, rv_nodes = audit_nodes_of ?w nodes \<rparr>"
    using g [of wid] w(4) a old by (simp add: review_of_Some audits_of_def)
  moreover have "get_workflow s wid = None" using table_wf_fresh [OF twf] by (simp add: get_workflow_def)
  moreover obtain c where c: "st_contents s' = st_contents s @ [c]" "wc_workflow_id c = wid"
    "wc_sql_content c = cr_sql_content d" "wc_execute_result c = ResNone" using tabs(4) by blast
  have "find (\<lambda>c. wc_workflow_id c = wid) (st_contents s) = None"
    using assms(4) tabs(1) by (auto simp: find_None_iff)
  then have "content_of s' wid = Some c"
    using c by (auto simp: content_of_def find_None_iff find_Some_iff nth_append intro!: exI [of _ "length (st_contents s)"])
  moreover have "\<forall>k. k \<noteq> wid \<longrightarrow> get_workflow s' k = get_workflow s k \<and> audits_of s' k = audits_of s k"
    using g a by (simp add: audits_of_def)
  ultimately show ?thesis using g [of wid] w c by auto
qed

theorem create_starts_review_witness:
  "\<exists>wid s' ns. create sample_store sample_request dev_op sample_parse sample_engines 200 = Inr (wid, s')
     \<and> review_of s' wid = Some \<lparr> rv_workflow = PENDING_REVIEW, rv_audit = PENDING, rv_nodes = ns \<rparr> \<and> all_pending ns"
proof -
  obtain wid s' where c: "create sample_store sample_request dev_op sample_parse sample_engines 200 = Inr (wid, s')"
    using sample_create by (auto simp: is_ok_iff)
  have "\<forall>a\<in>set (st_audits sample_store). wa_workflow_id a < st_next_id sample_store"
    "\<forall>c\<in>set (st_contents sample_store). wc_workflow_id c < st_next_id sample_store"
    by (simp_all add: sample_defs)
  from create_starts_review [OF c sample_wf(1) this] c show ?thesis by auto
qed

text \<open>
C15: The decision to execute is taken at most once: it succeeds only on a workflow in
REVIEW_PASS, moves it out of this status, and every later decision on it, by anyone in
any mode, is refused with status 400 and changes nothing.
\<close>

theorem execute_decision_once:
  assumes "execute s wid u d celery engines now = (Inr reply, s1)"
  shows "(\<exists>w. get_workflow s wid = Some w \<and> wf_status w = REVIEW_PASS)
    \<and> execute s1 wid u' d' celery' engines' now' = (Inl (app_exc (WorkflowMsg NotExecutable) 400), s1)"
  using execute_ok [OF assms] by (auto simp: execute_def)

definition schedule_at :: "int \<Rightarrow> execute_request" where
  "schedule_at t = (default_execute_request ''scheduled'')\<lparr>ex_scheduled_at := Some (NaiveDT t)\<rparr>"

lemma approved_get [simp]: "get_workflow approved_store 1 = Some (sample_workflow 1 REVIEW_PASS)"
  by (simp add: approved_store_def get_workflow_def table_simps) (simp add: sample_workflow_def)

lemma approved_audits [simp]:
  "audits_of approved_store 1 = [sample_audit 2 1 WT_SQL [sample_node 1 ''users'' [9] PASSED]]"
  by (simp add: approved_store_def audits_of_def sample_audit_def)

lemma approved_scheduled:
  "\<exists>s1. execute approved_store 1 dba_op (schedule_at 900) True sample_engines 200 = (Inr (Scheduled 1 900), s1)"
  by (simp add: execute_def schedule_at_def default_execute_request_def schedule_execution_def Let_def
      one_commit_def write_execution_log_def find_audit_def) (simp add: sample_workflow_def)

theorem execute_decision_once_witness:
  "\<exists>s1. execute approved_store 1 dba_op (schedule_at 900) True sample_engines 200 = (Inr (Scheduled 1 900), s1)
     \<and> execute s1 1 root_op (schedule_at 950) True sample_engines 300 = (Inl (app_exc (WorkflowMsg NotExecutable) 400), s1)"
proof -
  obtain s1 where s1: "execute approved_store 1 dba_op (schedule_at 900) True sample_engines 200 = (Inr (Scheduled 1 900), s1)"
    using approved_scheduled by blast
  from execute_decision_once [OF s1, of root_op "schedule_at 950" True sample_engines 300] s1 show ?thesis by blast
qed

definition queued_store :: store where
  "queued_store = sample_store\<lparr>st_workflows := [sample_workflow 1 QUEUING]\<rparr>"

text \<open>
C33: The worker runs the SQL of a workflow at most once: after a worker run, whatever its
outcome, any further run of the task on it (a redelivered message, a second worker) does
nothing, and the row of a workflow that was queued has left the queue for EXECUTING,
FINISH or EXCEPTION.
\<close>

theorem worker_runs_once:
  assumes "get_workflow s wid = Some w"
  shows "\<exists>w1. get_workflow (snd (execute_async s wid op engines now)) wid = Some w1
    \<and> wf_status w1 \<in> (if wf_status w \<in> {QUEUING, TIMING_TASK} then {EXECUTING, FINISH, EXCEPTION}
                        else {wf_status w})
    \<and> execute_async (snd (execute_async s wid op engines now)) wid op' engines' now'
        = (Inr (), snd (execute_async s wid op engines now))"
proof (cases "wf_status w \<in> {QUEUING, TIMING_TASK}")
  case False
  with assms show ?thesis by (simp add: execute_async_def)
next
  case True
  from execute_async_row [OF assms, of op engines now] True obtain w1
    where w1: "get_workflow (snd (execute_async s wid op engines now)) wid = Some w1"
      "wf_status w1 \<in> {EXECUTING, FINISH, EXCEPTION}" by blast
  then have "execute_async (snd (execute_async s wid op engines now)) wid op' engines' now'
      = (Inr (), snd (execute_async s wid op engines now))"
    by (intro execute_async_idle) auto
  with w1 True show ?thesis by (intro exI [of _ w1]) simp
qed

theorem worker_runs_once_witness:
  "\<exists>w1. get_workflow (snd (execute_async queued_store 1 9 sample_engines 200)) 1 = Some w1
     \<and> wf_status w1 \<in> {EXECUTING, FINISH, EXCEPTION}
     \<and> execute_async (snd (execute_async queued_store 1 9 sample_engines 200)) 1 7 sample_engines 300
         = (Inr (), snd (execute_async queued_store 1 9 sample_engines 200))"
proof -
  have g: "get_workflow queued_store 1 = Some (sample_workflow 1 QUEUING)"
    by (simp add: queued_store_def get_workflow_def table_simps) (simp add: sample_workflow_def)
  have "wf_status (sample_workflow 1 QUEUING) = QUEUING" by (simp add: sample_workflow_def)
  with worker_runs_once [OF g, of 9 sample_engines 200 7 sample_engines 300] show ?thesis by simp
qed

text \<open>
A worker run whose engine factory raises (for instance for an instance suspended by
the licence) leaves the workflow in EXECUTING for good: the task raises, and afterwards
the worker skips it, the decision to execute is refused and so is every review action.
\<close>

theorem engine_factory_failure_sticks:
  assumes "get_workflow s wid = Some w" "wf_status w \<in> {QUEUING, TIMING_TASK}"
    and "get_instance s (wf_instance_id w) = Some inst" "engines inst = Inl e"
    and "execute_async s wid op engines now = (r, s1)"
  shows "r = Inl e \<and> (\<exists>w1. get_workflow s1 wid = Some w1 \<and> wf_status w1 = EXECUTING)
    \<and> execute_async s1 wid op' engines' now' = (Inr (), s1)
    \<and> fst (execute s1 wid u d celery engines' now') = Inl (app_exc (WorkflowMsg NotExecutable) 400)
    \<and> \<not> is_ok (operate s1 wid action u remark now')"
proof -
  let ?w1 = "w\<lparr>wf_execute_mode := Some (or_opt (wf_execute_mode w) ''immediate''),
        wf_executed_by_id := (if truthy_id (wf_executed_by_id w) then wf_executed_by_id w else Some op),
        wf_executed_by_name := Some (or_opt (wf_executed_by_name w)
          (case get_user s op of None \<Rightarrow> ''system'' | Some r \<Rightarrow> us_username r)), wf_status := EXECUTING\<rparr>"
  have r: "r = Inl e" and s1: "s1 = emit (run_event ''execution_started'' ?w1 op) (put_workflow ?w1 s)"
    using assms by (auto simp: execute_async_def Let_def)
  have g: "get_workflow s1 wid = Some ?w1"
    unfolding s1 using get_put_loaded [OF assms(1), of ?w1] by simp
  have idle: "execute_async s1 wid op' engines' now' = (Inr (), s1)"
    by (rule execute_async_idle) (use g in simp)
  have ex: "fst (execute s1 wid u d celery engines' now') = Inl (app_exc (WorkflowMsg NotExecutable) 400)"
    using g by (simp add: execute_def)
  have "\<not> is_ok (operate s1 wid action u remark now')"
  proof
    assume "is_ok (operate s1 wid action u remark now')"
    then obtain m st s2 where "operate s1 wid action u remark now' = Inr (m, st, s2)" by (auto simp: is_ok_iff)
    then show False by (rule operate_settled) (use g in auto)
  qed
  with r g idle ex show ?thesis by simp
qed

theorem engine_factory_failure_sticks_witness:
  "\<exists>s1. execute_async queued_store 1 9 (\<lambda>inst. Inl forbidden_exc) 200 = (Inl forbidden_exc, s1)
     \<and> execute_async s1 1 9 sample_engines 300 = (Inr (), s1)"
proof -
  have g: "get_workflow queued_store 1 = Some (sample_workflow 1 QUEUING)"
    by (simp add: queued_store_def get_workflow_def table_simps) (simp add: sample_workflow_def)
  have i: "get_instance queued_store (wf_instance_id (sample_workflow 1 QUEUING)) = Some sample_instance"
    by (simp add: queued_store_def get_instance_def sample_workflow_def table_simps) (simp add: sample_instance_def)
  have st: "wf_status (sample_workflow 1 QUEUING) \<in> {QUEUING, TIMING_TASK}" by (simp add: sample_workflow_def)
  obtain r s1 where run: "execute_async queued_store 1 9 (\<lambda>inst. Inl forbidden_exc) 200 = (r, s1)" by fastforce
  from engine_factory_failure_sticks [OF g st i refl run, of 9 sample_engines 300 dba_op "schedule_at 1" True OP_PASS "[]"] run
  show ?thesis by simp
qed

text \<open>
The dispatcher queues only due workflows and tells the broker about each of them
once: if it returns \<open>n\<close>, then at most \<open>limit\<close> workflows, all of them scheduled for a time
not after now, have become QUEUING with one task each, in the given order, and no other
row has changed.
\<close>

theorem dispatch_only_due:
  assumes "dispatch_scheduled s now locked delay_ok lim = (Inr n, s')" "workflows_wf s"
  shows "\<exists>ws. length ws = n \<and> n \<le> lim \<and> distinct (map wf_id ws)
    \<and> (\<forall>w\<in>set ws. get_workflow s (wf_id w) = Some w \<and> is_due now w \<and> \<not> locked (wf_id w)
         \<and> get_workflow s' (wf_id w) = Some (dispatched w))
    \<and> st_tasks s' = st_tasks s @ map dispatch_task ws
    \<and> (\<forall>k. k \<notin> wf_id ` set ws \<longrightarrow> get_workflow s' k = get_workflow s k)"
proof -
  let ?ws = "due_workflows s now locked lim"
  have f: "get_workflow (fold deliver ts x) k = get_workflow x k \<and> st_tasks (fold deliver ts x) = st_tasks x @ ts" for ts x k
    by (induction ts arbitrary: x) (auto simp: deliver_def get_workflow_def)
  obtain so sent where l0: "dispatch_loop delay_ok ?ws s [] = (so, sent)" by fastforce
  with assms(1) obtain s1 where so: "so = Some s1" and n0: "n = length sent" and s0: "s' = fold deliver sent s1"
    by (cases so) (simp_all add: dispatch_scheduled_def)
  with dispatch_loop_ok(1) [of delay_ok ?ws s "[]" s1 sent] l0 have sent: "sent = map dispatch_task ?ws" by simp
  have loop: "dispatch_loop delay_ok ?ws s [] = (Some s1, map dispatch_task ?ws)"
    and n: "n = length ?ws" and s': "s' = fold deliver (map dispatch_task ?ws) s1"
    using l0 so n0 s0 sent by simp_all
  note lo = dispatch_loop_ok [OF loop]
  have d: "distinct (map wf_id ?ws)" by (rule distinct_due_workflows [OF assms(2)])
  have row: "get_workflow s (wf_id w) = Some w" "is_due now w" "\<not> locked (wf_id w)"
    "get_workflow s' (wf_id w) = Some (dispatched w)" if "w \<in> set ?ws" for w
  proof -
    show g: "get_workflow s (wf_id w) = Some w" and "is_due now w" "\<not> locked (wf_id w)"
      using due_workflows_set [OF that] workflow_row_get [OF assms(2)] by auto
    have "find (\<lambda>v. wf_id v = wf_id w) (rev ?ws) = Some w"
      using row_get_distinct [of wf_id "rev ?ws" w] d that by (simp add: row_get_def distinct_rev rev_map [symmetric])
    with g that lo(2) [of "wf_id w"] show "get_workflow s' (wf_id w) = Some (dispatched w)"
      by (simp add: s' f)
  qed
  have "length ?ws \<le> lim" by (simp add: due_workflows_def)
  moreover have "\<forall>k. k \<notin> wf_id ` set ?ws \<longrightarrow> get_workflow s' k = get_workflow s k"
    using lo(2) by (simp add: s' f)
  moreover have "st_tasks s' = st_tasks s @ map dispatch_task ?ws" using lo(3) by (simp add: s' f)
  ultimately show ?thesis using n d row by (intro exI [of _ ?ws]) simp
qed

definition scheduled_store :: store where
  "scheduled_store = sample_store\<lparr>st_workflows :=
     [(sample_workflow 1 TIMING_TASK)\<lparr>wf_scheduled_execute_at := Some 900\<rparr>]\<rparr>"

lemma scheduled_due:
  "due_workflows scheduled_store 950 (\<lambda>_. False) 50 = [(sample_workflow 1 TIMING_TASK)\<lparr>wf_scheduled_execute_at := Some 900\<rparr>]"
  by (simp add: due_workflows_def scheduled_store_def) (simp add: sample_workflow_def)

theorem dispatch_only_due_witness:
  "\<exists>s'. dispatch_scheduled scheduled_store 950 (\<lambda>_. False) (\<lambda>_. True) 50 = (Inr 1, s')
     \<and> length (st_tasks s') = 1"
proof -
  obtain s' where s': "dispatch_scheduled scheduled_store 950 (\<lambda>_. False) (\<lambda>_. True) 50 = (Inr 1, s')"
    by (simp add: dispatch_scheduled_def scheduled_due Let_def)
  have "workflows_wf scheduled_store"
    by (simp add: scheduled_store_def workflows_wf_def table_wf_def sample_workflow_def sample_store_def)
  from dispatch_only_due [OF s' this] s' show ?thesis by (auto simp: scheduled_store_def sample_store_def)
qed

lemma current_pending_audit_info: 
  "current_pending (map audit_info_node ns) = map_option audit_info_node (current_pending ns)"
  by (induction ns) (auto simp: current_pending_def is_pending_def audit_info_node_def)

lemma check_audit_info_node:
  "n_required_permission n = None \<Longrightarrow> check_approver_permission s u (audit_info_node n) = check_approver_permission s u n"
  unfolding check_approver_permission_def audit_info_node_def Let_def by simp

lemma get_detail_ok:
  assumes "get_detail s wid u = Inr dt" "audits_of s wid = [a]" "loads_nodes (wa_nodes a) = Inr ns"
  obtains w where "get_workflow s wid = Some w" "can_view_workflow s w u = Inr True"
    "wd_can_audit dt = (wf_status w = PENDING_REVIEW
       \<and> (\<exists>n. current_pending ns = Some n \<and> check_approver_permission s u (audit_info_node n) = Inr ()))"
    "wd_can_cancel dt = can_cancel_workflow w u ns" "wd_can_execute dt = can_execute_flag u w"
proof -
  from assms(1) obtain w where w: "get_workflow s wid = Some w"
    by (cases "get_workflow s wid") (auto simp: get_detail_def)
  obtain info where info: "get_audit_info s wid = Inr (Some info)" and nodes: "ai_nodes info = map audit_info_node ns"
    using assms(2,3) by (simp add: get_audit_info_def find_audit_def)
  have op: "has_operated_node (map audit_info_node ns) = has_operated_node ns"
    by (auto simp: has_operated_node_def list_ex_iff audit_info_node_def)
  from assms(1) w info obtain v flag where v: "can_view_workflow s w u = Inr v" "v"
    and flag: "can_audit_flag s u w (Some info) = Inr flag" "wd_can_audit dt = flag"
    and c: "wd_can_cancel dt = can_cancel_workflow w u (ai_nodes info)" "wd_can_execute dt = can_execute_flag u w"
    by (auto simp: get_detail_def res_simps Let_def)
  have "flag = (wf_status w = PENDING_REVIEW
       \<and> (\<exists>n. current_pending ns = Some n \<and> check_approver_permission s u (audit_info_node n) = Inr ()))"
    using flag(1) by (auto simp: can_audit_flag_def nodes current_pending_audit_info split: option.splits sum.splits if_splits)
  with w v flag(2) c nodes op show ?thesis by (intro that [of w]) (auto simp: can_cancel_workflow_iff)
qed

text \<open>
The flags of the detail view are exact for SQL workflows (chains without a
per-node permission): \<open>can_audit\<close> is set if and only if the workflow is in review and
this user's pass would succeed, \<open>can_cancel\<close> if and only if cancelling would succeed.
\<close>

theorem detail_flags_exact:
  assumes "get_detail s wid u = Inr dt" "audits_of s wid = [a]" "loads_nodes (wa_nodes a) = Inr ns"
    and "\<forall>n\<in>set ns. n_required_permission n = None" "review_wf s wid" "get_workflow s wid = Some w"
  shows "wd_can_audit dt = (wf_status w = PENDING_REVIEW \<and> is_ok (operate s wid OP_PASS u remark now))
    \<and> wd_can_cancel dt = is_ok (operate s wid OP_CANCEL u remark now)"
  using assms(1-3)
proof (rule get_detail_ok)
  fix w' assume "get_workflow s wid = Some w'"
    and audit: "wd_can_audit dt = (wf_status w' = PENDING_REVIEW
       \<and> (\<exists>n. current_pending ns = Some n \<and> check_approver_permission s u (audit_info_node n) = Inr ()))"
    and cancel: "wd_can_cancel dt = can_cancel_workflow w' u ns"
  then have "w' = w" using assms(6) by simp
  have rv: "review_of s wid = Some \<lparr> rv_workflow = wf_status w, rv_audit = wa_current_status a, rv_nodes = ns \<rparr>"
    using assms(2,3,6) by (simp add: review_of_Some)
  have "n_required_permission n = None" if "current_pending ns = Some n" for n
    using assms(4) current_pending_Some [OF that] by blast
  then have "wd_can_audit dt = (wf_status w = PENDING_REVIEW \<and> is_ok (operate s wid OP_PASS u remark now))"
    using audit \<open>w' = w\<close> pass_is_ok [OF assms(6) rv assms(5), of u remark now]
    by (auto simp: check_audit_info_node)
  moreover have "is_ok (operate s wid OP_CANCEL u remark now) = can_cancel_workflow w u ns"
    by (simp add: operate_is_ok [OF assms(6) rv assms(5)] review_action_def op_defs review_cancel_def
        can_cancel_workflow_iff res_simps not_operated_all_pending)
  ultimately show ?thesis using cancel \<open>w' = w\<close> by simp
qed

lemma sample_detail:
  "is_ok (get_detail sample_store 1 root_op)"
proof -
  have v: "can_view_workflow sample_store (sample_workflow 1 PENDING_REVIEW) root_op = Inr True"
    by (simp add: can_view_workflow_def root_op_def)
  have "can_audit_flag sample_store root_op w info = Inr (wf_status w = PENDING_REVIEW \<and>
      (case info of None \<Rightarrow> False | Some i \<Rightarrow> current_pending (ai_nodes i) \<noteq> None))" for w info
    by (auto simp: can_audit_flag_def split: option.split)
  then show ?thesis
    by (simp add: get_detail_def v get_audit_info_def find_audit_def get_audit_logs_def Let_def)
      (simp add: sample_audit_def)
qed

theorem detail_flags_exact_witness:
  "\<exists>dt. get_detail sample_store 1 root_op = Inr dt \<and> wd_can_audit dt"
proof -
  obtain dt where dt: "get_detail sample_store 1 root_op = Inr dt" using sample_detail by (auto simp: is_ok_iff)
  have ns: "loads_nodes (wa_nodes (sample_audit 2 1 WT_SQL sample_nodes)) = Inr sample_nodes"
    by (simp add: sample_audit_def)
  have "\<forall>n\<in>set sample_nodes. n_required_permission n = None" by (simp add: sample_nodes_def sample_node_def)
  from detail_flags_exact [OF dt sample_gets(4) ns this sample_review_wf sample_gets(1), of "[]" 50]
  have "wd_can_audit dt = (wf_status (sample_workflow 1 PENDING_REVIEW) = PENDING_REVIEW
      \<and> is_ok (operate sample_store 1 OP_PASS root_op [] 50))" by simp
  moreover have "is_ok (operate sample_store 1 OP_PASS root_op [] 50)"
    by (simp add: pass_is_ok [of sample_store 1 "sample_workflow 1 PENDING_REVIEW"]) (simp add: sample_workflow_def)
  ultimately show ?thesis using dt by (simp add: sample_workflow_def)
qed

text \<open>
For an archive workflow the flag is wrong: the audit view drops
\<open>required_permission\<close>, so a reviewer with \<open>archive_review\<close> but not \<open>sql_review\<close> is shown
\<open>can_audit = False\<close> although the pass would succeed.
\<close>

theorem archive_reviewer_flag_wrong:
  assumes "get_detail s wid u = Inr dt" "audits_of s wid = [a]" "loads_nodes (wa_nodes a) = Inr ns"
    and "current_pending ns = Some n" "n_approver_type n = ''any_reviewer''"
    and "n_required_permission n = Some ''archive_review''" "has_perm u ''archive_review''"
    and "\<not> has_perm u ''sql_review''" "\<not> op_is_superuser u" "review_wf s wid"
    and "get_workflow s wid = Some w" "wf_status w = PENDING_REVIEW"
  shows "\<not> wd_can_audit dt \<and> is_ok (operate s wid OP_PASS u remark now)"
proof
  have rv: "review_of s wid = Some \<lparr> rv_workflow = wf_status w, rv_audit = wa_current_status a, rv_nodes = ns \<rparr>"
    using assms(2,3,11) by (simp add: review_of_Some)
  have "check_approver_permission s u n = Inr ()" using assms(5-9) by (simp add: check_approver_permission_def)
  then show "is_ok (operate s wid OP_PASS u remark now)"
    using assms(4,12) by (simp add: pass_is_ok [OF assms(11) rv assms(10)])
  have "check_approver_permission s u (audit_info_node n) \<noteq> Inr ()"
    using assms(5,8,9) by (simp add: check_approver_permission_def audit_info_node_def refuse_def)
  then show "\<not> wd_can_audit dt"
    using get_detail_ok [OF assms(1-3)] assms(4) by (metis option.inject)
qed

definition archive_node :: node where
  "archive_node = (sample_node 1 ''any_reviewer'' [] PENDING)\<lparr>n_required_permission := Some ''archive_review''\<rparr>"

definition archive_review_store :: store where
  "archive_review_store = sample_store\<lparr>st_workflows := [sample_workflow 3 PENDING_REVIEW],
     st_audits := [sample_audit 4 3 WT_ARCHIVE [archive_node]]\<rparr>"

definition archive_reviewer :: operator where
  "archive_reviewer = dba_op\<lparr>op_permissions := [''archive_review''], op_role := None\<rparr>"

lemma archive_review_facts [simp]:
  "get_workflow archive_review_store 3 = Some (sample_workflow 3 PENDING_REVIEW)"
  "audits_of archive_review_store 3 = [sample_audit 4 3 WT_ARCHIVE [archive_node]]"
  "loads_nodes (wa_nodes (sample_audit 4 3 WT_ARCHIVE [archive_node])) = Inr [archive_node]"
  "current_pending [archive_node] = Some archive_node"
  "check_approver_permission archive_review_store archive_reviewer archive_node = Inr ()"
  "n_approver_type archive_node = ''any_reviewer''" "n_required_permission archive_node = Some ''archive_review''"
  by (simp_all add: archive_review_store_def get_workflow_def audits_of_def table_simps sample_audit_def
      sample_workflow_def archive_node_def sample_node_def current_pending_def is_pending_def
      check_approver_permission_def archive_reviewer_def dba_op_def has_perm_def)

lemma archive_review_wf: "review_wf archive_review_store 3"
  by (simp add: review_wf_def archive_review_store_def audits_wf_def jobs_wf_def job_unique_def table_wf_def sample_defs)

lemma archive_pending: "get_pending_workflow_ids_for_user archive_review_store archive_reviewer = Inr [3]"
proof -
  have "pending_rows archive_review_store = [(sample_workflow 3 PENDING_REVIEW, sample_audit 4 3 WT_ARCHIVE [archive_node])]"
    by (simp add: pending_rows_def archive_review_store_def) (simp add: sample_workflow_def audits_of_def sample_audit_def)
  then show ?thesis by (simp add: get_pending_workflow_ids_for_user_def) (simp add: sample_workflow_def)
qed

theorem archive_reviewer_flag_wrong_witness:
  "\<exists>dt. get_detail archive_review_store 3 archive_reviewer = Inr dt \<and> \<not> wd_can_audit dt
     \<and> is_ok (operate archive_review_store 3 OP_PASS archive_reviewer [] 50)"
proof -
  have v: "can_view_workflow archive_review_store (sample_workflow 3 PENDING_REVIEW) archive_reviewer = Inr True"
    by (simp add: can_view_workflow_def related_ids_def archive_pending) (simp add: sample_workflow_def)
  have "is_ok (can_audit_flag s u w info)" for s u w info
    by (auto simp: can_audit_flag_def dest: check_approver_app_exc split: option.split sum.split)
  then obtain b where "can_audit_flag archive_review_store archive_reviewer (sample_workflow 3 PENDING_REVIEW)
      (Some \<lparr>ai_workflow_type = wa_workflow_type (sample_audit 4 3 WT_ARCHIVE [archive_node]),
        ai_current_audit_auth_group = wa_current_audit_auth_group (sample_audit 4 3 WT_ARCHIVE [archive_node]),
        ai_current_status = wa_current_status (sample_audit 4 3 WT_ARCHIVE [archive_node]),
        ai_nodes = [audit_info_node archive_node]\<rparr>) = Inr b"
    unfolding is_ok_iff by meson
  then obtain dt where dt: "get_detail archive_review_store 3 archive_reviewer = Inr dt"
    by (simp add: get_detail_def v get_audit_info_def find_audit_def get_audit_logs_def Let_def)
  have perms: "has_perm archive_reviewer ''archive_review''" "\<not> has_perm archive_reviewer ''sql_review''"
    "\<not> op_is_superuser archive_reviewer" by (simp_all add: archive_reviewer_def dba_op_def has_perm_def)
  have st: "wf_status (sample_workflow 3 PENDING_REVIEW) = PENDING_REVIEW" by (simp add: sample_workflow_def)
  from archive_reviewer_flag_wrong [OF dt archive_review_facts(2,3,4,6,7) perms archive_review_wf archive_review_facts(1) st, of "[]" 50] dt
  show ?thesis by blast
qed

section \<open>Lists and details\<close>

lemma related_ids_view:
  "related_ids s u = Inr ids \<Longrightarrow> wf_id w \<in> set ids \<Longrightarrow> can_view_workflow s w u = Inr True"
  by (simp add: can_view_workflow_def)

lemma scope_view:
  assumes "in_scope s u DomWorkflow (Some (wf_engineer_id w)) (Some (wf_instance_id w))"
    "sc_mode (resolve s u DomWorkflow) \<noteq> ''group''" "wf_instance_id w \<noteq> -1" "related_ids s u = Inr ids"
  shows "can_view_workflow s w u = Inr True"
  using assms
  by (auto simp: can_view_workflow_def in_scope_def resolve_def Let_def col_in_def list_or_empty_def split: if_splits)

text \<open>
Lists do not show what the detail hides: every row of the views mine and audit, and
of the scope view except for the leader of a group, is one whose detail the user may open.
\<close>

theorem listed_rows_viewable:
  assumes "view_rows s u view = Inr (rows, sc)" "view \<in> {''mine'', ''audit'', ''scope''}"
    and "view = ''scope'' \<longrightarrow> sc_mode (resolve s u DomWorkflow) \<noteq> ''group''"
    and "related_ids s u = Inr ids" "\<forall>w\<in>set (st_workflows s). 0 \<le> wf_id w \<and> 0 \<le> wf_instance_id w"
    and "w \<in> set rows"
  shows "can_view_workflow s w u = Inr True"
proof -
  consider "view = ''mine''" | "view = ''audit''" | "view = ''scope''" using assms(2) by auto
  then show ?thesis
  proof cases
    case 1
    with assms(1,6) show ?thesis by (auto simp: view_rows_def Let_def can_view_workflow_def)
  next
    case 2
    have "wf_id w \<noteq> -1" if "w \<in> set (st_workflows s)" using assms(5) that by fastforce
    with 2 assms(1,4,6) have "wf_id w \<in> set ids"
      by (auto simp: view_rows_def Let_def split: if_splits)
    with assms(4) show ?thesis by (rule related_ids_view)
  next
    case 3
    then have "in_scope s u DomWorkflow (Some (wf_engineer_id w)) (Some (wf_instance_id w))" "w \<in> set (st_workflows s)"
      using assms(1,6) by (auto simp: view_rows_def Let_def apply_scope_resolve)
    with 3 assms(3-5) show ?thesis by (intro scope_view) fastforce+
  qed
qed

lemma pending_none:
  "pending_rows s = [(w, a)] \<or> pending_rows s = [(w, a), (w', a')] \<Longrightarrow> wa_nodes a = NodesList sample_nodes \<Longrightarrow>
     wa_nodes a' = NodesList sample_nodes \<Longrightarrow> op_id u \<noteq> 9 \<Longrightarrow> \<not> op_is_superuser u \<Longrightarrow>
     get_pending_workflow_ids_for_user s u = Inr []"
  by (auto simp: get_pending_workflow_ids_for_user_def check_approver_permission_def sample_node_def refuse_def)

lemma dev_related: "related_ids sample_store dev_op = Inr []"
proof -
  have "get_audited_workflow_ids_for_user sample_store dev_op = []"
    by (simp add: get_audited_workflow_ids_for_user_def sample_store_def)
  moreover have "get_pending_workflow_ids_for_user sample_store dev_op = Inr []"
    by (rule pending_none [of _ "sample_workflow 1 PENDING_REVIEW" "sample_audit 2 1 WT_SQL sample_nodes"
          "sample_workflow 3 PENDING_REVIEW" "sample_audit 4 3 WT_ARCHIVE sample_nodes"])
      (simp_all add: sample_pending_rows, simp_all add: sample_audit_def dev_op_def)
  ultimately show ?thesis by (simp add: related_ids_def)
qed

theorem listed_rows_viewable_witness:
  "can_view_workflow sample_store (sample_workflow 1 PENDING_REVIEW) dev_op = Inr True"
proof -
  have rows: "view_rows sample_store dev_op ''mine'' =
      Inr ([sample_workflow 1 PENDING_REVIEW, sample_workflow 3 PENDING_REVIEW], None)"
    by (simp add: view_rows_def) (simp add: sample_workflow_def dev_op_def)
  have "\<forall>w\<in>set (st_workflows sample_store). 0 \<le> wf_id w \<and> 0 \<le> wf_instance_id w"
    by simp (simp add: sample_workflow_def)
  from listed_rows_viewable [OF rows _ _ dev_related this] show ?thesis by simp
qed

text \<open>
The exception is real: a group leader's scope view lists the workflows of the active
members of the group, but opening one the leader neither submitted nor reviews is refused
as not found, although the scope is documented to grant it.
\<close>

theorem group_leader_listed_not_viewable:
  assumes "sc_mode (resolve s u DomWorkflow) = ''group''" "w \<in> set (st_workflows s)"
    and "wf_engineer_id w \<in> set (resolve_group_user_ids s u)" "wf_engineer_id w \<noteq> op_id u"
    and "\<not> op_is_superuser u" "related_ids s u = Inr ids" "wf_id w \<notin> set ids" "get_workflow s (wf_id w) = Some w"
  shows "(\<exists>rows sc. view_rows s u ''scope'' = Inr (rows, sc) \<and> w \<in> set rows)
    \<and> get_detail s (wf_id w) u = Inl (not_found_exc (AuditMsg (WorkflowNotFound (wf_id w))))"
proof
  have g: "\<not> is_global_user u DomWorkflow" "\<not> has_instance_scope_permission u DomWorkflow"
    using assms(1) by (auto simp: resolve_def Let_def split: if_splits)
  then have "in_scope s u DomWorkflow (Some (wf_engineer_id w)) (Some (wf_instance_id w))"
    using assms(3) by (simp add: in_scope_def col_in_def)
  then show "\<exists>rows sc. view_rows s u ''scope'' = Inr (rows, sc) \<and> w \<in> set rows"
    using assms(2) by (auto simp: view_rows_def Let_def apply_scope_resolve)
  have "can_view_workflow s w u = Inr False"
    using assms(1,4-7) by (simp add: can_view_workflow_def Let_def)
  then show "get_detail s (wf_id w) u = Inl (not_found_exc (AuditMsg (WorkflowNotFound (wf_id w))))"
    using assms(8) by (simp add: get_detail_def)
qed

definition leader_op :: operator where
  "leader_op = dev_op\<lparr>op_id := 8, op_username := ''lead'', op_role := None\<rparr>"

definition group_store :: store where
  "group_store = sample_store\<lparr>st_groups := [\<lparr> ug_id = 1, ug_leader_id = Some 8, ug_is_active = True,
     ug_members = [7], ug_resource_groups = [] \<rparr>]\<rparr>"

lemma leader_scope:
  "resolve_group_user_ids group_store leader_op = [7, 8]"
  "\<not> is_global_user leader_op DomWorkflow" "\<not> has_instance_scope_permission leader_op DomWorkflow"
  by (simp_all add: resolve_group_user_ids_def leader_groups_def user_is_active_def get_user_def group_store_def
      sample_store_def leader_op_def dev_op_def sample_user_def table_simps Let_def is_global_user_def
      has_instance_scope_permission_def has_perm_def)

theorem group_leader_listed_not_viewable_witness:
  "(\<exists>rows sc. view_rows group_store leader_op ''scope'' = Inr (rows, sc) \<and> sample_workflow 1 PENDING_REVIEW \<in> set rows)
     \<and> get_detail group_store 1 leader_op = Inl (not_found_exc (AuditMsg (WorkflowNotFound 1)))"
proof -
  have wid: "wf_id (sample_workflow 1 PENDING_REVIEW) = 1" by (simp add: sample_workflow_def)
  have same: "st_workflows group_store = st_workflows sample_store" "st_audits group_store = st_audits sample_store"
    "st_logs group_store = []" by (simp_all add: group_store_def sample_store_def)
  have rows: "pending_rows group_store = pending_rows sample_store"
    by (simp add: pending_rows_def audits_of_def same)
  have "get_audited_workflow_ids_for_user group_store leader_op = []"
    by (simp add: get_audited_workflow_ids_for_user_def same)
  moreover have "get_pending_workflow_ids_for_user group_store leader_op = Inr []"
    by (rule pending_none [of _ "sample_workflow 1 PENDING_REVIEW" "sample_audit 2 1 WT_SQL sample_nodes"
          "sample_workflow 3 PENDING_REVIEW" "sample_audit 4 3 WT_ARCHIVE sample_nodes"])
      (simp_all add: rows sample_pending_rows, simp_all add: sample_audit_def leader_op_def dev_op_def)
  ultimately have rel: "related_ids group_store leader_op = Inr []" by (simp add: related_ids_def)
  have mode: "sc_mode (resolve group_store leader_op DomWorkflow) = ''group''"
    by (simp add: resolve_def leader_scope)
  have g: "get_workflow group_store (wf_id (sample_workflow 1 PENDING_REVIEW)) = Some (sample_workflow 1 PENDING_REVIEW)"
    using sample_gets(1) by (simp add: get_workflow_def same wid)
  have "wf_engineer_id (sample_workflow 1 PENDING_REVIEW) \<in> set (resolve_group_user_ids group_store leader_op)"
    "wf_engineer_id (sample_workflow 1 PENDING_REVIEW) \<noteq> op_id leader_op" "\<not> op_is_superuser leader_op"
    "sample_workflow 1 PENDING_REVIEW \<in> set (st_workflows group_store)"
    by (simp_all add: leader_scope same) (simp_all add: sample_workflow_def leader_op_def dev_op_def)
  from group_leader_listed_not_viewable [OF mode this(4,1,2,3) rel _ g] show ?thesis by (simp add: wid)
qed

end
