(* ===== verification/Query_Priv_Service.thy ===== *)
theory Query_Priv_Service
  imports Audit_Service Governance_Scope Approval_Flow
begin

text \<open>
  \<^verbatim>\<open>app/services/query_priv.py\<close>, the request checks of \<^verbatim>\<open>app/schemas/query.py\<close>
  and \<open>extract_table_refs\<close> of \<^verbatim>\<open>app/services/masking.py\<close>: who may query what. Access
  is decided in three layers (identity, resource scope, data privilege); privileges come
  from applications that run through an approval chain. \<open>today\<close> is \<open>date.today()\<close>. The
  engine's \<open>resolve_table_schemas\<close> and sqlglot's \<open>parse_one\<close> are arguments. The lemmas
  relate the access check to the stored privileges and follow an application from its
  submission to the privilege it creates.
\<close>

section \<open>Table references\<close>

text \<open>The loop with its \<open>seen\<close> set; names of function tables are empty and are kept.\<close>

fun add_refs :: "string \<Rightarrow> ast list \<Rightarrow> table_ref list \<Rightarrow> table_ref list" where
  "add_refs ds [] refs = refs"
| "add_refs ds (t # ts) refs =
     (let r = (or_str (ast_db t) ds, ast_name t) in
      add_refs ds ts (if r \<in> set refs then refs else refs @ [r]))"

definition extract_table_refs :: "(string \<Rightarrow> string \<Rightarrow> string + ast) \<Rightarrow> string \<Rightarrow> string \<Rightarrow> string \<Rightarrow> table_ref list" where
  "extract_table_refs parse_one sql db_name db_type =
     (case parse_one (case map_of DIALECT_MAP (py_lower db_type) of Some d \<Rightarrow> d | None \<Rightarrow> ''mysql'') sql of
        Inl _ \<Rightarrow> []
      | Inr tree \<Rightarrow> add_refs (if py_lower db_type = ''pgsql'' then [] else db_name) (find_all ''Table'' tree) [])"

section \<open>Approver permission\<close>

text \<open>\<open>_safe_load_nodes\<close>: a JSON value that is not a list of nodes fails when it is used.\<close>

fun safe_load_nodes :: "nodes_json \<Rightarrow> node list res" where
  "safe_load_nodes NodesEmpty = Inr []"
| "safe_load_nodes (NodesList ns) = Inr ns"
| "safe_load_nodes NodesOther = Inl (RawException PyTypeError)"
| "safe_load_nodes NodesInvalid = Inr []"

definition get_current_pending_node :: "privilege_apply \<Rightarrow> node option res" where
  "get_current_pending_node a = rbind (loads_nodes (qa_nodes a)) (\<lambda>ns. Inr (current_pending ns))"

text \<open>\<open>can_cancel_before_approval\<close> decides on the status and the owner before it reads a node.\<close>

definition can_cancel_apply :: "privilege_apply \<Rightarrow> operator \<Rightarrow> bool res" where
  "can_cancel_apply a u =
     (if can_cancel_before_approval (Some (qa_user_id a)) None u (qa_status a) PENDING []
      then rbind (safe_load_nodes (qa_nodes a)) (\<lambda>nodes.
             Inr (can_cancel_before_approval (Some (qa_user_id a)) None u (qa_status a) PENDING nodes))
      else Inr False)"

definition check_apply_approver_permission :: "store \<Rightarrow> operator \<Rightarrow> node \<Rightarrow> unit res" where
  "check_apply_approver_permission s u n =
     (if op_is_superuser u then Inr ()
      else if n_approver_type n = ''any_reviewer'' then
        (if has_perm u ''query_review'' then Inr () else refuse (NoReviewPermission (n_node_name n) ''query_review''))
      else if n_approver_type n = ''users'' then
        (if op_id u \<in> set (n_approver_ids n) then Inr () else refuse (NotInApprovers (n_node_name n)))
      else if n_approver_type n = ''manager'' then
        (if \<not> truthy_id (n_applicant_id n) then refuse ApplicantUnknown
         else (case get_user s (the (n_applicant_id n)) of
                 None \<Rightarrow> refuse NotManager
               | Some a \<Rightarrow> if us_manager_id a = Some (op_id u) then Inr () else refuse NotManager))
      else Inl (app_exc (AuditMsg (ApproverTypeUnsupported (n_approver_type n))) 400))"

lemma check_apply_approver_app_exc: "check_apply_approver_permission s u n = Inl e \<Longrightarrow> is_app_exc e"
  unfolding check_apply_approver_permission_def refuse_def
  by (auto split: if_split_asm option.split_asm)

interpretation apply_gate: approval_gate check_apply_approver_permission
proof (unfold_locales, goal_cases)
  case (1 u s n)
  then show ?case by (simp add: check_apply_approver_permission_def)
next
  case (2 s u n e)
  then show ?case by (rule check_apply_approver_app_exc)
next
  case (3 u n s)
  then show ?case by (simp add: check_apply_approver_permission_def)
next
  case (4 u n s)
  then show ?case by (simp add: check_apply_approver_permission_def refuse_def)
qed

section \<open>Identity and resource scope\<close>

definition shares_group :: "operator \<Rightarrow> db_instance \<Rightarrow> bool" where
  "shares_group u inst \<longleftrightarrow> (\<exists>rg\<in>set (in_resource_groups inst). rg_id rg \<in> set (op_resource_groups u))"

definition user_has_instance_access :: "operator \<Rightarrow> db_instance \<Rightarrow> bool" where
  "user_has_instance_access u inst =
     (if op_is_superuser u \<or> has_perm u ''query_all_instances'' then True else shares_group u inst)"

definition user_has_query_bypass :: "operator \<Rightarrow> db_instance \<Rightarrow> bool" where
  "user_has_query_bypass u inst =
     (if op_is_superuser u \<or> has_perm u ''query_all_instances'' then True
      else if \<not> has_perm u ''query_resource_group_instance'' then False
      else shares_group u inst)"

datatype (plugins only: code) access_reason =
    RAdmin | RResourceGroupQuery | RInstancePrivilege | RDbPrivilege | RPrivilege | RScopedPrivilege
  | RTableInDatabase | RTablePrivilege | DInstanceOutOfScope | DNoDatabase string | DNoTable string
  | DAmbiguousTable string | DNoInstanceDict

definition query_bypass_reason :: "operator \<Rightarrow> db_instance \<Rightarrow> access_reason option" where
  "query_bypass_reason u inst =
     (if op_is_superuser u \<or> has_perm u ''query_all_instances'' then Some RAdmin
      else if user_has_query_bypass u inst then Some RResourceGroupQuery
      else None)"

definition can_revoke_privilege :: "store \<Rightarrow> query_privilege \<Rightarrow> operator \<Rightarrow> bool" where
  "can_revoke_privilege s p u =
     (if is_global_user u DomQuery then True
      else if qp_user_id p = Some (op_id u) then True
      else if \<not> has_perm u ''query_mgtpriv'' \<or> \<not> truthy_id (qp_instance_id p) then False
      else (case get_instance s (the (qp_instance_id p)) of
              None \<Rightarrow> False
            | Some inst \<Rightarrow> shares_group u inst))"

definition normalize_scope_type :: "string \<Rightarrow> string \<Rightarrow> string \<Rightarrow> string \<times> int" where
  "normalize_scope_type scope_type table_name db_name =
     (if scope_type = ''instance'' then (''instance'', 0)
      else if scope_type = ''table'' \<or> py_strip table_name \<noteq> [] then (''table'', 2)
      else if scope_type = ''database'' \<or> py_strip db_name \<noteq> [] then (''database'', 1)
      else (''database'', 1))"

section \<open>Stored privileges\<close>

definition active_priv :: "date \<Rightarrow> int \<Rightarrow> int \<Rightarrow> query_privilege \<Rightarrow> bool" where
  "active_priv today uid iid p \<longleftrightarrow> qp_user_id p = Some uid \<and> qp_user_group_id p = None
     \<and> qp_instance_id p = Some iid \<and> today \<le> qp_valid_date p \<and> qp_is_deleted p = 0"

definition has_instance_priv :: "store \<Rightarrow> date \<Rightarrow> int \<Rightarrow> int \<Rightarrow> bool" where
  "has_instance_priv s today uid iid =
     list_ex (\<lambda>p. active_priv today uid iid p \<and> qp_scope_type p = ''instance'') (st_privileges s)"

definition has_any_data_dict_priv :: "store \<Rightarrow> date \<Rightarrow> int \<Rightarrow> int \<Rightarrow> bool" where
  "has_any_data_dict_priv s today uid iid =
     list_ex (\<lambda>p. active_priv today uid iid p \<and> qp_scope_type p \<in> {''instance'', ''database'', ''table''})
       (st_privileges s)"

definition pg_table_candidates :: "string \<Rightarrow> string \<Rightarrow> string list" where
  "pg_table_candidates schema table_name =
     (let t = py_strip table_name; sch = py_strip schema;
          c1 = (if t \<noteq> [] then [t] else [])
      in if sch \<noteq> [] \<and> t \<noteq> []
         then (let q = sch @ ''.'' @ t in if q \<notin> set c1 then c1 @ [q] else c1)
         else c1)"

text \<open>\<open>s.split(".", 1)\<close> of a text that contains a dot.\<close>

definition split_dot :: "string \<Rightarrow> string \<times> string" where
  "split_dot x = (takeWhile (\<lambda>c. c \<noteq> CHR ''.'') x, drop 1 (dropWhile (\<lambda>c. c \<noteq> CHR ''.'') x))"

definition normalize_table_lookup_names :: "db_instance \<Rightarrow> string \<Rightarrow> string \<Rightarrow> string list" where
  "normalize_table_lookup_names inst db_name table_name =
     (let t = py_strip table_name in
      if t = [] then []
      else if in_db_type inst = ''pgsql'' \<and> CHR ''.'' \<in> set t
      then (case split_dot t of (schema, plain) \<Rightarrow> pg_table_candidates schema plain)
      else let sch = py_strip db_name in
        if in_db_type inst \<noteq> ''pgsql'' \<and> sch \<noteq> [] then [t, sch @ ''.'' @ t] else [t])"

definition has_db_priv :: "store \<Rightarrow> date \<Rightarrow> int \<Rightarrow> int \<Rightarrow> string \<Rightarrow> bool" where
  "has_db_priv s today uid iid db_name =
     (if has_instance_priv s today uid iid then True
      else list_ex (\<lambda>p. active_priv today uid iid p \<and> qp_scope_type p = ''database'' \<and> qp_db_name p = db_name)
             (st_privileges s))"

definition has_any_table_priv_in_db :: "store \<Rightarrow> date \<Rightarrow> int \<Rightarrow> int \<Rightarrow> string \<Rightarrow> bool" where
  "has_any_table_priv_in_db s today uid iid db_name =
     (if has_instance_priv s today uid iid then True
      else list_ex (\<lambda>p. active_priv today uid iid p \<and> qp_scope_type p = ''table'' \<and> qp_db_name p = db_name)
             (st_privileges s))"

definition normalized_names :: "string list \<Rightarrow> string list" where
  "normalized_names names = map py_strip (filter (\<lambda>n. n \<noteq> [] \<and> py_strip n \<noteq> []) names)"

definition has_table_priv :: "store \<Rightarrow> date \<Rightarrow> int \<Rightarrow> int \<Rightarrow> string \<Rightarrow> string list \<Rightarrow> bool" where
  "has_table_priv s today uid iid db_name table_names =
     (if has_instance_priv s today uid iid then True
      else let names = normalized_names table_names in
        if names = [] then False
        else list_ex (\<lambda>p. active_priv today uid iid p \<and> qp_scope_type p = ''table'' \<and> qp_db_name p = db_name
               \<and> qp_table_name p \<in> set names) (st_privileges s))"

section \<open>Data dictionary\<close>

definition list_data_dict_databases :: "store \<Rightarrow> date \<Rightarrow> operator \<Rightarrow> db_instance \<Rightarrow> string list \<Rightarrow> string list" where
  "list_data_dict_databases s today u inst database_names =
     (if user_has_query_bypass u inst then database_names
      else if \<not> user_has_instance_access u inst then []
      else if has_instance_priv s today (op_id u) (in_id inst) then database_names
      else let allowed = map (\<lambda>p. py_strip (qp_db_name p))
             (filter (\<lambda>p. active_priv today (op_id u) (in_id inst) p \<and> qp_scope_type p \<in> {''database'', ''table''}
                \<and> py_strip (qp_db_name p) \<noteq> []) (st_privileges s))
        in filter (\<lambda>n. n \<in> set allowed) database_names)"

text \<open>\<open>sorted\<close> of a set of texts: lexicographic by code point, each once.\<close>

fun str_le :: "string \<Rightarrow> string \<Rightarrow> bool" where
  "str_le [] y = True"
| "str_le (a # x) [] = False"
| "str_le (a # x) (b # y) = (if char_code a = char_code b then str_le x y else char_code a < char_code b)"

fun str_insert :: "string \<Rightarrow> string list \<Rightarrow> string list" where
  "str_insert x [] = [x]"
| "str_insert x (y # ys) = (if x = y then y # ys else if str_le x y then x # y # ys else y # str_insert x ys)"

definition str_sorted_set :: "string list \<Rightarrow> string list" where
  "str_sorted_set xs = foldr str_insert xs []"

definition list_data_dict_tables :: "store \<Rightarrow> date \<Rightarrow> operator \<Rightarrow> db_instance \<Rightarrow> string \<Rightarrow> string list \<Rightarrow> string list" where
  "list_data_dict_tables s today u inst db_name table_names =
     (if user_has_query_bypass u inst then table_names
      else if \<not> user_has_instance_access u inst then []
      else if has_instance_priv s today (op_id u) (in_id inst) then table_names
      else if has_db_priv s today (op_id u) (in_id inst) db_name then table_names
      else let allowed = map (\<lambda>p. py_strip (qp_table_name p))
             (filter (\<lambda>p. active_priv today (op_id u) (in_id inst) p \<and> qp_scope_type p = ''table''
                \<and> qp_db_name p = db_name \<and> py_strip (qp_table_name p) \<noteq> []) (st_privileges s));
               visible = filter (\<lambda>n. n \<in> set allowed) table_names
        in visible @ filter (\<lambda>n. n \<notin> set visible) (str_sorted_set allowed))"

definition check_data_dict_access ::
    "store \<Rightarrow> date \<Rightarrow> operator \<Rightarrow> db_instance \<Rightarrow> string \<Rightarrow> string \<Rightarrow> bool \<times> access_reason" where
  "check_data_dict_access s today u inst db_name table_name =
     (case query_bypass_reason u inst of
        Some r \<Rightarrow> (True, r)
      | None \<Rightarrow>
          if \<not> user_has_instance_access u inst then (False, DInstanceOutOfScope)
          else if has_instance_priv s today (op_id u) (in_id inst) then (True, RInstancePrivilege)
          else let ndb = py_strip db_name; nt = py_strip table_name in
            if ndb = [] then
              (if has_any_data_dict_priv s today (op_id u) (in_id inst) then (True, RScopedPrivilege)
               else (False, DNoInstanceDict))
            else if has_db_priv s today (op_id u) (in_id inst) ndb then (True, RDbPrivilege)
            else if nt = [] then
              (if has_any_table_priv_in_db s today (op_id u) (in_id inst) ndb then (True, RTableInDatabase)
               else (False, DNoDatabase ndb))
            else if has_table_priv s today (op_id u) (in_id inst) ndb (normalize_table_lookup_names inst ndb nt)
            then (True, RTablePrivilege)
            else (False, DNoTable nt))"

section \<open>Query access\<close>

text \<open>
  \<open>resolver inst\<close> is \<open>engine.resolve_table_schemas\<close>, \<open>None\<close> when the engine has none;
  its result maps a table to the schemas that contain it.
\<close>

type_synonym schema_resolver = "db_instance \<Rightarrow> (string \<Rightarrow> string list \<Rightarrow> (string \<times> string list) list res) option res"

definition unresolved_tables :: "table_ref list \<Rightarrow> string list" where
  "unresolved_tables refs =
     str_sorted_set (map (\<lambda>r. py_strip (snd r)) (filter (\<lambda>r. py_strip (snd r) \<noteq> [] \<and> py_strip (fst r) = []) refs))"

definition get_pg_table_schema_map ::
    "schema_resolver \<Rightarrow> db_instance \<Rightarrow> string \<Rightarrow> table_ref list \<Rightarrow> (string \<times> string list) list res" where
  "get_pg_table_schema_map resolver inst db_name refs =
     (if in_db_type inst \<noteq> ''pgsql'' then Inr []
      else if unresolved_tables refs = [] then Inr []
      else rbind (resolver inst) (\<lambda>f. case f of None \<Rightarrow> Inr []
             | Some resolve_table_schemas \<Rightarrow> resolve_table_schemas db_name (unresolved_tables refs)))"

definition schemas_of :: "(string \<times> string list) list \<Rightarrow> string \<Rightarrow> string list" where
  "schemas_of m table = list_or_empty (map_of m table)"

text \<open>One round of the loop: \<open>None\<close> to go on, \<open>Some\<close> the reason of a refusal.\<close>

definition check_ref ::
    "store \<Rightarrow> date \<Rightarrow> int \<Rightarrow> db_instance \<Rightarrow> string \<Rightarrow> (string \<times> string list) list \<Rightarrow> table_ref \<Rightarrow> access_reason option" where
  "check_ref s today uid inst db_name schema_map r =
     (let schema = py_strip (fst r); table = snd r in
      if table = [] then None
      else if has_db_priv s today uid (in_id inst) db_name then None
      else if in_db_type inst = ''pgsql'' then
        (if schema \<noteq> [] then
           (if has_table_priv s today uid (in_id inst) db_name (pg_table_candidates schema table) then None
            else Some (DNoTable (schema @ ''.'' @ table)))
         else let matched = schemas_of schema_map table in
           if length matched > 1 then Some (DAmbiguousTable table)
           else if has_table_priv s today uid (in_id inst) db_name
                     (pg_table_candidates (if length matched = 1 then hd matched else []) table)
           then None
           else Some (DNoTable (if length matched = 1 then hd matched @ ''.'' @ table else table)))
      else let effective_schema = or_str schema db_name in
        if has_table_priv s today uid (in_id inst) effective_schema [table] then None
        else Some (DNoTable (effective_schema @ ''.'' @ table)))"

fun check_refs ::
    "store \<Rightarrow> date \<Rightarrow> int \<Rightarrow> db_instance \<Rightarrow> string \<Rightarrow> (string \<times> string list) list \<Rightarrow> table_ref list \<Rightarrow> bool \<times> access_reason" where
  "check_refs s today uid inst db_name m [] = (True, RPrivilege)"
| "check_refs s today uid inst db_name m (r # rs) =
     (case check_ref s today uid inst db_name m r of
        None \<Rightarrow> check_refs s today uid inst db_name m rs
      | Some d \<Rightarrow> (False, d))"

text \<open>\<open>refs\<close>: the given references, or those extracted from the SQL.\<close>

definition given_refs ::
    "(string \<Rightarrow> string \<Rightarrow> string + ast) \<Rightarrow> string \<Rightarrow> string \<Rightarrow> string \<Rightarrow> table_ref list option \<Rightarrow> table_ref list" where
  "given_refs parse_one sql db_name db_type table_refs =
     (case table_refs of Some rs \<Rightarrow> rs | None \<Rightarrow> extract_table_refs parse_one sql db_name db_type)"

definition check_query_priv ::
    "store \<Rightarrow> date \<Rightarrow> (string \<Rightarrow> string \<Rightarrow> string + ast) \<Rightarrow> schema_resolver \<Rightarrow> operator \<Rightarrow> db_instance \<Rightarrow> string \<Rightarrow> string
       \<Rightarrow> table_ref list option \<Rightarrow> (bool \<times> access_reason) res" where
  "check_query_priv s today parse_one resolver u inst db_name sql table_refs =
     (case query_bypass_reason u inst of
        Some r \<Rightarrow> Inr (True, r)
      | None \<Rightarrow>
          if \<not> user_has_instance_access u inst then Inr (False, DInstanceOutOfScope)
          else let refs = given_refs parse_one sql db_name (in_db_type inst) table_refs in
            rbind (get_pg_table_schema_map resolver inst db_name refs) (\<lambda>m.
              if refs = [] then
                (if has_instance_priv s today (op_id u) (in_id inst) then Inr (True, RInstancePrivilege)
                 else if has_db_priv s today (op_id u) (in_id inst) db_name then Inr (True, RDbPrivilege)
                 else Inr (False, DNoDatabase db_name))
              else Inr (check_refs s today (op_id u) inst db_name m refs)))"

definition explain_query_access ::
    "store \<Rightarrow> date \<Rightarrow> (string \<Rightarrow> string \<Rightarrow> string + ast) \<Rightarrow> schema_resolver \<Rightarrow> operator \<Rightarrow> db_instance \<Rightarrow> string \<Rightarrow> string
       \<Rightarrow> table_ref list option \<Rightarrow> (bool \<times> access_reason \<times> string) res" where
  "explain_query_access s today parse_one resolver u inst db_name sql table_refs =
     rbind (check_query_priv s today parse_one resolver u inst db_name sql table_refs) (\<lambda>(allowed, reason).
       Inr (allowed, reason,
         if reason = RAdmin then ''identity''
         else if reason = RResourceGroupQuery \<or> reason = DInstanceOutOfScope then ''resource_scope''
         else ''data_scope''))"

section \<open>Effective limit\<close>

definition latest_limit ::
    "store \<Rightarrow> date \<Rightarrow> int \<Rightarrow> int \<Rightarrow> string \<Rightarrow> string \<Rightarrow> string list \<Rightarrow> int option" where
  "latest_limit s today uid iid sc scope_db_name table_names =
     (let rows = sort_key (\<lambda>p. - qp_created_at p) (sort_key (\<lambda>p. - qp_id p)
            (filter (\<lambda>p. active_priv today uid iid p \<and> qp_scope_type p = sc) (st_privileges s)));
          rows1 = (if sc \<noteq> ''instance'' then filter (\<lambda>p. qp_db_name p = scope_db_name) rows else rows);
          names = normalized_names table_names
      in if sc = ''table'' \<and> names = [] then None
         else (case (if sc = ''table'' then filter (\<lambda>p. qp_table_name p \<in> set names) rows1 else rows1) of
                 [] \<Rightarrow> None | p # _ \<Rightarrow> Some (qp_limit_num p)))"

definition or_else :: "'a option \<Rightarrow> 'a option \<Rightarrow> 'a option" where
  "or_else a b = (case a of None \<Rightarrow> b | Some x \<Rightarrow> Some x)"

definition ref_limit ::
    "store \<Rightarrow> date \<Rightarrow> int \<Rightarrow> db_instance \<Rightarrow> string \<Rightarrow> (string \<times> string list) list \<Rightarrow> table_ref \<Rightarrow> int option" where
  "ref_limit s today uid inst db_name schema_map r =
     (let schema = py_strip (fst r); table = snd r;
          instance_limit = latest_limit s today uid (in_id inst) ''instance'' [] [] in
      if table = [] then None
      else if in_db_type inst = ''pgsql'' then
        (let matched = (if schema = [] then schemas_of schema_map table else [schema]) in
         if length matched > 1 then None
         else or_else (latest_limit s today uid (in_id inst) ''table'' db_name
                         (pg_table_candidates (if matched \<noteq> [] then hd matched else []) table))
              (or_else (latest_limit s today uid (in_id inst) ''database'' db_name []) instance_limit))
      else (let effective_schema = or_str schema db_name in
            or_else (latest_limit s today uid (in_id inst) ''table'' effective_schema [table])
              (or_else (latest_limit s today uid (in_id inst) ''database'' effective_schema []) instance_limit)))"

definition collect_limits :: "(table_ref \<Rightarrow> int option) \<Rightarrow> table_ref list \<Rightarrow> int list" where
  "collect_limits f refs = concat (map (\<lambda>r. case f r of None \<Rightarrow> [] | Some n \<Rightarrow> [n]) refs)"

definition opt_list :: "'a option \<Rightarrow> 'a list" where
  "opt_list x = (case x of None \<Rightarrow> [] | Some y \<Rightarrow> [y])"

definition get_effective_query_limit ::
    "store \<Rightarrow> date \<Rightarrow> (string \<Rightarrow> string \<Rightarrow> string + ast) \<Rightarrow> schema_resolver \<Rightarrow> operator \<Rightarrow> db_instance \<Rightarrow> string \<Rightarrow> string
       \<Rightarrow> int \<Rightarrow> table_ref list option \<Rightarrow> int res" where
  "get_effective_query_limit s today parse_one resolver u inst db_name sql requested table_refs =
     (if user_has_query_bypass u inst then Inr requested
      else let refs = given_refs parse_one sql db_name (in_db_type inst) table_refs in
        rbind (get_pg_table_schema_map resolver inst db_name refs) (\<lambda>m.
          if refs = [] then
            Inr (fold min (opt_list (latest_limit s today (op_id u) (in_id inst) ''database'' db_name [])
                   @ opt_list (latest_limit s today (op_id u) (in_id inst) ''instance'' [] [])) requested)
          else Inr (fold min (collect_limits (ref_limit s today (op_id u) inst db_name m) refs) requested)))"

section \<open>Search path\<close>

fun search_path_parts :: "(string \<times> string list) list \<Rightarrow> table_ref list \<Rightarrow> string list \<Rightarrow> string list option" where
  "search_path_parts m [] parts = Some parts"
| "search_path_parts m (r # rs) parts =
     (let schema = py_strip (fst r); table = py_strip (snd r) in
      if schema \<noteq> [] then search_path_parts m rs (if schema \<in> set parts then parts else parts @ [schema])
      else if table = [] then search_path_parts m rs parts
      else (case schemas_of m table of
              [sch] \<Rightarrow> search_path_parts m rs (if sch \<in> set parts then parts else parts @ [sch])
            | _ \<Rightarrow> None))"

definition resolve_pg_search_path ::
    "(string \<Rightarrow> string \<Rightarrow> string + ast) \<Rightarrow> schema_resolver \<Rightarrow> db_instance \<Rightarrow> string \<Rightarrow> string \<Rightarrow> table_ref list option \<Rightarrow> string option res" where
  "resolve_pg_search_path parse_one resolver inst db_name sql table_refs =
     (if in_db_type inst \<noteq> ''pgsql'' then Inr None
      else let refs = given_refs parse_one sql db_name (in_db_type inst) table_refs in
        if refs = [] then Inr None
        else rbind (get_pg_table_schema_map resolver inst db_name refs) (\<lambda>m.
          case search_path_parts m refs [] of
            None \<Rightarrow> Inr None
          | Some parts \<Rightarrow> Inr (Some (py_join '','' (if ''public'' \<in> set parts then parts else parts @ [''public''])))))"

section \<open>Privilege lists\<close>

text \<open>
  \<open>by_location\<close> is the ORDER BY on instance, database and table name, which follows
  the collation of the database.
\<close>

definition list_my_privileges ::
    "(query_privilege list \<Rightarrow> query_privilege list) \<Rightarrow> store \<Rightarrow> date \<Rightarrow> int \<Rightarrow> int option \<Rightarrow> query_privilege list" where
  "list_my_privileges by_location s today user_id instance_id =
     by_location (filter (\<lambda>p. qp_user_id p = Some user_id \<and> qp_user_group_id p = None \<and> qp_is_deleted p = 0
        \<and> today \<le> qp_valid_date p \<and> (truthy_id instance_id \<longrightarrow> qp_instance_id p = instance_id)) (st_privileges s))"

text \<open>Inner joins with the user and the instance; \<open>ilike\<close> as in the workflow list.\<close>

definition manage_rows ::
    "store \<Rightarrow> date \<Rightarrow> operator \<Rightarrow> (string \<Rightarrow> string \<Rightarrow> bool) \<Rightarrow> int option \<Rightarrow> int option \<Rightarrow> string option \<Rightarrow> string \<Rightarrow> query_privilege list" where
  "manage_rows s today u ilike instance_id user_id db_name status =
     filter (\<lambda>p. (truthy_id instance_id \<longrightarrow> qp_instance_id p = instance_id)
         \<and> (truthy_id user_id \<longrightarrow> qp_user_id p = user_id)
         \<and> (truthy db_name \<longrightarrow> ilike (''%'' @ the db_name @ ''%'') (qp_db_name p)))
       (apply_scope (resolve s u DomQuery) qp_user_id qp_instance_id
         (filter (\<lambda>p. (case qp_user_id p of None \<Rightarrow> False | Some i \<Rightarrow> get_user s i \<noteq> None)
             \<and> (case qp_instance_id p of None \<Rightarrow> False | Some i \<Rightarrow> get_instance s i \<noteq> None)
             \<and> qp_user_group_id p = None
             \<and> (if status = ''revoked'' then qp_is_deleted p = 1
                else qp_is_deleted p = 0 \<and> today \<le> qp_valid_date p)) (st_privileges s)))"

definition list_manage_privileges ::
    "store \<Rightarrow> date \<Rightarrow> operator \<Rightarrow> (string \<Rightarrow> string \<Rightarrow> bool) \<Rightarrow> nat \<Rightarrow> nat \<Rightarrow> int option \<Rightarrow> int option \<Rightarrow> string option \<Rightarrow> string
       \<Rightarrow> string \<times> nat \<times> (query_privilege \<times> string \<times> string \<times> bool) list" where
  "list_manage_privileges s today u ilike page page_size instance_id user_id db_name status =
     (let rows = manage_rows s today u ilike instance_id user_id db_name status;
          shown = page_of page page_size (sort_key (\<lambda>p. - qp_created_at p) (sort_key (\<lambda>p. - qp_id p) rows));
          display = (\<lambda>p. case get_user s (the (qp_user_id p)) of None \<Rightarrow> []
                       | Some r \<Rightarrow> or_str (us_display_name r) (us_username r))
      in (sc_mode (resolve s u DomQuery), length rows,
          map (\<lambda>p. (p, display p, instance_name_of s (the (qp_instance_id p)), can_revoke_privilege s p u)) shown))"

section \<open>What a privilege covers\<close>

text \<open>
  The specification of the data layer: the privileges that cover a table reference of a
  request on \<open>db_name\<close>. For PostgreSQL \<open>m\<close> resolves unqualified tables; a table of
  several schemas is ambiguous, and no table privilege covers it.
\<close>

definition ref_schema :: "(string \<times> string list) list \<Rightarrow> table_ref \<Rightarrow> string" where
  "ref_schema m r =
     (if py_strip (fst r) \<noteq> [] then py_strip (fst r)
      else (case schemas_of m (snd r) of [sch] \<Rightarrow> sch | _ \<Rightarrow> []))"

definition ref_ambiguous :: "(string \<times> string list) list \<Rightarrow> table_ref \<Rightarrow> bool" where
  "ref_ambiguous m r \<longleftrightarrow> py_strip (fst r) = [] \<and> length (schemas_of m (snd r)) > 1"

definition table_covers :: "db_instance \<Rightarrow> string \<Rightarrow> (string \<times> string list) list \<Rightarrow> table_ref \<Rightarrow> string \<Rightarrow> string \<Rightarrow> bool" where
  "table_covers inst db_name m r d t =
     (if in_db_type inst = ''pgsql''
      then \<not> ref_ambiguous m r \<and> d = db_name \<and> t \<in> set (normalized_names (pg_table_candidates (ref_schema m r) (snd r)))
      else d = or_str (py_strip (fst r)) db_name \<and> t \<in> set (normalized_names [snd r]))"

definition covers :: "db_instance \<Rightarrow> string \<Rightarrow> (string \<times> string list) list \<Rightarrow> table_ref \<Rightarrow> query_privilege \<Rightarrow> bool" where
  "covers inst db_name m r p \<longleftrightarrow>
     qp_scope_type p = ''instance'' \<or> (qp_scope_type p = ''database'' \<and> qp_db_name p = db_name)
     \<or> (qp_scope_type p = ''table'' \<and> table_covers inst db_name m r (qp_db_name p) (qp_table_name p))"

lemma has_instance_priv_iff:
  "has_instance_priv s today uid iid \<longleftrightarrow>
     (\<exists>p\<in>set (st_privileges s). active_priv today uid iid p \<and> qp_scope_type p = ''instance'')"
  by (simp add: has_instance_priv_def list_ex_iff)

lemma has_db_priv_iff:
  "has_db_priv s today uid iid d \<longleftrightarrow>
     (\<exists>p\<in>set (st_privileges s). active_priv today uid iid p
        \<and> (qp_scope_type p = ''instance'' \<or> (qp_scope_type p = ''database'' \<and> qp_db_name p = d)))"
  unfolding has_db_priv_def has_instance_priv_iff list_ex_iff by auto

lemma has_table_priv_iff:
  "has_table_priv s today uid iid d names \<longleftrightarrow>
     (\<exists>p\<in>set (st_privileges s). active_priv today uid iid p
        \<and> (qp_scope_type p = ''instance''
           \<or> (qp_scope_type p = ''table'' \<and> qp_db_name p = d \<and> qp_table_name p \<in> set (normalized_names names))))"
  unfolding has_table_priv_def has_instance_priv_iff list_ex_iff Let_def by auto

lemma schemas_single: "length xs = 1 \<Longrightarrow> \<exists>x. xs = [x]"
  by (cases xs) auto

lemma check_ref_None_iff:
  "check_ref s today uid inst db_name m r = None \<longleftrightarrow>
     snd r = [] \<or> (\<exists>p\<in>set (st_privileges s). active_priv today uid (in_id inst) p \<and> covers inst db_name m r p)"
proof -
  consider (empty) "snd r = []" | (db) "snd r \<noteq> []" "has_db_priv s today uid (in_id inst) db_name"
    | (other) "snd r \<noteq> []" "\<not> has_db_priv s today uid (in_id inst) db_name" "in_db_type inst \<noteq> ''pgsql''"
    | (schema) "snd r \<noteq> []" "\<not> has_db_priv s today uid (in_id inst) db_name" "in_db_type inst = ''pgsql''" "py_strip (fst r) \<noteq> []"
    | (found) "snd r \<noteq> []" "\<not> has_db_priv s today uid (in_id inst) db_name" "in_db_type inst = ''pgsql''" "py_strip (fst r) = []"
    by blast
  then show ?thesis
  proof cases
    case empty
    then show ?thesis by (simp add: check_ref_def)
  next
    case db
    then show ?thesis by (simp add: check_ref_def) (auto simp: has_db_priv_iff covers_def)
  next
    case other
    then show ?thesis
      by (simp add: check_ref_def Let_def has_db_priv_iff has_table_priv_iff covers_def table_covers_def) blast
  next
    case schema
    then show ?thesis
      by (simp add: check_ref_def Let_def has_db_priv_iff has_table_priv_iff covers_def table_covers_def ref_schema_def
          ref_ambiguous_def) blast
  next
    case found
    then consider "length (schemas_of m (snd r)) > 1" | x where "schemas_of m (snd r) = [x]"
      | "schemas_of m (snd r) = []"
      by (cases "schemas_of m (snd r)"; cases "tl (schemas_of m (snd r))") auto
    then show ?thesis
      by cases (use found in \<open>simp add: check_ref_def Let_def has_db_priv_iff has_table_priv_iff covers_def table_covers_def
          ref_schema_def ref_ambiguous_def; blast\<close>)+
  qed
qed

lemma check_refs_iff:
  "fst (check_refs s today uid inst db_name m refs) \<longleftrightarrow> (\<forall>r\<in>set refs. check_ref s today uid inst db_name m r = None)"
  by (induction refs) (auto split: option.splits)

definition data_access ::
    "store \<Rightarrow> date \<Rightarrow> int \<Rightarrow> db_instance \<Rightarrow> string \<Rightarrow> (string \<times> string list) list \<Rightarrow> table_ref list \<Rightarrow> bool" where
  "data_access s today uid inst db_name m refs =
     (let active = filter (active_priv today uid (in_id inst)) (st_privileges s) in
      if refs = [] then list_ex (\<lambda>p. qp_scope_type p = ''instance''
                          \<or> (qp_scope_type p = ''database'' \<and> qp_db_name p = db_name)) active
      else list_all (\<lambda>r. snd r = [] \<or> list_ex (covers inst db_name m r) active) refs)"

lemma bypass_reason_None: "query_bypass_reason u inst = None \<longleftrightarrow> \<not> user_has_query_bypass u inst"
  by (auto simp: query_bypass_reason_def user_has_query_bypass_def)

lemma check_query_priv_data:
  assumes "\<not> user_has_query_bypass u inst" "user_has_instance_access u inst"
    and "get_pg_table_schema_map resolver inst db_name (given_refs parse_one sql db_name (in_db_type inst) table_refs) = Inr m"
  shows "\<exists>reason. check_query_priv s today parse_one resolver u inst db_name sql table_refs =
    Inr (data_access s today (op_id u) inst db_name m (given_refs parse_one sql db_name (in_db_type inst) table_refs), reason)"
proof (cases "given_refs parse_one sql db_name (in_db_type inst) table_refs = []")
  case True
  have "data_access s today (op_id u) inst db_name m [] \<longleftrightarrow> has_db_priv s today (op_id u) (in_id inst) db_name"
    by (auto simp: data_access_def has_db_priv_iff list_ex_iff)
  moreover have "has_instance_priv s today (op_id u) (in_id inst) \<Longrightarrow> has_db_priv s today (op_id u) (in_id inst) db_name"
    by (simp add: has_db_priv_def)
  ultimately show ?thesis using assms True by (auto simp: check_query_priv_def bypass_reason_None [symmetric])
next
  case False
  define rs where "rs = given_refs parse_one sql db_name (in_db_type inst) table_refs"
  have "fst (check_refs s today (op_id u) inst db_name m rs) \<longleftrightarrow> data_access s today (op_id u) inst db_name m rs"
    using False by (auto simp: check_refs_iff check_ref_None_iff data_access_def list_all_iff list_ex_iff rs_def)
  then show ?thesis using assms False
    by (auto simp: check_query_priv_def bypass_reason_None [symmetric] rs_def [symmetric] prod_eq_iff)
qed

lemma data_access_mono:
  assumes "data_access s' today' uid inst db_name m refs"
    and "\<And>p. p \<in> set (st_privileges s') \<Longrightarrow> active_priv today' uid (in_id inst) p \<Longrightarrow>
          p \<in> set (st_privileges s) \<and> active_priv today uid (in_id inst) p"
  shows "data_access s today uid inst db_name m refs"
  using assms by (auto simp: data_access_def Let_def list_all_iff list_ex_iff split: if_splits)

lemma latest_limit_Some:
  assumes "latest_limit s today uid iid sc d names = Some n"
  shows "\<exists>p\<in>set (st_privileges s). active_priv today uid iid p \<and> qp_scope_type p = sc \<and> qp_limit_num p = n"
proof -
  define rows where "rows = sort_key (\<lambda>p. - qp_created_at p) (sort_key (\<lambda>p. - qp_id p)
            (filter (\<lambda>p. active_priv today uid iid p \<and> qp_scope_type p = sc) (st_privileges s)))"
  have hd: "p \<in> set rows" if "filter P rows = p # ps" for P p ps
  proof -
    from that have "p \<in> set (filter P rows)" by simp
    then show ?thesis by simp
  qed
  from assms obtain p where "p \<in> set rows" "n = qp_limit_num p"
    unfolding latest_limit_def Let_def rows_def [symmetric]
    by (auto split: if_split_asm list.split_asm dest: hd simp: filter_filter)
  then show ?thesis by (auto simp: rows_def)
qed

lemma ref_limit_Some:
  "ref_limit s today uid inst db_name m r = Some n \<Longrightarrow>
     \<exists>p\<in>set (st_privileges s). active_priv today uid (in_id inst) p \<and> qp_limit_num p = n"
  unfolding ref_limit_def Let_def or_else_def
  by (auto split: if_split_asm option.split_asm dest!: latest_limit_Some)

lemma fold_min_le: "fold min xs (n :: int) \<le> n \<and> (\<forall>x\<in>set xs. fold min xs n \<le> x)"
proof (induction xs arbitrary: n)
  case Nil
  then show ?case by simp
next
  case (Cons x xs)
  from Cons.IH [of "min x n"] show ?case by (simp add: min_le_iff_disj)
qed

lemma fold_min_in: "fold min xs (n :: int) = n \<or> fold min xs n \<in> set xs"
  by (induction xs arbitrary: n) (auto simp: min_def)

lemma set_collect_limits: "n \<in> set (collect_limits f refs) \<longleftrightarrow> (\<exists>r\<in>set refs. f r = Some n)"
  by (induction refs) (auto simp: collect_limits_def split: option.splits)

lemma in_opt_list: "k \<in> set (opt_list x) \<longleftrightarrow> x = Some k"
  by (auto simp: opt_list_def split: option.splits)

section \<open>Properties\<close>

definition sample_priv :: "string \<Rightarrow> string \<Rightarrow> string \<Rightarrow> query_privilege" where
  "sample_priv sc d tb =
     \<lparr> qp_id = 11, qp_user_id = Some 7, qp_user_group_id = None, qp_instance_id = Some 5,
       qp_resource_group_id = None, qp_scope_type = sc, qp_db_name = d, qp_table_name = tb,
       qp_valid_date = 50, qp_limit_num = 100, qp_priv_type = 1, qp_is_deleted = 0,
       qp_revoked_at = None, qp_revoked_by_id = None, qp_revoked_by_name = None,
       qp_revoke_reason = None, qp_created_at = 10 \<rparr>"

definition priv_store :: "query_privilege list \<Rightarrow> store" where
  "priv_store ps = sample_store\<lparr>st_privileges := ps\<rparr>"

definition no_parse :: "string \<Rightarrow> string \<Rightarrow> string + ast" where
  "no_parse dialect sql = Inl ''not parsed''"

definition no_resolver :: schema_resolver where
  "no_resolver inst = Inr None"

lemma sample_priv_simps [simp]:
  "qp_id (sample_priv sc d tb) = 11" "qp_user_id (sample_priv sc d tb) = Some 7"
  "qp_is_deleted (sample_priv sc d tb) = 0"
  by (simp_all add: sample_priv_def)

lemma priv_store_privileges [simp]: "st_privileges (priv_store ps) = ps"
  by (simp add: priv_store_def)

lemma sample_access [simp]:
  "user_has_instance_access dev_op sample_instance" "\<not> user_has_query_bypass dev_op sample_instance"
  "op_id dev_op = 7" "in_id sample_instance = 5" "in_db_type sample_instance = ''mysql''"
  by (simp_all add: user_has_instance_access_def user_has_query_bypass_def shares_group_def has_perm_def sample_defs)

text \<open>
C9: The access check is exact: without a bypass a query is allowed exactly when the user
shares a resource group with the instance (or may see all instances) and every table the
statement names is covered by a privilege of this user on this instance that is neither
revoked nor expired; a statement without tables needs a database or instance privilege.
With a bypass it is allowed, and outside the resource groups refused.
\<close>

theorem query_access_exact:
  assumes "check_query_priv s today parse_one resolver u inst db_name sql table_refs = Inr (allowed, reason)"
  shows "allowed \<longleftrightarrow> user_has_query_bypass u inst
    \<or> (user_has_instance_access u inst
       \<and> (\<exists>m. get_pg_table_schema_map resolver inst db_name
                 (given_refs parse_one sql db_name (in_db_type inst) table_refs) = Inr m
            \<and> data_access s today (op_id u) inst db_name m
                 (given_refs parse_one sql db_name (in_db_type inst) table_refs)))"
proof (cases "user_has_query_bypass u inst")
  case True
  then have "query_bypass_reason u inst \<noteq> None" by (simp add: bypass_reason_None)
  with assms True show ?thesis by (auto simp: check_query_priv_def)
next
  case no_bypass: False
  show ?thesis
  proof (cases "user_has_instance_access u inst")
    case False
    with assms no_bypass show ?thesis by (simp add: check_query_priv_def bypass_reason_None [THEN iffD2])
  next
    case True
    from assms no_bypass True obtain m where m: "get_pg_table_schema_map resolver inst db_name
        (given_refs parse_one sql db_name (in_db_type inst) table_refs) = Inr m"
      by (auto simp: check_query_priv_def bypass_reason_None [THEN iffD2] res_simps Let_def)
    from check_query_priv_data [OF no_bypass True m, of s today] assms no_bypass True m show ?thesis by auto
  qed
qed

theorem query_access_exact_witness:
  "check_query_priv (priv_store [sample_priv ''table'' ''app'' ''log'']) 40 no_parse no_resolver dev_op sample_instance
       ''app'' [] (Some [([], ''log'')]) = Inr (True, RPrivilege)
   \<and> data_access (priv_store [sample_priv ''table'' ''app'' ''log'']) 40 7 sample_instance ''app'' [] [([], ''log'')]"
proof -
  have run: "check_query_priv (priv_store [sample_priv ''table'' ''app'' ''log'']) 40 no_parse no_resolver dev_op sample_instance
       ''app'' [] (Some [([], ''log'')]) = Inr (True, RPrivilege)"
    by (simp add: check_query_priv_def bypass_reason_None [THEN iffD2] get_pg_table_schema_map_def given_refs_def
        check_ref_def has_db_priv_def has_instance_priv_def has_table_priv_def normalized_names_def active_priv_def
        sample_priv_def priv_store_def or_str_def py_strip_def py_lstrip_def py_isspace_def char_code_def)
  from query_access_exact [OF run] run show ?thesis
    by (auto simp: get_pg_table_schema_map_def given_refs_def)
qed

text \<open>
The row limit of a query never exceeds the requested one, is the requested one or the
limit of a valid privilege of the user on the instance, and respects the most specific
privilege of every table the statement names.
\<close>

theorem effective_limit_bounds:
  assumes "get_effective_query_limit s today parse_one resolver u inst db_name sql requested table_refs = Inr n"
  shows "n \<le> requested
    \<and> (n = requested \<or> (\<exists>p\<in>set (st_privileges s). active_priv today (op_id u) (in_id inst) p \<and> qp_limit_num p = n))
    \<and> (user_has_query_bypass u inst
       \<or> (\<exists>m. get_pg_table_schema_map resolver inst db_name
                 (given_refs parse_one sql db_name (in_db_type inst) table_refs) = Inr m
            \<and> (\<forall>r\<in>set (given_refs parse_one sql db_name (in_db_type inst) table_refs).
                 case ref_limit s today (op_id u) inst db_name m r of None \<Rightarrow> True | Some k \<Rightarrow> n \<le> k)))"
proof (cases "user_has_query_bypass u inst")
  case True
  with assms show ?thesis by (simp add: get_effective_query_limit_def)
next
  case False
  define refs where "refs = given_refs parse_one sql db_name (in_db_type inst) table_refs"
  from assms False obtain m where m: "get_pg_table_schema_map resolver inst db_name refs = Inr m"
    by (auto simp: get_effective_query_limit_def Let_def refs_def res_simps)
  define ks where "ks = (if refs = [] then opt_list (latest_limit s today (op_id u) (in_id inst) ''database'' db_name [])
      @ opt_list (latest_limit s today (op_id u) (in_id inst) ''instance'' [] [])
    else collect_limits (ref_limit s today (op_id u) inst db_name m) refs)"
  have n: "n = fold min ks requested"
    using assms False m by (simp add: get_effective_query_limit_def Let_def refs_def [symmetric] ks_def split: if_splits)
  have src: "\<exists>p\<in>set (st_privileges s). active_priv today (op_id u) (in_id inst) p \<and> qp_limit_num p = k"
    if "k \<in> set ks" for k
    using that by (auto simp: ks_def set_collect_limits in_opt_list split: if_splits
        dest!: latest_limit_Some ref_limit_Some)
  have "\<forall>r\<in>set refs. case ref_limit s today (op_id u) inst db_name m r of None \<Rightarrow> True | Some k \<Rightarrow> n \<le> k"
  proof
    fix r assume r: "r \<in> set refs"
    then have "k \<in> set ks" if "ref_limit s today (op_id u) inst db_name m r = Some k" for k
      using that by (auto simp: ks_def set_collect_limits)
    then show "case ref_limit s today (op_id u) inst db_name m r of None \<Rightarrow> True | Some k \<Rightarrow> n \<le> k"
      using fold_min_le [of ks requested] by (auto simp: n split: option.splits)
  qed
  then show ?thesis using m src fold_min_le [of ks requested] fold_min_in [of ks requested]
    by (auto simp: n refs_def)
qed

theorem effective_limit_bounds_witness:
  "get_effective_query_limit (priv_store [sample_priv ''table'' ''app'' ''log'']) 40 no_parse no_resolver dev_op sample_instance
       ''app'' [] 500 (Some [([], ''log'')]) = Inr 100 \<and> (100 :: int) \<le> 500"
proof -
  have run: "get_effective_query_limit (priv_store [sample_priv ''table'' ''app'' ''log'']) 40 no_parse no_resolver dev_op
       sample_instance ''app'' [] 500 (Some [([], ''log'')]) = Inr 100"
    by (simp add: get_effective_query_limit_def get_pg_table_schema_map_def given_refs_def collect_limits_def
        ref_limit_def latest_limit_def normalized_names_def active_priv_def or_else_def
        sample_priv_def priv_store_def or_str_def py_strip_def py_lstrip_def py_isspace_def char_code_def)
  from effective_limit_bounds [OF run] run show ?thesis by simp
qed

text \<open>
Outside PostgreSQL a database privilege on the database of the request opens the
tables of every other database of the instance: a statement that qualifies its tables
with another database is allowed, and when no privilege names that database the row
limit of the privilege does not apply either.
\<close>

theorem database_privilege_crosses_databases:
  assumes "in_db_type inst \<noteq> ''pgsql''" "user_has_instance_access u inst"
    and "p \<in> set (st_privileges s)" "active_priv today (op_id u) (in_id inst) p"
    and "qp_scope_type p = ''database''" "qp_db_name p = db_name"
    and "\<not> user_has_query_bypass u inst"
    and "refs \<noteq> []" "\<forall>r\<in>set refs. py_strip (fst r) \<noteq> []"
    and "\<forall>q\<in>set (st_privileges s). active_priv today (op_id u) (in_id inst) q \<longrightarrow>
           qp_scope_type q \<noteq> ''instance'' \<and> (\<forall>r\<in>set refs. qp_db_name q \<noteq> py_strip (fst r))"
  shows "(\<exists>reason. check_query_priv s today parse_one resolver u inst db_name sql (Some refs) = Inr (True, reason))
    \<and> get_effective_query_limit s today parse_one resolver u inst db_name sql requested (Some refs) = Inr requested"
proof
  have m: "get_pg_table_schema_map resolver inst db_name (given_refs parse_one sql db_name (in_db_type inst) (Some refs)) = Inr []"
    using assms(1) by (simp add: get_pg_table_schema_map_def)
  have "data_access s today (op_id u) inst db_name [] refs"
    using assms(3-6,8) by (auto simp: data_access_def list_all_iff list_ex_iff covers_def)
  with check_query_priv_data [OF assms(7,2) m, of s today] assms(8)
  show "\<exists>reason. check_query_priv s today parse_one resolver u inst db_name sql (Some refs) = Inr (True, reason)"
    by (auto simp: given_refs_def)
  have "ref_limit s today (op_id u) inst db_name [] r = None" if "r \<in> set refs" for r
  proof -
    have sch: "py_strip (fst r) \<noteq> []" using assms(9) that by blast
    have "\<not> (active_priv today (op_id u) (in_id inst) q \<and> qp_db_name q = py_strip (fst r))" if "q \<in> set (st_privileges s)" for q
      using assms(10) that \<open>r \<in> set refs\<close> by blast
    then have named: "latest_limit s today (op_id u) (in_id inst) sc (py_strip (fst r)) names = None" if "sc \<noteq> ''instance''" for sc names
      using that by (auto simp: latest_limit_def Let_def filter_empty_conv split: list.splits dest!: filter_eq_ConsD)
    have "latest_limit s today (op_id u) (in_id inst) ''instance'' [] [] = None"
      using assms(10) latest_limit_Some [of s today "op_id u" "in_id inst" "''instance''" "[]" "[]"]
      by (cases "latest_limit s today (op_id u) (in_id inst) ''instance'' [] []") auto
    then show ?thesis using sch assms(1) named [of "''table''"] named [of "''database''"]
      by (simp add: ref_limit_def Let_def or_else_def or_str_def)
  qed
  then have "collect_limits (ref_limit s today (op_id u) inst db_name []) refs = []"
    using set_collect_limits [of _ "ref_limit s today (op_id u) inst db_name []" refs]
    by (metis list.set_intros(1) neq_Nil_conv option.distinct(1))
  then show "get_effective_query_limit s today parse_one resolver u inst db_name sql requested (Some refs) = Inr requested"
    using assms(1,7,8) by (simp add: get_effective_query_limit_def get_pg_table_schema_map_def given_refs_def)
qed

theorem database_privilege_crosses_databases_witness:
  "(\<exists>reason. check_query_priv (priv_store [sample_priv ''database'' ''app'' []]) 40 no_parse no_resolver dev_op sample_instance
       ''app'' [] (Some [(''hr'', ''salary'')]) = Inr (True, reason))
   \<and> get_effective_query_limit (priv_store [sample_priv ''database'' ''app'' []]) 40 no_parse no_resolver dev_op sample_instance
       ''app'' [] 500 (Some [(''hr'', ''salary'')]) = Inr 500"
proof (rule database_privilege_crosses_databases [of _ _ "sample_priv ''database'' ''app'' []"])
  show "\<forall>r\<in>set [(''hr'', ''salary'')]. py_strip (fst r) \<noteq> []"
    by (simp add: py_strip_def py_lstrip_def py_isspace_def char_code_def)
  show "\<forall>q\<in>set (st_privileges (priv_store [sample_priv ''database'' ''app'' []])). active_priv 40 (op_id dev_op) (in_id sample_instance) q \<longrightarrow>
      qp_scope_type q \<noteq> ''instance'' \<and> (\<forall>r\<in>set [(''hr'', ''salary'')]. qp_db_name q \<noteq> py_strip (fst r))"
    by (simp add: priv_store_def sample_priv_def py_strip_def py_lstrip_def py_isspace_def char_code_def)
qed (simp_all add: priv_store_def sample_priv_def active_priv_def)

end
