(* ===== verification/Query_Apply_Service.thy ===== *)
theory Query_Apply_Service
  imports Query_Priv_Service Workflow_Service
begin

text \<open>
  The writing half of \<^verbatim>\<open>app/services/query_priv.py\<close>: the applications for query
  privileges (submission, review, cancellation), the revocation of a privilege and the
  query log, with the request models of \<^verbatim>\<open>app/schemas/query.py\<close>. A status is the
  \<open>audit_status\<close> of the same number. The abstract view \<open>application\<close> of an application
  (its status, its chain, its date and limit) is what the review properties are stated on.
\<close>

section \<open>Requests\<close>

record apply_request =
  pr_title :: string
  pr_instance_id :: int
  pr_group_id :: "int option"
  pr_flow_id :: "int option"
  pr_db_name :: string
  pr_table_name :: string
  pr_scope_type :: string
  pr_valid_date :: date
  pr_limit_num :: int
  pr_priv_type :: int
  pr_apply_reason :: string
  pr_risk_remark :: string
  pr_audit_auth_groups :: string

text \<open>\<open>PrivApplyRequest\<close>: the field constraints, then the model validator.\<close>

definition validate_scope_fields :: "apply_request \<Rightarrow> apply_request res" where
  "validate_scope_fields d0 =
     (let d = d0\<lparr>pr_db_name := py_strip (pr_db_name d0), pr_table_name := py_strip (pr_table_name d0)\<rparr> in
      if pr_scope_type d = ''instance'' then Inr (d\<lparr>pr_db_name := [], pr_table_name := []\<rparr>)
      else if pr_scope_type d = ''database'' then
        raise_if (pr_db_name d = []) (field_constraint ''db_name'') (Inr (d\<lparr>pr_table_name := []\<rparr>))
      else
        raise_if (pr_db_name d = []) (field_constraint ''db_name'')
        (raise_if (pr_table_name d = []) (field_constraint ''table_name'') (Inr d)))"

definition validate_apply_request :: "date \<Rightarrow> apply_request \<Rightarrow> apply_request res" where
  "validate_apply_request today d =
     raise_if (length (pr_title d) < 2 \<or> length (pr_title d) > 50) (field_constraint ''title'')
     (raise_if (pr_scope_type d \<notin> {''instance'', ''database'', ''table''}) (field_constraint ''scope_type'')
     (raise_if (pr_limit_num d < 1 \<or> pr_limit_num d > 100000) (field_constraint ''limit_num'')
     (raise_if (length (pr_apply_reason d) > 500) (field_constraint ''apply_reason'')
     (raise_if (length (pr_risk_remark d) > 500) (field_constraint ''risk_remark'')
     (raise_if (pr_valid_date d < today) (field_constraint ''valid_date'')
      (validate_scope_fields d))))))"

text \<open>\<open>AuditPrivRequest\<close>\<close>

definition validate_audit_request :: "date \<Rightarrow> string \<Rightarrow> date option \<Rightarrow> unit res" where
  "validate_audit_request today action valid_date =
     raise_if (action \<notin> {''pass'', ''reject''}) (field_constraint ''action'')
     (raise_if (case valid_date of None \<Rightarrow> False | Some v \<Rightarrow> v < today) (field_constraint ''valid_date'')
      (Inr ()))"

section \<open>Submission\<close>

definition priv_refuse :: "priv_msg \<Rightarrow> int \<Rightarrow> exc" where
  "priv_refuse m c = app_exc (PrivMsg m) c"

definition allowed_group_ids :: "db_instance \<Rightarrow> operator \<Rightarrow> int list" where
  "allowed_group_ids inst u = sort (remdups (filter (\<lambda>i. i \<in> set (op_resource_groups u)) (map rg_id (in_resource_groups inst))))"

definition resolve_apply_group_id :: "store \<Rightarrow> operator \<Rightarrow> int \<Rightarrow> int option \<Rightarrow> int res" where
  "resolve_apply_group_id s u instance_id group_id =
     (case get_instance s instance_id of
        None \<Rightarrow> Inl (not_found_exc (PrivMsg (PrivInstanceMissing instance_id)))
      | Some inst \<Rightarrow>
          raise_if (\<not> in_is_active inst) (not_found_exc (PrivMsg (PrivInstanceMissing instance_id)))
          (raise_if (\<not> user_has_instance_access u inst) (priv_refuse PrivInstanceOutOfScope 403)
           (case group_id of
              Some g \<Rightarrow> raise_if (g \<notin> set (allowed_group_ids inst u)) (priv_refuse PrivGroupMismatch 400) (Inr g)
            | None \<Rightarrow> (case allowed_group_ids inst u of
                         g # _ \<Rightarrow> Inr g
                       | [] \<Rightarrow> Inl (priv_refuse PrivNoGroup 400)))))"

definition apply_event :: "privilege_apply \<Rightarrow> string \<Rightarrow> node option \<Rightarrow> int list \<Rightarrow> int list \<Rightarrow> notify_event" where
  "apply_event a event_type nd user_ids exclude =
     \<lparr> ev_type = event_type, ev_subject_type = ''query_privilege'', ev_subject_id = qa_id a,
       ev_app_type = WT_QUERY, ev_node = nd, ev_user_ids = user_ids, ev_permission = None,
       ev_exclude = exclude \<rparr>"

text \<open>The snapshot of the flow; a flow id of 0 is false, so such an application has no chain.\<close>

definition apply_chain :: "store \<Rightarrow> operator \<Rightarrow> int option \<Rightarrow> string \<Rightarrow> (string \<times> nodes_json) res" where
  "apply_chain s u flow_id audit_auth_groups =
     (if truthy_id flow_id then
        rbind (snapshot_for_workflow s (the flow_id)) (\<lambda>ns0.
          let ns = decorate_snapshot_for_applicant ns0 u
          in Inr (py_join '','' (map (\<lambda>n. str_opt_id (n_node_id n)) ns), NodesList ns))
      else Inr (audit_auth_groups, NodesEmpty))"

definition new_apply ::
    "int \<Rightarrow> int \<Rightarrow> apply_request \<Rightarrow> int \<Rightarrow> string \<times> int \<Rightarrow> risk_plan \<Rightarrow> string \<times> nodes_json \<Rightarrow> time \<Rightarrow> privilege_apply" where
  "new_apply i user_id r gid scope plan groups now =
     \<lparr> qa_id = i, qa_title = pr_title r, qa_user_id = user_id, qa_user_group_id = None,
       qa_instance_id = Some (pr_instance_id r), qa_resource_group_id = Some gid, qa_group_id = gid,
       qa_scope_type = fst scope, qa_db_name = pr_db_name r, qa_table_name = pr_table_name r,
       qa_valid_date = pr_valid_date r, qa_limit_num = pr_limit_num r, qa_priv_type = snd scope,
       qa_apply_reason = pr_apply_reason r, qa_risk_plan = plan, qa_risk_remark = pr_risk_remark r,
       qa_status = PENDING, qa_audit_auth_groups = fst groups, qa_flow_id = pr_flow_id r,
       qa_nodes = snd groups, qa_created_at = now \<rparr>"

definition save_apply :: "store \<Rightarrow> privilege_apply \<Rightarrow> (privilege_apply \<times> store) res" where
  "save_apply s a =
     (let s1 = add_apply a s in
      if qa_nodes a = NodesEmpty then Inr (a, s1)
      else rbind (get_current_pending_node a) (\<lambda>first_node.
        Inr (a, case first_node of None \<Rightarrow> s1
          | Some n \<Rightarrow> emit (apply_event a ''approval_pending'' (Some n) [] [qa_user_id a]) s1)))"

definition apply_plan :: "store \<Rightarrow> date \<Rightarrow> apply_request \<Rightarrow> string \<times> int \<Rightarrow> risk_plan" where
  "apply_plan s today r scope =
     build_query_privilege_plan (case get_instance s (pr_instance_id r) of None \<Rightarrow> [] | Some i \<Rightarrow> in_db_type i)
       (fst scope) (pr_db_name r) (pr_table_name r) (pr_valid_date r) today (pr_limit_num r)"

definition apply_privilege ::
    "store \<Rightarrow> date \<Rightarrow> time \<Rightarrow> int \<Rightarrow> apply_request \<Rightarrow> operator option \<Rightarrow> (privilege_apply \<times> store) res" where
  "apply_privilege s today now user_id r user =
     (case user of None \<Rightarrow> Inl (priv_refuse UserContextMissing 400)
      | Some u \<Rightarrow>
        raise_if (pr_flow_id r = None) (app_exc (WorkflowMsg FlowRequired) 400)
        (let scope = normalize_scope_type (pr_scope_type r) (pr_table_name r) (pr_db_name r) in
         rbind (resolve_apply_group_id s u (pr_instance_id r) (pr_group_id r)) (\<lambda>gid.
         let plan = apply_plan s today r scope in
         raise_if (rp_requires_manual_remark plan \<and> py_strip (pr_risk_remark r) = []) (priv_refuse PrivRemarkRequired 400)
         (rbind (apply_chain s u (pr_flow_id r) (pr_audit_auth_groups r)) (\<lambda>groups.
          save_apply s (new_apply (st_next_id s) user_id r gid scope plan groups now))))))"

section \<open>Review\<close>

definition has_chain :: "privilege_apply \<Rightarrow> bool" where
  "has_chain a \<longleftrightarrow> truthy_id (qa_flow_id a) \<and> qa_nodes a \<noteq> NodesEmpty"

definition may_review_unchained :: "operator \<Rightarrow> bool" where
  "may_review_unchained u \<longleftrightarrow> op_is_superuser u \<or> has_perm u ''query_review''"

definition check_auditor :: "store \<Rightarrow> operator \<Rightarrow> privilege_apply \<Rightarrow> unit res" where
  "check_auditor s u a =
     (if has_chain a then
        rbind (get_current_pending_node a) (\<lambda>current.
          case current of None \<Rightarrow> Inl (priv_refuse ApplyChainFinished 400)
          | Some n \<Rightarrow> check_apply_approver_permission s u n)
      else raise_if (\<not> may_review_unchained u) (priv_refuse NoAuditAbility 403) (Inr ()))"

text \<open>The date the approver asks for may only shorten the application's.\<close>

definition override_date :: "date \<Rightarrow> date option \<Rightarrow> privilege_apply \<Rightarrow> privilege_apply res" where
  "override_date today ov a =
     (case ov of None \<Rightarrow> Inr a
      | Some d \<Rightarrow> raise_if (d < today) (priv_refuse OverridePast 400)
          (raise_if (qa_valid_date a < d) (priv_refuse OverrideTooLong 400) (Inr (a\<lparr>qa_valid_date := d\<rparr>))))"

definition close_node :: "audit_status \<Rightarrow> operator \<Rightarrow> time \<Rightarrow> date option \<Rightarrow> node \<Rightarrow> node" where
  "close_node st u now ov n =
     n\<lparr>n_status := st, n_operator := Some (op_username u), n_operator_display := Some (display_or_username u),
       n_operated_at := Some now,
       n_adjusted_valid_date := (case ov of None \<Rightarrow> n_adjusted_valid_date n | Some d \<Rightarrow> Some d)\<rparr>"

definition grant_of :: "privilege_apply \<Rightarrow> int \<Rightarrow> time \<Rightarrow> query_privilege" where
  "grant_of a i now =
     (case normalize_scope_type (qa_scope_type a) (qa_table_name a) (qa_db_name a) of (sc, pt) \<Rightarrow>
      \<lparr> qp_id = i, qp_user_id = Some (qa_user_id a), qp_user_group_id = None,
        qp_instance_id = qa_instance_id a, qp_resource_group_id = None, qp_scope_type = sc,
        qp_db_name = qa_db_name a, qp_table_name = qa_table_name a, qp_valid_date = qa_valid_date a,
        qp_limit_num = qa_limit_num a, qp_priv_type = pt, qp_is_deleted = 0, qp_revoked_at = None,
        qp_revoked_by_id = None, qp_revoked_by_name = None, qp_revoke_reason = None, qp_created_at = now \<rparr>)"

definition grant_apply :: "store \<Rightarrow> privilege_apply \<Rightarrow> time \<Rightarrow> privilege_apply \<times> store" where
  "grant_apply s a now =
     (let a1 = a\<lparr>qa_status := PASSED\<rparr> in
      (a1, emit (apply_event a1 ''approval_passed'' None [qa_user_id a1] [])
             (add_privilege (grant_of a1 (st_next_id s) now) (put_apply a1 s))))"

definition pass_apply :: "store \<Rightarrow> privilege_apply \<Rightarrow> operator \<Rightarrow> date option \<Rightarrow> date \<Rightarrow> time \<Rightarrow> (privilege_apply \<times> store) res" where
  "pass_apply s a u ov today now =
     rbind (override_date today ov a) (\<lambda>a0.
       if has_chain a0 then
         rbind (loads_nodes (qa_nodes a0)) (\<lambda>nodes.
           raise_if (current_pending nodes = None) (priv_refuse ApplyChainFinished 400)
           (let nodes1 = upd_first is_pending (close_node PASSED u now ov) nodes;
                a1 = a0\<lparr>qa_nodes := NodesList nodes1\<rparr>
            in case current_pending nodes1 of
                 Some next_pending \<Rightarrow>
                   Inr (a1, emit (apply_event a1 ''approval_pending'' (Some next_pending) [] [qa_user_id a1]) (put_apply a1 s))
               | None \<Rightarrow> Inr (grant_apply s a1 now)))
       else Inr (grant_apply s a0 now))"

definition reject_current :: "privilege_apply \<Rightarrow> operator \<Rightarrow> time \<Rightarrow> privilege_apply res" where
  "reject_current a u now =
     (if has_chain a then
        rbind (loads_nodes (qa_nodes a)) (\<lambda>nodes. Inr (
          case current_pending nodes of
            None \<Rightarrow> a
          | Some _ \<Rightarrow> a\<lparr>qa_nodes := NodesList (upd_first is_pending (close_node REJECTED u now None) nodes)\<rparr>))
      else Inr a)"

definition reject_apply :: "store \<Rightarrow> privilege_apply \<Rightarrow> operator \<Rightarrow> time \<Rightarrow> (privilege_apply \<times> store) res" where
  "reject_apply s a u now =
     rbind (reject_current a u now) (\<lambda>a0.
     let a1 = a0\<lparr>qa_status := REJECTED\<rparr>
     in Inr (a1, emit (apply_event a1 ''approval_rejected'' None [qa_user_id a1] []) (put_apply a1 s)))"

text \<open>The remark only appears in the text of the notification.\<close>

definition audit_apply ::
    "store \<Rightarrow> int \<Rightarrow> operator \<Rightarrow> string \<Rightarrow> date option \<Rightarrow> date \<Rightarrow> time \<Rightarrow> (privilege_apply \<times> store) res" where
  "audit_apply s apply_id u action ov today now =
     (case get_apply s apply_id of
        None \<Rightarrow> Inl (not_found_exc (PrivMsg (ApplyNotFound apply_id)))
      | Some a \<Rightarrow>
          raise_if (qa_status a \<noteq> PENDING) (priv_refuse ApplyAlreadyAudited 400)
          (rbind (check_auditor s u a) (\<lambda>_.
             if action = ''pass'' then pass_apply s a u ov today now
             else if action = ''reject'' then reject_apply s a u now
             else Inl (priv_refuse BadAction 400))))"

definition cancel_chain :: "privilege_apply \<Rightarrow> operator \<Rightarrow> time \<Rightarrow> privilege_apply res" where
  "cancel_chain a u now =
     (if has_chain a then
        rbind (loads_nodes (qa_nodes a)) (\<lambda>nodes.
          Inr (a\<lparr>qa_nodes := NodesList (cancel_pending_nodes nodes u (Some now))\<rparr>))
      else Inr a)"

definition cancel_apply :: "store \<Rightarrow> int \<Rightarrow> operator \<Rightarrow> time \<Rightarrow> (privilege_apply \<times> store) res" where
  "cancel_apply s apply_id u now =
     (case get_apply s apply_id of
        None \<Rightarrow> Inl (not_found_exc (PrivMsg (ApplyNotFound apply_id)))
      | Some a \<Rightarrow>
          raise_if (qa_user_id a \<noteq> op_id u \<and> \<not> op_is_superuser u) (priv_refuse ApplyCancelNotOwner 403)
          (raise_if (qa_status a \<noteq> PENDING) (priv_refuse ApplyCancelNotPending 400)
          (rbind (can_cancel_apply a u) (\<lambda>ok.
           raise_if (\<not> ok) (priv_refuse ApplyCancelOperated 400)
           (rbind (cancel_chain a u now) (\<lambda>a0.
            let a1 = a0\<lparr>qa_status := CANCELED\<rparr>
            in Inr (a1, emit (apply_event a1 ''application_canceled'' None [qa_user_id a1] []) (put_apply a1 s))))))))"

section \<open>Lists of applications\<close>

text \<open>The check of a list entry: an application exception is caught, other errors pass.\<close>

definition catch_app :: "unit res \<Rightarrow> bool res" where
  "catch_app r = (case r of Inr _ \<Rightarrow> Inr True | Inl e \<Rightarrow> if is_app_exc e then Inr False else Inl e)"

definition auditable :: "store \<Rightarrow> operator \<Rightarrow> privilege_apply \<Rightarrow> bool res" where
  "auditable s u a =
     (if qa_status a \<noteq> PENDING then Inr False
      else if has_chain a then
        rbind (get_current_pending_node a) (\<lambda>current.
          case current of None \<Rightarrow> Inr False
          | Some n \<Rightarrow> catch_app (check_apply_approver_permission s u n))
      else Inr (has_perm u ''query_review''))"

fun filter_res :: "('a \<Rightarrow> bool res) \<Rightarrow> 'a list \<Rightarrow> 'a list res" where
  "filter_res f [] = Inr []"
| "filter_res f (x # xs) =
     rbind (f x) (\<lambda>b. rbind (filter_res f xs) (\<lambda>ys. Inr (if b then x # ys else ys)))"

definition newest_first :: "privilege_apply list \<Rightarrow> privilege_apply list" where
  "newest_first xs = sort_key (\<lambda>a. - qa_created_at a) xs"

definition status_is :: "audit_status option \<Rightarrow> privilege_apply \<Rightarrow> bool" where
  "status_is st a = (case st of None \<Rightarrow> True | Some x \<Rightarrow> qa_status a = x)"

definition list_applies ::
    "store \<Rightarrow> int option \<Rightarrow> operator option \<Rightarrow> audit_status option \<Rightarrow> nat \<Rightarrow> nat \<Rightarrow> (nat \<times> privilege_apply list) res" where
  "list_applies s user_id auditor status page page_size =
     (let items = newest_first (filter (\<lambda>a. (case user_id of None \<Rightarrow> True | Some i \<Rightarrow> qa_user_id a = i) \<and> status_is status a)
                    (st_applies s)) in
      rbind (case auditor of
               None \<Rightarrow> Inr items
             | Some u \<Rightarrow> if user_id = None \<and> \<not> op_is_superuser u then filter_res (auditable s u) items else Inr items)
        (\<lambda>shown. Inr (length shown, page_of page page_size shown)))"

datatype audit_mark = MarkCanAudit | MarkActed | MarkNone

definition audit_mark_of :: "store \<Rightarrow> operator \<Rightarrow> privilege_apply \<Rightarrow> audit_mark res" where
  "audit_mark_of s u a =
     (if qa_nodes a = NodesEmpty then
        Inr (if qa_status a = PENDING \<and> may_review_unchained u then MarkCanAudit else MarkNone)
      else rbind (loads_nodes (qa_nodes a)) (\<lambda>nodes.
        rbind (if qa_status a = PENDING then get_current_pending_node a else Inr None) (\<lambda>current.
        rbind (case current of None \<Rightarrow> Inr False
               | Some n \<Rightarrow> catch_app (check_apply_approver_permission s u n)) (\<lambda>permitted.
        Inr (if permitted then MarkCanAudit
             else if list_ex (\<lambda>n. n_operator n = Some (op_username u)) nodes then MarkActed else MarkNone)))))"

fun audit_marks :: "store \<Rightarrow> operator \<Rightarrow> privilege_apply list \<Rightarrow> (privilege_apply \<times> audit_mark) list res" where
  "audit_marks s u [] = Inr []"
| "audit_marks s u (a # as) =
     rbind (audit_mark_of s u a) (\<lambda>m. rbind (audit_marks s u as) (\<lambda>r. Inr ((a, m) # r)))"

definition list_audit_records ::
    "store \<Rightarrow> operator \<Rightarrow> audit_status option \<Rightarrow> nat \<Rightarrow> nat \<Rightarrow> (nat \<times> privilege_apply list \<times> int list) res" where
  "list_audit_records s u status page page_size =
     rbind (audit_marks s u (newest_first (filter (status_is status) (st_applies s)))) (\<lambda>ms.
       let matched = map fst (filter (\<lambda>(a, m). m \<noteq> MarkNone) ms)
       in Inr (length matched, page_of page page_size matched,
            map (\<lambda>(a, m). qa_id a) (filter (\<lambda>(a, m). m = MarkCanAudit) ms)))"

section \<open>Revocation\<close>

definition revoke_privilege :: "store \<Rightarrow> int \<Rightarrow> operator \<Rightarrow> string \<Rightarrow> time \<Rightarrow> (query_privilege \<times> store) res" where
  "revoke_privilege s priv_id u reason now =
     (case get_privilege s priv_id of
        None \<Rightarrow> Inl (not_found_exc (PrivMsg (PrivilegeNotFound priv_id)))
      | Some p \<Rightarrow>
          raise_if (\<not> can_revoke_privilege s p u) (priv_refuse RevokeForbidden 403)
          (raise_if (qp_is_deleted p = 1) (priv_refuse AlreadyRevoked 400)
           (let p1 = p\<lparr>qp_is_deleted := 1, qp_revoked_at := Some now, qp_revoked_by_id := Some (op_id u),
                       qp_revoked_by_name := Some (display_or_username u),
                       qp_revoke_reason := Some (take 500 reason)\<rparr>
            in Inr (p1, put_privilege p1 s))))"

section \<open>Query log\<close>

definition toggle_favorite :: "store \<Rightarrow> int \<Rightarrow> int \<Rightarrow> (bool \<times> store) res" where
  "toggle_favorite s log_id user_id =
     (case find (\<lambda>l. ql_id l = log_id \<and> ql_user_id l = Some user_id) (st_query_logs s) of
        None \<Rightarrow> Inl (not_found_exc (PrivMsg LogNotFound))
      | Some l \<Rightarrow>
          let l1 = l\<lparr>ql_is_favorite := \<not> ql_is_favorite l\<rparr>
          in Inr (ql_is_favorite l1, s\<lparr>st_query_logs := row_put ql_id l1 (st_query_logs s)\<rparr>))"

text \<open>The fields are truncated to their columns; the row gets its id and time when stored.\<close>

definition truncate_log :: "query_log \<Rightarrow> query_log" where
  "truncate_log l =
     l\<lparr>ql_sqllog := take 10000 (ql_sqllog l), ql_username := take 100 (ql_username l),
       ql_instance_name := take 100 (ql_instance_name l), ql_db_type := take 20 (ql_db_type l),
       ql_client_ip := take 50 (ql_client_ip l), ql_error := take 4000 (ql_error l)\<rparr>"

definition write_query_log :: "store \<Rightarrow> query_log \<Rightarrow> time \<Rightarrow> query_log \<times> store" where
  "write_query_log s l now =
     (let l1 = (truncate_log l)\<lparr>ql_id := st_next_id s, ql_is_favorite := False, ql_created_at := now\<rparr>
      in (l1, s\<lparr>st_query_logs := st_query_logs s @ [l1], st_next_id := st_next_id s + 1\<rparr>))"

record log_filter =
  qf_instance_id :: "int option"
  qf_username :: "string option"
  qf_db_name :: "string option"
  qf_operation_type :: "string option"
  qf_masking :: "bool option"
  qf_sql_keyword :: "string option"
  qf_date_start :: "string option"
  qf_date_end :: "string option"

definition matches_log_filter :: "(string \<Rightarrow> string \<Rightarrow> bool) \<Rightarrow> (string \<Rightarrow> time option) \<Rightarrow> log_filter \<Rightarrow> query_log \<Rightarrow> bool" where
  "matches_log_filter ilike fromisoformat f l \<longleftrightarrow>
     (if truthy_id (qf_instance_id f) then ql_instance_id l = qf_instance_id f else True)
     \<and> opt_filter (qf_username f) (\<lambda>x. ilike (contains_pattern x) (ql_username l))
     \<and> opt_filter (qf_db_name f) (\<lambda>x. ilike (contains_pattern x) (ql_db_name l))
     \<and> opt_filter (qf_operation_type f) (\<lambda>x. ql_operation_type l = x)
     \<and> (case qf_masking f of None \<Rightarrow> True | Some b \<Rightarrow> ql_masking l = b)
     \<and> opt_filter (qf_sql_keyword f) (\<lambda>x. ilike (contains_pattern x) (ql_sqllog l))
     \<and> opt_filter (qf_date_start f) (\<lambda>x. case fromisoformat x of None \<Rightarrow> True | Some ds \<Rightarrow> ql_created_at l \<ge> ds)
     \<and> opt_filter (qf_date_end f) (\<lambda>x. case fromisoformat x of None \<Rightarrow> True | Some de \<Rightarrow> ql_created_at l < de + day)"

definition list_logs ::
    "store \<Rightarrow> operator \<Rightarrow> (string \<Rightarrow> string \<Rightarrow> bool) \<Rightarrow> (string \<Rightarrow> time option) \<Rightarrow> log_filter \<Rightarrow> nat \<Rightarrow> nat \<Rightarrow> nat \<times> query_log list" where
  "list_logs s u ilike fromisoformat f page page_size =
     (let scope = resolve s u DomQuery;
          rows = filter (matches_log_filter ilike fromisoformat f)
            (filter (\<lambda>l. (case sc_user_ids scope of None \<Rightarrow> True | Some ids \<Rightarrow> col_in (ql_user_id l) ids)
               \<and> (case sc_instance_ids scope of None \<Rightarrow> True | Some ids \<Rightarrow> col_in (ql_instance_id l) ids))
              (st_query_logs s))
      in (length rows, page_of page page_size (sort_key (\<lambda>l. - ql_created_at l) rows)))"

section \<open>Lemmas\<close>

lemma priv_refuse_app [simp]: "is_app_exc (priv_refuse m c)"
  by (simp add: priv_refuse_def)

lemma close_node_simps [simp]:
  "n_status (close_node st u t ov n) = st" "n_operator (close_node st u t ov n) = Some (op_username u)"
  by (simp_all add: close_node_def)

lemma close_pass_statuses:
  "map n_status (upd_first is_pending (close_node PASSED u t ov) ns) = map n_status (pass_current u t ns)"
  unfolding pass_current_def by (induction ns) simp_all

lemma pending_of_statuses:
  assumes "map n_status xs = map n_status ys"
  shows "pending_count xs = pending_count ys" "current_pending xs = None \<longleftrightarrow> current_pending ys = None"
    "all_passed xs \<longleftrightarrow> all_passed ys" "chain_ok xs \<longleftrightarrow> chain_ok ys"
proof -
  have count: "pending_count zs = length (filter (\<lambda>st. st = PENDING) (map n_status zs))" for zs
    by (induction zs) (auto simp: pending_count_def is_pending_def)
  show "pending_count xs = pending_count ys" by (simp add: count assms)
  then show "current_pending xs = None \<longleftrightarrow> current_pending ys = None" by (simp add: pending_count_0 [symmetric])
  have passed: "all_passed zs \<longleftrightarrow> (\<forall>st\<in>set (map n_status zs). st = PASSED)" for zs
    by (simp add: all_passed_def)
  show "all_passed xs \<longleftrightarrow> all_passed ys" by (simp only: passed assms)
  have ok: "chain_ok zs \<longleftrightarrow> (\<exists>k. (\<forall>st\<in>set (take k (map n_status zs)). st = PASSED)
      \<and> (\<forall>st\<in>set (drop k (map n_status zs)). st = PENDING))" for zs
  proof
    assume "chain_ok zs"
    then obtain ps qs where "zs = ps @ qs" "all_passed ps" "all_pending qs" by (auto simp: chain_ok_def)
    then show "\<exists>k. (\<forall>st\<in>set (take k (map n_status zs)). st = PASSED)
      \<and> (\<forall>st\<in>set (drop k (map n_status zs)). st = PENDING)"
      by (intro exI [of _ "length ps"]) (simp add: all_passed_def all_pending_def)
  next
    assume "\<exists>k. (\<forall>st\<in>set (take k (map n_status zs)). st = PASSED)
      \<and> (\<forall>st\<in>set (drop k (map n_status zs)). st = PENDING)"
    then obtain k where "all_passed (take k zs)" "all_pending (drop k zs)"
      by (auto simp: take_map drop_map all_passed_def all_pending_def)
    then show "chain_ok zs" unfolding chain_ok_def
      by (intro exI [of _ "take k zs"] exI [of _ "drop k zs"]) simp
  qed
  show "chain_ok xs \<longleftrightarrow> chain_ok ys" by (simp only: ok assms)
qed

lemma close_pass_facts:
  assumes "current_pending ns = Some n"
  shows "Suc (pending_count (upd_first is_pending (close_node PASSED u t ov) ns)) = pending_count ns"
    and "chain_ok ns \<Longrightarrow> chain_ok (upd_first is_pending (close_node PASSED u t ov) ns)"
  using pending_of_statuses [OF close_pass_statuses [of u t ov ns]] chain_facts(2,3) [of ns n u t] assms by simp_all

lemma override_date_facts:
  "override_date today ov a = Inr a0 \<Longrightarrow> \<exists>d. a0 = a\<lparr>qa_valid_date := d\<rparr> \<and> d \<le> qa_valid_date a"
  by (cases ov) (auto simp: override_date_def res_simps intro: exI [of _ "qa_valid_date a"])

lemma has_chain_valid_date [simp]: "has_chain (a\<lparr>qa_valid_date := d\<rparr>) \<longleftrightarrow> has_chain a"
  by (simp add: has_chain_def)

lemma has_chain_nodes: "has_chain a \<Longrightarrow> loads_nodes (qa_nodes a) = Inr ns \<Longrightarrow> qa_nodes a = NodesList ns"
  by (cases "qa_nodes a") (auto simp: has_chain_def)

text \<open>What a successful pass does: one level, or the grant.\<close>

lemma pass_apply_cases:
  assumes "pass_apply s a u ov today now = Inr (a', s')"
  obtains
    (level) ns n d where "has_chain a" "qa_nodes a = NodesList ns" "current_pending ns = Some n"
      "current_pending (upd_first is_pending (close_node PASSED u now ov) ns) \<noteq> None"
      "a' = a\<lparr>qa_valid_date := d, qa_nodes := NodesList (upd_first is_pending (close_node PASSED u now ov) ns)\<rparr>"
      "d \<le> qa_valid_date a" "\<exists>e. s' = emit e (put_apply a' s)"
  | (grant) ns n d where "has_chain a" "qa_nodes a = NodesList ns" "current_pending ns = Some n"
      "current_pending (upd_first is_pending (close_node PASSED u now ov) ns) = None"
      "a' = a\<lparr>qa_valid_date := d, qa_status := PASSED,
              qa_nodes := NodesList (upd_first is_pending (close_node PASSED u now ov) ns)\<rparr>"
      "d \<le> qa_valid_date a"
      "\<exists>e. s' = emit e (add_privilege (grant_of a' (st_next_id s) now) (put_apply a' s))"
  | (direct) d where "\<not> has_chain a" "a' = a\<lparr>qa_valid_date := d, qa_status := PASSED\<rparr>"
      "d \<le> qa_valid_date a"
      "\<exists>e. s' = emit e (add_privilege (grant_of a' (st_next_id s) now) (put_apply a' s))"
proof -
  from assms obtain a0 where a0: "override_date today ov a = Inr a0" by (auto simp: pass_apply_def res_simps)
  from override_date_facts [OF a0] obtain d where eq: "a0 = a\<lparr>qa_valid_date := d\<rparr>" and le: "d \<le> qa_valid_date a" by blast
  show ?thesis
  proof (cases "has_chain a")
    case False
    with assms a0 eq have "a' = a\<lparr>qa_valid_date := d, qa_status := PASSED\<rparr>"
      "\<exists>e. s' = emit e (add_privilege (grant_of a' (st_next_id s) now) (put_apply a' s))"
      by (auto simp: pass_apply_def grant_apply_def Let_def)
    with False le show ?thesis by (intro direct) auto
  next
    case True
    from assms a0 eq True obtain ns where ns: "loads_nodes (qa_nodes a) = Inr ns"
      and cur: "current_pending ns \<noteq> None" by (auto simp: pass_apply_def res_simps)
    have nodes: "qa_nodes a = NodesList ns" using True ns by (rule has_chain_nodes)
    from cur obtain n where n: "current_pending ns = Some n" by auto
    show ?thesis
    proof (cases "current_pending (upd_first is_pending (close_node PASSED u now ov) ns)")
      case None
      with assms a0 eq True ns cur have
        "a' = a\<lparr>qa_valid_date := d, qa_status := PASSED,
                qa_nodes := NodesList (upd_first is_pending (close_node PASSED u now ov) ns)\<rparr>"
        "\<exists>e. s' = emit e (add_privilege (grant_of a' (st_next_id s) now) (put_apply a' s))"
        by (auto simp: pass_apply_def grant_apply_def Let_def)
      with None True nodes n le show ?thesis by (intro grant) auto
    next
      case (Some m)
      with assms a0 eq True ns cur have
        "a' = a\<lparr>qa_valid_date := d, qa_nodes := NodesList (upd_first is_pending (close_node PASSED u now ov) ns)\<rparr>"
        "\<exists>e. s' = emit e (put_apply a' s)"
        by (auto simp: pass_apply_def Let_def)
      with Some True nodes n le show ?thesis by (intro level) auto
    qed
  qed
qed

lemma audit_applyD:
  assumes "audit_apply s i u action ov today now = Inr (a', s')"
  obtains a where "get_apply s i = Some a" "qa_id a = i" "qa_status a = PENDING" "check_auditor s u a = Inr ()"
    "action = ''pass'' \<and> pass_apply s a u ov today now = Inr (a', s')
     \<or> action = ''reject'' \<and> reject_apply s a u now = Inr (a', s')"
proof -
  from assms obtain a where a: "get_apply s i = Some a" by (auto simp: audit_apply_def split: option.splits)
  with assms have "qa_status a = PENDING" "check_auditor s u a = Inr ()"
    "action = ''pass'' \<and> pass_apply s a u ov today now = Inr (a', s')
     \<or> action = ''reject'' \<and> reject_apply s a u now = Inr (a', s')"
    by (auto simp: audit_apply_def res_simps split: if_split_asm)
  with a show ?thesis by (intro that [of a]) (auto dest: apply_tab.sel_key)
qed

lemma reject_current_id: "reject_current a u now = Inr a0 \<Longrightarrow> qa_id a0 = qa_id a"
  by (auto simp: reject_current_def rbind_Inr_iff split: if_splits option.splits)

lemma cancel_chain_id: "cancel_chain a u now = Inr a0 \<Longrightarrow> qa_id a0 = qa_id a"
  by (auto simp: cancel_chain_def rbind_Inr_iff split: if_splits)

lemma reject_applyD:
  assumes "reject_apply s a u now = Inr (a', s')"
  shows "qa_id a' = qa_id a \<and> qa_status a' = REJECTED \<and> (\<exists>e. s' = emit e (put_apply a' s))"
  using assms by (auto simp: reject_apply_def Let_def rbind_Inr_iff dest: reject_current_id)

lemma cancel_applyD:
  assumes "cancel_apply s i u now = Inr (a', s')"
  shows "\<exists>a. get_apply s i = Some a \<and> qa_id a' = qa_id a \<and> qa_status a' = CANCELED
    \<and> (\<exists>e. s' = emit e (put_apply a' s))"
  using assms
  by (auto simp: cancel_apply_def Let_def rbind_Inr_iff raise_if_Inr_iff split: option.splits dest: cancel_chain_id)

lemma get_apply_frame [simp]:
  "get_apply (emit e s) k = get_apply s k" "get_apply (add_privilege p s) k = get_apply s k"
  "get_apply (put_privilege p s) k = get_apply s k"
  by (simp_all add: store_defs)

lemma st_privileges_frame [simp]:
  "st_privileges (emit e s) = st_privileges s" "st_privileges (put_apply a s) = st_privileges s"
  "st_privileges (add_apply a s) = st_privileges s"
  "st_privileges (add_privilege p s) = st_privileges s @ [p]"
  by (simp_all add: store_defs)

lemma grant_of_simps [simp]:
  "qp_user_id (grant_of a i t) = Some (qa_user_id a)" "qp_user_group_id (grant_of a i t) = None"
  "qp_instance_id (grant_of a i t) = qa_instance_id a" "qp_db_name (grant_of a i t) = qa_db_name a"
  "qp_table_name (grant_of a i t) = qa_table_name a" "qp_valid_date (grant_of a i t) = qa_valid_date a"
  "qp_limit_num (grant_of a i t) = qa_limit_num a" "qp_is_deleted (grant_of a i t) = 0"
  "qp_scope_type (grant_of a i t) = fst (normalize_scope_type (qa_scope_type a) (qa_table_name a) (qa_db_name a))"
  by (simp_all add: grant_of_def split_beta)

lemma pass_apply_stored:
  assumes "pass_apply s a u ov today now = Inr (a', s')" "get_apply s i = Some a"
  shows "get_apply s' i = Some a'" "qa_id a' = i" "\<forall>j. j \<noteq> i \<longrightarrow> get_apply s' j = get_apply s j"
proof -
  have i: "qa_id a = i" using assms(2) by (rule apply_tab.sel_key)
  from assms(1) have "qa_id a' = qa_id a"
    by (rule pass_apply_cases) (drule arg_cong [where f = qa_id], simp)+
  moreover from assms(1) have "get_apply s' k = get_apply (put_apply a' s) k" for k
    by (rule pass_apply_cases) (elim exE, simp)+
  ultimately have "qa_id a' = qa_id a \<and> (\<forall>k. get_apply s' k = get_apply (put_apply a' s) k)" by blast
  then show "get_apply s' i = Some a'" "qa_id a' = i" "\<forall>j. j \<noteq> i \<longrightarrow> get_apply s' j = get_apply s j"
    using i assms(2) by (auto intro: apply_tab.sel_put_loaded apply_tab.sel_put_other)
qed

lemma check_auditor_current:
  "check_auditor s u a = Inr () \<Longrightarrow> has_chain a \<Longrightarrow> qa_nodes a = NodesList ns \<Longrightarrow> current_pending ns = Some n \<Longrightarrow>
     check_apply_approver_permission s u n = Inr ()"
  by (simp add: check_auditor_def get_current_pending_node_def)

lemma resolve_group_facts:
  assumes "resolve_apply_group_id s u iid g = Inr gid"
  shows "\<exists>inst. get_instance s iid = Some inst \<and> in_is_active inst \<and> user_has_instance_access u inst
    \<and> gid \<in> set (op_resource_groups u) \<and> gid \<in> rg_id ` set (in_resource_groups inst)"
proof -
  from assms obtain inst where inst: "get_instance s iid = Some inst" "in_is_active inst" "user_has_instance_access u inst"
    and "gid \<in> set (allowed_group_ids inst u)"
    by (auto simp: resolve_apply_group_id_def raise_if_Inr_iff split: option.splits list.splits)
  then show ?thesis by (auto simp: allowed_group_ids_def)
qed

lemma apply_chain_facts:
  assumes "apply_chain s u fid g = Inr (gs, js)"
  shows "if truthy_id fid
       then \<exists>ns. js = NodesList ns \<and> ns \<noteq> [] \<and> all_pending ns
              \<and> (\<forall>n\<in>set ns. n_approver_type n = ''manager'' \<longrightarrow> n_applicant_id n = Some (op_id u))
       else js = NodesEmpty"
proof (cases "truthy_id fid")
  case True
  with assms obtain ns where ns: "snapshot_for_workflow s (the fid) = Inr ns"
    and js: "js = NodesList (decorate_snapshot_for_applicant ns u)"
    by (auto simp: apply_chain_def Let_def rbind_Inr_iff)
  from snapshot_pending [OF ns] have "ns \<noteq> []" "all_pending (decorate_snapshot_for_applicant ns u)" by simp_all
  then show ?thesis using True
    by (auto simp: js decorate_snapshot_for_applicant_def decorate_node_def)
next
  case False
  with assms show ?thesis by (simp add: apply_chain_def)
qed

lemma save_applyD:
  assumes "save_apply s a = Inr (a', s')"
  shows "a' = a \<and> (s' = add_apply a s \<or> (\<exists>e. s' = emit e (add_apply a s)))"
  using assms by (auto simp: save_apply_def Let_def rbind_Inr_iff split: if_split_asm option.split_asm)

lemma apply_privilegeD:
  assumes "apply_privilege s today now uid r (Some u) = Inr (a, s')"
  obtains gid plan groups scope where "pr_flow_id r \<noteq> None" "resolve_apply_group_id s u (pr_instance_id r) (pr_group_id r) = Inr gid"
    "rp_requires_manual_remark plan \<longrightarrow> py_strip (pr_risk_remark r) \<noteq> []"
    "apply_chain s u (pr_flow_id r) (pr_audit_auth_groups r) = Inr groups"
    "a = new_apply (st_next_id s) uid r gid scope plan groups now"
    "s' = add_apply a s \<or> (\<exists>e. s' = emit e (add_apply a s))"
proof -
  define scope where "scope = normalize_scope_type (pr_scope_type r) (pr_table_name r) (pr_db_name r)"
  define plan where "plan = apply_plan s today r scope"
  from assms obtain gid groups where f: "pr_flow_id r \<noteq> None"
    "resolve_apply_group_id s u (pr_instance_id r) (pr_group_id r) = Inr gid"
    "rp_requires_manual_remark plan \<longrightarrow> py_strip (pr_risk_remark r) \<noteq> []"
    "apply_chain s u (pr_flow_id r) (pr_audit_auth_groups r) = Inr groups"
    and save: "save_apply s (new_apply (st_next_id s) uid r gid scope plan groups now) = Inr (a, s')"
    unfolding apply_privilege_def Let_def scope_def [symmetric] plan_def [symmetric]
    by (auto simp: rbind_Inr_iff raise_if_Inr_iff)
  from save_applyD [OF save] f show ?thesis by (intro that) auto
qed

lemma new_apply_simps [simp]:
  "qa_id (new_apply i uid r gid scope plan groups now) = i"
  "qa_status (new_apply i uid r gid scope plan groups now) = PENDING"
  "qa_user_id (new_apply i uid r gid scope plan groups now) = uid"
  "qa_group_id (new_apply i uid r gid scope plan groups now) = gid"
  "qa_risk_plan (new_apply i uid r gid scope plan groups now) = plan"
  "qa_nodes (new_apply i uid r gid scope plan groups now) = snd groups"
  "qa_flow_id (new_apply i uid r gid scope plan groups now) = pr_flow_id r"
  by (simp_all add: new_apply_def)

lemma audit_marks_all:
  "audit_marks s u xs = Inr ms \<Longrightarrow> (a, m) \<in> set ms \<Longrightarrow> a \<in> set xs \<and> audit_mark_of s u a = Inr m"
  by (induction xs arbitrary: ms) (auto simp: rbind_Inr_iff)

lemma audit_marks_in:
  "audit_marks s u xs = Inr ms \<Longrightarrow> a \<in> set xs \<Longrightarrow> \<exists>m. (a, m) \<in> set ms \<and> audit_mark_of s u a = Inr m"
  by (induction xs arbitrary: ms) (auto simp: rbind_Inr_iff)

lemma pass_apply_is_ok:
  "qa_status a = PENDING \<Longrightarrow> check_auditor s u a = Inr () \<Longrightarrow> is_ok (pass_apply s a u None today now)"
  by (cases "qa_nodes a")
    (auto simp: check_auditor_def pass_apply_def override_date_def get_current_pending_node_def Let_def
      has_chain_def split: if_splits option.splits)

lemma audit_mark_exact:
  assumes "audit_mark_of s u a = Inr m" "get_apply s i = Some a" "qa_nodes a = NodesEmpty \<or> has_chain a"
  shows "m = MarkCanAudit \<longleftrightarrow> is_ok (audit_apply s i u ''pass'' None today now)"
proof (cases "qa_status a = PENDING")
  case False
  with assms show ?thesis
    by (auto simp: audit_mark_of_def audit_apply_def rbind_Inr_iff split: if_splits)
next
  case True
  have "is_ok (audit_apply s i u ''pass'' None today now) \<longleftrightarrow> check_auditor s u a = Inr ()"
    using True assms(2) pass_apply_is_ok [OF True, of s u today now] by (auto simp: audit_apply_def is_ok_rbind)
  moreover have "m = MarkCanAudit \<longleftrightarrow> check_auditor s u a = Inr ()"
  proof (cases "qa_nodes a = NodesEmpty")
    case True
    with assms(1) \<open>qa_status a = PENDING\<close> show ?thesis
      by (auto simp: audit_mark_of_def check_auditor_def has_chain_def raise_if_def)
  next
    case False
    with assms(1,3) \<open>qa_status a = PENDING\<close> obtain ns where ns: "qa_nodes a = NodesList ns" and chain: "has_chain a"
      by (cases "qa_nodes a") (auto simp: audit_mark_of_def)
    show ?thesis
    proof (cases "current_pending ns")
      case None
      with ns chain assms(1) \<open>qa_status a = PENDING\<close> show ?thesis
        by (auto simp: audit_mark_of_def check_auditor_def get_current_pending_node_def split: if_split_asm)
    next
      case (Some n)
      with ns chain assms(1) \<open>qa_status a = PENDING\<close> show ?thesis
        by (cases "check_apply_approver_permission s u n")
          (auto simp: audit_mark_of_def check_auditor_def get_current_pending_node_def catch_app_def split: if_splits)
    qed
  qed
  ultimately show ?thesis by simp
qed

definition sample_apply :: "int option \<Rightarrow> nodes_json \<Rightarrow> privilege_apply" where
  "sample_apply fid ns =
     \<lparr> qa_id = 12, qa_title = ''read'', qa_user_id = 7, qa_user_group_id = None, qa_instance_id = Some 5,
       qa_resource_group_id = Some 1, qa_group_id = 1, qa_scope_type = ''database'', qa_db_name = ''app'',
       qa_table_name = [], qa_valid_date = 50, qa_limit_num = 100, qa_priv_type = 1, qa_apply_reason = [],
       qa_risk_plan = unsupported_plan ScopeQueryPrivilege [], qa_risk_remark = [], qa_status = PENDING,
       qa_audit_auth_groups = [], qa_flow_id = fid, qa_nodes = ns, qa_created_at = 10 \<rparr>"

definition apply_store :: "privilege_apply \<Rightarrow> store" where
  "apply_store a = sample_store\<lparr>st_applies := [a]\<rparr>"

lemma sample_apply_simps [simp]:
  "qa_id (sample_apply fid ns) = 12" "qa_status (sample_apply fid ns) = PENDING"
  "qa_nodes (sample_apply fid ns) = ns" "qa_flow_id (sample_apply fid ns) = fid"
  "qa_user_id (sample_apply fid ns) = 7" "qa_valid_date (sample_apply fid ns) = 50"
  "get_apply (apply_store (sample_apply fid ns)) 12 = Some (sample_apply fid ns)"
  "st_privileges (apply_store (sample_apply fid ns)) = []"
  "st_applies (apply_store a) = [a]"
  "st_next_id (apply_store a) = 20"
  "applies_wf (apply_store (sample_apply fid ns))"
  by (simp_all add: sample_apply_def apply_store_def get_apply_def table_simps applies_wf_def table_wf_def sample_store_def)

definition one_level :: nodes_json where
  "one_level = NodesList [sample_node 1 ''users'' [9] PENDING]"

lemma pass_one_level:
  "\<exists>a' s'. audit_apply (apply_store (sample_apply (Some 1) one_level)) 12 dba_op ''pass'' None 40 300 = Inr (a', s')
     \<and> qa_status a' = PASSED \<and> qa_valid_date a' = 50 \<and> qa_instance_id a' = Some 5 \<and> qa_user_id a' = 7
     \<and> qa_scope_type a' = ''database'' \<and> qa_db_name a' = ''app'' \<and> qa_table_name a' = []"
  by (simp add: audit_apply_def check_auditor_def has_chain_def truthy_id_def one_level_def get_current_pending_node_def
      current_pending_def is_pending_def check_apply_approver_permission_def pass_apply_def override_date_def
      sample_node_def dba_op_def grant_apply_def Let_def close_node_def) (simp add: sample_apply_def)

section \<open>Properties\<close>



text \<open>
An application is decided once: after a rejection, a cancellation or the last pass, the
store holds it with its final status, a rejection or cancellation has granted nothing,
and every further review or cancellation of it is refused.
\<close>

theorem decided_application_final:
  assumes "audit_apply s i u action ov today now = Inr (a', s') \<or> cancel_apply s i u now = Inr (a', s')"
    and "qa_status a' \<noteq> PENDING"
  shows "get_apply s' i = Some a' \<and> qa_status a' \<in> {PASSED, REJECTED, CANCELED}
    \<and> (qa_status a' = PASSED \<or> st_privileges s' = st_privileges s)
    \<and> audit_apply s' i u1 action1 ov1 today1 now1 = Inl (priv_refuse ApplyAlreadyAudited 400)
    \<and> \<not> is_ok (cancel_apply s' i u1 now1)"
proof -
  have "get_apply s' i = Some a' \<and> (qa_status a' = PASSED \<or> st_privileges s' = st_privileges s)"
    using assms(1)
  proof
    assume "audit_apply s i u action ov today now = Inr (a', s')"
    then obtain a where a: "get_apply s i = Some a" "qa_id a = i"
      and r: "action = ''pass'' \<and> pass_apply s a u ov today now = Inr (a', s')
        \<or> action = ''reject'' \<and> reject_apply s a u now = Inr (a', s')" by (rule audit_applyD)
    from r show ?thesis
    proof (elim disjE conjE)
      assume p: "pass_apply s a u ov today now = Inr (a', s')"
      moreover from p have "qa_status a' \<in> {PASSED, qa_status a}" by (rule pass_apply_cases) auto
      moreover from p have "qa_status a' = PASSED \<or> st_privileges s' = st_privileges s" by (rule pass_apply_cases) auto
      ultimately show ?thesis using pass_apply_stored [OF p a(1)] by simp
    next
      assume "reject_apply s a u now = Inr (a', s')"
      from reject_applyD [OF this] a show ?thesis
        by (auto intro: apply_tab.sel_put_loaded)
    qed
  next
    assume "cancel_apply s i u now = Inr (a', s')"
    from cancel_applyD [OF this] show ?thesis by (auto intro: apply_tab.sel_put_loaded dest: apply_tab.sel_key)
  qed
  with assms(2) show ?thesis
    by (cases "qa_status a'") (auto simp: audit_apply_def cancel_apply_def res_simps)
qed

theorem decided_application_final_witness:
  "\<exists>a' s'. audit_apply (apply_store (sample_apply (Some 1) one_level)) 12 dba_op ''pass'' None 40 300 = Inr (a', s')
     \<and> audit_apply s' 12 root_op ''pass'' None 40 400 = Inl (priv_refuse ApplyAlreadyAudited 400)"
proof -
  from pass_one_level obtain a' s' where
    run: "audit_apply (apply_store (sample_apply (Some 1) one_level)) 12 dba_op ''pass'' None 40 300 = Inr (a', s')"
    and st: "qa_status a' = PASSED" by blast
  from decided_application_final [OF disjI1 [OF run], of root_op "''pass''" None 40 400] st run show ?thesis by auto
qed

text \<open>
The cancel flag of an application is exact: it is set for a user exactly when the
cancellation by this user succeeds (for a chain that is readable JSON), and then it is
the applicant or a superuser and no node has been handled.
\<close>

theorem apply_cancel_flag_exact:
  assumes "get_apply s i = Some a" "qa_nodes a \<noteq> NodesInvalid"
  shows "(is_ok (cancel_apply s i u now) \<longleftrightarrow> can_cancel_apply a u = Inr True)
    \<and> (can_cancel_apply a u = Inr True \<longleftrightarrow>
      qa_status a = PENDING \<and> (op_id u = qa_user_id a \<or> op_is_superuser u)
      \<and> (case qa_nodes a of NodesEmpty \<Rightarrow> True | NodesList ns \<Rightarrow> all_pending ns | _ \<Rightarrow> False))"
proof
  have flag: "can_cancel_apply a u = Inr True \<longleftrightarrow>
      qa_status a = PENDING \<and> (op_id u = qa_user_id a \<or> op_is_superuser u)
      \<and> (case qa_nodes a of NodesEmpty \<Rightarrow> True | NodesList ns \<Rightarrow> all_pending ns | _ \<Rightarrow> False)"
    using assms(2)
    by (cases "qa_nodes a")
      (auto simp: can_cancel_apply_def can_cancel_before_approval_def all_pending_def
        has_operated_node_def list_ex_iff split: if_splits)
  then show "can_cancel_apply a u = Inr True \<longleftrightarrow>
      qa_status a = PENDING \<and> (op_id u = qa_user_id a \<or> op_is_superuser u)
      \<and> (case qa_nodes a of NodesEmpty \<Rightarrow> True | NodesList ns \<Rightarrow> all_pending ns | _ \<Rightarrow> False)" .
  have chain: "is_ok (cancel_chain a u now)" if "can_cancel_apply a u = Inr True"
    using that flag assms(2) by (cases "qa_nodes a") (auto simp: cancel_chain_def has_chain_def)
  show "is_ok (cancel_apply s i u now) \<longleftrightarrow> can_cancel_apply a u = Inr True"
  proof
    assume "is_ok (cancel_apply s i u now)"
    with assms(1) show "can_cancel_apply a u = Inr True" by (auto simp: cancel_apply_def is_ok_raise_if is_ok_rbind)
  next
    assume c: "can_cancel_apply a u = Inr True"
    from chain [OF c] obtain a0 where "cancel_chain a u now = Inr a0" by (cases "cancel_chain a u now") auto
    with c flag assms(1) show "is_ok (cancel_apply s i u now)" by (auto simp: cancel_apply_def Let_def)
  qed
qed

theorem apply_cancel_flag_exact_witness:
  "is_ok (cancel_apply (apply_store (sample_apply (Some 1) one_level)) 12 dev_op 300)
   \<and> \<not> is_ok (cancel_apply (apply_store (sample_apply (Some 1) (NodesList [sample_node 1 ''users'' [9] PASSED]))) 12 dev_op 300)"
proof -
  have g: "get_apply (apply_store (sample_apply (Some 1) js)) 12 = Some (sample_apply (Some 1) js)" for js by simp
  have "\<not> all_pending [sample_node 1 ''users'' [9] PASSED]" "all_pending [sample_node 1 ''users'' [9] PENDING]"
    by (simp_all add: all_pending_def sample_node_def)
  then show ?thesis
    using apply_cancel_flag_exact [OF g, of one_level dev_op 300]
      apply_cancel_flag_exact [OF g, of "NodesList [sample_node 1 ''users'' [9] PASSED]" dev_op 300]
    by (simp add: one_level_def)
qed

text \<open>
C26: A revocation is authorised and exact: it needs the holder, a global administrator or a
privilege manager of the instance's groups; it takes exactly this privilege out of the
valid ones; and afterwards, at the same or any later date, no query is allowed that was
not allowed before.
\<close>

theorem revoke_shrinks_access:
  assumes "revoke_privilege s pid u reason now = Inr (p, s')" "privileges_wf s"
  shows "(\<exists>p0. get_privilege s pid = Some p0 \<and> can_revoke_privilege s p0 u \<and> qp_is_deleted p0 \<noteq> 1)
    \<and> {q \<in> set (st_privileges s'). active_priv t uid iid q}
        = {q \<in> set (st_privileges s). active_priv t uid iid q \<and> qp_id q \<noteq> pid}
    \<and> (t \<le> t' \<longrightarrow> data_access s' t' uid inst d m refs \<longrightarrow> data_access s t uid inst d m refs)"
proof -
  from assms(1) obtain p0 where p0: "get_privilege s pid = Some p0" "can_revoke_privilege s p0 u" "qp_is_deleted p0 \<noteq> 1"
    and p: "qp_id p = qp_id p0" "qp_is_deleted p = 1" and s': "s' = put_privilege p s"
    by (auto simp: revoke_privilege_def Let_def raise_if_Inr_iff split: option.splits)
  have id: "qp_id p = pid" using p0(1) p(1) privilege_tab.sel_key by metis
  have rows: "set (st_privileges s') = {q \<in> set (st_privileges s). qp_id q \<noteq> pid} \<union> {p}"
  proof -
    have "p0 \<in> set (st_privileges s)" "qp_id p0 = pid" using p0(1) by (auto simp: get_privilege_def dest: row_get_key)
    then show ?thesis by (auto simp: s' put_privilege_def row_put_def id image_iff)
  qed
  have act: "{q \<in> set (st_privileges s'). active_priv k uid iid q}
        = {q \<in> set (st_privileges s). active_priv k uid iid q \<and> qp_id q \<noteq> pid}" for k iid
    using p(2) by (auto simp: rows active_priv_def)
  have "data_access s t uid inst d m refs" if "t \<le> t'" "data_access s' t' uid inst d m refs"
  proof (rule data_access_mono [OF that(2)])
    fix q assume "q \<in> set (st_privileges s')" "active_priv t' uid (in_id inst) q"
    with act [of t' "in_id inst"] have "q \<in> set (st_privileges s) \<and> active_priv t' uid (in_id inst) q" by blast
    with that(1) show "q \<in> set (st_privileges s) \<and> active_priv t uid (in_id inst) q" by (auto simp: active_priv_def)
  qed
  with p0 act [of t iid] show ?thesis by blast
qed

theorem revoke_shrinks_access_witness:
  "\<exists>p s'. revoke_privilege (priv_store [sample_priv ''table'' ''app'' ''log'']) 11 dev_op ''done'' 300 = Inr (p, s')
     \<and> {q \<in> set (st_privileges s'). active_priv 40 7 5 q} = {}"
proof -
  have g: "get_privilege (priv_store [sample_priv ''table'' ''app'' ''log'']) 11 = Some (sample_priv ''table'' ''app'' ''log'')"
    by (simp add: get_privilege_def priv_store_def sample_priv_def table_simps)
  then obtain p s' where run: "revoke_privilege (priv_store [sample_priv ''table'' ''app'' ''log'']) 11 dev_op ''done'' 300 = Inr (p, s')"
    by (simp add: revoke_privilege_def can_revoke_privilege_def Let_def)
  have wf: "privileges_wf (priv_store [sample_priv ''table'' ''app'' ''log''])"
    by (simp add: privileges_wf_def table_wf_def priv_store_def sample_priv_def sample_store_def)
  have "{q \<in> set (st_privileges s'). active_priv 40 7 5 q}
      = {q \<in> set [sample_priv ''table'' ''app'' ''log'']. active_priv 40 7 5 q \<and> qp_id q \<noteq> 11}"
    using revoke_shrinks_access [OF run wf, of 40 7 5] by (simp only: priv_store_privileges)
  also have "\<dots> = {}" by auto
  finally show ?thesis using run by blast
qed

text \<open>
The list of a reviewer marks exactly the applications this reviewer can pass: an
application has its audit flag exactly when the pass would succeed now (an application
with a chain always carries its flow).
\<close>

theorem audit_flags_exact:
  assumes "list_audit_records s u status page page_size = Inr (n, items, ids)"
    and "applies_wf s" "get_apply s i = Some a" "status_is status a"
    and "qa_nodes a = NodesEmpty \<or> has_chain a"
  shows "i \<in> set ids \<longleftrightarrow> is_ok (audit_apply s i u ''pass'' None today now)"
proof -
  from assms(1) obtain ms where ms: "audit_marks s u (newest_first (filter (status_is status) (st_applies s))) = Inr ms"
    and ids: "ids = map (\<lambda>(a, m). qa_id a) (filter (\<lambda>(a, m). m = MarkCanAudit) ms)"
    by (auto simp: list_audit_records_def Let_def rbind_Inr_iff)
  from assms(3) have a: "a \<in> set (st_applies s)" "qa_id a = i" by (auto simp: get_apply_def dest: row_get_key)
  then obtain m where m: "(a, m) \<in> set ms" "audit_mark_of s u a = Inr m"
    using audit_marks_in [OF ms, of a] assms(4) by (auto simp: newest_first_def)
  have inj: "inj_on qa_id (set (st_applies s))" using assms(2) by (simp add: applies_wf_def table_wf_def distinct_map)
  have uniq: "m' = m" if "qa_id b = i" "(b, m') \<in> set ms" for b m'
  proof -
    from audit_marks_all [OF ms that(2)] have b: "b \<in> set (st_applies s)" "audit_mark_of s u b = Inr m'"
      by (simp_all add: newest_first_def)
    from inj_onD [OF inj, of b a] b(1) a that(1) have "b = a" by simp
    with b(2) m(2) show ?thesis by simp
  qed
  have "i \<in> set ids \<longleftrightarrow> m = MarkCanAudit"
  proof
    assume "i \<in> set ids"
    then obtain b m' where "(b, m') \<in> set ms" "m' = MarkCanAudit" "qa_id b = i" by (auto simp: ids)
    with uniq show "m = MarkCanAudit" by blast
  next
    assume "m = MarkCanAudit"
    with m(1) have "(a, m) \<in> set (filter (\<lambda>(a, m). m = MarkCanAudit) ms)" by simp
    then have "(\<lambda>(a, m). qa_id a) (a, m) \<in> set ids" unfolding ids by (simp only: set_map) (rule imageI)
    with a(2) show "i \<in> set ids" by simp
  qed
  with audit_mark_exact [OF m(2) assms(3,5)] show ?thesis by simp
qed

theorem audit_flags_exact_witness:
  "list_audit_records (apply_store (sample_apply (Some 1) one_level)) dba_op None 1 10 = Inr (1, [sample_apply (Some 1) one_level], [12])
   \<and> is_ok (audit_apply (apply_store (sample_apply (Some 1) one_level)) 12 dba_op ''pass'' None 40 300)"
proof -
  have run: "list_audit_records (apply_store (sample_apply (Some 1) one_level)) dba_op None 1 10 = Inr (1, [sample_apply (Some 1) one_level], [12])"
    by (simp add: list_audit_records_def status_is_def newest_first_def audit_mark_of_def one_level_def
        get_current_pending_node_def current_pending_def is_pending_def check_apply_approver_permission_def
        catch_app_def sample_node_def dba_op_def page_of_def)
  have chain: "qa_nodes (sample_apply (Some 1) one_level) = NodesEmpty \<or> has_chain (sample_apply (Some 1) one_level)"
    by (simp add: has_chain_def truthy_id_def one_level_def)
  from audit_flags_exact [OF run _ _ _ chain, of 12 40 300] run show ?thesis by (simp add: status_is_def)
qed

text \<open>
The privilege that the last pass creates opens what was asked for: until the date of
the application the applicant's queries on the instance (not PostgreSQL) are allowed for
an application on the instance, for one on the database, and for the table of one on a
table.
\<close>

theorem granted_application_opens_access:
  assumes "audit_apply s i v ''pass'' ov today now = Inr (a', s')" "qa_status a' = PASSED"
    and "qa_instance_id a' = Some (in_id inst)" "op_id u = qa_user_id a'"
    and "user_has_instance_access u inst" "in_db_type inst \<noteq> ''pgsql''" "t \<le> qa_valid_date a'"
    and "refs \<noteq> []"
    and "qa_scope_type a' = ''instance''
      \<or> (qa_scope_type a' = ''database'' \<and> py_strip (qa_table_name a') = [] \<and> db_name = qa_db_name a')
      \<or> (qa_scope_type a' = ''table'' \<and> db_name = qa_db_name a' \<and> py_strip (qa_table_name a') = qa_table_name a'
         \<and> qa_table_name a' \<noteq> [] \<and> (\<forall>r\<in>set refs. r = ([], qa_table_name a')))"
  shows "\<exists>reason. check_query_priv s' t parse_one resolver u inst db_name sql (Some refs) = Inr (True, reason)"
proof -
  obtain a where "get_apply s i = Some a" and p: "pass_apply s a v ov today now = Inr (a', s')" and "qa_status a = PENDING"
    using assms(1) by (rule audit_applyD) auto
  have "st_privileges s' = st_privileges s @ [grant_of a' (st_next_id s) now]"
    using p
  proof (cases rule: pass_apply_cases)
    case (level ns n d)
    then have "qa_status a' = PENDING" using \<open>qa_status a = PENDING\<close> by simp
    with assms(2) show ?thesis by simp
  next
    case (grant ns n d)
    then show ?thesis by auto
  next
    case (direct d)
    then show ?thesis by auto
  qed
  moreover have "active_priv t (op_id u) (in_id inst) (grant_of a' (st_next_id s) now)"
    using assms(3,4,7) by (simp add: active_priv_def)
  moreover have "covers inst db_name [] r (grant_of a' (st_next_id s) now)" if "r \<in> set refs" for r
    using assms(6,9) that
    by (auto simp: covers_def normalize_scope_type_def table_covers_def normalized_names_def or_str_def)
  ultimately have "data_access s' t (op_id u) inst db_name [] refs"
    using assms(8) by (auto simp: data_access_def list_all_iff list_ex_iff)
  moreover have m: "get_pg_table_schema_map resolver inst db_name (given_refs parse_one sql db_name (in_db_type inst) (Some refs)) = Inr []"
    using assms(6) by (simp add: get_pg_table_schema_map_def)
  ultimately show ?thesis
    using check_query_priv_data [OF _ assms(5) m, of s' t] query_bypass_reason_def
    by (cases "user_has_query_bypass u inst") (auto simp: given_refs_def check_query_priv_def bypass_reason_None [symmetric])
qed

theorem granted_application_opens_access_witness:
  "\<exists>a' s' reason. audit_apply (apply_store (sample_apply (Some 1) one_level)) 12 dba_op ''pass'' None 40 300 = Inr (a', s')
     \<and> check_query_priv s' 50 no_parse no_resolver dev_op sample_instance ''app'' [] (Some [([], ''log'')]) = Inr (True, reason)"
proof -
  from pass_one_level obtain a' s' where
    run: "audit_apply (apply_store (sample_apply (Some 1) one_level)) 12 dba_op ''pass'' None 40 300 = Inr (a', s')"
    and a': "qa_status a' = PASSED" "qa_valid_date a' = 50" "qa_instance_id a' = Some 5" "qa_user_id a' = 7"
      "qa_scope_type a' = ''database''" "qa_db_name a' = ''app''" "qa_table_name a' = []" by blast
  have "\<exists>reason. check_query_priv s' 50 no_parse no_resolver dev_op sample_instance ''app'' [] (Some [([], ''log'')]) = Inr (True, reason)"
    by (rule granted_application_opens_access [OF run]) (use a' in simp_all)
  with run show ?thesis by blast
qed

text \<open>
A successful submission has passed every gate: a flow was named, the instance is
active and accessible to the applicant, the chosen resource group belongs to both, and a
high risk has its remark. It stores one pending application and grants nothing; with a
flow, every node of its chain waits and the manager nodes know the applicant.
\<close>

theorem apply_starts_review:
  assumes "apply_privilege s today now uid r (Some u) = Inr (a, s')" "applies_wf s"
  shows "pr_flow_id r \<noteq> None
    \<and> (\<exists>inst. get_instance s (pr_instance_id r) = Some inst \<and> in_is_active inst \<and> user_has_instance_access u inst
         \<and> qa_group_id a \<in> set (op_resource_groups u) \<and> qa_group_id a \<in> rg_id ` set (in_resource_groups inst))
    \<and> (if rp_requires_manual_remark (qa_risk_plan a) then py_strip (pr_risk_remark r) \<noteq> [] else True)
    \<and> get_apply s (qa_id a) = None \<and> get_apply s' (qa_id a) = Some a \<and> qa_status a = PENDING
    \<and> qa_user_id a = uid \<and> st_privileges s' = st_privileges s
    \<and> (\<forall>k. k \<noteq> qa_id a \<longrightarrow> get_apply s' k = get_apply s k)
    \<and> (if truthy_id (pr_flow_id r)
       then \<exists>ns. qa_nodes a = NodesList ns \<and> ns \<noteq> [] \<and> all_pending ns
              \<and> (\<forall>n\<in>set ns. n_approver_type n = ''manager'' \<longrightarrow> n_applicant_id n = Some (op_id u))
       else qa_nodes a = NodesEmpty)"
proof -
  obtain gid plan groups scope where f: "pr_flow_id r \<noteq> None"
    "resolve_apply_group_id s u (pr_instance_id r) (pr_group_id r) = Inr gid"
    "rp_requires_manual_remark plan \<longrightarrow> py_strip (pr_risk_remark r) \<noteq> []"
    "apply_chain s u (pr_flow_id r) (pr_audit_auth_groups r) = Inr groups"
    "a = new_apply (st_next_id s) uid r gid scope plan groups now"
    "s' = add_apply a s \<or> (\<exists>e. s' = emit e (add_apply a s))"
    using assms(1) by (rule apply_privilegeD)
  have store: "get_apply s' k = (if k = qa_id a then Some a else get_apply s k)" for k
    using f(5,6) assms(2) by (auto simp: apply_tab.sel_add)
  have chain: "if truthy_id (pr_flow_id r)
       then \<exists>ns. snd groups = NodesList ns \<and> ns \<noteq> [] \<and> all_pending ns
              \<and> (\<forall>n\<in>set ns. n_approver_type n = ''manager'' \<longrightarrow> n_applicant_id n = Some (op_id u))
       else snd groups = NodesEmpty"
    using apply_chain_facts [of s u "pr_flow_id r" "pr_audit_auth_groups r" "fst groups" "snd groups"] f(4) by simp
  have "st_privileges s' = st_privileges s" using f(6) by auto
  moreover have "get_apply s (qa_id a) = None" using assms(2) by (simp add: f(5) apply_tab.sel_fresh)
  ultimately show ?thesis using f(1,3) resolve_group_facts [OF f(2)] store chain by (simp add: f(5))
qed

definition sample_apply_request :: "int option \<Rightarrow> apply_request" where
  "sample_apply_request fid =
     \<lparr> pr_title = ''read'', pr_instance_id = 5, pr_group_id = None, pr_flow_id = fid, pr_db_name = ''app'',
       pr_table_name = [], pr_scope_type = ''database'', pr_valid_date = 50, pr_limit_num = 100, pr_priv_type = 1,
       pr_apply_reason = [], pr_risk_remark = ''report'', pr_audit_auth_groups = [] \<rparr>"

definition flow_store :: store where
  "flow_store = sample_store\<lparr>
     st_flows := [\<lparr> fl_id = 1, fl_name = ''flow'', fl_description = [], fl_is_active = True, fl_created_by = [],
                    fl_created_by_id = None, fl_created_at = 0 \<rparr>],
     st_flow_nodes := [\<lparr> fn_id = 2, fn_flow_id = 1, fn_order = 1, fn_node_name = ''lead'', fn_approver_type = ''manager'',
                    fn_approver_ids = [], fn_approver_group_id = None, fn_approver_role_id = None \<rparr>]\<rparr>"

lemma sample_submission:
  "s = sample_store \<and> fid = 0 \<or> s = flow_store \<and> fid = 1 \<Longrightarrow>
     is_ok (apply_privilege s 40 100 7 (sample_apply_request (Some fid)) (Some dev_op))"
proof -
  assume s: "s = sample_store \<and> fid = 0 \<or> s = flow_store \<and> fid = 1"
  then have inst: "get_instance s 5 = Some sample_instance"
    by (auto simp: get_instance_def flow_store_def sample_instance_def sample_store_def table_simps)
  have group: "allowed_group_ids sample_instance dev_op = [1]"
    by (simp add: allowed_group_ids_def sample_defs)
  have ok: "is_ok (apply_chain s dev_op (Some fid) g)" for g
    using s by (auto simp: apply_chain_def truthy_id_def snapshot_for_workflow_def load_flow_def get_flow_def
        flow_nodes_of_def flow_store_def table_simps Let_def)
  have saved: "is_ok (save_apply s (new_apply i 7 r gid sc plan gs t))" if "snd gs \<noteq> NodesInvalid" "snd gs \<noteq> NodesOther" for i r gid sc plan gs t
    using that by (cases "snd gs") (auto simp: save_apply_def get_current_pending_node_def Let_def)
  have gs: "snd gs \<noteq> NodesInvalid \<and> snd gs \<noteq> NodesOther" if "apply_chain s dev_op (Some fid) g = Inr gs" for g gs
    using apply_chain_facts [of s dev_op "Some fid" g "fst gs" "snd gs"] that by (auto split: if_splits)
  have act: "in_is_active sample_instance" by (simp add: sample_instance_def)
  from ok [of "[]"] obtain gs where "apply_chain s dev_op (Some fid) [] = Inr gs" by (cases "apply_chain s dev_op (Some fid) []") auto
  with gs saved inst group act show ?thesis
    by (simp add: apply_privilege_def sample_apply_request_def resolve_apply_group_id_def Let_def
        py_strip_def py_lstrip_def py_isspace_def char_code_def)
qed

theorem apply_starts_review_witness:
  "\<exists>a s' ns. apply_privilege flow_store 40 100 7 (sample_apply_request (Some 1)) (Some dev_op) = Inr (a, s')
     \<and> qa_nodes a = NodesList ns \<and> ns \<noteq> [] \<and> all_pending ns \<and> st_privileges s' = []"
proof -
  from sample_submission [of flow_store 1] obtain a s' where
    run: "apply_privilege flow_store 40 100 7 (sample_apply_request (Some 1)) (Some dev_op) = Inr (a, s')"
    by (cases "apply_privilege flow_store 40 100 7 (sample_apply_request (Some 1)) (Some dev_op)") auto
  have wf: "applies_wf flow_store" by (simp add: applies_wf_def table_wf_def flow_store_def sample_store_def)
  have "truthy_id (pr_flow_id (sample_apply_request (Some 1)))" "st_privileges flow_store = []"
    by (simp_all add: truthy_id_def sample_apply_request_def flow_store_def sample_store_def)
  with apply_starts_review [OF run wf] run show ?thesis by auto
qed

text \<open>
A submission with the flow id 0 is accepted but gets no approval chain: anyone with the
review permission, the applicant included, then grants it alone and in one step.
\<close>

theorem flow_zero_skips_chain:
  assumes "apply_privilege s today now uid r (Some u) = Inr (a, s1)" "applies_wf s"
    and "pr_flow_id r = Some 0" "may_review_unchained v"
  shows "\<exists>a' s2 p. audit_apply s1 (qa_id a) v ''pass'' None today1 now1 = Inr (a', s2) \<and> qa_status a' = PASSED
    \<and> st_privileges s2 = st_privileges s @ [p] \<and> qp_user_id p = Some uid"
proof -
  from apply_starts_review [OF assms(1,2)] assms(3) have a: "get_apply s1 (qa_id a) = Some a" "qa_status a = PENDING"
    "qa_user_id a = uid" "st_privileges s1 = st_privileges s" "qa_nodes a = NodesEmpty"
    by (simp_all add: truthy_id_def)
  then have "\<not> has_chain a" by (simp add: has_chain_def)
  with a assms(4) show ?thesis
    by (simp add: audit_apply_def check_auditor_def pass_apply_def override_date_def grant_apply_def Let_def)
qed

theorem flow_zero_skips_chain_witness:
  "\<exists>a s1 a' s2. apply_privilege sample_store 40 100 7 (sample_apply_request (Some 0)) (Some dev_op) = Inr (a, s1)
     \<and> audit_apply s1 (qa_id a) (dev_op\<lparr>op_permissions := [''query_review'']\<rparr>) ''pass'' None 40 200 = Inr (a', s2)
     \<and> qa_status a' = PASSED"
proof -
  from sample_submission [of sample_store 0] obtain a s1 where
    run: "apply_privilege sample_store 40 100 7 (sample_apply_request (Some 0)) (Some dev_op) = Inr (a, s1)"
    by (cases "apply_privilege sample_store 40 100 7 (sample_apply_request (Some 0)) (Some dev_op)") auto
  have wf: "applies_wf sample_store" by (simp add: applies_wf_def table_wf_def sample_store_def)
  have fid: "pr_flow_id (sample_apply_request (Some 0)) = Some 0" by (simp add: sample_apply_request_def)
  have v: "may_review_unchained (dev_op\<lparr>op_permissions := [''query_review'']\<rparr>)"
    by (simp add: may_review_unchained_def has_perm_def)
  from flow_zero_skips_chain [OF run wf fid v, of 40 200] run show ?thesis by blast
qed

end
