(* ===== verification/Archive_Sql.thy ===== *)
theory Archive_Sql
  imports Engine_Models Sql_Analyzer
begin

text \<open>
  The pure part of \<^verbatim>\<open>app/services/archive.py\<close>: the support table, identifiers, the
  checks on an archive condition and the SQL texts of the batches. \<open>json_dict\<close> is what the
  code asks of \<open>json.loads\<close> (\<open>None\<close>: not JSON; \<open>Some b\<close>: whether it is a nonempty object) and
  \<open>parse_error\<close> of \<open>sqlglot.parse_one\<close> (\<open>Some\<close> the error text). The lemmas show that quoted
  identifiers cannot leave their quotes and that the VALUES list of an insert reads back as
  the rows it was made of.
\<close>

section \<open>Support\<close>

datatype cfg_value = CBool bool | CText string

definition ARCHIVE_SUPPORT :: "(string \<times> (string \<times> cfg_value) list) list" where
  "ARCHIVE_SUPPORT = [
     (''mysql'', [(''purge'', CBool True), (''dest'', CBool True), (''batch_delete'', CText ''limit''), (''verified'', CBool True)]),
     (''tidb'', [(''purge'', CBool True), (''dest'', CBool True), (''batch_delete'', CText ''limit''), (''verified'', CBool False)]),
     (''doris'', [(''purge'', CBool True), (''dest'', CBool False), (''batch_delete'', CText ''where''), (''verified'', CBool False),
        (''reason'', CText ''Doris supports the purge mode only'')]),
     (''pgsql'', [(''purge'', CBool True), (''dest'', CBool True), (''batch_delete'', CText ''ctid''), (''verified'', CBool True)]),
     (''oracle'', [(''purge'', CBool True), (''dest'', CBool True), (''batch_delete'', CText ''rownum''), (''verified'', CBool False)]),
     (''mssql'', [(''purge'', CBool True), (''dest'', CBool True), (''batch_delete'', CText ''top''), (''verified'', CBool False)]),
     (''starrocks'', [(''purge'', CBool True), (''dest'', CBool False), (''batch_delete'', CText ''where''), (''verified'', CBool False)]),
     (''clickhouse'', [(''purge'', CBool True), (''dest'', CBool False), (''batch_delete'', CText ''ch_alter''), (''verified'', CBool False)]),
     (''mongo'', [(''purge'', CBool True), (''dest'', CBool True), (''batch_delete'', CText ''mongo''), (''verified'', CBool True)]),
     (''cassandra'', [(''purge'', CBool False), (''dest'', CBool False), (''reason'', CText ''Cassandra needs primary keys; off by default'')]),
     (''redis'', [(''purge'', CBool False), (''dest'', CBool False), (''reason'', CText ''Redis has no conditional archiving'')]),
     (''elasticsearch'', [(''purge'', CBool False), (''dest'', CBool False), (''reason'', CText ''use ILM'')]),
     (''opensearch'', [(''purge'', CBool False), (''dest'', CBool False), (''reason'', CText ''use ISM'')])]"

definition SQLGLOT_ARCHIVE_DIALECTS :: "(string \<times> string) list" where
  "SQLGLOT_ARCHIVE_DIALECTS =
     [(''mysql'', ''mysql''), (''tidb'', ''mysql''), (''doris'', ''mysql''), (''starrocks'', ''mysql''), (''pgsql'', ''postgres''),
      (''postgres'', ''postgres''), (''postgresql'', ''postgres''), (''oracle'', ''oracle''), (''mssql'', ''tsql''),
      (''clickhouse'', ''clickhouse'')]"

fun cfg_truthy :: "cfg_value option \<Rightarrow> bool" where
  "cfg_truthy None = False"
| "cfg_truthy (Some (CBool b)) = b"
| "cfg_truthy (Some (CText t)) = (t \<noteq> [])"

definition check_support :: "string \<Rightarrow> string \<Rightarrow> bool \<times> string" where
  "check_support db_type mode =
     (case map_of ARCHIVE_SUPPORT (py_lower db_type) of
        None \<Rightarrow> (False, db_type @ '' is not in the support list'')
      | Some cfg \<Rightarrow>
          if \<not> cfg_truthy (map_of cfg mode)
          then (False, case map_of cfg ''reason'' of Some (CText r) \<Rightarrow> r
                       | _ \<Rightarrow> db_type @ '' does not support the mode '' @ mode)
          else (True, []))"

section \<open>Identifiers\<close>

definition ident_start :: "char \<Rightarrow> bool" where
  "ident_start c \<longleftrightarrow> (let n = char_code c in (65 \<le> n \<and> n \<le> 90) \<or> (97 \<le> n \<and> n \<le> 122) \<or> n = 95)"

definition ident_char :: "char \<Rightarrow> bool" where
  "ident_char c \<longleftrightarrow> ident_start c \<or> (let n = char_code c in (48 \<le> n \<and> n \<le> 57) \<or> n = 36)"

definition newline :: char where "newline = CHR 0x0A"

text \<open>\<open>IDENT_RE.match\<close>: the dollar also matches before a newline at the end.\<close>

definition ident_match :: "string \<Rightarrow> bool" where
  "ident_match s =
     (case s of [] \<Rightarrow> False
      | c # cs \<Rightarrow> ident_start c \<and>
          (list_all ident_char cs \<or> (cs \<noteq> [] \<and> last cs = newline \<and> list_all ident_char (butlast cs))))"

definition quote_identifier :: "string \<Rightarrow> string \<Rightarrow> string res" where
  "quote_identifier db_type name =
     raise_if (\<not> ident_match name) (app_exc (ArchiveMsg (BadIdentifier name)) 400)
     (let dt = py_lower db_type in
      Inr (if dt \<in> {''pgsql'', ''oracle''} then ''\"'' @ name @ ''\"''
           else if dt = ''mssql'' then ''['' @ name @ '']''
           else CHR 0x60 # name @ [CHR 0x60]))"

section \<open>Batch texts\<close>

definition build_batch_delete_sql :: "string \<Rightarrow> string \<Rightarrow> string \<Rightarrow> int \<Rightarrow> string res" where
  "build_batch_delete_sql db_type table_name condition batch_size =
     (let dt = py_lower db_type; n = py_str_int batch_size in
      rbind (quote_identifier dt table_name) (\<lambda>t. Inr (
        if dt \<in> {''mysql'', ''tidb''} then ''DELETE FROM '' @ t @ '' WHERE '' @ condition @ '' LIMIT '' @ n
        else if dt = ''pgsql'' then ''DELETE FROM '' @ t @ '' WHERE ctid IN (SELECT ctid FROM '' @ t @ '' WHERE ''
               @ condition @ '' LIMIT '' @ n @ '')''
        else if dt = ''oracle'' then ''DELETE FROM '' @ t @ '' WHERE ROWID IN (SELECT ROWID FROM '' @ t @ '' WHERE ''
               @ condition @ '' AND ROWNUM <= '' @ n @ '')''
        else if dt = ''mssql'' then ''DELETE TOP('' @ n @ '') FROM '' @ t @ '' WHERE '' @ condition
        else if dt \<in> {''starrocks'', ''doris''} then ''DELETE FROM '' @ t @ '' WHERE '' @ condition
        else if dt = ''clickhouse'' then ''ALTER TABLE '' @ t @ '' DELETE WHERE '' @ condition
        else ''DELETE FROM '' @ t @ '' WHERE '' @ condition @ '' LIMIT '' @ n)))"

definition build_count_sql :: "string \<Rightarrow> string \<Rightarrow> string \<Rightarrow> string res" where
  "build_count_sql db_type table_name condition =
     (let dt = py_lower db_type in
      rbind (quote_identifier dt table_name) (\<lambda>t. Inr (
        if dt = ''clickhouse'' then ''SELECT count() FROM '' @ t @ '' WHERE '' @ condition
        else ''SELECT COUNT(*) FROM '' @ t @ '' WHERE '' @ condition)))"

definition build_dest_batch_sql :: "string \<Rightarrow> string \<Rightarrow> string \<Rightarrow> int \<Rightarrow> (string \<times> string) res" where
  "build_dest_batch_sql db_type table_name condition batch_size =
     (let dt = py_lower db_type; n = py_str_int batch_size in
      rbind (quote_identifier dt table_name) (\<lambda>t.
        if dt \<in> {''mysql'', ''tidb''} then Inr
          (''SELECT * FROM '' @ t @ '' WHERE '' @ condition @ '' LIMIT '' @ n,
           ''DELETE FROM '' @ t @ '' WHERE '' @ condition @ '' LIMIT '' @ n)
        else if dt = ''pgsql'' then Inr
          (''SELECT * FROM '' @ t @ '' WHERE '' @ condition @ '' LIMIT '' @ n,
           ''DELETE FROM '' @ t @ '' WHERE ctid IN (SELECT ctid FROM '' @ t @ '' WHERE '' @ condition @ '' LIMIT '' @ n @ '')'')
        else if dt = ''oracle'' then Inr
          (''SELECT * FROM '' @ t @ '' WHERE '' @ condition @ '' AND ROWNUM <= '' @ n,
           ''DELETE FROM '' @ t @ '' WHERE ROWID IN (SELECT ROWID FROM '' @ t @ '' WHERE '' @ condition @ '' AND ROWNUM <= '' @ n @ '')'')
        else if dt = ''mssql'' then Inr
          (''SELECT TOP '' @ n @ '' * FROM '' @ t @ '' WHERE '' @ condition,
           ''DELETE TOP('' @ n @ '') FROM '' @ t @ '' WHERE '' @ condition)
        else Inl (app_exc (ArchiveMsg (DestUnsupported db_type)) 400)))"

section \<open>The condition\<close>

text \<open>\<open>SQL_STATEMENT_PREFIX_RE\<close>: a statement keyword, in any case, that ends at a word boundary.\<close>

definition starts_statement :: "string \<Rightarrow> bool" where
  "starts_statement cond =
     (let s = py_lstrip cond in
      list_ex (\<lambda>k. py_lower (take (length k) s) = k
          \<and> (case drop (length k) s of [] \<Rightarrow> True | c # _ \<Rightarrow> \<not> word_char c))
        [''select'', ''delete'', ''update'', ''insert'', ''replace'', ''truncate'', ''alter'', ''drop''])"

text \<open>\<open>ALWAYS_TRUE_RE\<close>: \<open>1=1\<close> or \<open>true\<close>, joined by \<open>AND\<close>.\<close>

definition true_item :: "string \<Rightarrow> string option" where
  "true_item s =
     (if take 4 s \<in> {''true'', ''TRUE''} then Some (drop 4 s)
      else (case s of
              c # r \<Rightarrow> if c \<noteq> CHR ''1'' then None
                else (case py_lstrip r of
                        d # r2 \<Rightarrow> if d \<noteq> CHR ''='' then None
                          else (case py_lstrip r2 of e # r3 \<Rightarrow> if e = CHR ''1'' then Some r3 else None | [] \<Rightarrow> None)
                      | [] \<Rightarrow> None)
            | [] \<Rightarrow> None))"

lemma length_lstrip: "length (py_lstrip s) \<le> length s"
  by (simp add: py_lstrip_def length_dropWhile_le)

lemma true_item_length: "true_item s = Some r \<Longrightarrow> length r \<le> length s"
  using length_lstrip
  by (auto simp: true_item_def split: if_splits list.splits)
    (metis Suc_leD le_SucI length_Cons order_trans)

function (sequential) and_items :: "string \<Rightarrow> bool" where
  "and_items s =
     (let r = py_lstrip s in
      if r = [] then True
      else if r = s \<or> take 3 r \<noteq> ''AND'' then False
      else let q = drop 3 r in
        if q = py_lstrip q then False
        else (case true_item (py_lstrip q) of None \<Rightarrow> False | Some rest \<Rightarrow> and_items rest))"
  by pat_completeness auto
termination
proof (relation "measure length", simp, goal_cases)
  case (1 s r q rest)
  have "length rest \<le> length (py_lstrip q)" using true_item_length 1 by blast
  also have "\<dots> \<le> length q" by (rule length_lstrip)
  also have "length q < length r" using 1 by (cases r) auto
  also have "\<dots> \<le> length s" using 1 length_lstrip by blast
  finally show ?case by simp
qed

definition always_true :: "string \<Rightarrow> bool" where
  "always_true cond = (case true_item (py_lstrip cond) of None \<Rightarrow> False | Some rest \<Rightarrow> and_items rest)"

definition validate_archive_condition ::
    "(string \<Rightarrow> bool option) \<Rightarrow> (string \<Rightarrow> string \<Rightarrow> string option) \<Rightarrow> string \<Rightarrow> string \<Rightarrow> string \<Rightarrow> unit res" where
  "validate_archive_condition json_dict parse_error db_type table_name condition =
     (if db_type = ''mongo'' then
        (case json_dict condition of
           None \<Rightarrow> Inl (app_exc (ArchiveMsg MongoConditionNotJson) 400)
         | Some nonempty \<Rightarrow> raise_if (\<not> nonempty) (app_exc (ArchiveMsg MongoConditionEmpty) 400) (Inr ()))
      else let cond = py_strip condition in
        raise_if (cond = []) (app_exc (ArchiveMsg ConditionEmpty) 400)
        (raise_if (starts_statement cond) (app_exc (ArchiveMsg ConditionIsStatement) 400)
        (raise_if (list_ex (\<lambda>x. py_contains x cond) ['';'', ''--'', ''/*'', ''*/'']) (app_exc (ArchiveMsg ConditionMultiStatement) 400)
        (raise_if (always_true cond) (app_exc (ArchiveMsg ConditionAlwaysTrue) 400)
        (raise_if (\<not> ident_match table_name) (app_exc (ArchiveMsg (BadTableName table_name)) 400)
        (rbind (quote_identifier db_type table_name) (\<lambda>t.
         case parse_error (case map_of SQLGLOT_ARCHIVE_DIALECTS (py_lower db_type) of Some d \<Rightarrow> d | None \<Rightarrow> ''mysql'')
                (''SELECT 1 FROM '' @ t @ '' WHERE '' @ cond) of
           Some e \<Rightarrow> Inl (app_exc (ArchiveMsg (ConditionUnparsable e)) 400)
         | None \<Rightarrow> Inr ())))))))"

section \<open>Insert statements\<close>

definition quote_char :: char where "quote_char = CHR 0x27"

fun double_quotes :: "string \<Rightarrow> string" where
  "double_quotes [] = []"
| "double_quotes (c # cs) = (if c = quote_char then quote_char # quote_char # double_quotes cs else c # double_quotes cs)"

definition sql_literal :: "string option \<Rightarrow> string" where
  "sql_literal v = (case v of None \<Rightarrow> ''NULL'' | Some s \<Rightarrow> quote_char # double_quotes s @ [quote_char])"

fun row_values :: "string list \<Rightarrow> result_row \<Rightarrow> string option list" where
  "row_values columns (RowDict d) = map (\<lambda>c. case map_of d c of None \<Rightarrow> None | Some v \<Rightarrow> v) columns"
| "row_values columns (RowTuple vs) = vs"

definition row_text :: "string option list \<Rightarrow> string" where
  "row_text vs = ''('' @ py_join '', '' (map sql_literal vs) @ '')''"

definition values_text :: "string option list list \<Rightarrow> string" where
  "values_text rows = py_join '', '' (map row_text rows)"

fun quote_all :: "string \<Rightarrow> string list \<Rightarrow> string list res" where
  "quote_all db_type [] = Inr []"
| "quote_all db_type (c # cs) =
     rbind (quote_identifier db_type c) (\<lambda>q. rbind (quote_all db_type cs) (\<lambda>qs. Inr (q # qs)))"

definition build_insert_sql :: "string \<Rightarrow> string \<Rightarrow> string list \<Rightarrow> result_row list \<Rightarrow> string res" where
  "build_insert_sql db_type table columns rows =
     rbind (quote_all db_type columns) (\<lambda>cols.
     rbind (quote_identifier db_type table) (\<lambda>t.
       Inr (''INSERT INTO '' @ t @ '' ('' @ py_join '', '' cols @ '') VALUES '' @ values_text (map (row_values columns) rows))))"

section \<open>Reading SQL literals\<close>

text \<open>
  The specification of the insert texts: a reader of VALUES lists under the SQL standard,
  where a quote inside a literal is doubled and nothing else is special, and the reader
  of one literal under MySQL, where a backslash escapes the next character.
\<close>

fun read_quoted :: "string \<Rightarrow> (string \<times> string) option" where
  "read_quoted [] = None"
| "read_quoted (c # cs) =
     (if c \<noteq> quote_char then map_option (\<lambda>(v, r). (c # v, r)) (read_quoted cs)
      else (case cs of
              [] \<Rightarrow> Some ([], [])
            | d # ds \<Rightarrow> if d = quote_char then map_option (\<lambda>(v, r). (quote_char # v, r)) (read_quoted ds)
                        else Some ([], cs)))"

definition backslash :: char where "backslash = CHR 0x5C"

fun read_mysql_quoted :: "string \<Rightarrow> (string \<times> string) option" where
  "read_mysql_quoted [] = None"
| "read_mysql_quoted (c # cs) =
     (if c = backslash then
        (case cs of [] \<Rightarrow> None | d # ds \<Rightarrow> map_option (\<lambda>(v, r). (d # v, r)) (read_mysql_quoted ds))
      else if c \<noteq> quote_char then map_option (\<lambda>(v, r). (c # v, r)) (read_mysql_quoted cs)
      else (case cs of
              [] \<Rightarrow> Some ([], [])
            | d # ds \<Rightarrow> if d = quote_char then map_option (\<lambda>(v, r). (quote_char # v, r)) (read_mysql_quoted ds)
                        else Some ([], cs)))"

definition read_cell :: "string \<Rightarrow> (string option \<times> string) option" where
  "read_cell s =
     (case s of [] \<Rightarrow> None
      | c # cs \<Rightarrow> if c = quote_char then map_option (\<lambda>(v, r). (Some v, r)) (read_quoted cs)
                  else if take 4 s = ''NULL'' then Some (None, drop 4 s) else None)"

lemma read_quoted_length: "read_quoted s = Some (v, r) \<Longrightarrow> length r \<le> length s"
  by (induction s arbitrary: v r rule: read_quoted.induct)
    (fastforce split: if_splits list.splits)+

lemma read_cell_length: "read_cell s = Some (v, r) \<Longrightarrow> length r < length s"
  by (auto simp: read_cell_def split: if_splits list.splits dest: read_quoted_length)

text \<open>A comma-separated list of items; \<open>None\<close> when an item cannot be read.\<close>

fun read_list :: "nat \<Rightarrow> (string \<Rightarrow> ('a \<times> string) option) \<Rightarrow> string \<Rightarrow> ('a list \<times> string) option" where
  "read_list 0 item s = None"
| "read_list (Suc fuel) item s =
     (case item s of None \<Rightarrow> None
      | Some (x, r) \<Rightarrow>
          if take 2 r = '', '' then map_option (\<lambda>(xs, q). (x # xs, q)) (read_list fuel item (drop 2 r))
          else Some ([x], r))"

definition read_row :: "string \<Rightarrow> (string option list \<times> string) option" where
  "read_row s =
     (case s of
        c # cs \<Rightarrow> if c \<noteq> CHR ''('' then None
          else (case read_list (length cs) read_cell cs of
                  Some (vs, d # ds) \<Rightarrow> if d = CHR '')'' then Some (vs, ds) else None
                | _ \<Rightarrow> None)
      | [] \<Rightarrow> None)"

definition read_values :: "string \<Rightarrow> string option list list option" where
  "read_values s = (case read_list (length s) read_row s of Some (rows, []) \<Rightarrow> Some rows | _ \<Rightarrow> None)"

lemma read_quoted_literal:
  "(rest = [] \<or> hd rest \<noteq> quote_char) \<Longrightarrow> read_quoted (double_quotes v @ quote_char # rest) = Some (v, rest)"
  by (induction v) (auto split: list.splits)

lemma read_cell_literal:
  "(rest = [] \<or> hd rest \<noteq> quote_char) \<Longrightarrow> read_cell (sql_literal v @ rest) = Some (v, rest)"
  by (cases v) (auto simp: read_cell_def sql_literal_def read_quoted_literal, simp_all add: quote_char_def)

lemma sql_literal_nonempty: "1 \<le> length (sql_literal v)"
  by (cases v) (auto simp: sql_literal_def)

text \<open>An item reader that undoes a printer undoes the printed list.\<close>

lemma read_list_join:
  assumes "\<And>x rest. x \<in> set xs \<Longrightarrow> (rest = [] \<or> hd rest \<in> {CHR '','', CHR '')''}) \<Longrightarrow>
      item (pr x @ rest) = Some (x, rest)"
    and "xs \<noteq> []" "length xs \<le> fuel" "rest = [] \<or> hd rest = CHR '')''"
  shows "read_list fuel item (py_join '', '' (map pr xs) @ rest) = Some (xs, rest)"
  using assms
proof (induction xs arbitrary: fuel)
  case Nil
  then show ?case by simp
next
  case (Cons x xs)
  then obtain f where fuel: "fuel = Suc f" by (cases fuel) auto
  show ?case
  proof (cases xs)
    case Nil
    have "item (pr x @ rest) = Some (x, rest)" using Cons.prems(1,4) by auto
    moreover have "take 2 rest \<noteq> '', ''" using Cons.prems(4) by (cases rest) auto
    ultimately show ?thesis by (simp add: fuel Nil)
  next
    case (Cons y ys)
    let ?tail = "py_join '', '' (map pr xs) @ rest"
    have "item (pr x @ '', '' @ ?tail) = Some (x, '', '' @ ?tail)" using Cons.prems(1) by auto
    moreover have "read_list f item ?tail = Some (xs, rest)"
      using Cons.prems Cons.IH [of f] \<open>xs = y # ys\<close> fuel by auto
    ultimately show ?thesis by (simp add: fuel \<open>xs = y # ys\<close>)
  qed
qed

lemma length_join: "\<forall>x\<in>set xs. 1 \<le> length x \<Longrightarrow> length xs \<le> length (py_join sep xs)"
proof (induction sep xs rule: py_join.induct)
  case (3 sep x v va)
  then have "length (v # va) \<le> length (py_join sep (v # va))" "1 \<le> length x" by simp_all
  then show ?case by (simp only: py_join.simps length_append) simp
qed simp_all

lemma read_row_text:
  assumes "vs \<noteq> []"
  shows "read_row (row_text vs @ rest) = Some (vs, rest)"
proof -
  have "length vs \<le> length (py_join '', '' (map sql_literal vs) @ '')'' @ rest)"
    using length_join [of "map sql_literal vs" "'', ''"] sql_literal_nonempty by auto
  moreover have "read_cell (sql_literal x @ r) = Some (x, r)"
    if "r = [] \<or> hd r \<in> {CHR '','', CHR '')''}" for x r
    using that by (intro read_cell_literal) (auto simp: quote_char_def)
  ultimately have "read_list (length (py_join '', '' (map sql_literal vs) @ '')'' @ rest)) read_cell
      (py_join '', '' (map sql_literal vs) @ '')'' @ rest) = Some (vs, '')'' @ rest)"
    using assms by (intro read_list_join) auto
  then show ?thesis by (simp add: read_row_def row_text_def)
qed

lemma read_values_text:
  assumes "rows \<noteq> []" "\<forall>vs\<in>set rows. vs \<noteq> []"
  shows "read_values (values_text rows) = Some rows"
proof -
  have "length rows \<le> length (values_text rows)"
    unfolding values_text_def using length_join [of "map row_text rows" "'', ''"] by (auto simp: row_text_def)
  moreover have "read_row (row_text x @ r) = Some (x, r)" if "x \<in> set rows" for x r
    using that assms(2) by (intro read_row_text) blast
  ultimately have "read_list (length (values_text rows)) read_row (py_join '', '' (map row_text rows) @ []) = Some (rows, [])"
    using assms(1) by (intro read_list_join) auto
  then show ?thesis by (simp add: read_values_def values_text_def)
qed

lemma build_insert_sqlD:
  assumes "build_insert_sql db_type table columns rows = Inr sql"
  obtains cols t where "quote_all db_type columns = Inr cols" "quote_identifier db_type table = Inr t"
    "sql = ''INSERT INTO '' @ t @ '' ('' @ py_join '', '' cols @ '') VALUES '' @ values_text (map (row_values columns) rows)"
  using assms by (auto simp: build_insert_sql_def rbind_Inr_iff)

section \<open>Properties\<close>

lemma ident_chars: "ident_match name \<Longrightarrow> c \<in> set name \<Longrightarrow> ident_char c \<or> c = newline"
proof -
  assume m: "ident_match name" "c \<in> set name"
  then obtain d ds where "name = d # ds" by (cases name) (auto simp: ident_match_def)
  with m show ?thesis
    by (cases ds rule: rev_cases) (auto simp: ident_match_def ident_char_def list_all_iff)
qed

lemma quote_identifier_safe:
  assumes "quote_identifier db_type name = Inr q"
  shows "\<exists>a b. q = a # name @ [b] \<and> b \<notin> set name \<and> {quote_char, CHR '';'', CHR '' ''} \<inter> set name = {}"
proof -
  have m: "ident_match name" using assms by (simp add: quote_identifier_def raise_if_Inr_iff)
  have bad: "c \<notin> set name" if "\<not> ident_char c" "c \<noteq> newline" for c
    using ident_chars [OF m] that by blast
  have "b \<notin> set name" if "b \<in> {CHR 0x22, CHR 0x5D, CHR 0x60, quote_char, CHR '';'', CHR '' ''}" for b
    using that by (intro bad) (auto simp: ident_char_def ident_start_def char_code_def newline_def quote_char_def)
  then show ?thesis using assms by (auto simp: quote_identifier_def raise_if_Inr_iff Let_def split: if_splits)
qed

lemma quote_identifier_ok: "ident_match name \<Longrightarrow> \<exists>q. quote_identifier db_type name = Inr q"
  by (simp add: quote_identifier_def Let_def)

text \<open>
An archive condition that passes the check (for a SQL database) is not blank, holds no
statement separator and no comment, is not itself a statement and not one of the plain
always-true forms; and the table name is an identifier: the delete and count texts can be
built, and the quoted name contains neither its closing quote nor a quote, a blank or a
semicolon.
\<close>

theorem accepted_condition_safe:
  assumes "validate_archive_condition json_dict parse_error db_type table cond = Inr ()" "db_type \<noteq> ''mongo''"
  shows "py_strip cond \<noteq> [] \<and> \<not> starts_statement (py_strip cond) \<and> \<not> always_true (py_strip cond)
    \<and> \<not> py_contains '';'' (py_strip cond) \<and> \<not> py_contains ''--'' (py_strip cond)
    \<and> \<not> py_contains ''/*'' (py_strip cond) \<and> \<not> py_contains ''*/'' (py_strip cond)
    \<and> is_ok (build_batch_delete_sql db_type table cond n) \<and> is_ok (build_count_sql db_type table cond)
    \<and> (\<exists>a b. quote_identifier db_type table = Inr (a # table @ [b]) \<and> b \<notin> set table
         \<and> {quote_char, CHR '';'', CHR '' ''} \<inter> set table = {})"
proof -
  have m: "ident_match table" using assms by (auto simp: validate_archive_condition_def Let_def raise_if_Inr_iff)
  obtain q where q: "quote_identifier db_type table = Inr q" using quote_identifier_ok [OF m] by blast
  have "is_ok (build_batch_delete_sql db_type table cond n)" "is_ok (build_count_sql db_type table cond)"
    using quote_identifier_ok [OF m, of "py_lower db_type"]
    by (auto simp: build_batch_delete_sql_def build_count_sql_def Let_def)
  moreover have "py_strip cond \<noteq> [] \<and> \<not> starts_statement (py_strip cond) \<and> \<not> always_true (py_strip cond)
    \<and> \<not> py_contains '';'' (py_strip cond) \<and> \<not> py_contains ''--'' (py_strip cond)
    \<and> \<not> py_contains ''/*'' (py_strip cond) \<and> \<not> py_contains ''*/'' (py_strip cond)"
    using assms by (auto simp: validate_archive_condition_def Let_def raise_if_Inr_iff)
  ultimately show ?thesis using quote_identifier_safe [OF q] q by blast
qed

lemmas text_eval = py_strip_def py_lstrip_def py_isspace_def char_code_def py_lower_def lower_char_def

theorem accepted_condition_safe_witness:
  "validate_archive_condition (\<lambda>_. None) (\<lambda>_ _. None) ''mysql'' ''log'' ''id < 10'' = Inr ()
   \<and> is_ok (build_batch_delete_sql ''mysql'' ''log'' ''id < 10'' 100)"
proof -
  have run: "validate_archive_condition (\<lambda>_. None) (\<lambda>_ _. None) ''mysql'' ''log'' ''id < 10'' = Inr ()"
    by (simp add: validate_archive_condition_def starts_statement_def word_char_def always_true_def true_item_def
        ident_match_def ident_start_def ident_char_def quote_identifier_def text_eval Let_def)
  from accepted_condition_safe [OF run, of 100] run show ?thesis by simp
qed

text \<open>The always-true check knows \<open>AND\<close> in upper case only.\<close>

lemma lowercase_and_not_caught:
  "always_true ''1=1 AND 1=1'' \<and> \<not> always_true ''1=1 and 1=1''"
  by (simp add: always_true_def true_item_def and_items.simps text_eval Let_def)

text \<open>
C20: The VALUES list of an insert statement reads back, under the SQL standard, as exactly
the rows it was built from: quotes in the data never end a literal.
\<close>

theorem insert_values_roundtrip:
  assumes "build_insert_sql db_type table columns rows = Inr sql"
    and "rows \<noteq> []" "\<forall>r\<in>set rows. row_values columns r \<noteq> []"
  shows "\<exists>head vals. sql = head @ vals \<and> read_values vals = Some (map (row_values columns) rows)
    \<and> (\<exists>t cols. quote_identifier db_type table = Inr t \<and> head = ''INSERT INTO '' @ t @ '' ('' @ py_join '', '' cols @ '') VALUES ''
         \<and> length cols = length columns)"
proof -
  obtain cols t where c: "quote_all db_type columns = Inr cols" "quote_identifier db_type table = Inr t"
    "sql = ''INSERT INTO '' @ t @ '' ('' @ py_join '', '' cols @ '') VALUES '' @ values_text (map (row_values columns) rows)"
    using assms(1) by (rule build_insert_sqlD)
  have "length cols = length columns" using c(1)
    by (induction columns arbitrary: cols) (auto simp: rbind_Inr_iff)
  moreover have "read_values (values_text (map (row_values columns) rows)) = Some (map (row_values columns) rows)"
    using assms(2,3) by (intro read_values_text) auto
  ultimately show ?thesis using c
    by (intro exI [of _ "''INSERT INTO '' @ t @ '' ('' @ py_join '', '' cols @ '') VALUES ''"]
        exI [of _ "values_text (map (row_values columns) rows)"]) auto
qed

theorem insert_values_roundtrip_witness:
  "\<exists>head vals. build_insert_sql ''pgsql'' ''log'' [''a'', ''b''] [RowTuple [Some [quote_char, CHR ''x''], None]] = Inr (head @ vals)
     \<and> read_values vals = Some [[Some [quote_char, CHR ''x''], None]]"
proof -
  obtain sql where run: "build_insert_sql ''pgsql'' ''log'' [''a'', ''b''] [RowTuple [Some [quote_char, CHR ''x''], None]] = Inr sql"
    by (simp add: build_insert_sql_def quote_identifier_def ident_match_def ident_start_def ident_char_def
        char_code_def Let_def)
  from insert_values_roundtrip [OF run] run show ?thesis by auto
qed

text \<open>
MySQL reads a backslash in a literal as an escape, which the insert text does not
provide for: the literal of a value that ends in a backslash is not closed, and the text
after it is read as data up to the next quote.
\<close>

theorem mysql_backslash_opens_literal:
  assumes "quote_char \<notin> set v" "backslash \<notin> set v"
  shows "\<exists>body. sql_literal (Some (v @ [backslash])) = quote_char # body
    \<and> read_quoted body = Some (v @ [backslash], [])
    \<and> read_mysql_quoted body = None
    \<and> read_mysql_quoted (body @ rest) = map_option (\<lambda>(w, r). (v @ quote_char # w, r)) (read_mysql_quoted rest)"
proof -
  have dq: "double_quotes (v @ [backslash]) = v @ [backslash]"
    using assms(1) by (induction v) (auto simp: backslash_def quote_char_def)
  have "read_mysql_quoted (v @ backslash # quote_char # q) = map_option (\<lambda>(w, r). (v @ quote_char # w, r)) (read_mysql_quoted q)" for q
    using assms by (induction v) (auto simp: option.map_comp comp_def case_prod_unfold)
  from this [of "[]"] this [of rest] read_quoted_literal [of "[]" "v @ [backslash]"] show ?thesis
    by (intro exI [of _ "v @ [backslash, quote_char]"]) (simp add: sql_literal_def dq)
qed

theorem mysql_backslash_opens_literal_witness:
  "\<exists>body. sql_literal (Some [CHR ''C'', backslash]) = quote_char # body \<and> read_mysql_quoted body = None"
  using mysql_backslash_opens_literal [of "[CHR ''C'']" "[]"] by (auto simp: quote_char_def backslash_def)

end
