(* ===== verification/Archive_Service.thy ===== *)
theory Archive_Service
  imports Archive_Sql Workflow_Service
begin

text \<open>
  \<^verbatim>\<open>app/services/archive.py\<close>, the jobs: estimation, submission into an approval flow,
  the control requests and the views, with the request model of
  \<^verbatim>\<open>app/routers/archive.py\<close>. Engines, \<open>json.loads\<close> and sqlglot are the fields of
  \<open>archive_env\<close>. Execution is in \<open>Archive_Worker\<close>.
\<close>

section \<open>Engines\<close>

text \<open>
  What the archive code calls on an engine. The number is the round of the calling loop,
  so that an engine may answer every round differently. A MongoDB document is its id; its
  filter is the text of the condition.
\<close>

record arch_engine =
  ae_query :: "nat \<Rightarrow> string \<Rightarrow> string \<Rightarrow> int \<Rightarrow> result_set raised"
  ae_execute :: "nat \<Rightarrow> string \<Rightarrow> string \<Rightarrow> review_set raised"
  ae_connect :: "string \<Rightarrow> unit raised"
  ae_count :: "string \<Rightarrow> string \<Rightarrow> string \<Rightarrow> int raised"
  ae_find :: "nat \<Rightarrow> string \<Rightarrow> string \<Rightarrow> string \<Rightarrow> int \<Rightarrow> int list raised"
  ae_insert_many :: "nat \<Rightarrow> string \<Rightarrow> string \<Rightarrow> int list \<Rightarrow> unit raised"
  ae_delete_many :: "nat \<Rightarrow> string \<Rightarrow> string \<Rightarrow> int list \<Rightarrow> int raised"

record archive_env =
  en_json_dict :: "string \<Rightarrow> bool option"
  en_parse_error :: "string \<Rightarrow> string \<Rightarrow> string option"
  en_get_engine :: "db_instance \<Rightarrow> arch_engine res"

definition validate_condition :: "archive_env \<Rightarrow> string \<Rightarrow> string \<Rightarrow> string \<Rightarrow> unit res" where
  "validate_condition env = validate_archive_condition (en_json_dict env) (en_parse_error env)"

section \<open>Row counts\<close>

text \<open>\<open>int(x)\<close> of an integer's text.\<close>

definition digit_value :: "char \<Rightarrow> int option" where
  "digit_value c = (let n = char_code c in if 48 \<le> n \<and> n \<le> 57 then Some (int n - 48) else None)"

fun digits_value :: "int \<Rightarrow> string \<Rightarrow> int option" where
  "digits_value acc [] = Some acc"
| "digits_value acc (c # cs) =
     (case digit_value c of None \<Rightarrow> None | Some d \<Rightarrow> digits_value (10 * acc + d) cs)"

definition py_int :: "string \<Rightarrow> int option" where
  "py_int s =
     (case s of [] \<Rightarrow> None
      | c # cs \<Rightarrow> if c = CHR ''-'' then (if cs = [] then None else map_option uminus (digits_value 0 cs))
                  else digits_value 0 s)"

fun first_value :: "result_row \<Rightarrow> string option" where
  "first_value (RowDict d) = (case d of [] \<Rightarrow> Some ''0'' | (k, v) # _ \<Rightarrow> v)"
| "first_value (RowTuple vs) = (case vs of [] \<Rightarrow> Some ''0'' | v # _ \<Rightarrow> v)"

definition count_of :: "result_row list \<Rightarrow> int res" where
  "count_of rows =
     (case rows of [] \<Rightarrow> Inr 0
      | r # _ \<Rightarrow> (case first_value r of
            None \<Rightarrow> Inl (RawException PyTypeError)
          | Some t \<Rightarrow> (case py_int t of None \<Rightarrow> Inl (RawException PyValueError) | Some n \<Rightarrow> Inr n)))"

text \<open>The count the engine reports, or the fallback, marked as an estimate, when it reports none.\<close>

definition review_affected_rows :: "review_set \<Rightarrow> int \<Rightarrow> int \<times> bool" where
  "review_affected_rows review_set fallback =
     (let affected = sum_list (map (\<lambda>i. max (si_affected_rows i) 0) (rs_rows review_set)) in
      if affected > 0 then (affected, False) else (fallback, True))"

section \<open>Scope\<close>

definition load_instance :: "store \<Rightarrow> int \<Rightarrow> db_instance res" where
  "load_instance s iid =
     (case get_instance s iid of
        None \<Rightarrow> Inl (not_found_exc (WorkflowMsg (InstanceNotFound iid))) | Some inst \<Rightarrow> Inr inst)"

definition archive_exc :: "archive_msg \<Rightarrow> int \<Rightarrow> exc" where
  "archive_exc m c = app_exc (ArchiveMsg m) c"

definition assert_instance_scope :: "db_instance \<Rightarrow> operator \<Rightarrow> (int \<times> string) res" where
  "assert_instance_scope inst u =
     (if op_is_superuser u then
        (case filter rg_is_active (in_resource_groups inst) of
           [] \<Rightarrow> Inr (0, ''default group'') | rg # _ \<Rightarrow> Inr (rg_id rg, rg_group_name rg))
      else (case sort_key rg_id (filter (\<lambda>rg. rg_is_active rg \<and> rg_id rg \<in> set (op_resource_groups u)) (in_resource_groups inst)) of
              [] \<Rightarrow> Inl (archive_exc ArchiveOutOfScope 403)
            | rg # _ \<Rightarrow> Inr (rg_id rg, rg_group_name rg)))"

definition has_archive_execute :: "operator \<Rightarrow> bool" where
  "has_archive_execute u \<longleftrightarrow> op_is_superuser u \<or> has_perm u ''archive_execute''"

definition assert_archive_execute_scope :: "db_instance \<Rightarrow> operator \<Rightarrow> unit res" where
  "assert_archive_execute_scope src_inst u =
     (if op_is_superuser u then Inr ()
      else raise_if (\<not> has_perm u ''archive_execute'') (archive_exc NoArchiveExecute 403)
        (if op_role u = Some ''dba'' \<or> has_perm u ''query_all_instances'' then Inr ()
         else raise_if (\<not> list_ex (\<lambda>rg. rg_is_active rg \<and> rg_id rg \<in> set (op_resource_groups u)) (in_resource_groups src_inst))
                (archive_exc ArchiveOutOfScope 403) (Inr ())))"

section \<open>Estimation\<close>

record archive_request =
  rq_source_instance_id :: int
  rq_source_db :: string
  rq_source_table :: string
  rq_condition :: string
  rq_archive_mode :: string
  rq_dest_instance_id :: "int option"
  rq_dest_db :: "string option"
  rq_dest_table :: "string option"
  rq_batch_size :: int
  rq_sleep_ms :: int
  rq_apply_reason :: string
  rq_risk_remark :: string
  rq_flow_id :: "int option"

definition validate_archive_request :: "archive_request \<Rightarrow> archive_request res" where
  "validate_archive_request d =
     raise_if (rq_batch_size d < 1 \<or> rq_batch_size d > 10000) (field_constraint ''batch_size'')
     (raise_if (rq_sleep_ms d < 0 \<or> rq_sleep_ms d > 10000) (field_constraint ''sleep_ms'')
     (raise_if (length (rq_apply_reason d) > 500) (field_constraint ''apply_reason'')
     (raise_if (length (rq_risk_remark d) > 500) (field_constraint ''risk_remark'') (Inr d))))"

record estimate =
  es_count :: int
  es_supported :: bool
  es_msg :: string
  es_risk_plan :: "risk_plan option"

definition counted :: "db_instance \<Rightarrow> archive_request \<Rightarrow> int \<Rightarrow> estimate" where
  "counted inst d n =
     \<lparr> es_count = n, es_supported = True, es_msg = ''matching rows: '' @ py_str_int n,
       es_risk_plan = Some (build_archive_plan (in_db_type inst) (rq_archive_mode d) (rq_source_db d) (rq_source_table d)
          (rq_condition d) (rq_batch_size d) (Some n) (rq_dest_db d) (rq_dest_table d)) \<rparr>"

definition estimate_rows :: "archive_env \<Rightarrow> store \<Rightarrow> archive_request \<Rightarrow> estimate res" where
  "estimate_rows env s d =
     rbind (load_instance s (rq_source_instance_id d)) (\<lambda>inst.
     case check_support (in_db_type inst) ''purge'' of (supported, reason) \<Rightarrow>
       if \<not> supported then Inr \<lparr> es_count = - 1, es_supported = False, es_msg = reason, es_risk_plan = None \<rparr>
       else rbind (validate_condition env (in_db_type inst) (rq_source_table d) (rq_condition d)) (\<lambda>_.
         rbind (en_get_engine env inst) (\<lambda>engine.
           if in_db_type inst = ''mongo'' then
             rbind (lift_raised (ae_connect engine (rq_source_db d))) (\<lambda>_.
             rbind (lift_raised (ae_count engine (rq_source_db d) (rq_source_table d) (rq_condition d))) (\<lambda>n.
               Inr (counted inst d n)))
           else rbind (build_count_sql (in_db_type inst) (rq_source_table d) (rq_condition d)) (\<lambda>count_sql.
             rbind (lift_raised (ae_query engine 0 (rq_source_db d) count_sql 1)) (\<lambda>rs.
               if qs_error rs \<noteq> []
               then Inr \<lparr> es_count = - 1, es_supported = True, es_msg = ''estimation failed: '' @ qs_error rs, es_risk_plan = None \<rparr>
               else rbind (count_of (qs_rows rs)) (\<lambda>n. Inr (counted inst d n)))))))"

section \<open>Submission\<close>

text \<open>\<open>json.dumps(\<dots>, ensure_ascii=False, indent=2)\<close> of the values used here.\<close>

datatype json = JNull | JInt int | JStr string | JObj "(string \<times> json) list"

definition hex_digit :: "nat \<Rightarrow> char" where
  "hex_digit n = char_of (if n < 10 then 48 + n else 87 + n)"

definition json_char :: "char \<Rightarrow> string" where
  "json_char c =
     (let n = char_code c in
      if n = 34 \<or> n = 92 then [CHR 0x5C, c]
      else if n = 10 then CHR 0x5C # ''n'' else if n = 13 then CHR 0x5C # ''r'' else if n = 9 then CHR 0x5C # ''t''
      else if n = 8 then CHR 0x5C # ''b'' else if n = 12 then CHR 0x5C # ''f''
      else if n < 32 then CHR 0x5C # ''u00'' @ [hex_digit (n div 16), hex_digit (n mod 16)]
      else [c])"

definition json_string :: "string \<Rightarrow> string" where
  "json_string s = CHR 0x22 # concat (map json_char s) @ [CHR 0x22]"

fun json_dumps :: "nat \<Rightarrow> json \<Rightarrow> string" where
  "json_dumps k JNull = ''null''"
| "json_dumps k (JInt i) = py_str_int i"
| "json_dumps k (JStr s) = json_string s"
| "json_dumps k (JObj kvs) =
     (if kvs = [] then ''{}''
      else ''{'' @ newline # py_join ('','' @ [newline])
             (map (\<lambda>(key, v). replicate (2 * (k + 1)) (CHR '' '') @ json_string key @ '': '' @ json_dumps (k + 1) v) kvs)
           @ newline # replicate (2 * k) (CHR '' '') @ ''}'')"

definition opt_int_json :: "int option \<Rightarrow> json" where
  "opt_int_json i = (case i of None \<Rightarrow> JNull | Some n \<Rightarrow> JInt n)"

definition archive_content :: "archive_request \<Rightarrow> int \<Rightarrow> string" where
  "archive_content d estimated_rows =
     json_dumps 0 (JObj [
       (''archive_mode'', JStr (rq_archive_mode d)),
       (''source'', JObj [(''instance_id'', JInt (rq_source_instance_id d)), (''db'', JStr (rq_source_db d)),
          (''table'', JStr (rq_source_table d)), (''condition'', JStr (rq_condition d))]),
       (''dest'', if rq_archive_mode d = ''dest''
          then JObj [(''instance_id'', opt_int_json (rq_dest_instance_id d)),
             (''db'', JStr (or_opt (rq_dest_db d) (rq_source_db d))),
             (''table'', JStr (or_opt (rq_dest_table d) (rq_source_table d)))]
          else JNull),
       (''batch_size'', JInt (rq_batch_size d)), (''sleep_ms'', JInt (rq_sleep_ms d)),
       (''estimated_rows'', JInt estimated_rows), (''apply_reason'', JStr (rq_apply_reason d))])"

definition archive_review_node :: node where
  "archive_review_node = (legacy_node 1 ''archive review'')\<lparr>n_required_permission := Some ''archive_review''\<rparr>"

definition require_archive_review :: "node \<Rightarrow> node" where
  "require_archive_review n =
     (if n_approver_type n = ''any_reviewer'' then n\<lparr>n_required_permission := Some ''archive_review''\<rparr> else n)"

definition archive_chain :: "store \<Rightarrow> int option \<Rightarrow> operator \<Rightarrow> node list res" where
  "archive_chain s flow_id u =
     (if truthy_id flow_id then
        rbind (snapshot_for_workflow s (the flow_id)) (\<lambda>ns.
          Inr (map require_archive_review (decorate_snapshot_for_applicant ns u)))
      else Inr [archive_review_node])"

definition new_archive_workflow :: "int \<Rightarrow> archive_request \<Rightarrow> int \<Rightarrow> string \<Rightarrow> operator \<Rightarrow> time \<Rightarrow> workflow" where
  "new_archive_workflow i d gid gname u now =
     \<lparr> wf_id = i, wf_name = take 50 (''arch-'' @ rq_source_table d), wf_group_id = gid, wf_group_name = gname,
       wf_instance_id = rq_source_instance_id d, wf_db_name = rq_source_db d, wf_syntax_type = 2, wf_is_backup = True,
       wf_engineer = op_username u, wf_engineer_display = op_display_name u, wf_engineer_id = op_id u,
       wf_status = PENDING_REVIEW, wf_audit_auth_groups = py_str_int gid, wf_run_date_start = None,
       wf_run_date_end = None, wf_execute_mode = None, wf_scheduled_execute_at = None, wf_executed_by_id = None,
       wf_executed_by_name = None, wf_external_executed_at = None, wf_external_result_status = None,
       wf_external_result_remark = None, wf_finish_time = None, wf_flow_id = rq_flow_id d,
       wf_export_format = None, wf_created_at = now \<rparr>"

definition create_archive_workflow ::
    "store \<Rightarrow> archive_request \<Rightarrow> operator \<Rightarrow> int \<times> string \<Rightarrow> int \<Rightarrow> risk_plan \<Rightarrow> time \<Rightarrow> (workflow \<times> store) res" where
  "create_archive_workflow s d u rg estimated_rows plan now =
     rbind (archive_chain s (rq_flow_id d) u) (\<lambda>nodes_snapshot.
       let w = new_archive_workflow (st_next_id s) d (fst rg) (snd rg) u now;
           s1 = add_workflow w s;
           s2 = add_content \<lparr> wc_id = st_next_id s1, wc_workflow_id = wf_id w,
                  wc_sql_content = archive_content d estimated_rows, wc_review_content = [],
                  wc_execute_result = ResNone, wc_risk_plan = Some plan, wc_risk_remark = rq_risk_remark d \<rparr> s1;
           (a, s3) = create_audit s2 w WT_ARCHIVE u (Some nodes_snapshot) now
       in Inr (w, emit_submitted w WT_ARCHIVE a s3))"

definition new_job :: "int \<Rightarrow> int \<Rightarrow> archive_request \<Rightarrow> int \<Rightarrow> risk_plan \<Rightarrow> operator \<Rightarrow> time \<Rightarrow> archive_job" where
  "new_job i wid d estimated_rows plan u now =
     \<lparr> aj_id = i, aj_workflow_id = Some wid, aj_celery_task_id = [], aj_status = JOB_PENDING_REVIEW,
       aj_archive_mode = rq_archive_mode d, aj_source_instance_id = rq_source_instance_id d,
       aj_source_db = rq_source_db d, aj_source_table = rq_source_table d, aj_condition = rq_condition d,
       aj_dest_instance_id = rq_dest_instance_id d, aj_dest_db = or_opt (rq_dest_db d) (rq_source_db d),
       aj_dest_table = or_opt (rq_dest_table d) (rq_source_table d), aj_batch_size = rq_batch_size d,
       aj_sleep_ms = rq_sleep_ms d, aj_estimated_rows = estimated_rows, aj_processed_rows = 0, aj_current_batch = 0,
       aj_row_count_is_estimated = False, aj_apply_reason = rq_apply_reason d, aj_risk_plan = Some plan,
       aj_risk_remark = rq_risk_remark d, aj_error_message = None, aj_created_by = op_username u,
       aj_created_by_id = op_id u, aj_started_at = None, aj_finished_at = None, aj_created_at = now \<rparr>"

definition check_dest :: "store \<Rightarrow> archive_request \<Rightarrow> operator \<Rightarrow> unit res" where
  "check_dest s d u =
     (if rq_archive_mode d = ''dest'' then
        raise_if (\<not> truthy_id (rq_dest_instance_id d)) (archive_exc DestInstanceRequired 400)
        (rbind (load_instance s (the (rq_dest_instance_id d))) (\<lambda>dest_inst.
         rbind (assert_instance_scope dest_inst u) (\<lambda>_. Inr ())))
      else Inr ())"

definition submit_plan :: "db_instance \<Rightarrow> archive_request \<Rightarrow> int \<Rightarrow> risk_plan" where
  "submit_plan src_inst d n =
     build_archive_plan (in_db_type src_inst) (rq_archive_mode d) (rq_source_db d) (rq_source_table d) (rq_condition d)
       (rq_batch_size d) (Some n) (Some (or_opt (rq_dest_db d) (rq_source_db d)))
       (Some (or_opt (rq_dest_table d) (rq_source_table d)))"

definition submit_job :: "archive_env \<Rightarrow> store \<Rightarrow> archive_request \<Rightarrow> operator \<Rightarrow> time \<Rightarrow> (archive_job \<times> store) res" where
  "submit_job env s d u now =
     rbind (load_instance s (rq_source_instance_id d)) (\<lambda>src_inst.
     rbind (assert_instance_scope src_inst u) (\<lambda>rg.
     raise_if (\<not> fst (check_support (in_db_type src_inst) (rq_archive_mode d)))
       (archive_exc (ArchiveUnsupported (snd (check_support (in_db_type src_inst) (rq_archive_mode d)))) 400)
     (rbind (validate_condition env (in_db_type src_inst) (rq_source_table d) (rq_condition d)) (\<lambda>_.
      rbind (check_dest s d u) (\<lambda>_.
      rbind (estimate_rows env s d) (\<lambda>estimate.
      raise_if (es_count estimate < 0) (archive_exc (EstimateFailed (es_msg estimate)) 400)
      (let plan = submit_plan src_inst d (es_count estimate) in
       raise_if (rp_requires_manual_remark plan \<and> py_strip (rq_risk_remark d) = []) (app_exc (WorkflowMsg RiskRemarkRequired) 400)
       (rbind (create_archive_workflow s d u rg (es_count estimate) plan now) (\<lambda>(w, s1).
          let j = new_job (st_next_id s1) (wf_id w) d (es_count estimate) plan u now
          in Inr (j, add_job j s1))))))))))"

section \<open>Control\<close>

definition get_job_obj :: "store \<Rightarrow> int \<Rightarrow> archive_job res" where
  "get_job_obj s jid =
     (case get_job s jid of None \<Rightarrow> Inl (not_found_exc (ArchiveMsg (JobNotFound jid))) | Some j \<Rightarrow> Inr j)"

definition check_execute :: "store \<Rightarrow> archive_job \<Rightarrow> operator \<Rightarrow> unit res" where
  "check_execute s j u =
     rbind (load_instance s (aj_source_instance_id j)) (\<lambda>src_inst. assert_archive_execute_scope src_inst u)"

definition set_status :: "archive_status \<Rightarrow> archive_job \<Rightarrow> store \<Rightarrow> (archive_job \<times> store) res" where
  "set_status st j s = (let j1 = j\<lparr>aj_status := st\<rparr> in Inr (j1, put_job j1 s))"

text \<open>The workflow of a job that is cancelled before it runs.\<close>

definition abort_workflow :: "archive_job \<Rightarrow> store \<Rightarrow> store" where
  "abort_workflow j s =
     (if truthy_id (aj_workflow_id j)
      then (case get_workflow s (the (aj_workflow_id j)) of
              None \<Rightarrow> s
            | Some w \<Rightarrow> if wf_status w \<in> {PENDING_REVIEW, REVIEW_PASS, TIMING_TASK, QUEUING}
                        then put_workflow (w\<lparr>wf_status := ABORT\<rparr>) s else s)
      else s)"

definition cancel_job :: "store \<Rightarrow> archive_job \<Rightarrow> operator \<Rightarrow> time \<Rightarrow> (archive_job \<times> store) res" where
  "cancel_job s j u now =
     (if aj_status j = JOB_PENDING_REVIEW then
        (if \<not> truthy_id (aj_workflow_id j) then
           raise_if (op_id u \<noteq> aj_created_by_id j \<and> \<not> op_is_superuser u) (archive_exc JobCancelNotOwner 403)
           (let j1 = j\<lparr>aj_status := JOB_CANCELED, aj_finished_at := Some now\<rparr> in Inr (j1, put_job j1 s))
         else rbind (operate s (the (aj_workflow_id j)) OP_CANCEL u ''cancelled by the applicant or a superuser'' now) (\<lambda>(m, st, s1).
           Inr (case get_job s1 (aj_id j) of None \<Rightarrow> j | Some j1 \<Rightarrow> j1, s1)))
      else if aj_status j \<in> {JOB_APPROVED, JOB_SCHEDULED, JOB_QUEUED, JOB_RUNNING, JOB_PAUSING, JOB_PAUSED} then
        rbind (check_execute s j u) (\<lambda>_.
          if aj_status j \<in> {JOB_RUNNING, JOB_PAUSING}
          then (let j1 = j\<lparr>aj_status := JOB_CANCELING, aj_finished_at := None\<rparr> in Inr (j1, put_job j1 s))
          else (let j1 = j\<lparr>aj_status := JOB_CANCELED, aj_finished_at := Some now\<rparr>
                in Inr (j1, abort_workflow j1 (put_job j1 s))))
      else Inl (archive_exc JobCancelNotAllowed 400))"

definition set_job_control_state ::
    "store \<Rightarrow> int \<Rightarrow> string \<Rightarrow> operator \<Rightarrow> time \<Rightarrow> (archive_job \<times> store) res" where
  "set_job_control_state s jid action u now =
     rbind (get_job_obj s jid) (\<lambda>j.
       if action = ''pause'' then rbind (check_execute s j u) (\<lambda>_.
         raise_if (aj_status j \<notin> {JOB_QUEUED, JOB_RUNNING}) (archive_exc PauseNotAllowed 400) (set_status JOB_PAUSING j s))
       else if action = ''resume'' then rbind (check_execute s j u) (\<lambda>_.
         raise_if (aj_status j \<noteq> JOB_PAUSED) (archive_exc ResumeNotAllowed 400) (set_status JOB_QUEUED j s))
       else if action = ''cancel'' then cancel_job s j u now
       else Inl (app_exc (AuditMsg (UnsupportedAction action)) 400))"

section \<open>Views\<close>

definition visible_workflow_ids :: "store \<Rightarrow> operator \<Rightarrow> int list res" where
  "visible_workflow_ids s u =
     rbind (get_pending_workflow_ids_for_user s u) (\<lambda>pending. Inr (pending @ get_audited_workflow_ids_for_user s u))"

definition sees_all_jobs :: "operator \<Rightarrow> bool" where
  "sees_all_jobs u \<longleftrightarrow> op_is_superuser u \<or> has_perm u ''archive_review'' \<or> has_perm u ''archive_execute''"

definition can_view_job :: "store \<Rightarrow> archive_job \<Rightarrow> operator \<Rightarrow> bool res" where
  "can_view_job s j u =
     (if sees_all_jobs u \<or> op_id u = aj_created_by_id j then Inr True
      else if \<not> truthy_id (aj_workflow_id j) then Inr False
      else rbind (visible_workflow_ids s u) (\<lambda>ids. Inr (the (aj_workflow_id j) \<in> set ids)))"

definition flag_of :: "unit res \<Rightarrow> bool res" where
  "flag_of r = (case r of Inr _ \<Rightarrow> Inr True | Inl e \<Rightarrow> if is_app_exc e then Inr False else Inl e)"

definition can_audit_job :: "store \<Rightarrow> archive_job \<Rightarrow> operator \<Rightarrow> bool res" where
  "can_audit_job s j u =
     (if \<not> truthy_id (aj_workflow_id j) then Inr False
      else (case get_workflow s (the (aj_workflow_id j)) of
              None \<Rightarrow> Inr False
            | Some w \<Rightarrow> if wf_status w \<noteq> PENDING_REVIEW then Inr False
                else rbind (get_audit_info s (the (aj_workflow_id j))) (\<lambda>info.
                  case (case info of None \<Rightarrow> None | Some i \<Rightarrow> current_pending (ai_nodes i)) of
                    None \<Rightarrow> Inr False
                  | Some n \<Rightarrow> flag_of (check_approver_permission s u n))))"

definition can_execute_job :: "store \<Rightarrow> archive_job \<Rightarrow> operator \<Rightarrow> bool res" where
  "can_execute_job s j u =
     (if aj_status j \<notin> {JOB_APPROVED, JOB_PAUSED, JOB_SCHEDULED} then Inr False else flag_of (check_execute s j u))"

definition can_control_job :: "store \<Rightarrow> archive_job \<Rightarrow> operator \<Rightarrow> bool res" where
  "can_control_job s j u =
     (if aj_status j \<notin> {JOB_APPROVED, JOB_SCHEDULED, JOB_QUEUED, JOB_RUNNING, JOB_PAUSING, JOB_PAUSED}
      then Inr False else flag_of (check_execute s j u))"

definition can_cancel_application :: "store \<Rightarrow> archive_job \<Rightarrow> operator \<Rightarrow> bool res" where
  "can_cancel_application s j u =
     (if aj_status j \<noteq> JOB_PENDING_REVIEW then Inr False
      else if \<not> truthy_id (aj_workflow_id j) then Inr (op_is_superuser u \<or> op_id u = aj_created_by_id j)
      else (case get_workflow s (the (aj_workflow_id j)) of
              None \<Rightarrow> Inr False
            | Some w \<Rightarrow> rbind (find_audit s (the (aj_workflow_id j))) (\<lambda>ao.
                Inr (can_cancel_before_approval None (Some (wf_engineer w)) u (wf_status w) PENDING_REVIEW
                       (load_nodes (case ao of None \<Rightarrow> NodesEmpty | Some a \<Rightarrow> wa_nodes a))))))"

record job_item =
  ji_job :: archive_job
  ji_created_by_display :: string
  ji_can_cancel :: bool
  ji_can_audit :: bool
  ji_can_execute :: bool
  ji_can_control :: bool

text \<open>\<open>fmt_job\<close> with its flags; \<open>creator_display\<close> as both callers compute it.\<close>

definition creator_display :: "store \<Rightarrow> archive_job \<Rightarrow> string" where
  "creator_display s j =
     or_str (if aj_created_by_id j = 0 then [] else
        (case get_user s (aj_created_by_id j) of None \<Rightarrow> [] | Some r \<Rightarrow> or_str (us_display_name r) (us_username r)))
       (aj_created_by j)"

definition fmt_job :: "store \<Rightarrow> operator \<Rightarrow> archive_job \<Rightarrow> job_item res" where
  "fmt_job s u j =
     rbind (can_cancel_application s j u) (\<lambda>cancel.
     rbind (can_audit_job s j u) (\<lambda>audit.
     rbind (can_execute_job s j u) (\<lambda>exec.
     rbind (can_control_job s j u) (\<lambda>control.
       Inr \<lparr> ji_job = j, ji_created_by_display = creator_display s j, ji_can_cancel = cancel,
             ji_can_audit = audit, ji_can_execute = exec, ji_can_control = control \<rparr>))))"

fun fmt_jobs :: "store \<Rightarrow> operator \<Rightarrow> archive_job list \<Rightarrow> job_item list res" where
  "fmt_jobs s u [] = Inr []"
| "fmt_jobs s u (j # js) = rbind (fmt_job s u j) (\<lambda>i. rbind (fmt_jobs s u js) (\<lambda>is. Inr (i # is)))"

definition get_job_detail :: "store \<Rightarrow> int \<Rightarrow> operator \<Rightarrow> (job_item \<times> archive_batch list) res" where
  "get_job_detail s jid u =
     rbind (get_job_obj s jid) (\<lambda>j.
     rbind (can_view_job s j u) (\<lambda>ok.
     raise_if (\<not> ok) (app_exc NoPermission 403)
     (rbind (fmt_job s u j) (\<lambda>item.
       Inr (item, sort_key ab_batch_no (filter (\<lambda>b. ab_job_id b = jid) (st_batches s)))))))"

definition visible_jobs :: "store \<Rightarrow> operator \<Rightarrow> archive_job list res" where
  "visible_jobs s u =
     (if sees_all_jobs u then Inr (st_jobs s)
      else rbind (visible_workflow_ids s u) (\<lambda>ids.
        Inr (filter (\<lambda>j. aj_created_by_id j = op_id u \<or> col_in (aj_workflow_id j) ids) (st_jobs s))))"

definition list_jobs :: "store \<Rightarrow> operator \<Rightarrow> nat \<Rightarrow> nat \<Rightarrow> (nat \<times> job_item list) res" where
  "list_jobs s u page page_size =
     rbind (visible_jobs s u) (\<lambda>rows.
     rbind (fmt_jobs s u (page_of page page_size (sort_key (\<lambda>j. - aj_created_at j) rows))) (\<lambda>items.
       Inr (length rows, items)))"

end
