(* ===== verification/Archive_Worker.thy ===== *)
theory Archive_Worker
  imports Archive_Service
begin

text \<open>
  The execution of archive jobs: the batch loops of \<^verbatim>\<open>app/services/archive.py\<close>, the
  decision to start a job, the dispatcher and the Celery entry points of
  \<^verbatim>\<open>app/tasks/archive.py\<close>. A loop is \<open>run_rounds\<close> of its round with the code's bound of
  10000 rounds as fuel. \<open>controls i\<close> are the control requests of other sessions that are
  handled while round \<open>i\<close> waits for its engine; the round sees them when it refreshes the
  job. Waiting between rounds is left out.
\<close>

section \<open>Rounds\<close>

datatype round = Stop store | Go store | Fail exc store

datatype loop_end = Ended store | Failed exc store | Exhausted store

fun run_rounds :: "(nat \<Rightarrow> store \<Rightarrow> round) \<Rightarrow> nat \<Rightarrow> nat \<Rightarrow> store \<Rightarrow> loop_end" where
  "run_rounds step 0 i s = Exhausted s"
| "run_rounds step (Suc fuel) i s =
     (case step i s of
        Stop s1 \<Rightarrow> Ended s1
      | Fail e s1 \<Rightarrow> Failed e s1
      | Go s1 \<Rightarrow> run_rounds step fuel (Suc i) s1)"

definition MAX_ROUNDS :: nat where "MAX_ROUNDS = 10000"

type_synonym controls = "nat \<Rightarrow> (string \<times> operator) list"

fun apply_controls :: "int \<Rightarrow> time \<Rightarrow> (string \<times> operator) list \<Rightarrow> store \<Rightarrow> store" where
  "apply_controls jid now [] s = s"
| "apply_controls jid now ((action, u) # rs) s =
     apply_controls jid now rs (case set_job_control_state s jid action u now of Inl e \<Rightarrow> s | Inr (j, s1) \<Rightarrow> s1)"

text \<open>The worker's changes to its job, flushed to the row.\<close>

definition update_job :: "int \<Rightarrow> (archive_job \<Rightarrow> archive_job) \<Rightarrow> store \<Rightarrow> store" where
  "update_job jid f s = (case get_job s jid of None \<Rightarrow> s | Some j \<Rightarrow> put_job (f j) s)"

definition log_batch ::
    "int \<Rightarrow> int \<Rightarrow> batch_status \<Rightarrow> int \<Rightarrow> int \<Rightarrow> int \<Rightarrow> msg option \<Rightarrow> time \<Rightarrow> store \<Rightarrow> store" where
  "log_batch jid batch_no st selected inserted deleted message now s =
     add_batch \<lparr> ab_id = st_next_id s, ab_job_id = jid, ab_batch_no = batch_no, ab_status = st,
       ab_selected_rows = selected, ab_inserted_rows = inserted, ab_deleted_rows = deleted,
       ab_message = message, ab_started_at = Some now, ab_finished_at = Some now \<rparr> s"

definition succeed :: "time \<Rightarrow> archive_job \<Rightarrow> archive_job" where
  "succeed now j = j\<lparr>aj_status := JOB_SUCCESS, aj_finished_at := Some now\<rparr>"

definition count_batch :: "int \<Rightarrow> int \<Rightarrow> bool \<Rightarrow> archive_job \<Rightarrow> archive_job" where
  "count_batch batch_no deleted estimated j =
     j\<lparr>aj_current_batch := batch_no, aj_processed_rows := aj_processed_rows j + deleted,
       aj_row_count_is_estimated := aj_row_count_is_estimated j \<or> estimated\<rparr>"

definition post_batch_control :: "int \<Rightarrow> time \<Rightarrow> store \<Rightarrow> bool \<times> store" where
  "post_batch_control jid now s =
     (case get_job s jid of
        None \<Rightarrow> (True, s)
      | Some j \<Rightarrow>
          if aj_status j = JOB_PAUSING then (False, put_job (j\<lparr>aj_status := JOB_PAUSED\<rparr>) s)
          else if aj_status j = JOB_CANCELING
          then (False, put_job (j\<lparr>aj_status := JOB_CANCELED, aj_finished_at := Some now\<rparr>) s)
          else (True, s))"

text \<open>The end of a successful round: the job is done, or the control requests decide.\<close>

definition after_batch :: "int \<Rightarrow> time \<Rightarrow> bool \<Rightarrow> store \<Rightarrow> round" where
  "after_batch jid now finished s =
     (if finished then Stop (update_job jid (succeed now) s)
      else (case post_batch_control jid now s of (go, s1) \<Rightarrow> if go then Go s1 else Stop s1))"

section \<open>Purge\<close>

text \<open>
  The in-memory job of a round is the row at its start; other sessions only change the
  status meanwhile, so the counters are the same in \<open>s\<close> and in \<open>s0\<close>.
\<close>

definition purge_round ::
    "arch_engine \<Rightarrow> string \<Rightarrow> int \<Rightarrow> controls \<Rightarrow> time \<Rightarrow> nat \<Rightarrow> store \<Rightarrow> round" where
  "purge_round engine delete_sql jid controls now i s =
     (case get_job s jid of
        None \<Rightarrow> Stop s
      | Some j \<Rightarrow>
          let batch_no = aj_current_batch j + 1; s0 = apply_controls jid now (controls i) s in
          case ae_execute engine i (aj_source_db j) delete_sql of
            Inl t \<Rightarrow> Fail (RawException (EngineRaised t)) s0
          | Inr rs \<Rightarrow>
              if rs_error rs \<noteq> []
              then Fail (archive_exc (BatchFailed batch_no (rs_error rs)) 500)
                     (log_batch jid batch_no BATCH_FAILED 0 0 0 (Some (TextMsg (rs_error rs))) now s0)
              else (case review_affected_rows rs (min (aj_batch_size j) (max (aj_estimated_rows j - aj_processed_rows j) 0)) of
                 (deleted, estimated) \<Rightarrow>
                   after_batch jid now
                     (deleted \<le> 0 \<or> deleted < aj_batch_size j \<or> aj_processed_rows j + deleted \<ge> aj_estimated_rows j)
                     (log_batch jid batch_no BATCH_SUCCESS deleted 0 deleted None now
                        (update_job jid (count_batch batch_no deleted estimated) s0))))"

definition purge_mongo_round :: "arch_engine \<Rightarrow> int \<Rightarrow> controls \<Rightarrow> time \<Rightarrow> nat \<Rightarrow> store \<Rightarrow> round" where
  "purge_mongo_round engine jid controls now i s =
     (case get_job s jid of
        None \<Rightarrow> Stop s
      | Some j \<Rightarrow>
          let batch_no = aj_current_batch j + 1; s0 = apply_controls jid now (controls i) s in
          case ae_find engine i (aj_source_db j) (aj_source_table j) (aj_condition j) (aj_batch_size j) of
            Inl t \<Rightarrow> Fail (RawException (EngineRaised t)) s0
          | Inr ids \<Rightarrow>
              if ids = [] then Stop (update_job jid (succeed now) s0)
              else (case ae_delete_many engine i (aj_source_db j) (aj_source_table j) ids of
                 Inl t \<Rightarrow> Fail (RawException (EngineRaised t)) s0
               | Inr deleted \<Rightarrow>
                   after_batch jid now (deleted < aj_batch_size j)
                     (log_batch jid batch_no BATCH_SUCCESS (int (length ids)) 0 deleted None now
                        (update_job jid (count_batch batch_no deleted False) s0))))"

definition single_delete :: "arch_engine \<Rightarrow> string \<Rightarrow> int \<Rightarrow> controls \<Rightarrow> time \<Rightarrow> store \<Rightarrow> loop_end" where
  "single_delete engine sql jid controls now s =
     (case get_job s jid of
        None \<Rightarrow> Ended s
      | Some j \<Rightarrow>
          let s0 = apply_controls jid now (controls 0) s in
          case ae_execute engine 0 (aj_source_db j) sql of
            Inl t \<Rightarrow> Failed (RawException (EngineRaised t)) s0
          | Inr rs \<Rightarrow>
              if rs_error rs \<noteq> []
              then Failed (app_exc (TextMsg (rs_error rs)) 500)
                     (log_batch jid (aj_current_batch j + 1) BATCH_FAILED 0 0 0 (Some (TextMsg (rs_error rs))) now s0)
              else (case review_affected_rows rs (aj_estimated_rows j) of
                 (affected, estimated) \<Rightarrow>
                   Ended (log_batch jid (aj_current_batch j + 1) BATCH_SUCCESS affected 0 affected None now
                     (update_job jid (\<lambda>j. succeed now (count_batch (aj_current_batch j + 1) affected estimated j)) s0))))"

text \<open>An exception before the loop leaves the store alone.\<close>

definition loop_or_fail :: "store \<Rightarrow> 'a res \<Rightarrow> ('a \<Rightarrow> loop_end) \<Rightarrow> loop_end" where
  "loop_or_fail s r f = (case r of Inl e \<Rightarrow> Failed e s | Inr x \<Rightarrow> f x)"

text \<open>Only the SQL purge raises when its rounds are used up; the other loops just end.\<close>

definition raise_exhausted :: "loop_end \<Rightarrow> loop_end" where
  "raise_exhausted r = (case r of Exhausted s \<Rightarrow> Failed (archive_exc TooManyBatches 500) s | _ \<Rightarrow> r)"

definition end_exhausted :: "loop_end \<Rightarrow> loop_end" where
  "end_exhausted r = (case r of Exhausted s \<Rightarrow> Ended s | _ \<Rightarrow> r)"

definition execute_purge_job :: "archive_env \<Rightarrow> store \<Rightarrow> archive_job \<Rightarrow> controls \<Rightarrow> time \<Rightarrow> loop_end" where
  "execute_purge_job env s j controls now =
     loop_or_fail s (load_instance s (aj_source_instance_id j)) (\<lambda>inst.
     loop_or_fail s (validate_condition env (in_db_type inst) (aj_source_table j) (aj_condition j)) (\<lambda>_.
     loop_or_fail s (en_get_engine env inst) (\<lambda>engine.
       if in_db_type inst = ''mongo'' then
         loop_or_fail s (lift_raised (ae_connect engine (aj_source_db j))) (\<lambda>_.
           end_exhausted (run_rounds (purge_mongo_round engine (aj_id j) controls now) MAX_ROUNDS 0 s))
       else loop_or_fail s (build_batch_delete_sql (in_db_type inst) (aj_source_table j) (aj_condition j) (aj_batch_size j)) (\<lambda>sql.
         if in_db_type inst \<in> {''clickhouse'', ''starrocks'', ''doris''}
         then single_delete engine sql (aj_id j) controls now s
         else raise_exhausted (run_rounds (purge_round engine sql (aj_id j) controls now) MAX_ROUNDS 0 s)))))"

section \<open>Migration\<close>

definition dest_round ::
    "arch_engine \<Rightarrow> arch_engine \<Rightarrow> string \<Rightarrow> string \<times> string \<Rightarrow> int \<Rightarrow> controls \<Rightarrow> time \<Rightarrow> nat \<Rightarrow> store \<Rightarrow> round" where
  "dest_round src_engine dest_engine dest_type sqls jid controls now i s =
     (case get_job s jid of
        None \<Rightarrow> Stop s
      | Some j \<Rightarrow>
          let batch_no = aj_current_batch j + 1; s0 = apply_controls jid now (controls i) s;
              failed = (\<lambda>sel ins m. log_batch jid batch_no BATCH_FAILED sel ins 0 (Some m) now s0) in
          case ae_query src_engine i (aj_source_db j) (fst sqls) (aj_batch_size j) of
            Inl t \<Rightarrow> Fail (RawException (EngineRaised t)) s0
          | Inr rs \<Rightarrow>
              let n = int (length (qs_rows rs)) in
              if qs_error rs \<noteq> [] then Fail (app_exc (TextMsg (qs_error rs)) 500) (failed 0 0 (TextMsg (qs_error rs)))
              else if qs_rows rs = [] then Stop (update_job jid (succeed now) s0)
              else (case build_insert_sql dest_type (aj_dest_table j) (qs_column_list rs) (qs_rows rs) of
                 Inl e \<Rightarrow> Fail e s0
               | Inr insert_sql \<Rightarrow>
                   (case ae_execute dest_engine i (aj_dest_db j) insert_sql of
                      Inl t \<Rightarrow> Fail (RawException (EngineRaised t)) s0
                    | Inr insert_rs \<Rightarrow>
                        if rs_error insert_rs \<noteq> []
                        then Fail (archive_exc (InsertFailed batch_no (rs_error insert_rs)) 500)
                               (failed n 0 (TextMsg (rs_error insert_rs)))
                        else (case ae_execute src_engine i (aj_source_db j) (snd sqls) of
                           Inl t \<Rightarrow> Fail (RawException (EngineRaised t)) s0
                         | Inr del_rs \<Rightarrow>
                             if rs_error del_rs \<noteq> []
                             then Fail (archive_exc (SourceDeleteFailed batch_no (rs_error del_rs)) 500)
                                    (failed n n (ArchiveMsg (SourceDeleteFailed batch_no (rs_error del_rs))))
                             else (case review_affected_rows del_rs n of
                                (deleted, estimated) \<Rightarrow>
                                  after_batch jid now (n < aj_batch_size j)
                                    (log_batch jid batch_no BATCH_SUCCESS n n deleted None now
                                       (update_job jid (count_batch batch_no deleted estimated) s0)))))))"

definition dest_mongo_round ::
    "arch_engine \<Rightarrow> arch_engine \<Rightarrow> int \<Rightarrow> controls \<Rightarrow> time \<Rightarrow> nat \<Rightarrow> store \<Rightarrow> round" where
  "dest_mongo_round src_engine dest_engine jid controls now i s =
     (case get_job s jid of
        None \<Rightarrow> Stop s
      | Some j \<Rightarrow>
          let batch_no = aj_current_batch j + 1; s0 = apply_controls jid now (controls i) s in
          case ae_find src_engine i (aj_source_db j) (aj_source_table j) (aj_condition j) (aj_batch_size j) of
            Inl t \<Rightarrow> Fail (RawException (EngineRaised t)) s0
          | Inr docs \<Rightarrow>
              let n = int (length docs) in
              if docs = [] then Stop (update_job jid (succeed now) s0)
              else (case ae_insert_many dest_engine i (aj_dest_db j) (aj_dest_table j) docs of
                 Inl t \<Rightarrow> Fail (RawException (EngineRaised t)) s0
               | Inr _ \<Rightarrow>
                   (case ae_delete_many src_engine i (aj_source_db j) (aj_source_table j) docs of
                      Inl t \<Rightarrow> Fail (RawException (EngineRaised t)) s0
                    | Inr deleted \<Rightarrow>
                        if deleted \<noteq> n
                        then Fail (archive_exc (PartialDelete batch_no n deleted) 500)
                               (log_batch jid batch_no BATCH_FAILED n n deleted (Some (ArchiveMsg (PartialDelete batch_no n deleted))) now s0)
                        else after_batch jid now (n < aj_batch_size j)
                               (log_batch jid batch_no BATCH_SUCCESS n n deleted None now
                                  (update_job jid (count_batch batch_no deleted False) s0)))))"

definition execute_dest_job :: "archive_env \<Rightarrow> store \<Rightarrow> archive_job \<Rightarrow> controls \<Rightarrow> time \<Rightarrow> loop_end" where
  "execute_dest_job env s j controls now =
     loop_or_fail s (load_instance s (aj_source_instance_id j)) (\<lambda>src_inst.
     loop_or_fail s (load_instance s (case aj_dest_instance_id j of None \<Rightarrow> 0 | Some i \<Rightarrow> i)) (\<lambda>dest_inst.
     loop_or_fail s (validate_condition env (in_db_type src_inst) (aj_source_table j) (aj_condition j)) (\<lambda>_.
       if in_db_type src_inst = ''mongo'' then
         loop_or_fail s (en_get_engine env src_inst) (\<lambda>src_engine.
         loop_or_fail s (en_get_engine env dest_inst) (\<lambda>dest_engine.
         loop_or_fail s (lift_raised (ae_connect src_engine (aj_source_db j))) (\<lambda>_.
         loop_or_fail s (lift_raised (ae_connect dest_engine (aj_dest_db j))) (\<lambda>_.
           end_exhausted (run_rounds (dest_mongo_round src_engine dest_engine (aj_id j) controls now) MAX_ROUNDS 0 s)))))
       else if in_db_type src_inst \<notin> {''mysql'', ''tidb'', ''pgsql'', ''oracle'', ''mssql''}
       then Failed (archive_exc (DestUnsupported (in_db_type src_inst)) 400) s
       else
         loop_or_fail s (en_get_engine env src_inst) (\<lambda>src_engine.
         loop_or_fail s (en_get_engine env dest_inst) (\<lambda>dest_engine.
         loop_or_fail s (build_dest_batch_sql (in_db_type src_inst) (aj_source_table j) (aj_condition j) (aj_batch_size j)) (\<lambda>sqls.
           end_exhausted (run_rounds (dest_round src_engine dest_engine (in_db_type dest_inst) sqls (aj_id j) controls now)
             MAX_ROUNDS 0 s)))))))"

section \<open>A run of the worker\<close>

definition sync_workflow_execution_result :: "archive_job \<Rightarrow> store \<Rightarrow> store" where
  "sync_workflow_execution_result j s =
     (if \<not> truthy_id (aj_workflow_id j) then s
      else (case get_workflow s (the (aj_workflow_id j)) of
              None \<Rightarrow> s
            | Some w \<Rightarrow>
                set_execute_result (wf_id w)
                  (ResArchive (or_opt (wf_execute_mode w) ''immediate'') (aj_status j = JOB_SUCCESS) (aj_status j)
                     (aj_processed_rows j) (aj_current_batch j) (aj_error_message j))
                  (put_workflow (w\<lparr>wf_status := (if aj_status j = JOB_SUCCESS then FINISH
                       else if aj_status j = JOB_CANCELED then ABORT else EXCEPTION),
                     wf_finish_time := aj_finished_at j\<rparr>) s)))"

definition job_event :: "string \<Rightarrow> archive_job \<Rightarrow> int \<Rightarrow> notify_event" where
  "job_event ty j operator_id =
     \<lparr> ev_type = ty, ev_subject_type = ''workflow'',
       ev_subject_id = (if truthy_id (aj_workflow_id j) then the (aj_workflow_id j) else aj_id j),
       ev_app_type = WT_ARCHIVE, ev_node = None, ev_user_ids = [aj_created_by_id j, operator_id],
       ev_permission = None, ev_exclude = [] \<rparr>"

definition exc_message :: "exc \<Rightarrow> msg" where
  "exc_message e =
     (case e of AppException m c d \<Rightarrow> m
      | RawException r \<Rightarrow> TextMsg (case r of EngineRaised t \<Rightarrow> t | _ \<Rightarrow> ''error''))"

definition mark_running :: "archive_job \<Rightarrow> time \<Rightarrow> store \<Rightarrow> store" where
  "mark_running j now s =
     (let j1 = j\<lparr>aj_status := JOB_RUNNING,
                aj_started_at := Some (case aj_started_at j of None \<Rightarrow> now | Some t \<Rightarrow> t)\<rparr>;
          s1 = put_job j1 s in
      if truthy_id (aj_workflow_id j)
      then (case get_workflow s1 (the (aj_workflow_id j)) of None \<Rightarrow> s1 | Some w \<Rightarrow> put_workflow (w\<lparr>wf_status := EXECUTING\<rparr>) s1)
      else s1)"

definition fail_job :: "exc \<Rightarrow> time \<Rightarrow> archive_job \<Rightarrow> archive_job" where
  "fail_job e now j = j\<lparr>aj_status := JOB_FAILED, aj_error_message := Some (exc_message e), aj_finished_at := Some now\<rparr>"

definition finish_job :: "int \<Rightarrow> int \<Rightarrow> store \<Rightarrow> store" where
  "finish_job jid operator_id s =
     (case get_job s jid of
        None \<Rightarrow> s
      | Some j \<Rightarrow>
          if aj_status j \<in> {JOB_SUCCESS, JOB_FAILED, JOB_CANCELED}
          then emit (job_event (if aj_status j = JOB_SUCCESS then ''execution_succeeded'' else ''execution_failed'') j operator_id)
                 (sync_workflow_execution_result j s)
          else s)"

definition run_job :: "archive_env \<Rightarrow> store \<Rightarrow> archive_job \<Rightarrow> controls \<Rightarrow> time \<Rightarrow> store" where
  "run_job env s j controls now =
     (case (if aj_archive_mode j = ''purge'' then execute_purge_job env s j controls now
            else execute_dest_job env s j controls now) of
        Ended s1 \<Rightarrow> s1
      | Failed e s1 \<Rightarrow> update_job (aj_id j) (fail_job e now) s1
      | Exhausted s1 \<Rightarrow> s1)"

definition execute_job :: "archive_env \<Rightarrow> store \<Rightarrow> int \<Rightarrow> int \<Rightarrow> controls \<Rightarrow> time \<Rightarrow> unit outcome" where
  "execute_job env s jid operator_id controls now =
     (case get_job_obj s jid of
        Inl e \<Rightarrow> (Inl e, s)
      | Inr j \<Rightarrow>
          if aj_status j \<notin> {JOB_QUEUED, JOB_PAUSED} then (Inr (), s)
          else (Inr (), finish_job jid operator_id
                  (run_job env (emit (job_event ''execution_started'' j operator_id) (mark_running j now s)) j controls now)))"

section \<open>The decision to start\<close>

record decision =
  de_mode :: string
  de_status :: workflow_status
  de_scheduled_at :: "time option"
  de_external_at :: "time option"
  de_external_status :: "string option"
  de_external_remark :: "string option"

definition sync_workflow_execution_decision :: "archive_job \<Rightarrow> operator \<Rightarrow> decision \<Rightarrow> store \<Rightarrow> store" where
  "sync_workflow_execution_decision j u d s =
     (if \<not> truthy_id (aj_workflow_id j) then s
      else (case get_workflow s (the (aj_workflow_id j)) of
              None \<Rightarrow> s
            | Some w \<Rightarrow>
                let w1 = w\<lparr>wf_execute_mode := Some (de_mode d), wf_executed_by_id := Some (op_id u),
                           wf_executed_by_name := Some (operator_display u),
                           wf_scheduled_execute_at := de_scheduled_at d, wf_external_executed_at := de_external_at d,
                           wf_external_result_status := de_external_status d,
                           wf_external_result_remark := de_external_remark d, wf_status := de_status d,
                           wf_finish_time := (case de_external_at d of None \<Rightarrow> wf_finish_time w | Some t \<Rightarrow> Some t)\<rparr>;
                    s1 = put_workflow w1 s
                in if de_mode d = ''external''
                   then set_execute_result (wf_id w)
                          (ResExternal (de_external_status d = Some ''success'') (the (de_external_status d))
                             (the (de_external_at d)) (operator_display u) (the (de_external_remark d))) s1
                   else s1))"

definition write_job_log :: "store \<Rightarrow> archive_job \<Rightarrow> operator \<Rightarrow> string \<Rightarrow> string \<Rightarrow> time \<Rightarrow> store res" where
  "write_job_log s j u operation_type remark now =
     (if \<not> truthy_id (aj_workflow_id j) then Inr s
      else write_execution_log s (the (aj_workflow_id j)) u operation_type remark now)"

datatype start_reply =
    JobQueuedReply int archive_status | JobScheduledReply int archive_status time | JobExternalReply int archive_status

definition decide :: "store \<Rightarrow> archive_job \<Rightarrow> operator \<Rightarrow> decision \<Rightarrow> string \<Rightarrow> string \<Rightarrow> time \<Rightarrow> store res" where
  "decide s j u d operation_type remark now =
     write_job_log (sync_workflow_execution_decision j u d (put_job j s)) j u operation_type remark now"

text \<open>\<open>task\<close> is the id \<open>delay\<close> returns, \<open>None\<close> when it raises; then the job runs here.\<close>

definition start_job_immediately ::
    "archive_env \<Rightarrow> store \<Rightarrow> archive_job \<Rightarrow> operator \<Rightarrow> string option \<Rightarrow> controls \<Rightarrow> time \<Rightarrow> start_reply outcome" where
  "start_job_immediately env s j u task controls now =
     (let j1 = j\<lparr>aj_status := JOB_QUEUED, aj_finished_at := None\<rparr> in
      case decide s j1 u \<lparr> de_mode = ''immediate'', de_status = QUEUING, de_scheduled_at = None, de_external_at = None,
                           de_external_status = None, de_external_remark = None \<rparr>
             OP_EXECUTE ''queued for platform execution'' now of
        Inl e \<Rightarrow> (Inl e, s)
      | Inr s1 \<Rightarrow>
          (case task of
             Some t \<Rightarrow> (Inr (JobQueuedReply (aj_id j) JOB_QUEUED),
                put_job (j1\<lparr>aj_celery_task_id := t\<rparr>) (deliver (ExecuteArchiveJob (aj_id j) (op_id u)) s1))
           | None \<Rightarrow>
               (case execute_job env s1 (aj_id j) (op_id u) controls now of
                  (Inl e, s2) \<Rightarrow> (Inl e, s2)
                | (Inr _, s2) \<Rightarrow> (Inr (JobQueuedReply (aj_id j)
                     (case get_job s2 (aj_id j) of None \<Rightarrow> JOB_QUEUED | Some j2 \<Rightarrow> aj_status j2)), s2))))"

definition schedule_job :: "store \<Rightarrow> archive_job \<Rightarrow> operator \<Rightarrow> execute_request \<Rightarrow> time \<Rightarrow> (start_reply \<times> store) res" where
  "schedule_job s j u d now =
     (case (case ex_scheduled_at d of Some t \<Rightarrow> Some t | None \<Rightarrow> ex_timing_time d) of
        None \<Rightarrow> Inl (app_exc (WorkflowMsg ScheduleTimeMissing) 400)
      | Some t \<Rightarrow>
          let scheduled_at = ensure_aware_utc t in
          raise_if (scheduled_at \<le> now) (app_exc (WorkflowMsg ScheduleTimePast) 400)
          (let j1 = j\<lparr>aj_status := JOB_SCHEDULED, aj_finished_at := None\<rparr> in
           rbind (decide s j1 u \<lparr> de_mode = ''scheduled'', de_status = TIMING_TASK, de_scheduled_at = Some scheduled_at,
                      de_external_at = None, de_external_status = None, de_external_remark = None \<rparr>
                    OP_TIMING (''scheduled for '' @ py_str_int scheduled_at) now) (\<lambda>s1.
             Inr (JobScheduledReply (aj_id j) JOB_SCHEDULED scheduled_at, s1))))"

definition record_external_job :: "store \<Rightarrow> archive_job \<Rightarrow> operator \<Rightarrow> execute_request \<Rightarrow> time \<Rightarrow> (start_reply \<times> store) res" where
  "record_external_job s j u d now =
     (let remark = py_strip (or_opt (ex_external_remark d) []) in
      case ex_external_executed_at d of
        None \<Rightarrow> Inl (app_exc (WorkflowMsg ExternalTimeMissing) 400)
      | Some t \<Rightarrow>
          raise_if (\<not> truthy (ex_external_status d)) (app_exc (WorkflowMsg ExternalStatusMissing) 400)
          (raise_if (remark = []) (app_exc (WorkflowMsg ExternalRemarkMissing) 400)
           (let executed_at = ensure_aware_utc t; result = the (ex_external_status d); ok = (result = ''success'');
                j1 = j\<lparr>aj_status := (if ok then JOB_SUCCESS else JOB_FAILED),
                       aj_error_message := (if ok then None else Some (TextMsg remark)), aj_finished_at := Some executed_at\<rparr>
            in rbind (decide s j1 u \<lparr> de_mode = ''external'', de_status = (if ok then FINISH else EXCEPTION),
                         de_scheduled_at = None, de_external_at = Some executed_at,
                         de_external_status = Some result, de_external_remark = Some remark \<rparr>
                       OP_EXECUTE (''recorded external execution: '' @ result @ '', '' @ remark) now) (\<lambda>s1.
                 Inr (JobExternalReply (aj_id j) (aj_status j1), s1)))))"

definition start_job ::
    "archive_env \<Rightarrow> store \<Rightarrow> int \<Rightarrow> operator \<Rightarrow> execute_request option \<Rightarrow> string option \<Rightarrow> controls \<Rightarrow> time \<Rightarrow> start_reply outcome" where
  "start_job env s jid u data task controls now =
     (case rbind (get_job_obj s jid) (\<lambda>j. rbind (check_execute s j u) (\<lambda>_.
             raise_if (aj_status j \<notin> {JOB_APPROVED, JOB_PAUSED, JOB_QUEUED, JOB_SCHEDULED}) (archive_exc JobNotExecutable 400) (Inr j))) of
        Inl e \<Rightarrow> (Inl e, s)
      | Inr j \<Rightarrow>
          (case data of
             Some d \<Rightarrow>
               if ex_mode d = ''scheduled'' then one_commit s (schedule_job s j u d now)
               else if ex_mode d = ''external'' then one_commit s (record_external_job s j u d now)
               else start_job_immediately env s j u task controls now
           | None \<Rightarrow> start_job_immediately env s j u task controls now))"

section \<open>The dispatcher\<close>

text \<open>The query takes the first \<open>lim\<close> scheduled jobs by id, whether they are due or not.\<close>

definition scheduled_jobs :: "store \<Rightarrow> (int \<Rightarrow> bool) \<Rightarrow> nat \<Rightarrow> archive_job list" where
  "scheduled_jobs s locked lim =
     take lim (filter (\<lambda>j. \<not> locked (aj_id j))
       (sort_key aj_id (filter (\<lambda>j. aj_status j = JOB_SCHEDULED \<and> aj_workflow_id j \<noteq> None) (st_jobs s))))"

definition due_workflow :: "store \<Rightarrow> time \<Rightarrow> archive_job \<Rightarrow> workflow option" where
  "due_workflow s now j =
     (if truthy_id (aj_workflow_id j)
      then (case get_workflow s (the (aj_workflow_id j)) of
              None \<Rightarrow> None
            | Some w \<Rightarrow> (case wf_scheduled_execute_at w of None \<Rightarrow> None | Some t \<Rightarrow> if t \<le> now then Some w else None))
      else None)"

fun queue_due :: "time \<Rightarrow> archive_job list \<Rightarrow> store \<Rightarrow> archive_job list \<times> store" where
  "queue_due now [] s = ([], s)"
| "queue_due now (j # js) s =
     (case due_workflow s now j of
        None \<Rightarrow> queue_due now js s
      | Some w \<Rightarrow>
          let j1 = j\<lparr>aj_status := JOB_QUEUED\<rparr>;
              (due, s1) = queue_due now js (put_workflow (w\<lparr>wf_status := QUEUING\<rparr>) (put_job j1 s))
          in (j1 # due, s1))"

text \<open>
  The second loop runs after the commit: \<open>delay\<close> gives the task id of a job, or raises, and
  then the jobs that are left stay queued without a task.
\<close>

fun send_due :: "(int \<Rightarrow> string option) \<Rightarrow> archive_job list \<Rightarrow> store \<Rightarrow> (int \<times> string) list \<Rightarrow> (int \<times> string) list option \<times> store" where
  "send_due delay [] s sent = (Some sent, s)"
| "send_due delay (j # js) s sent =
     (let w = (if truthy_id (aj_workflow_id j) then get_workflow s (the (aj_workflow_id j)) else None);
          operator_id = (case w of None \<Rightarrow> aj_created_by_id j
            | Some w \<Rightarrow> if truthy_id (wf_executed_by_id w) then the (wf_executed_by_id w) else aj_created_by_id j)
      in case delay (aj_id j) of
           None \<Rightarrow> (None, s)
         | Some task_id \<Rightarrow> send_due delay js (deliver (ExecuteArchiveJob (aj_id j) operator_id) s) (sent @ [(aj_id j, task_id)]))"

definition dispatch_scheduled_jobs ::
    "store \<Rightarrow> time \<Rightarrow> (int \<Rightarrow> bool) \<Rightarrow> (int \<Rightarrow> string option) \<Rightarrow> nat \<Rightarrow> nat outcome" where
  "dispatch_scheduled_jobs s now locked delay lim =
     (case queue_due now (scheduled_jobs s locked lim) s of
        (due, s1) \<Rightarrow>
          (case send_due delay due s1 [] of
             (None, s2) \<Rightarrow> (Inl (RawException (EngineRaised ''broker'')), s2)
           | (Some sent, s2) \<Rightarrow>
               (Inr (length sent), fold (\<lambda>(jid, t). update_job jid (\<lambda>j. j\<lparr>aj_celery_task_id := t\<rparr>)) sent s2)))"

section \<open>Endpoints and tasks\<close>

definition resume_archive_job ::
    "archive_env \<Rightarrow> store \<Rightarrow> int \<Rightarrow> operator \<Rightarrow> string option \<Rightarrow> controls \<Rightarrow> time \<Rightarrow> start_reply outcome" where
  "resume_archive_job env s jid u task controls now =
     (case set_job_control_state s jid ''resume'' u now of
        Inl e \<Rightarrow> (Inl e, s)
      | Inr (j, s1) \<Rightarrow> start_job env s1 (aj_id j) u None task controls now)"

end
