(* ===== verification/Archive_Facts.thy ===== *)
theory Archive_Facts
  imports Archive_Worker
begin

text \<open>
  Lemmas and properties of the archive jobs: the control requests that reach a running
  job, the books of a job (its counters against its batch log) as an invariant of every
  round, the bound on the rounds of a purge, and the ways a job gets stuck.
\<close>

section \<open>Control requests and a running job\<close>

text \<open>The states of a job between its start and its end in the worker.\<close>

definition in_worker :: "archive_status \<Rightarrow> bool" where
  "in_worker st \<longleftrightarrow> st \<in> {JOB_RUNNING, JOB_PAUSING, JOB_CANCELING}"

lemma get_job_SomeD: "get_job s jid = Some j \<Longrightarrow> aj_id j = jid"
  by (rule job_tab.sel_key)

lemma put_job_same:
  "get_job s jid = Some j \<Longrightarrow> aj_id j1 = jid \<Longrightarrow> get_job (put_job j1 s) jid = Some j1"
  by (rule job_tab.sel_put_loaded) (auto dest: get_job_SomeD)

lemma st_batches_frame [simp]:
  "st_batches (put_job j s) = st_batches s" "st_batches (put_workflow w s) = st_batches s"
  "st_batches (set_execute_result i r s) = st_batches s" "st_batches (emit e s) = st_batches s"
  "st_batches (add_batch b s) = st_batches s @ [b]" "st_batches (deliver t s) = st_batches s"
  by (simp_all add: store_defs)

lemma control_in_worker:
  assumes "get_job s jid = Some j" "in_worker (aj_status j)"
    and "set_job_control_state s jid action u now = Inr (j1, s1)"
  shows "\<exists>st f. j1 = j\<lparr>aj_status := st, aj_finished_at := f\<rparr> \<and> in_worker st \<and> s1 = put_job j1 s"
proof -
  from assms(3) consider
      (pause) "aj_status j = JOB_RUNNING" "set_status JOB_PAUSING j s = Inr (j1, s1)"
    | (cancel) "cancel_job s j u now = Inr (j1, s1)"
    using assms(1,2)
    by (auto simp: set_job_control_state_def get_job_obj_def rbind_Inr_iff raise_if_Inr_iff in_worker_def
        split: if_splits)
  then show ?thesis
  proof cases
    case pause
    then show ?thesis
      by (intro exI [of _ JOB_PAUSING] exI [of _ "aj_finished_at j"]) (auto simp: set_status_def Let_def in_worker_def)
  next
    case cancel
    with assms(2) show ?thesis
      by (intro exI [of _ JOB_CANCELING] exI [of _ None]) (auto simp: cancel_job_def Let_def in_worker_def rbind_Inr_iff split: if_splits)
  qed
qed

lemma apply_controls_job:
  assumes "get_job s jid = Some j" "in_worker (aj_status j)"
  shows "\<exists>st f. get_job (apply_controls jid now rs s) jid = Some (j\<lparr>aj_status := st, aj_finished_at := f\<rparr>)
    \<and> in_worker st \<and> st_batches (apply_controls jid now rs s) = st_batches s"
  using assms
proof (induction rs arbitrary: s j)
  case Nil
  then show ?case by (intro exI [of _ "aj_status j"] exI [of _ "aj_finished_at j"]) simp
next
  case (Cons r rs)
  obtain action u where r: "r = (action, u)" by (cases r)
  show ?case
  proof (cases "set_job_control_state s jid action u now")
    case (Inl e)
    with Cons.IH [OF Cons.prems] r show ?thesis by simp
  next
    case (Inr js)
    obtain j1 s1 where js: "js = (j1, s1)" by (cases js)
    from control_in_worker [OF Cons.prems Inr [unfolded js]] obtain st1 f1
      where j1: "j1 = j\<lparr>aj_status := st1, aj_finished_at := f1\<rparr>" and st1: "in_worker st1"
      and s1: "s1 = put_job j1 s" by blast
    have "get_job s1 jid = Some j1"
      using Cons.prems(1) get_job_SomeD by (auto simp: s1 j1 intro: put_job_same)
    from Cons.IH [OF this] st1 j1 obtain st f where
      "get_job (apply_controls jid now rs s1) jid = Some (j1\<lparr>aj_status := st, aj_finished_at := f\<rparr>)" "in_worker st"
      "st_batches (apply_controls jid now rs s1) = st_batches s1" by auto
    then show ?thesis using r Inr js s1 j1 by auto
  qed
qed

section \<open>The books of a job\<close>

definition done_batch :: "int \<Rightarrow> archive_batch \<Rightarrow> bool" where
  "done_batch jid b \<longleftrightarrow> ab_job_id b = jid \<and> ab_status b = BATCH_SUCCESS"

text \<open>
  The counters of a job agree with its log: the successful batches are numbered from 1 to
  the current batch, and the processed rows are the sum of what they deleted.
\<close>

definition books :: "store \<Rightarrow> int \<Rightarrow> bool" where
  "books s jid \<longleftrightarrow>
     (case get_job s jid of None \<Rightarrow> False
      | Some j \<Rightarrow> 0 \<le> aj_current_batch j
          \<and> map ab_batch_no (filter (done_batch jid) (st_batches s)) = [1..aj_current_batch j]
          \<and> aj_processed_rows j = sum_list (map ab_deleted_rows (filter (done_batch jid) (st_batches s))))"

definition running :: "store \<Rightarrow> int \<Rightarrow> bool" where
  "running s jid \<longleftrightarrow> (case get_job s jid of None \<Rightarrow> False | Some j \<Rightarrow> in_worker (aj_status j))"

lemma books_cong:
  assumes "books s jid" "get_job s jid = Some j" "get_job s1 jid = Some j1"
    and "aj_current_batch j1 = aj_current_batch j" "aj_processed_rows j1 = aj_processed_rows j"
    and "filter (done_batch jid) (st_batches s1) = filter (done_batch jid) (st_batches s)"
  shows "books s1 jid"
  using assms by (simp add: books_def)

lemma get_job_log_batch [simp]: "get_job (log_batch i n st a b c m t s) jid = get_job s jid"
  by (simp add: log_batch_def)

lemma st_batches_log_batch:
  "filter (done_batch jid) (st_batches (log_batch jid n st a b c m t s))
     = filter (done_batch jid) (st_batches s)
       @ (if st = BATCH_SUCCESS then [\<lparr> ab_id = st_next_id s, ab_job_id = jid, ab_batch_no = n, ab_status = st,
            ab_selected_rows = a, ab_inserted_rows = b, ab_deleted_rows = c,
            ab_message = m, ab_started_at = Some t, ab_finished_at = Some t \<rparr>] else [])"
  by (simp add: log_batch_def done_batch_def)

lemma update_job_get:
  "get_job s jid = Some j \<Longrightarrow> aj_id (f j) = jid \<Longrightarrow> get_job (update_job jid f s) jid = Some (f j)"
  by (simp add: update_job_def put_job_same)

lemma count_batch_get [simp]:
  "get_job s jid = Some j \<Longrightarrow> get_job (update_job jid (count_batch n d e) s) jid = Some (count_batch n d e j)"
  by (rule update_job_get) (auto simp: count_batch_def dest: get_job_SomeD)

lemma st_batches_update_job [simp]: "st_batches (update_job jid f s) = st_batches s"
  by (simp add: update_job_def split: option.splits)

lemma st_next_id_update_job [simp]: "st_next_id (update_job jid f s) = st_next_id s"
  by (simp add: update_job_def store_defs split: option.splits)

lemma books_log_failed: "books (log_batch jid n BATCH_FAILED a b c m t s) jid \<longleftrightarrow> books s jid"
  by (simp add: books_def st_batches_log_batch split: option.splits)

lemma books_counted:
  assumes "books s jid" "get_job s jid = Some j"
  shows "books (log_batch jid (aj_current_batch j + 1) BATCH_SUCCESS a b deleted m t
      (update_job jid (count_batch (aj_current_batch j + 1) deleted est) s)) jid"
proof -
  have "[1..aj_current_batch j + 1] = [1..aj_current_batch j] @ [aj_current_batch j + 1]"
    using assms by (intro upto_rec2 [of 1 "aj_current_batch j + 1", simplified]) (simp add: books_def)
  with assms show ?thesis by (simp add: books_def st_batches_log_batch count_batch_def)
qed

lemma books_status:
  assumes "books s jid" "\<And>j. aj_current_batch (f j) = aj_current_batch j \<and> aj_processed_rows (f j) = aj_processed_rows j \<and> aj_id (f j) = aj_id j"
  shows "books (update_job jid f s) jid"
proof -
  obtain j where j: "get_job s jid = Some j" using assms(1) by (auto simp: books_def split: option.splits)
  have "get_job (update_job jid f s) jid = Some (f j)"
    using j assms(2) get_job_SomeD [OF j] by (intro update_job_get) auto
  from books_cong [OF assms(1) j this] assms(2) show ?thesis by simp
qed

lemma controlled:
  assumes "books s jid" "running s jid" "get_job s jid = Some j"
  shows "books (apply_controls jid now rs s) jid \<and> running (apply_controls jid now rs s) jid
    \<and> (\<exists>st f. get_job (apply_controls jid now rs s) jid = Some (j\<lparr>aj_status := st, aj_finished_at := f\<rparr>))"
proof -
  have "in_worker (aj_status j)" using assms(2,3) by (simp add: running_def)
  from apply_controls_job [OF assms(3) this, of now rs] obtain st f where
    c: "get_job (apply_controls jid now rs s) jid = Some (j\<lparr>aj_status := st, aj_finished_at := f\<rparr>)" "in_worker st"
      "st_batches (apply_controls jid now rs s) = st_batches s" by blast
  from books_cong [OF assms(1,3) c(1)] c show ?thesis by (auto simp: running_def)
qed

text \<open>What a round leaves behind, and what the loop makes of it.\<close>

fun round_ok :: "int \<Rightarrow> round \<Rightarrow> bool" where
  "round_ok jid (Stop s) = books s jid"
| "round_ok jid (Go s) = (books s jid \<and> running s jid)"
| "round_ok jid (Fail e s) = books s jid"

fun end_store :: "loop_end \<Rightarrow> store" where
  "end_store (Ended s) = s"
| "end_store (Failed e s) = s"
| "end_store (Exhausted s) = s"

lemma after_batch_ok:
  assumes "books s jid" "running s jid"
  shows "round_ok jid (after_batch jid now finished s)"
proof (cases finished)
  case True
  have "books (update_job jid (succeed now) s) jid"
    by (rule books_status [OF assms(1)]) (simp add: succeed_def)
  with True show ?thesis by (simp add: after_batch_def)
next
  case False
  obtain j where j: "get_job s jid = Some j" using assms(1) by (auto simp: books_def split: option.splits)
  have "books (put_job (j\<lparr>aj_status := JOB_PAUSED\<rparr>) s) jid"
    using books_status [OF assms(1), of "\<lambda>j. j\<lparr>aj_status := JOB_PAUSED\<rparr>"] j by (simp add: update_job_def)
  moreover have "books (put_job (j\<lparr>aj_status := JOB_CANCELED, aj_finished_at := Some now\<rparr>) s) jid"
    using books_status [OF assms(1), of "\<lambda>j. j\<lparr>aj_status := JOB_CANCELED, aj_finished_at := Some now\<rparr>"] j
    by (simp add: update_job_def)
  ultimately show ?thesis using False assms j by (simp add: after_batch_def post_batch_control_def)
qed

lemma counted_running:
  assumes "running s jid"
  shows "running (log_batch jid n st a b c m t (update_job jid (count_batch k d e) s)) jid"
proof -
  obtain j where j: "get_job s jid = Some j" using assms by (auto simp: running_def split: option.splits)
  with assms j show ?thesis by (simp add: running_def count_batch_def)
qed

text \<open>The contract of a batch loop, which every round of the worker meets.\<close>

locale batch_loop =
  fixes step :: "nat \<Rightarrow> store \<Rightarrow> round" and jid :: int
  assumes step_ok: "books s jid \<Longrightarrow> running s jid \<Longrightarrow> round_ok jid (step i s)"
begin

lemma loop_books: "books s jid \<Longrightarrow> running s jid \<Longrightarrow> books (end_store (run_rounds step fuel i s)) jid"
proof (induction fuel arbitrary: i s)
  case 0
  then show ?case by simp
next
  case (Suc fuel)
  from step_ok [OF Suc.prems, of i] Suc.IH show ?case by (cases "step i s") auto
qed

lemma exhausted_running: "books s jid \<Longrightarrow> running s jid \<Longrightarrow> run_rounds step fuel i s = Exhausted s1 \<Longrightarrow> running s1 jid"
proof (induction fuel arbitrary: i s)
  case 0
  then show ?case by simp
next
  case (Suc fuel)
  from step_ok [OF Suc.prems(1,2), of i] Suc.IH Suc.prems(3) show ?case by (cases "step i s") auto
qed

end

lemma batch_done_ok:
  assumes "books s jid" "running s jid" "get_job s jid = Some j"
  shows "round_ok jid (after_batch jid now finished
      (log_batch jid (aj_current_batch j + 1) BATCH_SUCCESS a b deleted m t
        (update_job jid (count_batch (aj_current_batch j + 1) deleted est) (apply_controls jid now rs s))))"
proof -
  from controlled [OF assms] obtain st f where c: "books (apply_controls jid now rs s) jid" "running (apply_controls jid now rs s) jid"
    "get_job (apply_controls jid now rs s) jid = Some (j\<lparr>aj_status := st, aj_finished_at := f\<rparr>)" by blast
  have "books (log_batch jid (aj_current_batch j + 1) BATCH_SUCCESS a b deleted m t
        (update_job jid (count_batch (aj_current_batch j + 1) deleted est) (apply_controls jid now rs s))) jid"
    using books_counted [OF c(1,3)] by simp
  from after_batch_ok [OF this counted_running [OF c(2)]] show ?thesis .
qed

lemma succeed_ok:
  "books s jid \<Longrightarrow> running s jid \<Longrightarrow> get_job s jid = Some j \<Longrightarrow>
     books (update_job jid (succeed now) (apply_controls jid now rs s)) jid"
  using controlled [of s jid j now rs] by (intro books_status) (auto simp: succeed_def)

lemma running_job: "running s jid \<Longrightarrow> \<exists>j. get_job s jid = Some j"
  by (auto simp: running_def split: option.splits)

interpretation purge_loop: batch_loop "purge_round engine sql jid controls now" jid for engine sql jid controls now
proof
  fix s i assume s: "books s jid" "running s jid"
  then obtain j where j: "get_job s jid = Some j" using running_job by blast
  show "round_ok jid (purge_round engine sql jid controls now i s)"
    using controlled [OF s j, of now "controls i"] batch_done_ok [OF s j]
    by (auto simp: purge_round_def j Let_def books_log_failed split: sum.splits prod.splits)
qed

interpretation mongo_loop: batch_loop "purge_mongo_round engine jid controls now" jid for engine jid controls now
proof
  fix s i assume s: "books s jid" "running s jid"
  then obtain j where j: "get_job s jid = Some j" using running_job by blast
  show "round_ok jid (purge_mongo_round engine jid controls now i s)"
    using controlled [OF s j, of now "controls i"] batch_done_ok [OF s j] succeed_ok [OF s j]
    by (auto simp: purge_mongo_round_def j Let_def split: sum.splits)
qed

interpretation dest_loop: batch_loop "dest_round src dest ty sqls jid controls now" jid for src dest ty sqls jid controls now
proof
  fix s i assume s: "books s jid" "running s jid"
  then obtain j where j: "get_job s jid = Some j" using running_job by blast
  show "round_ok jid (dest_round src dest ty sqls jid controls now i s)"
    using controlled [OF s j, of now "controls i"] batch_done_ok [OF s j] succeed_ok [OF s j]
    by (auto simp: dest_round_def j Let_def books_log_failed split: sum.splits prod.splits)
qed

interpretation dest_mongo_loop: batch_loop "dest_mongo_round src dest jid controls now" jid for src dest jid controls now
proof
  fix s i assume s: "books s jid" "running s jid"
  then obtain j where j: "get_job s jid = Some j" using running_job by blast
  show "round_ok jid (dest_mongo_round src dest jid controls now i s)"
    using controlled [OF s j, of now "controls i"] batch_done_ok [OF s j] succeed_ok [OF s j]
    by (auto simp: dest_mongo_round_def j Let_def books_log_failed split: sum.splits)
qed

lemmas loop_books = purge_loop.loop_books mongo_loop.loop_books dest_loop.loop_books dest_mongo_loop.loop_books

lemma single_delete_books:
  assumes "books s jid" "running s jid"
  shows "books (end_store (single_delete engine sql jid controls now s)) jid"
proof -
  obtain j where j: "get_job s jid = Some j" using running_job assms(2) by blast
  note c = controlled [OF assms j, of now "controls 0"]
  have "books (log_batch jid (aj_current_batch j + 1) BATCH_SUCCESS a 0 a None now
      (update_job jid (\<lambda>j. succeed now (count_batch (aj_current_batch j + 1) a est j))
        (apply_controls jid now (controls 0) s))) jid" for a est
  proof -
    let ?s0 = "apply_controls jid now (controls 0) s"
    let ?s1 = "update_job jid (count_batch (aj_current_batch j + 1) a est) ?s0"
    let ?s2 = "update_job jid (\<lambda>j. succeed now (count_batch (aj_current_batch j + 1) a est j)) ?s0"
    from c obtain j0 where j0: "books ?s0 jid" "get_job ?s0 jid = Some j0" "aj_current_batch j0 = aj_current_batch j" by auto
    have g: "get_job ?s1 jid = Some (count_batch (aj_current_batch j + 1) a est j0)"
      "get_job ?s2 jid = Some (succeed now (count_batch (aj_current_batch j0 + 1) a est j0))"
      by (rule update_job_get [OF j0(2)], simp add: count_batch_def succeed_def get_job_SomeD [OF j0(2)] j0(3))+
    have "books (log_batch jid (aj_current_batch j + 1) BATCH_SUCCESS a 0 a None now ?s1) jid"
      using books_counted [OF j0(1,2)] j0(3) by simp
    then show ?thesis
      by (rule books_cong [of _ _ "count_batch (aj_current_batch j + 1) a est j0" _
            "succeed now (count_batch (aj_current_batch j0 + 1) a est j0)"])
        (simp_all add: g j0(3) st_batches_log_batch, simp_all add: succeed_def)
  qed
  with c show ?thesis
    by (auto simp: single_delete_def j Let_def books_log_failed split: sum.splits prod.splits)
qed

lemma end_store_simps [simp]:
  "end_store (raise_exhausted r) = end_store r" "end_store (end_exhausted r) = end_store r"
  by (cases r; simp add: raise_exhausted_def end_exhausted_def)+

lemma loop_or_fail_books:
  "books s jid \<Longrightarrow> (\<And>x. r = Inr x \<Longrightarrow> books (end_store (f x)) jid) \<Longrightarrow> books (end_store (loop_or_fail s r f)) jid"
  by (cases r) (simp_all add: loop_or_fail_def)

lemma purge_job_books:
  assumes "books s (aj_id j)" "running s (aj_id j)"
  shows "books (end_store (execute_purge_job env s j controls now)) (aj_id j)"
  unfolding execute_purge_job_def
  using assms by (auto intro!: loop_or_fail_books loop_books single_delete_books)

lemma dest_job_books:
  assumes "books s (aj_id j)" "running s (aj_id j)"
  shows "books (end_store (execute_dest_job env s j controls now)) (aj_id j)"
  unfolding execute_dest_job_def
  using assms by (auto intro!: loop_or_fail_books loop_books)

lemma run_job_books:
  assumes "books s (aj_id j)" "running s (aj_id j)"
  shows "books (run_job env s j controls now) (aj_id j)"
  using purge_job_books [OF assms, of env controls now] dest_job_books [OF assms, of env controls now]
  by (auto simp: run_job_def fail_job_def intro!: books_status split: loop_end.splits)

lemma books_frame [simp]:
  "books (emit e s) jid = books s jid" "books (put_workflow w s) jid = books s jid"
  "books (set_execute_result i r s) jid = books s jid"
  by (simp_all add: books_def split: option.split)

lemma finish_job_books: "books s jid \<Longrightarrow> books (finish_job jid op s) jid"
  by (auto simp: finish_job_def sync_workflow_execution_result_def split: option.splits)

lemma mark_running_get:
  assumes "get_job s jid = Some j"
  shows "\<exists>t. get_job (mark_running j now s) jid = Some (j\<lparr>aj_status := JOB_RUNNING, aj_started_at := t\<rparr>)"
    and "st_batches (mark_running j now s) = st_batches s"
  using get_job_SomeD [OF assms] assms
  by (auto simp: mark_running_def Let_def put_job_same split: option.splits)

lemma mark_running_books:
  assumes "books s jid" "get_job s jid = Some j"
  shows "books (mark_running j now s) jid" "running (mark_running j now s) jid"
proof -
  obtain t where g: "get_job (mark_running j now s) jid = Some (j\<lparr>aj_status := JOB_RUNNING, aj_started_at := t\<rparr>)"
    using mark_running_get(1) [OF assms(2)] by blast
  from books_cong [OF assms(1,2) g] show "books (mark_running j now s) jid"
    by (simp add: mark_running_get(2) [OF assms(2)])
  show "running (mark_running j now s) jid" using g by (simp add: running_def in_worker_def)
qed

lemma running_emit [simp]: "running (emit e s) jid = running s jid"
  by (simp add: running_def)

text \<open>
C7: the worker never breaks the books of a job. Whatever the engines answer, whatever
control requests arrive between the rounds, and however the run ends (done, failed, paused,
cancelled or out of rounds), the successful batches in the log are numbered 1, 2, \<dots> up to
the job's batch counter and the processed rows are the sum of the rows these batches deleted.
\<close>

theorem execute_job_keeps_books:
  assumes "books s jid"
  shows "books (snd (execute_job env s jid operator_id controls now)) jid"
proof -
  obtain j where j: "get_job s jid = Some j" using assms by (auto simp: books_def split: option.splits)
  have "aj_id j = jid" by (rule get_job_SomeD [OF j])
  with mark_running_books [OF assms j, of now] assms show ?thesis
    by (auto simp: execute_job_def get_job_obj_def j intro!: finish_job_books run_job_books)
qed

section \<open>The bound on the rounds\<close>

lemma after_batch_Go:
  assumes "get_job s jid = Some j" "after_batch jid now finished s = Go s1"
  shows "\<not> finished \<and> s1 = s"
  using assms by (auto simp: after_batch_def post_batch_control_def split: if_splits)

text \<open>A purge round that goes on has deleted a full batch and is below the estimate.\<close>

lemma purge_round_Go:
  assumes "get_job s jid = Some j" "in_worker (aj_status j)"
    and "purge_round engine sql jid controls now i s = Go s1"
  shows "\<exists>j1. get_job s1 jid = Some j1 \<and> in_worker (aj_status j1) \<and> aj_batch_size j1 = aj_batch_size j
    \<and> aj_estimated_rows j1 = aj_estimated_rows j \<and> aj_processed_rows j + aj_batch_size j \<le> aj_processed_rows j1
    \<and> aj_processed_rows j1 < aj_estimated_rows j"
proof -
  let ?s0 = "apply_controls jid now (controls i) s"
  from apply_controls_job [OF assms(1,2), of now "controls i"] obtain st f where
    c: "get_job ?s0 jid = Some (j\<lparr>aj_status := st, aj_finished_at := f\<rparr>)" "in_worker st" by blast
  have g: "get_job (log_batch jid n BATCH_SUCCESS a b d m t (update_job jid (count_batch n d e) ?s0)) jid
      = Some (count_batch n d e (j\<lparr>aj_status := st, aj_finished_at := f\<rparr>))" for n a b d m t e
    using c(1) by simp
  from assms(1,3) obtain d e where
    "after_batch jid now (d \<le> 0 \<or> d < aj_batch_size j \<or> aj_processed_rows j + d \<ge> aj_estimated_rows j)
       (log_batch jid (aj_current_batch j + 1) BATCH_SUCCESS d 0 d None now
         (update_job jid (count_batch (aj_current_batch j + 1) d e) ?s0)) = Go s1"
    by (auto simp: purge_round_def Let_def split: sum.splits if_splits prod.splits)
  from after_batch_Go [OF g this] g c(2) show ?thesis by (auto simp: count_batch_def)
qed

lemma purge_not_exhausted:
  assumes "get_job s jid = Some j" "in_worker (aj_status j)" "0 < aj_batch_size j" "0 < fuel"
    and "aj_estimated_rows j - aj_processed_rows j \<le> int fuel * aj_batch_size j"
  shows "run_rounds (purge_round engine sql jid controls now) fuel i s \<noteq> Exhausted s1"
  using assms
proof (induction fuel arbitrary: i s j)
  case 0
  then show ?case by simp
next
  case (Suc fuel)
  show ?case
  proof (cases "purge_round engine sql jid controls now i s")
    case (Go s2)
    from purge_round_Go [OF Suc.prems(1,2) Go] obtain j2 where j2:
      "get_job s2 jid = Some j2" "in_worker (aj_status j2)" "aj_batch_size j2 = aj_batch_size j"
      "aj_estimated_rows j2 = aj_estimated_rows j" "aj_processed_rows j + aj_batch_size j \<le> aj_processed_rows j2"
      "aj_processed_rows j2 < aj_estimated_rows j" by blast
    have le: "aj_estimated_rows j2 - aj_processed_rows j2 \<le> int fuel * aj_batch_size j2"
      using Suc.prems(5) j2 by (simp add: algebra_simps)
    with j2 have "0 < fuel" by (cases fuel) auto
    with Suc.IH [OF j2(1,2) _ _ le] Suc.prems(3) j2(3) Go show ?thesis by simp
  qed simp_all
qed


section \<open>A loop that uses up its rounds\<close>

text \<open>An engine that always has another full batch of documents.\<close>

definition endless :: "arch_engine \<Rightarrow> archive_job \<Rightarrow> bool" where
  "endless engine j \<longleftrightarrow>
     (\<forall>i. \<exists>ids. ae_find engine i (aj_source_db j) (aj_source_table j) (aj_condition j) (aj_batch_size j) = Inr ids
        \<and> ids \<noteq> [] \<and> ae_delete_many engine i (aj_source_db j) (aj_source_table j) ids = Inr (aj_batch_size j))"

lemma mongo_round_Go:
  assumes "get_job s jid = Some j" "aj_status j = JOB_RUNNING" "endless engine j"
  shows "\<exists>s1. purge_mongo_round engine jid (\<lambda>_. []) now i s = Go s1
    \<and> get_job s1 jid = Some (count_batch (aj_current_batch j + 1) (aj_batch_size j) False j)"
proof -
  from assms(3) obtain ids where "ae_find engine i (aj_source_db j) (aj_source_table j) (aj_condition j) (aj_batch_size j) = Inr ids"
    "ids \<noteq> []" "ae_delete_many engine i (aj_source_db j) (aj_source_table j) ids = Inr (aj_batch_size j)"
    by (auto simp: endless_def)
  with assms(1,2) show ?thesis
    by (simp add: purge_mongo_round_def Let_def after_batch_def post_batch_control_def) (simp add: count_batch_def)
qed

lemma mongo_rounds_used_up:
  assumes "get_job s jid = Some j" "aj_status j = JOB_RUNNING" "endless engine j"
  shows "\<exists>s1 j1. run_rounds (purge_mongo_round engine jid (\<lambda>_. []) now) fuel i s = Exhausted s1
    \<and> get_job s1 jid = Some j1 \<and> aj_status j1 = JOB_RUNNING
    \<and> aj_processed_rows j1 = aj_processed_rows j + int fuel * aj_batch_size j"
  using assms
proof (induction fuel arbitrary: i s j)
  case 0
  then show ?case by simp
next
  case (Suc fuel)
  let ?j2 = "count_batch (aj_current_batch j + 1) (aj_batch_size j) False j"
  from mongo_round_Go [OF Suc.prems, of now i] obtain s2 where
    s2: "purge_mongo_round engine jid (\<lambda>_. []) now i s = Go s2" "get_job s2 jid = Some ?j2" by blast
  have "aj_status ?j2 = JOB_RUNNING" "endless engine ?j2"
    using Suc.prems by (simp_all add: count_batch_def endless_def)
  from Suc.IH [OF s2(2) this, of "Suc i"] s2(1) show ?case
    by (auto simp: count_batch_def algebra_simps)
qed

text \<open>
a MongoDB purge that uses up its 10000 rounds stays RUNNING for ever. Unlike the SQL
purge, its loop ends without an exception: 10000 batches are deleted, the job keeps the
status RUNNING and its workflow EXECUTING, a redelivered task does nothing, and starting the
job again is refused.
\<close>

theorem mongo_purge_left_running:
  assumes "get_job s jid = Some j" "aj_status j = JOB_QUEUED" "aj_archive_mode j = ''purge''"
    and "get_instance s (aj_source_instance_id j) = Some inst" "in_db_type inst = ''mongo''"
    and "en_json_dict env (aj_condition j) = Some True" "en_get_engine env inst = Inr engine"
    and "ae_connect engine (aj_source_db j) = Inr ()" "endless engine j"
    and "s1 = snd (execute_job env s jid operator_id (\<lambda>_. []) now)"
  shows "(\<exists>j1. get_job s1 jid = Some j1 \<and> aj_status j1 = JOB_RUNNING
        \<and> aj_processed_rows j1 = aj_processed_rows j + 10000 * aj_batch_size j)
    \<and> execute_job env s1 jid operator2 controls later = (Inr (), s1)
    \<and> (\<exists>e. start_job env s1 jid u data task controls later = (Inl e, s1))"
proof -
  let ?s0 = "emit (job_event ''execution_started'' j operator_id) (mark_running j now s)"
  from mark_running_get(1) [OF assms(1), of now] obtain t where
    g: "get_job ?s0 jid = Some (j\<lparr>aj_status := JOB_RUNNING, aj_started_at := t\<rparr>)" by auto
  have "endless engine (j\<lparr>aj_status := JOB_RUNNING, aj_started_at := t\<rparr>)"
    using assms(9) by (simp add: endless_def)
  from mongo_rounds_used_up [OF g _ this, of now MAX_ROUNDS 0] obtain s2 j2 where
    r: "run_rounds (purge_mongo_round engine jid (\<lambda>_. []) now) MAX_ROUNDS 0 ?s0 = Exhausted s2"
    and j2: "get_job s2 jid = Some j2" "aj_status j2 = JOB_RUNNING"
      "aj_processed_rows j2 = aj_processed_rows j + 10000 * aj_batch_size j"
    by (auto simp: MAX_ROUNDS_def)
  have i: "get_instance ?s0 (aj_source_instance_id j) = Some inst"
    using assms(4) by (auto simp: get_instance_def mark_running_def Let_def store_defs split: option.splits)
  have id: "aj_id j = jid" by (rule get_job_SomeD [OF assms(1)])
  have "run_job env ?s0 j (\<lambda>_. []) now = s2"
    using assms(3,5-8) r
    by (simp add: run_job_def execute_purge_job_def load_instance_def i loop_or_fail_def validate_condition_def
        validate_archive_condition_def id end_exhausted_def)
  then have s1: "s1 = s2"
    using assms(1,2,10) j2 by (simp add: execute_job_def get_job_obj_def finish_job_def)
  have "\<exists>e. start_job env s1 jid u data task controls later = (Inl e, s1)"
    using j2 by (cases "check_execute s1 j2 u") (auto simp: start_job_def get_job_obj_def s1)
  moreover have "execute_job env s1 jid operator2 controls later = (Inr (), s1)"
    using j2 by (simp add: execute_job_def get_job_obj_def s1)
  ultimately show ?thesis using j2 s1 by auto
qed

section \<open>A concrete job\<close>

definition job_store :: "string \<Rightarrow> archive_status \<Rightarrow> store" where
  "job_store ty st = sample_store\<lparr>st_jobs := [sample_job st], st_instances := [sample_instance\<lparr>in_db_type := ty\<rparr>]\<rparr>"

definition sample_archive_engine :: arch_engine where
  "sample_archive_engine =
     \<lparr> ae_query = (\<lambda>i db sql n. Inr \<lparr> qs_error = [], qs_column_list = [''n''], qs_rows = [RowTuple [Some ''15'']],
          qs_affected_rows = 1, qs_cost_time = 0 \<rparr>),
       ae_execute = (\<lambda>i db sql. Inr \<lparr> rs_rows = [\<lparr> si_id = 1, si_errlevel = 0, si_stagestatus = [], si_errormessage = [],
            si_sql = sql, si_affected_rows = (if i = 0 then 10 else 5) \<rparr>], rs_error = [], rs_warning_count = 0, rs_error_count = 0 \<rparr>),
       ae_connect = (\<lambda>db. Inr ()), ae_count = (\<lambda>db t c. Inr 15),
       ae_find = (\<lambda>i db t c n. Inr [1..n]), ae_insert_many = (\<lambda>i db t ids. Inr ()),
       ae_delete_many = (\<lambda>i db t ids. Inr (int (length ids))) \<rparr>"

definition sample_archive_env :: archive_env where
  "sample_archive_env = \<lparr> en_json_dict = (\<lambda>t. Some True), en_parse_error = (\<lambda>d t. None),
     en_get_engine = (\<lambda>inst. Inr sample_archive_engine) \<rparr>"

lemma job_store_get [simp]:
  "get_job (job_store ty st) 5 = Some (sample_job st)"
  "get_instance (job_store ty st) 5 = Some (sample_instance\<lparr>in_db_type := ty\<rparr>)"
  by (simp_all add: job_store_def get_job_def get_instance_def table_simps) (simp_all add: sample_defs)

lemma sample_job_simps [simp]:
  "aj_status (sample_job st) = st" "aj_batch_size (sample_job st) = 10" "aj_estimated_rows (sample_job st) = 15"
  "aj_processed_rows (sample_job st) = 0" "aj_current_batch (sample_job st) = 0" "aj_archive_mode (sample_job st) = ''purge''"
  "aj_source_instance_id (sample_job st) = 5" "aj_id (sample_job st) = 5" "aj_workflow_id (sample_job st) = Some 3"
  by (simp_all add: sample_job_def)

lemma job_store_books: "books (job_store ty st) 5"
  by (simp add: books_def) (simp add: job_store_def sample_store_def)

lemma execute_job_keeps_books_witness:
  "books (job_store ''mysql'' JOB_QUEUED) 5
   \<and> books (snd (execute_job sample_archive_env (job_store ''mysql'' JOB_QUEUED) 5 9
       (\<lambda>i. if i = 0 then [(''pause'', dba_op)] else []) 500)) 5"
  using execute_job_keeps_books [OF job_store_books, of sample_archive_env "''mysql''" JOB_QUEUED 9
      "\<lambda>i. if i = 0 then [(''pause'', dba_op)] else []" 500] job_store_books by blast


lemma mongo_purge_left_running_witness:
  "\<exists>s1 j1. s1 = snd (execute_job sample_archive_env (job_store ''mongo'' JOB_QUEUED) 5 9 (\<lambda>_. []) 500)
     \<and> get_job s1 5 = Some j1 \<and> aj_status j1 = JOB_RUNNING \<and> aj_processed_rows j1 = 100000"
proof -
  have "endless sample_archive_engine (sample_job JOB_QUEUED)"
    by (simp add: endless_def sample_archive_engine_def)
  from mongo_purge_left_running [where s = "job_store ''mongo'' JOB_QUEUED" and jid = 5 and inst = "sample_instance\<lparr>in_db_type := ''mongo''\<rparr>"
      and env = sample_archive_env and operator_id = 9 and now = 500, OF job_store_get(1) _ _ _ _ _ _ _ this refl]
  show ?thesis by (auto simp: sample_archive_env_def) (auto simp: sample_archive_engine_def)
qed

end
