(* ===== verification/Archive_Lifecycle.thy ===== *)
theory Archive_Lifecycle
  imports Archive_Facts
begin

text \<open>
  The life of an archive job across all the operations that touch it: reviews, control
  requests, decisions to start, worker runs and the dispatcher. \<open>job_edit\<close> is the abstract
  machine, one small change of a row at a time; every operation of the code is shown to be a
  sequence of such edits, and the properties follow from the machine.
\<close>

section \<open>The abstract machine\<close>

definition startable :: "archive_status \<Rightarrow> bool" where
  "startable st \<longleftrightarrow> st \<in> {JOB_APPROVED, JOB_PAUSED, JOB_QUEUED, JOB_SCHEDULED}"

inductive job_edit :: "archive_job \<Rightarrow> archive_job \<Rightarrow> bool" where
  approve: "aj_status j = JOB_PENDING_REVIEW \<Longrightarrow> job_edit j (j\<lparr>aj_status := JOB_APPROVED\<rparr>)"
| drop: "aj_status j = JOB_PENDING_REVIEW \<or> startable (aj_status j) \<or> aj_status j = JOB_CANCELING \<Longrightarrow>
    job_edit j (j\<lparr>aj_status := JOB_CANCELED, aj_finished_at := Some t\<rparr>)"
| decide: "startable (aj_status j) \<Longrightarrow> st \<in> {JOB_QUEUED, JOB_SCHEDULED} \<Longrightarrow>
    job_edit j (j\<lparr>aj_status := st, aj_finished_at := f\<rparr>)"
| external: "startable (aj_status j) \<Longrightarrow> st \<in> {JOB_SUCCESS, JOB_FAILED} \<Longrightarrow>
    job_edit j (j\<lparr>aj_status := st, aj_error_message := m, aj_finished_at := Some t\<rparr>)"
| task: "job_edit j (j\<lparr>aj_celery_task_id := c\<rparr>)"
| launch: "aj_status j \<in> {JOB_QUEUED, JOB_PAUSED} \<Longrightarrow>
    job_edit j (j\<lparr>aj_status := JOB_RUNNING, aj_started_at := Some t\<rparr>)"
| pause: "aj_status j \<in> {JOB_QUEUED, JOB_RUNNING} \<Longrightarrow> job_edit j (j\<lparr>aj_status := JOB_PAUSING\<rparr>)"
| paused: "aj_status j = JOB_PAUSING \<Longrightarrow> job_edit j (j\<lparr>aj_status := JOB_PAUSED\<rparr>)"
| cancel: "aj_status j \<in> {JOB_RUNNING, JOB_PAUSING} \<Longrightarrow>
    job_edit j (j\<lparr>aj_status := JOB_CANCELING, aj_finished_at := None\<rparr>)"
| count: "in_worker (aj_status j) \<Longrightarrow> job_edit j (count_batch n d e j)"
| finish: "in_worker (aj_status j) \<Longrightarrow> job_edit j (succeed t j)"
| failed: "in_worker (aj_status j) \<Longrightarrow> job_edit j (fail_job e t j)"

inductive_cases job_editE: "job_edit j j1"

abbreviation job_path :: "archive_job \<Rightarrow> archive_job \<Rightarrow> bool" where
  "job_path \<equiv> job_edit\<^sup>*\<^sup>*"

lemma job_edit_id: "job_edit j j1 \<Longrightarrow> aj_id j1 = aj_id j"
  by (erule job_editE) (auto simp: count_batch_def succeed_def fail_job_def)

lemma job_path_id: "job_path j j1 \<Longrightarrow> aj_id j1 = aj_id j"
  by (induction rule: rtranclp_induct) (auto dest: job_edit_id)

section \<open>Stores\<close>

text \<open>The job table is left alone, or keeps its primary keys.\<close>

definition same_jobs :: "store \<Rightarrow> store \<Rightarrow> bool" where
  "same_jobs s s' \<longleftrightarrow> st_jobs s' = st_jobs s \<and> st_next_id s \<le> st_next_id s'"

definition job_keys :: "store \<Rightarrow> store \<Rightarrow> bool" where
  "job_keys s s' \<longleftrightarrow> map aj_id (st_jobs s') = map aj_id (st_jobs s) \<and> st_next_id s \<le> st_next_id s'"

lemma same_jobs_refl [simp]: "same_jobs s s"
  by (simp add: same_jobs_def)

lemma same_jobs_trans: "same_jobs s s1 \<Longrightarrow> same_jobs s1 s2 \<Longrightarrow> same_jobs s s2"
  by (auto simp: same_jobs_def)

lemma same_jobs_get: "same_jobs s s' \<Longrightarrow> get_job s' k = get_job s k"
  by (simp add: same_jobs_def get_job_def)

lemma same_jobs_frame [simp]:
  "same_jobs s (put_workflow w s1) = same_jobs s s1" "same_jobs s (set_execute_result i r s1) = same_jobs s s1"
  "same_jobs s (emit e s1) = same_jobs s s1" "same_jobs s (deliver t s1) = same_jobs s s1"
  "same_jobs s (abort_workflow j s1) = same_jobs s s1"
  "same_jobs s s1 \<Longrightarrow> same_jobs s (log_batch i n st a b c m tm s1)"
  by (simp_all add: same_jobs_def log_batch_def abort_workflow_def store_defs split: option.splits)

lemma jobs_wf_keys: "job_keys s s' \<Longrightarrow> jobs_wf s \<Longrightarrow> jobs_wf s'"
proof -
  assume k: "job_keys s s'" and wf: "jobs_wf s"
  have "aj_id ` set (st_jobs s') = aj_id ` set (st_jobs s)"
    using k by (metis job_keys_def list.set_map)
  moreover have "\<forall>i\<in>aj_id ` set (st_jobs s). i < st_next_id s" using wf by (auto simp: jobs_wf_def table_wf_def)
  ultimately have "\<forall>i\<in>aj_id ` set (st_jobs s'). i < st_next_id s'" using k by (auto simp: job_keys_def)
  with k wf show "jobs_wf s'" by (auto simp: jobs_wf_def table_wf_def job_keys_def)
qed

text \<open>\<open>touched jid s s'\<close>: of the jobs, only \<open>jid\<close> changed, along a path of the machine.\<close>

definition touched :: "int \<Rightarrow> store \<Rightarrow> store \<Rightarrow> bool" where
  "touched jid s s' \<longleftrightarrow> (\<forall>k. k \<noteq> jid \<longrightarrow> get_job s' k = get_job s k)
     \<and> rel_option job_path (get_job s jid) (get_job s' jid) \<and> job_keys s s'"

text \<open>\<open>jobs_moved s s'\<close>: every job went along a path of the machine; jobs may be new.\<close>

definition jobs_moved :: "store \<Rightarrow> store \<Rightarrow> bool" where
  "jobs_moved s s' \<longleftrightarrow> (\<forall>k j. get_job s k = Some j \<longrightarrow> (\<exists>j'. get_job s' k = Some j' \<and> job_path j j'))"

lemma touched_same: "same_jobs s s' \<Longrightarrow> touched jid s s'"
  using same_jobs_get [of s s'] by (simp add: touched_def option.rel_refl) (simp add: same_jobs_def job_keys_def)

lemma touched_trans:
  assumes "touched jid s s1" "touched jid s1 s2"
  shows "touched jid s s2"
proof -
  have "rel_option job_path (get_job s jid) (get_job s2 jid)"
    using assms by (cases "get_job s jid"; cases "get_job s1 jid"; cases "get_job s2 jid") (auto simp: touched_def)
  with assms show ?thesis by (auto simp: touched_def job_keys_def)
qed

lemma touched_then_same: "touched jid s s1 \<Longrightarrow> same_jobs s1 s2 \<Longrightarrow> touched jid s s2"
  by (erule touched_trans) (rule touched_same)

lemma touched_from_same: "touched jid s1 s2 \<Longrightarrow> same_jobs s s1 \<Longrightarrow> touched jid s s2"
  by (erule touched_trans [rotated]) (rule touched_same)

lemma get_put_job_other: "k \<noteq> aj_id j \<Longrightarrow> get_job (put_job j s) k = get_job s k"
  by (rule job_tab.sel_put_other)

lemma touched_put:
  assumes "get_job s jid = Some j" "job_path j j1"
  shows "touched jid s (put_job j1 s)"
proof -
  have id: "aj_id j1 = jid" using assms job_path_id get_job_SomeD by metis
  from put_job_same [OF assms(1) id] have "get_job (put_job j1 s) jid = Some j1" .
  with assms id show ?thesis
    by (simp add: touched_def get_put_job_other) (simp add: job_keys_def put_job_def map_key_row_put)
qed

lemma touched_edit: "get_job s jid = Some j \<Longrightarrow> job_edit j j1 \<Longrightarrow> touched jid s (put_job j1 s)"
  by (rule touched_put) auto

lemma touched_update:
  assumes "\<And>j. get_job s jid = Some j \<Longrightarrow> job_path j (f j)"
  shows "touched jid s (update_job jid f s)"
proof (cases "get_job s jid")
  case None
  then show ?thesis by (auto simp: update_job_def intro: touched_same)
next
  case (Some j)
  with touched_put [OF Some assms [OF Some]] show ?thesis by (simp add: update_job_def)
qed

lemma touched_moved: "touched jid s s' \<Longrightarrow> jobs_moved s s'"
  unfolding touched_def jobs_moved_def
  by (metis option.rel_sel option.sel option.distinct(1) option.collapse rtranclp.rtrancl_refl)

lemma jobs_moved_trans: "jobs_moved s s1 \<Longrightarrow> jobs_moved s1 s2 \<Longrightarrow> jobs_moved s s2"
  unfolding jobs_moved_def by (meson rtranclp_trans)

lemma jobs_moved_same: "st_jobs s' = st_jobs s \<Longrightarrow> jobs_moved s s'"
  by (auto simp: jobs_moved_def get_job_def)

section \<open>Control requests\<close>

lemma cancel_touched:
  assumes "get_job s jid = Some j" "cancel_job s j u now = Inr (j1, s1)"
    and "aj_status j \<noteq> JOB_PENDING_REVIEW \<or> \<not> truthy_id (aj_workflow_id j)"
  shows "touched jid s s1"
proof -
  consider (drop) "aj_status j = JOB_PENDING_REVIEW \<or> startable (aj_status j)"
      "same_jobs (put_job (j\<lparr>aj_status := JOB_CANCELED, aj_finished_at := Some now\<rparr>) s) s1"
    | (cancel) "aj_status j \<in> {JOB_RUNNING, JOB_PAUSING}" "s1 = put_job (j\<lparr>aj_status := JOB_CANCELING, aj_finished_at := None\<rparr>) s"
    using assms(2,3)
    by (auto simp: cancel_job_def startable_def Let_def res_simps split: if_splits)
  then show ?thesis
  proof cases
    case drop
    from drop(1) have "job_edit j (j\<lparr>aj_status := JOB_CANCELED, aj_finished_at := Some now\<rparr>)"
      by (intro job_edit.drop) auto
    from touched_edit [OF assms(1) this] show ?thesis by (rule touched_then_same) (use drop(2) in simp)
  next
    case cancel
    show ?thesis unfolding cancel(2) by (rule touched_edit [OF assms(1) job_edit.cancel [OF cancel(1)]])
  qed
qed

lemma control_touched:
  assumes "set_job_control_state s jid action u now = Inr (j1, s1)" "get_job s jid = Some j"
    and "aj_status j \<noteq> JOB_PENDING_REVIEW \<or> \<not> truthy_id (aj_workflow_id j)"
  shows "touched jid s s1"
proof -
  from assms(1,2) consider
      (pause) "aj_status j \<in> {JOB_QUEUED, JOB_RUNNING}" "s1 = put_job (j\<lparr>aj_status := JOB_PAUSING\<rparr>) s"
    | (resume) "aj_status j = JOB_PAUSED" "s1 = put_job (j\<lparr>aj_status := JOB_QUEUED\<rparr>) s"
    | (cancel) "cancel_job s j u now = Inr (j1, s1)"
    by (auto simp: set_job_control_state_def get_job_obj_def res_simps set_status_def Let_def split: if_splits)
  then show ?thesis
  proof cases
    case pause
    show ?thesis unfolding pause(2) by (rule touched_edit [OF assms(2) job_edit.pause [OF pause(1)]])
  next
    case resume
    have "job_edit j (j\<lparr>aj_status := JOB_QUEUED, aj_finished_at := aj_finished_at j\<rparr>)"
      using resume(1) by (intro job_edit.decide) (simp_all add: startable_def)
    from touched_edit [OF assms(2) this] resume(2) show ?thesis by simp
  next
    case cancel
    from cancel_touched [OF assms(2) cancel assms(3)] show ?thesis .
  qed
qed

lemma apply_controls_touched:
  assumes "running s jid"
  shows "touched jid s (apply_controls jid now rs s)"
  using assms
proof (induction rs arbitrary: s)
  case Nil
  then show ?case by (simp add: touched_same)
next
  case (Cons r rs)
  obtain action u where r: "r = (action, u)" by (cases r)
  show ?case
  proof (cases "set_job_control_state s jid action u now")
    case (Inl e)
    with Cons r show ?thesis by simp
  next
    case (Inr js)
    obtain j1 s1 where js: "js = (j1, s1)" by (cases js)
    obtain j where j: "get_job s jid = Some j" using running_job Cons.prems by blast
    then have w: "in_worker (aj_status j)" using Cons.prems by (simp add: running_def)
    from control_in_worker [OF j w Inr [unfolded js]] obtain st f where
      s1: "j1 = j\<lparr>aj_status := st, aj_finished_at := f\<rparr>" "in_worker st" "s1 = put_job j1 s" by blast
    have "get_job s1 jid = Some j1"
      unfolding s1(3) by (rule put_job_same [OF j]) (simp add: s1(1) get_job_SomeD [OF j])
    with s1 have "running s1 jid" by (simp add: running_def)
    moreover have "touched jid s s1"
      using control_touched [OF Inr [unfolded js] j] w by (auto simp: in_worker_def)
    ultimately show ?thesis using Cons.IH r Inr js by (auto intro: touched_trans)
  qed
qed

section \<open>The worker\<close>

fun round_touched :: "int \<Rightarrow> store \<Rightarrow> round \<Rightarrow> bool" where
  "round_touched jid s (Stop s1) = touched jid s s1"
| "round_touched jid s (Go s1) = (touched jid s s1 \<and> running s1 jid)"
| "round_touched jid s (Fail e s1) = (touched jid s s1 \<and> running s1 jid)"

fun end_touched :: "int \<Rightarrow> store \<Rightarrow> loop_end \<Rightarrow> bool" where
  "end_touched jid s (Ended s1) = touched jid s s1"
| "end_touched jid s (Failed e s1) = (touched jid s s1 \<and> running s1 jid)"
| "end_touched jid s (Exhausted s1) = (touched jid s s1 \<and> running s1 jid)"

lemma end_touched_trans: "touched jid s s1 \<Longrightarrow> end_touched jid s1 r \<Longrightarrow> end_touched jid s r"
  by (cases r) (auto intro: touched_trans)

locale tracked_loop =
  fixes step :: "nat \<Rightarrow> store \<Rightarrow> round" and jid :: int
  assumes step_touched: "running s jid \<Longrightarrow> round_touched jid s (step i s)"
begin

lemma loop_touched: "running s jid \<Longrightarrow> end_touched jid s (run_rounds step fuel i s)"
proof (induction fuel arbitrary: i s)
  case 0
  then show ?case by (simp add: touched_same)
next
  case (Suc fuel)
  show ?case
  proof (cases "step i s")
    case (Go s1)
    with step_touched [OF Suc.prems, of i] have "touched jid s s1" "running s1 jid" by simp_all
    with Suc.IH Go show ?thesis by (auto intro: end_touched_trans)
  qed (use step_touched [OF Suc.prems, of i] in simp_all)
qed

end

lemma touched_count: "running s jid \<Longrightarrow> touched jid s (update_job jid (count_batch n d e) s)"
  by (rule touched_update) (auto simp: running_def intro: job_edit.count)

lemma touched_succeed: "running s jid \<Longrightarrow> touched jid s (update_job jid (succeed t) s)"
  by (rule touched_update) (auto simp: running_def intro: job_edit.finish)

lemma touched_log: "touched jid s1 s \<Longrightarrow> touched jid s1 (log_batch i n st a b c m t s)"
  by (erule touched_then_same) simp

lemma running_controls:
  assumes "running s jid"
  shows "running (apply_controls jid now rs s) jid"
proof -
  obtain j where j: "get_job s jid = Some j" using running_job assms by blast
  with assms have "in_worker (aj_status j)" by (simp add: running_def)
  from apply_controls_job [OF j this, of now rs] show ?thesis by (auto simp: running_def)
qed

lemma running_log [simp]: "running (log_batch i n st a b c m t s) jid = running s jid"
  by (simp add: running_def)

lemma post_batch_touched:
  assumes "running s jid"
  shows "touched jid s (snd (post_batch_control jid now s))" "running (snd (post_batch_control jid now s)) jid \<or> \<not> fst (post_batch_control jid now s)"
proof -
  obtain j where j: "get_job s jid = Some j" using running_job assms by blast
  show "touched jid s (snd (post_batch_control jid now s))"
    using touched_edit [OF j job_edit.paused] touched_edit [OF j job_edit.drop, of now]
    by (auto simp: post_batch_control_def j touched_same)
  show "running (snd (post_batch_control jid now s)) jid \<or> \<not> fst (post_batch_control jid now s)"
    using assms by (simp add: post_batch_control_def j)
qed

lemma after_batch_touched:
  assumes "touched jid s s1" "running s1 jid"
  shows "round_touched jid s (after_batch jid now finished s1)"
  using touched_trans [OF assms(1) touched_succeed [OF assms(2), of now]]
    touched_trans [OF assms(1) post_batch_touched(1) [OF assms(2), of now]] post_batch_touched(2) [OF assms(2), of now]
  by (auto simp: after_batch_def split: prod.splits)

lemma batch_done_touched:
  assumes "running s jid"
  shows "round_touched jid s (after_batch jid now finished
      (log_batch jid n st a b d m t (update_job jid (count_batch k d' est) (apply_controls jid now rs s))))"
proof (rule after_batch_touched)
  from running_controls [OF assms] have r: "running (apply_controls jid now rs s) jid" .
  show "touched jid s (log_batch jid n st a b d m t (update_job jid (count_batch k d' est) (apply_controls jid now rs s)))"
    by (rule touched_log, rule touched_trans [OF apply_controls_touched [OF assms] touched_count [OF r]])
  show "running (log_batch jid n st a b d m t (update_job jid (count_batch k d' est) (apply_controls jid now rs s))) jid"
    by (rule counted_running [OF r])
qed

lemma controls_log_touched:
  "running s jid \<Longrightarrow> touched jid s (log_batch i n st a b c m t (apply_controls jid now rs s))"
  by (intro touched_log apply_controls_touched)

lemma controls_succeed_touched:
  "running s jid \<Longrightarrow> touched jid s (update_job jid (succeed t) (apply_controls jid now rs s))"
  by (rule touched_trans [OF apply_controls_touched touched_succeed [OF running_controls]])

lemmas round_facts = apply_controls_touched running_controls batch_done_touched controls_log_touched controls_succeed_touched

interpretation purge_track: tracked_loop "purge_round engine sql jid controls now" jid for engine sql jid controls now
proof
  fix s i assume s: "running s jid"
  show "round_touched jid s (purge_round engine sql jid controls now i s)"
    using round_facts [OF s] running_job [OF s] by (auto simp: purge_round_def Let_def split: sum.splits prod.splits)
qed

interpretation mongo_track: tracked_loop "purge_mongo_round engine jid controls now" jid for engine jid controls now
proof
  fix s i assume s: "running s jid"
  show "round_touched jid s (purge_mongo_round engine jid controls now i s)"
    using round_facts [OF s] running_job [OF s] by (auto simp: purge_mongo_round_def Let_def split: sum.splits)
qed

interpretation dest_track: tracked_loop "dest_round src dest ty sqls jid controls now" jid for src dest ty sqls jid controls now
proof
  fix s i assume s: "running s jid"
  show "round_touched jid s (dest_round src dest ty sqls jid controls now i s)"
    using round_facts [OF s] running_job [OF s] by (auto simp: dest_round_def Let_def split: sum.splits prod.splits)
qed

interpretation dest_mongo_track: tracked_loop "dest_mongo_round src dest jid controls now" jid for src dest jid controls now
proof
  fix s i assume s: "running s jid"
  show "round_touched jid s (dest_mongo_round src dest jid controls now i s)"
    using round_facts [OF s] running_job [OF s] by (auto simp: dest_mongo_round_def Let_def split: sum.splits)
qed

lemma end_touched_exhausted:
  "end_touched jid s r \<Longrightarrow> end_touched jid s (raise_exhausted r)"
  "end_touched jid s r \<Longrightarrow> end_touched jid s (end_exhausted r)"
  by (cases r; simp add: raise_exhausted_def end_exhausted_def)+

lemma end_touched_fail:
  "running s jid \<Longrightarrow> (\<And>x. r = Inr x \<Longrightarrow> end_touched jid s (f x)) \<Longrightarrow> end_touched jid s (loop_or_fail s r f)"
  by (cases r) (simp_all add: loop_or_fail_def touched_same)

lemma single_delete_touched:
  assumes "running s jid"
  shows "end_touched jid s (single_delete engine sql jid controls now s)"
proof -
  let ?s0 = "apply_controls jid now (controls 0) s"
  have *: "touched jid s (update_job jid (\<lambda>j. succeed now (count_batch (aj_current_batch j + 1) a est j)) ?s0)" for a est
  proof (rule touched_trans [OF apply_controls_touched [OF assms] touched_update])
    fix j assume "get_job ?s0 jid = Some j"
    then have "in_worker (aj_status j)" using running_controls [OF assms, of now "controls 0"] by (simp add: running_def)
    then have "job_edit j (count_batch (aj_current_batch j + 1) a est j)"
      "in_worker (aj_status (count_batch (aj_current_batch j + 1) a est j))"
      by (rule job_edit.count, simp add: count_batch_def)
    then show "job_path j (succeed now (count_batch (aj_current_batch j + 1) a est j))"
      by (meson converse_rtranclp_into_rtranclp job_edit.finish r_into_rtranclp)
  qed
  show ?thesis
    using round_facts [OF assms] running_job [OF assms]
    by (auto simp: single_delete_def Let_def intro!: touched_log * split: sum.splits prod.splits)
qed

lemmas loop_touched = purge_track.loop_touched mongo_track.loop_touched dest_track.loop_touched dest_mongo_track.loop_touched

lemma purge_job_touched:
  "running s (aj_id j) \<Longrightarrow> end_touched (aj_id j) s (execute_purge_job env s j controls now)"
  unfolding execute_purge_job_def by (auto intro!: end_touched_fail end_touched_exhausted single_delete_touched loop_touched)

lemma dest_job_touched:
  "running s (aj_id j) \<Longrightarrow> end_touched (aj_id j) s (execute_dest_job env s j controls now)"
  unfolding execute_dest_job_def by (auto intro!: end_touched_fail end_touched_exhausted loop_touched simp: touched_same)

lemma run_job_touched:
  assumes "running s (aj_id j)"
  shows "touched (aj_id j) s (run_job env s j controls now)"
proof -
  have fail: "touched (aj_id j) s (update_job (aj_id j) (fail_job e now) s1)"
    if "touched (aj_id j) s s1" "running s1 (aj_id j)" for e s1
    by (rule touched_trans [OF that(1) touched_update]) (use that(2) in \<open>auto simp: running_def intro: job_edit.failed\<close>)
  show ?thesis
    using purge_job_touched [OF assms, of env controls now] dest_job_touched [OF assms, of env controls now]
    by (auto simp: run_job_def split: loop_end.splits intro: fail)
qed

lemma same_jobs_finish_job [simp]: "same_jobs s (finish_job jid op s)"
  by (simp add: finish_job_def sync_workflow_execution_result_def split: option.splits)

lemma mark_running_touched:
  assumes "get_job s jid = Some j" "aj_status j \<in> {JOB_QUEUED, JOB_PAUSED}"
  shows "touched jid s (mark_running j now s)"
proof -
  let ?j1 = "j\<lparr>aj_status := JOB_RUNNING, aj_started_at := Some (case aj_started_at j of None \<Rightarrow> now | Some t \<Rightarrow> t)\<rparr>"
  have "touched jid s (put_job ?j1 s)" by (rule touched_edit [OF assms(1) job_edit.launch [OF assms(2)]])
  then show ?thesis
    by (rule touched_then_same) (simp add: mark_running_def Let_def split: option.splits)
qed

lemma execute_job_touched: "touched jid s (snd (execute_job env s jid op controls now))"
proof (cases "get_job s jid")
  case None
  then show ?thesis by (simp add: execute_job_def get_job_obj_def touched_same)
next
  case (Some j)
  let ?s0 = "emit (job_event ''execution_started'' j op) (mark_running j now s)"
  have id: "aj_id j = jid" by (rule get_job_SomeD [OF Some])
  show ?thesis
  proof (cases "aj_status j \<in> {JOB_QUEUED, JOB_PAUSED}")
    case True
    have "touched jid s ?s0" using mark_running_touched [OF Some True, of now] by (rule touched_then_same) simp
    moreover have "running ?s0 jid"
      using mark_running_get(1) [OF Some, of now] by (auto simp: running_def in_worker_def)
    ultimately have "touched jid s (run_job env ?s0 j controls now)"
      using run_job_touched [of ?s0 j env controls now] id by (auto intro: touched_trans)
    then have "touched jid s (finish_job jid op (run_job env ?s0 j controls now))"
      by (rule touched_then_same) simp
    with True Some show ?thesis by (simp add: execute_job_def get_job_obj_def)
  next
    case False
    with Some show ?thesis by (simp add: execute_job_def get_job_obj_def touched_same)
  qed
qed

section \<open>The decision to start\<close>

lemma same_jobs_decide:
  assumes "decide s j u d ty r now = Inr s1"
  shows "same_jobs (put_job j s) s1"
proof -
  let ?s0 = "sync_workflow_execution_decision j u d (put_job j s)"
  have "same_jobs (put_job j s) ?s0"
    by (simp add: sync_workflow_execution_decision_def Let_def split: option.splits)
  moreover have "same_jobs ?s0 s1"
    using assms write_execution_log_frame(5,7) [of ?s0 "the (aj_workflow_id j)" u ty r now s1]
    by (auto simp: decide_def write_job_log_def same_jobs_def split: if_splits)
  ultimately show ?thesis by (rule same_jobs_trans)
qed

lemma decide_touched:
  assumes "get_job s jid = Some j" "job_edit j j1" "decide s j1 u d ty r now = Inr s1"
  shows "touched jid s s1"
  using touched_edit [OF assms(1,2)] by (rule touched_then_same) (rule same_jobs_decide [OF assms(3)])

lemma start_immediately_touched:
  assumes "get_job s jid = Some j" "startable (aj_status j)"
  shows "touched jid s (snd (start_job_immediately env s j u task controls now))"
proof -
  let ?j1 = "j\<lparr>aj_status := JOB_QUEUED, aj_finished_at := None\<rparr>"
  have edit: "job_edit j ?j1" using assms(2) by (intro job_edit.decide) simp_all
  have id: "aj_id j = jid" by (rule get_job_SomeD [OF assms(1)])
  show ?thesis
  proof (cases "decide s ?j1 u \<lparr> de_mode = ''immediate'', de_status = QUEUING, de_scheduled_at = None, de_external_at = None,
                           de_external_status = None, de_external_remark = None \<rparr>
             OP_EXECUTE ''queued for platform execution'' now")
    case (Inl e)
    then show ?thesis by (simp add: start_job_immediately_def Let_def touched_same)
  next
    case (Inr s1)
    from decide_touched [OF assms(1) edit Inr] have t1: "touched jid s s1" .
    show ?thesis
    proof (cases task)
      case None
      with Inr touched_trans [OF t1 execute_job_touched [of jid s1 env "op_id u" controls now]] id show ?thesis
        by (auto simp: start_job_immediately_def Let_def split: prod.splits sum.splits)
    next
      case (Some c)
      have "get_job s1 jid = Some ?j1"
        using same_jobs_get [OF same_jobs_decide [OF Inr]] put_job_same [OF assms(1), of ?j1] id by simp
      then have "touched jid s1 (put_job (?j1\<lparr>aj_celery_task_id := c\<rparr>) (deliver (ExecuteArchiveJob (aj_id j) (op_id u)) s1))"
        by (intro touched_from_same [OF touched_edit [OF _ job_edit.task]]) simp_all
      with Inr Some t1 show ?thesis by (auto simp: start_job_immediately_def Let_def intro: touched_trans)
    qed
  qed
qed

lemma schedule_touched:
  assumes "get_job s jid = Some j" "startable (aj_status j)" "schedule_job s j u d now = Inr (r, s1)"
  shows "touched jid s s1"
proof -
  have "job_edit j (j\<lparr>aj_status := JOB_SCHEDULED, aj_finished_at := None\<rparr>)"
    using assms(2) by (intro job_edit.decide) simp_all
  from decide_touched [OF assms(1) this] assms(3) show ?thesis
    by (auto simp: schedule_job_def Let_def res_simps split: option.splits)
qed

lemma external_touched:
  assumes "get_job s jid = Some j" "startable (aj_status j)" "record_external_job s j u d now = Inr (r, s1)"
  shows "touched jid s s1"
proof -
  have "job_edit j (j\<lparr>aj_status := (if ok then JOB_SUCCESS else JOB_FAILED), aj_error_message := m, aj_finished_at := Some t\<rparr>)"
    for ok m t using assms(2) by (intro job_edit.external) simp_all
  from decide_touched [OF assms(1) this] assms(3) show ?thesis
    by (auto simp: record_external_job_def Let_def res_simps split: option.splits)
qed

lemma start_job_touched: "touched jid s (snd (start_job env s jid u data task controls now))"
proof (cases "get_job s jid")
  case None
  then show ?thesis by (simp add: start_job_def get_job_obj_def touched_same)
next
  case (Some j)
  show ?thesis
  proof (cases "check_execute s j u")
    case (Inl e)
    with Some show ?thesis by (simp add: start_job_def get_job_obj_def touched_same)
  next
    case (Inr x)
    show ?thesis
    proof (cases "startable (aj_status j)")
      case True
      with Some Inr show ?thesis
        using start_immediately_touched [OF Some True, of env u task controls now]
          schedule_touched [OF Some True, of u _ now] external_touched [OF Some True, of u _ now]
        by (auto simp: start_job_def get_job_obj_def startable_def one_commit_def touched_same
            split: option.splits sum.splits prod.splits)
    next
      case False
      with Some Inr show ?thesis by (simp add: start_job_def get_job_obj_def startable_def touched_same)
    qed
  qed
qed

section \<open>The dispatcher\<close>

lemma scheduled_jobs_facts:
  assumes "jobs_wf s"
  shows "\<forall>j\<in>set (scheduled_jobs s locked lim). get_job s (aj_id j) = Some j \<and> aj_status j = JOB_SCHEDULED"
    and "distinct (map aj_id (scheduled_jobs s locked lim))"
proof -
  have d: "distinct (map aj_id (st_jobs s))" using assms by (simp add: jobs_wf_def table_wf_def)
  have in_rows: "j \<in> set (st_jobs s) \<and> aj_status j = JOB_SCHEDULED" if "j \<in> set (scheduled_jobs s locked lim)" for j
    using that by (auto simp: scheduled_jobs_def dest: in_set_takeD)
  show "\<forall>j\<in>set (scheduled_jobs s locked lim). get_job s (aj_id j) = Some j \<and> aj_status j = JOB_SCHEDULED"
    using in_rows row_get_distinct [OF d] by (simp add: get_job_def)
  let ?P = "\<lambda>j. aj_status j = JOB_SCHEDULED \<and> aj_workflow_id j \<noteq> None"
  have "distinct (map aj_id (filter ?P (st_jobs s)))" using d by (rule distinct_map_filter)
  then have "distinct (map aj_id (sort_key aj_id (filter ?P (st_jobs s))))" by (simp add: distinct_map)
  then have "distinct (map aj_id (filter (\<lambda>j. \<not> locked (aj_id j)) (sort_key aj_id (filter ?P (st_jobs s)))))"
    by (rule distinct_map_filter)
  then show "distinct (map aj_id (scheduled_jobs s locked lim))"
    by (simp add: scheduled_jobs_def take_map [symmetric])
qed

lemma queue_due_spec:
  assumes "\<forall>j\<in>set js. get_job s (aj_id j) = Some j \<and> aj_status j = JOB_SCHEDULED" "distinct (map aj_id js)"
    and "queue_due now js s = (due, s')"
  shows "job_keys s s' \<and> aj_id ` set due \<subseteq> aj_id ` set js
    \<and> (\<forall>k. k \<notin> aj_id ` set js \<longrightarrow> get_job s' k = get_job s k)
    \<and> (\<forall>j\<in>set js. \<exists>j'. get_job s' (aj_id j) = Some j' \<and> job_path j j')"
  using assms
proof (induction js arbitrary: s due s')
  case Nil
  then show ?case by (simp add: job_keys_def)
next
  case (Cons j js)
  show ?case
  proof (cases "due_workflow s now j")
    case None
    with Cons.IH [of s due s'] Cons.prems show ?thesis by (auto intro: exI [of _ j])
  next
    case (Some w)
    let ?j1 = "j\<lparr>aj_status := JOB_QUEUED\<rparr>"
    let ?s1 = "put_workflow (w\<lparr>wf_status := QUEUING\<rparr>) (put_job ?j1 s)"
    obtain due1 where q: "queue_due now js ?s1 = (due1, s')" and due: "due = ?j1 # due1"
      using Cons.prems(3) Some by (auto simp: Let_def split: prod.splits)
    have e: "job_edit j ?j1"
      using job_edit.decide [of j JOB_QUEUED "aj_finished_at j"] Cons.prems(1) by (simp add: startable_def)
    have other: "get_job ?s1 k = get_job s k" if "k \<noteq> aj_id j" for k using that by (simp add: get_put_job_other)
    have own: "get_job ?s1 (aj_id j) = Some ?j1" using put_job_same [of s "aj_id j" j ?j1] Cons.prems(1) by simp
    have fresh: "aj_id j \<notin> aj_id ` set js" using Cons.prems(2) by simp
    have keys: "job_keys s ?s1" by (simp add: job_keys_def put_job_def put_workflow_def map_key_row_put)
    have "\<forall>j\<in>set js. get_job ?s1 (aj_id j) = Some j \<and> aj_status j = JOB_SCHEDULED"
      using Cons.prems(1) fresh other by (metis image_eqI list.set_intros(2))
    from Cons.IH [OF this _ q] Cons.prems(2) have ih: "job_keys ?s1 s'" "aj_id ` set due1 \<subseteq> aj_id ` set js"
      "\<forall>k. k \<notin> aj_id ` set js \<longrightarrow> get_job s' k = get_job ?s1 k"
      "\<forall>j\<in>set js. \<exists>j'. get_job s' (aj_id j) = Some j' \<and> job_path j j'" by simp_all
    have "get_job s' (aj_id j) = Some ?j1" using ih(3) fresh own by simp
    moreover have "job_path j ?j1" using e by simp
    moreover have "job_keys s s'" using keys ih(1) by (auto simp: job_keys_def)
    moreover have "\<forall>k. k \<notin> aj_id ` set (j # js) \<longrightarrow> get_job s' k = get_job s k" using ih(3) other by simp
    ultimately show ?thesis using ih(2,4) due by auto
  qed
qed

lemma send_due_same: "send_due delay js s sent = (r, s') \<Longrightarrow> same_jobs s s'
    \<and> (\<forall>l. r = Some l \<longrightarrow> fst ` set l \<subseteq> fst ` set sent \<union> aj_id ` set js)"
proof (induction js arbitrary: s sent)
  case Nil
  then show ?case by auto
next
  case (Cons j js)
  show ?case
  proof (cases "delay (aj_id j)")
    case None
    with Cons.prems show ?thesis by (auto simp: Let_def)
  next
    case (Some c)
    with Cons.prems obtain op where
      "send_due delay js (deliver (ExecuteArchiveJob (aj_id j) op) s) (sent @ [(aj_id j, c)]) = (r, s')"
      by (auto simp: Let_def)
    from Cons.IH [OF this] show ?thesis by (auto simp: same_jobs_def store_defs)
  qed
qed

lemma fold_task_ids:
  "job_keys s (fold (\<lambda>(jid, t). update_job jid (\<lambda>j. j\<lparr>aj_celery_task_id := t\<rparr>)) sent s)
   \<and> jobs_moved s (fold (\<lambda>(jid, t). update_job jid (\<lambda>j. j\<lparr>aj_celery_task_id := t\<rparr>)) sent s)
   \<and> (\<forall>k. k \<notin> fst ` set sent \<longrightarrow> get_job (fold (\<lambda>(jid, t). update_job jid (\<lambda>j. j\<lparr>aj_celery_task_id := t\<rparr>)) sent s) k = get_job s k)"
proof (induction sent arbitrary: s)
  case Nil
  then show ?case by (simp add: job_keys_def jobs_moved_same)
next
  case (Cons x sent)
  obtain jid t where x: "x = (jid, t)" by (cases x)
  let ?s1 = "update_job jid (\<lambda>j. j\<lparr>aj_celery_task_id := t\<rparr>) s"
  have "touched jid s ?s1" by (rule touched_update) (auto intro: job_edit.task)
  then have "jobs_moved s ?s1" "job_keys s ?s1" "\<forall>k. k \<noteq> jid \<longrightarrow> get_job ?s1 k = get_job s k"
    by (auto intro: touched_moved simp: touched_def)
  with Cons.IH [of ?s1] x show ?case by (auto intro: jobs_moved_trans simp: job_keys_def)
qed

lemma dispatch_jobs_moved:
  assumes "jobs_wf s" "dispatch_scheduled_jobs s now locked delay lim = (r, s')"
  shows "job_keys s s' \<and> jobs_moved s s'
    \<and> (\<forall>k j. get_job s k = Some j \<longrightarrow> aj_status j \<noteq> JOB_SCHEDULED \<longrightarrow> get_job s' k = Some j)"
proof -
  let ?js = "scheduled_jobs s locked lim"
  obtain due s1 where q: "queue_due now ?js s = (due, s1)" by (cases "queue_due now ?js s")
  note f = scheduled_jobs_facts [OF assms(1), of locked lim]
  from queue_due_spec [OF f q] have q1: "job_keys s s1" "aj_id ` set due \<subseteq> aj_id ` set ?js"
    "\<forall>k. k \<notin> aj_id ` set ?js \<longrightarrow> get_job s1 k = get_job s k"
    "\<forall>j\<in>set ?js. \<exists>j'. get_job s1 (aj_id j) = Some j' \<and> job_path j j'" by simp_all
  obtain sent s2 where d: "send_due delay due s1 [] = (sent, s2)" by (cases "send_due delay due s1 []")
  from send_due_same [OF d] have d1: "same_jobs s1 s2" "\<forall>l. sent = Some l \<longrightarrow> fst ` set l \<subseteq> aj_id ` set due" by auto
  from d1 q1 have s2: "job_keys s s2" "jobs_moved s s2" "\<forall>k. k \<notin> aj_id ` set ?js \<longrightarrow> get_job s2 k = get_job s k"
    using f(1) by (auto simp: job_keys_def same_jobs_def jobs_moved_def get_job_def) (metis (no_types, lifting) f(1) get_job_def image_iff option.sel rtranclp.rtrancl_refl)
  have keep: "k \<notin> aj_id ` set ?js" if "get_job s k = Some j" "aj_status j \<noteq> JOB_SCHEDULED" for k j
    using f(1) that by fastforce
  show ?thesis
  proof (cases sent)
    case None
    with assms(2) q d s2 keep show ?thesis by (auto simp: dispatch_scheduled_jobs_def)
  next
    case (Some l)
    with assms(2) q d have s': "s' = fold (\<lambda>(jid, t). update_job jid (\<lambda>j. j\<lparr>aj_celery_task_id := t\<rparr>)) l s2"
      by (auto simp: dispatch_scheduled_jobs_def)
    have "k \<notin> fst ` set l" if "k \<notin> aj_id ` set ?js" for k using that d1(2) Some q1(2) by auto
    with fold_task_ids [of s2 l] s2 keep show ?thesis
      unfolding s' by (auto intro: jobs_moved_trans simp: job_keys_def)
  qed
qed

section \<open>Reviews and submissions\<close>

lemma job_reviewed_edit: "job_reviewed j j1 \<Longrightarrow> job_edit j j1"
  by (auto simp: job_reviewed_def startable_def intro: job_edit.approve job_edit.drop)

text \<open>A review step changes at most the job of its workflow.\<close>

lemma operate_jobs:
  assumes "operate s wid action u r t = Inr (m, st, s')" "jobs_wf s"
  shows "job_keys s s' \<and> (\<forall>k j. get_job s k = Some j \<longrightarrow> get_job s' k = Some j
      \<or> (\<exists>j1. get_job s' k = Some j1 \<and> job_reviewed j j1 \<and> aj_workflow_id j = Some wid
           \<and> (aj_status j1 = JOB_APPROVED \<longrightarrow> st = REVIEW_PASS)))"
proof -
  from assms(1) obtain w a1 where w: "get_workflow s wid = Some w" and st: "settled s s' (w\<lparr>wf_status := st\<rparr>) a1"
    by (rule operate_settled)
  have wid: "wf_id w = wid" by (rule workflow_tab.sel_key [OF w])
  from st wid have nid: "st_next_id s' = st_next_id s + 1" and js: "st_jobs s' = st_jobs s \<or>
     (\<exists>j j1. find_job_of_workflow s wid = Inr (Some j) \<and> st_jobs s' = row_put aj_id j1 (st_jobs s)
        \<and> job_reviewed j j1 \<and> (aj_status j1 = JOB_APPROVED \<longrightarrow> st = REVIEW_PASS))"
    by (auto simp: settled_def job_settled_def)
  from js show ?thesis
  proof (elim disjE exE conjE)
    assume "st_jobs s' = st_jobs s"
    then show ?thesis using nid by (simp add: job_keys_def get_job_def)
  next
    fix j j1
    assume f: "find_job_of_workflow s wid = Inr (Some j)" and s': "st_jobs s' = row_put aj_id j1 (st_jobs s)"
      and r: "job_reviewed j j1" "aj_status j1 = JOB_APPROVED \<longrightarrow> st = REVIEW_PASS"
    from find_job_in [OF f] have j: "j \<in> set (st_jobs s)" "aj_workflow_id j = Some wid" by auto
    then have g: "get_job s (aj_id j) = Some j"
      using assms(2) by (simp add: get_job_def jobs_wf_def table_wf_def row_get_distinct)
    have id: "aj_id j1 = aj_id j" using job_reviewed_key [OF r(1)] by simp
    have "get_job s' k = get_job (put_job j1 s) k" for k by (simp add: get_job_def s' put_job_def)
    then have "get_job s' (aj_id j) = Some j1" "\<And>k. k \<noteq> aj_id j \<Longrightarrow> get_job s' k = get_job s k"
      using put_job_same [OF g id] by (simp_all add: get_put_job_other id)
    moreover have "job_keys s s'" using nid s' by (simp add: job_keys_def map_key_row_put)
    ultimately show ?thesis using g j(2) r
      by (metis (no_types, lifting) option.inject)
  qed
qed

lemma submit_jobs:
  assumes "submit_job env s d u now = Inr (j0, s')" "jobs_wf s"
  shows "jobs_wf s' \<and> (\<forall>k j. get_job s k = Some j \<longrightarrow> get_job s' k = Some j)"
proof -
  obtain w s1 n plan rg where c: "create_archive_workflow s d u rg n plan now = Inr (w, s1)"
    and s': "s' = add_job j0 s1" and j0: "aj_id j0 = st_next_id s1"
    using assms(1) by (auto simp: submit_job_def Let_def res_simps new_job_def split: prod.splits)
  define s2 where "s2 = add_content \<lparr> wc_id = st_next_id (add_workflow w s), wc_workflow_id = wf_id w,
      wc_sql_content = archive_content d n, wc_review_content = [],
      wc_execute_result = ResNone, wc_risk_plan = Some plan, wc_risk_remark = rq_risk_remark d \<rparr> (add_workflow w s)"
  have s2: "st_jobs s2 = st_jobs s" "st_next_id s \<le> st_next_id s2"
    by (simp_all add: s2_def add_workflow_def add_content_def)
  from c obtain ns where "archive_chain s (rq_flow_id d) u = Inr ns"
    by (auto simp: create_archive_workflow_def res_simps)
  with c obtain a s3 where a: "create_audit s2 w WT_ARCHIVE u (Some ns) now = (a, s3)"
    and s1: "s1 = emit_submitted w WT_ARCHIVE a s3"
    by (cases "create_audit s2 w WT_ARCHIVE u (Some ns) now")
      (auto simp: create_archive_workflow_def Let_def s2_def split: prod.splits)
  have "st_jobs s1 = st_jobs s" "st_next_id s \<le> st_next_id s1"
    using create_audit_record [OF a] s2 s1 by simp_all
  then have "same_jobs s s1" "jobs_wf s1"
    using jobs_wf_keys [OF _ assms(2), of s1] by (simp_all add: same_jobs_def job_keys_def)
  with s' j0 show ?thesis
    by (auto simp: same_jobs_get intro: job_tab.ok_add job_tab.sel_add_mono)
qed

section \<open>The life of a job\<close>

datatype life_action =
    Reviewed workflow_status | Controlled string | Started | Ran | Dispatched | Submitted | Elsewhere

text \<open>
  A step of the system on the archive jobs: any operation of the archive service or of the
  review, with any arguments, or a step elsewhere that leaves the job table alone.
\<close>

inductive life_step :: "archive_env \<Rightarrow> store \<Rightarrow> life_action \<Rightarrow> store \<Rightarrow> bool" for env where
  review: "operate s wid action u remark now = Inr (m, st, s') \<Longrightarrow> life_step env s (Reviewed st) s'"
| control: "set_job_control_state s jid action u now = Inr (j, s') \<Longrightarrow> life_step env s (Controlled action) s'"
| start: "start_job env s jid u data task controls now = (r, s') \<Longrightarrow> life_step env s Started s'"
| run: "execute_job env s jid operator_id controls now = (r', s') \<Longrightarrow> life_step env s Ran s'"
| dispatch: "dispatch_scheduled_jobs s now locked delay lim = (n, s') \<Longrightarrow> life_step env s Dispatched s'"
| submit: "submit_job env s d u now = Inr (j, s') \<Longrightarrow> life_step env s Submitted s'"
| elsewhere: "same_jobs s s' \<Longrightarrow> life_step env s Elsewhere s'"

inductive life_run :: "archive_env \<Rightarrow> store \<Rightarrow> life_action list \<Rightarrow> store \<Rightarrow> bool" for env where
  stay: "life_run env s [] s"
| step: "life_step env s a s1 \<Longrightarrow> life_run env s1 as s2 \<Longrightarrow> life_run env s (a # as) s2"

inductive_cases life_run_NilE [elim!]: "life_run env s [] s'"
inductive_cases life_run_ConsE: "life_run env s (a # as) s'"

lemma control_cases:
  assumes "set_job_control_state s jid action u now = Inr (j1, s')"
  obtains (own) "touched jid s s'"
  | (withdraw) j wid m st where "get_job s jid = Some j" "aj_status j = JOB_PENDING_REVIEW"
      "operate s wid OP_CANCEL u ''cancelled by the applicant or a superuser'' now = Inr (m, st, s')"
proof -
  obtain j where j: "get_job s jid = Some j"
    using assms by (auto simp: set_job_control_state_def get_job_obj_def res_simps split: option.splits)
  show thesis
  proof (cases "aj_status j \<noteq> JOB_PENDING_REVIEW \<or> \<not> truthy_id (aj_workflow_id j)")
    case True
    from control_touched [OF assms j True] show thesis by (rule own)
  next
    case False
    with assms j obtain m st where
      "operate s (the (aj_workflow_id j)) OP_CANCEL u ''cancelled by the applicant or a superuser'' now = Inr (m, st, s')"
      by (auto simp: set_job_control_state_def get_job_obj_def cancel_job_def res_simps set_status_def Let_def split: if_splits)
    with False show thesis by (intro withdraw [OF j]) auto
  qed
qed

lemma operate_moved:
  assumes "operate s wid action u r t = Inr (m, st, s')" "jobs_wf s"
  shows "jobs_moved s s' \<and> jobs_wf s'"
proof
  from operate_jobs [OF assms] show "jobs_moved s s'"
    unfolding jobs_moved_def by (meson job_reviewed_edit r_into_rtranclp rtranclp.rtrancl_refl)
  from operate_jobs [OF assms] show "jobs_wf s'" using jobs_wf_keys assms(2) by blast
qed

lemma touched_moved_wf: "touched jid s s' \<Longrightarrow> jobs_wf s \<Longrightarrow> jobs_moved s s' \<and> jobs_wf s'"
  using touched_moved jobs_wf_keys by (auto simp: touched_def)

lemma life_step_moved:
  assumes "life_step env s a s'" "jobs_wf s"
  shows "jobs_moved s s' \<and> jobs_wf s'"
  using assms(1)
proof cases
  case (review wid action u remark now m st)
  from operate_moved [OF review(2) assms(2)] show ?thesis .
next
  case (control jid action u now j)
  from control(2) show ?thesis
    by (cases rule: control_cases) (use operate_moved touched_moved_wf assms(2) in blast)+
next
  case (start jid u data task controls now r)
  have "touched jid s s'" using start_job_touched [of jid s env u data task controls now] start(2) by simp
  from touched_moved_wf [OF this assms(2)] show ?thesis .
next
  case (run jid op controls now r)
  have "touched jid s s'" using execute_job_touched [of jid s env op controls now] run(2) by simp
  from touched_moved_wf [OF this assms(2)] show ?thesis .
next
  case (dispatch now locked delay lim n)
  from dispatch_jobs_moved [OF assms(2) dispatch(2)] jobs_wf_keys assms(2) show ?thesis by blast
next
  case (submit d u now j)
  from submit_jobs [OF submit(2) assms(2)] show ?thesis by (auto simp: jobs_moved_def)
next
  case elsewhere
  from touched_same [OF elsewhere(2)] assms(2) show ?thesis by (rule touched_moved_wf)
qed

lemma life_run_moved: "life_run env s as s' \<Longrightarrow> jobs_wf s \<Longrightarrow> jobs_moved s s' \<and> jobs_wf s'"
proof (induction rule: life_run.induct)
  case (stay s)
  then show ?case by (simp add: jobs_moved_same)
next
  case (step s a s1 as s2)
  from life_step_moved [OF step.hyps(1) step.prems] step.IH show ?case by (auto intro: jobs_moved_trans)
qed

section \<open>What the machine keeps\<close>

text \<open>What a job is asked to do, and how it ended.\<close>

definition request_of where
  "request_of j = (aj_workflow_id j, aj_archive_mode j, aj_source_instance_id j, aj_source_db j, aj_source_table j,
     aj_condition j, aj_dest_instance_id j, aj_dest_db j, aj_dest_table j, aj_batch_size j, aj_estimated_rows j,
     aj_risk_plan j, aj_created_by_id j)"

definition outcome_of where
  "outcome_of j = (aj_status j, aj_processed_rows j, aj_current_batch j, aj_error_message j, aj_finished_at j)"

definition closed :: "archive_status \<Rightarrow> bool" where
  "closed st \<longleftrightarrow> st \<in> {JOB_SUCCESS, JOB_FAILED, JOB_CANCELED}"

lemma job_edit_request: "job_edit j j1 \<Longrightarrow> request_of j1 = request_of j"
  by (erule job_editE) (auto simp: request_of_def count_batch_def succeed_def fail_job_def)

lemma job_edit_closed: "job_edit j j1 \<Longrightarrow> closed (aj_status j) \<Longrightarrow> outcome_of j1 = outcome_of j"
  by (erule job_editE) (auto simp: closed_def startable_def in_worker_def outcome_of_def)

lemma job_path_request: "job_path j j1 \<Longrightarrow> request_of j1 = request_of j"
  by (induction rule: rtranclp_induct) (auto dest: job_edit_request)

lemma job_path_closed: "job_path j j1 \<Longrightarrow> closed (aj_status j) \<Longrightarrow> outcome_of j1 = outcome_of j"
proof (induction rule: rtranclp_induct)
  case base
  then show ?case by simp
next
  case (step j1 j2)
  then have "closed (aj_status j1)" by (simp add: outcome_of_def)
  with step job_edit_closed [of j1 j2] show ?case by simp
qed


text \<open>
What runs is what was reviewed, and an end is an end. Over every run of the system the
source, the condition, the destination, the batch size, the estimate, the risk plan, the
applicant and the workflow of a job never change; and a job that is finished, failed or
cancelled keeps its status, counters, error and end time for ever.
\<close>

theorem job_request_and_end_fixed:
  assumes "life_run env s as s'" "jobs_wf s" "get_job s jid = Some j"
  shows "\<exists>j'. get_job s' jid = Some j' \<and> request_of j' = request_of j
    \<and> (closed (aj_status j) \<longrightarrow> outcome_of j' = outcome_of j)"
proof -
  from life_run_moved [OF assms(1,2)] assms(3) obtain j' where "get_job s' jid = Some j'" "job_path j j'"
    by (auto simp: jobs_moved_def)
  with job_path_request job_path_closed show ?thesis by blast
qed

section \<open>Jobs that no operation starts\<close>

text \<open>A job that cannot be started moves only by a review or a control request of its own.\<close>

lemma start_job_refused:
  assumes "get_job s jid = Some j" "\<not> startable (aj_status j)"
  shows "snd (start_job env s jid u data task controls now) = s"
  using assms by (cases "check_execute s j u") (auto simp: start_job_def get_job_obj_def startable_def)

lemma execute_job_idle:
  assumes "get_job s jid = Some j" "\<not> startable (aj_status j)"
  shows "snd (execute_job env s jid op controls now) = s"
  using assms by (auto simp: execute_job_def get_job_obj_def startable_def)

lemma idle_step:
  assumes "life_step env s a s'" "jobs_wf s" "get_job s jid = Some j" "\<not> startable (aj_status j)"
  obtains (still) "get_job s' jid = Some j"
  | (reviewed) wid action u r t m st j1 where "operate s wid action u r t = Inr (m, st, s')" "get_job s' jid = Some j1"
      "job_reviewed j j1" "aj_workflow_id j = Some wid" "aj_status j1 = JOB_APPROVED \<longrightarrow> st = REVIEW_PASS"
  | (control) action u now j1 where "set_job_control_state s jid action u now = Inr (j1, s')"
  using assms(1)
proof cases
  case (review wid action u remark now m st)
  with operate_jobs [OF review(2) assms(2)] assms(3) still reviewed show thesis by blast
next
  case (control jid' action u now j')
  from control(2) show thesis
  proof (cases rule: control_cases)
    case own
    show thesis
    proof (cases "jid' = jid")
      case True
      with control(2) that(3) show thesis by simp
    next
      case False
      with own assms(3) still show thesis by (simp add: touched_def)
    qed
  next
    case (withdraw j2 wid m st)
    with operate_jobs [OF withdraw(3) assms(2)] assms(3) still reviewed show thesis by blast
  qed
next
  case (start jid' u data task controls now r)
  show thesis
  proof (cases "jid' = jid")
    case True
    with start_job_refused [OF assms(3,4), of env u data task controls now] start(2) assms(3) still show thesis by simp
  next
    case False
    have "touched jid' s s'" using start_job_touched [of jid' s env u data task controls now] start(2) by simp
    with False assms(3) still show thesis by (simp add: touched_def)
  qed
next
  case (run jid' op controls now r)
  show thesis
  proof (cases "jid' = jid")
    case True
    with execute_job_idle [OF assms(3,4), of env op controls now] run(2) assms(3) still show thesis by simp
  next
    case False
    have "touched jid' s s'" using execute_job_touched [of jid' s env op controls now] run(2) by simp
    with False assms(3) still show thesis by (simp add: touched_def)
  qed
next
  case (dispatch now locked delay lim n)
  from dispatch_jobs_moved [OF assms(2) dispatch(2)] assms(3,4) have "get_job s' jid = Some j"
    by (auto simp: startable_def)
  with still show thesis .
next
  case (submit d u now j)
  with submit_jobs [OF submit(2) assms(2)] assms(3) still show thesis by blast
next
  case elsewhere
  with assms(3) still same_jobs_get show thesis by simp
qed

lemma operate_review_pass:
  assumes "operate s wid action u r t = Inr (m, REVIEW_PASS, s')"
  shows "action = OP_PASS"
  using assms by (cases rule: operate_ok) (auto dest: do_reject_ok do_cancel_ok)

text \<open>A job in review stays there, is cancelled, or is approved by the pass that ends its chain.\<close>

lemma pending_step:
  assumes "life_step env s a s'" "jobs_wf s" "get_job s jid = Some j" "aj_status j = JOB_PENDING_REVIEW"
  obtains (waits) j1 where "get_job s' jid = Some j1" "aj_status j1 \<in> {JOB_PENDING_REVIEW, JOB_CANCELED}"
      "aj_workflow_id j1 = aj_workflow_id j"
  | (passes) wid u r t m where "operate s wid OP_PASS u r t = Inr (m, REVIEW_PASS, s')" "aj_workflow_id j = Some wid"
proof -
  have rev: thesis if "operate s wid action u r t = Inr (m, st, s')" "get_job s' jid = Some j1" "job_reviewed j j1"
    "aj_workflow_id j = Some wid" "aj_status j1 = JOB_APPROVED \<longrightarrow> st = REVIEW_PASS" for wid action u r t m st j1
  proof (cases "aj_status j1 = JOB_APPROVED")
    case True
    with that operate_review_pass [of s wid action u r t m s'] passes show thesis by auto
  next
    case False
    with that(3) have "aj_status j1 = JOB_CANCELED" by (auto simp: job_reviewed_def)
    with that(2,3) waits job_reviewed_key show thesis by simp
  qed
  have "\<not> startable (aj_status j)" using assms(4) by (simp add: startable_def)
  from assms(1-3) this show thesis
  proof (cases rule: idle_step)
    case still
    with assms(4) waits show thesis by simp
  next
    case (reviewed wid action u r t m st j1)
    then show thesis by (rule rev)
  next
    case (control action u now j1)
    consider (put) "s' = put_job (j\<lparr>aj_status := JOB_CANCELED, aj_finished_at := Some now\<rparr>) s"
      | (op) wid m st where "operate s wid OP_CANCEL u ''cancelled by the applicant or a superuser'' now = Inr (m, st, s')"
      using control assms(3,4)
      by (auto simp: set_job_control_state_def get_job_obj_def cancel_job_def res_simps Let_def split: if_splits)
    then show thesis
    proof cases
      case put
      have "get_job s' jid = Some (j\<lparr>aj_status := JOB_CANCELED, aj_finished_at := Some now\<rparr>)"
        unfolding put by (rule put_job_same [OF assms(3)]) (simp add: get_job_SomeD [OF assms(3)])
      then show thesis by (rule waits) simp_all
    next
      case (op wid m st)
      from operate_jobs [OF op assms(2)] assms(3) consider "get_job s' jid = Some j"
        | j1 where "get_job s' jid = Some j1" "job_reviewed j j1" "aj_workflow_id j = Some wid" "aj_status j1 = JOB_APPROVED \<longrightarrow> st = REVIEW_PASS"
        by blast
      then show thesis
      proof cases
        case 1
        with assms(4) waits show thesis by simp
      next
        case (2 j1)
        with op show thesis by (intro rev)
      qed
    qed
  qed
qed

text \<open>
C29: no job starts before its review. If a job is in review and, later, is neither in review
nor cancelled, then the run of the system goes through a pass that succeeds on the job's own
workflow and ends its chain in REVIEW_PASS; everything before that pass left the job waiting.
\<close>

theorem job_leaves_review_by_its_chain:
  assumes "life_run env s as s'" "jobs_wf s" "get_job s jid = Some j" "aj_status j = JOB_PENDING_REVIEW"
    and "get_job s' jid = Some j'" "aj_status j' \<notin> {JOB_PENDING_REVIEW, JOB_CANCELED}"
  shows "\<exists>as1 a as2 s1 s2 wid u r t m. as = as1 @ a # as2 \<and> life_run env s as1 s1
    \<and> operate s1 wid OP_PASS u r t = Inr (m, REVIEW_PASS, s2) \<and> aj_workflow_id j = Some wid \<and> life_run env s2 as2 s'"
  using assms
proof (induction as arbitrary: s j)
  case Nil
  then show ?case by auto
next
  case (Cons a as)
  from Cons.prems(1) obtain s1 where st: "life_step env s a s1" and run: "life_run env s1 as s'"
    by (rule life_run_ConsE)
  from st Cons.prems(2-4) show ?case
  proof (cases rule: pending_step)
    case (waits j1)
    have wf: "jobs_wf s1" using life_step_moved [OF st Cons.prems(2)] by simp
    have "aj_status j1 = JOB_PENDING_REVIEW"
    proof (rule ccontr)
      assume "aj_status j1 \<noteq> JOB_PENDING_REVIEW"
      with waits(2) have "closed (aj_status j1)" "aj_status j1 = JOB_CANCELED" by (simp_all add: closed_def)
      with job_request_and_end_fixed [OF run wf waits(1)] Cons.prems(5,6) show False by (simp add: outcome_of_def)
    qed
    from Cons.IH [OF run wf waits(1) this Cons.prems(5,6)] obtain as1 a' as2 s2 s3 wid u r t m where
      "as = as1 @ a' # as2" "life_run env s1 as1 s2" "operate s2 wid OP_PASS u r t = Inr (m, REVIEW_PASS, s3)"
      "aj_workflow_id j1 = Some wid" "life_run env s3 as2 s'" by blast
    with waits(3) life_run.step [OF st] show ?thesis by (metis append_Cons)
  next
    case (passes wid u r t m)
    then show ?thesis using run life_run.stay by (metis append_Nil)
  qed
qed

lemma stuck_step:
  assumes "life_step env s a s'" "jobs_wf s" "get_job s jid = Some j" "aj_status j \<in> {JOB_PAUSING, JOB_CANCELING}"
  shows "\<exists>j1. get_job s' jid = Some j1 \<and> aj_status j1 \<in> {JOB_PAUSING, JOB_CANCELING}"
proof -
  have "\<not> startable (aj_status j)" using assms(4) by (auto simp: startable_def)
  from assms(1-3) this show ?thesis
  proof (cases rule: idle_step)
    case still
    with assms(4) show ?thesis by blast
  next
    case (reviewed wid action u r t m st j1)
    with assms(4) show ?thesis by (auto simp: job_reviewed_def)
  next
    case (control action u now j1)
    then have "s' = put_job (j\<lparr>aj_status := JOB_CANCELING, aj_finished_at := None\<rparr>) s"
      using assms(3,4)
      by (auto simp: set_job_control_state_def get_job_obj_def cancel_job_def set_status_def res_simps Let_def split: if_splits)
    then have "get_job s' jid = Some (j\<lparr>aj_status := JOB_CANCELING, aj_finished_at := None\<rparr>)"
      using put_job_same [OF assms(3)] get_job_SomeD [OF assms(3)] by simp
    then show ?thesis by simp
  qed
qed

lemma stuck_run:
  "life_run env s as s' \<Longrightarrow> jobs_wf s \<Longrightarrow> get_job s jid = Some j \<Longrightarrow> aj_status j \<in> {JOB_PAUSING, JOB_CANCELING} \<Longrightarrow>
     \<exists>j'. get_job s' jid = Some j' \<and> aj_status j' \<in> {JOB_PAUSING, JOB_CANCELING}"
proof (induction arbitrary: j rule: life_run.induct)
  case (stay s)
  then show ?case by blast
next
  case (step s a s1 as s2)
  from stuck_step [OF step.hyps(1) step.prems] life_step_moved [OF step.hyps(1) step.prems(1)] step.IH
  show ?case by blast
qed

text \<open>
Pausing a job that is still queued loses it. The pause is accepted and sets PAUSING, a
status that only a running batch loop turns into PAUSED; no loop will run, because the worker
skips the job, and over every later run of the system the job stays PAUSING or CANCELING:
it is never executed, resumed, started again or cancelled to its end.
\<close>

theorem paused_in_queue_sticks:
  assumes "get_job s jid = Some j" "aj_status j = JOB_QUEUED" "jobs_wf s"
    and "set_job_control_state s jid ''pause'' u now = Inr (j1, s1)" "life_run env s1 as s'"
  shows "\<exists>j'. get_job s' jid = Some j' \<and> aj_status j' \<in> {JOB_PAUSING, JOB_CANCELING}"
proof -
  have "s1 = put_job (j\<lparr>aj_status := JOB_PAUSING\<rparr>) s"
    using assms(1,2,4) by (auto simp: set_job_control_state_def get_job_obj_def set_status_def res_simps Let_def split: if_splits)
  then have g: "get_job s1 jid = Some (j\<lparr>aj_status := JOB_PAUSING\<rparr>)"
    using put_job_same [OF assms(1)] get_job_SomeD [OF assms(1)] by simp
  have "jobs_wf s1" using life_step_moved [OF life_step.control [OF assms(4)] assms(3)] by blast
  from stuck_run [OF assms(5) this g] show ?thesis by simp
qed

section \<open>Concrete runs\<close>

lemma job_store_wf [simp]: "jobs_wf (job_store ty st)"
  by (simp add: jobs_wf_def table_wf_def job_store_def) (simp add: sample_store_def)

lemma dba_executes: "check_execute (job_store ty st) (sample_job st) dba_op = Inr ()"
  by (simp add: check_execute_def load_instance_def assert_archive_execute_scope_def has_perm_def raise_if_def)
    (simp add: dba_op_def sample_instance_def sample_group_def)

lemma sample_pause:
  "set_job_control_state (job_store ty JOB_QUEUED) 5 ''pause'' dba_op 500 =
     Inr ((sample_job JOB_QUEUED)\<lparr>aj_status := JOB_PAUSING\<rparr>,
          put_job ((sample_job JOB_QUEUED)\<lparr>aj_status := JOB_PAUSING\<rparr>) (job_store ty JOB_QUEUED))"
  by (simp add: set_job_control_state_def get_job_obj_def dba_executes set_status_def Let_def)

text \<open>A queued job is paused, then the worker takes its task.\<close>

lemma sample_life:
  "\<exists>s1 s2. set_job_control_state (job_store ''mysql'' JOB_QUEUED) 5 ''pause'' dba_op 500
       = Inr ((sample_job JOB_QUEUED)\<lparr>aj_status := JOB_PAUSING\<rparr>, s1)
     \<and> life_run sample_archive_env s1 [Ran] s2
     \<and> life_run sample_archive_env (job_store ''mysql'' JOB_QUEUED) [Controlled ''pause'', Ran] s2"
proof -
  let ?s1 = "put_job ((sample_job JOB_QUEUED)\<lparr>aj_status := JOB_PAUSING\<rparr>) (job_store ''mysql'' JOB_QUEUED)"
  obtain r s2 where "execute_job sample_archive_env ?s1 5 9 (\<lambda>_. []) 600 = (r, s2)"
    by (cases "execute_job sample_archive_env ?s1 5 9 (\<lambda>_. []) 600")
  then have run: "life_run sample_archive_env ?s1 [Ran] s2"
    by (intro life_run.step [OF life_step.run life_run.stay])
  from life_run.step [OF life_step.control [OF sample_pause] run] run sample_pause show ?thesis by blast
qed


lemma job_request_and_end_fixed_witness:
  "\<exists>s' j'. life_run sample_archive_env (job_store ''mysql'' JOB_QUEUED) [Controlled ''pause'', Ran] s'
     \<and> get_job s' 5 = Some j' \<and> request_of j' = request_of (sample_job JOB_QUEUED)"
proof -
  from sample_life obtain s' where "life_run sample_archive_env (job_store ''mysql'' JOB_QUEUED) [Controlled ''pause'', Ran] s'"
    by blast
  with job_request_and_end_fixed [OF this job_store_wf job_store_get(1)] show ?thesis by blast
qed

lemma paused_in_queue_sticks_witness:
  "\<exists>s' j'. life_run sample_archive_env (job_store ''mysql'' JOB_QUEUED) [Controlled ''pause'', Ran] s'
     \<and> get_job s' 5 = Some j' \<and> aj_status j' \<in> {JOB_PAUSING, JOB_CANCELING}"
proof -
  from sample_life obtain s1 s2 where "set_job_control_state (job_store ''mysql'' JOB_QUEUED) 5 ''pause'' dba_op 500
       = Inr ((sample_job JOB_QUEUED)\<lparr>aj_status := JOB_PAUSING\<rparr>, s1)"
     "life_run sample_archive_env s1 [Ran] s2"
     "life_run sample_archive_env (job_store ''mysql'' JOB_QUEUED) [Controlled ''pause'', Ran] s2" by blast
  with paused_in_queue_sticks [OF job_store_get(1) _ job_store_wf this(1,2)] show ?thesis by auto
qed

lemma sample_archive_pass:
  "\<exists>m s' j'. operate archive_review_store 3 OP_PASS archive_reviewer [] 50 = Inr (m, REVIEW_PASS, s')
     \<and> get_job s' 5 = Some j' \<and> aj_status j' = JOB_APPROVED"
proof -
  have c: "current_pending (pass_current archive_reviewer 50 [archive_node]) = None"
    by (simp add: pass_current_def is_pending_def archive_node_def sample_node_def current_pending_def pass_node_def)
  have f: "find_job_of_workflow archive_review_store 3 = Inr (Some (sample_job JOB_PENDING_REVIEW))"
    by (simp add: find_job_of_workflow_def archive_review_store_def)
  have g: "get_job archive_review_store 5 = Some (sample_job JOB_PENDING_REVIEW)"
    by (simp add: archive_review_store_def get_job_def table_simps)
  have w: "wf_status (sample_workflow 3 PENDING_REVIEW) = PENDING_REVIEW" "wf_id (sample_workflow 3 PENDING_REVIEW) = 3"
    "wa_workflow_type (sample_audit 4 3 WT_ARCHIVE [archive_node]) = WT_ARCHIVE"
    by (simp_all add: sample_workflow_def sample_audit_def)
  have p: "get_job (put_job ((sample_job JOB_PENDING_REVIEW)\<lparr>aj_status := JOB_APPROVED\<rparr>)
      (put_workflow x (put_audit y archive_review_store))) 5 = Some ((sample_job JOB_PENDING_REVIEW)\<lparr>aj_status := JOB_APPROVED\<rparr>)" for x y
    by (rule put_job_same [where j = "sample_job JOB_PENDING_REVIEW"]) (simp_all add: g)
  show ?thesis
    by (simp add: operate_def find_audit_def do_pass_def OP_PASS_def w c mark_workflow_approved_def f Let_def write_log_def p)
qed

lemma job_leaves_review_by_its_chain_witness:
  "\<exists>s' wid. life_run sample_archive_env archive_review_store [Reviewed REVIEW_PASS] s' \<and> aj_workflow_id (sample_job JOB_PENDING_REVIEW) = Some wid
     \<and> (\<exists>s1 s2 u r t m. operate s1 wid OP_PASS u r t = Inr (m, REVIEW_PASS, s2))"
proof -
  from sample_archive_pass obtain m s' j' where
    p: "operate archive_review_store 3 OP_PASS archive_reviewer [] 50 = Inr (m, REVIEW_PASS, s')"
    "get_job s' 5 = Some j'" "aj_status j' = JOB_APPROVED" by blast
  have r: "life_run sample_archive_env archive_review_store [Reviewed REVIEW_PASS] s'"
    by (rule life_run.step [OF life_step.review [OF p(1)] life_run.stay])
  have "jobs_wf archive_review_store" "get_job archive_review_store 5 = Some (sample_job JOB_PENDING_REVIEW)"
    by (simp_all add: archive_review_store_def jobs_wf_def table_wf_def get_job_def table_simps) (simp add: sample_store_def)
  from job_leaves_review_by_its_chain [OF r this _ p(2)] p(3)
  obtain s1 s2 wid u r t m where "operate s1 wid OP_PASS u r t = Inr (m, REVIEW_PASS, s2)"
    "aj_workflow_id (sample_job JOB_PENDING_REVIEW) = Some wid" by auto
  with r show ?thesis by blast
qed

end
