(* ===== verification/Archive_Dispatch.thy ===== *)
theory Archive_Dispatch
  imports Archive_Lifecycle
begin

text \<open>
  The two dispatchers together. The dispatcher of \<^verbatim>\<open>app/tasks/execute_sql.py\<close> selects scheduled
  workflows of every type; the one of \<^verbatim>\<open>app/services/archive.py\<close> selects scheduled jobs.
\<close>

section \<open>The SQL dispatcher\<close>

lemma due_workflows_complete:
  assumes "w \<in> set (st_workflows s)" "is_due now w" "length (st_workflows s) \<le> lim"
  shows "w \<in> set (due_workflows s now (\<lambda>_. False) lim)"
proof -
  let ?rows = "filter (\<lambda>w. wf_status w = TIMING_TASK \<and> (case wf_scheduled_execute_at w of None \<Rightarrow> False | Some t \<Rightarrow> t \<le> now)) (st_workflows s)"
  have "length ?rows \<le> lim" using assms(3) length_filter_le le_trans by blast
  with assms(1,2) show ?thesis by (simp add: due_workflows_def is_due_def)
qed

lemma dispatch_sends:
  assumes "dispatch_scheduled s now locked ok lim = (Inr n, s')"
  shows "st_tasks s' = st_tasks s @ map dispatch_task (due_workflows s now locked lim)"
proof -
  have f: "st_tasks (fold deliver ts x) = st_tasks x @ ts" for ts x
    by (induction ts arbitrary: x) (auto simp: deliver_def)
  obtain so sent where l: "dispatch_loop ok (due_workflows s now locked lim) s [] = (so, sent)"
    by (cases "dispatch_loop ok (due_workflows s now locked lim) s []")
  with assms obtain s1 where "so = Some s1" "s' = fold deliver sent s1"
    by (cases so) (auto simp: dispatch_scheduled_def)
  with dispatch_loop_ok(1,3) [of ok _ s "[]" s1 sent] l f show ?thesis by simp
qed

section \<open>A scheduled archive job\<close>

lemma schedule_job_row:
  assumes "get_job s jid = Some j" "aj_workflow_id j = Some wid" "truthy_id (Some wid)" "get_workflow s wid = Some w"
    and "schedule_job s j u d now = Inr (JobScheduledReply i st t, s1)"
  shows "\<exists>w1. get_workflow s1 wid = Some w1 \<and> wf_status w1 = TIMING_TASK \<and> wf_scheduled_execute_at w1 = Some t
    \<and> get_job s1 jid = Some (j\<lparr>aj_status := JOB_SCHEDULED, aj_finished_at := None\<rparr>)"
proof -
  let ?j1 = "j\<lparr>aj_status := JOB_SCHEDULED, aj_finished_at := None\<rparr>"
  let ?d = "\<lparr> de_mode = ''scheduled'', de_status = TIMING_TASK, de_scheduled_at = Some t,
     de_external_at = None, de_external_status = None, de_external_remark = None \<rparr>"
  from assms(5) obtain r where d: "decide s ?j1 u ?d OP_TIMING r now = Inr s1"
    by (auto simp: schedule_job_def Let_def res_simps split: option.splits)
  obtain w1 where s0: "sync_workflow_execution_decision ?j1 u ?d (put_job ?j1 s) = put_workflow w1 (put_job ?j1 s)"
    and w1: "wf_id w1 = wf_id w" "wf_status w1 = TIMING_TASK" "wf_scheduled_execute_at w1 = Some t"
    using assms(2-4) by (simp add: sync_workflow_execution_decision_def Let_def)
  have "get_workflow s1 wid = get_workflow (put_workflow w1 (put_job ?j1 s)) wid"
    using d assms(2,3) s0 by (simp add: decide_def write_job_log_def)
  also have "\<dots> = Some w1" using get_put_loaded [of "put_job ?j1 s" wid w w1] assms(4) w1(1) by simp
  finally have "get_workflow s1 wid = Some w1" .
  moreover have "get_job s1 jid = Some ?j1"
    using same_jobs_get [OF same_jobs_decide [OF d]] put_job_same [OF assms(1), of ?j1] get_job_SomeD [OF assms(1)] by simp
  ultimately show ?thesis using w1 by blast
qed

lemma start_job_scheduled:
  assumes "start_job env s jid u (Some d) task controls now = (Inr (JobScheduledReply i st t), s1)" "get_job s jid = Some j"
  shows "schedule_job s j u d now = Inr (JobScheduledReply i st t, s1)"
proof -
  have no: "(Inr (JobScheduledReply i st t), s1) \<noteq> start_job_immediately env s j u task controls now"
    by (auto simp: start_job_immediately_def Let_def split: sum.splits option.splits prod.splits)
  have ext: "record_external_job s j u d now \<noteq> Inr (JobScheduledReply i st t, s1)"
    by (auto simp: record_external_job_def Let_def res_simps split: option.splits)
  show ?thesis
    using assms no ext
    by (auto simp: start_job_def get_job_obj_def one_commit_def res_simps raise_if_def split: sum.splits if_splits prod.splits)
qed

text \<open>
The SQL dispatcher takes scheduled archive jobs. When an archive job with a workflow has
been scheduled for a time and the dispatcher of SQL workflows runs after that time, it sends
the archive workflow to the SQL worker, which will run the JSON description of the job as
SQL; the job itself is left SCHEDULED, for the archive dispatcher to start as well.
\<close>

theorem sql_dispatcher_takes_archive_jobs:
  assumes "get_job s jid = Some j" "aj_workflow_id j = Some wid" "wid \<noteq> 0" "get_workflow s wid = Some w"
    and "start_job env s jid u (Some d) task controls now = (Inr (JobScheduledReply i st t), s1)"
    and "t \<le> later" "length (st_workflows s1) \<le> lim"
    and "dispatch_scheduled s1 later (\<lambda>_. False) ok lim = (Inr n, s2)"
  shows "(\<exists>op. ExecuteWorkflow wid op \<in> set (st_tasks s2))
    \<and> (\<exists>j1. get_job s1 jid = Some j1 \<and> aj_status j1 = JOB_SCHEDULED)"
proof -
  have "truthy_id (Some wid)" using assms(3) by (simp add: truthy_id_def)
  from schedule_job_row [OF assms(1,2) this assms(4) start_job_scheduled [OF assms(5,1)]] obtain w1 where
    w1: "get_workflow s1 wid = Some w1" "wf_status w1 = TIMING_TASK" "wf_scheduled_execute_at w1 = Some t"
    and j1: "get_job s1 jid = Some (j\<lparr>aj_status := JOB_SCHEDULED, aj_finished_at := None\<rparr>)" by blast
  have id: "wf_id w1 = wid" by (rule workflow_tab.sel_key [OF w1(1)])
  have "w1 \<in> set (st_workflows s1)" using w1(1) by (auto simp: get_workflow_def dest: row_get_key)
  moreover have "is_due later w1" using w1 assms(6) by (simp add: is_due_def)
  ultimately have "w1 \<in> set (due_workflows s1 later (\<lambda>_. False) lim)"
    using assms(7) by (intro due_workflows_complete)
  then have "dispatch_task w1 \<in> set (st_tasks s2)" using dispatch_sends [OF assms(8)] by simp
  then show ?thesis using id j1 by (auto simp: dispatch_task_def)
qed

definition approved_job_store :: store where
  "approved_job_store = (job_store ''mysql'' JOB_APPROVED)\<lparr>st_workflows := [sample_workflow 3 REVIEW_PASS]\<rparr>"

lemma approved_job_facts [simp]:
  "get_job approved_job_store 5 = Some (sample_job JOB_APPROVED)"
  "get_workflow approved_job_store 3 = Some (sample_workflow 3 REVIEW_PASS)"
  "check_execute approved_job_store (sample_job JOB_APPROVED) dba_op = Inr ()"
  using job_store_get [of "''mysql''" JOB_APPROVED] dba_executes [of "''mysql''" JOB_APPROVED]
  by (simp_all add: approved_job_store_def get_job_def get_workflow_def get_instance_def table_simps check_execute_def load_instance_def)
    (simp add: sample_workflow_def)

lemma approved_job_scheduled:
  "\<exists>s1. start_job sample_archive_env approved_job_store 5 dba_op (Some (schedule_at 900)) None (\<lambda>_. []) 200
     = (Inr (JobScheduledReply 5 JOB_SCHEDULED 900), s1) \<and> length (st_workflows s1) = 1"
proof -
  have m: "ex_mode (schedule_at 900) = ''scheduled''" "ex_scheduled_at (schedule_at 900) = Some (NaiveDT 900)"
    by (simp_all add: schedule_at_def default_execute_request_def)
  obtain s1 where s1: "schedule_job approved_job_store (sample_job JOB_APPROVED) dba_op (schedule_at 900) 200
      = Inr (JobScheduledReply 5 JOB_SCHEDULED 900, s1)"
    by (simp add: schedule_job_def m Let_def decide_def write_job_log_def truthy_id_def write_execution_log_def find_audit_def
        sync_workflow_execution_decision_def) (simp add: audits_of_def approved_job_store_def job_store_def sample_store_def sample_audit_def)
  have "length (st_workflows s1) = 1"
    using s1 by (auto simp: schedule_job_def m Let_def res_simps decide_def write_job_log_def truthy_id_def
        sync_workflow_execution_decision_def dest!: write_execution_log_frame(1))
      (simp add: put_workflow_def put_job_def row_put_def approved_job_store_def)
  with s1 m show ?thesis by (simp add: start_job_def get_job_obj_def one_commit_def)
qed

lemma sql_dispatcher_takes_archive_jobs_witness:
  "\<exists>s1 n s2 op. start_job sample_archive_env approved_job_store 5 dba_op (Some (schedule_at 900)) None (\<lambda>_. []) 200
       = (Inr (JobScheduledReply 5 JOB_SCHEDULED 900), s1)
     \<and> dispatch_scheduled s1 950 (\<lambda>_. False) (\<lambda>_. True) 50 = (Inr n, s2) \<and> ExecuteWorkflow 3 op \<in> set (st_tasks s2)"
proof -
  obtain s1 where s1: "start_job sample_archive_env approved_job_store 5 dba_op (Some (schedule_at 900)) None (\<lambda>_. []) 200
     = (Inr (JobScheduledReply 5 JOB_SCHEDULED 900), s1)" "length (st_workflows s1) = 1" using approved_job_scheduled by blast
  have "\<exists>s'. fst (dispatch_loop (\<lambda>_. True) ws s sent) = Some s'" for ws s sent
    by (induction ws arbitrary: s sent) (simp_all add: Let_def)
  then obtain s' sent where "dispatch_loop (\<lambda>_. True) (due_workflows s1 950 (\<lambda>_. False) 50) s1 [] = (Some s', sent)"
    by (metis prod.collapse)
  then obtain n s2 where d: "dispatch_scheduled s1 950 (\<lambda>_. False) (\<lambda>_. True) 50 = (Inr n, s2)"
    by (simp add: dispatch_scheduled_def)
  from sql_dispatcher_takes_archive_jobs [OF approved_job_facts(1) sample_job_simps(9) _ approved_job_facts(2) s1(1) _ _ d] s1
  obtain op where "ExecuteWorkflow 3 op \<in> set (st_tasks s2)" by auto
  with s1(1) d show ?thesis by blast
qed

end
