(* ===== verification/Py_Re.thy ===== *)
theory Py_Re
  imports Prelude
begin

text \<open>
  The part of Python's \<^verbatim>\<open>re\<close> and \<^verbatim>\<open>fnmatch\<close> that the services use, as a backtracking
  matcher: \<open>run r m\<close> lists every way \<open>r\<close> can match from the position \<open>m\<close>, in the order
  in which \<open>re\<close> tries them, so the first one is the match. A position is the previous
  character, the rest of the text and the captured groups. Loops only go on while they make
  progress. Flags are part of the character classes: \<open>lit_ci\<close> ignores the case of ASCII
  letters, \<open>any_char\<close> is the dot and \<open>any_dotall\<close> the dot under \<^verbatim>\<open>re.S\<close>.
\<close>

section \<open>Expressions\<close>

datatype re =
    Chr "char \<Rightarrow> bool"
  | Eps
  | Seq re re
  | Alt re re
  | Star re
  | Lazy re
  | Grp nat re
  | Bos
  | Eos
  | Word_Bound

type_synonym pos = "char option \<times> string \<times> (nat \<times> string) list"

definition is_word :: "char option \<Rightarrow> bool" where
  "is_word c = (case c of None \<Rightarrow> False | Some x \<Rightarrow> word_char x)"

definition next_char :: "string \<Rightarrow> char option" where
  "next_char s = (case s of [] \<Rightarrow> None | c # cs \<Rightarrow> Some c)"

definition rest_len :: "pos \<Rightarrow> nat" where
  "rest_len m = length (fst (snd m))"

definition capture :: "nat \<Rightarrow> pos \<Rightarrow> pos \<Rightarrow> pos" where
  "capture n m m' = (fst m', fst (snd m'),
     (n, take (rest_len m - rest_len m') (fst (snd m))) # snd (snd m'))"

function run :: "re \<Rightarrow> pos \<Rightarrow> pos list" where
  "run (Chr p) m = (case fst (snd m) of [] \<Rightarrow> [] | c # cs \<Rightarrow> if p c then [(Some c, cs, snd (snd m))] else [])"
| "run Eps m = [m]"
| "run (Seq a b) m = concat (map (run b) (run a m))"
| "run (Alt a b) m = run a m @ run b m"
| "run (Star a) m = concat (map (\<lambda>m'. if rest_len m' < rest_len m then run (Star a) m' else []) (run a m)) @ [m]"
| "run (Lazy a) m = m # concat (map (\<lambda>m'. if rest_len m' < rest_len m then run (Lazy a) m' else []) (run a m))"
| "run (Grp n a) m = map (capture n m) (run a m)"
| "run Bos m = (if fst m = None then [m] else [])"
| "run Eos m = (if fst (snd m) = [] \<or> fst (snd m) = [char_of (10::nat)] then [m] else [])"
| "run Word_Bound m = (if is_word (fst m) \<noteq> is_word (next_char (fst (snd m))) then [m] else [])"
  by pat_completeness auto
termination
  by (relation "measures [\<lambda>(r, m). size r, \<lambda>(r, m). rest_len m]") auto

section \<open>Character classes\<close>

definition lit :: "char \<Rightarrow> re" where
  "lit c = Chr (\<lambda>x. x = c)"

definition ascii_lower :: "char \<Rightarrow> char" where
  "ascii_lower c = (if 65 \<le> char_code c \<and> char_code c \<le> 90 then char_of (char_code c + 32) else c)"

definition lit_ci :: "char \<Rightarrow> re" where
  "lit_ci c = Chr (\<lambda>x. ascii_lower x = ascii_lower c)"

definition one_of :: "string \<Rightarrow> re" where
  "one_of cs = Chr (\<lambda>x. x \<in> set cs)"

definition none_of :: "string \<Rightarrow> re" where
  "none_of cs = Chr (\<lambda>x. x \<notin> set cs)"

definition any_char :: re where "any_char = Chr (\<lambda>x. char_code x \<noteq> 10)"

definition any_dotall :: re where "any_dotall = Chr (\<lambda>x. True)"

definition word :: re where "word = Chr word_char"

definition space :: re where "space = Chr py_isspace"

definition non_space :: re where "non_space = Chr (\<lambda>x. \<not> py_isspace x)"

definition is_digit :: "char \<Rightarrow> bool" where
  "is_digit x \<longleftrightarrow> 48 \<le> char_code x \<and> char_code x \<le> 57"

definition digit :: re where "digit = Chr is_digit"

definition is_ascii_alpha :: "char \<Rightarrow> bool" where
  "is_ascii_alpha x \<longleftrightarrow> (65 \<le> char_code x \<and> char_code x \<le> 90) \<or> (97 \<le> char_code x \<and> char_code x \<le> 122)"

section \<open>Derived expressions\<close>

fun seq :: "re list \<Rightarrow> re" where
  "seq [] = Eps"
| "seq [r] = r"
| "seq (r # rs) = Seq r (seq rs)"

fun alts :: "re list \<Rightarrow> re" where
  "alts [] = Chr (\<lambda>_. False)"
| "alts [r] = r"
| "alts (r # rs) = Alt r (alts rs)"

definition chars :: "string \<Rightarrow> re" where "chars s = seq (map lit s)"

definition kw :: "string \<Rightarrow> re" where "kw s = seq (map lit_ci s)"

definition plus :: "re \<Rightarrow> re" where "plus r = Seq r (Star r)"

definition opt :: "re \<Rightarrow> re" where "opt r = Alt r Eps"

fun times :: "nat \<Rightarrow> re \<Rightarrow> re" where
  "times 0 r = Eps"
| "times (Suc n) r = Seq r (times n r)"

fun upto_times :: "nat \<Rightarrow> re \<Rightarrow> re" where
  "upto_times 0 r = Eps"
| "upto_times (Suc n) r = Alt (Seq r (upto_times n r)) Eps"

section \<open>Functions of the module\<close>

definition start :: "string \<Rightarrow> pos" where "start s = (None, s, [])"

definition re_match :: "re \<Rightarrow> string \<Rightarrow> pos option" where
  "re_match r s = (case run r (start s) of [] \<Rightarrow> None | m # _ \<Rightarrow> Some m)"

definition re_fullmatch :: "re \<Rightarrow> string \<Rightarrow> bool" where
  "re_fullmatch r s \<longleftrightarrow> list_ex (\<lambda>m. fst (snd m) = []) (run r (start s))"

fun search_from :: "re \<Rightarrow> char option \<Rightarrow> string \<Rightarrow> bool" where
  "search_from r pv [] = (run r (pv, [], []) \<noteq> [])"
| "search_from r pv (c # cs) = (run r (pv, c # cs, []) \<noteq> [] \<or> search_from r (Some c) cs)"

definition re_search :: "re \<Rightarrow> string \<Rightarrow> bool" where
  "re_search r s = search_from r None s"

definition group_of :: "(nat \<times> string) list \<Rightarrow> nat \<Rightarrow> string" where
  "group_of gs n = (case map_of gs n of None \<Rightarrow> [] | Some t \<Rightarrow> t)"

text \<open>
  \<open>re.sub\<close>; \<open>f\<close> makes the replacement of a match from its groups. After an empty match the
  next one may not be empty at the same place: \<open>must\<close> is \<open>must_advance\<close>.
\<close>

definition usable :: "bool \<Rightarrow> string \<Rightarrow> pos list \<Rightarrow> pos option" where
  "usable must s ms = find (\<lambda>m. must \<longrightarrow> rest_len m < length s) ms"

function sub_from :: "re \<Rightarrow> ((nat \<times> string) list \<Rightarrow> string) \<Rightarrow> bool \<Rightarrow> char option \<Rightarrow> string \<Rightarrow> string" where
  "sub_from r f must pv s =
     (case usable must s (run r (pv, s, [])) of
        Some m \<Rightarrow>
          if rest_len m < length s then f (snd (snd m)) @ sub_from r f False (fst m) (fst (snd m))
          else if must then s
          else f (snd (snd m)) @ sub_from r f True pv s
      | None \<Rightarrow> (case s of [] \<Rightarrow> [] | c # cs \<Rightarrow> c # sub_from r f False (Some c) cs))"
  by pat_completeness auto
termination
  by (relation "measure (\<lambda>(r, f, must, pv, s). 2 * length s + (if must then 0 else 1))") (auto simp: rest_len_def)

declare sub_from.simps [simp del]

definition re_sub :: "re \<Rightarrow> ((nat \<times> string) list \<Rightarrow> string) \<Rightarrow> string \<Rightarrow> string" where
  "re_sub r f s = sub_from r f False None s"

text \<open>The groups of the matches of \<open>re.finditer\<close>, from left to right.\<close>

function iter_from :: "re \<Rightarrow> bool \<Rightarrow> char option \<Rightarrow> string \<Rightarrow> (nat \<times> string) list list" where
  "iter_from r must pv s =
     (case usable must s (run r (pv, s, [])) of
        Some m \<Rightarrow>
          if rest_len m < length s then snd (snd m) # iter_from r False (fst m) (fst (snd m))
          else if must then []
          else snd (snd m) # iter_from r True pv s
      | None \<Rightarrow> (case s of [] \<Rightarrow> [] | c # cs \<Rightarrow> iter_from r False (Some c) cs))"
  by pat_completeness auto
termination
  by (relation "measure (\<lambda>(r, must, pv, s). 2 * length s + (if must then 0 else 1))") (auto simp: rest_len_def)

declare iter_from.simps [simp del]

definition find_iter :: "re \<Rightarrow> string \<Rightarrow> (nat \<times> string) list list" where
  "find_iter r s = iter_from r False None s"

text \<open>\<open>re.sub(r, '', s, count=1)\<close> for an expression anchored at the start.\<close>

definition cut_prefix :: "re \<Rightarrow> string \<Rightarrow> string" where
  "cut_prefix r s = (case re_match r s of None \<Rightarrow> s | Some m \<Rightarrow> fst (snd m))"

section \<open>Shell patterns\<close>

text \<open>The members of a bracket: ranges, and a hyphen that is first or last stands for itself.\<close>

fun in_bracket :: "char \<Rightarrow> string \<Rightarrow> bool" where
  "in_bracket c [] = False"
| "in_bracket c [x] = (c = x)"
| "in_bracket c [x, y] = (c = x \<or> c = y)"
| "in_bracket c (x # y # z # zs) =
     (if y = CHR ''-'' then (char_code x \<le> char_code c \<and> char_code c \<le> char_code z) \<or> in_bracket c zs
      else c = x \<or> in_bracket c (y # z # zs))"

text \<open>What follows \<open>[\<close>: the members and the rest of the pattern, if the bracket is closed.\<close>

definition close_bracket :: "string \<Rightarrow> (string \<times> string) option" where
  "close_bracket p =
     (let (neg, p1) = (case p of CHR ''!'' # q \<Rightarrow> (''!'', q) | _ \<Rightarrow> ([], p));
          (br, p2) = (case p1 of CHR '']'' # q \<Rightarrow> ('']'', q) | _ \<Rightarrow> ([], p1));
          body = takeWhile (\<lambda>c. c \<noteq> CHR '']'') p2
      in case dropWhile (\<lambda>c. c \<noteq> CHR '']'') p2 of
           [] \<Rightarrow> None
         | _ # rest \<Rightarrow> Some (neg @ br @ body, rest))"

definition bracket_class :: "string \<Rightarrow> char \<Rightarrow> bool" where
  "bracket_class stuff c =
     (case stuff of CHR ''!'' # q \<Rightarrow> \<not> in_bracket c q | _ \<Rightarrow> in_bracket c stuff)"

lemma close_bracket_len: "close_bracket p = Some (stuff, rest) \<Longrightarrow> length rest < length p"
proof -
  assume c: "close_bracket p = Some (stuff, rest)"
  obtain neg p1 where n: "(case p of CHR ''!'' # q \<Rightarrow> (''!'', q) | _ \<Rightarrow> ([], p)) = (neg, p1)" by fastforce
  obtain br p2 where b: "(case p1 of CHR '']'' # q \<Rightarrow> ('']'', q) | _ \<Rightarrow> ([], p1)) = (br, p2)" by fastforce
  have "length p1 \<le> length p" using n by (auto split: list.splits char.splits bool.splits)
  moreover have "length p2 \<le> length p1" using b by (auto split: list.splits char.splits bool.splits)
  moreover from c n b obtain x where "dropWhile (\<lambda>c. c \<noteq> CHR '']'') p2 = x # rest"
    by (auto simp: close_bracket_def split: list.splits)
  then have "length rest < length p2" by (metis length_dropWhile_le length_Cons less_eq_Suc_le order_trans)
  ultimately show ?thesis by simp
qed

function fn_match :: "string \<Rightarrow> string \<Rightarrow> bool" where
  "fn_match [] s = (s = [])"
| "fn_match (p # ps) s =
     (if p = CHR ''*'' then fn_match ps s \<or> (case s of [] \<Rightarrow> False | _ # cs \<Rightarrow> fn_match (p # ps) cs)
      else if p = CHR ''?'' then (case s of [] \<Rightarrow> False | _ # cs \<Rightarrow> fn_match ps cs)
      else if p = CHR ''['' then
        (case close_bracket ps of
           Some (stuff, rest) \<Rightarrow> (case s of [] \<Rightarrow> False | c # cs \<Rightarrow> bracket_class stuff c \<and> fn_match rest cs)
         | None \<Rightarrow> (case s of [] \<Rightarrow> False | c # cs \<Rightarrow> c = p \<and> fn_match ps cs))
      else (case s of [] \<Rightarrow> False | c # cs \<Rightarrow> c = p \<and> fn_match ps cs))"
  by pat_completeness auto
termination
  by (relation "measures [\<lambda>(p, s). length p, \<lambda>(p, s). length s]") (auto dest: close_bracket_len)

section \<open>Matching a class\<close>

text \<open>The previous character after \<open>ds\<close> has been read.\<close>

definition last_char :: "char option \<Rightarrow> string \<Rightarrow> char option" where
  "last_char pv ds = (if ds = [] then pv else Some (last ds))"

lemma last_char_Cons: "last_char (Some c) ds = last_char pv (c # ds)"
  by (simp add: last_char_def)

lemma run_chr_Cons: "p c \<Longrightarrow> run (Chr p) (pv, c # cs, gs) = [(Some c, cs, gs)]"
  by simp

lemma run_chr_Nil: "run (Chr p) (pv, [], gs) = []"
  by simp

lemma run_times_class:
  "list_all p ds \<Longrightarrow> run (times k (Chr p)) (pv, ds, gs)
     = (if k \<le> length ds then [(last_char pv (take k ds), drop k ds, gs)] else [])"
proof (induction k arbitrary: pv ds)
  case 0
  then show ?case by (simp add: last_char_def)
next
  case (Suc k)
  show ?case
  proof (cases ds)
    case Nil
    then show ?thesis by (simp add: run_chr_Nil)
  next
    case (Cons c cs)
    with Suc show ?thesis by (simp add: run_chr_Cons last_char_Cons [of c _ pv])
  qed
qed

lemma rev_upt_Suc: "rev [0..<Suc (Suc n)] = map Suc (rev [0..<Suc n]) @ [0]"
proof -
  have "[0..<Suc (Suc n)] = 0 # map Suc [0..<Suc n]" by (simp add: upt_conv_Cons map_Suc_upt del: upt_Suc)
  then show ?thesis by (simp add: rev_map [symmetric] del: upt_Suc)
qed

lemma run_upto_class:
  "list_all p ds \<Longrightarrow> run (upto_times k (Chr p)) (pv, ds, gs)
     = map (\<lambda>j. (last_char pv (take j ds), drop j ds, gs)) (rev [0..<Suc (min k (length ds))])"
proof (induction k arbitrary: pv ds)
  case 0
  then show ?case by (simp add: last_char_def)
next
  case (Suc k)
  show ?case
  proof (cases ds)
    case Nil
    then show ?thesis by (simp add: run_chr_Nil last_char_def)
  next
    case (Cons c cs)
    with Suc show ?thesis
      by (simp add: rev_upt_Suc run_chr_Cons last_char_Cons [of c _ pv] comp_def del: upt_Suc) (simp add: last_char_def)
  qed
qed

lemma run_star_class:
  "list_all p ds \<Longrightarrow> run (Star (Chr p)) (pv, ds, gs)
     = map (\<lambda>j. (last_char pv (take j ds), drop j ds, gs)) (rev [0..<Suc (length ds)])"
proof (induction ds arbitrary: pv)
  case Nil
  then show ?case by (simp add: run_chr_Nil last_char_def)
next
  case (Cons c cs)
  then show ?case
    by (simp add: rev_upt_Suc run_chr_Cons rest_len_def last_char_Cons [of c _ pv] comp_def del: upt_Suc) (simp add: last_char_def)
qed

text \<open>The first way of a sequence is the first way of its head that lets the tail match.\<close>

lemma concat_map_first:
  assumes "list_all (\<lambda>x. f x = []) xs" "f y = z # zs"
  shows "\<exists>rest. concat (map f (xs @ y # ys)) = z # rest"
proof -
  have none: "concat (map f xs) = []" using assms(1) by (simp add: list_all_iff)
  show ?thesis unfolding map_append concat_append none using assms(2) by simp
qed

lemma run_group_class:
  "list_all p ds \<Longrightarrow> run (Grp g (times k (Chr p))) (pv, ds, gs)
     = (if k \<le> length ds then [(last_char pv (take k ds), drop k ds, (g, take k ds) # gs)] else [])"
  by (simp add: run_times_class capture_def rest_len_def)

text \<open>After a greedy loop, a group of \<open>k\<close> characters takes the last \<open>k\<close>.\<close>

lemma class_then_group:
  assumes "list_all p ds" "k \<le> length ds" "length ds - k \<le> m" "m \<le> length ds"
  shows "\<exists>pv' rest. concat (map (run (Grp g (times k (Chr p))))
      (map (\<lambda>j. (last_char pv (take j ds), drop j ds, gs)) (rev [0..<Suc m])))
    = (pv', [], (g, drop (length ds - k) ds) # gs) # rest"
proof -
  let ?d = "length ds - k"
  let ?at = "\<lambda>j. (last_char pv (take j ds), drop j ds, gs)"
  have "[0..<Suc m] = [0..<?d] @ ?d # [Suc ?d..<Suc m]"
    using assms(3) upt_add_eq_append [of 0 ?d "Suc m - ?d"] upt_conv_Cons [of ?d "Suc m"] by simp
  then have split: "map ?at (rev [0..<Suc m]) = map ?at (rev [Suc ?d..<Suc m]) @ ?at ?d # map ?at (rev [0..<?d])"
    by (simp del: upt_Suc)
  have "list_all (\<lambda>x. run (Grp g (times k (Chr p))) x = []) (map ?at (rev [Suc ?d..<Suc m]))"
    using assms by (auto simp: list_all_iff in_set_dropD run_group_class simp del: upt_Suc run.simps)
  moreover have "list_all p (drop ?d ds)" using assms(1) by (auto simp: list_all_iff dest: in_set_dropD)
  then have "run (Grp g (times k (Chr p))) (?at ?d)
      = [(last_char (last_char pv (take ?d ds)) (take k (drop ?d ds)), [], (g, drop ?d ds) # gs)]"
    using assms(2) by (simp add: run_group_class del: run.simps)
  ultimately show ?thesis unfolding split by (blast dest: concat_map_first)
qed

end
