(* ===== verification/Sql_Delimiters.thy ===== *)
theory Sql_Delimiters
  imports Prelude
begin

text \<open>
  \<^verbatim>\<open>_balanced_delimiters\<close> of \<^verbatim>\<open>app/services/query_guard.py\<close>: the scan with which the
  query guard looks for unclosed quotes and brackets, and the grammar it recognises.
\<close>

section \<open>The scan\<close>

text \<open>The scan of \<open>_balanced_delimiters\<close>: open quote, escape flag, stack.\<close>

fun balanced_from :: "char option \<Rightarrow> bool \<Rightarrow> string \<Rightarrow> string \<Rightarrow> bool" where
  "balanced_from quote escape stack [] = (quote = None \<and> stack = [])"
| "balanced_from (Some q) escape stack (c # cs) =
     (if escape then balanced_from (Some q) False stack cs
      else if c = CHR 0x5C then balanced_from (Some q) True stack cs
      else if c = q then balanced_from None False stack cs
      else balanced_from (Some q) False stack cs)"
| "balanced_from None escape stack (c # cs) =
     (if c = CHR 0x27 \<or> c = CHR 0x22 \<or> c = CHR 0x60 then balanced_from (Some c) escape stack cs
      else if c = CHR ''('' \<or> c = CHR ''['' then balanced_from None escape (c # stack) cs
      else if c = CHR '')'' \<or> c = CHR '']'' then
        (case stack of [] \<Rightarrow> False
         | t # ts \<Rightarrow> t = (if c = CHR '')'' then CHR ''('' else CHR ''['') \<and> balanced_from None escape ts cs)
      else balanced_from None escape stack cs)"

definition balanced_delimiters :: "string \<Rightarrow> bool" where
  "balanced_delimiters sql = balanced_from None False [] sql"

section \<open>The grammar\<close>

text \<open>The texts in which quotes are closed and brackets match, as a grammar.\<close>

definition quote_char :: "char \<Rightarrow> bool" where
  "quote_char c \<longleftrightarrow> c = CHR 0x27 \<or> c = CHR 0x22 \<or> c = CHR 0x60"

definition bracket_char :: "char \<Rightarrow> bool" where
  "bracket_char c \<longleftrightarrow> c \<in> set ''()[]''"

definition closing :: "char \<Rightarrow> char" where
  "closing c = (if c = CHR ''('' then CHR '')'' else CHR '']'')"

inductive quoted :: "char \<Rightarrow> string \<Rightarrow> bool" where
  quoted_end: "quoted q [q]"
| quoted_char: "c \<noteq> q \<Longrightarrow> c \<noteq> CHR 0x5C \<Longrightarrow> quoted q cs \<Longrightarrow> quoted q (c # cs)"
| quoted_escape: "quoted q cs \<Longrightarrow> quoted q (CHR 0x5C # x # cs)"

inductive well_bracketed :: "string \<Rightarrow> bool" where
  wb_nil: "well_bracketed []"
| wb_char: "\<not> quote_char c \<Longrightarrow> \<not> bracket_char c \<Longrightarrow> well_bracketed s \<Longrightarrow> well_bracketed (c # s)"
| wb_quote: "quote_char q \<Longrightarrow> quoted q body \<Longrightarrow> well_bracketed s \<Longrightarrow> well_bracketed (q # body @ s)"
| wb_group: "c \<in> {CHR ''('', CHR ''[''} \<Longrightarrow> well_bracketed a \<Longrightarrow> well_bracketed b \<Longrightarrow> well_bracketed (c # a @ closing c # b)"

text \<open>The texts that close the brackets of a stack.\<close>

fun closes :: "string \<Rightarrow> string \<Rightarrow> bool" where
  "closes [] s = well_bracketed s"
| "closes (t # ts) s = (\<exists>a b. s = a @ closing t # b \<and> well_bracketed a \<and> closes ts b)"

lemma quote_not_escape: "quote_char q \<Longrightarrow> q \<noteq> CHR 0x5C"
  by (auto simp: quote_char_def)

lemma scan_quoted: "quoted q body \<Longrightarrow> q \<noteq> CHR 0x5C \<Longrightarrow> balanced_from (Some q) False st (body @ rest) = balanced_from None False st rest"
  by (induction rule: quoted.induct) auto

lemma quoted_of_scan:
  "q \<noteq> CHR 0x5C \<Longrightarrow> balanced_from (Some q) False st s \<Longrightarrow> \<exists>body rest. s = body @ rest \<and> quoted q body \<and> balanced_from None False st rest"
proof (induction s rule: length_induct)
  case (1 s)
  have ih: "\<exists>body rest. ds = body @ rest \<and> quoted q body \<and> balanced_from None False st rest"
    if "length ds < length s" "balanced_from (Some q) False st ds" for ds using 1 that by blast
  show ?case
  proof (cases s)
    case Nil
    with 1(3) show ?thesis by simp
  next
    case (Cons c cs)
    consider (esc) "c = CHR 0x5C" | (shut) "c \<noteq> CHR 0x5C" "c = q" | (other) "c \<noteq> CHR 0x5C" "c \<noteq> q" by blast
    then show ?thesis
    proof cases
      case esc
      with 1(3) Cons obtain x ds where ds: "cs = x # ds" "balanced_from (Some q) False st ds" by (cases cs) auto
      with ih [of ds] Cons obtain body rest where r: "ds = body @ rest" "quoted q body" "balanced_from None False st rest" by auto
      have "s = (CHR 0x5C # x # body) @ rest" using esc ds r Cons by simp
      with quoted_escape [OF r(2)] r(3) show ?thesis by blast
    next
      case shut
      with 1(3) Cons have "balanced_from None False st cs" by simp
      moreover have "s = [q] @ cs" using shut Cons by simp
      ultimately show ?thesis using quoted_end by blast
    next
      case other
      with 1(3) Cons have "balanced_from (Some q) False st cs" by simp
      with ih [of cs] Cons obtain body rest where r: "cs = body @ rest" "quoted q body" "balanced_from None False st rest" by auto
      have "s = (c # body) @ rest" using r Cons by simp
      with quoted_char [OF other(2,1) r(2)] r(3) show ?thesis by blast
    qed
  qed
qed

lemma closes_char: "\<not> quote_char c \<Longrightarrow> \<not> bracket_char c \<Longrightarrow> closes st s \<Longrightarrow> closes st (c # s)"
proof (cases st)
  case (Cons t ts)
  assume c: "\<not> quote_char c" "\<not> bracket_char c" and "closes st s"
  with Cons obtain a b where "s = a @ closing t # b" "well_bracketed a" "closes ts b" by auto
  with Cons wb_char [OF c] show ?thesis by (metis append_Cons closes.simps(2))
qed (auto intro: wb_char)

lemma closes_quote: "quote_char q \<Longrightarrow> quoted q body \<Longrightarrow> closes st s \<Longrightarrow> closes st (q # body @ s)"
proof (cases st)
  case (Cons t ts)
  assume q: "quote_char q" "quoted q body" and "closes st s"
  with Cons obtain a b where "s = a @ closing t # b" "well_bracketed a" "closes ts b" by auto
  with Cons wb_quote [OF q] show ?thesis by (metis append_Cons append_assoc closes.simps(2))
qed (auto intro: wb_quote)

lemma closes_group: "c \<in> {CHR ''('', CHR ''[''} \<Longrightarrow> well_bracketed a \<Longrightarrow> closes st b \<Longrightarrow> closes st (c # a @ closing c # b)"
proof (cases st)
  case (Cons t ts)
  assume c: "c \<in> {CHR ''('', CHR ''[''}" "well_bracketed a" and "closes st b"
  with Cons obtain d e where de: "b = d @ closing t # e" "well_bracketed d" "closes ts e" by auto
  with c wb_group have "well_bracketed (c # a @ closing c # d)" by blast
  with Cons de show ?thesis by (metis append_Cons append_assoc closes.simps(2))
qed (auto intro: wb_group)

lemma closing_simps [simp]: "closing (CHR ''('') = CHR '')''" "closing (CHR ''['') = CHR '']''"
  by (simp_all add: closing_def)

lemma closes_of_scan: "set st \<subseteq> {CHR ''('', CHR ''[''} \<Longrightarrow> balanced_from None False st s \<Longrightarrow> closes st s"
proof (induction s arbitrary: st rule: length_induct)
  case (1 s)
  have ih: "closes st ds" if "length ds < length s" "set st \<subseteq> {CHR ''('', CHR ''[''}" "balanced_from None False st ds" for ds st
    using 1(1) that by blast
  show ?case
  proof (cases s)
    case Nil
    with 1(3) show ?thesis by (simp add: wb_nil)
  next
    case (Cons c cs)
    consider (quo) "quote_char c" | (opn) "c \<in> {CHR ''('', CHR ''[''}" | (shut) "c \<in> {CHR '')'', CHR '']''}"
      | (other) "\<not> quote_char c" "\<not> bracket_char c" by (auto simp: bracket_char_def)
    then show ?thesis
    proof cases
      case quo
      with 1(3) Cons have "balanced_from (Some c) False st cs" by (simp add: quote_char_def)
      with quoted_of_scan quote_not_escape [OF quo] obtain body rest where
        b: "cs = body @ rest" "quoted c body" "balanced_from None False st rest" by blast
      with ih [of rest st] 1(2) Cons have "closes st rest" by simp
      with closes_quote [OF quo b(2)] b(1) Cons show ?thesis by simp
    next
      case opn
      with 1(3) Cons have "balanced_from None False (c # st) cs" by auto
      moreover have "set (c # st) \<subseteq> {CHR ''('', CHR ''[''}" using 1(2) opn by simp
      ultimately have "closes (c # st) cs" using ih [of cs "c # st"] Cons by (simp del: closes.simps)
      then obtain a b where "cs = a @ closing c # b" "well_bracketed a" "closes st b" by auto
      with closes_group [OF opn] Cons show ?thesis by simp
    next
      case shut
      with 1(3) Cons obtain t ts where st: "st = t # ts" "t = (if c = CHR '')'' then CHR ''('' else CHR ''['')" "balanced_from None False ts cs"
        by (cases st) auto
      with ih [of cs ts] 1(2) Cons have "closes ts cs" by simp
      moreover have "s = [] @ closing t # cs" using st(2) shut Cons by (auto simp: closing_def)
      ultimately show ?thesis using st(1) wb_nil by auto
    next
      case other
      with 1(3) Cons have "balanced_from None False st cs" by (auto simp: quote_char_def bracket_char_def)
      with ih [of cs st] 1(2) Cons closes_char [OF other] show ?thesis by simp
    qed
  qed
qed

lemma scan_of_wb: "well_bracketed a \<Longrightarrow> balanced_from None False st (a @ rest) = balanced_from None False st rest"
proof (induction arbitrary: st rest rule: well_bracketed.induct)
  case (wb_char c s)
  then have "balanced_from None False st ((c # s) @ rest) = balanced_from None False st (s @ rest)"
    by (simp add: quote_char_def bracket_char_def)
  with wb_char show ?case by simp
next
  case (wb_quote q body s)
  from wb_quote(1) have "balanced_from None False st ((q # body @ s) @ rest) = balanced_from (Some q) False st (body @ s @ rest)"
    by (simp add: quote_char_def)
  with scan_quoted [OF wb_quote(2) quote_not_escape [OF wb_quote(1)]] wb_quote(4) show ?case by simp
next
  case (wb_group c a b)
  from wb_group(1) have "balanced_from None False st (c # a @ closing c # b @ rest) = balanced_from None False (c # st) (a @ closing c # b @ rest)"
    by auto
  also have "\<dots> = balanced_from None False (c # st) (closing c # b @ rest)" by (rule wb_group)
  also have "\<dots> = balanced_from None False st (b @ rest)" using wb_group(1) by auto
  finally show ?case using wb_group by simp
qed simp

text \<open>
C25: the delimiter scan accepts exactly the balanced texts: those that a grammar builds from
plain characters, closed quotations in which a backslash takes the next character, and
matching round and square brackets around balanced texts.
\<close>

theorem balanced_delimiters_grammar:
  "balanced_delimiters sql \<longleftrightarrow> well_bracketed sql"
  using closes_of_scan [of "[]" sql] scan_of_wb [of sql "[]" "[]"] by (auto simp: balanced_delimiters_def)

end
