(* ===== verification/Masking.thy ===== *)
theory Masking
  imports Py_Re Engine_Models Sql_Analyzer Exceptions "HOL-Library.AList"
begin

text \<open>
  \<^verbatim>\<open>app/services/masking.py\<close>: masking the cells of a result set by column rules. The
  parsing of SQL (sqlglot), of custom regular expressions and of replacement templates are
  the arguments \<open>parse_one\<close>, \<open>rx_compile\<close> and \<open>rx_template\<close>; matching itself is
  \<open>Py_Re\<close>. Cells are the texts \<open>str(value)\<close>. A column node's table is the name under its
  key \<open>table\<close>.
\<close>

section \<open>Rules and columns\<close>

record masking_rule =
  mk_id :: int
  mk_rule_name :: string
  mk_description :: string
  mk_is_active :: bool
  mk_instance_id :: "int option"
  mk_db_name :: string
  mk_table_name :: string
  mk_column_name :: string
  mk_rule_type :: string
  mk_rule_regex :: string
  mk_rule_regex_replace :: string
  mk_hide_group :: int
  mk_created_by :: string
  mk_created_at :: int

definition masking_dialect :: "string \<Rightarrow> string" where
  "masking_dialect db_type = (case map_of DIALECT_MAP (py_lower db_type) of Some d \<Rightarrow> d | None \<Rightarrow> ''mysql'')"

text \<open>\<open>sqlglot.parse_one\<close>: a tree, a \<open>ParseError\<close>, or another exception.\<close>

datatype parse_one_result = Parsed ast | ParseFailed | ParseRaised string

type_synonym one_parser = "string \<Rightarrow> string \<Rightarrow> parse_one_result"

text \<open>The breadth-first walk with the parent of every node.\<close>

function bfs_parents :: "(ast option \<times> ast) list \<Rightarrow> (ast option \<times> ast) list" where
  "bfs_parents [] = []"
| "bfs_parents ((p, t) # q) = (p, t) # bfs_parents (q @ map (\<lambda>c. (Some t, c)) (ast_children t))"
  by pat_completeness auto
termination
  by (relation "measure (\<lambda>q. sum_list (map (size \<circ> snd) q))") (use size_ast_children in \<open>auto simp: comp_def\<close>)

record column_ref =
  cl_field :: string
  cl_table :: string
  cl_schema :: string
  cl_alias :: string

definition arg_name :: "string \<Rightarrow> ast \<Rightarrow> string" where
  "arg_name k t = (case ast_arg k t of [] \<Rightarrow> [] | c # _ \<Rightarrow> ast_name c)"

definition column_ref_of :: "ast option \<times> ast \<Rightarrow> column_ref" where
  "column_ref_of pc =
     (let col = snd pc;
          alias = (case fst pc of Some p \<Rightarrow> if ast_class p = ''Alias'' then ast_alias p else [] | None \<Rightarrow> [])
      in \<lparr> cl_field = ast_name col, cl_table = or_str (arg_name ''table'' col) ''*'',
           cl_schema = ast_db col, cl_alias = or_str alias (ast_name col) \<rparr>)"

definition extract_select_columns :: "one_parser \<Rightarrow> string \<Rightarrow> string \<Rightarrow> column_ref list res" where
  "extract_select_columns parse_one sql db_type =
     (case parse_one (masking_dialect db_type) sql of
        ParseFailed \<Rightarrow> Inr []
      | ParseRaised e \<Rightarrow> Inl (RawException (EngineRaised e))
      | Parsed tree \<Rightarrow> Inr (map column_ref_of (filter (\<lambda>pc. ast_class (snd pc) = ''Column'') (bfs_parents [(None, tree)]))))"

section \<open>Replacing a value\<close>

record re_env =
  rx_compile :: "string \<Rightarrow> (re \<times> nat) option"
  rx_template :: "string \<Rightarrow> ((nat \<times> string) list \<Rightarrow> string) option"

definition cjk :: "char \<Rightarrow> bool" where
  "cjk c \<longleftrightarrow> 0x4e00 \<le> char_code c \<and> char_code c \<le> 0x9fa5"

definition email_re :: re where
  "email_re = seq [Grp 1 (times 2 word), plus word, Grp 2 (Seq (lit CHR ''@'') (plus any_char))]"

definition phone_re :: re where
  "phone_re = seq [Grp 1 (times 3 digit), times 4 digit, upto_times 4 digit, Grp 2 (times 2 digit)]"

definition card_re :: re where
  "card_re = seq [Grp 1 (times 6 digit), digit, Star digit, Grp 2 (times 4 digit)]"

definition id_card_re :: re where
  "id_card_re = seq [Grp 1 (times 3 digit), times 11 digit, Grp 2 (times 4 word)]"

definition name_re :: re where
  "name_re = seq [Grp 1 (Chr cjk), plus (Chr cjk)]"

definition address_re :: re where
  "address_re = seq [Grp 1 (times 6 any_char), plus any_char]"

definition BUILT_IN_RULES :: "(string \<times> re \<times> ((nat \<times> string) list \<Rightarrow> string)) list" where
  "BUILT_IN_RULES =
     [(''email'', email_re, \<lambda>g. group_of g 1 @ ''***'' @ group_of g 2),
      (''phone'', phone_re, \<lambda>g. group_of g 1 @ ''****'' @ group_of g 2),
      (''card'', card_re, \<lambda>g. group_of g 1 @ '' **** **** '' @ group_of g 2),
      (''id_card'', id_card_re, \<lambda>g. group_of g 1 @ ''***********'' @ group_of g 2),
      (''name'', name_re, \<lambda>g. group_of g 1 @ ''**''),
      (''address'', address_re, \<lambda>g. group_of g 1 @ ''***'')]"

text \<open>
  \<open>_mask_group\<close>: \<open>groups[hide_group - 1]\<close> counts from the end when it is negative, and may be
  out of range then.
\<close>

definition mask_group :: "nat \<Rightarrow> int \<Rightarrow> (nat \<times> string) list \<Rightarrow> string res" where
  "mask_group n hide_group gs =
     (let groups = map (\<lambda>i. map_of gs (Suc i)) [0..<n];
          k = hide_group - 1;
          join = (\<lambda>xs. concat (map (\<lambda>g. case g of None \<Rightarrow> [] | Some t \<Rightarrow> t) xs))
      in if hide_group \<le> int n then
           (let i = (if k < 0 then k + int n else k) in
            if i < 0 then Inl (RawException PyIndexError)
            else Inr (join (case groups ! nat i of
                       None \<Rightarrow> groups | Some t \<Rightarrow> groups[nat i := Some (replicate (length t) (CHR ''*''))])))
         else Inr (join groups))"

text \<open>\<open>re.sub\<close> with \<open>_mask_group\<close>, which raises for every match or for none.\<close>

definition sub_raising :: "re \<Rightarrow> ((nat \<times> string) list \<Rightarrow> string res) \<Rightarrow> string \<Rightarrow> string res" where
  "sub_raising r f s =
     (case f [] of
        Inl e \<Rightarrow> if re_search r s then Inl e else Inr s
      | Inr _ \<Rightarrow> Inr (re_sub r (\<lambda>g. case f g of Inl e \<Rightarrow> [] | Inr t \<Rightarrow> t) s))"

definition apply_regex_rule :: "re_env \<Rightarrow> string \<Rightarrow> masking_rule \<Rightarrow> string res" where
  "apply_regex_rule env v rule =
     (if mk_rule_regex rule = [] then Inr v
      else (case rx_compile env (mk_rule_regex rule) of
              None \<Rightarrow> Inr v
            | Some (r, n) \<Rightarrow>
                if mk_hide_group rule \<noteq> 0 then sub_raising r (mask_group n (mk_hide_group rule)) v
                else (case rx_template env (mk_rule_regex_replace rule) of
                        None \<Rightarrow> Inr v | Some f \<Rightarrow> Inr (re_sub r f v))))"

definition apply_rule :: "re_env \<Rightarrow> string \<Rightarrow> masking_rule \<Rightarrow> string res" where
  "apply_rule env v rule =
     (if v = [] then Inr v
      else (case map_of BUILT_IN_RULES (py_lower (mk_rule_type rule)) of
              Some (r, f) \<Rightarrow> Inr (re_sub r f v)
            | None \<Rightarrow> if py_lower (mk_rule_type rule) = ''regex'' then apply_regex_rule env v rule else Inr v))"

section \<open>Masking a result\<close>

definition matches_pattern :: "string \<Rightarrow> string \<Rightarrow> bool" where
  "matches_pattern v pattern \<longleftrightarrow>
     pattern \<noteq> [] \<and> (py_lower pattern = ''*'' \<or> py_lower v = py_lower pattern \<or> fn_match (py_lower pattern) (py_lower v))"

text \<open>\<open>col_ref_map.get(col.lower(), {})\<close>, where the last column with an alias wins.\<close>

definition ref_of_column :: "column_ref list \<Rightarrow> string \<Rightarrow> string \<times> string" where
  "ref_of_column refs col =
     (case find (\<lambda>r. py_lower (cl_alias r) = py_lower col) (rev refs) of
        Some r \<Rightarrow> (cl_field r, cl_table r) | None \<Rightarrow> ([], ''*''))"

definition rule_matches :: "column_ref list \<Rightarrow> masking_rule \<Rightarrow> string \<Rightarrow> bool" where
  "rule_matches refs rule col =
     (let (ref_field, ref_table) = ref_of_column refs col; col_name = py_lower (mk_column_name rule) in
      (matches_pattern col col_name \<or> matches_pattern ref_field col_name)
      \<and> (mk_table_name rule = ''*'' \<or> matches_pattern ref_table (mk_table_name rule)))"

text \<open>A rule takes the first column it matches; a later rule replaces an earlier one.\<close>

fun first_index :: "('a \<Rightarrow> bool) \<Rightarrow> nat \<Rightarrow> 'a list \<Rightarrow> nat option" where
  "first_index p i [] = None"
| "first_index p i (x # xs) = (if p x then Some i else first_index p (Suc i) xs)"

definition rule_target :: "column_ref list \<Rightarrow> string list \<Rightarrow> masking_rule \<Rightarrow> nat option" where
  "rule_target refs cols rule =
     (if mk_column_name rule = [] then None else first_index (rule_matches refs rule) 0 cols)"

fun mask_cols :: "column_ref list \<Rightarrow> string list \<Rightarrow> masking_rule list \<Rightarrow> (nat \<times> masking_rule) list \<Rightarrow> (nat \<times> masking_rule) list" where
  "mask_cols refs cols [] acc = acc"
| "mask_cols refs cols (rule # rules) acc =
     mask_cols refs cols rules (case rule_target refs cols rule of None \<Rightarrow> acc | Some i \<Rightarrow> AList.update i rule acc)"

fun row_cells :: "result_row \<Rightarrow> string option list" where
  "row_cells (RowDict d) = map snd d"
| "row_cells (RowTuple vs) = vs"

definition cell_text :: "string option \<Rightarrow> string" where
  "cell_text c = (case c of None \<Rightarrow> ''None'' | Some t \<Rightarrow> t)"

fun mask_row :: "re_env \<Rightarrow> (nat \<times> masking_rule) list \<Rightarrow> string option list \<Rightarrow> (string option list \<times> bool) res" where
  "mask_row env [] row = Inr (row, False)"
| "mask_row env ((i, rule) # cols) row =
     (if i < length row then
        rbind (apply_rule env (cell_text (row ! i)) rule) (\<lambda>v.
        rbind (mask_row env cols (row[i := Some v])) (\<lambda>(row1, masked).
          Inr (row1, masked \<or> v \<noteq> cell_text (row ! i))))
      else mask_row env cols row)"

fun mask_rows :: "re_env \<Rightarrow> (nat \<times> masking_rule) list \<Rightarrow> result_row list \<Rightarrow> (result_row list \<times> bool) res" where
  "mask_rows env cols [] = Inr ([], False)"
| "mask_rows env cols (r # rs) =
     rbind (mask_row env cols (row_cells r)) (\<lambda>(row, m1).
     rbind (mask_rows env cols rs) (\<lambda>(rows, m2). Inr (RowTuple row # rows, m1 \<or> m2)))"

record mask_outcome =
  mo_resultset :: result_set
  mo_hit_rule :: bool
  mo_masked :: bool

definition mask_result_with_meta ::
    "re_env \<Rightarrow> one_parser \<Rightarrow> masking_rule list \<Rightarrow> result_set \<Rightarrow> string \<Rightarrow> string \<Rightarrow> mask_outcome res" where
  "mask_result_with_meta env parse_one rules rs sql db_type =
     (if rules = [] \<or> qs_rows rs = [] then Inr \<lparr> mo_resultset = rs, mo_hit_rule = False, mo_masked = False \<rparr>
      else rbind (extract_select_columns parse_one sql db_type) (\<lambda>refs.
        let cols = mask_cols refs (qs_column_list rs) rules [] in
        if cols = [] then Inr \<lparr> mo_resultset = rs, mo_hit_rule = False, mo_masked = False \<rparr>
        else rbind (mask_rows env cols (qs_rows rs)) (\<lambda>(rows, masked).
          Inr \<lparr> mo_resultset = rs\<lparr>qs_rows := rows\<rparr>, mo_hit_rule = True, mo_masked = masked \<rparr>)))"

section \<open>Lemmas\<close>

lemma first_index_Some: "first_index p i xs = Some k \<Longrightarrow> i \<le> k \<and> k - i < length xs \<and> p (xs ! (k - i))
    \<and> (\<forall>j<k - i. \<not> p (xs ! j))"
proof (induction xs arbitrary: i)
  case Nil
  then show ?case by simp
next
  case (Cons x xs)
  show ?case
  proof (cases "p x")
    case True
    with Cons.prems show ?thesis by simp
  next
    case False
    with Cons.prems Cons.IH [of "Suc i"] have "Suc i \<le> k" "k - Suc i < length xs" "p (xs ! (k - Suc i))"
      "\<forall>j<k - Suc i. \<not> p (xs ! j)" by simp_all
    moreover define d where "d = k - Suc i"
    ultimately have d: "k - i = Suc d" "i \<le> k" "d < length xs" "p (xs ! d)" "\<forall>j<d. \<not> p (xs ! j)" by simp_all
    have "\<not> p ((x # xs) ! j)" if "j < Suc d" for j using that False d(5) by (cases j) simp_all
    with d show ?thesis by simp
  qed
qed

lemma rule_target_Some:
  "rule_target refs cols rule = Some i \<Longrightarrow> i < length cols \<and> rule_matches refs rule (cols ! i) \<and> (\<forall>j<i. \<not> rule_matches refs rule (cols ! j))"
  using first_index_Some [of "rule_matches refs rule" 0 cols i] by (auto simp: rule_target_def split: if_splits)

lemma first_index_exists: "x \<in> set xs \<Longrightarrow> p x \<Longrightarrow> first_index p i xs \<noteq> None"
  by (induction xs arbitrary: i) auto

lemma rule_target_exists:
  "mk_column_name rule \<noteq> [] \<Longrightarrow> col \<in> set cols \<Longrightarrow> rule_matches refs rule col \<Longrightarrow> \<exists>i. rule_target refs cols rule = Some i"
  using first_index_exists [of col cols "rule_matches refs rule"] by (simp add: rule_target_def)

lemma mask_cols_facts:
  assumes "distinct (map fst acc)" "mask_cols refs cols rules acc = mc"
  shows "distinct (map fst mc)"
    and "fst ` set mc = fst ` set acc \<union> {i. \<exists>rule\<in>set rules. rule_target refs cols rule = Some i}"
    and "map_of mc i = Some rule \<Longrightarrow> map_of acc i = Some rule \<or> (rule \<in> set rules \<and> rule_target refs cols rule = Some i)"
  using assms
proof (induction rules arbitrary: acc)
  case Nil
  { case 1 then show ?case by simp next case 2 then show ?case by simp next case 3 then show ?case by simp }
next
  case (Cons r rules)
  {
    case (1 acc)
    let ?acc = "case rule_target refs cols r of None \<Rightarrow> acc | Some i \<Rightarrow> AList.update i r acc"
    from 1 have "distinct (map fst ?acc)" by (cases "rule_target refs cols r") (simp_all add: distinct_update)
    with 1 Cons.IH(1) [of ?acc] show ?case by simp
  next
    case (2 acc)
    let ?acc = "case rule_target refs cols r of None \<Rightarrow> acc | Some i \<Rightarrow> AList.update i r acc"
    from 2 have "distinct (map fst ?acc)" by (cases "rule_target refs cols r") (simp_all add: distinct_update)
    with 2 Cons.IH(2) [of ?acc] show ?case by (auto simp: dom_update split: option.splits)
  next
    case (3 acc)
    let ?acc = "case rule_target refs cols r of None \<Rightarrow> acc | Some i \<Rightarrow> AList.update i r acc"
    from 3 have "distinct (map fst ?acc)" by (cases "rule_target refs cols r") (simp_all add: distinct_update)
    with 3 Cons.IH(3) [of ?acc] have "map_of ?acc i = Some rule \<or> (rule \<in> set rules \<and> rule_target refs cols rule = Some i)"
      by simp
    then show ?case
      by (elim disjE; cases "rule_target refs cols r") (simp_all add: update_conv' del: map_of_eq_Some_iff split: if_splits)
  }
qed

lemma mask_row_spec:
  assumes "distinct (map fst cols)" "mask_row env cols row = Inr (row', m)"
  shows "length row' = length row \<and> (\<forall>i<length row. case map_of cols i of None \<Rightarrow> row' ! i = row ! i
      | Some rule \<Rightarrow> \<exists>v. apply_rule env (cell_text (row ! i)) rule = Inr v \<and> row' ! i = Some v)"
  using assms
proof (induction cols arbitrary: row m)
  case Nil
  then show ?case by simp
next
  case (Cons c cols)
  obtain i rule where c: "c = (i, rule)" by (cases c)
  have fresh: "map_of cols i = None" using Cons.prems(1) c by (simp add: map_of_eq_None_iff)
  show ?case
  proof (cases "i < length row")
    case True
    with Cons.prems(2) c obtain v m1 where v: "apply_rule env (cell_text (row ! i)) rule = Inr v"
      and r: "mask_row env cols (row[i := Some v]) = Inr (row', m1)" by (auto simp: res_simps)
    from Cons.IH [OF _ r] Cons.prems(1) have len: "length row' = length row"
      and ih: "\<forall>k<length row. case map_of cols k of None \<Rightarrow> row' ! k = row[i := Some v] ! k
        | Some rule \<Rightarrow> \<exists>v'. apply_rule env (cell_text (row[i := Some v] ! k)) rule = Inr v' \<and> row' ! k = Some v'" by simp_all
    have "case map_of (c # cols) k of None \<Rightarrow> row' ! k = row ! k
        | Some rule \<Rightarrow> \<exists>v. apply_rule env (cell_text (row ! k)) rule = Inr v \<and> row' ! k = Some v" if "k < length row" for k
    proof (cases "k = i")
      case True
      with ih [rule_format, OF that] fresh v c that show ?thesis by simp
    next
      case False
      with ih [rule_format, OF that] c show ?thesis by (simp add: nth_list_update_neq [OF False [symmetric]] split: option.splits)
    qed
    with len show ?thesis by blast
  next
    case False
    with Cons.prems(2) c have r: "mask_row env cols row = Inr (row', m)" by simp
    from Cons.IH [OF _ r] Cons.prems(1) have "length row' = length row" and ih: "\<forall>k<length row. case map_of cols k of None \<Rightarrow> row' ! k = row ! k
        | Some rule \<Rightarrow> \<exists>v. apply_rule env (cell_text (row ! k)) rule = Inr v \<and> row' ! k = Some v" by simp_all
    moreover have "map_of (c # cols) k = map_of cols k" if "k < length row" for k using c False that by auto
    ultimately show ?thesis by simp
  qed
qed

text \<open>
  The cells of a row before and after masking, when \<open>taken\<close> says which rule has taken which
  column.
\<close>

definition masked_row :: "re_env \<Rightarrow> (nat \<Rightarrow> masking_rule option) \<Rightarrow> result_row \<Rightarrow> result_row \<Rightarrow> bool" where
  "masked_row env taken r r' \<longleftrightarrow> length (row_cells r') = length (row_cells r)
     \<and> (\<forall>i<length (row_cells r). case taken i of None \<Rightarrow> row_cells r' ! i = row_cells r ! i
          | Some rule \<Rightarrow> \<exists>v. apply_rule env (cell_text (row_cells r ! i)) rule = Inr v \<and> row_cells r' ! i = Some v)"

lemma mask_rows_spec:
  assumes "distinct (map fst cols)" "mask_rows env cols rows = Inr (rows', m)"
  shows "list_all2 (masked_row env (map_of cols)) rows rows'"
  using assms(2)
proof (induction rows arbitrary: rows' m)
  case Nil
  then show ?case by simp
next
  case (Cons r rows)
  then obtain row m1 rows1 m2 where "mask_row env cols (row_cells r) = Inr (row, m1)" "rows' = RowTuple row # rows1"
    "mask_rows env cols rows = Inr (rows1, m2)" by (auto simp: res_simps split: prod.splits)
  with mask_row_spec [OF assms(1)] Cons.IH show ?case by (simp add: masked_row_def)
qed

text \<open>Which rule takes which column.\<close>

definition taken_by :: "column_ref list \<Rightarrow> string list \<Rightarrow> masking_rule list \<Rightarrow> nat \<Rightarrow> masking_rule option" where
  "taken_by refs cols rules = map_of (mask_cols refs cols rules [])"

lemma taken_by_rule: "taken_by refs cols rules i = Some rule \<Longrightarrow> rule \<in> set rules \<and> rule_target refs cols rule = Some i"
  using mask_cols_facts(3) [of "[]" refs cols rules _ i rule] by (simp add: taken_by_def)

lemma taken_by_some: "rule \<in> set rules \<Longrightarrow> rule_target refs cols rule = Some i \<Longrightarrow> taken_by refs cols rules i \<noteq> None"
  using mask_cols_facts(2) [of "[]" refs cols rules] by (auto simp: taken_by_def map_of_eq_None_iff)

lemma masked_cells:
  assumes "mask_result_with_meta env parse_one rules rs sql db_type = Inr mo"
    and "extract_select_columns parse_one sql db_type = Inr refs"
  shows "list_all2 (masked_row env (taken_by refs (qs_column_list rs) rules)) (qs_rows rs) (qs_rows (mo_resultset mo))"
proof (cases "rules = [] \<or> qs_rows rs = [] \<or> mask_cols refs (qs_column_list rs) rules [] = []")
  case True
  with assms have "mo_resultset mo = rs" by (auto simp: mask_result_with_meta_def Let_def split: if_splits)
  moreover have "taken_by refs (qs_column_list rs) rules = (\<lambda>_. None)" if "qs_rows rs \<noteq> []"
    using True that by (auto simp: taken_by_def)
  ultimately show ?thesis by (cases "qs_rows rs = []") (simp_all add: list_all2_same masked_row_def)
next
  case False
  with assms obtain rows m where "mask_rows env (mask_cols refs (qs_column_list rs) rules []) (qs_rows rs) = Inr (rows, m)"
    "mo_resultset mo = rs\<lparr>qs_rows := rows\<rparr>"
    by (auto simp: mask_result_with_meta_def Let_def res_simps split: prod.splits)
  with mask_rows_spec mask_cols_facts(1) [of "[]"] show ?thesis by (simp add: taken_by_def)
qed

text \<open>
C14: masking changes exactly the cells of the matched columns. When masking succeeds the
result has as many rows as before, with as many cells; a cell of a column that a matching
rule has taken is what that rule makes of its text, every other cell is untouched; a
column is taken only by a rule that matches its name, or the name of the selected column
behind it, and its table, every rule taking the first column it matches; and no rule that
matches a column is left without one.
\<close>

theorem masking_exact:
  assumes "mask_result_with_meta env parse_one rules rs sql db_type = Inr mo"
    and "extract_select_columns parse_one sql db_type = Inr refs"
  shows "\<exists>taken. list_all2 (\<lambda>r r'. length (row_cells r') = length (row_cells r)
        \<and> (\<forall>i<length (row_cells r). case taken i of None \<Rightarrow> row_cells r' ! i = row_cells r ! i
             | Some rule \<Rightarrow> \<exists>v. apply_rule env (cell_text (row_cells r ! i)) rule = Inr v \<and> row_cells r' ! i = Some v))
      (qs_rows rs) (qs_rows (mo_resultset mo))
    \<and> (\<forall>i rule. taken i = Some rule \<longrightarrow> rule \<in> set rules \<and> i < length (qs_column_list rs)
         \<and> rule_matches refs rule (qs_column_list rs ! i) \<and> (\<forall>k<i. \<not> rule_matches refs rule (qs_column_list rs ! k)))
    \<and> (\<forall>rule\<in>set rules. mk_column_name rule \<noteq> [] \<and> (\<exists>col\<in>set (qs_column_list rs). rule_matches refs rule col)
         \<longrightarrow> (\<exists>i. taken i \<noteq> None \<and> rule_matches refs rule (qs_column_list rs ! i)))"
proof (rule exI [of _ "taken_by refs (qs_column_list rs) rules"], intro conjI)
  show "list_all2 (\<lambda>r r'. length (row_cells r') = length (row_cells r)
        \<and> (\<forall>i<length (row_cells r). case taken_by refs (qs_column_list rs) rules i of None \<Rightarrow> row_cells r' ! i = row_cells r ! i
             | Some rule \<Rightarrow> \<exists>v. apply_rule env (cell_text (row_cells r ! i)) rule = Inr v \<and> row_cells r' ! i = Some v))
      (qs_rows rs) (qs_rows (mo_resultset mo))"
    using masked_cells [OF assms] by (simp add: masked_row_def [abs_def])
  show "\<forall>i rule. taken_by refs (qs_column_list rs) rules i = Some rule \<longrightarrow> rule \<in> set rules \<and> i < length (qs_column_list rs)
      \<and> rule_matches refs rule (qs_column_list rs ! i) \<and> (\<forall>k<i. \<not> rule_matches refs rule (qs_column_list rs ! k))"
    using taken_by_rule rule_target_Some by blast
  show "\<forall>rule\<in>set rules. mk_column_name rule \<noteq> [] \<and> (\<exists>col\<in>set (qs_column_list rs). rule_matches refs rule col)
      \<longrightarrow> (\<exists>i. taken_by refs (qs_column_list rs) rules i \<noteq> None \<and> rule_matches refs rule (qs_column_list rs ! i))"
    using rule_target_exists taken_by_some rule_target_Some by metis
qed

text \<open>
A rule masks one column only. However many columns of the result a rule matches, all but
the first stay in clear: with one rule, every column after the first one it matches comes
out as the engine returned it.
\<close>

theorem rule_masks_first_column_only:
  assumes "mask_result_with_meta env parse_one [rule] rs sql db_type = Inr mo"
    and "extract_select_columns parse_one sql db_type = Inr refs"
    and "i < j" "j < length (qs_column_list rs)"
    and "rule_matches refs rule (qs_column_list rs ! i)" "rule_matches refs rule (qs_column_list rs ! j)"
  shows "list_all2 (\<lambda>r r'. j < length (row_cells r) \<longrightarrow> row_cells r' ! j = row_cells r ! j)
    (qs_rows rs) (qs_rows (mo_resultset mo))"
proof -
  have "taken_by refs (qs_column_list rs) [rule] j = None"
    using taken_by_rule rule_target_Some assms(3,5) by (metis list.set_intros(1) not_None_eq set_ConsD empty_iff list.set(1))
  then have "masked_row env (taken_by refs (qs_column_list rs) [rule]) r r' \<Longrightarrow>
      j < length (row_cells r) \<longrightarrow> row_cells r' ! j = row_cells r ! j" for r r'
    by (auto simp: masked_row_def)
  from list_all2_mono [OF masked_cells [OF assms(1,2)] this] show ?thesis .
qed

section \<open>What the built-in rules show\<close>

lemma digits_take_drop:
  "list_all p ds \<Longrightarrow> list_all p (take k ds)" "list_all p ds \<Longrightarrow> list_all p (drop k ds)"
  by (auto simp: list_all_iff dest: in_set_takeD in_set_dropD)

text \<open>A match of the whole text is replaced, and the text is not matched again.\<close>

lemma re_sub_whole:
  assumes "run r (None, s, []) = (pv', [], gs) # ms" "s \<noteq> []" "\<And>pv. run r (pv, [], []) = []"
  shows "re_sub r f s = f gs"
  using assms(2) by (simp add: re_sub_def sub_from.simps [of r f False None s] assms(1,3) usable_def rest_len_def
      sub_from.simps [of r f False pv' "[]"])

lemma run_phone:
  assumes "list_all is_digit ds" "9 \<le> length ds" "length ds \<le> 13"
  shows "\<exists>pv' ms. run phone_re (None, ds, []) = (pv', [], [(2, drop (length ds - 2) ds), (1, take 3 ds)]) # ms"
proof -
  let ?e = "drop 7 ds" and ?pv = "last_char (last_char None (take 3 ds)) (take 4 (drop 3 ds))"
  have e: "list_all is_digit ?e" "2 \<le> length ?e" "length ?e - 2 \<le> min 4 (length ?e)" "min 4 (length ?e) \<le> length ?e"
    using assms digits_take_drop(2) by auto
  have "run phone_re (None, ds, []) = concat (map (run (Grp 2 (times 2 digit)))
      (map (\<lambda>j. (last_char ?pv (take j ?e), drop j ?e, [(1, take 3 ds)])) (rev [0..<Suc (min 4 (length ?e))])))"
    using assms digits_take_drop(2) [OF assms(1)]
    by (simp add: phone_re_def digit_def run_group_class run_times_class run_upto_class del: times.simps upto_times.simps run.simps(7) upt_Suc)
  moreover have "drop (length ?e - 2) ?e = drop (length ds - 2) ds" using assms(2) by simp
  ultimately show ?thesis
    using class_then_group [OF e, of 2 ?pv "[(1, take 3 ds)]"] by (simp add: digit_def del: times.simps run.simps upt_Suc)
qed

lemma run_card:
  assumes "list_all is_digit ds" "11 \<le> length ds"
  shows "\<exists>pv' ms. run card_re (None, ds, []) = (pv', [], [(2, drop (length ds - 4) ds), (1, take 6 ds)]) # ms"
proof -
  let ?e = "drop 7 ds" and ?pv = "Some (ds ! 6)"
  have e: "list_all is_digit ?e" "4 \<le> length ?e" "length ?e - 4 \<le> length ?e" "length ?e \<le> length ?e"
    using assms digits_take_drop(2) by auto
  have d: "drop 6 ds = ds ! 6 # ?e" using Cons_nth_drop_Suc [of 6 ds] assms(2) by simp
  have "is_digit (ds ! 6)" using assms by (simp add: list_all_length)
  then have "run card_re (None, ds, []) = concat (map (run (Grp 2 (times 4 digit)))
      (map (\<lambda>j. (last_char ?pv (take j ?e), drop j ?e, [(1, take 6 ds)])) (rev [0..<Suc (length ?e)])))"
    using assms e(1)
    by (simp add: card_re_def digit_def run_group_class d run_star_class del: times.simps upto_times.simps run.simps(5,7) upt_Suc)
  moreover have "drop (length ?e - 4) ?e = drop (length ds - 4) ds" using assms(2) by simp
  ultimately show ?thesis
    using class_then_group [OF e, of 2 ?pv "[(1, take 6 ds)]"] by (simp add: digit_def del: times.simps run.simps upt_Suc)
qed

lemma run_id_card:
  assumes "list_all is_digit ds" "length ds = 18"
  shows "\<exists>pv' ms. run id_card_re (None, ds, []) = (pv', [], [(2, drop 14 ds), (1, take 3 ds)]) # ms"
proof -
  have "list_all word_char (drop 14 ds)"
    using assms(1) by (auto simp: list_all_iff is_digit_def word_char_def Let_def dest!: in_set_dropD)
  with assms digits_take_drop(2) [OF assms(1)] show ?thesis
    by (simp add: id_card_re_def digit_def word_def run_group_class run_times_class del: times.simps run.simps(7))
qed

lemma no_match_empty:
  "run phone_re (pv, [], []) = []" "run card_re (pv, [], []) = []" "run id_card_re (pv, [], []) = []"
  by (simp_all add: phone_re_def card_re_def id_card_re_def digit_def numeral_eq_Suc)

lemma phone_short:
  assumes "list_all is_digit ds" "length ds < 9"
  shows "run phone_re (pv, ds, []) = []"
proof (cases "7 \<le> length ds")
  case True
  let ?e = "drop 7 ds"
  have "run (Grp 2 (times 2 digit)) (q, drop j ?e, gs) = []" for q j gs
    using assms digits_take_drop(2) [OF digits_take_drop(2) [OF assms(1), of 7], of j]
    by (simp add: digit_def run_group_class del: times.simps run.simps)
  with True assms digits_take_drop(2) [OF assms(1)] show ?thesis
    by (simp add: phone_re_def digit_def run_group_class run_times_class run_upto_class
        del: times.simps upto_times.simps run.simps(7) upt_Suc)
next
  case False
  then have "\<not> 3 \<le> length ds \<or> \<not> 4 \<le> length ds - 3" by arith
  with assms digits_take_drop(2) [OF assms(1)] show ?thesis
    by (elim disjE; simp add: phone_re_def digit_def run_group_class run_times_class del: times.simps upto_times.simps run.simps(7) upt_Suc)
qed

lemma phone_short_sub: "list_all is_digit ds \<Longrightarrow> length ds < 9 \<Longrightarrow> sub_from phone_re f must pv ds = ds"
proof (induction ds arbitrary: pv must)
  case Nil
  then show ?case by (simp add: sub_from.simps [of _ _ _ _ "[]"] no_match_empty usable_def)
next
  case (Cons d ds)
  with phone_short [of "d # ds" pv] show ?case by (simp add: sub_from.simps [of _ _ _ _ "d # ds"] usable_def)
qed

lemma apply_builtin:
  "v \<noteq> [] \<Longrightarrow> apply_rule env v (rule\<lparr>mk_rule_type := ''phone''\<rparr>) = Inr (re_sub phone_re (\<lambda>g. group_of g 1 @ ''****'' @ group_of g 2) v)"
  "v \<noteq> [] \<Longrightarrow> apply_rule env v (rule\<lparr>mk_rule_type := ''card''\<rparr>) = Inr (re_sub card_re (\<lambda>g. group_of g 1 @ '' **** **** '' @ group_of g 2) v)"
  "v \<noteq> [] \<Longrightarrow> apply_rule env v (rule\<lparr>mk_rule_type := ''id_card''\<rparr>) = Inr (re_sub id_card_re (\<lambda>g. group_of g 1 @ ''***********'' @ group_of g 2) v)"
  by (simp_all add: apply_rule_def BUILT_IN_RULES_def py_lower_def lower_char_def char_code_def Let_def)

text \<open>
What the built-in rules show of a number. Of 9 to 13 digits the phone rule shows the
first three and the last two; of 11 digits or more the card rule shows the first six and the
last four; of 18 digits the id rule shows the first three and the last four. A number of
fewer than nine digits is not masked by the phone rule at all.
\<close>

theorem builtin_rules_on_digits:
  assumes "list_all is_digit ds" "ds \<noteq> []"
  shows "(9 \<le> length ds \<and> length ds \<le> 13 \<longrightarrow>
        apply_rule env ds (rule\<lparr>mk_rule_type := ''phone''\<rparr>) = Inr (take 3 ds @ ''****'' @ drop (length ds - 2) ds))
    \<and> (length ds < 9 \<longrightarrow> apply_rule env ds (rule\<lparr>mk_rule_type := ''phone''\<rparr>) = Inr ds)
    \<and> (11 \<le> length ds \<longrightarrow>
        apply_rule env ds (rule\<lparr>mk_rule_type := ''card''\<rparr>) = Inr (take 6 ds @ '' **** **** '' @ drop (length ds - 4) ds))
    \<and> (length ds = 18 \<longrightarrow>
        apply_rule env ds (rule\<lparr>mk_rule_type := ''id_card''\<rparr>) = Inr (take 3 ds @ ''***********'' @ drop 14 ds))"
proof (intro conjI impI)
  assume "9 \<le> length ds \<and> length ds \<le> 13"
  with run_phone [OF assms(1)] obtain pv' ms where
    "run phone_re (None, ds, []) = (pv', [], [(2, drop (length ds - 2) ds), (1, take 3 ds)]) # ms" by blast
  from re_sub_whole [OF this assms(2) no_match_empty(1)] show
    "apply_rule env ds (rule\<lparr>mk_rule_type := ''phone''\<rparr>) = Inr (take 3 ds @ ''****'' @ drop (length ds - 2) ds)"
    using assms(2) by (simp add: apply_builtin group_of_def)
next
  assume "length ds < 9"
  with assms show "apply_rule env ds (rule\<lparr>mk_rule_type := ''phone''\<rparr>) = Inr ds"
    by (simp add: apply_builtin re_sub_def phone_short_sub)
next
  assume "11 \<le> length ds"
  with run_card [OF assms(1)] obtain pv' ms where
    "run card_re (None, ds, []) = (pv', [], [(2, drop (length ds - 4) ds), (1, take 6 ds)]) # ms" by blast
  from re_sub_whole [OF this assms(2) no_match_empty(2)] show
    "apply_rule env ds (rule\<lparr>mk_rule_type := ''card''\<rparr>) = Inr (take 6 ds @ '' **** **** '' @ drop (length ds - 4) ds)"
    using assms(2) by (simp add: apply_builtin group_of_def)
next
  assume "length ds = 18"
  with run_id_card [OF assms(1)] obtain pv' ms where
    "run id_card_re (None, ds, []) = (pv', [], [(2, drop 14 ds), (1, take 3 ds)]) # ms" by blast
  from re_sub_whole [OF this assms(2) no_match_empty(3)] show
    "apply_rule env ds (rule\<lparr>mk_rule_type := ''id_card''\<rparr>) = Inr (take 3 ds @ ''***********'' @ drop 14 ds)"
    using assms(2) by (simp add: apply_builtin group_of_def)
qed

definition sample_rule :: masking_rule where
  "sample_rule = \<lparr> mk_id = 1, mk_rule_name = ''phone'', mk_description = [], mk_is_active = True, mk_instance_id = None,
     mk_db_name = ''*'', mk_table_name = ''users'', mk_column_name = ''*phone*'', mk_rule_type = ''phone'', mk_rule_regex = [],
     mk_rule_regex_replace = [], mk_hide_group = 0, mk_created_by = ''ann'', mk_created_at = 0 \<rparr>"

definition sample_re_env :: re_env where
  "sample_re_env = \<lparr> rx_compile = (\<lambda>_. None), rx_template = (\<lambda>_. None) \<rparr>"

text \<open>\<open>SELECT name, phone, office_phone FROM users\<close>\<close>

definition sample_column :: "string \<Rightarrow> ast" where
  "sample_column c = Ast ''Column'' c c [] [] [] [(''this'', [Ast ''Identifier'' c c [] [] [] []]),
     (''table'', [Ast ''Identifier'' ''users'' ''users'' [] [] [] []])]"

definition sample_select :: ast where
  "sample_select = Ast ''Select'' [] [] [] [] []
     [(''expressions'', [sample_column ''name'', sample_column ''phone'', sample_column ''office_phone''])]"

definition sample_phones :: result_set where
  "sample_phones = \<lparr> qs_error = [], qs_column_list = [''name'', ''phone'', ''office_phone''],
     qs_rows = [RowTuple [Some ''ann'', Some ''13912345678'', Some ''02187654321'']], qs_affected_rows = 1, qs_cost_time = 0 \<rparr>"

lemma sample_columns:
  "extract_select_columns (\<lambda>_ _. Parsed sample_select) ''SELECT ..'' ''mysql''
    = Inr [\<lparr> cl_field = ''name'', cl_table = ''users'', cl_schema = [], cl_alias = ''name'' \<rparr>,
           \<lparr> cl_field = ''phone'', cl_table = ''users'', cl_schema = [], cl_alias = ''phone'' \<rparr>,
           \<lparr> cl_field = ''office_phone'', cl_table = ''users'', cl_schema = [], cl_alias = ''office_phone'' \<rparr>]"
  by code_simp

lemma sample_masked:
  "mask_result_with_meta sample_re_env (\<lambda>_ _. Parsed sample_select) [sample_rule] sample_phones ''SELECT ..'' ''mysql''
    = Inr \<lparr> mo_resultset = sample_phones\<lparr>qs_rows := [RowTuple [Some ''ann'', Some ''139****78'', Some ''02187654321'']]\<rparr>,
        mo_hit_rule = True, mo_masked = True \<rparr>"
  by code_simp

lemma sample_matches:
  assumes "extract_select_columns (\<lambda>_ _. Parsed sample_select) ''SELECT ..'' ''mysql'' = Inr refs"
  shows "rule_matches refs sample_rule (qs_column_list sample_phones ! 1)"
    and "rule_matches refs sample_rule (qs_column_list sample_phones ! 2)"
  using assms unfolding sample_columns sum.inject by (hypsubst, code_simp)+

theorem masking_exact_witness:
  "\<exists>mo refs taken i. mask_result_with_meta sample_re_env (\<lambda>_ _. Parsed sample_select) [sample_rule] sample_phones ''SELECT ..'' ''mysql'' = Inr mo
     \<and> mo_masked mo \<and> extract_select_columns (\<lambda>_ _. Parsed sample_select) ''SELECT ..'' ''mysql'' = Inr refs
     \<and> taken i = Some sample_rule \<and> rule_matches refs sample_rule (qs_column_list sample_phones ! i)
     \<and> list_all2 (\<lambda>r r'. length (row_cells r') = length (row_cells r)) (qs_rows sample_phones) (qs_rows (mo_resultset mo))"
proof -
  obtain mo where mo: "mask_result_with_meta sample_re_env (\<lambda>_ _. Parsed sample_select) [sample_rule] sample_phones ''SELECT ..'' ''mysql'' = Inr mo"
    "mo_masked mo" using sample_masked by simp
  obtain refs where refs: "extract_select_columns (\<lambda>_ _. Parsed sample_select) ''SELECT ..'' ''mysql'' = Inr refs"
    using sample_columns by simp
  have col: "qs_column_list sample_phones ! 1 \<in> set (qs_column_list sample_phones)" "mk_column_name sample_rule \<noteq> []"
    by (simp_all add: sample_phones_def sample_rule_def)
  from masking_exact [OF mo(1) refs] obtain taken where
    t: "list_all2 (\<lambda>r r'. length (row_cells r') = length (row_cells r)
        \<and> (\<forall>i<length (row_cells r). case taken i of None \<Rightarrow> row_cells r' ! i = row_cells r ! i
             | Some rule \<Rightarrow> \<exists>v. apply_rule sample_re_env (cell_text (row_cells r ! i)) rule = Inr v \<and> row_cells r' ! i = Some v))
      (qs_rows sample_phones) (qs_rows (mo_resultset mo))"
    and r: "\<And>i rule. taken i = Some rule \<Longrightarrow> rule = sample_rule"
    and e: "\<exists>i. taken i \<noteq> None \<and> rule_matches refs sample_rule (qs_column_list sample_phones ! i)"
    using sample_matches(1) [OF refs] col by fastforce
  from e obtain i where "taken i = Some sample_rule" "rule_matches refs sample_rule (qs_column_list sample_phones ! i)" using r by fastforce
  moreover have "list_all2 (\<lambda>r r'. length (row_cells r') = length (row_cells r)) (qs_rows sample_phones) (qs_rows (mo_resultset mo))"
    using t by (rule list_all2_mono) simp
  ultimately show ?thesis using mo refs by blast
qed

theorem rule_masks_first_column_only_witness:
  "\<exists>mo. mask_result_with_meta sample_re_env (\<lambda>_ _. Parsed sample_select) [sample_rule] sample_phones ''SELECT ..'' ''mysql'' = Inr mo
     \<and> list_all2 (\<lambda>r r'. 2 < length (row_cells r) \<longrightarrow> row_cells r' ! 2 = row_cells r ! 2) (qs_rows sample_phones) (qs_rows (mo_resultset mo))"
proof -
  obtain mo where mo: "mask_result_with_meta sample_re_env (\<lambda>_ _. Parsed sample_select) [sample_rule] sample_phones ''SELECT ..'' ''mysql'' = Inr mo"
    using sample_masked by simp
  obtain refs where refs: "extract_select_columns (\<lambda>_ _. Parsed sample_select) ''SELECT ..'' ''mysql'' = Inr refs"
    using sample_columns by simp
  from rule_masks_first_column_only [OF mo refs, of 1 2] sample_matches [OF refs] mo show ?thesis by (simp add: sample_phones_def)
qed

theorem builtin_rules_on_digits_witness:
  "apply_rule sample_re_env ''13912345678'' (sample_rule\<lparr>mk_rule_type := ''phone''\<rparr>) = Inr ''139****78''
   \<and> apply_rule sample_re_env ''13912345678'' (sample_rule\<lparr>mk_rule_type := ''card''\<rparr>) = Inr ''139123 **** **** 5678''"
proof -
  have "list_all is_digit ''13912345678''" by code_simp
  from builtin_rules_on_digits [OF this] show ?thesis by simp
qed

end
