(* ===== verification/Query_Guard.thy ===== *)
theory Query_Guard
  imports Masking Sql_Delimiters
begin

text \<open>
  \<^verbatim>\<open>app/services/query_guard.py\<close>, the read-only guard of online queries, with the rest of
  \<^verbatim>\<open>app/services/sql_analyzer.py\<close> it uses (first word, EXPLAIN prefix, manual table
  references) and the query parser of \<^verbatim>\<open>app/engines/mongo.py\<close>. sqlglot and \<open>json.loads\<close>
  are the fields of \<open>guard_env\<close>: \<open>ge_parse\<close> and \<open>ge_parse_one\<close> parse in a dialect,
  \<open>ge_text k t\<close> is the text of a plain argument (empty when it is absent or false),
  \<open>ge_errors\<close> is \<open>error_messages()\<close> of one node, \<open>ge_limit t n\<close> is
  \<open>t.limit(n).sql(dialect)\<close>. The Chinese reasons are rendered in English.
\<close>

section \<open>Results and external calls\<close>

record guard_result =
  gr_allowed :: bool
  gr_reason :: string
  gr_kind :: string
  gr_refs :: "table_ref list"
  gr_needs_limit :: bool
  gr_normalized :: string
  gr_driver_limit :: bool

definition deny :: "string \<Rightarrow> string \<Rightarrow> string \<Rightarrow> guard_result" where
  "deny reason kind normalized = \<lparr> gr_allowed = False, gr_reason = reason, gr_kind = kind, gr_refs = [],
     gr_needs_limit = False, gr_normalized = normalized, gr_driver_limit = False \<rparr>"

datatype json = JNull | JBool bool | JNum string | JStr string | JArr "json list" | JObj "(string \<times> json) list"

datatype 'a sqlglot = Got 'a | SqlglotError string | OtherError string

record guard_env =
  ge_parse :: "string \<Rightarrow> string \<Rightarrow> ast option list sqlglot"
  ge_parse_one :: "string \<Rightarrow> string \<Rightarrow> ast option sqlglot"
  ge_text :: "string \<Rightarrow> ast \<Rightarrow> string"
  ge_errors :: "ast \<Rightarrow> string list"
  ge_limit :: "ast \<Rightarrow> int \<Rightarrow> string \<Rightarrow> string option"
  ge_json :: "string \<Rightarrow> json option"

definition has_arg :: "guard_env \<Rightarrow> string \<Rightarrow> ast \<Rightarrow> bool" where
  "has_arg env k t \<longleftrightarrow> ast_arg k t \<noteq> [] \<or> ge_text env k t \<noteq> []"

section \<open>The first word and manual references\<close>

definition READ_PREFIXES :: "string list" where
  "READ_PREFIXES = [''select'', ''with'', ''show'', ''desc'', ''describe'', ''explain'']"

definition WRITE_PREFIXES :: "string list" where
  "WRITE_PREFIXES = [''insert'', ''update'', ''delete'', ''create'', ''alter'', ''drop'', ''truncate'',
     ''replace'', ''merge'', ''call'', ''exec'', ''execute'', ''grant'', ''revoke'', ''set'', ''lock'',
     ''unlock'', ''copy'', ''do'', ''kill'', ''vacuum'', ''analyze'', ''optimize'', ''rename'', ''begin'',
     ''commit'', ''rollback'', ''use'']"

definition newline :: char where "newline = CHR 0x0A"

definition spaces :: re where "spaces = plus space"

definition first_word_re :: re where
  "first_word_re = seq [Bos, Star space,
     Star (Alt (seq [chars ''--'', Star (none_of [newline]), lit newline, Star space])
               (seq [chars ''/*'', Lazy any_dotall, chars ''*/'', Star space])),
     Grp 1 (plus (Chr (\<lambda>x. is_ascii_alpha x \<or> x = CHR ''_'')))]"

definition first_word :: "string \<Rightarrow> string" where
  "first_word sql = (case re_match first_word_re sql of None \<Rightarrow> [] | Some m \<Rightarrow> py_lower (group_of (snd (snd m)) 1))"

definition explain_re :: re where
  "explain_re = seq [Bos, Star space, kw ''explain'',
     Star (Seq spaces (alts [kw ''analyze'', kw ''costs'', kw ''extended'', kw ''formatted'', kw ''verbose'',
       kw ''plan'', seq [kw ''query'', spaces, kw ''plan'']])), spaces]"

definition strip_explain :: "string \<Rightarrow> string" where
  "strip_explain sql = py_strip (cut_prefix explain_re (clean_sql sql))"

definition quote_chars :: string where "quote_chars = ''`'' @ [CHR 0x22] @ ''[]''"

definition strip_quotes :: "string \<Rightarrow> string" where
  "strip_quotes s = rev (dropWhile (\<lambda>c. c \<in> set quote_chars) (rev (dropWhile (\<lambda>c. c \<in> set quote_chars) s)))"

definition ref_group :: re where
  "ref_group = Grp 1 (plus (Chr (\<lambda>c. c \<in> set quote_chars \<or> word_char c \<or> c = CHR ''.'')))"

definition manual_patterns :: "re list" where
  "manual_patterns =
     [seq [Bos, Star space, Alt (kw ''desc'') (kw ''describe''), spaces, ref_group],
      seq [Bos, Star space, kw ''show'', spaces, kw ''create'', spaces, kw ''table'', spaces, ref_group],
      seq [Bos, Star space, kw ''show'', spaces, opt (Seq (kw ''full'') spaces), kw ''columns'', spaces, kw ''from'', spaces, ref_group],
      seq [Bos, Star space, kw ''show'', spaces, kw ''index'', opt (kw ''es''), spaces, kw ''from'', spaces, ref_group]]"

text \<open>\<open>raw.rsplit('.', 1)\<close> of a text with a dot.\<close>

definition rsplit_dot :: "string \<Rightarrow> string \<times> string" where
  "rsplit_dot raw = (rev (tl (dropWhile (\<lambda>c. c \<noteq> CHR ''.'') (rev raw))), rev (takeWhile (\<lambda>c. c \<noteq> CHR ''.'') (rev raw)))"

fun manual_ref_from :: "re list \<Rightarrow> string \<Rightarrow> string \<Rightarrow> table_ref list" where
  "manual_ref_from [] sql default_schema = []"
| "manual_ref_from (p # ps) sql default_schema =
     (case re_match p sql of
        None \<Rightarrow> manual_ref_from ps sql default_schema
      | Some m \<Rightarrow>
          let raw = strip_quotes (group_of (snd (snd m)) 1) in
          if CHR ''.'' \<in> set raw
          then [(strip_quotes (fst (rsplit_dot raw)), strip_quotes (snd (rsplit_dot raw)))]
          else [(default_schema, raw)])"

definition manual_table_ref :: "string \<Rightarrow> string \<Rightarrow> string \<Rightarrow> table_ref list" where
  "manual_table_ref sql db_name db_type =
     manual_ref_from manual_patterns sql (if db_type = ''pgsql'' then [] else db_name)"

section \<open>Syntax by text\<close>

definition upper_or_unknown :: "string \<Rightarrow> string" where
  "upper_or_unknown p = or_str (py_upper_ascii p) ''UNKNOWN''"

definition unknown_keyword_reason :: "string \<Rightarrow> string" where
  "unknown_keyword_reason p = ''SQL syntax error: unknown keyword '' @ upper_or_unknown p"

fun first_reason :: "string list \<Rightarrow> string" where
  "first_reason [] = []"
| "first_reason (r # rs) = (if r \<noteq> [] then r else first_reason rs)"

definition reason_if :: "bool \<Rightarrow> string \<Rightarrow> string" where
  "reason_if c r = (if c then r else [])"

definition ansi_escape :: re where
  "ansi_escape = seq [lit (CHR 0x1B), lit (CHR ''[''), Star (Chr (\<lambda>c. is_digit c \<or> c = CHR '';'')), lit (CHR ''m'')]"

definition sanitize_sqlglot_error :: "string \<Rightarrow> string" where
  "sanitize_sqlglot_error m = re_sub ansi_escape (\<lambda>_. []) m"

definition read_command_syntax_reason :: "guard_env \<Rightarrow> string \<Rightarrow> string \<Rightarrow> ast \<Rightarrow> string" where
  "read_command_syntax_reason env prefix sql tree = first_reason
     [if prefix = ''show'' then first_reason
        [reason_if (re_fullmatch (seq [Star space, kw ''show'', Star space]) sql) ''SHOW: missing object'',
         reason_if (re_match (seq [Bos, Star space, kw ''show'', spaces, kw ''create'', spaces, kw ''table'', Star space, Eos]) sql \<noteq> None)
           ''SHOW CREATE TABLE: missing table'',
         reason_if (re_match (seq [Bos, Star space, kw ''show'', spaces, opt (Seq (kw ''full'') spaces), kw ''columns'', spaces, kw ''from'',
           Star space, Eos]) sql \<noteq> None) ''SHOW COLUMNS: missing table'',
         reason_if (re_match (seq [Bos, Star space, kw ''show'', spaces, kw ''index'', opt (kw ''es''), spaces, kw ''from'', Star space, Eos]) sql
           \<noteq> None) ''SHOW INDEX: missing table'',
         reason_if (ast_class tree = ''Command'' \<and> py_strip (ge_text env ''expression'' tree) = []) ''SHOW: missing object'']
      else [],
      reason_if ((prefix = ''desc'' \<or> prefix = ''describe'')
        \<and> re_match (seq [Bos, Star space, Alt (kw ''desc'') (kw ''describe''), spaces, plus non_space]) sql = None)
        ''DESCRIBE: missing object'']"

definition statement_body :: "string \<Rightarrow> string \<Rightarrow> string" where
  "statement_body prefix sql = py_strip (cut_prefix (seq [Bos, Star space, kw prefix, Word_Bound]) sql)"

definition basic_syntax_reason :: "string \<Rightarrow> string" where
  "basic_syntax_reason sql = first_reason
     [reason_if (\<not> balanced_delimiters sql) ''SQL syntax error: unbalanced delimiters'',
      reason_if (re_search (seq [lit (CHR '',''), Star space, lit (CHR '')'')]) sql) ''SQL syntax error: missing expression after comma'',
      reason_if (re_search (seq [alts [chars ''='', chars ''<>'', chars ''!='', chars ''<='', chars ''>='', chars ''<'', chars ''>'', chars ''+'',
        chars ''-'', chars ''/'', chars ''||'', chars ''&&''], Star space, Eos]) sql) ''SQL syntax error: missing expression after operator'']"

definition manual_write_syntax_reason :: "string \<Rightarrow> string \<Rightarrow> bool \<times> string" where
  "manual_write_syntax_reason prefix sql =
     (let body = statement_body prefix sql; non = plus non_space; one_more = seq [non, spaces, kw ''to'', spaces, non] in
      if prefix = ''replace'' then (True, first_reason
        [reason_if (body = [] \<or> re_fullmatch (kw ''into'') body) ''REPLACE: missing table'',
         reason_if (\<not> re_search (seq [Word_Bound, alts [Seq (kw ''value'') (opt (lit_ci (CHR ''s''))), kw ''set'', kw ''select''], Word_Bound]) body)
           ''REPLACE: missing VALUES, SET or SELECT''])
      else if prefix = ''grant'' then (True, first_reason
        [reason_if (body = []) ''GRANT: missing privilege'',
         reason_if (\<not> re_search (seq [Word_Bound, kw ''to'', spaces, non]) body) ''GRANT: missing grantee''])
      else if prefix = ''revoke'' then (True, first_reason
        [reason_if (body = []) ''REVOKE: missing privilege'',
         reason_if (\<not> re_search (seq [Word_Bound, kw ''from'', spaces, non]) body) ''REVOKE: missing grantee''])
      else if prefix = ''rename'' then (True, first_reason
        [reason_if (body = [] \<or> re_fullmatch (kw ''table'') body) ''RENAME: missing object'',
         reason_if (re_fullmatch (seq [kw ''table'', spaces, non]) body) ''RENAME: missing new name'',
         reason_if (\<not> re_fullmatch (seq [kw ''table'', spaces, one_more, Star (seq [Star space, lit (CHR '',''), Star space, one_more])]) body)
           ''RENAME: incomplete''])
      else if prefix = ''set'' then (True, first_reason
        [reason_if (body = []) ''SET: missing option'',
         reason_if (re_search (seq [Alt (lit (CHR ''='')) (Seq Word_Bound (kw ''to'')), Star space, Eos]) body) ''SET: missing value'',
         reason_if (CHR ''='' \<notin> set body \<and> \<not> re_fullmatch (seq [non, spaces, opt (Seq (kw ''to'') spaces), non, Star any_char]) body)
           ''SET: missing value''])
      else if prefix \<in> {''call'', ''exec'', ''execute''} then (True, reason_if (body = []) (py_upper_ascii prefix @ '': missing target''))
      else if prefix = ''use'' then (True, reason_if (body = []) ''USE: missing database'')
      else if prefix = ''lock'' then (True, first_reason
        [reason_if (body = []) ''LOCK: missing object'',
         reason_if (re_fullmatch (seq [kw ''table'', opt (lit_ci (CHR ''s'')), spaces, non]) body) ''LOCK TABLES: missing mode''])
      else if prefix = ''unlock'' then (True, reason_if (body = []) ''UNLOCK: missing object'')
      else if prefix = ''copy'' then (True,
        reason_if (body = [] \<or> \<not> re_search (seq [Word_Bound, Alt (kw ''to'') (kw ''from''), Word_Bound, spaces, non]) body)
          ''COPY: missing TO or FROM'')
      else (False, []))"

section \<open>Checks on the tree\<close>

definition arg_class :: "string \<Rightarrow> ast \<Rightarrow> string" where
  "arg_class k t = (case ast_arg k t of [] \<Rightarrow> [] | c # _ \<Rightarrow> ast_class c)"

definition arg_expressions :: "string \<Rightarrow> ast \<Rightarrow> ast list" where
  "arg_expressions k t = (case ast_arg k t of [] \<Rightarrow> [] | c # _ \<Rightarrow> ast_arg ''expressions'' c)"

definition has_like_property :: "ast \<Rightarrow> bool" where
  "has_like_property tree \<longleftrightarrow> (\<exists>item\<in>set (arg_expressions ''properties'' tree). ast_class item = ''LikeProperty'')"

definition ast_error_reason :: "guard_env \<Rightarrow> ast \<Rightarrow> string" where
  "ast_error_reason env tree = (case concat (map (ge_errors env) (walk tree)) of
     [] \<Rightarrow> [] | e # _ \<Rightarrow> ''SQL semantic error: '' @ sanitize_sqlglot_error e)"

definition kind_of_create :: "guard_env \<Rightarrow> ast \<Rightarrow> string" where
  "kind_of_create env tree = py_upper_ascii (ge_text env ''kind'' tree)"

fun schema_items_reason :: "guard_env \<Rightarrow> ast list \<Rightarrow> string" where
  "schema_items_reason env [] = []"
| "schema_items_reason env (item # items) =
     (if ast_class item = ''ColumnDef'' then
        if \<not> has_arg env ''kind'' item then ''CREATE TABLE: column without type'' else schema_items_reason env items
      else if ast_class item \<in> {''PrimaryKey'', ''UniqueColumnConstraint'', ''ForeignKey'', ''CheckColumnConstraint''}
      then schema_items_reason env items
      else ''CREATE TABLE: bad definition'')"

definition create_table_semantic_reason :: "guard_env \<Rightarrow> ast \<Rightarrow> string" where
  "create_table_semantic_reason env tree =
     (if kind_of_create env tree \<noteq> ''TABLE'' \<or> arg_class ''this'' tree \<noteq> ''Schema'' then []
      else schema_items_reason env (arg_expressions ''this'' tree))"

fun alter_actions_reason :: "guard_env \<Rightarrow> ast list \<Rightarrow> string" where
  "alter_actions_reason env [] = []"
| "alter_actions_reason env (a # as) =
     (if ast_class a = ''ColumnDef'' \<and> \<not> has_arg env ''kind'' a then ''ALTER TABLE: column without type''
      else if ast_class a = ''Identifier'' then ''ALTER TABLE: incomplete action''
      else alter_actions_reason env as)"

definition alter_table_semantic_reason :: "guard_env \<Rightarrow> ast \<Rightarrow> string" where
  "alter_table_semantic_reason env tree =
     (if ast_class tree \<notin> {''Alter'', ''AlterTable''} then [] else alter_actions_reason env (ast_arg ''actions'' tree))"

definition insert_semantic_reason :: "ast \<Rightarrow> string" where
  "insert_semantic_reason tree =
     (if arg_class ''expression'' tree \<noteq> ''Values'' then []
      else let lens = map (\<lambda>r. length (ast_arg ''expressions'' r))
                 (filter (\<lambda>r. ast_class r = ''Tuple'') (arg_expressions ''expression'' tree));
               columns = (if arg_class ''this'' tree = ''Schema'' then arg_expressions ''this'' tree else [])
           in case lens of [] \<Rightarrow> []
              | n # ns \<Rightarrow> if \<exists>m\<in>set ns. m \<noteq> n then ''INSERT: rows of different lengths''
                  else if columns \<noteq> [] \<and> n \<noteq> length columns then ''INSERT: columns and values differ''
                  else [])"

definition semantic_validation_reason :: "guard_env \<Rightarrow> string \<Rightarrow> ast \<Rightarrow> string" where
  "semantic_validation_reason env prefix tree =
     (if ast_error_reason env tree \<noteq> [] then ast_error_reason env tree
      else if prefix = ''insert'' \<and> ast_class tree = ''Insert'' then insert_semantic_reason tree
      else if prefix = ''create'' \<and> ast_class tree = ''Create'' then create_table_semantic_reason env tree
      else if prefix = ''alter'' then alter_table_semantic_reason env tree
      else [])"

definition operation_refused :: "string \<Rightarrow> string" where
  "operation_refused op = ''operation not allowed: '' @ op"

definition write_policy_reason :: "guard_env \<Rightarrow> string \<Rightarrow> ast \<Rightarrow> string" where
  "write_policy_reason env prefix tree =
     (if prefix = ''update'' \<and> ast_class tree = ''Update'' \<and> \<not> has_arg env ''where'' tree
      then operation_refused ''UPDATE without WHERE''
      else if prefix = ''delete'' \<and> ast_class tree = ''Delete'' \<and> \<not> has_arg env ''where'' tree
      then operation_refused ''DELETE without WHERE''
      else if prefix = ''insert'' \<and> ast_class tree = ''Insert'' \<and> arg_class ''expression'' tree = ''Select''
      then operation_refused ''INSERT ... SELECT''
      else operation_refused (py_upper_ascii prefix))"

definition create_syntax_reason :: "guard_env \<Rightarrow> ast \<Rightarrow> string" where
  "create_syntax_reason env tree = (let kind = kind_of_create env tree in first_reason
     [reason_if (\<not> has_arg env ''this'' tree) ''CREATE: missing object'',
      reason_if (kind = ''TABLE'' \<and> \<not> (arg_class ''this'' tree = ''Schema'' \<and> arg_expressions ''this'' tree \<noteq> [])
        \<and> \<not> has_arg env ''expression'' tree \<and> \<not> has_like_property tree) ''CREATE TABLE: missing columns, AS or LIKE'',
      reason_if (kind = ''VIEW'' \<and> \<not> has_arg env ''expression'' tree) ''CREATE VIEW: missing AS SELECT'',
      reason_if (kind \<in> {''FUNCTION'', ''PROCEDURE''}
        \<and> \<not> (has_arg env ''expression'' tree \<or> has_arg env ''begin'' tree \<or> has_arg env ''end'' tree))
        (''CREATE '' @ kind @ '': missing body'')])"

definition command_syntax_reason :: "guard_env \<Rightarrow> string \<Rightarrow> ast \<Rightarrow> string" where
  "command_syntax_reason env prefix tree = (let e = py_strip (ge_text env ''expression'' tree) in first_reason
     [reason_if (e = [] \<or> re_fullmatch (alts (map kw [''database'', ''function'', ''index'', ''procedure'', ''role'',
        ''schema'', ''sequence'', ''table'', ''trigger'', ''user'', ''view''])) e) (py_upper_ascii prefix @ '': missing object''),
      reason_if (prefix = ''create'' \<and> re_fullmatch (seq [alts [kw ''function'', kw ''procedure'', kw ''trigger''], spaces, plus non_space]) e)
        ''CREATE: missing body''])"

definition alter_command_reason :: "guard_env \<Rightarrow> ast \<Rightarrow> string" where
  "alter_command_reason env tree = (let e = py_strip (ge_text env ''expression'' tree); non = plus non_space in first_reason
     [reason_if (e = []) ''ALTER: missing object'',
      reason_if (re_fullmatch (kw ''table'') e) ''ALTER: missing object'',
      reason_if (re_fullmatch (Seq (opt (Seq (plus word) spaces)) non) e) ''ALTER: missing action'',
      reason_if (re_fullmatch (seq [opt (Seq (kw ''table'') spaces), non, spaces, kw ''rename'', opt (Seq spaces (kw ''to''))]) e)
        ''ALTER RENAME: missing new name'',
      reason_if (re_fullmatch (seq [kw ''table'', spaces, non, spaces, kw ''add'', opt (Seq spaces (kw ''column''))]) e)
        ''ALTER ADD COLUMN: missing column''])"

definition syntax_validation_reason :: "guard_env \<Rightarrow> string \<Rightarrow> string \<Rightarrow> ast \<Rightarrow> string" where
  "syntax_validation_reason env prefix sql tree = (let cls = ast_class tree; non = plus non_space in first_reason
     [reason_if (prefix \<in> {''select'', ''with''} \<and> cls = ''Select'' \<and> ast_arg ''expressions'' tree = []) ''SELECT: missing fields'',
      reason_if (prefix = ''update'' \<and> cls = ''Update'' \<and> \<not> has_arg env ''this'' tree) ''UPDATE: missing table'',
      reason_if (prefix = ''update'' \<and> cls = ''Update'' \<and> ast_arg ''expressions'' tree = []) ''UPDATE: missing SET'',
      reason_if (prefix = ''insert'' \<and> cls = ''Insert'' \<and> \<not> has_arg env ''this'' tree) ''INSERT: missing table'',
      reason_if (prefix = ''insert'' \<and> cls = ''Insert'' \<and> \<not> (has_arg env ''expression'' tree \<or> has_arg env ''source'' tree
        \<or> has_arg env ''default'' tree)) ''INSERT: missing VALUES or SELECT'',
      (if prefix = ''replace'' \<and> cls = ''Command'' then snd (manual_write_syntax_reason prefix sql) else []),
      reason_if (prefix = ''delete'' \<and> cls = ''Delete'' \<and> \<not> has_arg env ''this'' tree) ''DELETE: missing table'',
      (if prefix = ''create'' \<and> cls = ''Create'' then create_syntax_reason env tree else []),
      reason_if (prefix = ''drop'' \<and> cls = ''Drop'' \<and> \<not> has_arg env ''this'' tree) ''DROP: missing object'',
      (if prefix \<in> {''create'', ''drop''} \<and> cls = ''Command'' then command_syntax_reason env prefix tree else []),
      reason_if (prefix = ''alter'' \<and> cls \<in> {''Alter'', ''AlterTable''} \<and> \<not> has_arg env ''this'' tree) ''ALTER: missing object'',
      reason_if (prefix = ''alter'' \<and> cls \<in> {''Alter'', ''AlterTable''} \<and> ast_arg ''actions'' tree = []) ''ALTER: missing action'',
      (if prefix = ''alter'' \<and> cls = ''Command'' then alter_command_reason env tree else []),
      reason_if (prefix = ''truncate'' \<and> cls = ''TruncateTable'' \<and> ast_arg ''expressions'' tree = []) ''TRUNCATE: missing table'',
      reason_if (prefix = ''truncate'' \<and> re_fullmatch (seq [Star space, kw ''truncate'', opt (Seq spaces (kw ''table'')), Star space]) sql)
        ''TRUNCATE: missing table'',
      reason_if (prefix = ''rename'' \<and> re_fullmatch (seq [Star space, kw ''rename'', opt (Seq spaces (kw ''table'')), Star space]) sql)
        ''RENAME: missing object'',
      (if prefix \<in> {''grant'', ''revoke'', ''set'', ''call'', ''exec'', ''execute'', ''use'', ''lock'', ''unlock'', ''copy''}
       then snd (manual_write_syntax_reason prefix sql) else []),
      reason_if (prefix \<in> set WRITE_PREFIXES \<and> cls = ''Column'' \<and> py_lower (ast_name tree) = prefix)
        (py_upper_ascii prefix @ '': incomplete''),
      reason_if (prefix = ''alter'' \<and> re_match (seq [Bos, Star space, kw ''alter'', spaces, kw ''table'', spaces, non, Star space, Eos]) sql \<noteq> None)
        ''ALTER: missing action''])"

section \<open>Guards of SQL engines\<close>

definition guard_dialect :: "string \<Rightarrow> string" where
  "guard_dialect db_type = (case map_of DIALECT_MAP db_type of Some d \<Rightarrow> d | None \<Rightarrow> ''mysql'')"

definition multi_statements :: "string \<Rightarrow> guard_result" where
  "multi_statements normalized = deny ''several statements'' [] normalized"

definition syntax_error :: "string \<Rightarrow> string" where
  "syntax_error e = ''SQL syntax error: '' @ sanitize_sqlglot_error e"

definition explain_analyze_re :: re where
  "explain_analyze_re = seq [Bos, Star space, kw ''explain'', Word_Bound, Star any_char, Word_Bound, kw ''analyze'', Word_Bound]"

text \<open>The block for \<open>explain\<close>: a refusal, or the tree of the explained statement.\<close>

definition explain_target :: "guard_env \<Rightarrow> string \<Rightarrow> string \<Rightarrow> (guard_result + ast) res" where
  "explain_target env dialect normalized =
     (let parse_sql = strip_explain normalized; kind = ''explain'' in
      case ge_parse env dialect parse_sql of
        OtherError e \<Rightarrow> Inl (RawException (EngineRaised e))
      | SqlglotError e \<Rightarrow> Inr (Inl (deny (syntax_error e) kind normalized))
      | Got parsed \<Rightarrow>
         (case map the (filter (\<lambda>s. s \<noteq> None) parsed) of
            [] \<Rightarrow> Inr (Inl (deny ''SQL syntax error: no EXPLAIN target'' kind normalized))
          | tree # others \<Rightarrow>
              Inr (let target = first_word parse_sql in
                if others \<noteq> [] then Inl (multi_statements normalized)
                else if target \<notin> set READ_PREFIXES \<and> target \<notin> set WRITE_PREFIXES
                then Inl (deny (unknown_keyword_reason target) kind normalized)
                else let reason = first_reason [read_command_syntax_reason env target parse_sql tree,
                           syntax_validation_reason env target parse_sql tree, semantic_validation_reason env target tree]
                in if reason \<noteq> [] then Inl (deny reason kind normalized)
                else if re_match explain_analyze_re normalized \<noteq> None then Inl (deny ''EXPLAIN ANALYZE executes'' kind normalized)
                else Inr tree)))"

text \<open>What follows once the statement to check is known.\<close>

definition check_statement :: "guard_env \<Rightarrow> string \<Rightarrow> string \<Rightarrow> string \<Rightarrow> string \<Rightarrow> ast \<Rightarrow> guard_result" where
  "check_statement env db_type db_name prefix normalized tree =
     (let reason = first_reason [syntax_validation_reason env prefix normalized tree, semantic_validation_reason env prefix tree] in
      if reason \<noteq> [] then deny reason prefix normalized
      else if prefix \<in> set WRITE_PREFIXES then deny (write_policy_reason env prefix tree) prefix normalized
      else if prefix \<notin> set READ_PREFIXES then deny (operation_refused (upper_or_unknown prefix)) prefix normalized
      else if has_write_expression tree then deny ''write operation'' prefix normalized
      else if has_select_into tree then deny ''SELECT INTO'' prefix normalized
      else if has_locking_read tree then deny ''locking read'' prefix normalized
      else if has_side_effect_function tree then deny ''function with side effects'' prefix normalized
      else \<lparr> gr_allowed = True, gr_reason = [], gr_kind = prefix, gr_refs = table_refs_from_tree tree db_name db_type,
             gr_needs_limit = (prefix \<in> {''select'', ''with''}), gr_normalized = normalized, gr_driver_limit = False \<rparr>)"

definition sql_validate :: "guard_env \<Rightarrow> string \<Rightarrow> string \<Rightarrow> string \<Rightarrow> guard_result res" where
  "sql_validate env db_type sql db_name =
     (let normalized = clean_sql sql; prefix = first_word normalized; dialect = guard_dialect db_type in
      if normalized = [] then Inr (deny ''empty SQL'' [] [])
      else if basic_syntax_reason normalized \<noteq> [] then Inr (deny (basic_syntax_reason normalized) prefix normalized)
      else case ge_parse env dialect normalized of
        OtherError e \<Rightarrow> Inl (RawException (EngineRaised e))
      | SqlglotError e \<Rightarrow>
          Inr (let (known, reason) = manual_write_syntax_reason prefix normalized in
               if known then deny (if reason \<noteq> [] then reason else operation_refused (py_upper_ascii prefix)) prefix normalized
               else deny (syntax_error e) prefix normalized)
      | Got parsed \<Rightarrow>
         (case map the (filter (\<lambda>s. s \<noteq> None) parsed) of
            [] \<Rightarrow> Inr (deny ''SQL syntax error: no statement'' prefix normalized)
          | tree # others \<Rightarrow>
              if others \<noteq> [] then Inr (multi_statements normalized)
              else if prefix \<notin> set READ_PREFIXES \<and> prefix \<notin> set WRITE_PREFIXES
              then Inr (deny (unknown_keyword_reason prefix) prefix normalized)
              else if read_command_syntax_reason env prefix normalized tree \<noteq> []
              then Inr (deny (read_command_syntax_reason env prefix normalized tree) prefix normalized)
              else if prefix \<in> {''show'', ''desc'', ''describe''}
              then Inr \<lparr> gr_allowed = True, gr_reason = [], gr_kind = prefix,
                         gr_refs = manual_table_ref normalized db_name db_type, gr_needs_limit = False,
                         gr_normalized = normalized, gr_driver_limit = False \<rparr>
              else if prefix = ''explain''
              then rbind (explain_target env dialect normalized) (\<lambda>r.
                     Inr (case r of Inl d \<Rightarrow> d | Inr target \<Rightarrow> check_statement env db_type db_name prefix normalized target))
              else Inr (check_statement env db_type db_name prefix normalized tree)))"

section \<open>Row limits\<close>

definition ast_inject_limit :: "guard_env \<Rightarrow> string \<Rightarrow> int \<Rightarrow> string \<Rightarrow> string option res" where
  "ast_inject_limit env normalized limit_num dialect =
     (case ge_parse_one env dialect normalized of
        OtherError e \<Rightarrow> Inl (RawException (EngineRaised e))
      | SqlglotError e \<Rightarrow> Inr None
      | Got None \<Rightarrow> Inr None
      | Got (Some tree) \<Rightarrow>
          Inr (if ast_arg ''limit'' tree \<noteq> [] then Some normalized else ge_limit env tree limit_num dialect))"

definition ast_has_limit :: "guard_env \<Rightarrow> string \<Rightarrow> string \<Rightarrow> bool option res" where
  "ast_has_limit env normalized dialect =
     (case ge_parse_one env dialect normalized of
        OtherError e \<Rightarrow> Inl (RawException (EngineRaised e))
      | SqlglotError e \<Rightarrow> Inr None
      | Got None \<Rightarrow> Inr None
      | Got (Some tree) \<Rightarrow> Inr (Some (ast_arg ''limit'' tree \<noteq> [])))"

definition limit_word :: re where
  "limit_word = seq [Word_Bound, kw ''limit'', Word_Bound]"

definition with_limit :: "string \<Rightarrow> int \<Rightarrow> string" where
  "with_limit sql limit_num = sql @ '' LIMIT '' @ py_str_int limit_num"

definition no_limit_wanted :: "int \<Rightarrow> string \<Rightarrow> bool" where
  "no_limit_wanted limit_num kind \<longleftrightarrow> limit_num \<le> 0 \<or> kind \<notin> {''select'', ''with''}"

definition sql_apply_limit :: "guard_env \<Rightarrow> string \<Rightarrow> string \<Rightarrow> int \<Rightarrow> string \<Rightarrow> string res" where
  "sql_apply_limit env db_type sql limit_num kind =
     (let normalized = clean_sql sql in
      if no_limit_wanted limit_num kind then Inr normalized
      else rbind (ast_inject_limit env normalized limit_num (guard_dialect db_type)) (\<lambda>injected.
        Inr (case injected of
               Some t \<Rightarrow> t
             | None \<Rightarrow> if re_search limit_word normalized then normalized else with_limit normalized limit_num)))"

definition oracle_apply_limit :: "string \<Rightarrow> int \<Rightarrow> string \<Rightarrow> string" where
  "oracle_apply_limit sql limit_num kind =
     (let normalized = clean_sql sql in
      if no_limit_wanted limit_num kind then normalized
      else ''SELECT * FROM ('' @ normalized @ '') WHERE ROWNUM <= '' @ py_str_int limit_num)"

definition mssql_apply_limit :: "string \<Rightarrow> int \<Rightarrow> string \<Rightarrow> string" where
  "mssql_apply_limit sql limit_num kind =
     (let normalized = clean_sql sql in
      if no_limit_wanted limit_num kind then normalized
      else if re_search (seq [Word_Bound, kw ''top'', Star space, opt (lit (CHR ''('')), plus digit]) normalized then normalized
      else ''SELECT TOP ('' @ py_str_int limit_num @ '') * FROM ('' @ normalized @ '') AS sagitta_subq'')"

definition es_apply_limit :: "guard_env \<Rightarrow> string \<Rightarrow> string \<Rightarrow> int \<Rightarrow> string \<Rightarrow> string res" where
  "es_apply_limit env db_type sql limit_num kind =
     (let normalized = clean_sql sql in
      if no_limit_wanted limit_num kind then Inr normalized
      else rbind (ast_has_limit env normalized (guard_dialect db_type)) (\<lambda>found.
        Inr (if (case found of Some b \<Rightarrow> b | None \<Rightarrow> re_search limit_word normalized) then normalized
             else with_limit normalized limit_num)))"

section \<open>Cassandra, MongoDB and Redis\<close>

definition ident_re :: re where
  "ident_re = Seq (Chr (\<lambda>c. is_ascii_alpha c \<or> c = CHR ''_'')) (Star word)"

definition cassandra_from_re :: re where
  "cassandra_from_re = seq [Word_Bound, kw ''from'', spaces, Grp 1 ident_re, opt (Seq (lit (CHR ''.'')) (Grp 2 ident_re))]"

definition cassandra_table_refs :: "string \<Rightarrow> string \<Rightarrow> table_ref list" where
  "cassandra_table_refs sql db_name =
     map (\<lambda>g. let schema = group_of g 1; table = group_of g 2 in
            (if table \<noteq> [] then schema else db_name, or_str table schema)) (find_iter cassandra_from_re sql)"

definition cassandra_validate :: "string \<Rightarrow> string \<Rightarrow> guard_result" where
  "cassandra_validate sql db_name =
     (let normalized = clean_sql sql; prefix = first_word normalized; refs = cassandra_table_refs normalized db_name in
      if normalized = [] then deny ''empty CQL'' [] []
      else if has_extra_statement sql then multi_statements normalized
      else if prefix \<in> set WRITE_PREFIXES then deny (operation_refused (py_upper_ascii prefix)) prefix normalized
      else if prefix \<noteq> ''select'' then
        deny (if prefix \<in> set READ_PREFIXES then ''Cassandra allows SELECT only, not '' @ upper_or_unknown prefix
              else ''CQL syntax error: unknown keyword '' @ upper_or_unknown prefix) prefix normalized
      else if re_search (seq [Word_Bound, kw ''select'', Word_Bound, plus any_dotall, Word_Bound, kw ''into'', Word_Bound]) normalized
      then deny ''SELECT INTO'' prefix []
      else if re_search (seq [Word_Bound, kw ''for'', spaces, kw ''update'', Word_Bound]) normalized then deny ''locking read'' prefix []
      else if refs = [] then deny ''Cassandra SELECT needs FROM'' prefix normalized
      else \<lparr> gr_allowed = True, gr_reason = [], gr_kind = prefix, gr_refs = refs,
             gr_needs_limit = (\<not> re_search limit_word normalized), gr_normalized = normalized, gr_driver_limit = False \<rparr>)"

definition cassandra_apply_limit :: "string \<Rightarrow> int \<Rightarrow> string \<Rightarrow> string" where
  "cassandra_apply_limit sql limit_num kind =
     (let sql_strip = rstrip_semicolons (py_strip sql) in
      if kind = ''select'' \<and> 0 < limit_num \<and> \<not> re_search limit_word sql_strip then with_limit sql_strip limit_num else sql_strip)"

text \<open>
  \<open>MongoEngine._parse_mongo_query\<close>: a \<open>ValueError\<close> is \<open>None\<close>. Arguments that are no JSON
  become the empty document or pipeline.
\<close>

record mongo_query =
  mo_type :: string
  mo_collection :: string
  mo_filter :: json
  mo_projection :: json
  mo_pipeline :: "json list"

definition unsafe_mongo_input :: "string \<Rightarrow> bool" where
  "unsafe_mongo_input sql \<longleftrightarrow> (\<exists>ch\<in>{CHR '';'', CHR ''|'', CHR 0x60}. ch \<in> set sql)"

definition mongo_find_re :: re where
  "mongo_find_re = seq [chars ''db.'', Grp 1 (plus word), chars ''.find('', Grp 2 (Seq any_dotall (Lazy any_dotall)),
     opt (seq [lit (CHR '',''), Star space, Grp 3 (seq [lit (CHR ''{''), plus any_dotall, lit (CHR ''}'')])]), Star space, lit (CHR '')''), Eos]"

definition mongo_aggregate_re :: re where
  "mongo_aggregate_re = seq [chars ''db.'', Grp 1 (plus word), chars ''.aggregate(['', Grp 2 (plus any_dotall), chars ''])'', Eos]"

definition mongo_count_re :: re where
  "mongo_count_re = seq [chars ''db.'', Grp 1 (plus word), chars ''.count('', opt (Grp 2 (plus any_dotall)), lit (CHR '')''), Eos]"

definition json_or_empty :: "guard_env \<Rightarrow> string \<Rightarrow> json" where
  "json_or_empty env t = (case ge_json env t of Some j \<Rightarrow> j | None \<Rightarrow> JObj [])"

definition json_items :: "json option \<Rightarrow> json list" where
  "json_items j = (case j of Some (JArr xs) \<Rightarrow> xs | _ \<Rightarrow> [])"

definition parse_mongo_query :: "guard_env \<Rightarrow> string \<Rightarrow> mongo_query option" where
  "parse_mongo_query env sql0 =
     (let sql = py_strip sql0 in
      if unsafe_mongo_input sql then None
      else case re_match mongo_find_re sql of
        Some m \<Rightarrow>
          let g = snd (snd m); filter_str = py_strip (group_of g 2); projection_str = group_of g 3 in
          Some \<lparr> mo_type = ''find'', mo_collection = group_of g 1,
                 mo_filter = (if filter_str \<in> {''{}'', []} then JObj [] else json_or_empty env filter_str),
                 mo_projection = (if projection_str \<noteq> [] then json_or_empty env projection_str else JObj []), mo_pipeline = [] \<rparr>
      | None \<Rightarrow>
         (case re_match mongo_aggregate_re sql of
            Some m \<Rightarrow>
              let g = snd (snd m) in
              Some \<lparr> mo_type = ''aggregate'', mo_collection = group_of g 1, mo_filter = JObj [], mo_projection = JObj [],
                     mo_pipeline = json_items (ge_json env (''['' @ group_of g 2 @ '']'')) \<rparr>
          | None \<Rightarrow>
             (case re_match mongo_count_re sql of
                Some m \<Rightarrow>
                  let g = snd (snd m) in
                  Some \<lparr> mo_type = ''count'', mo_collection = group_of g 1,
                         mo_filter = json_or_empty env (py_strip (or_str (group_of g 2) ''{}'')), mo_projection = JObj [], mo_pipeline = [] \<rparr>
              | None \<Rightarrow> None)))"

definition FORBIDDEN_AGG_STAGES :: "string list" where
  "FORBIDDEN_AGG_STAGES = [''$out'', ''$merge'', ''$function'', ''$accumulator'']"

fun forbidden_stage :: "json \<Rightarrow> bool" where
  "forbidden_stage (JObj kvs) = (\<exists>k\<in>set FORBIDDEN_AGG_STAGES. k \<in> set (map fst kvs))"
| "forbidden_stage j = False"

definition mongo_validate :: "guard_env \<Rightarrow> string \<Rightarrow> string \<Rightarrow> guard_result" where
  "mongo_validate env sql db_name =
     (case parse_mongo_query env sql of
        None \<Rightarrow> deny ''unsupported MongoDB query'' [] (py_strip sql)
      | Some q \<Rightarrow>
          if mo_type q = ''aggregate'' \<and> (\<exists>stage\<in>set (mo_pipeline q). forbidden_stage stage)
          then deny ''aggregate stage that writes or runs code'' ''aggregate'' (py_strip sql)
          else \<lparr> gr_allowed = True, gr_reason = [], gr_kind = mo_type q, gr_refs = [(db_name, mo_collection q)],
                 gr_needs_limit = (mo_type q \<in> {''find'', ''aggregate''}), gr_normalized = py_strip sql, gr_driver_limit = True \<rparr>)"

definition REDIS_READ_COMMANDS :: "string list" where
  "REDIS_READ_COMMANDS = [''get'', ''mget'', ''hget'', ''hgetall'', ''hkeys'', ''hvals'', ''lrange'', ''smembers'', ''scard'', ''zrange'',
     ''zrangebyscore'', ''zcard'', ''ttl'', ''pttl'', ''type'', ''exists'', ''strlen'', ''llen'', ''sismember'', ''zscore'', ''scan'',
     ''hscan'', ''sscan'', ''zscan'', ''info'', ''dbsize'', ''time'', ''ping'', ''object'']"

text \<open>\<open>sql.strip().split()[0].lower()\<close>, empty for blank text.\<close>

definition redis_command :: "string \<Rightarrow> string" where
  "redis_command sql = py_lower (takeWhile (\<lambda>c. \<not> py_isspace c) (py_strip sql))"

definition redis_validate :: "string \<Rightarrow> string \<Rightarrow> guard_result" where
  "redis_validate sql db_name =
     (let cmd = redis_command sql in
      if cmd \<notin> set REDIS_READ_COMMANDS then deny (''Redis command '' @ upper_or_unknown cmd) cmd (py_strip sql)
      else \<lparr> gr_allowed = True, gr_reason = [], gr_kind = cmd, gr_refs = [], gr_needs_limit = False,
             gr_normalized = py_strip sql, gr_driver_limit = True \<rparr>)"

section \<open>The guard of an engine\<close>

datatype query_guard =
    UnsupportedQueryGuard string
  | SqlQueryGuard string
  | OracleQueryGuard
  | MssqlQueryGuard
  | ElasticsearchQueryGuard string
  | CassandraQueryGuard
  | MongoQueryGuard
  | RedisCommandGuard

definition get_query_guard :: "string \<Rightarrow> query_guard" where
  "get_query_guard db_type =
     (let normalized = py_lower db_type in
      if normalized \<in> {''mysql'', ''tidb''} then SqlQueryGuard normalized
      else if normalized \<in> {''starrocks'', ''pgsql''} then SqlQueryGuard normalized
      else if normalized = ''oracle'' then OracleQueryGuard
      else if normalized = ''mssql'' then MssqlQueryGuard
      else if normalized \<in> {''clickhouse'', ''doris''} then SqlQueryGuard normalized
      else if normalized \<in> {''elasticsearch'', ''opensearch''} then ElasticsearchQueryGuard normalized
      else if normalized = ''cassandra'' then CassandraQueryGuard
      else if normalized = ''mongo'' then MongoQueryGuard
      else if normalized = ''redis'' then RedisCommandGuard
      else UnsupportedQueryGuard normalized)"

fun guard_validate :: "guard_env \<Rightarrow> query_guard \<Rightarrow> string \<Rightarrow> string \<Rightarrow> guard_result res" where
  "guard_validate env (UnsupportedQueryGuard t) sql db_name = Inr (deny (t @ '': no online queries'') [] (py_strip sql))"
| "guard_validate env (SqlQueryGuard t) sql db_name = sql_validate env t sql db_name"
| "guard_validate env OracleQueryGuard sql db_name = sql_validate env ''oracle'' sql db_name"
| "guard_validate env MssqlQueryGuard sql db_name = sql_validate env ''mssql'' sql db_name"
| "guard_validate env (ElasticsearchQueryGuard t) sql db_name = sql_validate env t sql db_name"
| "guard_validate env CassandraQueryGuard sql db_name = Inr (cassandra_validate sql db_name)"
| "guard_validate env MongoQueryGuard sql db_name = Inr (mongo_validate env sql db_name)"
| "guard_validate env RedisCommandGuard sql db_name = Inr (redis_validate sql db_name)"

fun guard_apply_limit :: "guard_env \<Rightarrow> query_guard \<Rightarrow> string \<Rightarrow> int \<Rightarrow> string \<Rightarrow> string res" where
  "guard_apply_limit env (SqlQueryGuard t) sql n kind = sql_apply_limit env t sql n kind"
| "guard_apply_limit env OracleQueryGuard sql n kind = Inr (oracle_apply_limit sql n kind)"
| "guard_apply_limit env MssqlQueryGuard sql n kind = Inr (mssql_apply_limit sql n kind)"
| "guard_apply_limit env (ElasticsearchQueryGuard t) sql n kind = es_apply_limit env t sql n kind"
| "guard_apply_limit env CassandraQueryGuard sql n kind = Inr (cassandra_apply_limit sql n kind)"
| "guard_apply_limit env MongoQueryGuard sql n kind = Inr (py_strip sql)"
| "guard_apply_limit env RedisCommandGuard sql n kind = Inr (py_strip sql)"
| "guard_apply_limit env (UnsupportedQueryGuard t) sql n kind = Inr (py_strip sql)"

end
