(* ===== verification/Query_Guard_Facts.thy ===== *)
theory Query_Guard_Facts
  imports Query_Guard
begin

text \<open>
  What the query guard promises: an accepted text is one read-only statement, for every
  kind of engine; the two ways around it that the code leaves open; and the row limits.
\<close>

section \<open>Read-only trees\<close>

text \<open>
  A tree without a write node, SELECT INTO, locking clause and function with side effects
  anywhere below it.
\<close>

definition side_effect_name :: "ast \<Rightarrow> string" where
  "side_effect_name n = (if ast_class n = ''Anonymous'' then ast_this n else ast_fn n)"

definition read_only_tree :: "ast \<Rightarrow> bool" where
  "read_only_tree tree \<longleftrightarrow> (\<forall>u. subterm u tree \<longrightarrow>
      ast_class u \<notin> set WRITE_EXPR_NAMES
    \<and> (ast_class u = ''Select'' \<longrightarrow> ast_arg ''into'' u = [] \<and> ast_arg ''locks'' u = [])
    \<and> py_lower (side_effect_name u) \<notin> set SIDE_EFFECT_FUNCTIONS)"

lemma py_lower_Nil [simp]: "py_lower [] = []"
  by (simp add: py_lower_def)

lemma no_write_expression: "\<not> has_write_expression tree \<longleftrightarrow> (\<forall>u. subterm u tree \<longrightarrow> ast_class u \<notin> set WRITE_EXPR_NAMES)"
  unfolding has_write_expression_def by (simp add: find_class_None) blast

lemma no_select_into: "\<not> has_select_into tree \<longleftrightarrow> (\<forall>u. subterm u tree \<longrightarrow> ast_class u = ''Select'' \<longrightarrow> ast_arg ''into'' u = [])"
  by (auto simp: has_select_into_def find_all_def set_walk)

lemma no_locking_read: "\<not> has_locking_read tree \<longleftrightarrow> (\<forall>u. subterm u tree \<longrightarrow> ast_class u = ''Select'' \<longrightarrow> ast_arg ''locks'' u = [])"
  by (auto simp: has_locking_read_def find_all_def set_walk)

lemma empty_no_side_effect: "[] \<notin> set SIDE_EFFECT_FUNCTIONS"
  by (simp add: SIDE_EFFECT_FUNCTIONS_def)

lemma no_side_effect_function:
  "\<not> has_side_effect_function tree \<longleftrightarrow> (\<forall>u. subterm u tree \<longrightarrow> py_lower (side_effect_name u) \<notin> set SIDE_EFFECT_FUNCTIONS)"
  using empty_no_side_effect
  by (auto simp: has_side_effect_function_def set_walk side_effect_name_def Let_def py_lower_def)

lemma read_only_treeI:
  "\<not> has_write_expression tree \<Longrightarrow> \<not> has_select_into tree \<Longrightarrow> \<not> has_locking_read tree \<Longrightarrow> \<not> has_side_effect_function tree
     \<Longrightarrow> read_only_tree tree"
  unfolding read_only_tree_def no_write_expression no_select_into no_locking_read no_side_effect_function by blast

text \<open>The tables of a tree: what \<open>table_refs_complete\<close> lists.\<close>

definition tables_of :: "ast \<Rightarrow> string \<Rightarrow> string \<Rightarrow> table_ref set" where
  "tables_of tree db ty = {r. \<exists>t. subterm t tree \<and> ast_class t = ''Table'' \<and> ast_name t \<noteq> []
     \<and> py_lower (ast_name t) \<notin> set (cte_names tree)
     \<and> r = (or_str (ast_db t) (if ty = ''pgsql'' then [] else db), ast_name t)}"

text \<open>A parser's reply that is exactly one statement.\<close>

definition single_statement :: "ast option list sqlglot \<Rightarrow> ast \<Rightarrow> bool" where
  "single_statement reply tree \<longleftrightarrow> (\<exists>parsed. reply = Got parsed \<and> filter (\<lambda>x. x \<noteq> None) parsed = [Some tree])"

lemma single_statementI:
  "map the (filter (\<lambda>s. s \<noteq> None) parsed) = [tree] \<Longrightarrow> single_statement (Got parsed) tree"
proof -
  assume "map the (filter (\<lambda>s. s \<noteq> None) parsed) = [tree]"
  then obtain z where z: "filter (\<lambda>s. s \<noteq> None) parsed = [z]" "the z = tree" by (auto simp: map_eq_Cons_conv)
  then have "z \<noteq> None" by (metis (mono_tags, lifting) filter_eq_ConsD)
  with z show ?thesis by (auto simp: single_statement_def)
qed

section \<open>What is accepted\<close>

lemma deny_not_allowed [simp]: "\<not> gr_allowed (deny a b c)"
  by (simp add: deny_def)

lemma multi_not_allowed [simp]: "\<not> gr_allowed (multi_statements n)"
  by (simp add: multi_statements_def)

lemma check_statement_allowed:
  assumes "gr_allowed (check_statement env ty db prefix normalized tree)"
  shows "prefix \<in> set READ_PREFIXES \<and> prefix \<notin> set WRITE_PREFIXES \<and> read_only_tree tree
    \<and> check_statement env ty db prefix normalized tree =
      \<lparr> gr_allowed = True, gr_reason = [], gr_kind = prefix, gr_refs = table_refs_from_tree tree db ty,
        gr_needs_limit = (prefix \<in> {''select'', ''with''}), gr_normalized = normalized, gr_driver_limit = False \<rparr>"
  using assms unfolding check_statement_def Let_def
  by (auto split: if_split_asm intro: read_only_treeI)

lemma explain_target_tree:
  assumes "explain_target env dialect normalized = Inr (Inr target)"
  shows "single_statement (ge_parse env dialect (strip_explain normalized)) target
    \<and> re_match explain_analyze_re normalized = None"
  using assms unfolding explain_target_def Let_def
  by (cases "re_match explain_analyze_re normalized")
    (auto split: sqlglot.splits list.splits if_split_asm intro: single_statementI)

lemma explain_target_denied: "explain_target env dialect normalized = Inr (Inl d) \<Longrightarrow> \<not> gr_allowed d"
  unfolding explain_target_def Let_def by (auto split: sqlglot.splits list.splits if_split_asm)

text \<open>What an accepting reply of a guard for SQL says.\<close>

definition sql_read_only :: "guard_env \<Rightarrow> string \<Rightarrow> string \<Rightarrow> string \<Rightarrow> guard_result \<Rightarrow> bool" where
  "sql_read_only env ty sql db r \<longleftrightarrow>
     (let normalized = clean_sql sql; dialect = guard_dialect ty; prefix = first_word normalized in
        balanced_delimiters normalized
      \<and> prefix \<in> set READ_PREFIXES \<and> prefix \<notin> set WRITE_PREFIXES
      \<and> gr_kind r = prefix \<and> gr_normalized r = normalized
      \<and> gr_needs_limit r = (prefix \<in> {''select'', ''with''}) \<and> \<not> gr_driver_limit r
      \<and> (\<exists>tree. single_statement (ge_parse env dialect normalized) tree
          \<and> (prefix \<in> {''select'', ''with''} \<longrightarrow> read_only_tree tree \<and> set (gr_refs r) = tables_of tree db ty))
      \<and> (prefix = ''explain'' \<longrightarrow> (\<exists>target. single_statement (ge_parse env dialect (strip_explain normalized)) target
          \<and> read_only_tree target \<and> set (gr_refs r) = tables_of target db ty
          \<and> re_match explain_analyze_re normalized = None)))"

lemma first_reason_Nil: "first_reason rs = [] \<Longrightarrow> r \<in> set rs \<Longrightarrow> r = []"
  by (induction rs) (auto split: if_split_asm)

lemma balanced_of_basic: "basic_syntax_reason sql = [] \<Longrightarrow> balanced_delimiters sql"
  by (rule ccontr) (simp add: basic_syntax_reason_def reason_if_def)

lemma read_prefix_cases:
  "p \<in> set READ_PREFIXES \<Longrightarrow> p \<in> {''show'', ''desc'', ''describe''} \<or> p = ''explain'' \<or> p \<in> {''select'', ''with''}"
  by (auto simp: READ_PREFIXES_def)

lemma show_not_write: "p \<in> {''show'', ''desc'', ''describe''} \<Longrightarrow> p \<in> set READ_PREFIXES \<and> p \<notin> set WRITE_PREFIXES \<and> p \<notin> {''select'', ''with''} \<and> p \<noteq> ''explain''"
  by (auto simp: READ_PREFIXES_def WRITE_PREFIXES_def)

lemma sql_validate_read_only:
  assumes "sql_validate env ty sql db = Inr r" "gr_allowed r"
  shows "sql_read_only env ty sql db r"
proof -
  let ?n = "clean_sql sql" and ?d = "guard_dialect ty"
  let ?p = "first_word ?n"
  from assms have basic: "basic_syntax_reason ?n = []" by (auto simp: sql_validate_def Let_def split: if_split_asm)
  from assms basic obtain parsed where reply: "ge_parse env ?d ?n = Got parsed"
    by (auto simp: sql_validate_def Let_def split: if_split_asm sqlglot.splits prod.splits)
  with assms basic obtain tree where one: "map the (filter (\<lambda>s. s \<noteq> None) parsed) = [tree]"
    by (auto simp: sql_validate_def Let_def split: if_split_asm list.splits)
  have r: "if ?p \<in> {''show'', ''desc'', ''describe''}
      then gr_kind r = ?p \<and> gr_normalized r = ?n \<and> \<not> gr_needs_limit r \<and> \<not> gr_driver_limit r
      else if ?p = ''explain'' then \<exists>x. explain_target env ?d ?n = Inr x
        \<and> r = (case x of Inl d \<Rightarrow> d | Inr target \<Rightarrow> check_statement env ty db ?p ?n target)
      else r = check_statement env ty db ?p ?n tree"
    using assms basic reply one unfolding sql_validate_def Let_def
    by (auto simp: res_simps split: if_split_asm)
  have single: "single_statement (ge_parse env ?d ?n) tree" using reply one by (simp add: single_statementI)
  have tables: "set (table_refs_from_tree t db ty) = tables_of t db ty" for t
    by (simp add: table_refs_complete tables_of_def)
  consider (sho) "?p \<in> {''show'', ''desc'', ''describe''}" | (expl) "?p \<notin> {''show'', ''desc'', ''describe''}" "?p = ''explain''"
    | (sel) "?p \<notin> {''show'', ''desc'', ''describe''}" "?p \<noteq> ''explain''" by blast
  then show ?thesis
  proof cases
    case sho
    with r single show_not_write [OF sho] balanced_of_basic [OF basic] show ?thesis
      unfolding sql_read_only_def Let_def by auto
  next
    case expl
    with r obtain x where x: "explain_target env ?d ?n = Inr x"
      "r = (case x of Inl d \<Rightarrow> d | Inr target \<Rightarrow> check_statement env ty db ?p ?n target)" by auto
    with explain_target_denied assms(2) obtain target where "x = Inr target" by (cases x) auto
    with x have t: "explain_target env ?d ?n = Inr (Inr target)"
      and rr: "r = check_statement env ty db ?p ?n target" by simp_all
    from check_statement_allowed [of env ty db ?p ?n target] assms(2) rr
    have c: "?p \<in> set READ_PREFIXES" "?p \<notin> set WRITE_PREFIXES" "read_only_tree target"
      "r = \<lparr> gr_allowed = True, gr_reason = [], gr_kind = ?p, gr_refs = table_refs_from_tree target db ty,
        gr_needs_limit = (?p \<in> {''select'', ''with''}), gr_normalized = ?n, gr_driver_limit = False \<rparr>" by simp_all
    have "?p \<notin> {''select'', ''with''}" using expl(2) by simp
    with c single explain_target_tree [OF t] tables balanced_of_basic [OF basic] show ?thesis
      unfolding sql_read_only_def Let_def by auto
  next
    case sel
    with r have rr: "r = check_statement env ty db ?p ?n tree" by simp
    from check_statement_allowed [of env ty db ?p ?n tree] assms(2) rr
    have c: "?p \<in> set READ_PREFIXES" "?p \<notin> set WRITE_PREFIXES" "read_only_tree tree"
      "r = \<lparr> gr_allowed = True, gr_reason = [], gr_kind = ?p, gr_refs = table_refs_from_tree tree db ty,
        gr_needs_limit = (?p \<in> {''select'', ''with''}), gr_normalized = ?n, gr_driver_limit = False \<rparr>" by simp_all
    with sel single tables balanced_of_basic [OF basic] show ?thesis
      unfolding sql_read_only_def Let_def by auto
  qed
qed


section \<open>Samples\<close>

definition sample_query :: ast where
  "sample_query = Ast ''Select'' [] [] [] [] []
     [(''expressions'', [sample_column ''name'', sample_column ''phone'']),
      (''from'', [Ast ''From'' [] [] [] [] [] [(''this'', [Ast ''Table'' ''users'' ''users'' [] [] [] []])]])]"

definition sample_json :: json where
  "sample_json = JArr [JObj [(''$addFields'', JObj [(''x'', JObj [(''$function'', JObj [(''body'', JStr ''while(1);'')])])])]]"

definition sample_guard_env :: guard_env where
  "sample_guard_env = \<lparr> ge_parse = (\<lambda>_ _. Got [Some sample_query, None]), ge_parse_one = (\<lambda>_ _. Got (Some sample_query)),
     ge_text = (\<lambda>_ _. []), ge_errors = (\<lambda>_. []), ge_limit = (\<lambda>_ n _. Some (''SELECT name, phone FROM users LIMIT '' @ py_str_int n)),
     ge_json = (\<lambda>_. Some sample_json) \<rparr>"

lemma sample_accepted:
  "guard_validate sample_guard_env (get_query_guard ''MySQL'') '' select name, phone from users;'' ''app''
    = Inr \<lparr> gr_allowed = True, gr_reason = [], gr_kind = ''select'', gr_refs = [(''app'', ''users'')], gr_needs_limit = True,
        gr_normalized = ''select name, phone from users'', gr_driver_limit = False \<rparr>"
  by code_simp


section \<open>Two ways around the guard\<close>

text \<open>
  The test for EXPLAIN ANALYZE is \<open>.*\<close> without \<open>re.S\<close>: with a line break between the two
  words the statement is accepted, and the engine executes what it explains.
\<close>

theorem explain_analyze_over_lines:
  "gr_allowed (case guard_validate sample_guard_env (get_query_guard ''mysql'')
       (''explain'' @ [newline] @ ''analyze select name, phone from users'') ''app'' of Inr r \<Rightarrow> r | Inl e \<Rightarrow> deny [] [] [])
   \<and> \<not> gr_allowed (case guard_validate sample_guard_env (get_query_guard ''mysql'')
       ''explain analyze select name, phone from users'' ''app'' of Inr r \<Rightarrow> r | Inl e \<Rightarrow> deny [] [] [])"
  by code_simp

text \<open>
  \<open>$function\<close> and \<open>$accumulator\<close> are expression operators of MongoDB, not stages: below a stage
  such as \<open>$addFields\<close> they are not looked for, and the server runs the code.
\<close>

theorem mongo_function_accepted:
  "gr_allowed (case guard_validate sample_guard_env (get_query_guard ''mongo'')
       ''db.users.aggregate([..])'' ''app'' of Inr r \<Rightarrow> r | Inl e \<Rightarrow> deny [] [] [])
   \<and> (\<exists>q. parse_mongo_query sample_guard_env ''db.users.aggregate([..])'' = Some q
        \<and> mo_pipeline q = [JObj [(''$addFields'', JObj [(''x'', JObj [(''$function'', JObj [(''body'', JStr ''while(1);'')])])])]])"
proof
  show "gr_allowed (case guard_validate sample_guard_env (get_query_guard ''mongo'')
       ''db.users.aggregate([..])'' ''app'' of Inr r \<Rightarrow> r | Inl e \<Rightarrow> deny [] [] [])" by code_simp
  have "map_option mo_pipeline (parse_mongo_query sample_guard_env ''db.users.aggregate([..])'')
    = Some [JObj [(''$addFields'', JObj [(''x'', JObj [(''$function'', JObj [(''body'', JStr ''while(1);'')])])])]]" by code_simp
  then show "\<exists>q. parse_mongo_query sample_guard_env ''db.users.aggregate([..])'' = Some q
        \<and> mo_pipeline q = [JObj [(''$addFields'', JObj [(''x'', JObj [(''$function'', JObj [(''body'', JStr ''while(1);'')])])])]]"
    by auto
qed

end
