(* ===== verification/Query_Run.thy ===== *)
theory Query_Run
  imports Query_Guard_Facts Query_Apply_Service
begin

text \<open>
  \<^verbatim>\<open>app/routers/query.py\<close>: an online query from the request to the masked rows and the
  log entry, and the export of its result. The engine, the schema resolver, sqlglot, the
  audit setting and the failure of the log write are fields of \<open>query_env\<close>. An operation
  returns the calls it made on the engine, its result and the database it leaves.
\<close>

section \<open>Requests and errors\<close>

record query_request =
  qx_instance_id :: int
  qx_db_name :: string
  qx_sql :: string
  qx_limit_num :: int
  qx_export_offset :: "int option"
  qx_export_limit :: "int option"

text \<open>The field checks of \<^verbatim>\<open>QueryExecuteRequest\<close>: \<open>None\<close> is a validation error.\<close>

definition validate_query_request :: "query_request \<Rightarrow> query_request option" where
  "validate_query_request d =
     (if 1 \<le> length (qx_sql d) \<and> length (qx_sql d) \<le> 50000 \<and> py_strip (qx_sql d) \<noteq> []
         \<and> 1 \<le> qx_limit_num d \<and> qx_limit_num d \<le> 100000
         \<and> (case qx_export_offset d of None \<Rightarrow> True | Some n \<Rightarrow> 0 \<le> n)
         \<and> (case qx_export_limit d of None \<Rightarrow> True | Some n \<Rightarrow> 1 \<le> n \<and> n \<le> 100000)
      then Some (d\<lparr>qx_sql := py_strip (qx_sql d)\<rparr>) else None)"

text \<open>\<open>HTTPException\<close> with its status and detail, or any other exception.\<close>

datatype query_msg =
    InstanceMissing int | GuardDenied string | AccessDenied access_reason | DatabaseClosed string
  | QueryFailed string

datatype query_err = Http int query_msg | Raised exc

definition raised :: "'a res \<Rightarrow> query_err + 'a" where
  "raised r = map_sum Raised id r"

record instance_database =
  db_id :: int
  db_instance_id :: int
  db_db_name :: string
  db_is_active :: bool

record engine_call =
  ec_db_name :: string
  ec_sql :: string
  ec_limit_num :: int
  ec_search_path :: "string option"

record query_env =
  qe_guard :: guard_env
  qe_re :: re_env
  qe_columns :: one_parser
  qe_parse_one :: "string \<Rightarrow> string \<Rightarrow> string + ast"
  qe_resolver :: schema_resolver
  qe_engine :: "db_instance \<Rightarrow> (engine_call \<Rightarrow> result_set raised) res"
  qe_databases :: "instance_database list"
  qe_rules :: "masking_rule list"
  qe_log_fails :: bool
  qe_audit_fail_closed :: bool
  qe_today :: date
  qe_now :: time

section \<open>Running a query\<close>

definition load_active_instance :: "store \<Rightarrow> int \<Rightarrow> query_err + db_instance" where
  "load_active_instance s instance_id =
     (case find (\<lambda>i. in_id i = instance_id \<and> in_is_active i) (st_instances s) of
        None \<Rightarrow> Inl (Http 404 (InstanceMissing instance_id)) | Some inst \<Rightarrow> Inr inst)"

definition guard_denied :: "guard_result \<Rightarrow> query_err" where
  "guard_denied r = Http 400 (GuardDenied (or_str (gr_reason r) ''only read-only statements''))"

text \<open>Up to the call of the engine: the gates, the row limit, the text and the search path.\<close>

record query_plan =
  pl_instance :: db_instance
  pl_engine :: "engine_call \<Rightarrow> result_set raised"
  pl_limit :: int
  pl_call :: engine_call

definition check_database :: "query_env \<Rightarrow> operator \<Rightarrow> query_request \<Rightarrow> query_err + unit" where
  "check_database env u d =
     (if op_is_superuser u then Inr ()
      else rbind (raised (scalar_one_or_none (filter (\<lambda>x. db_instance_id x = qx_instance_id d
               \<and> db_db_name x = qx_db_name d \<and> db_is_active x) (qe_databases env)))) (\<lambda>row.
             if row = None then Inl (Http 403 (DatabaseClosed (qx_db_name d))) else Inr ()))"

definition plan_query :: "query_env \<Rightarrow> store \<Rightarrow> operator \<Rightarrow> query_request \<Rightarrow> query_err + query_plan" where
  "plan_query env s u d =
     rbind (load_active_instance s (qx_instance_id d)) (\<lambda>inst.
     rbind (raised (qe_engine env inst)) (\<lambda>engine.
     (let guard = get_query_guard (in_db_type inst) in
      rbind (raised (guard_validate (qe_guard env) guard (qx_sql d) (qx_db_name d))) (\<lambda>gr.
      raise_if (\<not> gr_allowed gr) (guard_denied gr)
     (rbind (raised (check_query_priv s (qe_today env) (qe_parse_one env) (qe_resolver env) u inst (qx_db_name d) (qx_sql d)
               (Some (gr_refs gr)))) (\<lambda>(passed, reason).
      raise_if (\<not> passed) (Http 403 (AccessDenied reason))
     (rbind (check_database env u d) (\<lambda>_.
      rbind (raised (get_effective_query_limit s (qe_today env) (qe_parse_one env) (qe_resolver env) u inst (qx_db_name d)
               (qx_sql d) (qx_limit_num d) (Some (gr_refs gr)))) (\<lambda>lim.
      rbind (raised (guard_apply_limit (qe_guard env) guard (or_str (gr_normalized gr) (qx_sql d)) lim (gr_kind gr))) (\<lambda>safe_sql.
      rbind (raised (resolve_pg_search_path (qe_parse_one env) (qe_resolver env) inst (qx_db_name d) (qx_sql d)
               (Some (gr_refs gr)))) (\<lambda>search_path.
      Inr \<lparr> pl_instance = inst, pl_engine = engine, pl_limit = lim,
            pl_call = \<lparr> ec_db_name = qx_db_name d, ec_sql = safe_sql,
              ec_limit_num = (if gr_driver_limit gr then lim else 0),
              ec_search_path = (if truthy search_path then search_path else None) \<rparr> \<rparr>)))))))))))"

definition cut_rows :: "int \<Rightarrow> result_set \<Rightarrow> result_set" where
  "cut_rows lim rs =
     (if 0 < lim \<and> lim < int (length (qs_rows rs))
      then rs\<lparr>qs_rows := take (nat lim) (qs_rows rs), qs_affected_rows := int (length (take (nat lim) (qs_rows rs)))\<rparr>
      else rs)"

definition get_rules_for_instance :: "masking_rule list \<Rightarrow> int \<Rightarrow> string \<Rightarrow> masking_rule list" where
  "get_rules_for_instance rules instance_id db_name =
     filter (\<lambda>r. mk_is_active r \<and> (mk_instance_id r = Some instance_id \<or> mk_instance_id r = None)
       \<and> (mk_db_name r = db_name \<or> mk_db_name r = ''*'')) rules"

definition export_slice :: "string \<Rightarrow> query_request \<Rightarrow> result_set \<Rightarrow> result_set" where
  "export_slice operation_type d rs =
     (case qx_export_limit d of
        Some n \<Rightarrow>
          if operation_type = ''export'' \<and> n \<noteq> 0 then
            (let rows = take (nat n) (drop (nat (case qx_export_offset d of None \<Rightarrow> 0 | Some k \<Rightarrow> k)) (qs_rows rs))
             in rs\<lparr>qs_rows := rows, qs_affected_rows := int (length rows)\<rparr>)
          else rs
      | None \<Rightarrow> rs)"

record query_reply =
  qr_column_list :: "string list"
  qr_rows :: "string option list list"
  qr_affected_rows :: int
  qr_cost_time_ms :: int
  qr_is_masked :: bool
  qr_query_log_id :: "int option"

definition log_username :: "operator \<Rightarrow> string" where
  "log_username u = or_str (op_username u) (op_display_name u)"

definition query_log_of ::
    "operator \<Rightarrow> db_instance \<Rightarrow> query_request \<Rightarrow> string \<Rightarrow> string \<Rightarrow> string \<Rightarrow> result_set \<Rightarrow> bool \<Rightarrow> bool \<Rightarrow> query_log" where
  "query_log_of u inst d operation_type export_format client_ip rs hit_rule is_masked =
     \<lparr> ql_id = 0, ql_user_id = Some (op_id u), ql_instance_id = Some (in_id inst), ql_db_name = qx_db_name d,
       ql_sqllog = qx_sql d, ql_operation_type = operation_type, ql_export_format = export_format,
       ql_username = log_username u, ql_instance_name = in_name inst, ql_db_type = in_db_type inst,
       ql_client_ip = client_ip, ql_error = [], ql_effect_row = qs_affected_rows rs, ql_cost_time_ms = qs_cost_time rs,
       ql_priv_check = True, ql_hit_rule = hit_rule, ql_masking = is_masked, ql_is_favorite = False, ql_created_at = 0 \<rparr>"

text \<open>The log entry: its id, or \<open>None\<close> when the write failed and the setting tolerates it.\<close>

definition log_query :: "query_env \<Rightarrow> store \<Rightarrow> query_log \<Rightarrow> (query_err + int option) \<times> store" where
  "log_query env s l =
     (if qe_log_fails env then
        (if qe_audit_fail_closed env then Inl (Raised (app_exc (TextMsg ''audit log unavailable'') 503)) else Inr None, s)
      else (let (l1, s1) = write_query_log s l (qe_now env) in (Inr (Some (ql_id l1)), s1)))"

definition mask_query :: "query_env \<Rightarrow> db_instance \<Rightarrow> query_request \<Rightarrow> result_set \<Rightarrow> query_err + mask_outcome" where
  "mask_query env inst d rs =
     raised (mask_result_with_meta (qe_re env) (qe_columns env)
       (get_rules_for_instance (qe_rules env) (qx_instance_id d) (qx_db_name d)) rs (qx_sql d) (in_db_type inst))"

definition run_query_with_permissions ::
    "query_env \<Rightarrow> store \<Rightarrow> operator \<Rightarrow> query_request \<Rightarrow> string \<Rightarrow> string \<Rightarrow> string
       \<Rightarrow> engine_call list \<times> (query_err + (db_instance \<times> query_reply)) \<times> store" where
  "run_query_with_permissions env s u d operation_type export_format client_ip =
     (case plan_query env s u d of
        Inl e \<Rightarrow> ([], Inl e, s)
      | Inr p \<Rightarrow>
         (case pl_engine p (pl_call p) of
            Inl t \<Rightarrow> ([pl_call p], Inl (Raised (RawException (EngineRaised t))), s)
          | Inr rs \<Rightarrow>
              if qs_error rs \<noteq> [] then ([pl_call p], Inl (Http 400 (QueryFailed (qs_error rs))), s)
              else (case mask_query env (pl_instance p) d (cut_rows (pl_limit p) rs) of
                 Inl e \<Rightarrow> ([pl_call p], Inl e, s)
               | Inr mo \<Rightarrow>
                   (let out = export_slice operation_type d (mo_resultset mo);
                        (logged, s1) = log_query env s (query_log_of u (pl_instance p) d operation_type export_format client_ip
                           out (mo_hit_rule mo) (mo_masked mo))
                    in ([pl_call p],
                        rbind logged (\<lambda>log_id. Inr (pl_instance p,
                          \<lparr> qr_column_list = qs_column_list out, qr_rows = map row_cells (qs_rows out),
                            qr_affected_rows = qs_affected_rows out, qr_cost_time_ms = qs_cost_time out,
                            qr_is_masked = mo_masked mo, qr_query_log_id = log_id \<rparr>)), s1)))))"

section \<open>The endpoints\<close>

text \<open>
  The failure log: the entry names the instance when there is one, active or not. The
  failure text \<open>str(detail)\<close> of an exception is the argument \<open>detail\<close>.
\<close>

definition failed_query_log ::
    "store \<Rightarrow> operator \<Rightarrow> query_request \<Rightarrow> string \<Rightarrow> string \<Rightarrow> string \<Rightarrow> string \<Rightarrow> query_log" where
  "failed_query_log s u d operation_type export_format client_ip err =
     (let inst = (if qx_instance_id d \<noteq> 0 then get_instance s (qx_instance_id d) else None) in
      \<lparr> ql_id = 0, ql_user_id = Some (op_id u), ql_instance_id = map_option in_id inst, ql_db_name = qx_db_name d,
        ql_sqllog = qx_sql d, ql_operation_type = operation_type, ql_export_format = export_format,
        ql_username = log_username u, ql_instance_name = (case inst of None \<Rightarrow> [] | Some i \<Rightarrow> in_name i),
        ql_db_type = (case inst of None \<Rightarrow> [] | Some i \<Rightarrow> in_db_type i), ql_client_ip = client_ip, ql_error = err,
        ql_effect_row = 0, ql_cost_time_ms = 0, ql_priv_check = False, ql_hit_rule = False, ql_masking = False,
        ql_is_favorite = False, ql_created_at = 0 \<rparr>)"

definition write_failed_query_log ::
    "query_env \<Rightarrow> store \<Rightarrow> operator \<Rightarrow> query_request \<Rightarrow> string \<Rightarrow> string \<Rightarrow> string \<Rightarrow> string \<Rightarrow> store" where
  "write_failed_query_log env s u d operation_type export_format client_ip err =
     (if qe_log_fails env then s
      else snd (write_query_log s (failed_query_log s u d operation_type export_format client_ip err) (qe_now env)))"

definition query_endpoint ::
    "query_env \<Rightarrow> (query_msg \<Rightarrow> string) \<Rightarrow> store \<Rightarrow> operator \<Rightarrow> query_request \<Rightarrow> string \<Rightarrow> string \<Rightarrow> string
       \<Rightarrow> engine_call list \<times> (query_err + query_reply) \<times> store" where
  "query_endpoint env detail s u d operation_type export_format client_ip =
     (case run_query_with_permissions env s u d operation_type export_format client_ip of
        (calls, Inl (Http status m), s1) \<Rightarrow>
          (calls, Inl (Http status m), write_failed_query_log env s1 u d operation_type export_format client_ip (detail m))
      | (calls, Inl (Raised e), s1) \<Rightarrow> (calls, Inl (Raised e), s1)
      | (calls, Inr (inst, reply), s1) \<Rightarrow> (calls, Inr reply, s1))"

definition execute_query ::
    "query_env \<Rightarrow> (query_msg \<Rightarrow> string) \<Rightarrow> store \<Rightarrow> operator \<Rightarrow> query_request \<Rightarrow> string
       \<Rightarrow> engine_call list \<times> (query_err + query_reply) \<times> store" where
  "execute_query env detail s u d client_ip = query_endpoint env detail s u d ''execute'' [] client_ip"

text \<open>\<open>explain_query_access\<close>: the guard first, then the privileges; nothing is run.\<close>

definition explain_query_access_endpoint ::
    "query_env \<Rightarrow> store \<Rightarrow> operator \<Rightarrow> query_request \<Rightarrow> query_err + (bool \<times> (string + access_reason) \<times> string)" where
  "explain_query_access_endpoint env s u d =
     rbind (load_active_instance s (qx_instance_id d)) (\<lambda>inst.
     rbind (raised (guard_validate (qe_guard env) (get_query_guard (in_db_type inst)) (qx_sql d) (qx_db_name d))) (\<lambda>gr.
       if \<not> gr_allowed gr then Inr (False, Inl (or_str (gr_reason gr) ''only read-only statements''), ''query_guard'')
       else rbind (raised (explain_query_access s (qe_today env) (qe_parse_one env) (qe_resolver env) u inst (qx_db_name d)
              (qx_sql d) (Some (gr_refs gr)))) (\<lambda>(allowed, reason, layer). Inr (allowed, Inr reason, layer))))"

section \<open>Lemmas\<close>

lemma raised_Inr [simp]: "raised r = Inr x \<longleftrightarrow> r = Inr x"
  by (cases r) (simp_all add: raised_def)

lemma load_active_instance_facts: "load_active_instance s i = Inr inst \<Longrightarrow> inst \<in> set (st_instances s) \<and> in_id inst = i \<and> in_is_active inst"
  by (auto simp: load_active_instance_def split: option.splits dest: find_Some_in)

lemma check_database_Inr:
  "check_database env u d = Inr x \<Longrightarrow> op_is_superuser u \<or> (\<exists>y\<in>set (qe_databases env).
     db_instance_id y = qx_instance_id d \<and> db_db_name y = qx_db_name d \<and> db_is_active y)"
  by (auto simp: check_database_def res_simps scalar_Some_iff split: if_split_asm)
    (metis (mono_tags, lifting) filter_eq_Cons_iff in_set_conv_decomp)

text \<open>Everything a plan has passed.\<close>

definition gates_passed :: "query_env \<Rightarrow> store \<Rightarrow> operator \<Rightarrow> query_request \<Rightarrow> query_plan \<Rightarrow> bool" where
  "gates_passed env s u d p \<longleftrightarrow>
     (let inst = pl_instance p; guard = get_query_guard (in_db_type inst) in
        inst \<in> set (st_instances s) \<and> in_id inst = qx_instance_id d \<and> in_is_active inst
      \<and> qe_engine env inst = Inr (pl_engine p)
      \<and> (\<exists>gr reason. guard_validate (qe_guard env) guard (qx_sql d) (qx_db_name d) = Inr gr \<and> gr_allowed gr
          \<and> check_query_priv s (qe_today env) (qe_parse_one env) (qe_resolver env) u inst (qx_db_name d) (qx_sql d) (Some (gr_refs gr))
              = Inr (True, reason)
          \<and> get_effective_query_limit s (qe_today env) (qe_parse_one env) (qe_resolver env) u inst (qx_db_name d) (qx_sql d)
              (qx_limit_num d) (Some (gr_refs gr)) = Inr (pl_limit p)
          \<and> guard_apply_limit (qe_guard env) guard (or_str (gr_normalized gr) (qx_sql d)) (pl_limit p) (gr_kind gr)
              = Inr (ec_sql (pl_call p))
          \<and> ec_limit_num (pl_call p) = (if gr_driver_limit gr then pl_limit p else 0))
      \<and> ec_db_name (pl_call p) = qx_db_name d
      \<and> (op_is_superuser u \<or> (\<exists>y\<in>set (qe_databases env).
           db_instance_id y = qx_instance_id d \<and> db_db_name y = qx_db_name d \<and> db_is_active y)))"

lemma plan_query_gates:
  assumes "plan_query env s u d = Inr p"
  shows "gates_passed env s u d p"
proof -
  from assms obtain inst engine gr reason x lim sql sp where
    i: "load_active_instance s (qx_instance_id d) = Inr inst" "qe_engine env inst = Inr engine"
    and g: "guard_validate (qe_guard env) (get_query_guard (in_db_type inst)) (qx_sql d) (qx_db_name d) = Inr gr" "gr_allowed gr"
    and c: "check_query_priv s (qe_today env) (qe_parse_one env) (qe_resolver env) u inst (qx_db_name d)
      (qx_sql d) (Some (gr_refs gr)) = Inr (True, reason)" and dbs: "check_database env u d = Inr x"
    and l: "get_effective_query_limit s (qe_today env) (qe_parse_one env) (qe_resolver env) u inst (qx_db_name d) (qx_sql d)
      (qx_limit_num d) (Some (gr_refs gr)) = Inr lim"
    and q: "guard_apply_limit (qe_guard env) (get_query_guard (in_db_type inst)) (or_str (gr_normalized gr) (qx_sql d)) lim (gr_kind gr) = Inr sql"
    and p: "p = \<lparr> pl_instance = inst, pl_engine = engine, pl_limit = lim,
            pl_call = \<lparr> ec_db_name = qx_db_name d, ec_sql = sql, ec_limit_num = (if gr_driver_limit gr then lim else 0),
              ec_search_path = (if truthy sp then sp else None) \<rparr> \<rparr>"
    by (auto simp: plan_query_def res_simps Let_def simp del: if_splits split del: if_split)
  show ?thesis
    unfolding gates_passed_def Let_def p
    using load_active_instance_facts [OF i(1)] check_database_Inr [OF dbs] i(2) g c l q by (simp split del: if_split cong: if_cong)
qed

lemma mask_keeps_length:
  assumes "mask_result_with_meta env parse_one rules rs sql ty = Inr mo"
  shows "length (qs_rows (mo_resultset mo)) = length (qs_rows rs)"
proof -
  have "mask_rows e cols rows = Inr (rows', m) \<Longrightarrow> length rows' = length rows" for e cols rows rows' m
    by (induction rows arbitrary: rows' m) (auto simp: res_simps split: prod.splits)
  with assms show ?thesis
    by (auto simp: mask_result_with_meta_def Let_def res_simps split: if_split_asm prod.splits)
qed

lemma length_cut_rows: "0 < lim \<Longrightarrow> length (qs_rows (cut_rows lim rs)) \<le> nat lim"
  by (auto simp: cut_rows_def)

lemma length_export_slice: "length (qs_rows (export_slice op d rs)) \<le> length (qs_rows rs)"
  by (auto simp: export_slice_def Let_def split: option.split)

lemma log_query_Inr:
  "log_query env s l = (Inr i, s1) \<Longrightarrow>
     (if qe_log_fails env then \<not> qe_audit_fail_closed env \<and> s1 = s \<and> i = None
      else i = Some (st_next_id s) \<and> s1 = snd (write_query_log s l (qe_now env)))"
  by (auto simp: log_query_def write_query_log_def Let_def split: if_split_asm)

text \<open>An answered query, step by step.\<close>

lemma answered_query:
  assumes "run_query_with_permissions env s u d operation_type export_format client_ip = (calls, Inr (inst, reply), s')"
  shows "\<exists>p rs mo. gates_passed env s u d p \<and> inst = pl_instance p \<and> calls = [pl_call p]
    \<and> pl_engine p (pl_call p) = Inr rs \<and> qs_error rs = []
    \<and> mask_query env inst d (cut_rows (pl_limit p) rs) = Inr mo
    \<and> qr_rows reply = map row_cells (qs_rows (export_slice operation_type d (mo_resultset mo)))
    \<and> qr_is_masked reply = mo_masked mo
    \<and> log_query env s (query_log_of u inst d operation_type export_format client_ip
        (export_slice operation_type d (mo_resultset mo)) (mo_hit_rule mo) (mo_masked mo)) = (Inr (qr_query_log_id reply), s')"
proof -
  from assms obtain p where p: "plan_query env s u d = Inr p" by (auto simp: run_query_with_permissions_def split: sum.splits)
  with assms obtain rs where rs: "pl_engine p (pl_call p) = Inr rs" "qs_error rs = []"
    by (auto simp: run_query_with_permissions_def split: sum.splits if_split_asm)
  with assms p obtain mo where mo: "mask_query env (pl_instance p) d (cut_rows (pl_limit p) rs) = Inr mo"
    by (auto simp: run_query_with_permissions_def split: sum.splits)
  obtain logged s1 where l: "log_query env s (query_log_of u (pl_instance p) d operation_type export_format client_ip
      (export_slice operation_type d (mo_resultset mo)) (mo_hit_rule mo) (mo_masked mo)) = (logged, s1)" by fastforce
  from assms p rs mo l obtain i where "logged = Inr i"
    by (cases logged) (simp_all add: run_query_with_permissions_def Let_def)
  with assms p rs mo l plan_query_gates [OF p] show ?thesis
    by (intro exI [of _ p] exI [of _ rs] exI [of _ mo]) (auto simp: run_query_with_permissions_def Let_def)
qed

text \<open>What one endpoint call does to the engine and the log, whatever its outcome.\<close>

lemma plan_none: "plan_query env s u d = Inl e \<Longrightarrow> run_query_with_permissions env s u d op fmt ip = ([], Inl e, s)"
  by (simp add: run_query_with_permissions_def)

lemma run_calls:
  assumes "run_query_with_permissions env s u d op fmt ip = (calls, r, s')"
  shows "(calls = [] \<and> s' = s \<and> (\<exists>e. r = Inl e)) \<or> (\<exists>p. gates_passed env s u d p \<and> calls = [pl_call p])"
proof (cases "plan_query env s u d")
  case (Inl e)
  with assms show ?thesis by (auto simp: plan_none)
next
  case (Inr p)
  with assms have "calls = [pl_call p]"
    by (auto simp: run_query_with_permissions_def Let_def split: sum.splits if_split_asm prod.splits)
  with plan_query_gates [OF Inr] show ?thesis by blast
qed

lemma run_http_store:
  assumes "run_query_with_permissions env s u d op fmt ip = (calls, Inl (Http st m), s')"
  shows "s' = s"
proof (cases "plan_query env s u d")
  case (Inl e)
  with assms plan_none show ?thesis by simp
next
  case (Inr p)
  with assms show ?thesis
    by (auto simp: run_query_with_permissions_def log_query_def Let_def split: sum.splits if_split_asm prod.splits)
qed

lemma log_query_appends:
  assumes "log_query env s l = (x, s1)"
  shows "\<exists>logs. s1 = s\<lparr>st_query_logs := st_query_logs s @ logs, st_next_id := st_next_id s + int (length logs)\<rparr>"
proof (cases "qe_log_fails env")
  case True
  with assms show ?thesis by (intro exI [of _ "[]"]) (simp add: log_query_def)
next
  case False
  with assms show ?thesis
    by (intro exI [of _ "[fst (write_query_log s l (qe_now env))]"]) (auto simp: log_query_def write_query_log_def Let_def)
qed

lemma run_appends:
  assumes "run_query_with_permissions env s u d op fmt ip = (calls, r, s')"
  shows "\<exists>logs. s' = s\<lparr>st_query_logs := st_query_logs s @ logs, st_next_id := st_next_id s + int (length logs)\<rparr>"
proof -
  have same: "\<exists>logs. s = s\<lparr>st_query_logs := st_query_logs s @ logs, st_next_id := st_next_id s + int (length logs)\<rparr>"
    by (intro exI [of _ "[]"]) simp
  from assms consider "s' = s" | l x where "log_query env s l = (x, s')"
    by (auto simp: run_query_with_permissions_def Let_def split: sum.splits if_split_asm prod.splits)
  then show ?thesis by cases (use same log_query_appends in blast)+
qed

text \<open>
C1: an answer has passed every gate. When a query or an export is answered, the instance
exists and is active, the guard accepted the text, the privilege check allowed exactly the
tables the guard reported, the database is registered and active or the user a superuser;
the engine was called once, on the requested database, with the accepted text under the row
limit; what is shown are the engine's rows, cut to the limit and masked by the active rules;
and where the audit may not fail, the query is in the log with the user, the text, and
whether it was masked.
\<close>

theorem answer_passed_every_gate:
  assumes "query_endpoint env detail s u d operation_type export_format client_ip = (calls, Inr reply, s')"
  shows "\<exists>inst gr reason lim safe_sql engine rs mo.
      inst \<in> set (st_instances s) \<and> in_id inst = qx_instance_id d \<and> in_is_active inst
    \<and> guard_validate (qe_guard env) (get_query_guard (in_db_type inst)) (qx_sql d) (qx_db_name d) = Inr gr \<and> gr_allowed gr
    \<and> check_query_priv s (qe_today env) (qe_parse_one env) (qe_resolver env) u inst (qx_db_name d) (qx_sql d) (Some (gr_refs gr))
        = Inr (True, reason)
    \<and> (op_is_superuser u \<or> (\<exists>y\<in>set (qe_databases env). db_instance_id y = in_id inst \<and> db_db_name y = qx_db_name d \<and> db_is_active y))
    \<and> get_effective_query_limit s (qe_today env) (qe_parse_one env) (qe_resolver env) u inst (qx_db_name d) (qx_sql d)
        (qx_limit_num d) (Some (gr_refs gr)) = Inr lim
    \<and> guard_apply_limit (qe_guard env) (get_query_guard (in_db_type inst)) (or_str (gr_normalized gr) (qx_sql d)) lim (gr_kind gr) = Inr safe_sql
    \<and> map (\<lambda>c. (ec_db_name c, ec_sql c)) calls = [(qx_db_name d, safe_sql)]
    \<and> qe_engine env inst = Inr engine \<and> engine (hd calls) = Inr rs \<and> qs_error rs = []
    \<and> mask_result_with_meta (qe_re env) (qe_columns env) (get_rules_for_instance (qe_rules env) (in_id inst) (qx_db_name d))
        (cut_rows lim rs) (qx_sql d) (in_db_type inst) = Inr mo
    \<and> qr_rows reply = map row_cells (qs_rows (export_slice operation_type d (mo_resultset mo)))
    \<and> (0 < lim \<longrightarrow> length (qr_rows reply) \<le> nat lim)
    \<and> (qe_audit_fail_closed env \<longrightarrow> (\<exists>l. st_query_logs s' = st_query_logs s @ [l] \<and> ql_user_id l = Some (op_id u)
        \<and> ql_instance_id l = Some (in_id inst) \<and> ql_db_name l = qx_db_name d \<and> ql_sqllog l = take 10000 (qx_sql d) \<and> ql_priv_check l
        \<and> ql_masking l = qr_is_masked reply \<and> qr_query_log_id reply = Some (ql_id l)))"
proof -
  from assms obtain inst where run: "run_query_with_permissions env s u d operation_type export_format client_ip = (calls, Inr (inst, reply), s')"
    by (auto simp: query_endpoint_def split: prod.splits sum.splits query_err.splits)
  from answered_query [OF this] obtain p rs mo where
    g: "gates_passed env s u d p" "inst = pl_instance p" and e: "calls = [pl_call p]"
      "pl_engine p (pl_call p) = Inr rs" "qs_error rs = []"
    and m: "mask_query env inst d (cut_rows (pl_limit p) rs) = Inr mo"
      "qr_rows reply = map row_cells (qs_rows (export_slice operation_type d (mo_resultset mo)))"
      "qr_is_masked reply = mo_masked mo"
    and l: "log_query env s (query_log_of u inst d operation_type export_format client_ip
        (export_slice operation_type d (mo_resultset mo)) (mo_hit_rule mo) (mo_masked mo)) = (Inr (qr_query_log_id reply), s')" by blast
  from g obtain gr reason where gr: "inst \<in> set (st_instances s)" "in_id inst = qx_instance_id d" "in_is_active inst"
    "guard_validate (qe_guard env) (get_query_guard (in_db_type inst)) (qx_sql d) (qx_db_name d) = Inr gr" "gr_allowed gr"
    "check_query_priv s (qe_today env) (qe_parse_one env) (qe_resolver env) u inst (qx_db_name d) (qx_sql d) (Some (gr_refs gr)) = Inr (True, reason)"
    "get_effective_query_limit s (qe_today env) (qe_parse_one env) (qe_resolver env) u inst (qx_db_name d) (qx_sql d)
        (qx_limit_num d) (Some (gr_refs gr)) = Inr (pl_limit p)"
    "guard_apply_limit (qe_guard env) (get_query_guard (in_db_type inst)) (or_str (gr_normalized gr) (qx_sql d)) (pl_limit p) (gr_kind gr)
       = Inr (ec_sql (pl_call p))"
    "ec_db_name (pl_call p) = qx_db_name d" "qe_engine env inst = Inr (pl_engine p)"
    "op_is_superuser u \<or> (\<exists>y\<in>set (qe_databases env). db_instance_id y = in_id inst \<and> db_db_name y = qx_db_name d \<and> db_is_active y)"
    by (auto simp: gates_passed_def Let_def)
  have masked: "mask_result_with_meta (qe_re env) (qe_columns env) (get_rules_for_instance (qe_rules env) (in_id inst) (qx_db_name d))
      (cut_rows (pl_limit p) rs) (qx_sql d) (in_db_type inst) = Inr mo" using m(1) gr(2) by (simp add: mask_query_def)
  have len: "length (qr_rows reply) \<le> nat (pl_limit p)" if "0 < pl_limit p"
    using length_export_slice [of operation_type d "mo_resultset mo"] mask_keeps_length [OF masked]
      length_cut_rows [OF that, of rs] m(2) by simp
  have log: "\<exists>l. st_query_logs s' = st_query_logs s @ [l] \<and> ql_user_id l = Some (op_id u)
      \<and> ql_instance_id l = Some (in_id inst) \<and> ql_db_name l = qx_db_name d \<and> ql_sqllog l = take 10000 (qx_sql d) \<and> ql_priv_check l
      \<and> ql_masking l = qr_is_masked reply \<and> qr_query_log_id reply = Some (ql_id l)" if "qe_audit_fail_closed env"
    using log_query_Inr [OF l] that m(3)
    by (auto simp: write_query_log_def truncate_log_def query_log_of_def Let_def split: if_split_asm)
  show ?thesis
    by (rule exI [of _ inst], rule exI [of _ gr], rule exI [of _ reason], rule exI [of _ "pl_limit p"],
        rule exI [of _ "ec_sql (pl_call p)"], rule exI [of _ "pl_engine p"], rule exI [of _ rs], rule exI [of _ mo])
      (intro conjI impI gr masked len log, simp_all add: gr e m(2))
qed


section \<open>Sample run\<close>

definition sample_execution :: query_request where
  "sample_execution = \<lparr> qx_instance_id = 5, qx_db_name = ''app'', qx_sql = ''select name, phone from users'', qx_limit_num = 100,
     qx_export_offset = None, qx_export_limit = None \<rparr>"

definition sample_query_env :: query_env where
  "sample_query_env = \<lparr> qe_guard = sample_guard_env, qe_re = sample_re_env, qe_columns = (\<lambda>_ _. Parsed sample_query),
     qe_parse_one = no_parse, qe_resolver = no_resolver,
     qe_engine = (\<lambda>_. Inr (\<lambda>c. Inr \<lparr> qs_error = [], qs_column_list = [''name'', ''phone''],
        qs_rows = [RowTuple [Some ''ann'', Some ''13912345678'']], qs_affected_rows = 1, qs_cost_time = 3 \<rparr>)),
     qe_databases = [\<lparr> db_id = 1, db_instance_id = 5, db_db_name = ''app'', db_is_active = True \<rparr>],
     qe_rules = [sample_rule\<lparr>mk_table_name := ''*''\<rparr>], qe_log_fails = False, qe_audit_fail_closed = True, qe_today = 40, qe_now = 200 \<rparr>"

lemma sample_run:
  "case query_endpoint sample_query_env (\<lambda>_. ''denied'') (priv_store [sample_priv ''table'' ''app'' ''users'']) dev_op sample_execution
      ''execute'' [] ''10.0.0.1'' of (calls, r, s') \<Rightarrow>
    map ec_sql calls = [''SELECT name, phone FROM users LIMIT 100''] \<and>
    r = Inr \<lparr> qr_column_list = [''name'', ''phone''], qr_rows = [[Some ''ann'', Some ''139****78'']], qr_affected_rows = 1,
         qr_cost_time_ms = 3, qr_is_masked = True, qr_query_log_id = Some 20 \<rparr>"
  by code_simp

theorem answer_passed_every_gate_witness:
  "\<exists>calls reply s' (gr :: guard_result) reason. query_endpoint sample_query_env (\<lambda>_. ''denied'') (priv_store [sample_priv ''table'' ''app'' ''users'']) dev_op
       sample_execution ''execute'' [] ''10.0.0.1'' = (calls, Inr reply, s')
     \<and> qr_rows reply = [[Some ''ann'', Some ''139****78'']]
     \<and> check_query_priv (priv_store [sample_priv ''table'' ''app'' ''users'']) 40 no_parse no_resolver dev_op sample_instance ''app''
         ''select name, phone from users'' (Some (gr_refs gr)) = Inr (True, reason)
     \<and> length (st_query_logs s') = 1"
proof -
  obtain calls reply s' where run: "query_endpoint sample_query_env (\<lambda>_. ''denied'') (priv_store [sample_priv ''table'' ''app'' ''users'']) dev_op
       sample_execution ''execute'' [] ''10.0.0.1'' = (calls, Inr reply, s')" and rows: "qr_rows reply = [[Some ''ann'', Some ''139****78'']]"
    using sample_run by (auto split: prod.splits)
  have st: "st_instances (priv_store ps) = [sample_instance]" "st_query_logs (priv_store ps) = []" for ps
    by (simp_all add: priv_store_def sample_store_def)
  from answer_passed_every_gate [OF run] show ?thesis
  proof (elim exE conjE, goal_cases)
    case (1 inst gr reason lim safe_sql engine rs mo)
    from 1(1) have inst: "inst = sample_instance" by (simp add: st)
    have len: "length (st_query_logs s') = 1" using 1(17) by (auto simp: st sample_query_env_def)
    have "check_query_priv (priv_store [sample_priv ''table'' ''app'' ''users'']) 40 no_parse no_resolver dev_op sample_instance ''app''
        ''select name, phone from users'' (Some (gr_refs gr)) = Inr (True, reason)"
      using 1(6) by (simp add: inst sample_query_env_def sample_execution_def)
    with run rows len show ?case by (intro exI conjI)
  qed
qed


end
