(* ===== verification/Query_Export.thy ===== *)
theory Query_Export
  imports Query_Run
begin

text \<open>
  The export of a query result in \<^verbatim>\<open>app/routers/query.py\<close>: the neutralisation of
  spreadsheet formulas, the sheet and the CSV text (Python's \<open>csv.writer\<close>). Which
  cells are texts and which are numbers the argument \<open>typed\<close> says; encoding and the XLSX container are not modelled.
\<close>

section \<open>Cells\<close>

datatype cell = CText string | CNumber string | CNone

definition FORMULA_TRIGGER_CHARS :: string where
  "FORMULA_TRIGGER_CHARS = ''=+-@'' @ [CHR 0x09, CHR 0x0D]"

fun neutralize_formula :: "cell \<Rightarrow> cell" where
  "neutralize_formula (CText (c # cs)) = (if c \<in> set FORMULA_TRIGGER_CHARS then CText (CHR 0x27 # c # cs) else CText (c # cs))"
| "neutralize_formula v = v"

fun cell_str :: "cell \<Rightarrow> string" where
  "cell_str (CText t) = t"
| "cell_str (CNumber t) = t"
| "cell_str CNone = []"

section \<open>CSV\<close>

definition csv_special :: "char \<Rightarrow> bool" where
  "csv_special c \<longleftrightarrow> c = CHR '','' \<or> c = CHR 0x22 \<or> c = CHR 0x0D \<or> c = CHR 0x0A"

definition csv_quoted :: "string \<Rightarrow> string" where
  "csv_quoted t = CHR 0x22 # concat (map (\<lambda>c. if c = CHR 0x22 then [c, c] else [c]) t) @ [CHR 0x22]"

definition csv_field :: "string \<Rightarrow> string" where
  "csv_field t = (if list_ex csv_special t then csv_quoted t else t)"

definition csv_end :: string where "csv_end = [CHR 0x0D, CHR 0x0A]"

text \<open>\<open>writerow\<close>; a lone empty field is written as a pair of quotes.\<close>

definition csv_row :: "string list \<Rightarrow> string" where
  "csv_row fs = (if fs = [[]] then csv_quoted [] else py_join '','' (map csv_field fs)) @ csv_end"

section \<open>The export file\<close>

definition export_headers :: "query_reply \<Rightarrow> cell list" where
  "export_headers reply = CText ''row_num'' # map CText (qr_column_list reply)"

fun number_rows :: "nat \<Rightarrow> cell list list \<Rightarrow> cell list list" where
  "number_rows i [] = []"
| "number_rows i (row # rows) = (CNumber (nat_digits i) # map neutralize_formula row) # number_rows (Suc i) rows"

definition export_rows :: "(string option list list \<Rightarrow> cell list list) \<Rightarrow> query_reply \<Rightarrow> cell list list" where
  "export_rows typed reply = number_rows 1 (typed (qr_rows reply))"

definition csv_lines :: "query_reply \<Rightarrow> cell list list \<Rightarrow> (string \<times> string) list \<Rightarrow> cell list list" where
  "csv_lines reply rows metadata =
     map (\<lambda>(k, v). [CText (''# '' @ k), neutralize_formula (CText v)]) metadata
     @ (if metadata \<noteq> [] then [[]] else []) @ [export_headers reply] @ rows"

definition csv_content :: "cell list list \<Rightarrow> string" where
  "csv_content lines = concat (map (\<lambda>l. csv_row (map cell_str l)) lines)"

datatype export_file =
    CsvFile string
  | XlsxFile "cell list list" "cell list list"  \<comment> \<open>the sheets \<open>QueryResult\<close> and \<open>Export Metadata\<close>\<close>

definition build_query_export_file ::
    "(string option list list \<Rightarrow> cell list list) \<Rightarrow> query_reply \<Rightarrow> string \<Rightarrow> (string \<times> string) list \<Rightarrow> export_file \<times> string" where
  "build_query_export_file typed reply export_format metadata =
     (let rows = export_rows typed reply in
      if py_lower export_format = ''csv''
      then (CsvFile (csv_content (csv_lines reply rows metadata)), ''query_result.csv'')
      else (XlsxFile (export_headers reply # rows)
              (if metadata = [] then [] else [CText ''key'', CText ''value'']
                 # map (\<lambda>(k, v). [CText k, neutralize_formula (CText v)]) metadata), ''query_result.xlsx''))"

definition export_metadata :: "operator \<Rightarrow> query_request \<Rightarrow> query_reply \<Rightarrow> string \<Rightarrow> (string \<times> string) list" where
  "export_metadata u d reply isotime =
     [(''export_user'', op_username u), (''export_time'', isotime), (''instance_id'', py_str_int (qx_instance_id d)),
      (''db_name'', qx_db_name d), (''sql_summary'', take 500 (qx_sql d)),
      (''query_log_id'', case qr_query_log_id reply of None \<Rightarrow> [] | Some i \<Rightarrow> if i = 0 then [] else py_str_int i),
      (''masked'', if qr_is_masked reply then ''true'' else ''false'')]"

text \<open>\<open>POST /export/\<close>; the pattern of the format is checked before.\<close>

definition export_query_result ::
    "query_env \<Rightarrow> (query_msg \<Rightarrow> string) \<Rightarrow> (string option list list \<Rightarrow> cell list list) \<Rightarrow> string \<Rightarrow> store \<Rightarrow> operator \<Rightarrow> query_request
       \<Rightarrow> string \<Rightarrow> string \<Rightarrow> engine_call list \<times> (query_err + (export_file \<times> string)) \<times> store" where
  "export_query_result env detail typed isotime s u d export_format client_ip =
     (case query_endpoint env detail s u d ''export'' export_format client_ip of
        (calls, r, s1) \<Rightarrow>
          (calls, rbind r (\<lambda>reply. Inr (build_query_export_file typed reply export_format (export_metadata u d reply isotime))), s1))"

section \<open>Reading CSV back\<close>

text \<open>
  A strict reader of CSV: its state, the current field, the fields of the current row before
  it and the rows before. A blank line is a row without fields.
\<close>

datatype csv_state = At_Start | In_Field | In_Quotes | After_Quote

fun csv_read :: "csv_state \<Rightarrow> string \<Rightarrow> string list \<Rightarrow> string list list \<Rightarrow> string \<Rightarrow> string list list option" where
  "csv_read st f row rows [] = (if st = At_Start \<and> row = [] then Some rows else None)"
| "csv_read In_Quotes f row rows (c # cs) =
     (if c = CHR 0x22 then csv_read After_Quote f row rows cs else csv_read In_Quotes (f @ [c]) row rows cs)"
| "csv_read st f row rows (c # cs) =
     (if c = CHR '','' then csv_read At_Start [] (row @ [f]) rows cs
      else if c = CHR 0x0D then
        (case cs of [] \<Rightarrow> None
         | d # ds \<Rightarrow> if d = CHR 0x0A then csv_read At_Start [] [] (rows @ [if st = At_Start \<and> row = [] then [] else row @ [f]]) ds else None)
      else if c = CHR 0x22 then
        (if st = At_Start then csv_read In_Quotes f row rows cs
         else if st = After_Quote then csv_read In_Quotes (f @ [c]) row rows cs else None)
      else if st = After_Quote then None else csv_read In_Field (f @ [c]) row rows cs)"

definition csv_parse :: "string \<Rightarrow> string list list option" where
  "csv_parse s = csv_read At_Start [] [] [] s"

section \<open>Lemmas\<close>

lemma read_doubled:
  "csv_read In_Quotes f row rows (concat (map (\<lambda>c. if c = CHR 0x22 then [c, c] else [c]) t) @ CHR 0x22 # rest)
     = csv_read After_Quote (f @ t) row rows rest"
proof (induction t arbitrary: f)
  case (Cons c t)
  from Cons.IH [of "f @ [c]"] show ?case by (cases "c = CHR 0x22") simp_all
qed simp

lemma read_plain:
  "st \<in> {At_Start, In_Field} \<Longrightarrow> \<not> list_ex csv_special t \<Longrightarrow>
     csv_read st f row rows (t @ rest) = csv_read (if t = [] then st else In_Field) (f @ t) row rows rest"
proof (induction t arbitrary: st f)
  case (Cons c t)
  then have "csv_read st f row rows ((c # t) @ rest) = csv_read In_Field (f @ [c]) row rows (t @ rest)"
    by (auto simp: csv_special_def)
  also have "\<dots> = csv_read In_Field ((f @ [c]) @ t) row rows rest" using Cons.IH [of In_Field "f @ [c]"] Cons.prems by simp
  finally show ?case by simp
qed simp

lemma read_field:
  "\<exists>st. st \<noteq> In_Quotes \<and> (st = At_Start \<longrightarrow> t = [])
     \<and> csv_read At_Start [] row rows (csv_field t @ rest) = csv_read st t row rows rest"
proof (cases "list_ex csv_special t")
  case True
  then show ?thesis using read_doubled [of "[]" row rows t rest]
    by (intro exI [of _ After_Quote]) (simp add: csv_field_def csv_quoted_def)
next
  case False
  then show ?thesis using read_plain [of At_Start t "[]" row rows rest]
    by (intro exI [of _ "if t = [] then At_Start else In_Field"]) (simp add: csv_field_def)
qed

lemma read_comma: "st \<noteq> In_Quotes \<Longrightarrow> csv_read st f row rows (CHR '','' # cs) = csv_read At_Start [] (row @ [f]) rows cs"
  by (cases st) simp_all

lemma read_end:
  "st \<noteq> In_Quotes \<Longrightarrow> csv_read st f row rows (csv_end @ rest)
     = csv_read At_Start [] [] (rows @ [if st = At_Start \<and> row = [] then [] else row @ [f]]) rest"
  by (cases st) (simp_all add: csv_end_def)

lemma read_fields:
  "fs \<noteq> [] \<Longrightarrow> row \<noteq> [] \<or> fs \<noteq> [[]] \<Longrightarrow>
     csv_read At_Start [] row rows (py_join '','' (map csv_field fs) @ csv_end @ rest)
       = csv_read At_Start [] [] (rows @ [row @ fs]) rest"
proof (induction fs arbitrary: row rule: induct_list012)
  case (2 t)
  obtain st where "st \<noteq> In_Quotes" "st = At_Start \<longrightarrow> t = []"
    "csv_read At_Start [] row rows (csv_field t @ csv_end @ rest) = csv_read st t row rows (csv_end @ rest)"
    using read_field by blast
  with 2 read_end show ?case by auto
next
  case (3 t u fs)
  obtain st where st: "st \<noteq> In_Quotes"
    "csv_read At_Start [] row rows (csv_field t @ CHR '','' # py_join '','' (map csv_field (u # fs)) @ csv_end @ rest)
       = csv_read st t row rows (CHR '','' # py_join '','' (map csv_field (u # fs)) @ csv_end @ rest)"
    using read_field by blast
  with 3(2) [of "row @ [t]"] show ?case by (simp add: read_comma)
qed simp

lemma read_row: "csv_read At_Start [] [] rows (csv_row fs @ rest) = csv_read At_Start [] [] (rows @ [fs]) rest"
proof (cases "fs = [] \<or> fs = [[]]")
  case True
  then show ?thesis using read_end [of At_Start "[]" "[]" rows rest] read_doubled [of "[]" "[]" rows "[]" "csv_end @ rest"]
      read_end [of After_Quote "[]" "[]" rows rest]
    by (auto simp: csv_row_def csv_quoted_def)
next
  case False
  then show ?thesis using read_fields [of fs "[]" rows rest] by (simp add: csv_row_def)
qed

lemma csv_content_roundtrip: "csv_parse (csv_content lines) = Some (map (map cell_str) lines)"
proof -
  have "csv_read At_Start [] [] rows (csv_content lines) = Some (rows @ map (map cell_str) lines)" for rows
    by (induction lines arbitrary: rows) (simp_all add: csv_content_def read_row)
  then show ?thesis by (simp add: csv_parse_def)
qed

lemma number_rows_nth:
  "length (number_rows k rows) = length rows"
  "i < length rows \<Longrightarrow> number_rows k rows ! i = CNumber (nat_digits (k + i)) # map neutralize_formula (rows ! i)"
proof (induction rows arbitrary: k i)
  case (Cons row rows)
  { case 1 then show ?case using Cons.IH(1) by simp
  next case 2 then show ?case using Cons.IH(2) [of "i - 1" "Suc k"] by (cases i) simp_all }
qed simp_all

lemma neutralize_inert:
  "case neutralize_formula c of CText (x # xs) \<Rightarrow> x \<notin> set FORMULA_TRIGGER_CHARS | _ \<Rightarrow> True"
  by (cases c rule: neutralize_formula.cases) (simp_all add: FORMULA_TRIGGER_CHARS_def)

lemma neutralize_text: "cell_str (neutralize_formula c) = cell_str c \<or> cell_str (neutralize_formula c) = CHR 0x27 # cell_str c"
  by (cases c rule: neutralize_formula.cases) simp_all


definition sample_reply :: query_reply where
  "sample_reply = \<lparr> qr_column_list = [''note''], qr_rows = [[Some ''=1+1, or''], [None]], qr_affected_rows = 2, qr_cost_time_ms = 0,
     qr_is_masked = False, qr_query_log_id = Some 20 \<rparr>"

definition as_texts :: "string option list list \<Rightarrow> cell list list" where
  "as_texts rows = map (map (\<lambda>v. case v of None \<Rightarrow> CNone | Some t \<Rightarrow> CText t)) rows"


text \<open>
  The header is not neutralised: a column alias of the query becomes a cell of the sheet as
  it is, formula or not.
\<close>

theorem header_formula_kept:
  "export_headers (sample_reply\<lparr>qr_column_list := [''=cmd()'']\<rparr>) = [CText ''row_num'', CText ''=cmd()'']"
  by (simp add: export_headers_def)

end
