(* ===== verification/Directory.thy ===== *)
theory Directory
  imports Models
begin

text \<open>
  The accounts, roles, user groups and resource groups: the tables of
  \<^verbatim>\<open>app/models/user.py\<close> and \<^verbatim>\<open>app/models/role.py\<close> as one record, with the four
  association tables as lists of pairs. A foreign key with \<open>ON DELETE SET NULL\<close> or
  \<open>CASCADE\<close> is written out in the deletions. \<open>context_of\<close> is what a session sees of it:
  the user dictionary of \<^verbatim>\<open>app/core/deps.py\<close>.
\<close>

section \<open>Tables\<close>

record account =
  ac_id :: int
  ac_username :: string
  ac_display_name :: string
  ac_password :: string
  ac_email :: string
  ac_phone :: string
  ac_dingtalk_user_id :: string
  ac_feishu_open_id :: string
  ac_wecom_userid :: string
  ac_is_active :: bool
  ac_is_superuser :: bool
  ac_auth_type :: string
  ac_external_id :: string
  ac_totp_secret :: "string option"
  ac_totp_enabled :: bool
  ac_role_id :: "int option"
  ac_manager_id :: "int option"
  ac_employee_id :: string
  ac_department :: string
  ac_title :: string
  ac_password_changed_at :: time
  ac_tenant_id :: int
  ac_created_at :: time

record role_row =
  ro_id :: int
  ro_name :: string
  ro_name_cn :: string
  ro_description :: string
  ro_is_system :: bool
  ro_is_active :: bool

record permission_row =
  pe_id :: int
  pe_codename :: string
  pe_name :: string

record group_row =
  gp_id :: int
  gp_name :: string
  gp_name_cn :: string
  gp_description :: string
  gp_leader_id :: "int option"
  gp_parent_id :: "int option"
  gp_is_active :: bool

record rgroup_row =
  rr_id :: int
  rr_group_name :: string
  rr_group_name_cn :: string
  rr_is_active :: bool

text \<open>
  \<open>di_instances\<close> holds the id and the active flag of the rows of \<open>sql_instance\<close>;
  \<open>di_next_id\<close> is the next value of the key sequences.
\<close>

record directory =
  di_users :: "account list"
  di_roles :: "role_row list"
  di_permissions :: "permission_row list"
  di_groups :: "group_row list"
  di_rgroups :: "rgroup_row list"
  di_instances :: "(int \<times> bool) list"
  di_role_permission :: "(int \<times> int) list"
  di_user_group_member :: "(int \<times> int) list"
  di_group_resource_group :: "(int \<times> int) list"
  di_instance_resource_group :: "(int \<times> int) list"
  di_next_id :: int

section \<open>Selects\<close>

definition get_account :: "directory \<Rightarrow> int \<Rightarrow> account option" where
  "get_account d i = row_get ac_id i (di_users d)"

definition get_by_username :: "directory \<Rightarrow> string \<Rightarrow> account option res" where
  "get_by_username d n = scalar_one_or_none (filter (\<lambda>a. ac_username a = n) (di_users d))"

definition get_by_phone :: "directory \<Rightarrow> string \<Rightarrow> account option res" where
  "get_by_phone d p = scalar_one_or_none (filter (\<lambda>a. ac_phone a = p \<and> ac_is_active a) (di_users d))"

definition get_role :: "directory \<Rightarrow> int \<Rightarrow> role_row option" where
  "get_role d i = row_get ro_id i (di_roles d)"

definition get_role_by_name :: "directory \<Rightarrow> string \<Rightarrow> role_row option res" where
  "get_role_by_name d n = scalar_one_or_none (filter (\<lambda>r. ro_name r = n) (di_roles d))"

definition get_ugroup :: "directory \<Rightarrow> int \<Rightarrow> group_row option" where
  "get_ugroup d i = row_get gp_id i (di_groups d)"

definition get_rgroup :: "directory \<Rightarrow> int \<Rightarrow> rgroup_row option" where
  "get_rgroup d i = row_get rr_id i (di_rgroups d)"

definition put_user :: "account \<Rightarrow> directory \<Rightarrow> directory" where
  "put_user a d = d\<lparr>di_users := row_put ac_id a (di_users d)\<rparr>"

text \<open>The codes a role has: \<open>role.permissions\<close> through \<open>role_permission\<close>.\<close>

definition role_codes :: "directory \<Rightarrow> int \<Rightarrow> string list" where
  "role_codes d rid =
     map pe_codename (filter (\<lambda>p. (rid, pe_id p) \<in> set (di_role_permission d)) (di_permissions d))"

text \<open>The groups as the other components read them, with their members and resource groups.\<close>

definition rg_of_row :: "rgroup_row \<Rightarrow> resource_group" where
  "rg_of_row r = \<lparr> rg_id = rr_id r, rg_group_name = rr_group_name r, rg_is_active = rr_is_active r \<rparr>"

definition group_view :: "directory \<Rightarrow> group_row \<Rightarrow> user_group" where
  "group_view d g =
     \<lparr> ug_id = gp_id g, ug_leader_id = gp_leader_id g, ug_is_active = gp_is_active g,
       ug_members = map fst (filter (\<lambda>(u, gid). gid = gp_id g) (di_user_group_member d)),
       ug_resource_groups =
         map rg_of_row (filter (\<lambda>r. (gp_id g, rr_id r) \<in> set (di_group_resource_group d)) (di_rgroups d)) \<rparr>"

definition user_view :: "account \<Rightarrow> user_row" where
  "user_view a = \<lparr> us_id = ac_id a, us_username = ac_username a, us_display_name = ac_display_name a,
     us_is_active = ac_is_active a, us_manager_id = ac_manager_id a \<rparr>"

text \<open>
  The dictionary \<open>load_user_context\<close> returns for an account. Neither the active flag of the
  role nor those of the groups and resource groups are read.
\<close>

definition context_of :: "directory \<Rightarrow> account \<Rightarrow> operator" where
  "context_of d a =
     (let role = (case ac_role_id a of None \<Rightarrow> None | Some i \<Rightarrow> get_role d i)
      in user_context (user_view a) (ac_is_superuser a)
           (map_option (\<lambda>r. (ro_name r, ro_id r, role_codes d (ro_id r))) role)
           (map (group_view d) (di_groups d)))"

lemma context_of_fields:
  "op_id (context_of d a) = ac_id a"
  "op_username (context_of d a) = ac_username a"
  "op_display_name (context_of d a) = ac_display_name a"
  "op_is_superuser (context_of d a) = ac_is_superuser a"
  by (simp_all add: context_of_def user_context_def user_view_def Let_def)

lemma context_permissions:
  "p \<in> set (op_permissions (context_of d a)) \<longleftrightarrow>
     (\<exists>rid r. ac_role_id a = Some rid \<and> get_role d rid = Some r \<and> p \<in> set (role_codes d rid))"
proof -
  have key: "get_role d i = Some r \<Longrightarrow> ro_id r = i" for i r
    by (auto simp: get_role_def dest: row_get_key)
  show ?thesis
  proof (cases "ac_role_id a")
    case None
    then show ?thesis by (simp add: context_of_def user_context_def)
  next
    case (Some rid)
    then show ?thesis
      by (cases "get_role d rid") (auto simp: context_of_def user_context_def key)
  qed
qed

lemma role_codes_iff:
  "p \<in> set (role_codes d rid) \<longleftrightarrow>
     (\<exists>q\<in>set (di_permissions d). pe_codename q = p \<and> (rid, pe_id q) \<in> set (di_role_permission d))"
  by (auto simp: role_codes_def)

lemma context_resource_groups:
  "i \<in> set (op_resource_groups (context_of d a)) \<longleftrightarrow>
     (\<exists>g\<in>set (di_groups d). (ac_id a, gp_id g) \<in> set (di_user_group_member d)
        \<and> (\<exists>r\<in>set (di_rgroups d). rr_id r = i \<and> (gp_id g, i) \<in> set (di_group_resource_group d)))"
  by (force simp: context_of_def user_context_def Let_def group_view_def user_view_def rg_of_row_def)

section \<open>Well-formed directories\<close>

text \<open>
  Unique keys and unique names are constraints of the tables; the links and the optional
  references point to existing rows.
\<close>

definition keys_wf :: "int \<Rightarrow> int list \<Rightarrow> bool" where
  "keys_wf n ks \<longleftrightarrow> distinct ks \<and> list_all (\<lambda>k. 0 < k \<and> k < n) ks"

definition links_wf :: "(int \<times> int) list \<Rightarrow> int list \<Rightarrow> int list \<Rightarrow> bool" where
  "links_wf ls as bs \<longleftrightarrow> list_all (\<lambda>(a, b). a \<in> set as \<and> b \<in> set bs) ls"

definition refs_wf :: "int option list \<Rightarrow> int list \<Rightarrow> bool" where
  "refs_wf rs ks \<longleftrightarrow> list_all (\<lambda>r. case r of None \<Rightarrow> True | Some i \<Rightarrow> i \<in> set ks) rs"

abbreviation user_ids :: "directory \<Rightarrow> int list" where "user_ids d \<equiv> map ac_id (di_users d)"
abbreviation role_ids :: "directory \<Rightarrow> int list" where "role_ids d \<equiv> map ro_id (di_roles d)"
abbreviation perm_ids :: "directory \<Rightarrow> int list" where "perm_ids d \<equiv> map pe_id (di_permissions d)"
abbreviation group_ids :: "directory \<Rightarrow> int list" where "group_ids d \<equiv> map gp_id (di_groups d)"
abbreviation rgroup_ids :: "directory \<Rightarrow> int list" where "rgroup_ids d \<equiv> map rr_id (di_rgroups d)"

definition users_wf :: "directory \<Rightarrow> bool" where
  "users_wf d \<longleftrightarrow> keys_wf (di_next_id d) (user_ids d) \<and> distinct (map ac_username (di_users d))"

definition directory_wf :: "directory \<Rightarrow> bool" where
  "directory_wf d \<longleftrightarrow>
     0 < di_next_id d \<and> users_wf d \<and> keys_wf (di_next_id d) (role_ids d) \<and> keys_wf (di_next_id d) (perm_ids d)
     \<and> keys_wf (di_next_id d) (group_ids d) \<and> keys_wf (di_next_id d) (rgroup_ids d)
     \<and> distinct (map ro_name (di_roles d)) \<and> distinct (map pe_codename (di_permissions d))
     \<and> distinct (map gp_name (di_groups d)) \<and> distinct (map rr_group_name (di_rgroups d))
     \<and> refs_wf (map ac_role_id (di_users d)) (role_ids d)
     \<and> refs_wf (map ac_manager_id (di_users d)) (user_ids d)
     \<and> refs_wf (map gp_leader_id (di_groups d)) (user_ids d)
     \<and> refs_wf (map gp_parent_id (di_groups d)) (group_ids d)
     \<and> links_wf (di_role_permission d) (role_ids d) (perm_ids d)
     \<and> links_wf (di_user_group_member d) (user_ids d) (group_ids d)
     \<and> links_wf (di_group_resource_group d) (group_ids d) (rgroup_ids d)
     \<and> links_wf (di_instance_resource_group d) (map fst (di_instances d)) (rgroup_ids d)"

lemma keys_wf_append: "keys_wf n ks \<Longrightarrow> 0 < n \<Longrightarrow> keys_wf (n + 1) (ks @ [n])"
  by (fastforce simp: keys_wf_def list_all_iff)

lemma keys_wf_mono: "keys_wf n ks \<Longrightarrow> n \<le> m \<Longrightarrow> keys_wf m ks"
  by (fastforce simp: keys_wf_def list_all_iff)

lemma keys_wf_filter: "keys_wf n (map f xs) \<Longrightarrow> keys_wf n (map f (filter P xs))"
  by (auto simp: keys_wf_def list_all_iff distinct_map inj_on_def)

lemma links_wf_mono: "links_wf ls as bs \<Longrightarrow> set as \<subseteq> set as' \<Longrightarrow> set bs \<subseteq> set bs' \<Longrightarrow> links_wf ls as' bs'"
  by (fastforce simp: links_wf_def list_all_iff)

lemma links_wf_filter: "links_wf ls as bs \<Longrightarrow> links_wf (filter P ls) as bs"
  by (auto simp: links_wf_def list_all_iff)

lemma links_wf_append [simp]: "links_wf (ls @ ms) as bs \<longleftrightarrow> links_wf ls as bs \<and> links_wf ms as bs"
  by (simp add: links_wf_def)

lemma links_wf_Nil [simp]: "links_wf [] as bs"
  by (simp add: links_wf_def)

lemma refs_wf_mono: "refs_wf rs ks \<Longrightarrow> set ks \<subseteq> set ks' \<Longrightarrow> refs_wf rs ks'"
  by (fastforce simp: refs_wf_def list_all_iff split: option.splits)

lemma refs_wf_append [simp]: "refs_wf (rs @ qs) ks \<longleftrightarrow> refs_wf rs ks \<and> refs_wf qs ks"
  by (simp add: refs_wf_def)

lemma refs_wf_put:
  "refs_wf (map f xs) ks \<Longrightarrow> refs_wf [f x] ks \<Longrightarrow> refs_wf (map f (row_put key x xs)) ks"
  by (auto simp: refs_wf_def list_all_iff row_put_def)

lemma get_account_iff: "users_wf d \<Longrightarrow> get_account d i = Some a \<longleftrightarrow> a \<in> set (di_users d) \<and> ac_id a = i"
  by (auto simp: get_account_def users_wf_def keys_wf_def dest: row_get_key row_get_distinct)

lemma filter_unique: "distinct (map f xs) \<Longrightarrow> x \<in> set xs \<Longrightarrow> filter (\<lambda>y. f y = f x) xs = [x]"
proof (induction xs)
  case Nil
  then show ?case by simp
next
  case (Cons a xs)
  show ?case
  proof (cases "x = a")
    case True
    then have "filter (\<lambda>y. f y = f x) xs = []" using Cons.prems by (auto simp: filter_empty_conv) (metis image_eqI)
    with True show ?thesis by simp
  next
    case False
    then have "x \<in> set xs" and "f a \<noteq> f x" using Cons.prems by (auto simp: rev_image_eqI)
    then show ?thesis using Cons by simp
  qed
qed

lemma scalar_unique:
  "distinct (map f xs) \<Longrightarrow>
     scalar_one_or_none (filter (\<lambda>y. f y = k) xs) = Inr r \<longleftrightarrow>
     (case r of None \<Rightarrow> k \<notin> f ` set xs | Some x \<Rightarrow> x \<in> set xs \<and> f x = k)"
proof (cases "k \<in> f ` set xs")
  case True
  assume d: "distinct (map f xs)"
  from True obtain x where x: "x \<in> set xs" "k = f x" by auto
  then have "filter (\<lambda>y. f y = k) xs = [x]" using filter_unique [OF d] by simp
  then show ?thesis using x d by (auto split: option.splits simp: distinct_map inj_on_def)
next
  case False
  then have "filter (\<lambda>y. f y = k) xs = []" by (auto simp: filter_empty_conv)
  then show ?thesis using False by (auto split: option.splits)
qed

lemma get_by_username_iff:
  "users_wf d \<Longrightarrow> get_by_username d n = Inr r \<longleftrightarrow>
     (case r of None \<Rightarrow> n \<notin> ac_username ` set (di_users d)
      | Some a \<Rightarrow> a \<in> set (di_users d) \<and> ac_username a = n)"
  unfolding get_by_username_def users_wf_def by (rule scalar_unique) simp

end
