(* ===== verification/Security.thy ===== *)
theory Security
  imports Models
begin

text \<open>
  \<^verbatim>\<open>app/core/security.py\<close>: password rules and their dates, the claims of the tokens, the
  revocation of tokens by a password change, and the encryption of single fields. The token
  library, bcrypt and Fernet are arguments: \<open>'t\<close> is the type of signed tokens.
\<close>

section \<open>Password rules\<close>

definition is_upper :: "char \<Rightarrow> bool" where
  "is_upper c \<longleftrightarrow> 65 \<le> char_code c \<and> char_code c \<le> 90"

definition is_lower :: "char \<Rightarrow> bool" where
  "is_lower c \<longleftrightarrow> 97 \<le> char_code c \<and> char_code c \<le> 122"

definition is_digit_char :: "char \<Rightarrow> bool" where
  "is_digit_char c \<longleftrightarrow> 48 \<le> char_code c \<and> char_code c \<le> 57"

datatype change_reason =
    TooShort | NoUppercase | NoLowercase | NoDigit | NoSpecial
  | DefaultPassword | InitialPassword | PasswordExpired

definition get_password_policy_violations :: "string \<Rightarrow> change_reason list" where
  "get_password_policy_violations p =
     (if length p < 8 then [TooShort] else [])
     @ (if \<not> list_ex is_upper p then [NoUppercase] else [])
     @ (if \<not> list_ex is_lower p then [NoLowercase] else [])
     @ (if \<not> list_ex is_digit_char p then [NoDigit] else [])
     @ (if \<not> list_ex (\<lambda>c. \<not> is_upper c \<and> \<not> is_lower c \<and> \<not> is_digit_char c) p then [NoSpecial] else [])"

definition validate_password_strength :: "string \<Rightarrow> change_reason list + string" where
  "validate_password_strength p =
     (let v = get_password_policy_violations p in raise_if (v \<noteq> []) v (Inr p))"

definition DEFAULT_PASSWORDS :: "string list" where
  "DEFAULT_PASSWORDS = [''Admin@2024!'']"

definition second :: int where "second = 1000000"

definition one_day :: int where "one_day = 86400 * second"

definition PASSWORD_EXPIRE_DAYS :: int where "PASSWORD_EXPIRE_DAYS = 30"

definition PASSWORD_EXPIRY_WARNING_DAYS :: int where "PASSWORD_EXPIRY_WARNING_DAYS = 7"

definition INITIAL_PASSWORD_GRACE_SECONDS :: int where "INITIAL_PASSWORD_GRACE_SECONDS = 5"

lemmas clock_defs = second_def one_day_def PASSWORD_EXPIRE_DAYS_def PASSWORD_EXPIRY_WARNING_DAYS_def
  INITIAL_PASSWORD_GRACE_SECONDS_def

definition is_password_expired :: "time option \<Rightarrow> time \<Rightarrow> bool" where
  "is_password_expired changed now =
     (case changed of None \<Rightarrow> True | Some t \<Rightarrow> t + PASSWORD_EXPIRE_DAYS * one_day \<le> now)"

text \<open>\<open>(remaining_seconds + 86399) // 86400\<close> on seconds with six decimals.\<close>

definition get_password_days_until_expiry :: "time option \<Rightarrow> time \<Rightarrow> int" where
  "get_password_days_until_expiry changed now =
     (case changed of None \<Rightarrow> 0
      | Some t \<Rightarrow>
          (let remaining = t + PASSWORD_EXPIRE_DAYS * one_day - now in
           if remaining \<le> 0 then 0 else (remaining + 86399 * second) div one_day))"

definition is_password_expiring_soon :: "time option \<Rightarrow> time \<Rightarrow> bool" where
  "is_password_expiring_soon changed now =
     (if is_password_expired changed now then False
      else get_password_days_until_expiry changed now \<le> PASSWORD_EXPIRY_WARNING_DAYS)"

definition get_login_password_change_reasons :: "string \<Rightarrow> time option \<Rightarrow> bool \<Rightarrow> time \<Rightarrow> change_reason list" where
  "get_login_password_change_reasons p changed force now =
     (if force then [InitialPassword] else [])
     @ (if p \<in> set DEFAULT_PASSWORDS then [DefaultPassword] else [])
     @ get_password_policy_violations p
     @ (if is_password_expired changed now then [PasswordExpired] else [])"

definition is_initial_password_state :: "time option \<Rightarrow> time option \<Rightarrow> bool" where
  "is_initial_password_state changed created =
     (case (changed, created) of
        (Some a, Some b) \<Rightarrow> \<bar>a - b\<bar> \<le> INITIAL_PASSWORD_GRACE_SECONDS * second
      | _ \<Rightarrow> False)"

section \<open>Tokens\<close>

text \<open>
  The payload of a token. \<open>sub\<close> is written as the text of a user id and read back as a
  number, so it is kept as a number; \<open>exp\<close> and \<open>iat\<close> are whole seconds, as PyJWT writes
  them. An absent flag is false.
\<close>

record claims =
  cl_sub :: "int option"
  cl_username :: "string option"
  cl_tenant_id :: "int option"
  cl_requires_2fa :: bool
  cl_2fa_verified :: bool
  cl_exp :: int
  cl_iat :: "int option"
  cl_type :: string

record 't auth_env =
  ev_encode :: "claims \<Rightarrow> 't"
  ev_decode :: "time \<Rightarrow> 't \<Rightarrow> claims option"
  ev_digest :: "string \<Rightarrow> string"
  ev_hashpw :: "string \<Rightarrow> string \<Rightarrow> string"
  ev_checkpw :: "string \<Rightarrow> string \<Rightarrow> bool option"
  ev_encrypt :: "string \<Rightarrow> string \<Rightarrow> string"
  ev_decrypt :: "string \<Rightarrow> string \<Rightarrow> string option"
  ev_derive_key :: "string \<Rightarrow> string"
  ev_totp :: "string \<Rightarrow> string \<Rightarrow> time \<Rightarrow> bool option"
  ev_secret_key :: string
  ev_fernet_key :: string
  ev_access_minutes :: int
  ev_refresh_days :: int
  ev_tenant_id :: int

definition seconds_of :: "time \<Rightarrow> int" where
  "seconds_of t = t div second"

definition with_tenant :: "'t auth_env \<Rightarrow> claims \<Rightarrow> claims" where
  "with_tenant env c = (if cl_tenant_id c = None then c\<lparr>cl_tenant_id := Some (ev_tenant_id env)\<rparr> else c)"

definition create_access_token :: "'t auth_env \<Rightarrow> claims \<Rightarrow> time \<Rightarrow> 't" where
  "create_access_token env data now =
     ev_encode env (with_tenant env (data\<lparr>cl_exp := seconds_of (now + ev_access_minutes env * 60 * second),
       cl_iat := Some (seconds_of now), cl_type := ''access''\<rparr>))"

definition create_refresh_token :: "'t auth_env \<Rightarrow> claims \<Rightarrow> time \<Rightarrow> 't" where
  "create_refresh_token env data now =
     ev_encode env (with_tenant env (data\<lparr>cl_exp := seconds_of (now + ev_refresh_days env * one_day),
       cl_iat := Some (seconds_of now), cl_type := ''refresh''\<rparr>))"

definition create_password_change_token :: "'t auth_env \<Rightarrow> claims \<Rightarrow> time \<Rightarrow> 't" where
  "create_password_change_token env data now =
     ev_encode env (with_tenant env (data\<lparr>cl_exp := seconds_of (now + 10 * 60 * second),
       cl_type := ''password_change''\<rparr>))"

text \<open>
  \<open>float(iat) < changed.timestamp() - 2\<close>, both sides in microseconds.
\<close>

definition is_token_revoked_by_password_change :: "int option \<Rightarrow> time option \<Rightarrow> bool" where
  "is_token_revoked_by_password_change iat changed =
     (case (iat, changed) of
        (Some i, Some t) \<Rightarrow> i * second < t - 2 * second
      | _ \<Rightarrow> False)"

text \<open>
  What PyJWT documents of \<open>encode\<close> and \<open>decode\<close> with one key: an encoded payload is
  returned while it is alive (not expired, not issued in the future), and whether a token is
  signed, and with which payload, does not depend on the time.
\<close>

definition claims_live :: "time \<Rightarrow> claims \<Rightarrow> bool" where
  "claims_live now c \<longleftrightarrow> now < cl_exp c * second \<and> (case cl_iat c of None \<Rightarrow> True | Some i \<Rightarrow> i * second \<le> now)"

definition jwt_laws :: "'t auth_env \<Rightarrow> bool" where
  "jwt_laws env \<longleftrightarrow>
     (\<forall>now c. ev_decode env now (ev_encode env c) = (if claims_live now c then Some c else None))
     \<and> (\<forall>now now' t c. ev_decode env now t = Some c \<longrightarrow> claims_live now c
          \<and> (ev_decode env now' t = (if claims_live now' c then Some c else None)))"

lemma decode_encode: "jwt_laws env \<Longrightarrow> ev_decode env now (ev_encode env c) = (if claims_live now c then Some c else None)"
  by (simp add: jwt_laws_def)

lemma decode_live: "jwt_laws env \<Longrightarrow> ev_decode env now t = Some c \<Longrightarrow> claims_live now c"
  unfolding jwt_laws_def by blast

lemma decode_later:
  "jwt_laws env \<Longrightarrow> ev_decode env now t = Some c \<Longrightarrow> ev_decode env now' t = Some c' \<Longrightarrow> c' = c"
  unfolding jwt_laws_def by (metis option.distinct(1) option.inject)

section \<open>Password hashes\<close>

definition hash_password :: "'t auth_env \<Rightarrow> string \<Rightarrow> string \<Rightarrow> string" where
  "hash_password env salt p = ev_hashpw env salt (ev_digest env p)"

text \<open>An exception of bcrypt counts as a mismatch.\<close>

definition verify_password :: "'t auth_env \<Rightarrow> string \<Rightarrow> string \<Rightarrow> bool" where
  "verify_password env plain hashed = (case ev_checkpw env (ev_digest env plain) hashed of None \<Rightarrow> False | Some b \<Rightarrow> b)"

definition bcrypt_law :: "'t auth_env \<Rightarrow> bool" where
  "bcrypt_law env \<longleftrightarrow> (\<forall>salt p. ev_checkpw env p (ev_hashpw env salt p) = Some True)"

lemma verify_hash: "bcrypt_law env \<Longrightarrow> verify_password env p (hash_password env salt p)"
  by (simp add: verify_password_def hash_password_def bcrypt_law_def)

section \<open>Field encryption\<close>

definition current_key :: "'t auth_env \<Rightarrow> string" where
  "current_key env = (if ev_fernet_key env \<noteq> [] then ev_fernet_key env else ev_derive_key env (ev_secret_key env))"

definition decrypt_keys :: "'t auth_env \<Rightarrow> string list" where
  "decrypt_keys env = current_key env # (if ev_fernet_key env \<noteq> [] then [ev_derive_key env (ev_secret_key env)] else [])"

definition encrypt_field :: "'t auth_env \<Rightarrow> string \<Rightarrow> string" where
  "encrypt_field env v = (if v = [] then v else ev_encrypt env (current_key env) v)"

fun try_decrypt :: "'t auth_env \<Rightarrow> string list \<Rightarrow> string \<Rightarrow> string" where
  "try_decrypt env [] v = v"
| "try_decrypt env (k # ks) v = (case ev_decrypt env k v of Some w \<Rightarrow> w | None \<Rightarrow> try_decrypt env ks v)"

definition decrypt_field :: "'t auth_env \<Rightarrow> string \<Rightarrow> string" where
  "decrypt_field env v = (if v = [] then v else try_decrypt env (decrypt_keys env) v)"

text \<open>Fernet: a text is read back with its key, and never read with another key of the two in use.\<close>

definition fernet_laws :: "'t auth_env \<Rightarrow> bool" where
  "fernet_laws env \<longleftrightarrow>
     (let old = ev_derive_key env (ev_secret_key env); new = ev_fernet_key env in
      (\<forall>k v. ev_decrypt env k (ev_encrypt env k v) = Some v) \<and> (\<forall>k v. ev_encrypt env k v \<noteq> [])
      \<and> (\<forall>v. new \<noteq> [] \<and> new \<noteq> old \<longrightarrow> ev_decrypt env new (ev_encrypt env old v) = None))"

section \<open>Lemmas\<close>

lemma policy_ok_iff:
  "get_password_policy_violations p = [] \<longleftrightarrow>
     8 \<le> length p \<and> (\<exists>c\<in>set p. is_upper c) \<and> (\<exists>c\<in>set p. is_lower c) \<and> (\<exists>c\<in>set p. is_digit_char c)
     \<and> (\<exists>c\<in>set p. \<not> is_upper c \<and> \<not> is_lower c \<and> \<not> is_digit_char c)"
  by (auto simp: get_password_policy_violations_def list_ex_iff)

lemma claims_live_mono: "claims_live now c \<Longrightarrow> now' \<le> now \<Longrightarrow> cl_iat c = None \<Longrightarrow> claims_live now' c"
  by (simp add: claims_live_def)

lemma seconds_of_le: "seconds_of t * second \<le> t"
  unfolding seconds_of_def second_def by (simp add: minus_mod_eq_mult_div [symmetric])

lemma seconds_of_gt: "t < (seconds_of t + 1) * second"
  unfolding seconds_of_def second_def by simp

lemma seconds_of_add: "seconds_of (t + k * second) = seconds_of t + k"
  unfolding seconds_of_def second_def by simp

end
