(* ===== verification/Rate_Limit.thy ===== *)
theory Rate_Limit
  imports Security
begin

text \<open>
  \<^verbatim>\<open>app/core/rate_limit.py\<close> and \<^verbatim>\<open>app/core/net.py\<close>: the sliding windows before the login
  endpoints and the client address they count by. A sorted set of Redis is the list of its
  scores, the times of the attempts (the members are unique, so the set is a list). The expiry
  of a whole key changes nothing: when it comes, every score has left the window.
\<close>

section \<open>Client address\<close>

text \<open>\<open>request.client\<close>, the \<open>X-Forwarded-For\<close> header and \<open>TRUSTED_PROXY_COUNT\<close>.\<close>

definition resolve_client_ip :: "string option \<Rightarrow> string option \<Rightarrow> int \<Rightarrow> string" where
  "resolve_client_ip client forwarded hops =
     (let peer = (case client of None \<Rightarrow> [] | Some h \<Rightarrow> h) in
      if hops \<le> 0 then peer
      else if \<not> truthy forwarded then peer
      else let entries = filter (\<lambda>x. x \<noteq> []) (map py_strip (py_split (CHR '','') (case forwarded of None \<Rightarrow> [] | Some f \<Rightarrow> f)))
        in if int (length entries) < hops then peer else entries ! (length entries - nat hops))"

section \<open>Sliding windows\<close>

type_synonym windows = "string \<Rightarrow> time list"

definition sliding_window_allow :: "windows \<Rightarrow> string \<Rightarrow> int \<Rightarrow> int \<Rightarrow> time \<Rightarrow> bool \<times> windows" where
  "sliding_window_allow w key limit window_seconds now =
     (let scores = filter (\<lambda>t. now - window_seconds * second < t) (w key) @ [now]
      in (int (length scores) \<le> limit, w(key := scores)))"

text \<open>\<open>up\<close>: Redis answers. Otherwise the check lets the request pass.\<close>

definition enforce_rate_limit :: "bool \<Rightarrow> windows \<Rightarrow> string \<Rightarrow> int \<Rightarrow> int \<Rightarrow> string \<Rightarrow> time \<Rightarrow> unit res \<times> windows" where
  "enforce_rate_limit up w key limit window_seconds error_msg now =
     (if \<not> up then (Inr (), w)
      else case sliding_window_allow w key limit window_seconds now of
        (allowed, w1) \<Rightarrow> ((if allowed then Inr () else Inl (app_exc (TextMsg error_msg) 429)), w1))"

definition ip_key :: "string \<Rightarrow> string \<Rightarrow> string" where
  "ip_key scope ip = ''rl:'' @ scope @ '':ip:'' @ ip"

definition id_key :: "string \<Rightarrow> string \<Rightarrow> string" where
  "id_key scope i = ''rl:'' @ scope @ '':id:'' @ i"

definition enforce_auth_rate_limit ::
    "bool \<Rightarrow> windows \<Rightarrow> string \<Rightarrow> string \<Rightarrow> string \<Rightarrow> int \<Rightarrow> int \<Rightarrow> int \<Rightarrow> int \<Rightarrow> time \<Rightarrow> unit res \<times> windows" where
  "enforce_auth_rate_limit up w ip identifier scope ip_limit ip_window id_limit id_window now =
     (case enforce_rate_limit up w (ip_key scope (or_str ip ''unknown'')) ip_limit ip_window ''too many requests'' now of
        (Inl e, w1) \<Rightarrow> (Inl e, w1)
      | (Inr _, w1) \<Rightarrow>
          if identifier = [] then (Inr (), w1)
          else enforce_rate_limit up w1 (id_key scope identifier) id_limit id_window ''too many attempts'' now)"

section \<open>The bound\<close>

text \<open>
  A run of requests on one key at the times \<open>ts\<close>: the times that were let through.
\<close>

fun allowed_times :: "string \<Rightarrow> int \<Rightarrow> int \<Rightarrow> windows \<Rightarrow> time list \<Rightarrow> time list" where
  "allowed_times key limit window_seconds w [] = []"
| "allowed_times key limit window_seconds w (t # ts) =
     (case sliding_window_allow w key limit window_seconds t of
        (allowed, w1) \<Rightarrow> (if allowed then [t] else []) @ allowed_times key limit window_seconds w1 ts)"

text \<open>How many of the times \<open>ts\<close> lie in the window that ends at \<open>t\<close>.\<close>

definition in_window :: "int \<Rightarrow> time \<Rightarrow> time list \<Rightarrow> time list" where
  "in_window window_seconds t ts = filter (\<lambda>s. t - window_seconds * second < s \<and> s \<le> t) ts"

lemma in_window_append [simp]: "in_window w t (xs @ ys) = in_window w t xs @ in_window w t ys"
  by (simp add: in_window_def)

lemma allowed_subset: "set (allowed_times key l w m ts) \<subseteq> set ts"
  by (induction ts arbitrary: m) (auto split: prod.splits)

text \<open>
  The invariant: everything let through so far that a later window can still reach is among
  the scores of the key.
\<close>

definition window_covers :: "int \<Rightarrow> time \<Rightarrow> time list \<Rightarrow> time list \<Rightarrow> bool" where
  "window_covers ws now past scores \<longleftrightarrow>
     (\<forall>t\<ge>now. length (in_window ws t past) \<le> length (filter (\<lambda>s. t - ws * second < s) scores))"

lemma covers_step:
  assumes "window_covers ws t0 past (m key)" and "t0 \<le> t" and "0 \<le> ws"
    and "\<forall>s\<in>set past. s \<le> t0"
    and r: "sliding_window_allow m key limit ws t = (ok, m1)"
  shows "window_covers ws t (past @ (if ok then [t] else [])) (m1 key)"
  unfolding window_covers_def
proof (intro allI impI)
  fix u :: int assume "t \<le> u"
  have 1: "length (in_window ws u past) \<le> length (filter (\<lambda>s. u - ws * second < s) (m key))"
    using assms(1,2) \<open>t \<le> u\<close> by (auto simp: window_covers_def)
  have "filter (\<lambda>s. u - ws * second < s) (filter (\<lambda>s. t - ws * second < s) (m key))
      = filter (\<lambda>s. u - ws * second < s) (m key)"
    unfolding filter_filter by (rule filter_cong) (use \<open>t \<le> u\<close> in auto)
  then have 2: "filter (\<lambda>s. u - ws * second < s) (m1 key)
      = filter (\<lambda>s. u - ws * second < s) (m key) @ (if u - ws * second < t then [t] else [])"
    using r by (auto simp: sliding_window_allow_def Let_def)
  show "length (in_window ws u (past @ (if ok then [t] else [])))
      \<le> length (filter (\<lambda>s. u - ws * second < s) (m1 key))"
    unfolding 2 using 1 \<open>t \<le> u\<close> by (auto simp: in_window_def)
qed

lemma window_count:
  assumes "window_covers ws t0 past (m key)" and "t0 \<le> t" and "0 < ws"
    and r: "sliding_window_allow m key limit ws t = (True, m1)"
  shows "int (length (in_window ws t (past @ [t]))) \<le> limit"
proof -
  have "length (in_window ws t past) \<le> length (filter (\<lambda>s. t - ws * second < s) (m key))"
    using assms(1,2) by (auto simp: window_covers_def)
  then show ?thesis
    using r assms(3) by (auto simp: sliding_window_allow_def Let_def in_window_def second_def)
qed

lemma allowed_bound_gen:
  assumes "window_covers ws t0 past (m key)" "sorted (t0 # ts)" "\<forall>s\<in>set past. s \<le> t0" "0 < ws" "0 \<le> limit"
    and "\<forall>t. int (length (in_window ws t past)) \<le> limit"
  shows "int (length (in_window ws u (past @ allowed_times key limit ws m ts))) \<le> limit"
  using assms
proof (induction ts arbitrary: m past t0)
  case Nil
  then show ?case by simp
next
  case (Cons t ts)
  obtain ok m1 where r: "sliding_window_allow m key limit ws t = (ok, m1)" by fastforce
  let ?past = "past @ (if ok then [t] else [])"
  have le: "t0 \<le> t" using Cons.prems(2) by simp
  have "window_covers ws t ?past (m1 key)"
    by (rule covers_step [where m = m and key = key, OF Cons.prems(1) le _ Cons.prems(3) r]) (use Cons.prems(4) in simp)
  moreover have "sorted (t # ts)" using Cons.prems(2) by simp
  moreover have "\<forall>s\<in>set ?past. s \<le> t" using Cons.prems(3) le by auto
  moreover have "int (length (in_window ws v ?past)) \<le> limit" for v
  proof (cases ok)
    case False
    then show ?thesis using Cons.prems(6) by simp
  next
    case True
    show ?thesis
    proof (cases "v < t")
      case True
      then have "in_window ws v ?past = in_window ws v past" by (auto simp: in_window_def)
      then show ?thesis using Cons.prems(6) by simp
    next
      case False
      have "int (length (in_window ws t (past @ [t]))) \<le> limit"
        by (rule window_count [where m = m and key = key, OF Cons.prems(1) le Cons.prems(4)]) (use r True in simp)
      moreover have "length (in_window ws v (past @ [t])) \<le> length (in_window ws t (past @ [t]))"
      proof -
        have "in_window ws v (past @ [t]) = in_window ws v (in_window ws t (past @ [t]))"
          unfolding in_window_def filter_filter by (rule filter_cong) (use False Cons.prems(3) le in auto)
        then show ?thesis by (metis in_window_def length_filter_le)
      qed
      ultimately show ?thesis using True by simp
    qed
  qed
  ultimately have "int (length (in_window ws u (?past @ allowed_times key limit ws m1 ts))) \<le> limit"
    using Cons.IH Cons.prems(4,5) by blast
  then show ?case using r by simp
qed

lemma allowed_bound:
  assumes "sorted ts" "0 < ws" "0 \<le> limit"
  shows "int (length (in_window ws u (allowed_times key limit ws m ts))) \<le> limit"
proof (cases ts)
  case Nil
  then show ?thesis using assms by (simp add: in_window_def)
next
  case (Cons t us)
  have "int (length (in_window ws u ([] @ allowed_times key limit ws m ts))) \<le> limit"
    by (rule allowed_bound_gen [of ws t]) (use assms Cons in \<open>auto simp: window_covers_def in_window_def\<close>)
  then show ?thesis by simp
qed

lemma ip_key_not_id_key [simp]: "ip_key scope ip \<noteq> id_key scope i" "id_key scope i \<noteq> ip_key scope ip"
  by (simp_all add: ip_key_def id_key_def)

lemma id_key_inj [simp]: "id_key scope i = id_key scope j \<longleftrightarrow> i = j"
  by (simp add: id_key_def)

section \<open>Addresses cannot be forged\<close>

lemma py_split_append: "py_split c (a @ c # b) = py_split c a @ py_split c b"
proof (induction a)
  case Nil
  then show ?case by simp
next
  case (Cons x a)
  have "py_split c a \<noteq> []" by (induction a) (auto split: list.splits)
  with Cons show ?case by (auto split: list.splits)
qed

lemma py_split_no_sep: "c \<notin> set a \<Longrightarrow> py_split c a = [a]"
  by (induction a) auto

lemma py_split_join: "list_all (\<lambda>x. c \<notin> set x) xs \<Longrightarrow> xs \<noteq> [] \<Longrightarrow> py_split c (py_join [c] xs) = xs"
  by (induction "[c]" xs rule: py_join.induct) (auto simp: py_split_append py_split_no_sep)

text \<open>
The client address cannot be forged. Behind \<open>n\<close> trusted proxies, each of which appends
the address it sees, the code takes the address the outermost of them has written, whatever
the client itself has put into the header before.
\<close>

theorem client_ip_not_forgeable:
  assumes "es \<noteq> []" and "hops = int (length es)"
    and "\<forall>e\<in>set es. CHR '','' \<notin> set e \<and> py_strip e \<noteq> []"
    and "header \<in> {py_join '','' es, forged @ CHR '','' # py_join '','' es}"
  shows "resolve_client_ip peer (Some header) hops = py_strip (hd es)"
proof -
  have "py_split (CHR '','') (py_join '','' es) = es"
    by (rule py_split_join) (use assms in \<open>auto simp: list_all_iff\<close>)
  then obtain xs where xs: "py_split (CHR '','') header = xs @ es"
    using assms(4) by (auto simp: py_split_append)
  have "filter (\<lambda>x. x \<noteq> []) (map py_strip es) = map py_strip es"
    using assms(3) by (simp add: filter_id_conv)
  then obtain ys where ys: "filter (\<lambda>x. x \<noteq> []) (map py_strip (py_split (CHR '','') header)) = ys @ map py_strip es"
    using xs by simp
  have "header \<noteq> []" using xs assms(1,3) by (cases xs) auto
  then show ?thesis
    using assms(1,2) by (simp add: resolve_client_ip_def ys Let_def truthy_def nth_append hd_map hd_conv_nth [symmetric])
qed

theorem client_ip_not_forgeable_witness:
  "resolve_client_ip (Some ''10.0.0.9'') (Some ''1.2.3.4, 5.6.7.8,203.0.113.7, 10.0.0.8'') 2 = ''203.0.113.7''"
proof -
  have "resolve_client_ip (Some ''10.0.0.9'')
      (Some (''1.2.3.4, 5.6.7.8'' @ CHR '','' # py_join '','' [''203.0.113.7'', '' 10.0.0.8''])) 2
    = py_strip (hd [''203.0.113.7'', '' 10.0.0.8''])"
    by (rule client_ip_not_forgeable) (simp, simp, code_simp, simp)
  moreover have "py_strip ''203.0.113.7'' = ''203.0.113.7''" by code_simp
  ultimately show ?thesis by simp
qed

end
