(* ===== verification/Auth_Service.thy ===== *)
theory Auth_Service
  imports Directory Rate_Limit
begin

text \<open>
  Logins, sessions and credentials: \<^verbatim>\<open>app/core/deps.py\<close>, \<^verbatim>\<open>app/routers/auth.py\<close>, the
  provisioning of \<^verbatim>\<open>app/services/ldap_auth.py\<close> and \<^verbatim>\<open>app/services/oauth_auth.py\<close>, and
  \<^verbatim>\<open>app/services/sms_auth.py\<close>. The state is the directory and the keys in Redis, each with
  the time it expires. The replies of the LDAP server and of the identity providers, random
  secrets, codes and salts, and whether Redis answers (\<open>up\<close>) are arguments. The cookies a
  login sets carry the tokens of its reply, so they are not a separate result.
\<close>

section \<open>State\<close>

type_synonym ('k, 'v) redis = "'k \<Rightarrow> ('v \<times> time) option"

record login_ticket =
  lt_sub :: int
  lt_username :: string
  lt_tenant_id :: int
  lt_provider :: string
  lt_totp_enabled :: bool

record 't auth_store =
  as_dir :: directory
  as_windows :: windows
  as_blacklist :: "('t, unit) redis"
  as_sms_codes :: "(string, string) redis"
  as_sms_cooldown :: "(string, unit) redis"
  as_sms_daily :: "(string, int) redis"
  as_oauth_states :: "(string, string) redis"
  as_login_codes :: "(string, login_ticket) redis"

definition redis_get :: "('k, 'v) redis \<Rightarrow> 'k \<Rightarrow> time \<Rightarrow> 'v option" where
  "redis_get m k now = (case m k of None \<Rightarrow> None | Some (v, e) \<Rightarrow> if now < e then Some v else None)"

definition redis_setex :: "('k, 'v) redis \<Rightarrow> 'k \<Rightarrow> int \<Rightarrow> 'v \<Rightarrow> time \<Rightarrow> ('k, 'v) redis" where
  "redis_setex m k ttl v now = m(k \<mapsto> (v, now + ttl * second))"

definition redis_down :: exc where
  "redis_down = RawException (EngineRaised ''redis'')"

definition http :: "int \<Rightarrow> string \<Rightarrow> exc" where
  "http code detail = app_exc (TextMsg detail) code"

type_synonym ('t, 'a) auth_outcome = "'a res \<times> 't auth_store"

section \<open>Sessions\<close>

definition load_user_context :: "'t auth_env \<Rightarrow> 't auth_store \<Rightarrow> bool \<Rightarrow> time \<Rightarrow> 't option \<Rightarrow> operator res" where
  "load_user_context env s up now token =
     (case token of
        None \<Rightarrow> Inl (http 401 ''credentials'')
      | Some t \<Rightarrow>
          (case ev_decode env now t of
             None \<Rightarrow> Inl (http 401 ''credentials'')
           | Some payload \<Rightarrow>
               (case cl_sub payload of
                  None \<Rightarrow> Inl (http 401 ''credentials'')
                | Some user_id \<Rightarrow>
                    raise_if (\<not> up) (http 503 ''authentication unavailable'')
                    (raise_if (redis_get (as_blacklist s) t now \<noteq> None) (http 401 ''credentials'')
                    (case get_account (as_dir s) user_id of
                       None \<Rightarrow> Inl (http 401 ''credentials'')
                     | Some a \<Rightarrow>
                         raise_if (\<not> ac_is_active a) (http 401 ''credentials'')
                         (raise_if (is_token_revoked_by_password_change (cl_iat payload) (Some (ac_password_changed_at a)))
                            (http 401 ''credentials'')
                         (raise_if (cl_requires_2fa payload \<and> \<not> cl_2fa_verified payload) (http 403 ''second factor'')
                         (Inr (context_of (as_dir s) a)))))))))"

text \<open>The bearer token of the header, or else the cookie.\<close>

definition current_user :: "'t auth_env \<Rightarrow> 't auth_store \<Rightarrow> bool \<Rightarrow> time \<Rightarrow> 't option \<Rightarrow> 't option \<Rightarrow> operator res" where
  "current_user env s up now header cookie =
     load_user_context env s up now (case header of None \<Rightarrow> cookie | Some t \<Rightarrow> Some t)"

definition current_superuser :: "operator res \<Rightarrow> operator res" where
  "current_superuser r = rbind r (\<lambda>u. raise_if (\<not> op_is_superuser u) (http 403 ''superuser'') (Inr u))"

definition authenticate_websocket :: "'t auth_env \<Rightarrow> 't auth_store \<Rightarrow> bool \<Rightarrow> time \<Rightarrow> 't option \<Rightarrow> 't option \<Rightarrow> operator option" where
  "authenticate_websocket env s up now cookie query_param =
     (case load_user_context env s up now (case cookie of None \<Rightarrow> query_param | Some t \<Rightarrow> Some t) of
        Inl _ \<Rightarrow> None | Inr u \<Rightarrow> Some u)"

section \<open>Issued tokens\<close>

record 't token_response =
  tr_access_token :: "'t option"
  tr_refresh_token :: "'t option"
  tr_password_change_required :: bool
  tr_password_change_token :: "'t option"
  tr_password_change_reasons :: "change_reason list"
  tr_requires_2fa :: bool
  tr_two_fa_token :: "'t option"

definition no_tokens :: "'t token_response" where
  "no_tokens = \<lparr> tr_access_token = None, tr_refresh_token = None, tr_password_change_required = False,
     tr_password_change_token = None, tr_password_change_reasons = [], tr_requires_2fa = False,
     tr_two_fa_token = None \<rparr>"

definition claims_for :: "int \<Rightarrow> string option \<Rightarrow> int \<Rightarrow> claims" where
  "claims_for uid name tenant = \<lparr> cl_sub = Some uid, cl_username = name, cl_tenant_id = Some tenant,
     cl_requires_2fa = False, cl_2fa_verified = False, cl_exp = 0, cl_iat = None, cl_type = [] \<rparr>"

definition build_auth_payload :: "account \<Rightarrow> claims" where
  "build_auth_payload a = claims_for (ac_id a) (Some (ac_username a)) (ac_tenant_id a)"

definition issue_login_tokens :: "'t auth_env \<Rightarrow> account \<Rightarrow> bool \<Rightarrow> time \<Rightarrow> 't token_response" where
  "issue_login_tokens env a verified now =
     no_tokens\<lparr>
       tr_access_token := Some (create_access_token env
         (if verified then (build_auth_payload a)\<lparr>cl_2fa_verified := True\<rparr> else build_auth_payload a) now),
       tr_refresh_token := Some (create_refresh_token env
         ((claims_for (ac_id a) None (ac_tenant_id a))\<lparr>cl_2fa_verified := verified\<rparr>) now)\<rparr>"

definition second_factor_reply :: "'t auth_env \<Rightarrow> claims \<Rightarrow> time \<Rightarrow> 't token_response" where
  "second_factor_reply env payload now =
     no_tokens\<lparr>tr_requires_2fa := True,
       tr_two_fa_token := Some (create_access_token env (payload\<lparr>cl_requires_2fa := True\<rparr>) now)\<rparr>"

definition login_reply :: "'t auth_env \<Rightarrow> account \<Rightarrow> time \<Rightarrow> 't token_response" where
  "login_reply env a now =
     (if ac_totp_enabled a then second_factor_reply env (build_auth_payload a) now
      else issue_login_tokens env a False now)"

section \<open>Login with a password\<close>

definition change_reasons_of :: "account \<Rightarrow> string \<Rightarrow> time \<Rightarrow> change_reason list" where
  "change_reasons_of a password now =
     get_login_password_change_reasons password (Some (ac_password_changed_at a))
       (ac_auth_type a = ''local'' \<and> is_initial_password_state (Some (ac_password_changed_at a)) (Some (ac_created_at a))) now"

definition login_checked :: "'t auth_env \<Rightarrow> directory \<Rightarrow> string \<Rightarrow> string \<Rightarrow> time \<Rightarrow> 't token_response res" where
  "login_checked env d username password now =
     rbind (get_by_username d username) (\<lambda>user.
       case user of
         None \<Rightarrow> Inl (http 401 ''bad login'')
       | Some a \<Rightarrow>
           raise_if (\<not> verify_password env password (ac_password a)) (http 401 ''bad login'')
           (raise_if (\<not> ac_is_active a) (http 403 ''disabled'')
           (let reasons = change_reasons_of a password now in
            if reasons \<noteq> [] then
              Inr (no_tokens\<lparr>tr_password_change_required := True,
                tr_password_change_token := Some (create_password_change_token env (build_auth_payload a) now),
                tr_password_change_reasons := reasons\<rparr>)
            else Inr (login_reply env a now))))"

definition login :: "'t auth_env \<Rightarrow> bool \<Rightarrow> time \<Rightarrow> string \<Rightarrow> string \<Rightarrow> string \<Rightarrow> 't auth_store \<Rightarrow> ('t, 't token_response) auth_outcome" where
  "login env up now ip username password s =
     (case enforce_auth_rate_limit up (as_windows s) ip username ''login'' 20 60 10 300 now of
        (Inl e, w) \<Rightarrow> (Inl e, s\<lparr>as_windows := w\<rparr>)
      | (Inr _, w) \<Rightarrow> (login_checked env (as_dir s) username password now, s\<lparr>as_windows := w\<rparr>))"

section \<open>External accounts\<close>

record ext_identity =
  xi_username :: string
  xi_email :: string
  xi_display_name :: string
  xi_external_id :: string
  xi_employee_id :: string
  xi_department :: string
  xi_title :: string

definition new_external_account :: "'t auth_env \<Rightarrow> directory \<Rightarrow> string \<Rightarrow> string \<Rightarrow> ext_identity \<Rightarrow> string \<Rightarrow> time \<Rightarrow> account" where
  "new_external_account env d auth_type placeholder x salt now =
     \<lparr> ac_id = di_next_id d, ac_username = xi_username x,
       ac_display_name = or_str (xi_display_name x) (xi_username x),
       ac_password = hash_password env salt placeholder, ac_email = xi_email x, ac_phone = [],
       ac_dingtalk_user_id = [], ac_feishu_open_id = [], ac_wecom_userid = [], ac_is_active = True,
       ac_is_superuser = False, ac_auth_type = auth_type, ac_external_id = xi_external_id x,
       ac_totp_secret = None, ac_totp_enabled = False, ac_role_id = None, ac_manager_id = None,
       ac_employee_id = xi_employee_id x, ac_department = xi_department x, ac_title = xi_title x,
       ac_password_changed_at = now, ac_tenant_id = 1, ac_created_at = now \<rparr>"

definition add_user :: "account \<Rightarrow> directory \<Rightarrow> directory" where
  "add_user a d = d\<lparr>di_users := di_users d @ [a], di_next_id := di_next_id d + 1\<rparr>"

text \<open>First by the external id, then by the user name.\<close>

definition find_external :: "directory \<Rightarrow> string \<Rightarrow> ext_identity \<Rightarrow> account option res" where
  "find_external d auth_type x =
     rbind (scalar_one_or_none (filter (\<lambda>a. ac_auth_type a = auth_type \<and> ac_external_id a = xi_external_id x) (di_users d)))
       (\<lambda>user. case user of Some a \<Rightarrow> Inr (Some a) | None \<Rightarrow> get_by_username d (xi_username x))"

definition update_external :: "string \<Rightarrow> ext_identity \<Rightarrow> account \<Rightarrow> account" where
  "update_external auth_type x a =
     a\<lparr>ac_auth_type := auth_type, ac_external_id := xi_external_id x,
       ac_display_name := or_str (xi_display_name x) (ac_display_name a),
       ac_email := or_str (xi_email x) (ac_email a),
       ac_employee_id := or_str (xi_employee_id x) (ac_employee_id a),
       ac_department := or_str (xi_department x) (ac_department a),
       ac_title := or_str (xi_title x) (ac_title a)\<rparr>"

definition provision_user ::
    "'t auth_env \<Rightarrow> string \<Rightarrow> string \<Rightarrow> ext_identity \<Rightarrow> string \<Rightarrow> time \<Rightarrow> directory \<Rightarrow> (account \<times> directory) res" where
  "provision_user env auth_type placeholder x salt now d =
     rbind (find_external d auth_type x) (\<lambda>user.
       case user of
         None \<Rightarrow> (let a = new_external_account env d auth_type placeholder x salt now in Inr (a, add_user a d))
       | Some a \<Rightarrow> (let a1 = update_external auth_type x a in Inr (a1, put_user a1 d)))"

definition provision_ldap_user :: "'t auth_env \<Rightarrow> ext_identity \<Rightarrow> string \<Rightarrow> time \<Rightarrow> directory \<Rightarrow> (account \<times> directory) res" where
  "provision_ldap_user env x salt now d =
     provision_user env ''ldap'' ''__ldap_no_local_password__'' x salt now d"

definition provision_oauth_user :: "'t auth_env \<Rightarrow> string \<Rightarrow> ext_identity \<Rightarrow> string \<Rightarrow> time \<Rightarrow> directory \<Rightarrow> (account \<times> directory) res" where
  "provision_oauth_user env provider x salt now d =
     provision_user env provider ''__oauth_no_local_password__''
       (x\<lparr>xi_employee_id := [], xi_department := [], xi_title := []\<rparr>) salt now d"

text \<open>\<open>ldap username password\<close>: the entry found and bound, or the text of the \<open>ValueError\<close>.\<close>

definition ldap_login ::
    "'t auth_env \<Rightarrow> (string \<Rightarrow> string \<Rightarrow> string + ext_identity) \<Rightarrow> bool \<Rightarrow> time \<Rightarrow> string \<Rightarrow> string \<Rightarrow> string \<Rightarrow> string
       \<Rightarrow> 't auth_store \<Rightarrow> ('t, 't token_response) auth_outcome" where
  "ldap_login env ldap up now ip username password salt s =
     (case enforce_auth_rate_limit up (as_windows s) ip username ''ldap'' 20 60 10 300 now of
        (Inl e, w) \<Rightarrow> (Inl e, s\<lparr>as_windows := w\<rparr>)
      | (Inr _, w) \<Rightarrow>
          (let s1 = s\<lparr>as_windows := w\<rparr> in
           case ldap username password of
             Inl detail \<Rightarrow> (Inl (http 401 detail), s1)
           | Inr x \<Rightarrow>
               (case provision_ldap_user env x salt now (as_dir s1) of
                  Inl e \<Rightarrow> (Inl e, s1)
                | Inr (a, d) \<Rightarrow>
                    (raise_if (\<not> ac_is_active a) (http 403 ''disabled'') (Inr (login_reply env a now)),
                     s1\<lparr>as_dir := d\<rparr>))))"

section \<open>Refresh and logout\<close>

text \<open>
  \<open>SET key 1 EX ttl NX\<close> consumes the refresh token before the account is looked at.
\<close>

definition refresh_token :: "'t auth_env \<Rightarrow> bool \<Rightarrow> time \<Rightarrow> 't option \<Rightarrow> 't option \<Rightarrow> 't auth_store \<Rightarrow> ('t, 't token_response) auth_outcome" where
  "refresh_token env up now body cookie s =
     (case (case body of None \<Rightarrow> cookie | Some t \<Rightarrow> Some t) of
        None \<Rightarrow> (Inl (http 401 ''refresh_token missing''), s)
      | Some t \<Rightarrow>
          (case ev_decode env now t of
             None \<Rightarrow> (Inl (http 401 ''refresh_token invalid''), s)
           | Some payload \<Rightarrow>
               if cl_type payload \<noteq> ''refresh'' then (Inl (http 401 ''token type''), s)
               else let ttl = cl_exp payload - seconds_of now in
                 if ttl \<le> 0 then (Inl (http 401 ''refresh_token invalid''), s)
                 else if \<not> up then (Inl redis_down, s)
                 else if redis_get (as_blacklist s) t now \<noteq> None then (Inl (http 401 ''refresh_token spent''), s)
                 else
                   (case cl_sub payload of
                      None \<Rightarrow> Inl (RawException PyTypeError)
                    | Some uid \<Rightarrow>
                        (case get_account (as_dir s) uid of
                           None \<Rightarrow> Inl (http 401 ''user'')
                         | Some a \<Rightarrow>
                             raise_if (\<not> ac_is_active a) (http 401 ''user'')
                             (raise_if (is_token_revoked_by_password_change (cl_iat payload) (Some (ac_password_changed_at a)))
                               (http 401 ''refresh_token spent'')
                               (Inr (issue_login_tokens env a (cl_2fa_verified payload) now)))),
                    s\<lparr>as_blacklist := redis_setex (as_blacklist s) t ttl () now\<rparr>)))"

text \<open>The remaining lifetime in seconds of a token that decodes.\<close>

definition token_ttl :: "'t auth_env \<Rightarrow> time \<Rightarrow> 't option \<Rightarrow> int option" where
  "token_ttl env now token =
     (case token of None \<Rightarrow> None
      | Some t \<Rightarrow>
          (case ev_decode env now t of None \<Rightarrow> None
           | Some payload \<Rightarrow>
               (let ttl = cl_exp payload - seconds_of now in if ttl > 0 then Some ttl else None)))"

definition revoke_token :: "'t auth_env \<Rightarrow> time \<Rightarrow> 't option \<Rightarrow> 't auth_store \<Rightarrow> 't auth_store" where
  "revoke_token env now token s =
     (case (token, token_ttl env now token) of
        (Some t, Some ttl) \<Rightarrow> s\<lparr>as_blacklist := redis_setex (as_blacklist s) t ttl () now\<rparr>
      | _ \<Rightarrow> s)"

definition logout :: "'t auth_env \<Rightarrow> bool \<Rightarrow> time \<Rightarrow> 't option \<Rightarrow> 't option \<Rightarrow> 't option \<Rightarrow> 't auth_store \<Rightarrow> ('t, unit) auth_outcome" where
  "logout env up now header access_cookie refresh_cookie s =
     (let access = (case header of None \<Rightarrow> access_cookie | Some t \<Rightarrow> Some t) in
      if \<not> up \<and> (token_ttl env now access \<noteq> None \<or> token_ttl env now refresh_cookie \<noteq> None) then (Inl redis_down, s)
      else (Inr (), revoke_token env now refresh_cookie (revoke_token env now access s)))"

section \<open>Second factor\<close>

definition check_totp :: "'t auth_env \<Rightarrow> time \<Rightarrow> string \<Rightarrow> string \<Rightarrow> unit res" where
  "check_totp env now stored code =
     (case ev_totp env (decrypt_field env stored) code now of
        None \<Rightarrow> Inl (RawException PyValueError)
      | Some ok \<Rightarrow> raise_if (\<not> ok) (http 400 ''TOTP code'') (Inr ()))"

definition setup_2fa :: "'t auth_env \<Rightarrow> int \<Rightarrow> string \<Rightarrow> directory \<Rightarrow> (string \<times> directory) res" where
  "setup_2fa env uid secret d =
     (case get_account d uid of
        None \<Rightarrow> Inl (http 404 ''user'')
      | Some a \<Rightarrow> Inr (secret, put_user (a\<lparr>ac_totp_secret := Some (encrypt_field env secret)\<rparr>) d))"

definition verify_2fa :: "'t auth_env \<Rightarrow> time \<Rightarrow> int \<Rightarrow> string \<Rightarrow> directory \<Rightarrow> (unit \<times> directory) res" where
  "verify_2fa env now uid code d =
     (case get_account d uid of
        None \<Rightarrow> Inl (http 400 ''setup first'')
      | Some a \<Rightarrow>
          raise_if (\<not> truthy (ac_totp_secret a)) (http 400 ''setup first'')
          (rbind (check_totp env now (the (ac_totp_secret a)) code) (\<lambda>_.
            Inr ((), put_user (a\<lparr>ac_totp_enabled := True\<rparr>) d))))"

definition disable_2fa :: "'t auth_env \<Rightarrow> time \<Rightarrow> int \<Rightarrow> string \<Rightarrow> directory \<Rightarrow> (unit \<times> directory) res" where
  "disable_2fa env now uid code d =
     (case get_account d uid of
        None \<Rightarrow> Inl (http 400 ''not enabled'')
      | Some a \<Rightarrow>
          raise_if (\<not> ac_totp_enabled a \<or> \<not> truthy (ac_totp_secret a)) (http 400 ''not enabled'')
          (rbind (check_totp env now (the (ac_totp_secret a)) code) (\<lambda>_.
            Inr ((), put_user (a\<lparr>ac_totp_enabled := False, ac_totp_secret := None\<rparr>) d))))"

definition second_factor_checked :: "'t auth_env \<Rightarrow> directory \<Rightarrow> int \<Rightarrow> string \<Rightarrow> time \<Rightarrow> 't token_response res" where
  "second_factor_checked env d uid code now =
     (case get_account d uid of
        None \<Rightarrow> Inl (http 401 ''user'')
      | Some a \<Rightarrow>
          raise_if (\<not> ac_is_active a) (http 401 ''user'')
          (raise_if (\<not> ac_totp_enabled a \<or> \<not> truthy (ac_totp_secret a)) (http 400 ''not enabled'')
          (rbind (check_totp env now (the (ac_totp_secret a)) code) (\<lambda>_. Inr (issue_login_tokens env a True now)))))"

definition verify_login_2fa ::
    "'t auth_env \<Rightarrow> bool \<Rightarrow> time \<Rightarrow> string \<Rightarrow> 't \<Rightarrow> string \<Rightarrow> 't auth_store \<Rightarrow> ('t, 't token_response) auth_outcome" where
  "verify_login_2fa env up now ip two_fa_token code s =
     (case ev_decode env now two_fa_token of
        None \<Rightarrow> (Inl (http 401 ''second factor token''), s)
      | Some payload \<Rightarrow>
          if cl_type payload \<noteq> ''access'' \<or> \<not> cl_requires_2fa payload then (Inl (http 401 ''second factor token''), s)
          else
            (case enforce_auth_rate_limit up (as_windows s) ip
                (case cl_sub payload of None \<Rightarrow> [] | Some uid \<Rightarrow> py_str_int uid) ''2fa'' 20 60 5 300 now of
               (Inl e, w) \<Rightarrow> (Inl e, s\<lparr>as_windows := w\<rparr>)
             | (Inr _, w) \<Rightarrow>
                 ((case cl_sub payload of
                     None \<Rightarrow> Inl (RawException PyTypeError)
                   | Some uid \<Rightarrow> second_factor_checked env (as_dir s) uid code now),
                  s\<lparr>as_windows := w\<rparr>)))"

section \<open>Passwords and profile\<close>

text \<open>The request schemas refuse a weak new password before the endpoint runs.\<close>

definition strong_request :: "string \<Rightarrow> 'a res \<Rightarrow> 'a res" where
  "strong_request new_password k =
     (case validate_password_strength new_password of Inl _ \<Rightarrow> Inl (http 422 ''weak password'') | Inr _ \<Rightarrow> k)"

definition change_password ::
    "'t auth_env \<Rightarrow> time \<Rightarrow> int \<Rightarrow> string \<Rightarrow> string \<Rightarrow> string \<Rightarrow> directory \<Rightarrow> (unit \<times> directory) res" where
  "change_password env now uid old_password new_password salt d =
     strong_request new_password
     (case get_account d uid of
        None \<Rightarrow> Inl (http 404 ''user'')
      | Some a \<Rightarrow>
          raise_if (\<not> verify_password env old_password (ac_password a)) (http 400 ''old password'')
          (raise_if (verify_password env new_password (ac_password a)) (http 400 ''same password'')
          (Inr ((), put_user (a\<lparr>ac_password := hash_password env salt new_password,
                             ac_password_changed_at := now\<rparr>) d))))"

definition force_change_password ::
    "'t auth_env \<Rightarrow> time \<Rightarrow> 't \<Rightarrow> string \<Rightarrow> string \<Rightarrow> directory \<Rightarrow> (unit \<times> directory) res" where
  "force_change_password env now token new_password salt d =
     strong_request new_password
     (case ev_decode env now token of
        None \<Rightarrow> Inl (http 401 ''password token'')
      | Some payload \<Rightarrow>
          raise_if (cl_type payload \<noteq> ''password_change'') (http 401 ''password token'')
          (case cl_sub payload of
             None \<Rightarrow> Inl (RawException PyTypeError)
           | Some uid \<Rightarrow>
               (case get_account d uid of
                  None \<Rightarrow> Inl (http 401 ''user'')
                | Some a \<Rightarrow>
                    raise_if (\<not> ac_is_active a) (http 401 ''user'')
                    (raise_if (verify_password env new_password (ac_password a)) (http 400 ''same password'')
                    (Inr ((), put_user (a\<lparr>ac_password := hash_password env salt new_password,
                       ac_password_changed_at := now + (INITIAL_PASSWORD_GRACE_SECONDS + 1) * second\<rparr>) d))))))"

definition update_me :: "int \<Rightarrow> string option \<Rightarrow> string option \<Rightarrow> directory \<Rightarrow> (unit \<times> directory) res" where
  "update_me uid display_name email d =
     (case get_account d uid of
        None \<Rightarrow> Inl (http 404 ''user'')
      | Some a \<Rightarrow>
          (let a1 = (case display_name of None \<Rightarrow> a
                     | Some n \<Rightarrow> a\<lparr>ac_display_name := or_str (py_strip n) (ac_username a)\<rparr>);
               a2 = (case email of None \<Rightarrow> a1 | Some e \<Rightarrow> a1\<lparr>ac_email := py_strip e\<rparr>)
           in Inr ((), put_user a2 d)))"

section \<open>Text messages\<close>

definition CODE_TTL_SECONDS :: int where "CODE_TTL_SECONDS = 300"

definition CODE_COOLDOWN_SECONDS :: int where "CODE_COOLDOWN_SECONDS = 60"

definition DAILY_LIMIT :: int where "DAILY_LIMIT = 10"

text \<open>
  \<open>enabled\<close> is the configured text of \<^verbatim>\<open>sms_enabled\<close>, \<open>code\<close> the random code and
  \<open>sent\<close> the reply of the provider.
\<close>

definition send_sms_code ::
    "bool \<Rightarrow> time \<Rightarrow> string \<Rightarrow> string \<Rightarrow> string \<Rightarrow> bool \<times> string \<Rightarrow> 't auth_store \<Rightarrow> ('t, bool \<times> string) auth_outcome" where
  "send_sms_code up now enabled phone code sent s =
     (if py_lower enabled \<noteq> ''true'' then (Inl (http 400 ''sms login disabled''), s)
      else if \<not> up then (Inl redis_down, s)
      else if redis_get (as_sms_cooldown s) phone now \<noteq> None then (Inl (http 429 ''try later''), s)
      else let daily = (case redis_get (as_sms_daily s) phone now of None \<Rightarrow> 0 | Some n \<Rightarrow> n) in
        if DAILY_LIMIT \<le> daily then (Inl (http 429 ''daily limit''), s)
        else (Inr sent,
              s\<lparr>as_sms_codes := redis_setex (as_sms_codes s) phone CODE_TTL_SECONDS code now,
                as_sms_cooldown := redis_setex (as_sms_cooldown s) phone CODE_COOLDOWN_SECONDS () now,
                as_sms_daily := redis_setex (as_sms_daily s) phone 86400 (daily + 1) now\<rparr>))"

definition verify_sms_code :: "time \<Rightarrow> string \<Rightarrow> string \<Rightarrow> 't auth_store \<Rightarrow> bool \<times> 't auth_store" where
  "verify_sms_code now phone code s =
     (case redis_get (as_sms_codes s) phone now of
        None \<Rightarrow> (False, s)
      | Some stored \<Rightarrow>
          if stored = [] \<or> stored \<noteq> code then (False, s)
          else (True, s\<lparr>as_sms_codes := (as_sms_codes s)(phone := None)\<rparr>))"

definition sms_account_reply :: "'t auth_env \<Rightarrow> directory \<Rightarrow> string \<Rightarrow> time \<Rightarrow> 't token_response res" where
  "sms_account_reply env d phone now =
     rbind (get_by_phone d phone) (\<lambda>user.
       case user of
         None \<Rightarrow> Inl (http 404 ''no account'')
       | Some a \<Rightarrow> raise_if (\<not> ac_is_active a) (http 403 ''disabled'') (Inr (login_reply env a now)))"

definition sms_login :: "'t auth_env \<Rightarrow> bool \<Rightarrow> time \<Rightarrow> string \<Rightarrow> string \<Rightarrow> string \<Rightarrow> 't auth_store \<Rightarrow> ('t, 't token_response) auth_outcome" where
  "sms_login env up now ip phone code s =
     (case enforce_auth_rate_limit up (as_windows s) ip phone ''sms'' 20 60 5 300 now of
        (Inl e, w) \<Rightarrow> (Inl e, s\<lparr>as_windows := w\<rparr>)
      | (Inr _, w) \<Rightarrow>
          (let s1 = s\<lparr>as_windows := w\<rparr> in
           if \<not> up then (Inl redis_down, s1)
           else case verify_sms_code now phone code s1 of
             (False, s2) \<Rightarrow> (Inl (http 401 ''code''), s2)
           | (True, s2) \<Rightarrow> (sms_account_reply env (as_dir s2) phone now, s2)))"

section \<open>Identity providers\<close>

definition SUPPORTED_PROVIDERS :: "string list" where
  "SUPPORTED_PROVIDERS = [''dingtalk'', ''feishu'', ''wecom'', ''cas'', ''oidc'']"

definition OAUTH_LOGIN_CODE_TTL_SECONDS :: int where "OAUTH_LOGIN_CODE_TTL_SECONDS = 120"

text \<open>\<open>url\<close>: the address the provider's configuration gives, or the text of the \<open>ValueError\<close>.\<close>

definition oauth_authorize :: "bool \<Rightarrow> time \<Rightarrow> string \<Rightarrow> string \<Rightarrow> string + string \<Rightarrow> 't auth_store \<Rightarrow> ('t, string \<times> string) auth_outcome" where
  "oauth_authorize up now provider state url s =
     (if provider \<notin> set SUPPORTED_PROVIDERS then (Inl (http 404 provider), s)
      else if \<not> up then (Inl redis_down, s)
      else ((case url of Inl detail \<Rightarrow> Inl (http 400 detail) | Inr u \<Rightarrow> Inr (u, state)),
            s\<lparr>as_oauth_states := redis_setex (as_oauth_states s) state 300 provider now\<rparr>))"

text \<open>Where the browser is sent: the login page with an error, or the page that exchanges the code.\<close>

datatype redirect = LoginError string | LoginCode string string

text \<open>
  \<open>idp provider code\<close>: what the handler of the provider makes of its replies, or \<open>None\<close> when
  it raises; \<open>login_code\<close> is the fresh random code.
\<close>

definition oauth_callback ::
    "'t auth_env \<Rightarrow> (string \<Rightarrow> string \<Rightarrow> ext_identity option) \<Rightarrow> bool \<Rightarrow> time \<Rightarrow> string \<Rightarrow> string option \<Rightarrow> string option
       \<Rightarrow> string option \<Rightarrow> string option \<Rightarrow> string \<Rightarrow> string \<Rightarrow> 't auth_store \<Rightarrow> ('t, redirect) auth_outcome" where
  "oauth_callback env idp up now provider code ticket state error login_code salt s =
     (if truthy error then (Inr (LoginError ''cancelled''), s)
      else let auth_code = or_opt code (or_opt ticket []) in
      if auth_code = [] \<or> \<not> truthy state then (Inr (LoginError ''parameters''), s)
      else if \<not> up then (Inl redis_down, s)
      else if redis_get (as_oauth_states s) (the state) now \<noteq> Some provider then (Inr (LoginError ''state''), s)
      else let s1 = s\<lparr>as_oauth_states := (as_oauth_states s)(the state := None)\<rparr> in
        case idp provider auth_code of
          None \<Rightarrow> (Inr (LoginError ''failed''), s1)
        | Some x \<Rightarrow>
            if provider \<notin> set SUPPORTED_PROVIDERS then (Inr (LoginError ''failed''), s1)
            else (case provision_oauth_user env provider x salt now (as_dir s1) of
              Inl e \<Rightarrow> (Inr (LoginError ''failed''), s1)
            | Inr (a, d) \<Rightarrow>
                if \<not> ac_is_active a then (Inr (LoginError ''disabled''), s1\<lparr>as_dir := d\<rparr>)
                else (Inr (LoginCode login_code provider),
                  s1\<lparr>as_dir := d,
                    as_login_codes := redis_setex (as_login_codes s1) login_code OAUTH_LOGIN_CODE_TTL_SECONDS
                      \<lparr> lt_sub = ac_id a, lt_username = ac_username a, lt_tenant_id = ac_tenant_id a,
                        lt_provider = provider, lt_totp_enabled = ac_totp_enabled a \<rparr> now\<rparr>)))"

text \<open>\<open>GETDEL\<close>; a tenant of zero counts as one.\<close>

definition exchange_oauth_login_code :: "'t auth_env \<Rightarrow> bool \<Rightarrow> time \<Rightarrow> string \<Rightarrow> 't auth_store \<Rightarrow> ('t, 't token_response) auth_outcome" where
  "exchange_oauth_login_code env up now login_code s =
     (if length login_code < 16 \<or> 128 < length login_code then (Inl (http 422 ''login_code''), s)
      else if \<not> up then (Inl redis_down, s)
      else
        ((case redis_get (as_login_codes s) login_code now of
            None \<Rightarrow> Inl (http 401 ''login code'')
          | Some tk \<Rightarrow>
              raise_if (lt_username tk = []) (http 401 ''login code'')
              (let tenant = (if lt_tenant_id tk = 0 then 1 else lt_tenant_id tk);
                   payload = claims_for (lt_sub tk) (Some (lt_username tk)) tenant
               in if lt_totp_enabled tk then Inr (second_factor_reply env payload now)
                  else Inr (no_tokens\<lparr>
                    tr_access_token := Some (create_access_token env payload now),
                    tr_refresh_token := Some (create_refresh_token env (claims_for (lt_sub tk) None tenant) now)\<rparr>))),
         s\<lparr>as_login_codes := (as_login_codes s)(login_code := None)\<rparr>))"

section \<open>Requests\<close>

text \<open>
  One request to the authentication endpoints. The endpoints that need a session get the
  bearer token. \<open>AdminEdit\<close> stands for every other transaction on the directory.
\<close>

datatype 't request =
    Login string string string
  | LdapLogin string string string string
  | SmsSend string string string "bool \<times> string"
  | SmsLogin string string string
  | Refresh "'t option" "'t option"
  | Logout "'t option" "'t option" "'t option"
  | Setup2fa "'t option" string
  | Verify2fa "'t option" string
  | Disable2fa "'t option" string
  | LoginVerify2fa string 't string
  | ChangePassword "'t option" string string string
  | ForceChange 't string string
  | UpdateMe "'t option" "string option" "string option"
  | OauthAuthorize string string "string + string"
  | OauthCallback string "string option" "string option" "string option" "string option" string string
  | OauthExchange string
  | AdminEdit "directory \<Rightarrow> directory"

type_synonym ext_services = "(string \<Rightarrow> string \<Rightarrow> string + ext_identity) \<times> (string \<Rightarrow> string \<Rightarrow> ext_identity option)"

text \<open>A transaction on the directory in the name of the session's user.\<close>

definition as_user ::
    "'t auth_env \<Rightarrow> bool \<Rightarrow> time \<Rightarrow> 't option \<Rightarrow> (int \<Rightarrow> directory \<Rightarrow> ('a \<times> directory) res) \<Rightarrow> 't auth_store \<Rightarrow> 't auth_store" where
  "as_user env up now bearer f s =
     (case rbind (load_user_context env s up now bearer) (\<lambda>u. f (op_id u) (as_dir s)) of
        Inl _ \<Rightarrow> s | Inr (_, d) \<Rightarrow> s\<lparr>as_dir := d\<rparr>)"

fun auth_step :: "'t auth_env \<Rightarrow> ext_services \<Rightarrow> bool \<Rightarrow> time \<Rightarrow> 't request \<Rightarrow> 't auth_store \<Rightarrow> 't auth_store" where
  "auth_step env x up now (Login ip u p) s = snd (login env up now ip u p s)"
| "auth_step env x up now (LdapLogin ip u p salt) s = snd (ldap_login env (fst x) up now ip u p salt s)"
| "auth_step env x up now (SmsSend enabled phone code sent) s = snd (send_sms_code up now enabled phone code sent s)"
| "auth_step env x up now (SmsLogin ip phone code) s = snd (sms_login env up now ip phone code s)"
| "auth_step env x up now (Refresh body cookie) s = snd (refresh_token env up now body cookie s)"
| "auth_step env x up now (Logout h a r) s = snd (logout env up now h a r s)"
| "auth_step env x up now (Setup2fa b secret) s = as_user env up now b (\<lambda>i. setup_2fa env i secret) s"
| "auth_step env x up now (Verify2fa b code) s = as_user env up now b (\<lambda>i. verify_2fa env now i code) s"
| "auth_step env x up now (Disable2fa b code) s = as_user env up now b (\<lambda>i. disable_2fa env now i code) s"
| "auth_step env x up now (LoginVerify2fa ip t code) s = snd (verify_login_2fa env up now ip t code s)"
| "auth_step env x up now (ChangePassword b p q salt) s = as_user env up now b (\<lambda>i. change_password env now i p q salt) s"
| "auth_step env x up now (ForceChange t q salt) s =
     (case force_change_password env now t q salt (as_dir s) of Inl _ \<Rightarrow> s | Inr (_, d) \<Rightarrow> s\<lparr>as_dir := d\<rparr>)"
| "auth_step env x up now (UpdateMe b n e) s = as_user env up now b (\<lambda>i. update_me i n e) s"
| "auth_step env x up now (OauthAuthorize pr st url) s = snd (oauth_authorize up now pr st url s)"
| "auth_step env x up now (OauthCallback pr c tk st er lc salt) s =
     snd (oauth_callback env (snd x) up now pr c tk st er lc salt s)"
| "auth_step env x up now (OauthExchange lc) s = snd (exchange_oauth_login_code env up now lc s)"
| "auth_step env x up now (AdminEdit f) s = s\<lparr>as_dir := f (as_dir s)\<rparr>"

text \<open>A run: requests at their times, Redis answering or not.\<close>

fun auth_run :: "'t auth_env \<Rightarrow> ext_services \<Rightarrow> (bool \<times> time \<times> 't request) list \<Rightarrow> 't auth_store \<Rightarrow> 't auth_store" where
  "auth_run env x [] s = s"
| "auth_run env x ((up, now, r) # rs) s = auth_run env x rs (auth_step env x up now r s)"

end
