(* ===== verification/Auth_Sample.thy ===== *)
theory Auth_Sample
  imports Auth_Service
begin

text \<open>
  A concrete environment and a small directory on which the theorems of the authentication
  are applied: a token is its payload, a hash is the password, a one-time code is its secret.
\<close>

definition sample_env :: "claims auth_env" where
  "sample_env = \<lparr>
     ev_encode = (\<lambda>c. c), ev_decode = (\<lambda>now c. if claims_live now c then Some c else None),
     ev_digest = (\<lambda>p. p), ev_hashpw = (\<lambda>salt p. p), ev_checkpw = (\<lambda>p h. Some (p = h)),
     ev_encrypt = (\<lambda>k v. CHR ''#'' # k @ v),
     ev_decrypt = (\<lambda>k w. if take (length k + 1) w = CHR ''#'' # k then Some (drop (length k + 1) w) else None),
     ev_derive_key = (\<lambda>s. ''derived''), ev_totp = (\<lambda>secret code now. Some (secret = code)),
     ev_secret_key = ''secret'', ev_fernet_key = [], ev_access_minutes = 60, ev_refresh_days = 7,
     ev_tenant_id = 1 \<rparr>"

definition sample_account :: "int \<Rightarrow> string \<Rightarrow> string \<Rightarrow> account" where
  "sample_account i n p = \<lparr> ac_id = i, ac_username = n, ac_display_name = n, ac_password = p, ac_email = [],
     ac_phone = ''138000'', ac_dingtalk_user_id = [], ac_feishu_open_id = [], ac_wecom_userid = [],
     ac_is_active = True, ac_is_superuser = False, ac_auth_type = ''local'', ac_external_id = [],
     ac_totp_secret = None, ac_totp_enabled = False, ac_role_id = Some 4, ac_manager_id = None,
     ac_employee_id = [], ac_department = [], ac_title = [], ac_password_changed_at = 20 * one_day,
     ac_tenant_id = 1, ac_created_at = one_day \<rparr>"

text \<open>\<open>alice\<close> has a second factor, \<open>bob\<close> a weak password.\<close>

definition sample_alice :: account where
  "sample_alice = (sample_account 1 ''alice'' ''Secret#2024'')
     \<lparr>ac_totp_enabled := True, ac_totp_secret := Some ''#derived123456''\<rparr>"

definition sample_bob :: account where
  "sample_bob = (sample_account 2 ''bob'' ''weak'')\<lparr>ac_totp_enabled := True, ac_totp_secret := Some ''#derived999999'',
     ac_phone := ''139000''\<rparr>"

definition sample_carol :: account where
  "sample_carol = (sample_account 3 ''carol'' ''Carol#2024'')\<lparr>ac_phone := ''137000''\<rparr>"

definition sample_dir :: directory where
  "sample_dir = \<lparr> di_users = [sample_alice, sample_bob, sample_carol],
     di_roles = [\<lparr> ro_id = 4, ro_name = ''developer'', ro_name_cn = [], ro_description = [], ro_is_system = True, ro_is_active = True \<rparr>],
     di_permissions = [\<lparr> pe_id = 5, pe_codename = ''sql_submit'', pe_name = [] \<rparr>],
     di_groups = [\<lparr> gp_id = 6, gp_name = ''dev'', gp_name_cn = [], gp_description = [], gp_leader_id = None,
       gp_parent_id = None, gp_is_active = True \<rparr>],
     di_rgroups = [\<lparr> rr_id = 7, rr_group_name = ''prod'', rr_group_name_cn = [], rr_is_active = True \<rparr>],
     di_instances = [(8, True)], di_role_permission = [(4, 5)], di_user_group_member = [(1, 6)],
     di_group_resource_group = [(6, 7)], di_instance_resource_group = [(8, 7)], di_next_id = 9 \<rparr>"

definition sample_auth :: "directory \<Rightarrow> claims auth_store" where
  "sample_auth d = \<lparr> as_dir = d, as_windows = (\<lambda>_. []), as_blacklist = (\<lambda>_. None), as_sms_codes = (\<lambda>_. None),
     as_sms_cooldown = (\<lambda>_. None), as_sms_daily = (\<lambda>_. None), as_oauth_states = (\<lambda>_. None),
     as_login_codes = (\<lambda>_. None) \<rparr>"

text \<open>Claims of a token of the user \<open>uid\<close>, issued at the second \<open>iat\<close>.\<close>

definition sample_token :: "int \<Rightarrow> int \<Rightarrow> string \<Rightarrow> claims" where
  "sample_token uid iat ty = \<lparr> cl_sub = Some uid, cl_username = None, cl_tenant_id = Some 1, cl_requires_2fa = False,
     cl_2fa_verified = True, cl_exp = iat + 3600, cl_iat = Some iat, cl_type = ty \<rparr>"

lemmas sample_auth_defs = sample_env_def sample_account_def sample_alice_def sample_bob_def sample_carol_def
  sample_dir_def sample_auth_def sample_token_def

lemma sample_jwt_laws: "jwt_laws sample_env"
  by (auto simp: jwt_laws_def sample_env_def)

lemma sample_bcrypt_law: "bcrypt_law sample_env"
  by (simp add: bcrypt_law_def sample_env_def)

lemma sample_fernet_laws: "fernet_laws (sample_env\<lparr>ev_fernet_key := ''fernet1''\<rparr>)" "fernet_laws sample_env"
  by (auto simp: fernet_laws_def sample_env_def)

lemma sample_directory_wf: "directory_wf sample_dir"
  by code_simp

lemma sample_users_wf: "users_wf sample_dir"
  using sample_directory_wf by (simp add: directory_wf_def)

end
