(* ===== verification/Auth_Facts.thy ===== *)
theory Auth_Facts
  imports Auth_Sample
begin

text \<open>
  What the authentication promises over whole runs of requests: spent tokens and changed
  passwords end sessions, the windows bound the guesses, the second factor is asked for; and
  the ways around these promises that the code leaves open.
\<close>

section \<open>Edits of the directory\<close>

text \<open>
  What a request other than \<open>AdminEdit\<close> does to the directory: nothing, a new version of one
  account whose password date stays or moves to \<open>now\<close> or later, or one new account.
\<close>

inductive account_edit :: "time \<Rightarrow> directory \<Rightarrow> directory \<Rightarrow> bool" for now where
  edit_none [simp, intro]: "account_edit now d d"
| edit_put: "get_account d (ac_id b) = Some a \<Longrightarrow> ac_username b = ac_username a \<Longrightarrow>
    ac_password_changed_at b = ac_password_changed_at a \<or> now \<le> ac_password_changed_at b \<Longrightarrow>
    account_edit now d (put_user b d)"
| edit_add: "ac_id a = di_next_id d \<Longrightarrow> ac_username a \<notin> ac_username ` set (di_users d) \<Longrightarrow>
    account_edit now d (add_user a d)"

lemma account_edit_put:
  "get_account d i = Some a \<Longrightarrow> ac_id b = i \<Longrightarrow> ac_username b = ac_username a \<Longrightarrow>
     ac_password_changed_at b = ac_password_changed_at a \<or> now \<le> ac_password_changed_at b \<Longrightarrow>
     account_edit now d (put_user b d)"
  by (auto intro: edit_put)

lemma get_account_id: "get_account d i = Some a \<Longrightarrow> ac_id a = i"
  by (auto simp: get_account_def dest: row_get_key)

lemma get_put_user:
  "get_account (put_user b d) i = (if i = ac_id b then map_option (\<lambda>_. b) (get_account d i) else get_account d i)"
  by (simp add: get_account_def put_user_def row_get_put)

lemma get_add_user: "get_account d i = Some a \<Longrightarrow> get_account (add_user b d) i = Some a"
  by (simp add: get_account_def add_user_def row_get_append)

lemma map_username_put:
  assumes "get_account d (ac_id b) = Some a" "distinct (user_ids d)" "ac_username b = ac_username a"
  shows "map ac_username (di_users (put_user b d)) = map ac_username (di_users d)"
proof -
  have "x \<in> set (di_users d) \<Longrightarrow> ac_id x = ac_id b \<Longrightarrow> x = a" for x
    using assms(1,2) by (metis get_account_def option.inject row_get_distinct)
  then show ?thesis using assms(3) by (auto simp: put_user_def row_put_def)
qed

lemma users_wf_put:
  "users_wf d \<Longrightarrow> get_account d (ac_id b) = Some a \<Longrightarrow> ac_username b = ac_username a \<Longrightarrow> users_wf (put_user b d)"
  using map_username_put [of d b a]
  by (simp add: users_wf_def keys_wf_def put_user_def map_key_row_put)

lemma users_wf_add:
  "users_wf d \<Longrightarrow> ac_id a = di_next_id d \<Longrightarrow> 0 < di_next_id d \<Longrightarrow> ac_username a \<notin> ac_username ` set (di_users d) \<Longrightarrow>
     users_wf (add_user a d)"
  by (auto simp: users_wf_def add_user_def intro: keys_wf_append)

lemma put_user_keeps [simp]:
  "di_next_id (put_user b d) = di_next_id d" "di_roles (put_user b d) = di_roles d"
  by (simp_all add: put_user_def)

lemma add_user_next [simp]: "di_next_id (add_user a d) = di_next_id d + 1"
  by (simp add: add_user_def)

lemma account_edit_wf:
  "account_edit now d d' \<Longrightarrow> users_wf d \<Longrightarrow> 0 < di_next_id d \<Longrightarrow> users_wf d' \<and> 0 < di_next_id d'"
  by (induction rule: account_edit.induct) (auto intro: users_wf_put users_wf_add)

text \<open>An account whose password was changed at \<open>t\<close> or later.\<close>

definition changed_since :: "time \<Rightarrow> int \<Rightarrow> directory \<Rightarrow> bool" where
  "changed_since t uid d \<longleftrightarrow> (\<exists>a. get_account d uid = Some a \<and> t \<le> ac_password_changed_at a)"

lemma account_edit_changed:
  "account_edit now d d' \<Longrightarrow> t \<le> now \<Longrightarrow> changed_since t uid d \<Longrightarrow> changed_since t uid d'"
  by (induction rule: account_edit.induct) (auto simp: changed_since_def get_put_user get_add_user)

lemma scalar_member: "scalar_one_or_none xs = Inr (Some a) \<Longrightarrow> a \<in> set xs"
  by (simp add: scalar_Some_iff)

lemma find_external_member: "find_external d ty x = Inr (Some a) \<Longrightarrow> a \<in> set (di_users d)"
  by (auto simp: find_external_def get_by_username_def res_simps split: option.splits dest!: scalar_member)

lemma find_external_None:
  "users_wf d \<Longrightarrow> find_external d ty x = Inr None \<Longrightarrow> xi_username x \<notin> ac_username ` set (di_users d)"
  by (auto simp: find_external_def res_simps get_by_username_iff split: option.splits)

lemma update_external_fields [simp]:
  "ac_id (update_external ty x a) = ac_id a" "ac_username (update_external ty x a) = ac_username a"
  "ac_password_changed_at (update_external ty x a) = ac_password_changed_at a"
  "ac_is_superuser (update_external ty x a) = ac_is_superuser a"
  "ac_is_active (update_external ty x a) = ac_is_active a"
  "ac_totp_enabled (update_external ty x a) = ac_totp_enabled a"
  by (simp_all add: update_external_def)

lemma provision_edit:
  assumes "users_wf d" "provision_user env ty ph x salt now d = Inr (a, d')"
  shows "account_edit now d d'"
proof -
  obtain u where u: "find_external d ty x = Inr u"
    using assms(2) by (auto simp: provision_user_def res_simps)
  show ?thesis
  proof (cases u)
    case None
    then have "xi_username x \<notin> ac_username ` set (di_users d)" using u find_external_None assms(1) by blast
    then show ?thesis using assms(2) u None
      by (auto simp: provision_user_def Let_def new_external_account_def intro!: edit_add)
  next
    case (Some b)
    then have "get_account d (ac_id b) = Some b"
      using u find_external_member get_account_iff assms(1) by blast
    then have "account_edit now d (put_user (update_external ty x b) d)"
      by (rule account_edit_put) simp_all
    then show ?thesis using assms(2) u Some by (auto simp: provision_user_def Let_def)
  qed
qed

lemma strong_request_Inr: "strong_request q k = Inr y \<longleftrightarrow> get_password_policy_violations q = [] \<and> k = Inr y"
  by (auto simp: strong_request_def validate_password_strength_def Let_def raise_if_def)

lemma user_op_edits:
  "setup_2fa env i secret d = Inr (r1, d') \<Longrightarrow> account_edit now d d'"
  "verify_2fa env now' i code d = Inr (r2, d') \<Longrightarrow> account_edit now d d'"
  "disable_2fa env now' i code d = Inr (r3, d') \<Longrightarrow> account_edit now d d'"
  "change_password env now i p q salt d = Inr (r4, d') \<Longrightarrow> account_edit now d d'"
  "force_change_password env now t q salt d = Inr (r5, d') \<Longrightarrow> account_edit now d d'"
  "update_me i n e d = Inr (r6, d') \<Longrightarrow> account_edit now d d'"
  unfolding setup_2fa_def verify_2fa_def disable_2fa_def change_password_def force_change_password_def update_me_def
  by (auto simp: res_simps strong_request_Inr Let_def clock_defs split: option.splits
      intro!: account_edit_put dest: get_account_id)

fun is_admin_edit :: "'t request \<Rightarrow> bool" where
  "is_admin_edit (AdminEdit f) = True"
| "is_admin_edit _ = False"

lemma as_user_edit:
  "(\<And>i d r d'. f i d = Inr (r, d') \<Longrightarrow> account_edit now d d') \<Longrightarrow>
     account_edit now (as_dir s) (as_dir (as_user env up now b f s))"
  by (auto simp: as_user_def rbind_Inr_iff split: sum.splits prod.splits)

lemma revoke_token_dir [simp]: "as_dir (revoke_token env now t s) = as_dir s"
  by (simp add: revoke_token_def split: option.splits prod.splits)

lemma step_edit:
  assumes wf: "users_wf (as_dir s)" and na: "\<not> is_admin_edit r"
  shows "account_edit now (as_dir s) (as_dir (auth_step env x up now r s))"
proof (cases r)
  case (LdapLogin ip u p salt)
  then show ?thesis
    using provision_edit [OF wf] wf
    by (auto simp: ldap_login_def provision_ldap_user_def Let_def split: prod.splits sum.splits)
next
  case (OauthCallback pr c tk st er lc salt)
  then show ?thesis
    using provision_edit [OF wf]
    by (auto simp: oauth_callback_def provision_oauth_user_def Let_def split: prod.splits sum.splits option.splits)
next
  case (Setup2fa b secret)
  then show ?thesis by simp (rule as_user_edit, erule user_op_edits)
next
  case (Verify2fa b code)
  then show ?thesis by simp (rule as_user_edit, erule user_op_edits)
next
  case (Disable2fa b code)
  then show ?thesis by simp (rule as_user_edit, erule user_op_edits)
next
  case (ChangePassword b p q salt)
  then show ?thesis by simp (rule as_user_edit, erule user_op_edits)
next
  case (UpdateMe b n e)
  then show ?thesis by simp (rule as_user_edit, erule user_op_edits)
next
  case (ForceChange t q salt)
  then show ?thesis by (auto split: sum.splits dest: user_op_edits)
next
  case (Refresh body cookie)
  then show ?thesis by (auto simp: refresh_token_def Let_def split: option.splits)
qed (use na in \<open>auto simp: login_def send_sms_code_def sms_login_def verify_sms_code_def logout_def verify_login_2fa_def
      oauth_authorize_def exchange_oauth_login_code_def Let_def
      split: prod.splits sum.splits option.splits bool.splits\<close>)

section \<open>Spent tokens\<close>

text \<open>A token is spent when its entry in the blacklist lives as long as the token itself.\<close>

definition spent :: "'t auth_env \<Rightarrow> 't \<Rightarrow> 't auth_store \<Rightarrow> bool" where
  "spent env t s \<longleftrightarrow>
     (\<exists>c e. as_blacklist s t = Some ((), e) \<and> cl_exp c * second \<le> e
        \<and> (\<forall>now c'. ev_decode env now t = Some c' \<longrightarrow> c' = c))"

lemma ttl_reaches_exp: "cl_exp c * second \<le> now + (cl_exp c - seconds_of now) * second"
  using seconds_of_le [of now] by (simp add: algebra_simps)

lemma decode_ttl: "jwt_laws env \<Longrightarrow> ev_decode env now t = Some c \<Longrightarrow> seconds_of now < cl_exp c"
  using decode_live [of env now t c] seconds_of_le [of now] by (auto simp: claims_live_def second_def)

lemma spent_setex:
  assumes "jwt_laws env" "ev_decode env now t = Some c"
    and "as_blacklist s = redis_setex m t (cl_exp c - seconds_of now) () now"
  shows "spent env t s"
proof -
  have "as_blacklist s t = Some ((), now + (cl_exp c - seconds_of now) * second)"
    using assms(3) by (simp add: redis_setex_def)
  moreover have "\<forall>n c'. ev_decode env n t = Some c' \<longrightarrow> c' = c"
    using decode_later [OF assms(1,2)] by blast
  ultimately show ?thesis unfolding spent_def using ttl_reaches_exp [of c now] by blast
qed

lemma spent_blocks:
  assumes "jwt_laws env" "spent env t s" "ev_decode env now t = Some c"
  shows "redis_get (as_blacklist s) t now = Some ()"
proof -
  obtain c1 e where e: "as_blacklist s t = Some ((), e)" "cl_exp c1 * second \<le> e" and "c = c1"
    using assms(2,3) by (auto simp: spent_def)
  moreover have "now < cl_exp c * second" using decode_live [OF assms(1,3)] by (simp add: claims_live_def)
  ultimately show ?thesis by (simp add: redis_get_def)
qed

lemma spent_refuses_session: "jwt_laws env \<Longrightarrow> spent env t s \<Longrightarrow> load_user_context env s up now (Some t) \<noteq> Inr u"
  by (auto simp: load_user_context_def raise_if_def spent_blocks split: option.splits)

lemma spent_refuses_refresh:
  "jwt_laws env \<Longrightarrow> spent env t s \<Longrightarrow> fst (refresh_token env up now (Some t) ck s) \<noteq> Inr tr"
  by (auto simp: refresh_token_def Let_def spent_blocks split: option.splits)

lemma spent_only_blacklist: "as_blacklist s' = as_blacklist s \<Longrightarrow> spent env t s' \<longleftrightarrow> spent env t s"
  by (simp add: spent_def)

lemma spent_setex_keeps:
  assumes "jwt_laws env" "spent env t s" "ev_decode env now t' = Some c"
    and "as_blacklist s' = redis_setex (as_blacklist s) t' (cl_exp c - seconds_of now) () now"
  shows "spent env t s'"
proof (cases "t' = t")
  case True
  show ?thesis by (rule spent_setex [OF assms(1)]) (use assms(3,4) True in simp_all)
next
  case False
  then show ?thesis using assms(2,4) by (simp add: spent_def redis_setex_def)
qed

lemma revoke_token_spent:
  assumes "jwt_laws env" "ev_decode env now t = Some c"
  shows "spent env t (revoke_token env now (Some t) s)"
  by (rule spent_setex [OF assms, of _ "as_blacklist s"])
     (use decode_ttl [OF assms] assms(2) in \<open>simp add: revoke_token_def token_ttl_def Let_def\<close>)

lemma revoke_token_keeps:
  assumes "jwt_laws env" "spent env t s"
  shows "spent env t (revoke_token env now tok s)"
proof (cases "token_ttl env now tok")
  case None
  then show ?thesis using assms(2) by (simp add: revoke_token_def split: option.splits)
next
  case (Some ttl)
  then obtain t' c where tc: "tok = Some t'" "ev_decode env now t' = Some c" "ttl = cl_exp c - seconds_of now"
    by (auto simp: token_ttl_def Let_def split: option.splits if_splits)
  show ?thesis by (rule spent_setex_keeps [OF assms tc(2)]) (use Some tc in \<open>simp add: revoke_token_def\<close>)
qed

lemma as_user_blacklist [simp]: "as_blacklist (as_user env up now b f s) = as_blacklist s"
  by (simp add: as_user_def split: sum.splits prod.splits)

lemma step_spent:
  assumes "jwt_laws env" "spent env t s"
  shows "spent env t (auth_step env x up now r s)"
proof (cases r)
  case (Logout h a ck)
  then show ?thesis using assms by (simp add: logout_def Let_def revoke_token_keeps)
next
  case (Refresh body ck)
  then show ?thesis
    using assms spent_setex_keeps [OF assms, of now]
    by (auto simp: refresh_token_def Let_def split: option.splits)
next
  case (OauthCallback pr c tk st er lc salt)
  then show ?thesis
    using assms by (auto simp: oauth_callback_def Let_def spent_def split: prod.splits sum.splits option.splits)
qed (use assms in \<open>auto simp: login_def ldap_login_def send_sms_code_def sms_login_def verify_sms_code_def verify_login_2fa_def
      oauth_authorize_def exchange_oauth_login_code_def Let_def spent_only_blacklist spent_def
      split: prod.splits sum.splits option.splits bool.splits\<close>)

lemma run_spent: "jwt_laws env \<Longrightarrow> spent env t s \<Longrightarrow> spent env t (auth_run env x rs s)"
  by (induction env x rs s rule: auth_run.induct) (simp_all add: step_spent)



section \<open>Password changes\<close>

lemma run_changed:
  assumes "\<forall>(up, n, r)\<in>set rs. t \<le> n \<and> \<not> is_admin_edit r" "users_wf (as_dir s)" "0 < di_next_id (as_dir s)"
    and "changed_since t uid (as_dir s)"
  shows "changed_since t uid (as_dir (auth_run env x rs s))"
  using assms
proof (induction env x rs s rule: auth_run.induct)
  case (1 env x s)
  then show ?case by simp
next
  case (2 env x up now r rs s)
  have e: "account_edit now (as_dir s) (as_dir (auth_step env x up now r s))"
    using 2 by (intro step_edit) auto
  show ?case
    using 2 account_edit_wf [OF e] account_edit_changed [OF e] by auto
qed

lemma revoked_refuses_session:
  "jwt_laws env \<Longrightarrow> ev_decode env n t = Some c \<Longrightarrow> cl_sub c = Some uid \<Longrightarrow> cl_iat c = Some i \<Longrightarrow>
     changed_since now uid (as_dir s) \<Longrightarrow> i * second < now - 2 * second \<Longrightarrow>
     load_user_context env s up n' (Some t) \<noteq> Inr u"
  using decode_later [of env n t c n']
  by (auto simp: load_user_context_def raise_if_def changed_since_def is_token_revoked_by_password_change_def
      split: option.splits)

lemma revoked_refuses_refresh:
  "jwt_laws env \<Longrightarrow> ev_decode env n t = Some c \<Longrightarrow> cl_sub c = Some uid \<Longrightarrow> cl_iat c = Some i \<Longrightarrow>
     changed_since now uid (as_dir s) \<Longrightarrow> i * second < now - 2 * second \<Longrightarrow>
     fst (refresh_token env up n' (Some t) ck s) \<noteq> Inr tr"
  using decode_later [of env n t c n']
  by (auto simp: refresh_token_def raise_if_def changed_since_def is_token_revoked_by_password_change_def Let_def
      split: option.splits)

lemma change_password_changed: "change_password env now uid p q salt d = Inr ((), d') \<Longrightarrow> changed_since now uid d'"
  by (auto simp: change_password_def strong_request_Inr res_simps changed_since_def get_put_user
      split: option.splits dest: get_account_id)

lemma force_change_changed:
  "force_change_password env now ft q salt d = Inr ((), d') \<Longrightarrow> ev_decode env now ft = Some fc \<Longrightarrow> cl_sub fc = Some uid \<Longrightarrow>
     changed_since now uid d'"
  by (auto simp: force_change_password_def strong_request_Inr res_simps changed_since_def get_put_user clock_defs
      split: option.splits dest: get_account_id)

text \<open>
C16: A password change ends the sessions of the account. Once a password has been changed, by
its owner or with a password-change token, no token of the account that was issued more than
two seconds before opens a session or can be refreshed, over every later run of requests in
which no administrator edits the directory.
\<close>

theorem password_change_ends_sessions:
  assumes "jwt_laws env" "users_wf (as_dir s)" "0 < di_next_id (as_dir s)"
    and "change_password env now uid p q salt (as_dir s) = Inr ((), d)
      \<or> force_change_password env now ft q salt (as_dir s) = Inr ((), d)
        \<and> ev_decode env now ft = Some fc \<and> cl_sub fc = Some uid"
    and "ev_decode env n t = Some c" "cl_sub c = Some uid" "cl_iat c = Some i" "i * second < now - 2 * second"
    and "\<forall>(up, m, r)\<in>set rs. now \<le> m \<and> \<not> is_admin_edit r"
  shows "\<not> is_ok (load_user_context env (auth_run env x rs (s\<lparr>as_dir := d\<rparr>)) up' n' (Some t))
    \<and> \<not> is_ok (fst (refresh_token env up' n' (Some t) ck (auth_run env x rs (s\<lparr>as_dir := d\<rparr>))))"
proof -
  have "changed_since now uid d"
    using assms(4) by (elim disjE conjE) (erule change_password_changed, rule force_change_changed)
  moreover have "account_edit now (as_dir s) d"
    using assms(4) by (elim disjE conjE) (erule user_op_edits)+
  then have "users_wf d" "0 < di_next_id d" using account_edit_wf assms(2,3) by simp_all
  ultimately have "changed_since now uid (as_dir (auth_run env x rs (s\<lparr>as_dir := d\<rparr>)))"
    using run_changed [OF assms(9), of "s\<lparr>as_dir := d\<rparr>"] by simp
  then show ?thesis
    using revoked_refuses_session [OF assms(1,5-7) _ assms(8)] revoked_refuses_refresh [OF assms(1,5-7) _ assms(8)]
    by (simp add: is_ok_iff)
qed

theorem password_change_ends_sessions_witness:
  "\<exists>d. change_password sample_env (30 * one_day) 3 ''Carol#2024'' ''Other#2025'' [] sample_dir = Inr ((), d)
     \<and> load_user_context sample_env (sample_auth sample_dir) True (30 * one_day) (Some (sample_token 3 2591990 ''access''))
         = Inr (context_of sample_dir sample_carol)
     \<and> \<not> is_ok (load_user_context sample_env
         (auth_run sample_env (\<lambda>_ _. Inl [], \<lambda>_ _. None) [(True, 30 * one_day + second, Login ''10.0.0.1'' ''carol'' ''Other#2025'')]
            (sample_auth d))
         True (30 * one_day + 2 * second) (Some (sample_token 3 2591990 ''access'')))"
proof -
  let ?d = "put_user (sample_carol\<lparr>ac_password := ''Other#2025'', ac_password_changed_at := 30 * one_day\<rparr>) sample_dir"
  have c: "change_password sample_env (30 * one_day) 3 ''Carol#2024'' ''Other#2025'' [] (as_dir (sample_auth sample_dir)) = Inr ((), ?d)"
    by code_simp
  have dec: "ev_decode sample_env (30 * one_day) (sample_token 3 2591990 ''access'') = Some (sample_token 3 2591990 ''access'')"
    by code_simp
  have wf: "users_wf (as_dir (sample_auth sample_dir))" "0 < di_next_id (as_dir (sample_auth sample_dir))"
    using sample_users_wf by (simp_all add: sample_auth_def sample_dir_def)
  have "\<not> is_ok (load_user_context sample_env
       (auth_run sample_env (\<lambda>_ _. Inl [], \<lambda>_ _. None) [(True, 30 * one_day + second, Login ''10.0.0.1'' ''carol'' ''Other#2025'')]
         ((sample_auth sample_dir)\<lparr>as_dir := ?d\<rparr>))
       True (30 * one_day + 2 * second) (Some (sample_token 3 2591990 ''access'')))"
    by (rule conjunct1 [OF password_change_ends_sessions [OF sample_jwt_laws wf disjI1 [OF c] dec, where i = 2591990]])
       (simp_all add: sample_token_def clock_defs)
  moreover have "load_user_context sample_env (sample_auth sample_dir) True (30 * one_day) (Some (sample_token 3 2591990 ''access''))
      = Inr (context_of sample_dir sample_carol)"
    by code_simp
  ultimately show ?thesis using c by (intro exI [of _ ?d]) (simp add: sample_auth_def)
qed

end
