(* ===== verification/Auth_Flows.thy ===== *)
theory Auth_Flows
  imports Auth_Facts
begin

text \<open>
  The login flows: what a session may do, the second factor, the bound on guesses, the
  encrypted fields, and the flaws in the handling of tokens and placeholder passwords.
\<close>

section \<open>Sessions\<close>

lemma unit_entry: "(x :: unit option) \<noteq> Some () \<longleftrightarrow> x = None"
  by (cases x) simp_all

lemma load_user_context_iff:
  "load_user_context env s up now tok = Inr u \<longleftrightarrow>
     (\<exists>t c uid a. tok = Some t \<and> ev_decode env now t = Some c \<and> cl_sub c = Some uid \<and> up
        \<and> redis_get (as_blacklist s) t now = None \<and> get_account (as_dir s) uid = Some a \<and> ac_is_active a
        \<and> \<not> is_token_revoked_by_password_change (cl_iat c) (Some (ac_password_changed_at a))
        \<and> (cl_requires_2fa c \<longrightarrow> cl_2fa_verified c) \<and> u = context_of (as_dir s) a)"
  by (cases tok) (auto simp: load_user_context_def res_simps unit_entry split: option.splits)



section \<open>The second factor\<close>

lemma access_claims:
  assumes "jwt_laws env" "ev_decode env n (create_access_token env data now) = Some c"
  shows "cl_requires_2fa c = cl_requires_2fa data" "cl_2fa_verified c = cl_2fa_verified data" "cl_sub c = cl_sub data"
    "cl_iat c = Some (seconds_of now)" "cl_type c = ''access''"
  using assms by (auto simp: create_access_token_def decode_encode with_tenant_def split: if_splits)

lemma second_factor_token_no_session:
  assumes "jwt_laws env" "tr_two_fa_token (second_factor_reply env payload now) = Some t" "\<not> cl_2fa_verified payload"
  shows "\<not> is_ok (load_user_context env s up n (Some t))"
proof -
  have t: "t = create_access_token env (payload\<lparr>cl_requires_2fa := True\<rparr>) now"
    using assms(2) by (simp add: second_factor_reply_def)
  show ?thesis
    using access_claims(1,2) [OF assms(1), of n "payload\<lparr>cl_requires_2fa := True\<rparr>" now] assms(3)
    by (auto simp: is_ok_iff load_user_context_iff t)
qed

lemma login_reply_totp:
  "ac_totp_enabled a \<Longrightarrow> login_reply env a now = second_factor_reply env (build_auth_payload a) now"
  by (simp add: login_reply_def)

lemma no_tokens_in_second_factor [simp]:
  "tr_access_token (second_factor_reply env p now) = None" "tr_refresh_token (second_factor_reply env p now) = None"
  by (simp_all add: second_factor_reply_def no_tokens_def)

lemma second_step_checks_code:
  assumes "jwt_laws env" "verify_login_2fa env up m ip t code s = (Inr tr, s')"
    and "t = create_access_token env data now" "cl_sub data = Some uid"
  shows "\<exists>b secret. get_account (as_dir s) uid = Some b \<and> ac_is_active b \<and> ac_totp_enabled b \<and> ac_totp_secret b = Some secret
    \<and> ev_totp env (decrypt_field env secret) code m = Some True"
proof -
  obtain c where c: "ev_decode env m t = Some c"
    using assms(2) by (auto simp: verify_login_2fa_def split: option.splits)
  then have "cl_sub c = Some uid" using access_claims(3) [OF assms(1)] assms(3,4) by simp
  then have "second_factor_checked env (as_dir s) uid code m = Inr tr"
    using assms(2) c by (auto simp: verify_login_2fa_def split: option.splits if_splits sum.splits prod.splits)
  then show ?thesis
    by (auto simp: second_factor_checked_def check_totp_def res_simps truthy_def split: option.splits)
qed



section \<open>The bound on guesses\<close>

text \<open>The times of the logins with the name \<open>u\<close> in a run that reach the check of the password.\<close>

fun guesses :: "'t auth_env \<Rightarrow> ext_services \<Rightarrow> string \<Rightarrow> (bool \<times> time \<times> 't request) list \<Rightarrow> 't auth_store \<Rightarrow> time list" where
  "guesses env x u [] s = []"
| "guesses env x u ((up, now, r) # rs) s =
     (case r of
        Login ip v p \<Rightarrow>
          (if v = u \<and> is_ok (fst (enforce_auth_rate_limit up (as_windows s) ip v ''login'' 20 60 10 300 now)) then [now] else [])
      | _ \<Rightarrow> [])
     @ guesses env x u rs (auth_step env x up now r s)"

lemma sliding_other: "k \<noteq> key \<Longrightarrow> snd (sliding_window_allow w key l ws now) k = w k"
  by (simp add: sliding_window_allow_def Let_def)

lemma enforce_windows:
  "snd (enforce_rate_limit up w key l ws msg now) = (if up then snd (sliding_window_allow w key l ws now) else w)"
  "is_ok (fst (enforce_rate_limit up w key l ws msg now)) \<longleftrightarrow> up \<longrightarrow> fst (sliding_window_allow w key l ws now)"
  by (auto simp: enforce_rate_limit_def split: prod.splits)

lemma enforce_auth_other:
  assumes "k \<noteq> ip_key scope (or_str ip ''unknown'')" "k \<noteq> id_key scope i"
  shows "snd (enforce_auth_rate_limit up w ip i scope a b c e now) k = w k"
proof -
  obtain r w1 where r: "enforce_rate_limit up w (ip_key scope (or_str ip ''unknown'')) a b ''too many requests'' now = (r, w1)"
    by fastforce
  have 1: "w1 k = w k" using enforce_windows(1) [of up w "ip_key scope (or_str ip ''unknown'')" a b "''too many requests''" now]
      r sliding_other [OF assms(1)] by (simp split: if_splits)
  obtain r2 w2 where r2: "enforce_rate_limit up w1 (id_key scope i) c e ''too many attempts'' now = (r2, w2)" by fastforce
  have 2: "w2 k = w1 k" using enforce_windows(1) [of up w1 "id_key scope i" c e "''too many attempts''" now]
      r2 sliding_other [OF assms(2)] by (simp split: if_splits)
  show ?thesis using 1 2 by (auto simp: enforce_auth_rate_limit_def r r2 split: sum.splits)
qed

lemma login_key_other [simp]:
  "id_key ''login'' u \<noteq> ip_key ''ldap'' i" "id_key ''login'' u \<noteq> id_key ''ldap'' i"
  "id_key ''login'' u \<noteq> ip_key ''sms'' i" "id_key ''login'' u \<noteq> id_key ''sms'' i"
  "id_key ''login'' u \<noteq> ip_key ''2fa'' i" "id_key ''login'' u \<noteq> id_key ''2fa'' i"
  by (simp_all add: id_key_def ip_key_def)

lemma windows_of_case:
  "as_windows (snd (case E of (Inl e, w) \<Rightarrow> (Inl e, s\<lparr>as_windows := w\<rparr>) | (Inr y, w) \<Rightarrow> (f w, s\<lparr>as_windows := w\<rparr>))) = snd E"
  by (simp split: prod.splits sum.splits)

lemma windows_of_login:
  "as_windows (snd (login env up now ip v p s)) = snd (enforce_auth_rate_limit up (as_windows s) ip v ''login'' 20 60 10 300 now)"
  by (simp add: login_def windows_of_case)

lemma windows_of_ldap:
  "as_windows (snd (ldap_login env l up now ip v p salt s)) = snd (enforce_auth_rate_limit up (as_windows s) ip v ''ldap'' 20 60 10 300 now)"
  by (simp add: ldap_login_def Let_def split: prod.splits sum.splits)

lemma windows_of_sms:
  "as_windows (snd (sms_login env up now ip v c s)) = snd (enforce_auth_rate_limit up (as_windows s) ip v ''sms'' 20 60 5 300 now)"
  by (simp add: sms_login_def verify_sms_code_def Let_def split: prod.splits sum.splits option.splits bool.splits)

lemma windows_of_2fa:
  assumes "\<And>i. k \<noteq> ip_key ''2fa'' i" "\<And>i. k \<noteq> id_key ''2fa'' i"
  shows "as_windows (snd (verify_login_2fa env up now ip t c s)) k = as_windows s k"
  by (cases "ev_decode env now t") (simp_all add: verify_login_2fa_def windows_of_case enforce_auth_other assms)

lemma as_user_windows [simp]: "as_windows (as_user env up now b f s) = as_windows s"
  by (simp add: as_user_def split: sum.splits prod.splits)

lemma revoke_token_windows [simp]: "as_windows (revoke_token env now t s) = as_windows s"
  by (simp add: revoke_token_def split: option.splits prod.splits)

lemma step_window_other:
  assumes "\<And>ip p. r \<noteq> Login ip u p"
  shows "as_windows (auth_step env x up now r s) (id_key ''login'' u) = as_windows s (id_key ''login'' u)"
proof (cases r)
  case (Login ip v p)
  then have "v \<noteq> u" using assms by auto
  with Login show ?thesis by (simp add: windows_of_login enforce_auth_other)
next
  case (LdapLogin ip v p salt)
  then show ?thesis by (simp add: windows_of_ldap enforce_auth_other)
next
  case (SmsLogin ip ph c)
  then show ?thesis by (simp add: windows_of_sms enforce_auth_other)
next
  case (LoginVerify2fa ip t c)
  then show ?thesis by (simp add: windows_of_2fa)
next
  case (OauthCallback pr c tk st er lc salt)
  then show ?thesis by (simp add: oauth_callback_def Let_def split: prod.splits sum.splits option.splits)
next
  case (Refresh body ck)
  then show ?thesis by (simp add: refresh_token_def Let_def split: option.splits)
qed (auto simp: send_sms_code_def logout_def oauth_authorize_def exchange_oauth_login_code_def Let_def
      split: prod.splits sum.splits option.splits)

lemma allowed_times_Cons:
  "allowed_times k l ws m (t # ts) = (if fst (sliding_window_allow m k l ws t) then [t] else [])
     @ allowed_times k l ws (snd (sliding_window_allow m k l ws t)) ts"
  by (simp split: prod.splits)

lemma allowed_times_cong: "m k = m' k \<Longrightarrow> allowed_times k l ws m ts = allowed_times k l ws m' ts"
proof (induction ts arbitrary: m m')
  case Nil
  then show ?case by simp
next
  case (Cons t ts)
  have f: "fst (sliding_window_allow m k l ws t) = fst (sliding_window_allow m' k l ws t)"
    and g: "snd (sliding_window_allow m k l ws t) k = snd (sliding_window_allow m' k l ws t) k"
    using Cons.prems by (simp_all add: sliding_window_allow_def Let_def)
  have "allowed_times k l ws (snd (sliding_window_allow m k l ws t)) ts
      = allowed_times k l ws (snd (sliding_window_allow m' k l ws t)) ts"
    by (rule Cons.IH) (rule g)
  then show ?case by (simp only: allowed_times_Cons f)
qed

lemma guesses_allowed:
  assumes "sorted (map (fst \<circ> snd) rs)" "\<forall>(up, n, r)\<in>set rs. up" "u \<noteq> []"
  shows "\<exists>ts. sorted ts \<and> set ts \<subseteq> (fst \<circ> snd) ` set rs
    \<and> guesses env x u rs s = allowed_times (id_key ''login'' u) 10 300 (as_windows s) ts"
  using assms
proof (induction env x u rs s rule: guesses.induct)
  case (1 env x u s)
  show ?case by (intro exI [of _ "[]"]) simp
next
  case (2 env x u up now r rs s)
  let ?k = "id_key ''login'' u" and ?s1 = "auth_step env x up now r s"
  obtain ts where ts: "sorted ts" "set ts \<subseteq> (fst \<circ> snd) ` set rs"
    "guesses env x u rs ?s1 = allowed_times ?k 10 300 (as_windows ?s1) ts"
    using 2 by auto
  have ge: "\<forall>t\<in>set ts. now \<le> t" using ts(2) 2(2) by auto
  show ?case
  proof (cases "\<exists>ip p. r = Login ip u p")
    case False
    then have "as_windows ?s1 ?k = as_windows s ?k" by (intro step_window_other) blast
    then have "allowed_times ?k 10 300 (as_windows ?s1) ts = allowed_times ?k 10 300 (as_windows s) ts"
      by (rule allowed_times_cong)
    then show ?thesis using ts False by (intro exI [of _ ts]) (auto split: request.splits)
  next
    case True
    then obtain ip p where r: "r = Login ip u p" by blast
    have up: "up" using 2(3) by simp
    let ?ip = "sliding_window_allow (as_windows s) (ip_key ''login'' (or_str ip ''unknown'')) 20 60 now"
    let ?id = "sliding_window_allow (snd ?ip) ?k 10 300 now"
    have w: "enforce_auth_rate_limit up (as_windows s) ip u ''login'' 20 60 10 300 now =
      (if fst ?ip then (if fst ?id then Inr () else Inl (app_exc (TextMsg ''too many attempts'') 429), snd ?id)
       else (Inl (app_exc (TextMsg ''too many requests'') 429), snd ?ip))"
      using up 2(4) by (simp add: enforce_auth_rate_limit_def enforce_rate_limit_def split: prod.splits)
    have ipk: "snd ?ip ?k = as_windows s ?k" by (rule sliding_other) simp
    show ?thesis
    proof (cases "fst ?ip")
      case False
      then have "as_windows ?s1 = snd ?ip" using w r by (simp add: windows_of_login)
      then have "allowed_times ?k 10 300 (as_windows ?s1) ts = allowed_times ?k 10 300 (as_windows s) ts"
        using ipk by (intro allowed_times_cong) simp
      then show ?thesis using ts r w False by (intro exI [of _ ts]) auto
    next
      case True
      have s1: "as_windows ?s1 = snd ?id" using w r True by (simp add: windows_of_login)
      have "allowed_times ?k 10 300 (as_windows s) (now # ts) = allowed_times ?k 10 300 (snd ?ip) (now # ts)"
        using ipk by (intro allowed_times_cong) simp
      also have "\<dots> = (if fst ?id then [now] else []) @ guesses env x u rs ?s1"
        unfolding allowed_times_Cons ts(3) s1 ..
      finally show ?thesis using ts ge r w True by (intro exI [of _ "now # ts"]) auto
    qed
  qed
qed


definition sample_busy :: "claims auth_store" where
  "sample_busy = (sample_auth sample_dir)\<lparr>as_windows := (\<lambda>k. replicate 9 (30 * one_day))\<rparr>"

definition sample_logins :: "(bool \<times> time \<times> claims request) list" where
  "sample_logins = [(True, 30 * one_day + second, Login ''10.0.0.1'' ''carol'' ''x''),
     (True, 30 * one_day + 2 * second, Login ''10.0.0.2'' ''carol'' ''y'')]"


section \<open>Encrypted fields\<close>

lemma decrypt_same_key: "fernet_laws env \<Longrightarrow> decrypt_field env (encrypt_field env v) = v"
  by (simp add: fernet_laws_def Let_def decrypt_field_def encrypt_field_def decrypt_keys_def)

text \<open>
Encrypted fields survive the change to a separate key. What was encrypted is read back
unchanged, with the keys it was written under and also after a key of its own has been
configured for fields that were encrypted with the key derived from the signing secret.
\<close>

theorem fields_survive_key_change:
  assumes "fernet_laws env'" and "env' = env \<or> (ev_fernet_key env = [] \<and> env' = env\<lparr>ev_fernet_key := k\<rparr>)"
  shows "decrypt_field env' (encrypt_field env v) = v"
proof -
  let ?old = "ev_derive_key env' (ev_secret_key env')"
  have law: "ev_decrypt env' q (ev_encrypt env' q v) = Some v" "ev_encrypt env' q v \<noteq> []"
    "ev_fernet_key env' \<noteq> [] \<Longrightarrow> ev_fernet_key env' \<noteq> ?old \<Longrightarrow> ev_decrypt env' (ev_fernet_key env') (ev_encrypt env' ?old v) = None"
    for q using assms(1) by (auto simp: fernet_laws_def Let_def)
  have "\<exists>q. q \<in> set (decrypt_keys env') \<and> encrypt_field env v = (if v = [] then v else ev_encrypt env' q v)
      \<and> (q = current_key env' \<or> q = ?old)"
    using assms(2) by (auto simp: encrypt_field_def current_key_def decrypt_keys_def)
  then obtain q where q: "encrypt_field env v = (if v = [] then v else ev_encrypt env' q v)" "q = current_key env' \<or> q = ?old"
    by blast
  show ?thesis
  proof (cases "q = current_key env'")
    case True
    then show ?thesis using law q(1) by (simp add: decrypt_field_def decrypt_keys_def)
  next
    case False
    then have "q = ?old" "ev_fernet_key env' \<noteq> []" using q(2) by (auto simp: current_key_def split: if_splits)
    then show ?thesis using law False q(1) by (auto simp: decrypt_field_def decrypt_keys_def current_key_def)
  qed
qed

theorem fields_survive_key_change_witness:
  "decrypt_field (sample_env\<lparr>ev_fernet_key := ''fernet1''\<rparr>) (encrypt_field sample_env ''pw'') = ''pw''
   \<and> encrypt_field sample_env ''pw'' = ''#derivedpw''"
proof -
  have "ev_fernet_key sample_env = []" by (simp add: sample_env_def)
  then have "decrypt_field (sample_env\<lparr>ev_fernet_key := ''fernet1''\<rparr>) (encrypt_field sample_env ''pw'') = ''pw''"
    by (intro fields_survive_key_change [OF sample_fernet_laws(1), where k = "''fernet1''"]) simp
  then show ?thesis by (simp add: encrypt_field_def current_key_def sample_env_def)
qed

section \<open>Tokens for a password change\<close>

lemma password_change_live:
  assumes "jwt_laws env" "m \<le> now + 599 * second"
  shows "ev_decode env m (create_password_change_token env (build_auth_payload a) now)
    = Some (with_tenant env ((build_auth_payload a)\<lparr>cl_exp := seconds_of (now + 10 * 60 * second), cl_type := ''password_change''\<rparr>))"
proof -
  have "now + 10 * 60 * second < (seconds_of (now + 10 * 60 * second) + 1) * second" by (rule seconds_of_gt)
  then have "m < seconds_of (now + 10 * 60 * second) * second" using assms(2) by (simp add: algebra_simps second_def)
  then show ?thesis
    using assms(1) by (simp add: create_password_change_token_def decode_encode claims_live_def with_tenant_def
        build_auth_payload_def claims_for_def)
qed

lemma login_checked_change:
  assumes "login_checked env d n p now = Inr tr" "tr_password_change_token tr = Some t"
  shows "\<exists>a. get_by_username d n = Inr (Some a) \<and> ac_is_active a
    \<and> t = create_password_change_token env (build_auth_payload a) now \<and> tr_access_token tr = None"
  using assms by (auto simp: login_checked_def res_simps Let_def login_reply_def second_factor_reply_def
      issue_login_tokens_def no_tokens_def split: if_splits option.splits)

text \<open>
C38: The token for a required password change is a full session. \<open>load_user_context\<close> does not
look at the type of a token: when a login is answered with the demand to change the password,
its password-change token opens a session with all rights of the account, although the
password was not changed and a second factor was not asked for, and even after the password
has been changed.
\<close>

theorem password_change_token_opens_session:
  assumes "jwt_laws env" "users_wf d" "login_checked env d n p now = Inr tr" "tr_password_change_token tr = Some t"
    and "m \<le> now + 599 * second" "redis_get (as_blacklist s) t m = None"
    and "get_by_username d n = Inr (Some a)" "get_account (as_dir s) (ac_id a) = Some b" "ac_is_active b"
  shows "tr_access_token tr = None \<and> load_user_context env s True m (Some t) = Inr (context_of (as_dir s) b)"
proof -
  have t: "t = create_password_change_token env (build_auth_payload a) now" "tr_access_token tr = None"
    using login_checked_change [OF assms(3,4)] assms(7) by auto
  have "ev_decode env m t = Some (with_tenant env ((build_auth_payload a)\<lparr>cl_exp := seconds_of (now + 10 * 60 * second), cl_type := ''password_change''\<rparr>))"
    unfolding t(1) by (rule password_change_live [OF assms(1,5)])
  then have "load_user_context env s True m (Some t) = Inr (context_of (as_dir s) b)"
    unfolding load_user_context_iff using assms(6,8,9)
    by (auto simp: with_tenant_def build_auth_payload_def claims_for_def is_token_revoked_by_password_change_def)
  then show ?thesis using t by simp
qed

theorem password_change_token_opens_session_witness:
  "\<exists>(tr :: claims token_response) t. login_checked sample_env sample_dir ''bob'' ''weak'' (30 * one_day) = Inr tr
     \<and> tr_password_change_token tr = Some t \<and> tr_access_token tr = None \<and> ac_totp_enabled sample_bob
     \<and> load_user_context sample_env (sample_auth sample_dir) True (30 * one_day + 60 * second) (Some t)
         = Inr (context_of sample_dir sample_bob)"
proof -
  have "case login_checked sample_env sample_dir ''bob'' ''weak'' (30 * one_day) of Inl e \<Rightarrow> False
    | Inr tr \<Rightarrow> tr_password_change_token tr \<noteq> None" by code_simp
  then obtain tr t where tr: "login_checked sample_env sample_dir ''bob'' ''weak'' (30 * one_day) = Inr tr"
    "tr_password_change_token tr = Some t"
    by (auto split: sum.splits)
  have b: "get_by_username sample_dir ''bob'' = Inr (Some sample_bob)"
    "get_account (as_dir (sample_auth sample_dir)) (ac_id sample_bob) = Some sample_bob" "ac_is_active sample_bob"
    "ac_totp_enabled sample_bob"
    by code_simp+
  have n: "redis_get (as_blacklist (sample_auth sample_dir)) t (30 * one_day + 60 * second) = None"
    by (simp add: sample_auth_def redis_get_def)
  have "30 * one_day + 60 * second \<le> 30 * one_day + 599 * second" by (simp add: second_def)
  then show ?thesis
    using password_change_token_opens_session [OF sample_jwt_laws sample_users_wf tr _ n b(1-3)] tr b(4)
    by (auto simp: sample_auth_def)
qed

text \<open>
A session opened right after a forced password change is refused. The change is dated six
seconds ahead, so every access token that a login issues in the four seconds after it counts
as issued before the change and never opens a session.
\<close>

theorem early_login_refused_after_forced_change:
  assumes "jwt_laws env" "users_wf d0" "0 < di_next_id d0" "force_change_password env now ft q salt d0 = Inr ((), d)"
    and "ev_decode env now ft = Some fc" "cl_sub fc = Some uid"
    and "login_checked env d n p m = Inr tr" "tr_access_token tr = Some t" "get_by_username d n = Inr (Some a)" "ac_id a = uid"
    and "now \<le> m" "m < now + 4 * second" "as_dir s = d"
  shows "\<not> is_ok (load_user_context env s up k (Some t))"
proof -
  have "account_edit now d0 d" using assms(4) by (rule user_op_edits)
  then have wf: "users_wf d" using account_edit_wf assms(2,3) by simp
  have "get_account d uid = Some a" using assms(9,10) get_by_username_iff [OF wf] get_account_iff [OF wf] by auto
  moreover have "\<exists>b. get_account d uid = Some b \<and> ac_password_changed_at b = now + 6 * second"
    using assms(4-6) by (auto simp: force_change_password_def strong_request_Inr res_simps get_put_user clock_defs
        split: option.splits dest: get_account_id)
  ultimately have ch: "ac_password_changed_at a = now + 6 * second" by simp
  have "t = create_access_token env (build_auth_payload a) m"
    using assms(7-9) by (auto simp: login_checked_def res_simps Let_def login_reply_def second_factor_reply_def
      issue_login_tokens_def no_tokens_def split: if_splits)
  then have c: "ev_decode env k t = Some c \<Longrightarrow> cl_iat c = Some (seconds_of m) \<and> cl_sub c = Some uid" for c
    using access_claims(3,4) [OF assms(1)] assms(10) by (auto simp: build_auth_payload_def claims_for_def)
  have "seconds_of m * second < now + 4 * second" using seconds_of_le [of m] assms(12) by linarith
  then show ?thesis
    using c \<open>get_account d uid = Some a\<close> ch assms(13)
    by (auto simp: is_ok_iff load_user_context_iff is_token_revoked_by_password_change_def)
qed

definition sample_change_token :: claims where
  "sample_change_token = (sample_token 3 2592000 ''password_change'')\<lparr>cl_iat := None\<rparr>"

theorem early_login_refused_after_forced_change_witness:
  "\<exists>d (tr :: claims token_response) t.
     force_change_password sample_env (30 * one_day) sample_change_token ''Other#2025'' [] sample_dir = Inr ((), d)
     \<and> login_checked sample_env d ''carol'' ''Other#2025'' (30 * one_day + 3 * second) = Inr tr \<and> tr_access_token tr = Some t
     \<and> \<not> is_ok (load_user_context sample_env (sample_auth d) True (30 * one_day + 60 * second) (Some t))"
proof -
  let ?b = "sample_carol\<lparr>ac_password := ''Other#2025'', ac_password_changed_at := 30 * one_day + 6 * second\<rparr>"
  let ?d = "put_user ?b sample_dir"
  have f: "force_change_password sample_env (30 * one_day) sample_change_token ''Other#2025'' [] sample_dir = Inr ((), ?d)"
    by code_simp
  have dec: "ev_decode sample_env (30 * one_day) sample_change_token = Some sample_change_token" by code_simp
  have "case login_checked sample_env ?d ''carol'' ''Other#2025'' (30 * one_day + 3 * second) of Inl e \<Rightarrow> False
    | Inr tr \<Rightarrow> tr_access_token tr \<noteq> None" by code_simp
  then obtain tr t where tr: "login_checked sample_env ?d ''carol'' ''Other#2025'' (30 * one_day + 3 * second) = Inr tr"
    "tr_access_token tr = Some t"
    by (auto split: sum.splits)
  have b: "get_by_username ?d ''carol'' = Inr (Some ?b)" by code_simp
  have nx: "0 < di_next_id sample_dir" by (simp add: sample_dir_def)
  have "\<not> is_ok (load_user_context sample_env (sample_auth ?d) True (30 * one_day + 60 * second) (Some t))"
    by (rule early_login_refused_after_forced_change [OF sample_jwt_laws sample_users_wf nx f dec _ tr b, where uid = 3])
       (simp_all add: sample_change_token_def sample_token_def sample_carol_def sample_account_def sample_auth_def second_def)
  then show ?thesis using f tr by blast
qed

section \<open>Placeholder passwords\<close>

lemma placeholder_weak: "ph \<in> {''__ldap_no_local_password__'', ''__oauth_no_local_password__''} \<Longrightarrow> get_password_policy_violations ph \<noteq> []"
proof -
  have "get_password_policy_violations ''__ldap_no_local_password__'' = [NoUppercase, NoDigit]"
    "get_password_policy_violations ''__oauth_no_local_password__'' = [NoUppercase, NoDigit]" by code_simp+
  then show "ph \<in> {''__ldap_no_local_password__'', ''__oauth_no_local_password__''} \<Longrightarrow> get_password_policy_violations ph \<noteq> []"
    by auto
qed

lemma provisioned_account:
  assumes "provision_user env ty ph x salt t0 d = Inr (a, d1)" "find_external d ty x = Inr None" "users_wf d" "0 < di_next_id d"
  shows "users_wf d1 \<and> a = new_external_account env d ty ph x salt t0 \<and> get_by_username d1 (xi_username x) = Inr (Some a)
    \<and> get_account d1 (ac_id a) = Some a"
proof -
  have a: "a = new_external_account env d ty ph x salt t0" "d1 = add_user a d"
    using assms(1,2) by (auto simp: provision_user_def Let_def)
  have "users_wf d1" using account_edit_wf [OF provision_edit [OF assms(3,1)] assms(3,4)] by simp
  moreover have "a \<in> set (di_users d1)" "ac_username a = xi_username x"
    using a by (simp_all add: add_user_def new_external_account_def)
  ultimately show ?thesis using a(1) get_by_username_iff get_account_iff by auto
qed

text \<open>
Accounts made from LDAP or an identity provider can be taken over by anybody who knows
their user name. Their password is a constant of the source, and \<open>login\<close> does not look at where
an account comes from: a login with this constant is answered with a password-change token,
with which any strong password can be set and the account entered with it.
\<close>

theorem provisioned_account_takeover:
  assumes "jwt_laws env" "bcrypt_law env" "users_wf d" "0 < di_next_id d"
    and "provision_ldap_user env x salt t0 d = Inr (a, d1) \<and> find_external d ''ldap'' x = Inr None
           \<and> ph = ''__ldap_no_local_password__''
         \<or> provision_oauth_user env pr x salt t0 d = Inr (a, d1) \<and> pr \<noteq> ''local''
           \<and> find_external d pr (x\<lparr>xi_employee_id := [], xi_department := [], xi_title := []\<rparr>) = Inr None
           \<and> ph = ''__oauth_no_local_password__''"
    and "t0 \<le> now" "get_password_policy_violations q = []" "q \<notin> set DEFAULT_PASSWORDS" "\<not> verify_password env q (ac_password a)"
    and "now \<le> m" "m < now + 29 * one_day"
  shows "\<exists>tr t d2. login_checked env d1 (xi_username x) ph now = Inr tr \<and> tr_password_change_token tr = Some t
    \<and> force_change_password env now t q salt2 d1 = Inr ((), d2)
    \<and> (\<exists>b. login_checked env d2 (xi_username x) q m = Inr (issue_login_tokens env b False m) \<and> ac_id b = ac_id a)"
proof -
  obtain ty y where pv: "provision_user env ty ph y salt t0 d = Inr (a, d1)" "find_external d ty y = Inr None" "ty \<noteq> ''local''"
    "xi_username y = xi_username x" and ph: "ph \<in> {''__ldap_no_local_password__'', ''__oauth_no_local_password__''}"
    using assms(5) by (auto simp: provision_ldap_user_def provision_oauth_user_def)
  have a: "users_wf d1" "a = new_external_account env d ty ph y salt t0" "get_by_username d1 (xi_username x) = Inr (Some a)"
    "get_account d1 (ac_id a) = Some a"
    using provisioned_account [OF pv(1,2) assms(3,4)] pv(4) by auto
  have ac: "verify_password env ph (ac_password a)" "ac_is_active a" "\<not> ac_totp_enabled a" "ac_auth_type a \<noteq> ''local''"
    using a(2) pv(3) verify_hash [OF assms(2)] by (simp_all add: new_external_account_def)
  have "change_reasons_of a ph now \<noteq> []"
    using placeholder_weak [OF ph] by (simp add: change_reasons_of_def get_login_password_change_reasons_def)
  then have l: "login_checked env d1 (xi_username x) ph now = Inr (no_tokens\<lparr>tr_password_change_required := True,
      tr_password_change_token := Some (create_password_change_token env (build_auth_payload a) now),
      tr_password_change_reasons := change_reasons_of a ph now\<rparr>)"
    using a(3) ac by (simp add: login_checked_def)
  let ?b = "a\<lparr>ac_password := hash_password env salt2 q, ac_password_changed_at := now + 6 * second\<rparr>"
  have f: "force_change_password env now (create_password_change_token env (build_auth_payload a) now) q salt2 d1 = Inr ((), put_user ?b d1)"
    using password_change_live [OF assms(1), of now now a] a(4) ac(2) assms(7,9)
    by (simp add: force_change_password_def strong_request_def validate_password_strength_def with_tenant_def
        build_auth_payload_def claims_for_def clock_defs)
  have "account_edit now d1 (put_user ?b d1)" using f by (rule user_op_edits)
  then have wf: "users_wf (put_user ?b d1)"
    using account_edit_wf a(1) assms(4) account_edit_wf [OF provision_edit [OF assms(3) pv(1)] assms(3,4)] by blast
  have "get_account (put_user ?b d1) (ac_id a) = Some ?b" using a(4) by (simp add: get_put_user)
  then have "?b \<in> set (di_users (put_user ?b d1))" using get_account_iff [OF wf] by blast
  moreover have "ac_username ?b = xi_username x" using a(2) pv(4) by (simp add: new_external_account_def)
  ultimately have n: "get_by_username (put_user ?b d1) (xi_username x) = Inr (Some ?b)"
    using get_by_username_iff [OF wf] by auto
  have "change_reasons_of ?b q m = []"
    using assms(7,8,11) ac(4)
    by (simp add: change_reasons_of_def get_login_password_change_reasons_def is_password_expired_def clock_defs)
  then have "login_checked env (put_user ?b d1) (xi_username x) q m = Inr (issue_login_tokens env ?b False m)"
    using n ac verify_hash [OF assms(2)] by (simp add: login_checked_def login_reply_def)
  then show ?thesis using l f by fastforce
qed

definition sample_identity :: ext_identity where
  "sample_identity = \<lparr> xi_username = ''dave'', xi_email = [], xi_display_name = [], xi_external_id = ''cn=dave'',
     xi_employee_id = [], xi_department = [], xi_title = [] \<rparr>"

theorem provisioned_account_takeover_witness:
  "\<exists>a d1 (tr :: claims token_response) t d2. provision_ldap_user sample_env sample_identity [] (29 * one_day) sample_dir = Inr (a, d1)
     \<and> login_checked sample_env d1 ''dave'' ''__ldap_no_local_password__'' (30 * one_day) = Inr tr \<and> tr_password_change_token tr = Some t
     \<and> force_change_password sample_env (30 * one_day) t ''Mine#2025'' [] d1 = Inr ((), d2)
     \<and> is_ok (login_checked sample_env d2 ''dave'' ''Mine#2025'' (31 * one_day))"
proof -
  let ?a = "new_external_account sample_env sample_dir ''ldap'' ''__ldap_no_local_password__'' sample_identity [] (29 * one_day)"
  have p: "provision_ldap_user sample_env sample_identity [] (29 * one_day) sample_dir = Inr (?a, add_user ?a sample_dir)"
    by code_simp
  have f: "find_external sample_dir ''ldap'' sample_identity = Inr None" by code_simp
  have nx: "0 < di_next_id sample_dir" by (simp add: sample_dir_def)
  have q: "get_password_policy_violations ''Mine#2025'' = []" "''Mine#2025'' \<notin> set DEFAULT_PASSWORDS"
    "\<not> verify_password sample_env ''Mine#2025'' (ac_password ?a)" by code_simp+
  have t: "29 * one_day \<le> 30 * one_day" "30 * one_day \<le> 31 * one_day" "31 * one_day < 30 * one_day + 29 * one_day"
    by (simp_all add: clock_defs)
  obtain tr t d2 b where "login_checked sample_env (add_user ?a sample_dir) (xi_username sample_identity) ''__ldap_no_local_password__'' (30 * one_day) = Inr tr"
    "tr_password_change_token tr = Some t"
    "force_change_password sample_env (30 * one_day) t ''Mine#2025'' [] (add_user ?a sample_dir) = Inr ((), d2)"
    "login_checked sample_env d2 (xi_username sample_identity) ''Mine#2025'' (31 * one_day) = Inr (issue_login_tokens sample_env b False (31 * one_day))"
    using provisioned_account_takeover [OF sample_jwt_laws sample_bcrypt_law sample_users_wf nx disjI1 t(1) q t(2,3)] p f by blast
  moreover have "xi_username sample_identity = ''dave''" by (simp add: sample_identity_def)
  ultimately show ?thesis using p by (metis is_ok_simps(1))
qed

text \<open>
An external identity takes over the local account of the same name. When no account is
known under the external id, a login over LDAP enters the account whose user name the
directory server sends, whatever password that account has, with all its rights, and turns it
into an LDAP account.
\<close>

theorem external_name_takes_account:
  assumes "users_wf (as_dir s)" "a \<in> set (di_users (as_dir s))" "ac_is_active a" "\<not> ac_totp_enabled a"
    and "ldap name pw = Inr x" "xi_username x = ac_username a"
    and "\<forall>b\<in>set (di_users (as_dir s)). \<not> (ac_auth_type b = ''ldap'' \<and> ac_external_id b = xi_external_id x)"
    and "is_ok (fst (enforce_auth_rate_limit up (as_windows s) ip name ''ldap'' 20 60 10 300 now))"
  shows "\<exists>b s'. ldap_login env ldap up now ip name pw salt s = (Inr (issue_login_tokens env b False now), s')
    \<and> ac_id b = ac_id a \<and> ac_auth_type b = ''ldap'' \<and> ac_is_superuser b = ac_is_superuser a
    \<and> ac_role_id b = ac_role_id a \<and> get_account (as_dir s') (ac_id a) = Some b"
proof -
  obtain w where w: "enforce_auth_rate_limit up (as_windows s) ip name ''ldap'' 20 60 10 300 now = (Inr (), w)"
    using assms(8) by (cases "enforce_auth_rate_limit up (as_windows s) ip name ''ldap'' 20 60 10 300 now") (auto simp: is_ok_iff)
  have "filter (\<lambda>b. ac_auth_type b = ''ldap'' \<and> ac_external_id b = xi_external_id x) (di_users (as_dir s)) = []"
    using assms(7) by (simp add: filter_empty_conv)
  moreover have "get_by_username (as_dir s) (xi_username x) = Inr (Some a)"
    using get_by_username_iff [OF assms(1)] assms(2,6) by auto
  ultimately have "find_external (as_dir s) ''ldap'' x = Inr (Some a)" by (simp add: find_external_def)
  then have p: "provision_ldap_user env x salt now (as_dir s) =
      Inr (update_external ''ldap'' x a, put_user (update_external ''ldap'' x a) (as_dir s))"
    by (simp add: provision_ldap_user_def provision_user_def Let_def)
  have g: "get_account (as_dir s) (ac_id a) = Some a" using get_account_iff [OF assms(1)] assms(2) by simp
  let ?b = "update_external ''ldap'' x a"
  have "ldap_login env ldap up now ip name pw salt s
      = (Inr (issue_login_tokens env ?b False now), s\<lparr>as_windows := w, as_dir := put_user ?b (as_dir s)\<rparr>)"
    using w p assms(3-5) by (simp add: ldap_login_def login_reply_def)
  then show ?thesis using g
    by (intro exI [of _ ?b] exI [of _ "s\<lparr>as_windows := w, as_dir := put_user ?b (as_dir s)\<rparr>"])
      (simp add: get_put_user, simp add: update_external_def)
qed

theorem external_name_takes_account_witness:
  "\<exists>b s'. ldap_login sample_env (\<lambda>n p. if p = ''ldap-pw'' then Inr (sample_identity\<lparr>xi_username := ''carol''\<rparr>) else Inl [])
        True (30 * one_day) ''10.0.0.1'' ''dave'' ''ldap-pw'' [] (sample_auth sample_dir)
      = (Inr (issue_login_tokens sample_env b False (30 * one_day)), s') \<and> ac_id b = ac_id sample_carol"
proof -
  have c: "is_ok (fst (enforce_auth_rate_limit True (as_windows (sample_auth sample_dir)) ''10.0.0.1'' ''dave'' ''ldap'' 20 60 10 300 (30 * one_day)))"
    by code_simp
  show ?thesis
    using external_name_takes_account [of "sample_auth sample_dir" sample_carol
        "\<lambda>n p. if p = ''ldap-pw'' then Inr (sample_identity\<lparr>xi_username := ''carol''\<rparr>) else Inl []" "''dave''" "''ldap-pw''",
        OF _ _ _ _ _ _ _ c, of "sample_identity\<lparr>xi_username := ''carol''\<rparr>" sample_env "[]"] sample_users_wf
    by (auto simp: sample_auth_defs sample_identity_def)
qed

text \<open>
A session alone can turn the second factor off. \<open>setup_2fa\<close> replaces the secret of an
account whose second factor is active and returns the new one, without asking for a code of
the old secret; with a code of the new secret \<open>disable_2fa\<close> succeeds.
\<close>

theorem session_disables_second_factor:
  assumes "fernet_laws env" "get_account d uid = Some a" "ac_totp_enabled a" "secret \<noteq> []" "ev_totp env secret code now = Some True"
  shows "\<exists>d1 d2 b. setup_2fa env uid secret d = Inr (secret, d1) \<and> disable_2fa env now uid code d1 = Inr ((), d2)
    \<and> get_account d2 uid = Some b \<and> \<not> ac_totp_enabled b"
proof -
  let ?a = "a\<lparr>ac_totp_secret := Some (encrypt_field env secret)\<rparr>"
  have id: "ac_id a = uid" using assms(2) by (rule get_account_id)
  have s: "setup_2fa env uid secret d = Inr (secret, put_user ?a d)" using assms(2) by (simp add: setup_2fa_def)
  have g: "get_account (put_user ?a d) uid = Some ?a" using assms(2) id by (simp add: get_put_user)
  have "encrypt_field env secret \<noteq> []" using assms(1,4) by (simp add: encrypt_field_def fernet_laws_def Let_def)
  moreover have "decrypt_field env (encrypt_field env secret) = secret"
    by (rule decrypt_same_key [OF assms(1)])
  ultimately have "disable_2fa env now uid code (put_user ?a d)
      = Inr ((), put_user (?a\<lparr>ac_totp_enabled := False, ac_totp_secret := None\<rparr>) (put_user ?a d))"
    using g assms(3,5) by (simp add: disable_2fa_def truthy_def check_totp_def)
  then show ?thesis using s g id by (fastforce simp: get_put_user)
qed

theorem session_disables_second_factor_witness:
  "\<exists>d1 d2 b. setup_2fa sample_env 1 ''777'' sample_dir = Inr (''777'', d1) \<and> disable_2fa sample_env (30 * one_day) 1 ''777'' d1 = Inr ((), d2)
     \<and> get_account d2 1 = Some b \<and> \<not> ac_totp_enabled b \<and> ac_totp_enabled sample_alice"
proof -
  have "get_account sample_dir 1 = Some sample_alice" "ac_totp_enabled sample_alice" "ev_totp sample_env ''777'' ''777'' (30 * one_day) = Some True"
    by code_simp+
  then show ?thesis
    using session_disables_second_factor [OF sample_fernet_laws(2), of sample_dir 1 sample_alice "''777''" "''777''" "30 * one_day"] by simp
qed

end
