(* ===== verification/Access_Control.thy ===== *)
theory Access_Control
  imports Auth_Flows "HOL-Library.Char_ord" "HOL-Library.List_Lexorder"
begin

text \<open>
  \<^verbatim>\<open>app/services/user.py\<close>, \<^verbatim>\<open>app/services/role.py\<close> and their request schemas: the
  management of users, permissions, roles, user groups and resource groups, the import of
  users, and the initialisation endpoint. An operation returns the new directory, or an
  exception with nothing changed. The session factory has \<open>autoflush=False\<close>, so a select does
  not see rows added before the flush. A foreign key or unique constraint that fails at the
  flush is \<open>integrity_error\<close>. The licence check is an argument.
\<close>

definition integrity_error :: exc where
  "integrity_error = RawException (EngineRaised ''IntegrityError'')"

definition fk_ok :: "int option \<Rightarrow> int list \<Rightarrow> bool" where
  "fk_ok r ks \<longleftrightarrow> (case r of None \<Rightarrow> True | Some i \<Rightarrow> i \<in> set ks)"

definition opt_set :: "'a option \<Rightarrow> 'a \<Rightarrow> 'a" where
  "opt_set v old = (case v of None \<Rightarrow> old | Some x \<Rightarrow> x)"

text \<open>\<open>x if x else None\<close> on an optional id.\<close>

definition id_or_none :: "int option \<Rightarrow> int option" where
  "id_or_none v = (if v = Some 0 then None else v)"

definition opt_ref :: "int option \<Rightarrow> int option \<Rightarrow> int option" where
  "opt_ref v old = (case v of None \<Rightarrow> old | Some i \<Rightarrow> id_or_none (Some i))"

text \<open>\<open>DELETE FROM t WHERE left = i\<close>, \<open>WHERE right = i\<close>.\<close>

definition unlink_left :: "int \<Rightarrow> (int \<times> int) list \<Rightarrow> (int \<times> int) list" where
  "unlink_left i ls = filter (\<lambda>(a, b). a \<noteq> i) ls"

definition unlink_right :: "int \<Rightarrow> (int \<times> int) list \<Rightarrow> (int \<times> int) list" where
  "unlink_right i ls = filter (\<lambda>(a, b). b \<noteq> i) ls"

text \<open>\<open>ON DELETE SET NULL\<close>.\<close>

definition clear_ref :: "int \<Rightarrow> int option \<Rightarrow> int option" where
  "clear_ref i r = (if r = Some i then None else r)"

section \<open>Permissions and roles\<close>

text \<open>Rows of \<open>Permission\<close> for codes that have none, with the next keys.\<close>

fun new_permissions :: "int \<Rightarrow> string list \<Rightarrow> permission_row list" where
  "new_permissions n [] = []"
| "new_permissions n (c # cs) = \<lparr> pe_id = n, pe_codename = c, pe_name = c \<rparr> # new_permissions (n + 1) cs"

definition missing_codes :: "directory \<Rightarrow> string list \<Rightarrow> string list" where
  "missing_codes d codes = filter (\<lambda>c. c \<notin> pe_codename ` set (di_permissions d)) codes"

definition add_permissions :: "string list \<Rightarrow> directory \<Rightarrow> directory" where
  "add_permissions codes d =
     d\<lparr>di_permissions := di_permissions d @ new_permissions (di_next_id d) codes,
       di_next_id := di_next_id d + int (length codes)\<rparr>"

definition permissions_in :: "directory \<Rightarrow> string list \<Rightarrow> permission_row list" where
  "permissions_in d codes = filter (\<lambda>p. pe_codename p \<in> set codes) (di_permissions d)"

text \<open>
  \<open>RoleService._set_permissions\<close>: the new rows are in the list that is linked. A code that is
  new and named twice violates the unique codename.
\<close>

definition set_permissions :: "int \<Rightarrow> string list \<Rightarrow> directory \<Rightarrow> directory res" where
  "set_permissions rid codes d =
     (let cleared = unlink_left rid (di_role_permission d);
          fresh = missing_codes d codes;
          d1 = add_permissions fresh d
      in raise_if (\<not> distinct fresh) integrity_error
         (Inr (d1\<lparr>di_role_permission := cleared @ map (\<lambda>p. (rid, pe_id p)) (permissions_in d1 codes)\<rparr>)))"

text \<open>
  \<open>UserService.grant_permissions\<close>: the select after \<open>db.add\<close> does not see the added row, so
  only the permissions that existed before are linked.
\<close>

definition own_role :: "account \<Rightarrow> directory \<Rightarrow> (int \<times> directory) res" where
  "own_role a d =
     (case id_or_none (ac_role_id a) of
        Some rid \<Rightarrow> Inr (rid, d)
      | None \<Rightarrow>
          (let n = ''user_'' @ py_str_int (ac_id a); rid = di_next_id d in
           raise_if (n \<in> ro_name ` set (di_roles d)) integrity_error
           (Inr (rid, put_user (a\<lparr>ac_role_id := Some rid\<rparr>)
              (d\<lparr>di_roles := di_roles d @ [\<lparr> ro_id = rid, ro_name = n,
                   ro_name_cn = ''user '' @ py_str_int (ac_id a) @ '' own role'',
                   ro_description = ''generated for user '' @ ac_username a, ro_is_system = False, ro_is_active = True \<rparr>],
                 di_next_id := rid + 1\<rparr>)))))"

definition grant_permissions :: "int \<Rightarrow> string list \<Rightarrow> directory \<Rightarrow> directory res" where
  "grant_permissions uid codes d =
     (case get_account d uid of
        None \<Rightarrow> Inl (http 404 ''user'')
      | Some a \<Rightarrow>
          (let perms = permissions_in d codes; fresh = missing_codes d codes in
           raise_if (\<not> distinct fresh) integrity_error
           (rbind (own_role a (add_permissions fresh d)) (\<lambda>(rid, d1).
             Inr (d1\<lparr>di_role_permission := di_role_permission d1 @ map (\<lambda>p. (rid, pe_id p)) perms\<rparr>)))))"

definition revoke_permissions :: "int \<Rightarrow> string list \<Rightarrow> directory \<Rightarrow> directory" where
  "revoke_permissions uid codes d =
     (let perm_ids = map pe_id (permissions_in d codes) in
      case get_account d uid of
        None \<Rightarrow> d
      | Some a \<Rightarrow>
          (case id_or_none (ac_role_id a) of
             None \<Rightarrow> d
           | Some rid \<Rightarrow>
               if perm_ids = [] then d
               else d\<lparr>di_role_permission := filter (\<lambda>(r, p). \<not> (r = rid \<and> p \<in> set perm_ids)) (di_role_permission d)\<rparr>))"

text \<open>
  The association tables have no key, so a code that was linked twice is listed twice.
\<close>

definition get_permissions :: "directory \<Rightarrow> int \<Rightarrow> string list" where
  "get_permissions d uid =
     (case get_account d uid of
        None \<Rightarrow> []
      | Some a \<Rightarrow>
          (case id_or_none (ac_role_id a) of
             None \<Rightarrow> []
           | Some rid \<Rightarrow>
               concat (map (\<lambda>(r, p). if r = rid then map pe_codename (filter (\<lambda>x. pe_id x = p) (di_permissions d)) else [])
                 (di_role_permission d))))"

definition get_merged_permissions :: "directory \<Rightarrow> int \<Rightarrow> string list" where
  "get_merged_permissions d uid = sort (get_permissions d uid)"

record role_create =
  rc_name :: string
  rc_name_cn :: string
  rc_description :: string
  rc_permission_codes :: "string list"

text \<open>\<open>str.isalnum\<close> and the checks of the request schemas.\<close>

definition py_isalnum :: "string \<Rightarrow> bool" where
  "py_isalnum s \<longleftrightarrow> s \<noteq> [] \<and> list_all (\<lambda>c. word_char c \<and> c \<noteq> CHR ''_'') s"

definition role_name_valid :: "string \<Rightarrow> bool" where
  "role_name_valid v \<longleftrightarrow> 2 \<le> length v \<and> py_isalnum (filter (\<lambda>c. c \<noteq> CHR ''_'') v)"

definition create_role :: "role_create \<Rightarrow> directory \<Rightarrow> (int \<times> directory) res" where
  "create_role r d =
     raise_if (\<not> role_name_valid (rc_name r)) (http 422 ''name'')
     (rbind (get_role_by_name d (rc_name r)) (\<lambda>existing.
      raise_if (existing \<noteq> None) (http 409 ''role exists'')
      (let rid = di_next_id d;
           d1 = d\<lparr>di_roles := di_roles d @ [\<lparr> ro_id = rid, ro_name = rc_name r, ro_name_cn = rc_name_cn r,
                    ro_description = rc_description r, ro_is_system = False, ro_is_active = True \<rparr>],
                  di_next_id := rid + 1\<rparr>
       in if rc_permission_codes r = [] then Inr (rid, d1)
          else rbind (set_permissions rid (rc_permission_codes r) d1) (\<lambda>d2. Inr (rid, d2)))))"

record role_update =
  rv_name_cn :: "string option"
  rv_description :: "string option"
  rv_is_active :: "bool option"
  rv_permission_codes :: "string list option"

definition update_role :: "int \<Rightarrow> role_update \<Rightarrow> directory \<Rightarrow> directory res" where
  "update_role rid v d =
     (case get_role d rid of
        None \<Rightarrow> Inl (http 404 ''role'')
      | Some r \<Rightarrow>
          (let r1 = r\<lparr>ro_name_cn := opt_set (rv_name_cn v) (ro_name_cn r),
                     ro_description := opt_set (rv_description v) (ro_description r),
                     ro_is_active := opt_set (rv_is_active v) (ro_is_active r)\<rparr>;
               d1 = d\<lparr>di_roles := row_put ro_id r1 (di_roles d)\<rparr>
           in case rv_permission_codes v of None \<Rightarrow> Inr d1 | Some codes \<Rightarrow> set_permissions rid codes d1))"

definition delete_role :: "int \<Rightarrow> directory \<Rightarrow> directory res" where
  "delete_role rid d =
     (case get_role d rid of
        None \<Rightarrow> Inl (http 404 ''role'')
      | Some r \<Rightarrow>
          raise_if (ro_is_system r) (http 409 ''built-in role'')
          (Inr (d\<lparr>di_users := map (\<lambda>a. a\<lparr>ac_role_id := clear_ref rid (ac_role_id a)\<rparr>) (di_users d),
                 di_roles := filter (\<lambda>x. ro_id x \<noteq> rid) (di_roles d),
                 di_role_permission := unlink_left rid (di_role_permission d)\<rparr>)))"

section \<open>Built-in roles\<close>

definition COMMON_MENUS :: "string list" where
  "COMMON_MENUS = [''menu_dashboard'', ''menu_sqlworkflow'', ''menu_query'', ''menu_schema'', ''sql_submit'']"

definition SUPERADMIN_CODES :: "string list" where
  "SUPERADMIN_CODES = COMMON_MENUS @ [''sql_submit_high_risk'', ''sql_review'', ''sql_execute'',
     ''sql_execute_for_resource_group'', ''query_submit'', ''query_applypriv'', ''query_review'', ''query_mgtpriv'',
     ''query_all_instances'', ''query_resource_group_instance'', ''observability_session_view'',
     ''observability_session_kill'', ''menu_observability'', ''observability_instance_all'', ''observability_sql_view'',
     ''observability_sql_analyze'', ''observability_collect_manage'', ''observability_alert_manage'', ''archive_apply'',
     ''archive_review'', ''archive_execute'', ''audit_user'', ''menu_system'', ''menu_audit'', ''system_config_manage'',
     ''instance_manage'', ''resource_group_manage'', ''user_manage'']"

definition DBA_CODES :: "string list" where
  "DBA_CODES = filter (\<lambda>c. c \<notin> {''query_resource_group_instance'', ''menu_system'', ''system_config_manage'', ''user_manage''})
     SUPERADMIN_CODES"

definition DBA_GROUP_CODES :: "string list" where
  "DBA_GROUP_CODES = filter (\<lambda>c. c \<notin> {''query_all_instances'', ''observability_instance_all'', ''menu_system'',
     ''system_config_manage'', ''user_manage''}) SUPERADMIN_CODES"

definition DEVELOPER_CODES :: "string list" where
  "DEVELOPER_CODES = COMMON_MENUS @ [''query_submit'', ''query_applypriv'', ''archive_apply'']"

definition BUILTIN_ROLES :: "(string \<times> string list) list" where
  "BUILTIN_ROLES = [(''superadmin'', SUPERADMIN_CODES), (''dba'', DBA_CODES), (''dba_group'', DBA_GROUP_CODES),
     (''developer'', DEVELOPER_CODES)]"

definition DEFAULT_PERMISSIONS :: "string list" where
  "DEFAULT_PERMISSIONS = [''menu_dashboard'', ''menu_sqlworkflow'', ''menu_query'', ''menu_schema'', ''menu_observability'',
     ''menu_system'', ''menu_audit'', ''sql_submit'', ''sql_submit_high_risk'', ''sql_review'', ''sql_execute'',
     ''sql_execute_for_resource_group'', ''query_submit'', ''query_applypriv'', ''query_review'', ''query_mgtpriv'',
     ''query_all_instances'', ''query_resource_group_instance'', ''observability_session_view'',
     ''observability_session_kill'', ''observability_instance_all'', ''observability_sql_view'', ''observability_sql_analyze'',
     ''observability_collect_manage'', ''observability_alert_manage'', ''archive_apply'', ''archive_review'',
     ''archive_execute'', ''audit_user'', ''system_config_manage'', ''instance_manage'', ''resource_group_manage'',
     ''user_manage'']"

definition init_default_permissions :: "directory \<Rightarrow> directory" where
  "init_default_permissions d = add_permissions (missing_codes d DEFAULT_PERMISSIONS) d"

definition init_role :: "string \<times> string list \<Rightarrow> directory \<Rightarrow> directory res" where
  "init_role def d =
     (case def of (n, codes) \<Rightarrow>
      rbind (get_role_by_name d n) (\<lambda>existing.
        case existing of
          Some r \<Rightarrow> set_permissions (ro_id r) codes d
        | None \<Rightarrow>
            set_permissions (di_next_id d) codes
              (d\<lparr>di_roles := di_roles d @ [\<lparr> ro_id = di_next_id d, ro_name = n, ro_name_cn = n, ro_description = n,
                   ro_is_system = True, ro_is_active = True \<rparr>],
                 di_next_id := di_next_id d + 1\<rparr>)))"

fun fold_res :: "('a \<Rightarrow> 'd \<Rightarrow> 'd res) \<Rightarrow> 'a list \<Rightarrow> 'd \<Rightarrow> 'd res" where
  "fold_res f [] d = Inr d"
| "fold_res f (x # xs) d = rbind (f x d) (fold_res f xs)"

definition init_builtin_roles :: "directory \<Rightarrow> directory res" where
  "init_builtin_roles d = fold_res init_role BUILTIN_ROLES (init_default_permissions d)"

section \<open>Users\<close>

record user_create =
  uc_username :: string
  uc_password :: string
  uc_display_name :: string
  uc_email :: string
  uc_phone :: string
  uc_dingtalk_user_id :: string
  uc_feishu_open_id :: string
  uc_wecom_userid :: string
  uc_is_superuser :: bool
  uc_role_id :: "int option"
  uc_manager_id :: "int option"
  uc_employee_id :: string
  uc_department :: string
  uc_title :: string
  uc_user_group_ids :: "int list"

record user_update =
  uv_display_name :: "string option"
  uv_email :: "string option"
  uv_phone :: "string option"
  uv_dingtalk_user_id :: "string option"
  uv_feishu_open_id :: "string option"
  uv_wecom_userid :: "string option"
  uv_is_active :: "bool option"
  uv_is_superuser :: "bool option"
  uv_role_id :: "int option"
  uv_manager_id :: "int option"
  uv_employee_id :: "string option"
  uv_department :: "string option"
  uv_title :: "string option"
  uv_user_group_ids :: "int list option"

definition username_valid :: "string \<Rightarrow> bool" where
  "username_valid v \<longleftrightarrow> 2 \<le> length v \<and> py_isalnum (filter (\<lambda>c. c \<noteq> CHR ''_'' \<and> c \<noteq> CHR ''-'') v)"

text \<open>The ids of \<open>ids\<close> that exist, in the order of the table.\<close>

definition existing_groups :: "directory \<Rightarrow> int list \<Rightarrow> int list" where
  "existing_groups d ids = filter (\<lambda>i. i \<in> set ids) (group_ids d)"

definition new_account :: "'t auth_env \<Rightarrow> user_create \<Rightarrow> string \<Rightarrow> time \<Rightarrow> directory \<Rightarrow> account" where
  "new_account env u salt now d =
     \<lparr> ac_id = di_next_id d, ac_username = uc_username u, ac_display_name = or_str (uc_display_name u) (uc_username u),
       ac_password = hash_password env salt (uc_password u), ac_email = uc_email u, ac_phone = uc_phone u,
       ac_dingtalk_user_id = uc_dingtalk_user_id u, ac_feishu_open_id = uc_feishu_open_id u,
       ac_wecom_userid = uc_wecom_userid u, ac_is_active = True, ac_is_superuser = uc_is_superuser u,
       ac_auth_type = ''local'', ac_external_id = [], ac_totp_secret = None, ac_totp_enabled = False,
       ac_role_id = id_or_none (uc_role_id u), ac_manager_id = id_or_none (uc_manager_id u),
       ac_employee_id = uc_employee_id u, ac_department = uc_department u, ac_title = uc_title u,
       ac_password_changed_at = now, ac_tenant_id = 1, ac_created_at = now \<rparr>"

definition create_user ::
    "'t auth_env \<Rightarrow> unit res \<Rightarrow> user_create \<Rightarrow> string \<Rightarrow> time \<Rightarrow> directory \<Rightarrow> (account \<times> directory) res" where
  "create_user env licence u salt now d =
     raise_if (\<not> username_valid (uc_username u)) (http 422 ''username'')
     (strong_request (uc_password u)
     (rbind licence (\<lambda>_.
      rbind (get_by_username d (uc_username u)) (\<lambda>existing.
      raise_if (existing \<noteq> None) (http 409 ''username exists'')
      (let a = new_account env u salt now d in
       raise_if (\<not> fk_ok (ac_role_id a) (role_ids d) \<or> \<not> fk_ok (ac_manager_id a) (user_ids d)) integrity_error
       (Inr (a, (add_user a d)\<lparr>di_user_group_member :=
           di_user_group_member d @ map (\<lambda>g. (ac_id a, g)) (existing_groups d (uc_user_group_ids u))\<rparr>)))))))"

definition updated_account :: "user_update \<Rightarrow> account \<Rightarrow> account" where
  "updated_account v a =
     a\<lparr>ac_display_name := opt_set (uv_display_name v) (ac_display_name a),
       ac_email := opt_set (uv_email v) (ac_email a), ac_phone := opt_set (uv_phone v) (ac_phone a),
       ac_dingtalk_user_id := opt_set (uv_dingtalk_user_id v) (ac_dingtalk_user_id a),
       ac_feishu_open_id := opt_set (uv_feishu_open_id v) (ac_feishu_open_id a),
       ac_wecom_userid := opt_set (uv_wecom_userid v) (ac_wecom_userid a),
       ac_is_active := opt_set (uv_is_active v) (ac_is_active a),
       ac_is_superuser := opt_set (uv_is_superuser v) (ac_is_superuser a),
       ac_role_id := opt_ref (uv_role_id v) (ac_role_id a),
       ac_manager_id := opt_ref (uv_manager_id v) (ac_manager_id a),
       ac_employee_id := opt_set (uv_employee_id v) (ac_employee_id a),
       ac_department := opt_set (uv_department v) (ac_department a),
       ac_title := opt_set (uv_title v) (ac_title a)\<rparr>"

definition apply_user_update :: "account \<Rightarrow> user_update \<Rightarrow> directory \<Rightarrow> directory" where
  "apply_user_update a v d =
     (let d1 = put_user (updated_account v a) d in
      case uv_user_group_ids v of
        None \<Rightarrow> d1
      | Some ids \<Rightarrow> d1\<lparr>di_user_group_member :=
          unlink_left (ac_id a) (di_user_group_member d) @ map (\<lambda>g. (ac_id a, g)) (existing_groups d ids)\<rparr>)"

definition update_user :: "int \<Rightarrow> user_update \<Rightarrow> directory \<Rightarrow> directory res" where
  "update_user uid v d =
     (case get_account d uid of
        None \<Rightarrow> Inl (http 404 ''user'')
      | Some a \<Rightarrow>
          raise_if (\<not> fk_ok (ac_role_id (updated_account v a)) (role_ids d)
             \<or> \<not> fk_ok (ac_manager_id (updated_account v a)) (user_ids d)) integrity_error
          (Inr (apply_user_update a v d)))"

definition delete_user :: "int \<Rightarrow> directory \<Rightarrow> directory res" where
  "delete_user uid d =
     (case get_account d uid of
        None \<Rightarrow> Inl (http 404 ''user'')
      | Some a \<Rightarrow>
          Inr (d\<lparr>di_users := map (\<lambda>b. b\<lparr>ac_manager_id := clear_ref uid (ac_manager_id b)\<rparr>)
                   (filter (\<lambda>b. ac_id b \<noteq> uid) (di_users d)),
                 di_groups := map (\<lambda>g. g\<lparr>gp_leader_id := clear_ref uid (gp_leader_id g)\<rparr>) (di_groups d),
                 di_user_group_member := unlink_left uid (di_user_group_member d)\<rparr>))"

section \<open>User groups\<close>

record group_create =
  gc_name :: string
  gc_name_cn :: string
  gc_description :: string
  gc_leader_id :: "int option"
  gc_parent_id :: "int option"
  gc_resource_group_ids :: "int list"
  gc_member_ids :: "int list"

record group_update =
  gv_name_cn :: "string option"
  gv_description :: "string option"
  gv_leader_id :: "int option"
  gv_parent_id :: "int option"
  gv_is_active :: "bool option"
  gv_resource_group_ids :: "int list option"
  gv_member_ids :: "int list option"

definition get_active_resource_groups :: "directory \<Rightarrow> int list \<Rightarrow> int list res" where
  "get_active_resource_groups d ids =
     (if ids = [] then Inr []
      else let groups = filter (\<lambda>r. rr_id r \<in> set ids \<and> rr_is_active r) (di_rgroups d) in
        raise_if (length groups \<noteq> length (remdups ids)) (http 400 ''resource groups'') (Inr (map rr_id groups)))"

definition set_group_links :: "int \<Rightarrow> int list option \<Rightarrow> int list option \<Rightarrow> directory \<Rightarrow> directory res" where
  "set_group_links gid rgs members d =
     rbind (case rgs of
         None \<Rightarrow> Inr d
       | Some ids \<Rightarrow> rbind (get_active_resource_groups d ids) (\<lambda>active.
           Inr (d\<lparr>di_group_resource_group :=
             unlink_left gid (di_group_resource_group d) @ map (\<lambda>r. (gid, r)) active\<rparr>))) (\<lambda>d1.
      case members of
        None \<Rightarrow> Inr d1
      | Some ids \<Rightarrow>
          raise_if (\<not> set ids \<subseteq> set (user_ids d1)) integrity_error
          (Inr (d1\<lparr>di_user_group_member := unlink_right gid (di_user_group_member d1) @ map (\<lambda>u. (u, gid)) ids\<rparr>)))"

definition create_group :: "group_create \<Rightarrow> directory \<Rightarrow> (int \<times> directory) res" where
  "create_group g d =
     raise_if (length (gc_name g) < 2) (http 422 ''name'')
     (rbind (scalar_one_or_none (filter (\<lambda>x. gp_name x = gc_name g) (di_groups d))) (\<lambda>existing.
      raise_if (existing \<noteq> None) (http 409 ''group exists'')
      (let gid = di_next_id d in
       raise_if (\<not> fk_ok (gc_leader_id g) (user_ids d) \<or> \<not> fk_ok (gc_parent_id g) (group_ids d)) integrity_error
       (rbind (set_group_links gid
           (if gc_resource_group_ids g = [] then None else Some (gc_resource_group_ids g))
           (if gc_member_ids g = [] then None else Some (gc_member_ids g))
           (d\<lparr>di_groups := di_groups d @ [\<lparr> gp_id = gid, gp_name = gc_name g, gp_name_cn = gc_name_cn g,
                gp_description = gc_description g, gp_leader_id = gc_leader_id g, gp_parent_id = gc_parent_id g,
                gp_is_active = True \<rparr>], di_next_id := gid + 1\<rparr>))
         (\<lambda>d1. Inr (gid, d1))))))"

definition update_group :: "int \<Rightarrow> group_update \<Rightarrow> directory \<Rightarrow> directory res" where
  "update_group gid v d =
     (case get_ugroup d gid of
        None \<Rightarrow> Inl (http 404 ''group'')
      | Some g \<Rightarrow>
          (let g1 = g\<lparr>gp_name_cn := opt_set (gv_name_cn v) (gp_name_cn g),
                     gp_description := opt_set (gv_description v) (gp_description g),
                     gp_leader_id := opt_ref (gv_leader_id v) (gp_leader_id g),
                     gp_parent_id := opt_ref (gv_parent_id v) (gp_parent_id g),
                     gp_is_active := opt_set (gv_is_active v) (gp_is_active g)\<rparr> in
           rbind (set_group_links gid (gv_resource_group_ids v) (gv_member_ids v) d) (\<lambda>d1.
           raise_if (\<not> fk_ok (gp_leader_id g1) (user_ids d) \<or> \<not> fk_ok (gp_parent_id g1) (group_ids d)) integrity_error
           (Inr (d1\<lparr>di_groups := row_put gp_id g1 (di_groups d1)\<rparr>)))))"

definition delete_group :: "int \<Rightarrow> directory \<Rightarrow> directory res" where
  "delete_group gid d =
     (case get_ugroup d gid of
        None \<Rightarrow> Inl (http 404 ''group'')
      | Some g \<Rightarrow>
          Inr (d\<lparr>di_groups := map (\<lambda>x. x\<lparr>gp_parent_id := clear_ref gid (gp_parent_id x)\<rparr>)
                   (filter (\<lambda>x. gp_id x \<noteq> gid) (di_groups d)),
                 di_user_group_member := unlink_right gid (di_user_group_member d),
                 di_group_resource_group := unlink_left gid (di_group_resource_group d)\<rparr>))"

definition list_members_for_resource_group :: "directory \<Rightarrow> int \<Rightarrow> account list" where
  "list_members_for_resource_group d rid =
     filter (\<lambda>a. list_ex (\<lambda>(u, g). u = ac_id a \<and> (g, rid) \<in> set (di_group_resource_group d)) (di_user_group_member d))
       (di_users d)"

definition update_resource_group_user_groups :: "int \<Rightarrow> int list \<Rightarrow> directory \<Rightarrow> directory res" where
  "update_resource_group_user_groups rid gids d =
     (case get_rgroup d rid of
        None \<Rightarrow> Inl (http 404 ''resource group'')
      | Some r \<Rightarrow>
          raise_if (\<not> set gids \<subseteq> set (group_ids d)) integrity_error
          (Inr (d\<lparr>di_group_resource_group :=
             unlink_right rid (di_group_resource_group d) @ map (\<lambda>g. (g, rid)) gids\<rparr>)))"

section \<open>Resource groups\<close>

record rgroup_create =
  xc_group_name :: string
  xc_group_name_cn :: string
  xc_instance_ids :: "int list"
  xc_user_group_ids :: "int list"

record rgroup_update =
  xv_group_name_cn :: "string option"
  xv_is_active :: "bool option"
  xv_instance_ids :: "int list option"
  xv_user_group_ids :: "int list option"

definition active_instances :: "directory \<Rightarrow> int list \<Rightarrow> int list" where
  "active_instances d ids = map fst (filter (\<lambda>(i, active). i \<in> set ids \<and> active) (di_instances d))"

definition set_rgroup_links :: "int \<Rightarrow> int list option \<Rightarrow> int list option \<Rightarrow> directory \<Rightarrow> directory" where
  "set_rgroup_links rid instances groups d =
     (let d1 = (case instances of None \<Rightarrow> d
                | Some ids \<Rightarrow> d\<lparr>di_instance_resource_group :=
                    unlink_right rid (di_instance_resource_group d) @ map (\<lambda>i. (i, rid)) (active_instances d ids)\<rparr>)
      in case groups of None \<Rightarrow> d1
         | Some ids \<Rightarrow> d1\<lparr>di_group_resource_group :=
             unlink_right rid (di_group_resource_group d1) @ map (\<lambda>g. (g, rid)) (existing_groups d1 ids)\<rparr>)"

definition create_rgroup :: "rgroup_create \<Rightarrow> directory \<Rightarrow> (int \<times> directory) res" where
  "create_rgroup x d =
     raise_if (length (xc_group_name x) < 2) (http 422 ''group_name'')
     (rbind (scalar_one_or_none (filter (\<lambda>r. rr_group_name r = xc_group_name x) (di_rgroups d))) (\<lambda>existing.
      raise_if (existing \<noteq> None) (http 409 ''resource group exists'')
      (let rid = di_next_id d in
       Inr (rid, set_rgroup_links rid (if xc_instance_ids x = [] then None else Some (xc_instance_ids x))
         (if xc_user_group_ids x = [] then None else Some (xc_user_group_ids x))
         (d\<lparr>di_rgroups := di_rgroups d @ [\<lparr> rr_id = rid, rr_group_name = xc_group_name x,
              rr_group_name_cn = xc_group_name_cn x, rr_is_active = True \<rparr>], di_next_id := rid + 1\<rparr>)))))"

definition update_rgroup :: "int \<Rightarrow> rgroup_update \<Rightarrow> directory \<Rightarrow> directory res" where
  "update_rgroup rid v d =
     (case get_rgroup d rid of
        None \<Rightarrow> Inl (http 404 ''resource group'')
      | Some r \<Rightarrow>
          (let r1 = r\<lparr>rr_group_name_cn := opt_set (xv_group_name_cn v) (rr_group_name_cn r),
                     rr_is_active := opt_set (xv_is_active v) (rr_is_active r)\<rparr>
           in Inr (set_rgroup_links rid (xv_instance_ids v) (xv_user_group_ids v)
                (d\<lparr>di_rgroups := row_put rr_id r1 (di_rgroups d)\<rparr>))))"

definition delete_rgroup :: "int \<Rightarrow> directory \<Rightarrow> directory res" where
  "delete_rgroup rid d =
     (case get_rgroup d rid of
        None \<Rightarrow> Inl (http 404 ''resource group'')
      | Some r \<Rightarrow>
          Inr (d\<lparr>di_rgroups := filter (\<lambda>x. rr_id x \<noteq> rid) (di_rgroups d),
                 di_group_resource_group := unlink_right rid (di_group_resource_group d),
                 di_instance_resource_group := unlink_right rid (di_instance_resource_group d)\<rparr>))"

definition get_member_count :: "directory \<Rightarrow> int \<Rightarrow> nat" where
  "get_member_count d rid =
     length (remdups (map fst (filter (\<lambda>(u, g). (g, rid) \<in> set (di_group_resource_group d)) (di_user_group_member d))))"

section \<open>Import of users\<close>

text \<open>
  A row of the file after the headers were normalised: the cells by column, all of them
  stripped texts. The Chinese spellings of the flags are outside the modelled characters.
\<close>

type_synonym import_row = "string \<rightharpoonup> string"

definition cell_of :: "import_row \<Rightarrow> string \<Rightarrow> string" where
  "cell_of row k = (case row k of None \<Rightarrow> [] | Some v \<Rightarrow> v)"

definition normalize_bool :: "string option \<Rightarrow> bool \<Rightarrow> bool" where
  "normalize_bool value dflt =
     (case value of
        None \<Rightarrow> dflt
      | Some v \<Rightarrow>
          (let n = py_lower (py_strip v) in
           if n \<in> {''1'', ''true'', ''yes'', ''y'', ''on''} then True
           else if n \<in> {''0'', ''false'', ''no'', ''n'', ''off''} then False
           else dflt))"

definition split_multi_value :: "string \<Rightarrow> string list" where
  "split_multi_value raw =
     filter (\<lambda>v. v \<noteq> []) (map py_strip (py_split (CHR '','')
       (map (\<lambda>c. if c = CHR '';'' \<or> c = CHR ''|'' \<or> char_code c = 10 then CHR '','' else c) raw)))"

definition resolve_role_id :: "directory \<Rightarrow> string \<Rightarrow> int option res" where
  "resolve_role_id d raw =
     (let v = py_strip raw in
      if v = [] then Inr None
      else rbind (scalar_one_or_none (filter (\<lambda>r. ro_name r = v \<or> ro_name_cn r = v) (di_roles d))) (\<lambda>role.
        case role of None \<Rightarrow> Inl (http 400 ''role'') | Some r \<Rightarrow> Inr (Some (ro_id r))))"

text \<open>
  \<open>shown\<close> holds the accounts as of the last flush: the select by display name reads these,
  not the names that earlier rows of the same import have set.
\<close>

definition resolve_manager_id :: "account list \<Rightarrow> directory \<Rightarrow> string \<Rightarrow> string \<Rightarrow> int option res" where
  "resolve_manager_id shown d raw_username raw_display =
     (let n = py_strip raw_username; dn = py_strip raw_display;
          by_display = (case filter (\<lambda>a. ac_display_name a = dn) shown of
              [] \<Rightarrow> Inl (http 400 ''manager'') | [a] \<Rightarrow> Inr (Some (ac_id a)) | _ \<Rightarrow> Inl (http 400 ''manager not unique''))
      in if n = [] \<and> dn = [] then Inr None
         else if n \<noteq> [] then
           rbind (get_by_username d n) (\<lambda>user.
             case user of
               Some a \<Rightarrow> Inr (Some (ac_id a))
             | None \<Rightarrow> if dn = [] then Inl (http 400 ''manager'') else by_display)
         else by_display)"

text \<open>
  Groups that are missing are created, whatever becomes of the rest of the row.
\<close>

fun new_groups :: "int \<Rightarrow> string list \<Rightarrow> group_row list" where
  "new_groups n [] = []"
| "new_groups n (x # xs) = \<lparr> gp_id = n, gp_name = x, gp_name_cn = x, gp_description = ''created by the import of users'',
     gp_leader_id = None, gp_parent_id = None, gp_is_active = True \<rparr> # new_groups (n + 1) xs"

definition resolve_user_group_ids :: "directory \<Rightarrow> string \<Rightarrow> int list \<times> directory" where
  "resolve_user_group_ids d raw =
     (let names = rev (remdups (rev (split_multi_value raw)));
          resolved = filter (\<lambda>g. gp_name g \<in> set names \<or> gp_name_cn g \<in> set names) (di_groups d);
          missing = filter (\<lambda>n. n \<notin> gp_name ` set resolved \<and> n \<notin> gp_name_cn ` set resolved) names;
          fresh = new_groups (di_next_id d) missing
      in (map gp_id resolved @ map gp_id fresh,
          d\<lparr>di_groups := di_groups d @ fresh, di_next_id := di_next_id d + int (length missing)\<rparr>))"

definition import_update :: "account \<Rightarrow> import_row \<Rightarrow> int option \<Rightarrow> int option \<Rightarrow> int list \<Rightarrow> user_update" where
  "import_update a row role manager groups =
     \<lparr> uv_display_name = row ''display_name'', uv_email = row ''email'', uv_phone = row ''phone'',
       uv_dingtalk_user_id = row ''dingtalk_user_id'', uv_feishu_open_id = row ''feishu_open_id'',
       uv_wecom_userid = row ''wecom_userid'',
       uv_is_active = Some (normalize_bool (row ''is_active'') (ac_is_active a)),
       uv_is_superuser = Some (normalize_bool (row ''is_superuser'') (ac_is_superuser a)),
       uv_role_id = (if py_strip (cell_of row ''role'') \<noteq> [] then role else Some 0),
       uv_manager_id = (if py_strip (cell_of row ''manager_username'') \<noteq> [] \<or> py_strip (cell_of row ''manager_display_name'') \<noteq> []
          then manager else Some 0),
       uv_employee_id = row ''employee_id'', uv_department = row ''department'', uv_title = row ''title'',
       uv_user_group_ids = Some groups \<rparr>"

definition import_create :: "import_row \<Rightarrow> string \<Rightarrow> string \<Rightarrow> int option \<Rightarrow> int option \<Rightarrow> int list \<Rightarrow> user_create" where
  "import_create row username password role manager groups =
     \<lparr> uc_username = username, uc_password = password,
       uc_display_name = or_str (cell_of row ''display_name'') username, uc_email = cell_of row ''email'',
       uc_phone = cell_of row ''phone'', uc_dingtalk_user_id = cell_of row ''dingtalk_user_id'',
       uc_feishu_open_id = cell_of row ''feishu_open_id'', uc_wecom_userid = cell_of row ''wecom_userid'',
       uc_is_superuser = normalize_bool (row ''is_superuser'') False, uc_role_id = role, uc_manager_id = manager,
       uc_employee_id = cell_of row ''employee_id'', uc_department = cell_of row ''department'',
       uc_title = cell_of row ''title'', uc_user_group_ids = groups \<rparr>"

text \<open>
  One row: \<open>Inr True\<close> for a created, \<open>Inr False\<close> for an updated user. The password of an
  existing user is not checked for strength, and its date goes back to the creation. The
  accounts are flushed when a group or a user is added.
\<close>

definition upsert_imported_user ::
    "'t auth_env \<Rightarrow> unit res \<Rightarrow> string \<Rightarrow> string \<Rightarrow> time \<Rightarrow> import_row \<Rightarrow> account list \<Rightarrow> directory
       \<Rightarrow> bool res \<times> account list \<times> directory" where
  "upsert_imported_user env licence default_password salt now row shown d =
     (let username = py_strip (cell_of row ''username'') in
      if username = [] then (Inl (http 400 ''username''), shown, d)
      else case rbind (resolve_role_id d (cell_of row ''role'')) (\<lambda>role.
             rbind (resolve_manager_id shown d (cell_of row ''manager_username'') (cell_of row ''manager_display_name'')) (\<lambda>manager.
             Inr (role, manager))) of
        Inl e \<Rightarrow> (Inl e, shown, d)
      | Inr (role, manager) \<Rightarrow>
          (case resolve_user_group_ids d (cell_of row ''user_groups'') of (groups, d1) \<Rightarrow>
             let password = py_strip (cell_of row ''password'');
                 shown1 = (if di_groups d1 = di_groups d then shown else di_users d1) in
             case get_by_username d1 username of
               Inl e \<Rightarrow> (Inl e, shown1, d1)
             | Inr (Some a) \<Rightarrow>
                 (let d2 = apply_user_update a (import_update a row role manager groups) d1;
                      b = updated_account (import_update a row role manager groups) a
                  in (Inr False, shown1,
                      if password = [] then d2
                      else put_user (b\<lparr>ac_password := hash_password env salt password,
                                      ac_password_changed_at := ac_created_at a\<rparr>) d2))
             | Inr None \<Rightarrow>
                 (case create_user env licence (import_create row username (or_str password default_password) role manager groups) salt now d1 of
                    Inl e \<Rightarrow> (Inl e, shown1, d1)
                  | Inr (a, d2) \<Rightarrow> (Inr True, di_users d2, d2))))"

fun import_rows ::
    "'t auth_env \<Rightarrow> unit res \<Rightarrow> string \<Rightarrow> string \<Rightarrow> time \<Rightarrow> import_row list \<Rightarrow> account list \<Rightarrow> directory
       \<Rightarrow> bool res list \<times> directory" where
  "import_rows env licence pw salt now [] shown d = ([], d)"
| "import_rows env licence pw salt now (row # rows) shown d =
     (case upsert_imported_user env licence pw salt now row shown d of (r, shown1, d1) \<Rightarrow>
      case import_rows env licence pw salt now rows shown1 d1 of (rs, d2) \<Rightarrow> (r # rs, d2))"

text \<open>\<open>suffix\<close> is the extension of the file, \<open>rows\<close> what the CSV or workbook reader returns.\<close>

definition import_users ::
    "'t auth_env \<Rightarrow> unit res \<Rightarrow> string \<Rightarrow> import_row list \<Rightarrow> string \<Rightarrow> string \<Rightarrow> time \<Rightarrow> directory \<Rightarrow> (bool res list \<times> directory) res" where
  "import_users env licence suffix rows default_password salt now d =
     raise_if (py_lower suffix \<notin> {''.csv'', ''.xlsx''}) (http 400 ''file type'')
     (raise_if (get_password_policy_violations default_password \<noteq> []) (http 400 ''default password'')
     (raise_if (rows = []) (http 400 ''empty file'')
     (Inr (import_rows env licence default_password salt now rows (di_users d) d))))"

section \<open>Endpoints\<close>

text \<open>
  \<open>/init/\<close> has no dependency on a session: it resets the built-in roles and creates the
  account \<open>admin\<close> when there is none.
\<close>

definition init_system :: "'t auth_env \<Rightarrow> unit res \<Rightarrow> string \<Rightarrow> time \<Rightarrow> directory \<Rightarrow> directory res" where
  "init_system env licence salt now d =
     rbind (init_builtin_roles d) (\<lambda>d1.
     rbind (get_by_username d1 ''admin'') (\<lambda>existing.
       if existing \<noteq> None then Inr d1
       else rbind (create_user env licence
           \<lparr> uc_username = ''admin'', uc_password = ''Admin@2024!'', uc_display_name = ''super administrator'', uc_email = [],
             uc_phone = [], uc_dingtalk_user_id = [], uc_feishu_open_id = [], uc_wecom_userid = [], uc_is_superuser = True,
             uc_role_id = None, uc_manager_id = None, uc_employee_id = [], uc_department = [], uc_title = [],
             uc_user_group_ids = [] \<rparr> salt now d1) (\<lambda>(a, d2). Inr d2)))"

datatype admin_request =
    CreateUser user_create | UpdateUser int user_update | DeleteUser int
  | GrantPermissions int "string list" | RevokePermissions int "string list" | ImportUsers string "import_row list" string
  | CreateRole role_create | UpdateRole int role_update | DeleteRole int
  | CreateGroup group_create | UpdateGroup int group_update | DeleteGroup int
  | CreateRgroup rgroup_create | UpdateRgroup int rgroup_update | DeleteRgroup int | RgroupUserGroups int "int list"

fun required_permission :: "admin_request \<Rightarrow> string" where
  "required_permission (CreateRgroup x) = ''resource_group_manage''"
| "required_permission (UpdateRgroup i v) = ''resource_group_manage''"
| "required_permission (DeleteRgroup i) = ''resource_group_manage''"
| "required_permission (RgroupUserGroups i gs) = ''resource_group_manage''"
| "required_permission _ = ''user_manage''"

fun admin_effect :: "'t auth_env \<Rightarrow> unit res \<Rightarrow> string \<Rightarrow> time \<Rightarrow> admin_request \<Rightarrow> directory \<Rightarrow> directory res" where
  "admin_effect env lic salt now (CreateUser u) d = rbind lic (\<lambda>_. rbind (create_user env lic u salt now d) (\<lambda>(a, d1). Inr d1))"
| "admin_effect env lic salt now (UpdateUser i v) d = update_user i v d"
| "admin_effect env lic salt now (DeleteUser i) d = delete_user i d"
| "admin_effect env lic salt now (GrantPermissions i cs) d = grant_permissions i cs d"
| "admin_effect env lic salt now (RevokePermissions i cs) d = Inr (revoke_permissions i cs d)"
| "admin_effect env lic salt now (ImportUsers suffix rows pw) d =
     rbind (import_users env lic suffix rows pw salt now d) (\<lambda>(rs, d1). Inr d1)"
| "admin_effect env lic salt now (CreateRole r) d = rbind (create_role r d) (\<lambda>(i, d1). Inr d1)"
| "admin_effect env lic salt now (UpdateRole i v) d = update_role i v d"
| "admin_effect env lic salt now (DeleteRole i) d = delete_role i d"
| "admin_effect env lic salt now (CreateGroup g) d = rbind (create_group g d) (\<lambda>(i, d1). Inr d1)"
| "admin_effect env lic salt now (UpdateGroup i v) d = update_group i v d"
| "admin_effect env lic salt now (DeleteGroup i) d = delete_group i d"
| "admin_effect env lic salt now (CreateRgroup x) d = rbind (create_rgroup x d) (\<lambda>(i, d1). Inr d1)"
| "admin_effect env lic salt now (UpdateRgroup i v) d = update_rgroup i v d"
| "admin_effect env lic salt now (DeleteRgroup i) d = delete_rgroup i d"
| "admin_effect env lic salt now (RgroupUserGroups i gs) d = update_resource_group_user_groups i gs d"

definition admin_endpoint :: "'t auth_env \<Rightarrow> unit res \<Rightarrow> string \<Rightarrow> time \<Rightarrow> operator \<Rightarrow> admin_request \<Rightarrow> directory \<Rightarrow> directory res" where
  "admin_endpoint env lic salt now u r d =
     rbind (require_perm (required_permission r) u) (\<lambda>_. admin_effect env lic salt now r d)"

end
