(* ===== verification/Access_Facts.thy ===== *)
theory Access_Facts
  imports Access_Control
begin

text \<open>
  What the management of accounts keeps and grants: the directory stays well-formed under
  every request, the built-in roles survive, and who gains or loses rights by which request.
\<close>

section \<open>Well-formedness\<close>

lemma wf_next: "directory_wf d \<Longrightarrow> 0 < di_next_id d"
  by (simp add: directory_wf_def)

lemma wf_users: "directory_wf d \<Longrightarrow> users_wf d"
  by (simp add: directory_wf_def)

lemma refs_map_clear:
  "refs_wf (map f xs) ks \<Longrightarrow> refs_wf (map (\<lambda>x. clear_ref i (f x)) (filter P xs)) (filter (\<lambda>k. k \<noteq> i) ks)"
  "refs_wf (map f xs) ks \<Longrightarrow> refs_wf (map (\<lambda>x. clear_ref i (f x)) xs) (filter (\<lambda>k. k \<noteq> i) ks)"
  by (auto simp: refs_wf_def clear_ref_def list_all_iff split: option.splits)

lemma refs_filter: "refs_wf (map f xs) ks \<Longrightarrow> refs_wf (map f (filter P xs)) ks"
  by (auto simp: refs_wf_def list_all_iff)

lemma map_filter_key: "map f (filter (\<lambda>x. f x \<noteq> k) xs) = filter (\<lambda>y. y \<noteq> k) (map f xs)"
  by (induction xs) auto

lemma links_unlink_left: "links_wf ls as bs \<Longrightarrow> links_wf (unlink_left i ls) (filter (\<lambda>k. k \<noteq> i) as) bs"
  by (auto simp: links_wf_def unlink_left_def list_all_iff)

lemma links_unlink_right: "links_wf ls as bs \<Longrightarrow> links_wf (unlink_right i ls) as (filter (\<lambda>k. k \<noteq> i) bs)"
  by (auto simp: links_wf_def unlink_right_def list_all_iff)

lemma links_unlink [simp]:
  "links_wf ls as bs \<Longrightarrow> links_wf (unlink_left i ls) as bs"
  "links_wf ls as bs \<Longrightarrow> links_wf (unlink_right i ls) as bs"
  by (auto simp: links_wf_def unlink_left_def unlink_right_def list_all_iff)

lemma links_from [simp]: "links_wf (map (\<lambda>x. (i, f x)) xs) as bs \<longleftrightarrow> xs = [] \<or> i \<in> set as \<and> f ` set xs \<subseteq> set bs"
  by (cases xs) (auto simp: links_wf_def list_all_iff)

lemma links_to [simp]: "links_wf (map (\<lambda>x. (f x, i)) xs) as bs \<longleftrightarrow> xs = [] \<or> i \<in> set bs \<and> f ` set xs \<subseteq> set as"
  by (cases xs) (auto simp: links_wf_def list_all_iff)

lemma keys_filter: "keys_wf n ks \<Longrightarrow> keys_wf n (filter P ks)"
  by (auto simp: keys_wf_def list_all_iff)

lemma distinct_map_filter: "distinct (map f xs) \<Longrightarrow> distinct (map f (filter P xs))"
  by (auto simp: distinct_map inj_on_def)

lemma refs_fk: "refs_wf [r] ks \<longleftrightarrow> fk_ok r ks"
  by (simp add: refs_wf_def fk_ok_def split: option.splits)

lemma fk_ok_append: "fk_ok r ks \<Longrightarrow> fk_ok r (ks @ ls)"
  by (simp add: fk_ok_def split: option.splits)

lemma map_row_put_other: "(\<And>x. key x = key r \<Longrightarrow> x \<in> set xs \<Longrightarrow> f x = f r) \<Longrightarrow> map f (row_put key r xs) = map f xs"
  by (auto simp: row_put_def)

lemma keys_new_permissions:
  "keys_wf n ks \<Longrightarrow> 0 < n \<Longrightarrow> keys_wf (n + int (length cs)) (ks @ map pe_id (new_permissions n cs))"
proof (induction cs arbitrary: n ks)
  case Nil
  then show ?case by simp
next
  case (Cons c cs)
  have "keys_wf (n + 1 + int (length cs)) ((ks @ [n]) @ map pe_id (new_permissions (n + 1) cs))"
    by (rule Cons.IH) (use Cons.prems in \<open>auto intro: keys_wf_append\<close>)
  then show ?case by (simp add: algebra_simps)
qed

lemma keys_new_groups:
  "keys_wf n ks \<Longrightarrow> 0 < n \<Longrightarrow> keys_wf (n + int (length cs)) (ks @ map gp_id (new_groups n cs))"
proof (induction cs arbitrary: n ks)
  case Nil
  then show ?case by simp
next
  case (Cons c cs)
  have "keys_wf (n + 1 + int (length cs)) ((ks @ [n]) @ map gp_id (new_groups (n + 1) cs))"
    by (rule Cons.IH) (use Cons.prems in \<open>auto intro: keys_wf_append\<close>)
  then show ?case by (simp add: algebra_simps)
qed

lemma map_new_permissions [simp]: "map pe_codename (new_permissions n cs) = cs"
  by (induction cs arbitrary: n) auto

lemma map_new_groups [simp]:
  "map gp_name (new_groups n cs) = cs" "map gp_leader_id (new_groups n cs) = map (\<lambda>_. None) cs"
  "map gp_parent_id (new_groups n cs) = map (\<lambda>_. None) cs"
  by (induction cs arbitrary: n) auto

lemma refs_none [simp]: "refs_wf (map (\<lambda>_. None) xs) ks"
  by (simp add: refs_wf_def list_all_iff)

text \<open>The next key may grow, and permissions with new codes may be added.\<close>

lemma wf_add_permissions:
  assumes "directory_wf d" "distinct cs" "set cs \<inter> pe_codename ` set (di_permissions d) = {}"
  shows "directory_wf (add_permissions cs d)"
proof -
  have "keys_wf (di_next_id d + int (length cs)) (perm_ids d @ map pe_id (new_permissions (di_next_id d) cs))"
    using assms(1) by (intro keys_new_permissions) (auto simp: directory_wf_def)
  moreover have "links_wf (di_role_permission d) (role_ids d) (perm_ids d @ map pe_id (new_permissions (di_next_id d) cs))"
    using assms(1) by (auto simp: directory_wf_def intro: links_wf_mono)
  ultimately show ?thesis
    using assms by (auto simp: directory_wf_def add_permissions_def users_wf_def intro: keys_wf_mono)
qed

lemma missing_disjoint: "set (missing_codes d cs) \<inter> pe_codename ` set (di_permissions d) = {}"
  by (auto simp: missing_codes_def)

lemma wf_set_permissions:
  assumes "directory_wf d" "rid \<in> set (role_ids d)" "set_permissions rid codes d = Inr d'"
  shows "directory_wf d'"
proof -
  let ?d1 = "add_permissions (missing_codes d codes) d"
  have d': "distinct (missing_codes d codes)" "d' = ?d1\<lparr>di_role_permission := unlink_left rid (di_role_permission d)
      @ map (\<lambda>p. (rid, pe_id p)) (permissions_in ?d1 codes)\<rparr>"
    using assms(3) by (auto simp: set_permissions_def Let_def res_simps)
  have "directory_wf ?d1" by (rule wf_add_permissions [OF assms(1) d'(1) missing_disjoint])
  then show ?thesis
    using assms(1,2) unfolding d'(2)
    by (auto simp: directory_wf_def users_wf_def permissions_in_def add_permissions_def intro: links_wf_mono)
qed

lemma get_role_member: "get_role d rid = Some r \<Longrightarrow> r \<in> set (di_roles d) \<and> ro_id r = rid"
  by (auto simp: get_role_def dest: row_get_key)

lemma get_role_id: "get_role d rid = Some r \<Longrightarrow> rid \<in> set (role_ids d)"
  using get_role_member by force

lemma get_role_by_name_iff:
  "directory_wf d \<Longrightarrow> get_role_by_name d n = Inr r \<longleftrightarrow>
     (case r of None \<Rightarrow> n \<notin> ro_name ` set (di_roles d) | Some x \<Rightarrow> x \<in> set (di_roles d) \<and> ro_name x = n)"
  unfolding get_role_by_name_def by (rule scalar_unique) (simp add: directory_wf_def)

lemma wf_add_role:
  "directory_wf d \<Longrightarrow> ro_id r = di_next_id d \<Longrightarrow> ro_name r \<notin> ro_name ` set (di_roles d) \<Longrightarrow>
     directory_wf (d\<lparr>di_roles := di_roles d @ [r], di_next_id := di_next_id d + 1\<rparr>)"
  by (auto simp: directory_wf_def users_wf_def intro: keys_wf_append keys_wf_mono links_wf_mono refs_wf_mono)

lemma wf_put_user:
  assumes "directory_wf d" "get_account d (ac_id b) = Some a" "ac_username b = ac_username a"
    and "fk_ok (ac_role_id b) (role_ids d)" "fk_ok (ac_manager_id b) (user_ids d)"
  shows "directory_wf (put_user b d)"
  using assms users_wf_put [OF wf_users [OF assms(1)] assms(2,3)]
  by (auto simp: directory_wf_def put_user_def map_key_row_put refs_fk users_wf_def intro!: refs_wf_put)

lemma wf_member_links:
  "directory_wf d \<Longrightarrow> links_wf ls (user_ids d) (group_ids d) \<Longrightarrow> directory_wf (d\<lparr>di_user_group_member := ls\<rparr>)"
  by (simp add: directory_wf_def users_wf_def)

lemma wf_group_links:
  "directory_wf d \<Longrightarrow> links_wf ls (group_ids d) (rgroup_ids d) \<Longrightarrow> directory_wf (d\<lparr>di_group_resource_group := ls\<rparr>)"
  by (simp add: directory_wf_def users_wf_def)

lemma wf_role_links:
  "directory_wf d \<Longrightarrow> links_wf ls (role_ids d) (perm_ids d) \<Longrightarrow> directory_wf (d\<lparr>di_role_permission := ls\<rparr>)"
  by (simp add: directory_wf_def users_wf_def)

lemma wf_instance_links:
  "directory_wf d \<Longrightarrow> links_wf ls (map fst (di_instances d)) (rgroup_ids d) \<Longrightarrow> directory_wf (d\<lparr>di_instance_resource_group := ls\<rparr>)"
  by (simp add: directory_wf_def users_wf_def)

lemma wf_links:
  assumes "directory_wf d"
  shows "links_wf (di_user_group_member d) (user_ids d) (group_ids d)"
    "links_wf (di_group_resource_group d) (group_ids d) (rgroup_ids d)"
    "links_wf (di_role_permission d) (role_ids d) (perm_ids d)"
    "links_wf (di_instance_resource_group d) (map fst (di_instances d)) (rgroup_ids d)"
  using assms by (simp_all add: directory_wf_def)

lemma wf_refs:
  assumes "directory_wf d" "a \<in> set (di_users d)"
  shows "fk_ok (ac_role_id a) (role_ids d)" "fk_ok (ac_manager_id a) (user_ids d)"
  using assms by (auto simp: directory_wf_def refs_wf_def list_all_iff fk_ok_def split: option.splits)

lemma existing_groups_subset: "set (existing_groups d ids) \<subseteq> set (group_ids d)"
  by (auto simp: existing_groups_def)

lemma user_ids_put [simp]: "user_ids (put_user b d) = user_ids d"
  by (simp add: put_user_def map_key_row_put)

lemma put_user_fields [simp]:
  "di_groups (put_user b d) = di_groups d" "di_rgroups (put_user b d) = di_rgroups d"
  "di_permissions (put_user b d) = di_permissions d" "di_role_permission (put_user b d) = di_role_permission d"
  "di_user_group_member (put_user b d) = di_user_group_member d"
  "di_group_resource_group (put_user b d) = di_group_resource_group d"
  "di_instance_resource_group (put_user b d) = di_instance_resource_group d" "di_instances (put_user b d) = di_instances d"
  by (simp_all add: put_user_def)

lemma get_account_in: "get_account d i = Some a \<Longrightarrow> a \<in> set (di_users d) \<and> ac_id a = i"
  by (auto simp: get_account_def dest: row_get_key)

lemma get_account_in_ids: "get_account d i = Some a \<Longrightarrow> i \<in> set (user_ids d)"
  using get_account_in by force

lemma updated_account_fields [simp]:
  "ac_id (updated_account v a) = ac_id a" "ac_username (updated_account v a) = ac_username a"
  "ac_password_changed_at (updated_account v a) = ac_password_changed_at a"
  by (simp_all add: updated_account_def)

lemma wf_apply_user_update:
  assumes "directory_wf d" "get_account d (ac_id a) = Some a"
    and "fk_ok (ac_role_id (updated_account v a)) (role_ids d)" "fk_ok (ac_manager_id (updated_account v a)) (user_ids d)"
  shows "directory_wf (apply_user_update a v d)"
proof -
  have w: "directory_wf (put_user (updated_account v a) d)"
    by (rule wf_put_user [OF assms(1), of _ a]) (use assms in simp_all)
  show ?thesis
  proof (cases "uv_user_group_ids v")
    case None
    then show ?thesis using w by (simp add: apply_user_update_def)
  next
    case (Some ids)
    have "directory_wf ((put_user (updated_account v a) d)\<lparr>di_user_group_member :=
        unlink_left (ac_id a) (di_user_group_member d) @ map (\<lambda>g. (ac_id a, g)) (existing_groups d ids)\<rparr>)"
      by (rule wf_member_links [OF w])
        (use wf_links(1) [OF assms(1)] existing_groups_subset get_account_in_ids [OF assms(2)] in auto)
    then show ?thesis using Some by (simp add: apply_user_update_def)
  qed
qed

lemma wf_update_user: "directory_wf d \<Longrightarrow> update_user uid v d = Inr d' \<Longrightarrow> directory_wf d'"
  by (auto simp: update_user_def res_simps split: option.splits dest: get_account_id intro!: wf_apply_user_update)

lemma wf_add_user:
  assumes "directory_wf d" "ac_id a = di_next_id d" "ac_username a \<notin> ac_username ` set (di_users d)"
    and "fk_ok (ac_role_id a) (role_ids d)" "fk_ok (ac_manager_id a) (user_ids d)"
  shows "directory_wf (add_user a d)"
proof -
  have "users_wf (add_user a d)" by (rule users_wf_add) (use assms wf_next wf_users in simp_all)
  then show ?thesis
    using assms by (auto simp: directory_wf_def add_user_def users_wf_def refs_fk
        intro: keys_wf_mono links_wf_mono refs_wf_mono fk_ok_append)
qed

lemma wf_create_user:
  assumes "directory_wf d" "create_user env lic u salt now d = Inr (a, d')"
  shows "directory_wf d'"
proof -
  have c: "get_by_username d (uc_username u) = Inr None" "a = new_account env u salt now d"
    "fk_ok (ac_role_id a) (role_ids d)" "fk_ok (ac_manager_id a) (user_ids d)"
    "d' = (add_user a d)\<lparr>di_user_group_member := di_user_group_member d
        @ map (\<lambda>g. (ac_id a, g)) (existing_groups d (uc_user_group_ids u))\<rparr>"
    using assms(2) by (auto simp: create_user_def res_simps strong_request_Inr Let_def)
  have w: "directory_wf (add_user a d)"
    by (rule wf_add_user) (use assms(1) c get_by_username_iff [OF wf_users [OF assms(1)]] in \<open>auto simp: new_account_def\<close>)
  have "directory_wf ((add_user a d)\<lparr>di_user_group_member := di_user_group_member d
        @ map (\<lambda>g. (ac_id a, g)) (existing_groups d (uc_user_group_ids u))\<rparr>)"
    by (rule wf_member_links [OF w])
      (use wf_links(1) [OF assms(1)] existing_groups_subset in \<open>auto simp: add_user_def intro: links_wf_mono\<close>)
  then show ?thesis using c by simp
qed

lemma wf_delete_user: "directory_wf d \<Longrightarrow> delete_user uid d = Inr d' \<Longrightarrow> directory_wf d'"
  unfolding delete_user_def directory_wf_def users_wf_def
  by (auto simp: res_simps keys_filter distinct_map_filter map_filter_key comp_def links_unlink_left links_unlink_right
      refs_map_clear refs_filter split: option.splits)

lemma wf_create_role:
  assumes "directory_wf d" "create_role r d = Inr (i, d')"
  shows "directory_wf d'"
proof -
  let ?r = "\<lparr> ro_id = di_next_id d, ro_name = rc_name r, ro_name_cn = rc_name_cn r, ro_description = rc_description r,
      ro_is_system = False, ro_is_active = True \<rparr>"
  let ?d1 = "d\<lparr>di_roles := di_roles d @ [?r], di_next_id := di_next_id d + 1\<rparr>"
  have "get_role_by_name d (rc_name r) = Inr None"
    using assms(2) by (auto simp: create_role_def res_simps)
  then have w: "directory_wf ?d1"
    using get_role_by_name_iff [OF assms(1)] by (intro wf_add_role [OF assms(1)]) auto
  have "d' = ?d1 \<or> set_permissions (di_next_id d) (rc_permission_codes r) ?d1 = Inr d'"
    using assms(2) by (auto simp: create_role_def res_simps Let_def split: if_splits)
  then show ?thesis using w wf_set_permissions [OF w, of "di_next_id d"] by auto
qed

lemma wf_update_role:
  assumes "directory_wf d" "update_role rid v d = Inr d'"
  shows "directory_wf d'"
proof -
  obtain r where r: "get_role d rid = Some r" using assms(2) by (auto simp: update_role_def split: option.splits)
  let ?r1 = "r\<lparr>ro_name_cn := opt_set (rv_name_cn v) (ro_name_cn r),
      ro_description := opt_set (rv_description v) (ro_description r), ro_is_active := opt_set (rv_is_active v) (ro_is_active r)\<rparr>"
  let ?d1 = "d\<lparr>di_roles := row_put ro_id ?r1 (di_roles d)\<rparr>"
  have u: "x \<in> set (di_roles d) \<Longrightarrow> ro_id x = ro_id r \<Longrightarrow> ro_name x = ro_name r" for x
    using assms(1) get_role_member [OF r] row_get_distinct [of ro_id "di_roles d"]
    by (auto simp: directory_wf_def keys_wf_def) (metis option.inject)
  have "map ro_name (row_put ro_id ?r1 (di_roles d)) = map ro_name (di_roles d)"
    by (rule map_row_put_other) (use u in simp)
  then have w: "directory_wf ?d1" using assms(1) by (simp add: directory_wf_def users_wf_def map_key_row_put)
  have "rid \<in> set (role_ids ?d1)" using get_role_id [OF r] by (simp add: map_key_row_put)
  then show ?thesis using assms(2) r w wf_set_permissions [OF w]
    by (auto simp: update_role_def Let_def split: option.splits)
qed

lemma wf_delete_role: "directory_wf d \<Longrightarrow> delete_role rid d = Inr d' \<Longrightarrow> directory_wf d'"
  unfolding delete_role_def directory_wf_def users_wf_def
  by (auto simp: res_simps keys_filter distinct_map_filter map_filter_key comp_def links_unlink_left links_unlink_right
      refs_map_clear refs_filter split: option.splits)

lemma wf_own_role:
  assumes "directory_wf d" "get_account d (ac_id a) = Some a" "own_role a d = Inr (rid, d')"
  shows "directory_wf d' \<and> rid \<in> set (role_ids d') \<and> di_permissions d' = di_permissions d \<and> di_role_permission d' = di_role_permission d"
proof (cases "id_or_none (ac_role_id a)")
  case None
  let ?r = "\<lparr> ro_id = di_next_id d, ro_name = ''user_'' @ py_str_int (ac_id a),
      ro_name_cn = ''user '' @ py_str_int (ac_id a) @ '' own role'',
      ro_description = ''generated for user '' @ ac_username a, ro_is_system = False, ro_is_active = True \<rparr>"
  let ?d1 = "d\<lparr>di_roles := di_roles d @ [?r], di_next_id := di_next_id d + 1\<rparr>"
  have d': "d' = put_user (a\<lparr>ac_role_id := Some (di_next_id d)\<rparr>) ?d1" "rid = di_next_id d"
    "''user_'' @ py_str_int (ac_id a) \<notin> ro_name ` set (di_roles d)"
    using assms(3) None by (auto simp: own_role_def Let_def res_simps)
  have w: "directory_wf ?d1" by (rule wf_add_role) (use assms(1) d'(3) in auto)
  have g: "get_account ?d1 (ac_id a) = Some a" using assms(2) by (simp add: get_account_def)
  have "directory_wf d'" unfolding d'(1)
    by (rule wf_put_user [OF w, of _ a]) (use g wf_refs(2) [OF assms(1)] get_account_in [OF assms(2)] in \<open>auto simp: fk_ok_def\<close>)
  moreover have "di_roles d' = di_roles ?d1" by (simp add: d'(1))
  ultimately show ?thesis using d' by (simp add: put_user_def)
next
  case (Some r)
  then have "ac_role_id a = Some r" by (auto simp: id_or_none_def split: if_splits)
  then have "r \<in> set (role_ids d)"
    using wf_refs(1) [OF assms(1), of a] get_account_in [OF assms(2)] by (auto simp: fk_ok_def)
  then show ?thesis using Some assms by (auto simp: own_role_def)
qed

lemma wf_grant:
  assumes "directory_wf d" "grant_permissions uid codes d = Inr d'"
  shows "directory_wf d'"
proof -
  let ?f = "missing_codes d codes"
  obtain a rid d1 where g: "get_account d uid = Some a" "distinct ?f" "own_role a (add_permissions ?f d) = Inr (rid, d1)"
    "d' = d1\<lparr>di_role_permission := di_role_permission d1 @ map (\<lambda>p. (rid, pe_id p)) (permissions_in d codes)\<rparr>"
    using assms(2) by (auto simp: grant_permissions_def Let_def res_simps split: option.splits)
  have w: "directory_wf (add_permissions ?f d)" by (rule wf_add_permissions [OF assms(1) g(2) missing_disjoint])
  have "get_account (add_permissions ?f d) (ac_id a) = Some a"
    using g(1) get_account_id by (auto simp: add_permissions_def get_account_def)
  then have o: "directory_wf d1 \<and> rid \<in> set (role_ids d1) \<and> di_permissions d1 = di_permissions (add_permissions ?f d)"
    using wf_own_role [OF w _ g(3)] by simp
  then have "set (map pe_id (permissions_in d codes)) \<subseteq> set (perm_ids d1)"
    by (auto simp: permissions_in_def add_permissions_def)
  then show ?thesis unfolding g(4) using o wf_links(3) [of d1] by (intro wf_role_links) auto
qed

lemma wf_revoke: "directory_wf d \<Longrightarrow> directory_wf (revoke_permissions uid codes d)"
  by (auto simp: revoke_permissions_def Let_def split: option.splits intro!: wf_role_links links_wf_filter dest: wf_links(3))

lemma active_resource_groups_subset:
  "get_active_resource_groups d ids = Inr rs \<Longrightarrow> set rs \<subseteq> set (rgroup_ids d)"
  by (auto simp: get_active_resource_groups_def Let_def res_simps split: if_splits)

lemma wf_set_group_links:
  assumes "directory_wf d" "gid \<in> set (group_ids d)" "set_group_links gid rgs members d = Inr d'"
  shows "directory_wf d' \<and> di_groups d' = di_groups d \<and> di_users d' = di_users d"
proof -
  obtain d1 where d1: "directory_wf d1" "di_groups d1 = di_groups d" "di_users d1 = di_users d"
    and m: "(case members of None \<Rightarrow> Inr d1 | Some ids \<Rightarrow> raise_if (\<not> set ids \<subseteq> set (user_ids d1)) integrity_error
          (Inr (d1\<lparr>di_user_group_member := unlink_right gid (di_user_group_member d1) @ map (\<lambda>u. (u, gid)) ids\<rparr>))) = Inr d'"
  proof (cases rgs)
    case None
    then show ?thesis using that assms by (simp add: set_group_links_def)
  next
    case (Some ids)
    then obtain act where act: "get_active_resource_groups d ids = Inr act"
      using assms(3) by (auto simp: set_group_links_def res_simps)
    let ?d1 = "d\<lparr>di_group_resource_group := unlink_left gid (di_group_resource_group d) @ map (\<lambda>r. (gid, r)) act\<rparr>"
    have "directory_wf ?d1"
      by (rule wf_group_links [OF assms(1)])
        (use wf_links(2) [OF assms(1)] active_resource_groups_subset [OF act] assms(2) in auto)
    then show ?thesis using that [of ?d1] assms(3) Some act by (simp add: set_group_links_def)
  qed
  show ?thesis
  proof (cases members)
    case None
    then show ?thesis using m d1 by simp
  next
    case (Some ids)
    then have s: "set ids \<subseteq> set (user_ids d1)"
      "d' = d1\<lparr>di_user_group_member := unlink_right gid (di_user_group_member d1) @ map (\<lambda>u. (u, gid)) ids\<rparr>"
      using m by (auto simp: res_simps)
    have "directory_wf d'" unfolding s(2)
      by (rule wf_member_links [OF d1(1)]) (use wf_links(1) [OF d1(1)] s(1) assms(2) d1(2) in auto)
    then show ?thesis using s(2) d1 by simp
  qed
qed

lemma wf_add_group:
  "directory_wf d \<Longrightarrow> gp_id g = di_next_id d \<Longrightarrow> gp_name g \<notin> gp_name ` set (di_groups d) \<Longrightarrow>
     fk_ok (gp_leader_id g) (user_ids d) \<Longrightarrow> fk_ok (gp_parent_id g) (group_ids d) \<Longrightarrow>
     directory_wf (d\<lparr>di_groups := di_groups d @ [g], di_next_id := di_next_id d + 1\<rparr>)"
  by (auto simp: directory_wf_def users_wf_def refs_fk
      intro: keys_wf_append keys_wf_mono links_wf_mono refs_wf_mono fk_ok_append)

lemma scalar_names_None: "scalar_one_or_none (filter (\<lambda>x. f x = k) xs) = Inr None \<Longrightarrow> k \<notin> f ` set xs"
  by (auto simp: scalar_None_iff filter_empty_conv)

lemma wf_create_group:
  assumes "directory_wf d" "create_group g d = Inr (i, d')"
  shows "directory_wf d'"
proof -
  let ?g = "\<lparr> gp_id = di_next_id d, gp_name = gc_name g, gp_name_cn = gc_name_cn g,
      gp_description = gc_description g, gp_leader_id = gc_leader_id g, gp_parent_id = gc_parent_id g, gp_is_active = True \<rparr>"
  let ?d1 = "d\<lparr>di_groups := di_groups d @ [?g], di_next_id := di_next_id d + 1\<rparr>"
  let ?r = "if gc_resource_group_ids g = [] then None else Some (gc_resource_group_ids g)"
  let ?m = "if gc_member_ids g = [] then None else Some (gc_member_ids g)"
  obtain existing d1 where e: "scalar_one_or_none (filter (\<lambda>x. gp_name x = gc_name g) (di_groups d)) = Inr existing"
    and n: "\<not> existing \<noteq> None" and c: "\<not> (\<not> fk_ok (gc_leader_id g) (user_ids d) \<or> \<not> fk_ok (gc_parent_id g) (group_ids d))"
    and s: "set_group_links (di_next_id d) ?r ?m ?d1 = Inr d1" "(Inr (di_next_id d, d1) :: (int \<times> directory) res) = Inr (i, d')"
    using assms(2) unfolding create_group_def Let_def rbind_Inr_iff raise_if_Inr_iff by (elim exE conjE) (rule that)
  have "d1 = d'" using s(2) by simp
  have k: "gc_name g \<notin> gp_name ` set (di_groups d)" using e n by (intro scalar_names_None) simp
  have w: "directory_wf ?d1" by (rule wf_add_group) (use assms(1) c k in auto)
  show ?thesis using wf_set_group_links [OF w _ s(1)] \<open>d1 = d'\<close> by simp
qed

lemma get_ugroup_member: "get_ugroup d gid = Some g \<Longrightarrow> g \<in> set (di_groups d) \<and> gp_id g = gid"
  by (auto simp: get_ugroup_def dest: row_get_key)

lemma wf_update_group:
  assumes "directory_wf d" "update_group gid v d = Inr d'"
  shows "directory_wf d'"
proof -
  obtain g where g: "get_ugroup d gid = Some g" using assms(2) by (auto simp: update_group_def split: option.splits)
  let ?g1 = "g\<lparr>gp_name_cn := opt_set (gv_name_cn v) (gp_name_cn g),
      gp_description := opt_set (gv_description v) (gp_description g),
      gp_leader_id := opt_ref (gv_leader_id v) (gp_leader_id g),
      gp_parent_id := opt_ref (gv_parent_id v) (gp_parent_id g), gp_is_active := opt_set (gv_is_active v) (gp_is_active g)\<rparr>"
  obtain d1 where d1: "set_group_links gid (gv_resource_group_ids v) (gv_member_ids v) d = Inr d1"
    "fk_ok (gp_leader_id ?g1) (user_ids d)" "fk_ok (gp_parent_id ?g1) (group_ids d)"
    "d' = d1\<lparr>di_groups := row_put gp_id ?g1 (di_groups d1)\<rparr>"
    using assms(2) g by (auto simp: update_group_def Let_def res_simps)
  have m: "g \<in> set (di_groups d)" "gp_id g = gid" using get_ugroup_member [OF g] by auto
  then have w: "directory_wf d1" "di_groups d1 = di_groups d" "di_users d1 = di_users d"
    using wf_set_group_links [OF assms(1) _ d1(1)] by auto
  have u: "x \<in> set (di_groups d) \<Longrightarrow> gp_id x = gp_id g \<Longrightarrow> gp_name x = gp_name g" for x
    using assms(1) m row_get_distinct [of gp_id "di_groups d"]
    by (auto simp: directory_wf_def keys_wf_def) (metis option.inject)
  have "map gp_name (row_put gp_id ?g1 (di_groups d)) = map gp_name (di_groups d)"
    by (rule map_row_put_other) (use u in simp)
  then show ?thesis
    unfolding d1(4) using w d1(2,3)
    by (auto simp: directory_wf_def users_wf_def map_key_row_put refs_fk intro!: refs_wf_put)
qed

lemma wf_delete_group: "directory_wf d \<Longrightarrow> delete_group gid d = Inr d' \<Longrightarrow> directory_wf d'"
  unfolding delete_group_def directory_wf_def users_wf_def
  by (auto simp: res_simps keys_filter distinct_map_filter map_filter_key comp_def links_unlink_left links_unlink_right
      refs_map_clear refs_filter split: option.splits)

lemma wf_add_rgroup:
  "directory_wf d \<Longrightarrow> rr_id r = di_next_id d \<Longrightarrow> rr_group_name r \<notin> rr_group_name ` set (di_rgroups d) \<Longrightarrow>
     directory_wf (d\<lparr>di_rgroups := di_rgroups d @ [r], di_next_id := di_next_id d + 1\<rparr>)"
  by (auto simp: directory_wf_def users_wf_def
      intro: keys_wf_append keys_wf_mono links_wf_mono)

lemma active_instances_subset: "set (active_instances d ids) \<subseteq> set (map fst (di_instances d))"
  by (auto simp: active_instances_def intro: rev_image_eqI)

lemma wf_set_rgroup_links:
  assumes "directory_wf d" "rid \<in> set (rgroup_ids d)"
  shows "directory_wf (set_rgroup_links rid instances groups d)"
proof -
  let ?d1 = "case instances of None \<Rightarrow> d
    | Some ids \<Rightarrow> d\<lparr>di_instance_resource_group :=
        unlink_right rid (di_instance_resource_group d) @ map (\<lambda>i. (i, rid)) (active_instances d ids)\<rparr>"
  have w: "directory_wf ?d1 \<and> di_rgroups ?d1 = di_rgroups d \<and> di_groups ?d1 = di_groups d"
    using assms active_instances_subset [of d] wf_links(4) [OF assms(1)]
    by (auto split: option.splits intro!: wf_instance_links)
  show ?thesis
  proof (cases groups)
    case None
    then show ?thesis using w by (simp add: set_rgroup_links_def Let_def)
  next
    case (Some ids)
    have "directory_wf (?d1\<lparr>di_group_resource_group :=
        unlink_right rid (di_group_resource_group ?d1) @ map (\<lambda>g. (g, rid)) (existing_groups ?d1 ids)\<rparr>)"
      by (rule wf_group_links) (use w wf_links(2) [of ?d1] existing_groups_subset [of ?d1] assms(2) in auto)
    then show ?thesis using Some by (simp add: set_rgroup_links_def Let_def)
  qed
qed

lemma wf_create_rgroup:
  assumes "directory_wf d" "create_rgroup x d = Inr (i, d')"
  shows "directory_wf d'"
proof -
  let ?r = "\<lparr> rr_id = di_next_id d, rr_group_name = xc_group_name x, rr_group_name_cn = xc_group_name_cn x, rr_is_active = True \<rparr>"
  let ?d1 = "d\<lparr>di_rgroups := di_rgroups d @ [?r], di_next_id := di_next_id d + 1\<rparr>"
  obtain existing where e: "scalar_one_or_none (filter (\<lambda>r. rr_group_name r = xc_group_name x) (di_rgroups d)) = Inr existing"
    and n: "\<not> existing \<noteq> None"
    and s: "Inr (di_next_id d, set_rgroup_links (di_next_id d) (if xc_instance_ids x = [] then None else Some (xc_instance_ids x))
        (if xc_user_group_ids x = [] then None else Some (xc_user_group_ids x)) ?d1) = (Inr (i, d') :: (int \<times> directory) res)"
    using assms(2) unfolding create_rgroup_def Let_def rbind_Inr_iff raise_if_Inr_iff by (elim exE conjE) (rule that)
  have "xc_group_name x \<notin> rr_group_name ` set (di_rgroups d)" using e n by (intro scalar_names_None) simp
  then have "directory_wf ?d1" by (intro wf_add_rgroup [OF assms(1)]) auto
  then have "directory_wf (set_rgroup_links (di_next_id d) r m ?d1)" for r m by (rule wf_set_rgroup_links) simp
  then show ?thesis using s by (metis Inr_inject prod.inject)
qed

lemma get_rgroup_member: "get_rgroup d rid = Some r \<Longrightarrow> r \<in> set (di_rgroups d) \<and> rr_id r = rid"
  by (auto simp: get_rgroup_def dest: row_get_key)

lemma wf_update_rgroup:
  assumes "directory_wf d" "update_rgroup rid v d = Inr d'"
  shows "directory_wf d'"
proof -
  obtain r where r: "get_rgroup d rid = Some r" using assms(2) by (auto simp: update_rgroup_def split: option.splits)
  let ?r1 = "r\<lparr>rr_group_name_cn := opt_set (xv_group_name_cn v) (rr_group_name_cn r),
      rr_is_active := opt_set (xv_is_active v) (rr_is_active r)\<rparr>"
  let ?d1 = "d\<lparr>di_rgroups := row_put rr_id ?r1 (di_rgroups d)\<rparr>"
  have u: "x \<in> set (di_rgroups d) \<Longrightarrow> rr_id x = rr_id r \<Longrightarrow> rr_group_name x = rr_group_name r" for x
    using assms(1) get_rgroup_member [OF r] row_get_distinct [of rr_id "di_rgroups d"]
    by (auto simp: directory_wf_def keys_wf_def) (metis option.inject)
  have "map rr_group_name (row_put rr_id ?r1 (di_rgroups d)) = map rr_group_name (di_rgroups d)"
    by (rule map_row_put_other) (use u in simp)
  then have w: "directory_wf ?d1" using assms(1) by (simp add: directory_wf_def users_wf_def map_key_row_put)
  have "rid \<in> set (rgroup_ids ?d1)" using get_rgroup_member [OF r] by (force simp: map_key_row_put)
  then show ?thesis using assms(2) r wf_set_rgroup_links [OF w] by (auto simp: update_rgroup_def Let_def)
qed

lemma wf_delete_rgroup: "directory_wf d \<Longrightarrow> delete_rgroup rid d = Inr d' \<Longrightarrow> directory_wf d'"
  unfolding delete_rgroup_def directory_wf_def users_wf_def
  by (auto simp: res_simps keys_filter distinct_map_filter map_filter_key comp_def links_unlink_left links_unlink_right
      split: option.splits)

lemma wf_rgroup_user_groups:
  "directory_wf d \<Longrightarrow> update_resource_group_user_groups rid gs d = Inr d' \<Longrightarrow> directory_wf d'"
  by (auto simp: update_resource_group_user_groups_def res_simps wf_links(2) split: option.splits
      intro!: wf_group_links dest: get_rgroup_member)

section \<open>The import keeps the directory well-formed\<close>

lemma wf_new_groups:
  assumes "directory_wf d" "distinct ns" "set ns \<inter> gp_name ` set (di_groups d) = {}"
  shows "directory_wf (d\<lparr>di_groups := di_groups d @ new_groups (di_next_id d) ns, di_next_id := di_next_id d + int (length ns)\<rparr>)"
proof -
  have "keys_wf (di_next_id d + int (length ns)) (group_ids d @ map gp_id (new_groups (di_next_id d) ns))"
    using assms(1) by (intro keys_new_groups) (auto simp: directory_wf_def)
  moreover have "links_wf (di_user_group_member d) (user_ids d) (group_ids d @ map gp_id (new_groups (di_next_id d) ns))"
    "links_wf (di_group_resource_group d) (group_ids d @ map gp_id (new_groups (di_next_id d) ns)) (rgroup_ids d)"
    "refs_wf (map gp_parent_id (di_groups d)) (group_ids d @ map gp_id (new_groups (di_next_id d) ns))"
    using assms(1) by (auto simp: directory_wf_def intro: links_wf_mono refs_wf_mono)
  ultimately show ?thesis
    using assms by (auto simp: directory_wf_def users_wf_def intro: keys_wf_mono)
qed

lemma wf_resolve_user_group_ids:
  assumes "directory_wf d" "resolve_user_group_ids d raw = (ids, d')"
  shows "directory_wf d' \<and> di_users d' = di_users d \<and> di_roles d' = di_roles d"
proof -
  let ?names = "rev (remdups (rev (split_multi_value raw)))"
  let ?res = "filter (\<lambda>g. gp_name g \<in> set ?names \<or> gp_name_cn g \<in> set ?names) (di_groups d)"
  let ?miss = "filter (\<lambda>n. n \<notin> gp_name ` set ?res \<and> n \<notin> gp_name_cn ` set ?res) ?names"
  have d': "d' = d\<lparr>di_groups := di_groups d @ new_groups (di_next_id d) ?miss, di_next_id := di_next_id d + int (length ?miss)\<rparr>"
    using assms(2) by (simp add: resolve_user_group_ids_def Let_def)
  have "set ?miss \<inter> gp_name ` set (di_groups d) = {}" by auto
  then have "directory_wf d'" unfolding d' by (intro wf_new_groups [OF assms(1)]) auto
  then show ?thesis by (simp add: d')
qed

lemma fk_ok_opt_ref: "fk_ok v ks \<or> v = Some 0 \<Longrightarrow> fk_ok old ks \<Longrightarrow> fk_ok (opt_ref v old) ks"
  by (auto simp: fk_ok_def opt_ref_def id_or_none_def split: option.splits)

lemma resolve_role_ok: "resolve_role_id d raw = Inr r \<Longrightarrow> fk_ok r (role_ids d)"
  by (auto simp: resolve_role_id_def Let_def res_simps fk_ok_def intro!: imageI dest!: scalar_member split: if_splits option.splits)

lemma filter_single: "filter P xs = [x] \<Longrightarrow> x \<in> set xs"
  by (metis filter_is_subset list.set_intros(1) subsetD)

lemma resolve_manager_ok:
  "resolve_manager_id shown d n dn = Inr m \<Longrightarrow> ac_id ` set shown \<subseteq> ac_id ` set (di_users d) \<Longrightarrow> fk_ok m (user_ids d)"
  by (auto simp: resolve_manager_id_def Let_def res_simps fk_ok_def get_by_username_def
      intro: imageI subsetD [OF _ imageI] dest!: scalar_member filter_single split: if_splits option.splits list.splits)

lemma get_account_self: "directory_wf d \<Longrightarrow> a \<in> set (di_users d) \<Longrightarrow> get_account d (ac_id a) = Some a"
  using get_account_iff [OF wf_users] by blast

lemma put_user_ids [simp]: "ac_id ` set (di_users (put_user b d)) = ac_id ` set (di_users d)"
  by (metis list.set_map user_ids_put)

lemma apply_user_update_ids [simp]: "ac_id ` set (di_users (apply_user_update a v d)) = ac_id ` set (di_users d)"
  using put_user_ids [of "updated_account v a" d] by (auto simp: apply_user_update_def Let_def split: option.splits)

lemma wf_import_row:
  assumes "directory_wf d" "ac_id ` set shown \<subseteq> ac_id ` set (di_users d)"
    and "upsert_imported_user env lic pw salt now row shown d = (r, shown', d')"
  shows "directory_wf d' \<and> ac_id ` set shown' \<subseteq> ac_id ` set (di_users d')"
proof (cases "py_strip (cell_of row ''username'') = []")
  case True
  then show ?thesis using assms by (simp add: upsert_imported_user_def)
next
  case False
  note name = False
  show ?thesis
  proof (cases "rbind (resolve_role_id d (cell_of row ''role'')) (\<lambda>role.
       rbind (resolve_manager_id shown d (cell_of row ''manager_username'') (cell_of row ''manager_display_name'')) (\<lambda>manager.
       Inr (role, manager)))")
    case (Inl e)
    then show ?thesis using assms name by (simp add: upsert_imported_user_def)
  next
    case (Inr rm)
    obtain role manager where rm: "rm = (role, manager)" by (cases rm)
    have refs: "fk_ok role (role_ids d)" "fk_ok manager (user_ids d)"
      using Inr rm resolve_role_ok resolve_manager_ok [OF _ assms(2)] by (auto simp: rbind_Inr_iff)
    obtain groups d1 where g: "resolve_user_group_ids d (cell_of row ''user_groups'') = (groups, d1)" by fastforce
    have w: "directory_wf d1" "di_users d1 = di_users d" "di_roles d1 = di_roles d"
      using wf_resolve_user_group_ids [OF assms(1) g] by simp_all
    have sh: "ac_id ` set (if di_groups d1 = di_groups d then shown else di_users d1) \<subseteq> ac_id ` set (di_users d1)"
      using assms(2) w by simp
    show ?thesis
    proof (cases "get_by_username d1 (py_strip (cell_of row ''username''))")
      case (Inl e)
      have "shown' = (if di_groups d1 = di_groups d then shown else di_users d1)" "d' = d1"
        using Inl assms(3) name \<open>rbind _ _ = Inr rm\<close> rm g by (auto simp: upsert_imported_user_def)
      then show ?thesis using assms(2) w by simp
    next
      case (Inr f)
      show ?thesis
      proof (cases f)
        case None
        note none = None
        show ?thesis
        proof (cases "create_user env lic (import_create row (py_strip (cell_of row ''username''))
            (or_str (py_strip (cell_of row ''password'')) pw) role manager groups) salt now d1")
          case (Inl e)
          then have "shown' = (if di_groups d1 = di_groups d then shown else di_users d1)" "d' = d1"
            using assms(3) name \<open>rbind _ _ = Inr rm\<close> rm g \<open>get_by_username d1 _ = Inr f\<close> none by (auto simp: upsert_imported_user_def)
          then show ?thesis using sh w(1) by simp
        next
          case (Inr y)
          then have "shown' = di_users (snd y)" "d' = snd y"
            using assms(3) name \<open>rbind _ _ = Inr rm\<close> rm g \<open>get_by_username d1 _ = Inr f\<close> none
            by (auto simp: upsert_imported_user_def split: prod.splits)
          then show ?thesis using wf_create_user [OF w(1), of env lic _ salt now "fst y"] Inr by auto
        qed
      next
        case (Some a)
        let ?v = "import_update a row role manager groups"
        let ?p = "py_strip (cell_of row ''password'')"
        have a: "a \<in> set (di_users d1)" using Inr Some scalar_member by (force simp: get_by_username_def)
        have u: "get_account d1 (ac_id a) = Some a" by (rule get_account_self [OF w(1) a])
        have fk: "fk_ok (ac_role_id (updated_account ?v a)) (role_ids d1)" "fk_ok (ac_manager_id (updated_account ?v a)) (user_ids d1)"
          using refs wf_refs [OF w(1) a] w
          by (auto simp: updated_account_def import_update_def intro!: fk_ok_opt_ref)
        have w2: "directory_wf (apply_user_update a ?v d1)" by (rule wf_apply_user_update [OF w(1) u fk])
        have "get_account (apply_user_update a ?v d1) (ac_id a) = Some (updated_account ?v a)"
          using u get_put_user [of "updated_account ?v a" d1 "ac_id a"]
          by (auto simp: apply_user_update_def get_account_def Let_def split: option.splits)
        moreover have "role_ids (apply_user_update a ?v d1) = role_ids d1" "user_ids (apply_user_update a ?v d1) = user_ids d1"
          by (auto simp: apply_user_update_def Let_def put_user_def map_key_row_put split: option.splits)
        ultimately have "directory_wf (put_user ((updated_account ?v a)\<lparr>ac_password := hash_password env salt ?p,
            ac_password_changed_at := ac_created_at a\<rparr>) (apply_user_update a ?v d1))"
          using fk by (intro wf_put_user [OF w2, of _ "updated_account ?v a"]) simp_all
        moreover have "shown' = (if di_groups d1 = di_groups d then shown else di_users d1)"
          "d' = (if ?p = [] then apply_user_update a ?v d1
                 else put_user ((updated_account ?v a)\<lparr>ac_password := hash_password env salt ?p,
                   ac_password_changed_at := ac_created_at a\<rparr>) (apply_user_update a ?v d1))"
          using assms(3) name \<open>rbind _ _ = Inr rm\<close> rm g Inr Some by (auto simp: upsert_imported_user_def Let_def)
        ultimately show ?thesis using sh w2 by simp
      qed
    qed
  qed
qed

lemma wf_import_rows:
  "directory_wf d \<Longrightarrow> ac_id ` set shown \<subseteq> ac_id ` set (di_users d) \<Longrightarrow>
     import_rows env lic pw salt now rows shown d = (rs, d') \<Longrightarrow> directory_wf d'"
proof (induction rows arbitrary: shown d rs)
  case Nil
  then show ?case by simp
next
  case (Cons row rows)
  obtain r shown1 d1 where r: "upsert_imported_user env lic pw salt now row shown d = (r, shown1, d1)"
    by (metis prod_cases3)
  obtain rs1 d2 where rs: "import_rows env lic pw salt now rows shown1 d1 = (rs1, d2)" by fastforce
  have "d2 = d'" using Cons.prems(3) r rs by simp
  then have "import_rows env lic pw salt now rows shown1 d1 = (rs1, d')" using rs by simp
  then show ?case using Cons.IH wf_import_row [OF Cons.prems(1,2) r] by blast
qed

section \<open>The built-in roles\<close>

lemma distinct_missing: "distinct cs \<Longrightarrow> distinct (missing_codes d cs)"
  by (simp add: missing_codes_def)

lemma wf_init_permissions: "directory_wf d \<Longrightarrow> directory_wf (init_default_permissions d)"
  unfolding init_default_permissions_def
  by (rule wf_add_permissions) (auto simp: distinct_missing missing_disjoint [simplified] DEFAULT_PERMISSIONS_def)

lemma wf_init_role:
  assumes "directory_wf d" "init_role (n, codes) d = Inr d'"
  shows "directory_wf d'"
proof -
  obtain f where f: "get_role_by_name d n = Inr f" using assms(2) by (auto simp: init_role_def rbind_Inr_iff)
  show ?thesis
  proof (cases f)
    case None
    let ?r = "\<lparr> ro_id = di_next_id d, ro_name = n, ro_name_cn = n, ro_description = n, ro_is_system = True, ro_is_active = True \<rparr>"
    have w: "directory_wf (d\<lparr>di_roles := di_roles d @ [?r], di_next_id := di_next_id d + 1\<rparr>)"
      using f None get_role_by_name_iff [OF assms(1)] by (intro wf_add_role [OF assms(1)]) auto
    show ?thesis
      by (rule wf_set_permissions [OF w, of "di_next_id d" codes]) (use assms(2) f None in \<open>simp_all add: init_role_def\<close>)
  next
    case (Some r)
    then have "ro_id r \<in> set (role_ids d)" using f get_role_by_name_iff [OF assms(1)] by auto
    then show ?thesis by (rule wf_set_permissions [OF assms(1), of _ codes]) (use assms(2) f Some in \<open>simp add: init_role_def\<close>)
  qed
qed

lemma wf_fold_res:
  "(\<And>x d d'. x \<in> set xs \<Longrightarrow> directory_wf d \<Longrightarrow> f x d = Inr d' \<Longrightarrow> directory_wf d') \<Longrightarrow>
     directory_wf d \<Longrightarrow> fold_res f xs d = Inr d' \<Longrightarrow> directory_wf d'"
  by (induction xs arbitrary: d) (auto simp: rbind_Inr_iff)

lemma wf_init_builtin_roles: "directory_wf d \<Longrightarrow> init_builtin_roles d = Inr d' \<Longrightarrow> directory_wf d'"
  unfolding init_builtin_roles_def
  by (rule wf_fold_res [of BUILTIN_ROLES init_role]) (auto intro: wf_init_permissions dest: wf_init_role)

lemma wf_init_system:
  assumes "directory_wf d" "init_system env lic salt now d = Inr d'"
  shows "directory_wf d'"
proof -
  obtain d1 where d1: "init_builtin_roles d = Inr d1" using assms(2) by (auto simp: init_system_def rbind_Inr_iff)
  have "directory_wf d1" using wf_init_builtin_roles [OF assms(1) d1] .
  then show ?thesis using assms(2) d1 by (auto simp: init_system_def rbind_Inr_iff split: if_splits dest: wf_create_user)
qed

lemma wf_admin_effect: "directory_wf d \<Longrightarrow> admin_effect env lic salt now r d = Inr d' \<Longrightarrow> directory_wf d'"
proof (cases r)
  case (ImportUsers suffix rows pw)
  assume "directory_wf d" "admin_effect env lic salt now r d = Inr d'"
  then show ?thesis using ImportUsers by (auto simp: import_users_def res_simps split: prod.splits dest: wf_import_rows)
qed (auto simp: rbind_Inr_iff dest: wf_create_user wf_update_user wf_delete_user wf_grant wf_revoke wf_create_role wf_update_role
    wf_delete_role wf_create_group wf_update_group wf_delete_group wf_create_rgroup wf_update_rgroup wf_delete_rgroup
    wf_rgroup_user_groups)


definition sample_admin :: operator where
  "sample_admin = context_of sample_dir (sample_carol\<lparr>ac_is_superuser := True\<rparr>)"

definition sample_left :: directory where
  "sample_left = sample_dir\<lparr>di_users := [sample_bob, sample_carol], di_user_group_member := []\<rparr>"


text \<open>\<open>has_role d n codes\<close>: the role named \<open>n\<close> exists and has exactly \<open>codes\<close>.\<close>

definition has_role :: "directory \<Rightarrow> string \<Rightarrow> string list \<Rightarrow> bool" where
  "has_role d n codes \<longleftrightarrow> list_ex (\<lambda>r. ro_name r = n \<and> set (role_codes d (ro_id r)) = set codes) (di_roles d)"

lemma has_role_iff: "has_role d n codes \<longleftrightarrow> (\<exists>r\<in>set (di_roles d). ro_name r = n \<and> set (role_codes d (ro_id r)) = set codes)"
  by (auto simp: has_role_def list_ex_iff)

lemma wf_key_inj:
  assumes "directory_wf d"
  shows "x \<in> set (di_permissions d) \<Longrightarrow> y \<in> set (di_permissions d) \<Longrightarrow> pe_id x = pe_id y \<Longrightarrow> x = y"
    "r \<in> set (di_roles d) \<Longrightarrow> q \<in> set (di_roles d) \<Longrightarrow> ro_id r = ro_id q \<Longrightarrow> r = q"
  using assms by (auto simp: directory_wf_def keys_wf_def distinct_map inj_on_def)

lemma permissions_after_adding:
  "set codes \<subseteq> pe_codename ` set (di_permissions (add_permissions (missing_codes d codes) d))"
proof -
  have "pe_codename ` set (new_permissions n cs) = set cs" for n cs
    by (metis map_new_permissions list.set_map)
  then show ?thesis by (auto simp: add_permissions_def image_Un missing_codes_def)
qed

lemma set_permissions_codes:
  assumes "directory_wf d" "rid \<in> set (role_ids d)" "set_permissions rid codes d = Inr d'"
  shows "set (role_codes d' rid) = set codes" "di_roles d' = di_roles d"
    "\<And>q. q \<noteq> rid \<Longrightarrow> set (role_codes d' q) = set (role_codes d q)"
proof -
  let ?d1 = "add_permissions (missing_codes d codes) d"
  have w: "directory_wf d'" by (rule wf_set_permissions [OF assms])
  have d': "d' = ?d1\<lparr>di_role_permission := unlink_left rid (di_role_permission d)
      @ map (\<lambda>p. (rid, pe_id p)) (permissions_in ?d1 codes)\<rparr>"
    using assms(3) by (auto simp: set_permissions_def Let_def res_simps)
  then have p: "di_permissions d' = di_permissions ?d1" by simp
  have l: "(rid, k) \<in> set (di_role_permission d') \<longleftrightarrow> k \<in> pe_id ` set (permissions_in ?d1 codes)" for k
    by (auto simp: d' unlink_left_def)
  have "x \<in> set (role_codes d' rid) \<longleftrightarrow> x \<in> set codes" for x
    using wf_key_inj(1) [OF w] permissions_after_adding [of codes d]
    by (auto simp: role_codes_iff l p permissions_in_def) fastforce+
  then show "set (role_codes d' rid) = set codes" by blast
  show "di_roles d' = di_roles d" by (simp add: d' add_permissions_def)
  fix q
  assume q: "q \<noteq> rid"
  then have e: "(q, k) \<in> set (di_role_permission d') \<longleftrightarrow> (q, k) \<in> set (di_role_permission d)" for k
    by (auto simp: d' unlink_left_def)
  have "(q, pe_id x) \<in> set (di_role_permission d) \<Longrightarrow> x \<in> set (di_permissions d') \<Longrightarrow> x \<in> set (di_permissions d)" for x
    using wf_links(3) [OF assms(1)] wf_key_inj(1) [OF w, of x]
    by (fastforce simp: links_wf_def list_all_iff p add_permissions_def)
  moreover have "set (di_permissions d) \<subseteq> set (di_permissions d')" by (auto simp: p add_permissions_def)
  ultimately show "set (role_codes d' q) = set (role_codes d q)"
    by (auto simp: set_eq_iff role_codes_iff e)
qed

lemma init_role_effect:
  assumes "directory_wf d" "init_role (n, codes) d = Inr d'"
  shows "has_role d' n codes" "m \<noteq> n \<Longrightarrow> has_role d m cs \<Longrightarrow> has_role d' m cs"
proof -
  obtain f where f: "get_role_by_name d n = Inr f" using assms(2) by (auto simp: init_role_def rbind_Inr_iff)
  have nr: "role_codes (d\<lparr>di_roles := x, di_next_id := y\<rparr>) q = role_codes d q" for x y q by (simp add: role_codes_def)
  have "has_role d' n codes \<and> (m \<noteq> n \<longrightarrow> has_role d m cs \<longrightarrow> has_role d' m cs)"
  proof (cases f)
    case None
    let ?r = "\<lparr> ro_id = di_next_id d, ro_name = n, ro_name_cn = n, ro_description = n, ro_is_system = True, ro_is_active = True \<rparr>"
    let ?d1 = "d\<lparr>di_roles := di_roles d @ [?r], di_next_id := di_next_id d + 1\<rparr>"
    have w: "directory_wf ?d1"
      using f None get_role_by_name_iff [OF assms(1)] by (intro wf_add_role [OF assms(1)]) auto
    have s: "set_permissions (di_next_id d) codes ?d1 = Inr d'" using assms(2) f None by (simp add: init_role_def)
    note sp = set_permissions_codes [OF w _ s]
    have "r \<in> set (di_roles d) \<Longrightarrow> ro_id r \<noteq> di_next_id d" for r
      using assms(1) by (auto simp: directory_wf_def keys_wf_def list_all_iff)
    then show ?thesis using sp by (fastforce simp: has_role_iff nr)
  next
    case (Some r)
    have r: "r \<in> set (di_roles d)" "ro_name r = n" using f Some get_role_by_name_iff [OF assms(1)] by auto
    have s: "set_permissions (ro_id r) codes d = Inr d'" using assms(2) f Some by (simp add: init_role_def)
    note sp = set_permissions_codes [OF assms(1) _ s]
    show ?thesis using sp r wf_key_inj(2) [OF assms(1), of _ r] by (fastforce simp: has_role_iff)
  qed
  then show "has_role d' n codes" "m \<noteq> n \<Longrightarrow> has_role d m cs \<Longrightarrow> has_role d' m cs" by blast+
qed

lemma fold_init_roles:
  "directory_wf d \<Longrightarrow> fold_res init_role defs d = Inr d' \<Longrightarrow> distinct (map fst defs) \<Longrightarrow>
     (n, codes) \<in> set defs \<or> n \<notin> fst ` set defs \<and> has_role d n codes \<Longrightarrow> has_role d' n codes"
proof (induction defs arbitrary: d)
  case Nil
  then show ?case by simp
next
  case (Cons x xs)
  obtain m cs d1 where x: "x = (m, cs)" "init_role (m, cs) d = Inr d1" "fold_res init_role xs d1 = Inr d'"
    using Cons.prems(2) by (cases x) (auto simp: rbind_Inr_iff)
  have w: "directory_wf d1" using wf_init_role [OF Cons.prems(1) x(2)] .
  show ?case using Cons.IH [OF w x(3)] Cons.prems(3,4) x(1) init_role_effect [OF Cons.prems(1) x(2)]
    by (force simp: rev_image_eqI)
qed

lemma init_role_succeeds: "directory_wf d \<Longrightarrow> distinct codes \<Longrightarrow> \<exists>d'. init_role (n, codes) d = Inr d'"
proof -
  assume w: "directory_wf d" and c: "distinct codes"
  have s: "\<exists>d'. set_permissions k codes x = Inr d'" for k x
    using c by (simp add: set_permissions_def Let_def distinct_missing)
  obtain f where "get_role_by_name d n = Inr f"
    using get_role_by_name_iff [OF w, of n None] get_role_by_name_iff [OF w, of n "Some r" for r] by auto
  then show ?thesis using s by (cases f) (simp_all add: init_role_def)
qed

lemma fold_init_succeeds:
  "directory_wf d \<Longrightarrow> list_all (\<lambda>(n, cs). distinct cs) defs \<Longrightarrow> \<exists>d'. fold_res init_role defs d = Inr d'"
proof (induction defs arbitrary: d)
  case Nil
  then show ?case by simp
next
  case (Cons x xs)
  obtain m cs where x: "x = (m, cs)" by fastforce
  then obtain d1 where d1: "init_role (m, cs) d = Inr d1" using Cons.prems init_role_succeeds [of d cs m] by auto
  then show ?case using Cons.IH [OF wf_init_role [OF Cons.prems(1) d1]] Cons.prems(2) x by simp
qed

lemma builtin_roles_distinct: "distinct (map fst BUILTIN_ROLES)" "list_all (\<lambda>(n, cs). distinct cs) BUILTIN_ROLES"
  by code_simp+

text \<open>
C31: The initialisation always ends with the built-in roles as shipped. From any well-formed
directory it succeeds, however the roles were edited before, and afterwards each of the four
built-in roles exists and has exactly its list of permission codes, no more and no fewer.
\<close>

theorem init_restores_builtin_roles:
  assumes "directory_wf d"
  shows "\<exists>d'. init_builtin_roles d = Inr d' \<and> directory_wf d'
    \<and> list_all (\<lambda>(n, codes). has_role d' n codes) BUILTIN_ROLES"
proof -
  have w: "directory_wf (init_default_permissions d)" by (rule wf_init_permissions [OF assms])
  obtain d' where d': "fold_res init_role BUILTIN_ROLES (init_default_permissions d) = Inr d'"
    using fold_init_succeeds [OF w builtin_roles_distinct(2)] by blast
  then show ?thesis
    using fold_init_roles [OF w d' builtin_roles_distinct(1)] wf_init_builtin_roles [OF assms]
    by (auto simp: init_builtin_roles_def list_all_iff)
qed

theorem init_restores_builtin_roles_witness:
  "\<exists>d'. init_builtin_roles sample_dir = Inr d' \<and> has_role d' ''developer'' DEVELOPER_CODES"
  using init_restores_builtin_roles [OF sample_directory_wf] by (auto simp: BUILTIN_ROLES_def)

end
