(* ===== verification/Access_Rights.thy ===== *)
theory Access_Rights
  imports Access_Facts
begin

text \<open>
  Who gains and loses rights by the requests of the management: grants and revocations act on
  the role of the user they name, an import can undo a password change, and the
  initialisation endpoint makes a superuser for whoever calls it first.
\<close>

section \<open>Grants and revocations\<close>

lemma role_codes_add_permissions:
  assumes "directory_wf d"
  shows "set (role_codes (add_permissions cs d) rid) = set (role_codes d rid)"
proof -
  let ?d1 = "add_permissions cs d"
  have k: "keys_wf (di_next_id d + int (length cs)) (perm_ids d @ map pe_id (new_permissions (di_next_id d) cs))"
    using assms by (intro keys_new_permissions) (auto simp: directory_wf_def)
  have "(rid, q) \<in> set (di_role_permission d) \<Longrightarrow> q \<in> set (perm_ids d)" for q
    using wf_links(3) [OF assms] unfolding links_wf_def list_all_iff by blast
  moreover have "set (perm_ids d) \<inter> pe_id ` set (new_permissions (di_next_id d) cs) = {}"
    using k unfolding keys_wf_def distinct_append by simp
  ultimately have "p \<in> set (new_permissions (di_next_id d) cs) \<Longrightarrow> (rid, pe_id p) \<notin> set (di_role_permission d)" for p by blast
  then show ?thesis by (auto simp: set_eq_iff role_codes_iff add_permissions_def)
qed

lemma context_permission_set:
  "directory_wf d \<Longrightarrow> get_account d i = Some a \<Longrightarrow>
     set (op_permissions (context_of d a)) = (case ac_role_id a of None \<Rightarrow> {} | Some rid \<Rightarrow> set (role_codes d rid))"
proof -
  assume w: "directory_wf d" and g: "get_account d i = Some a"
  have "ac_role_id a = Some rid \<Longrightarrow> \<exists>r. get_role d rid = Some r" for rid
  proof -
    assume "ac_role_id a = Some rid"
    then have "rid \<in> set (role_ids d)" using wf_refs(1) [OF w, of a] get_account_in [OF g] by (simp add: fk_ok_def)
    then have "get_role d rid \<noteq> None" by (auto simp: get_role_def row_get_def find_None_iff)
    then show "\<exists>r. get_role d rid = Some r" by blast
  qed
  then show ?thesis by (auto simp: set_eq_iff context_permissions split: option.splits)
qed

lemma wf_role_positive: "directory_wf d \<Longrightarrow> get_account d i = Some a \<Longrightarrow> ac_role_id a = Some rid \<Longrightarrow> id_or_none (ac_role_id a) = Some rid"
  using wf_refs(1) [of d a] get_account_in [of d i a]
  by (auto simp: id_or_none_def fk_ok_def directory_wf_def keys_wf_def list_all_iff)

text \<open>The permissions the management shows of a user are those of the user's sessions.\<close>

lemma shown_permissions_exact:
  "directory_wf d \<Longrightarrow> get_account d i = Some a \<Longrightarrow> set (get_merged_permissions d i) = set (op_permissions (context_of d a))"
  using context_permission_set [of d i a] wf_role_positive [of d i a]
  by (cases "ac_role_id a") (force simp: get_merged_permissions_def get_permissions_def id_or_none_def role_codes_def)+

lemma role_codes_links:
  "role_codes (d\<lparr>di_role_permission := ls\<rparr>) rid = map pe_codename (filter (\<lambda>p. (rid, pe_id p) \<in> set ls) (di_permissions d))"
  by (simp add: role_codes_def)

lemma grant_effect:
  assumes "directory_wf d" "get_account d uid = Some a" "ac_role_id a = Some rid" "grant_permissions uid codes d = Inr d'"
  shows "di_users d' = di_users d"
    "set (role_codes d' q) = (if q = rid then set (role_codes d rid) \<union> set codes \<inter> pe_codename ` set (di_permissions d)
        else set (role_codes d q))"
proof -
  let ?d1 = "add_permissions (missing_codes d codes) d"
  have d': "d' = ?d1\<lparr>di_role_permission := di_role_permission ?d1 @ map (\<lambda>p. (rid, pe_id p)) (permissions_in d codes)\<rparr>"
    "distinct (missing_codes d codes)"
    using assms(4) wf_role_positive [OF assms(1-3)] assms(2)
    by (auto simp: grant_permissions_def own_role_def Let_def res_simps)
  then show "di_users d' = di_users d" by (simp add: add_permissions_def)
  have w: "directory_wf ?d1" by (rule wf_add_permissions [OF assms(1) d'(2) missing_disjoint])
  have s: "set (permissions_in d codes) \<subseteq> set (di_permissions ?d1)" by (auto simp: permissions_in_def add_permissions_def)
  have "c \<in> set (role_codes d' q) \<longleftrightarrow> c \<in> set (role_codes ?d1 q) \<or> q = rid \<and> c \<in> pe_codename ` set (permissions_in d codes)" for c
  proof -
    have "p \<in> set (di_permissions ?d1) \<Longrightarrow> pe_id p \<in> pe_id ` set (permissions_in d codes) \<longleftrightarrow> p \<in> set (permissions_in d codes)" for p
      using s wf_key_inj(1) [OF w] by blast
    then show ?thesis unfolding d'(1) role_codes_links using s by (auto simp: role_codes_def)
  qed
  moreover have "pe_codename ` set (permissions_in d codes) = set codes \<inter> pe_codename ` set (di_permissions d)"
    by (auto simp: permissions_in_def)
  ultimately show "set (role_codes d' q) = (if q = rid then set (role_codes d rid) \<union> set codes \<inter> pe_codename ` set (di_permissions d)
        else set (role_codes d q))"
    using role_codes_add_permissions [OF assms(1)] by auto
qed

lemma revoke_effect:
  assumes "directory_wf d" "get_account d uid = Some a" "ac_role_id a = Some rid"
  shows "di_users (revoke_permissions uid codes d) = di_users d"
    "set (role_codes (revoke_permissions uid codes d) q) = (if q = rid then set (role_codes d rid) - set codes else set (role_codes d q))"
proof -
  have r: "revoke_permissions uid codes d = (if permissions_in d codes = [] then d
    else d\<lparr>di_role_permission := filter (\<lambda>(r, p). \<not> (r = rid \<and> p \<in> set (map pe_id (permissions_in d codes)))) (di_role_permission d)\<rparr>)"
    using wf_role_positive [OF assms] assms(2) by (simp add: revoke_permissions_def Let_def)
  show "di_users (revoke_permissions uid codes d) = di_users d" by (simp add: r)
  have k: "p \<in> set (di_permissions d) \<Longrightarrow> pe_id p \<in> pe_id ` set (permissions_in d codes) \<longleftrightarrow> pe_codename p \<in> set codes" for p
    using wf_key_inj(1) [OF assms(1)] by (force simp: permissions_in_def)
  show "set (role_codes (revoke_permissions uid codes d) q) = (if q = rid then set (role_codes d rid) - set codes else set (role_codes d q))"
  proof (cases "permissions_in d codes = []")
    case True
    then have "p \<in> set (di_permissions d) \<Longrightarrow> pe_codename p \<notin> set codes" for p by (auto simp: permissions_in_def filter_empty_conv)
    then show ?thesis using True by (auto simp: r role_codes_def)
  next
    case False
    then show ?thesis using k by (auto simp: r role_codes_def)
  qed
qed

text \<open>
Granting to a user grants to everybody with the same role. A grant adds to the role of the
user it names those of the codes that exist already; a code that is new is created and not
granted. A revocation takes its codes from the role. So every other account with this role
gains and loses the same rights, and no account with another role gains or loses any.
\<close>

theorem grants_act_on_the_role:
  assumes "directory_wf d" "get_account d uid = Some a" "ac_role_id a = Some rid"
    and "get_account d v = Some b" "grant_permissions uid codes d = Inr d'"
  shows "get_account d' v = Some b \<and> set (op_permissions (context_of d' b)) =
      (if ac_role_id b = Some rid
       then set (op_permissions (context_of d b)) \<union> set codes \<inter> pe_codename ` set (di_permissions d)
       else set (op_permissions (context_of d b)))
    \<and> set (op_permissions (context_of (revoke_permissions uid codes d) b)) =
      (if ac_role_id b = Some rid then set (op_permissions (context_of d b)) - set codes
       else set (op_permissions (context_of d b)))"
proof -
  note g = grant_effect [OF assms(1-3,5)] and r = revoke_effect [OF assms(1-3), of codes]
  have u: "get_account d' v = Some b" "get_account (revoke_permissions uid codes d) v = Some b"
    using assms(4) g(1) r(1) by (simp_all add: get_account_def)
  show ?thesis
    using u context_permission_set [OF assms(1,4)] context_permission_set [OF wf_grant [OF assms(1,5)] u(1)]
      context_permission_set [OF wf_revoke [OF assms(1)] u(2)] g(2) r(2)
    by (auto split: option.splits)
qed

text \<open>In the sample directory all three accounts share the role \<open>developer\<close>.\<close>

definition sample_granted :: directory where
  "sample_granted = sample_dir\<lparr>di_permissions := di_permissions sample_dir @ [\<lparr> pe_id = 9, pe_codename = ''query_review'', pe_name = ''query_review'' \<rparr>],
     di_role_permission := [(4, 5), (4, 5)], di_next_id := 10\<rparr>"

theorem grants_act_on_the_role_witness:
  "grant_permissions 2 [''sql_submit'', ''query_review''] sample_dir = Inr sample_granted
     \<and> ''sql_submit'' \<notin> set (op_permissions (context_of (revoke_permissions 2 [''sql_submit''] sample_dir) sample_carol))
     \<and> ''query_review'' \<notin> set (op_permissions (context_of sample_granted sample_carol))"
proof -
  have u: "get_account sample_dir 2 = Some sample_bob" "ac_role_id sample_bob = Some 4" "get_account sample_dir 3 = Some sample_carol"
    "ac_role_id sample_carol = Some 4" by code_simp+
  have g: "grant_permissions 2 [''sql_submit'', ''query_review''] sample_dir = Inr sample_granted"
    "grant_permissions 2 [''sql_submit''] sample_dir = Inr (sample_dir\<lparr>di_role_permission := [(4, 5), (4, 5)]\<rparr>)" by code_simp+
  have n: "''query_review'' \<notin> pe_codename ` set (di_permissions sample_dir)"
    "''query_review'' \<notin> set (op_permissions (context_of sample_dir sample_carol))" by code_simp+
  show ?thesis
    using grants_act_on_the_role [OF sample_directory_wf u(1-3) g(1)] grants_act_on_the_role [OF sample_directory_wf u(1-3) g(2)] g(1) n u(4)
    by simp
qed

section \<open>Imports\<close>

lemma import_update_result:
  assumes "directory_wf d" "upsert_imported_user env lic pw salt now row shown d = (Inr False, shown', d')"
    and "get_by_username d (py_strip (cell_of row ''username'')) = Inr (Some a)" "py_strip (cell_of row ''password'') \<noteq> []"
  shows "\<exists>role manager groups. get_account d' (ac_id a) = Some ((updated_account (import_update a row role manager groups) a)
    \<lparr>ac_password := hash_password env salt (py_strip (cell_of row ''password'')), ac_password_changed_at := ac_created_at a\<rparr>)"
proof -
  obtain role manager groups d1 where
    g: "resolve_user_group_ids d (cell_of row ''user_groups'') = (groups, d1)"
    and r: "rbind (resolve_role_id d (cell_of row ''role'')) (\<lambda>role.
       rbind (resolve_manager_id shown d (cell_of row ''manager_username'') (cell_of row ''manager_display_name'')) (\<lambda>manager.
       Inr (role, manager))) = Inr (role, manager)" and n: "py_strip (cell_of row ''username'') \<noteq> []"
    using assms(2) by (auto simp: upsert_imported_user_def Let_def split: sum.splits prod.splits if_splits)
  have w: "di_users d1 = di_users d" using wf_resolve_user_group_ids [OF assms(1) g] by simp
  have b: "get_by_username d1 (py_strip (cell_of row ''username'')) = Inr (Some a)"
    using assms(3) by (simp add: get_by_username_def w)
  have "a \<in> set (di_users d)" using assms(3) scalar_member by (force simp: get_by_username_def)
  then have u: "get_account d1 (ac_id a) = Some a" using get_account_self [OF assms(1)] by (simp add: get_account_def w)
  let ?v = "import_update a row role manager groups"
  have "get_account (apply_user_update a ?v d1) (ac_id a) = Some (updated_account ?v a)"
    using u get_put_user [of "updated_account ?v a" d1 "ac_id a"]
    by (auto simp: apply_user_update_def get_account_def Let_def split: option.splits)
  then show ?thesis
    using assms(2,4) n g r b by (intro exI [of _ role] exI [of _ manager] exI [of _ groups])
      (auto simp: upsert_imported_user_def Let_def get_put_user)
qed

text \<open>
An import brings refused tokens back. When a row of an import sets the password of an
existing user, the password date goes back to the creation of the account: every token issued
since then that has not expired and is not in the blacklist opens a session again, also those
that a change of the password had revoked.
\<close>

theorem import_revives_revoked_tokens:
  assumes "directory_wf d" "upsert_imported_user env lic pw salt now row shown d = (Inr False, shown', d')"
    and "get_by_username d (py_strip (cell_of row ''username'')) = Inr (Some a)" "py_strip (cell_of row ''password'') \<noteq> []"
    and "ev_decode env m t = Some c" "cl_sub c = Some (ac_id a)" "cl_iat c = Some i" "ac_created_at a - 2 * second \<le> i * second"
    and "\<not> cl_requires_2fa c" "redis_get (as_blacklist s) t m = None" "as_dir s = d'"
    and "normalize_bool (row ''is_active'') (ac_is_active a)"
  shows "\<exists>u. load_user_context env s True m (Some t) = Inr u \<and> op_id u = ac_id a"
proof -
  obtain role manager groups where b: "get_account d' (ac_id a) = Some ((updated_account (import_update a row role manager groups) a)
    \<lparr>ac_password := hash_password env salt (py_strip (cell_of row ''password'')), ac_password_changed_at := ac_created_at a\<rparr>)"
    (is "_ = Some ?b")
    using import_update_result [OF assms(1-4)] by blast
  have "ac_is_active ?b" using assms(12) by (simp add: updated_account_def import_update_def opt_set_def)
  moreover have "\<not> is_token_revoked_by_password_change (Some i) (Some (ac_password_changed_at ?b))"
    using assms(8) by (simp add: is_token_revoked_by_password_change_def)
  ultimately have "load_user_context env s True m (Some t) = Inr (context_of d' ?b)"
    unfolding load_user_context_iff using assms(5-7,9-11) b by auto
  then show ?thesis by (auto simp: context_of_fields)
qed

definition sample_row :: import_row where
  "sample_row = [''username'' \<mapsto> ''carol'', ''password'' \<mapsto> ''Fresh#2025'', ''role'' \<mapsto> ''developer'']"

text \<open>Carol changed her password on day 20; the token is of day 10.\<close>

theorem import_revives_revoked_tokens_witness:
  "\<not> is_ok (load_user_context sample_env (sample_auth sample_dir) True (10 * one_day + second) (Some (sample_token 3 864000 ''access'')))
   \<and> (\<exists>d' u. upsert_imported_user sample_env (Inr ()) [] [] (10 * one_day) sample_row (di_users sample_dir) sample_dir = (Inr False, di_users sample_dir, d')
       \<and> load_user_context sample_env (sample_auth d') True (10 * one_day + second) (Some (sample_token 3 864000 ''access'')) = Inr u
       \<and> op_id u = 3)"
proof -
  let ?u = "upsert_imported_user sample_env (Inr ()) [] [] (10 * one_day) sample_row (di_users sample_dir) sample_dir"
  let ?d = "snd (snd ?u)"
  have i: "?u = (Inr False, di_users sample_dir, ?d)" by code_simp
  have b: "get_by_username sample_dir (py_strip (cell_of sample_row ''username'')) = Inr (Some sample_carol)"
    "py_strip (cell_of sample_row ''password'') \<noteq> []" "normalize_bool (sample_row ''is_active'') (ac_is_active sample_carol)"
    "ev_decode sample_env (10 * one_day + second) (sample_token 3 864000 ''access'') = Some (sample_token 3 864000 ''access'')"
    "cl_sub (sample_token 3 864000 ''access'') = Some (ac_id sample_carol)"
    "ac_created_at sample_carol - 2 * second \<le> 864000 * second"
    "\<not> is_ok (load_user_context sample_env (sample_auth sample_dir) True (10 * one_day + second) (Some (sample_token 3 864000 ''access'')))"
    "ac_id sample_carol = 3"
    by code_simp+
  have s: "cl_iat (sample_token 3 864000 ''access'') = Some 864000" "\<not> cl_requires_2fa (sample_token 3 864000 ''access'')"
    "redis_get (as_blacklist (sample_auth ?d)) (sample_token 3 864000 ''access'') (10 * one_day + second) = None"
    "as_dir (sample_auth ?d) = ?d"
    by (simp_all add: sample_token_def sample_auth_def redis_get_def)
  show ?thesis
    using import_revives_revoked_tokens [OF sample_directory_wf i b(1,2,4,5) s(1) b(6) s(2-4) b(3)] i b(7,8) by metis
qed

text \<open>A row that fails after its groups were resolved leaves the groups it created.\<close>

theorem failed_import_row_keeps_new_groups:
  "upsert_imported_user sample_env (Inl (http 402 ''licence'')) ''Fresh#2025'' [] 0
       [''username'' \<mapsto> ''newcomer'', ''user_groups'' \<mapsto> ''typo''] (di_users sample_dir) sample_dir
     = (Inl (http 402 ''licence''), di_users sample_dir, sample_dir\<lparr>di_groups := di_groups sample_dir @ new_groups 9 [''typo''], di_next_id := 10\<rparr>)"
  by code_simp

section \<open>The initialisation endpoint\<close>

lemma set_permissions_users: "set_permissions rid codes d = Inr d' \<Longrightarrow> di_users d' = di_users d"
  by (auto simp: set_permissions_def Let_def res_simps add_permissions_def)

lemma init_role_users: "init_role x d = Inr d' \<Longrightarrow> di_users d' = di_users d"
  by (cases x) (auto simp: init_role_def res_simps split: option.splits dest!: set_permissions_users)

lemma fold_init_users: "fold_res init_role xs d = Inr d' \<Longrightarrow> di_users d' = di_users d"
  by (induction xs arbitrary: d) (auto simp: res_simps dest: init_role_users)

lemma init_builtin_users: "init_builtin_roles d = Inr d' \<Longrightarrow> di_users d' = di_users d"
  unfolding init_builtin_roles_def by (drule fold_init_users) (simp add: init_default_permissions_def add_permissions_def)

lemma init_builtin_succeeds: "directory_wf d \<Longrightarrow> \<exists>d'. init_builtin_roles d = Inr d'"
  unfolding init_builtin_roles_def by (rule fold_init_succeeds [OF wf_init_permissions builtin_roles_distinct(2)])

lemma init_system_makes_admin:
  assumes "directory_wf d" "''admin'' \<notin> ac_username ` set (di_users d)"
  shows "\<exists>d' a. init_system env (Inr ()) salt now d = Inr d' \<and> get_by_username d' ''admin'' = Inr (Some a)
    \<and> get_account d' (ac_id a) = Some a \<and> ac_is_superuser a \<and> ac_is_active a
    \<and> ac_password a = hash_password env salt ''Admin@2024!''"
proof -
  obtain d1 where d1: "init_builtin_roles d = Inr d1" using init_builtin_succeeds [OF assms(1)] by blast
  have w1: "directory_wf d1" using wf_init_builtin_roles [OF assms(1) d1] .
  have n: "get_by_username d1 ''admin'' = Inr None"
    using get_by_username_iff [OF wf_users [OF w1], of _ None] assms(2) init_builtin_users [OF d1] by simp
  let ?u = "\<lparr> uc_username = ''admin'', uc_password = ''Admin@2024!'', uc_display_name = ''super administrator'', uc_email = [],
     uc_phone = [], uc_dingtalk_user_id = [], uc_feishu_open_id = [], uc_wecom_userid = [], uc_is_superuser = True,
     uc_role_id = None, uc_manager_id = None, uc_employee_id = [], uc_department = [], uc_title = [], uc_user_group_ids = [] \<rparr>"
  let ?a = "new_account env ?u salt now d1"
  let ?d2 = "(add_user ?a d1)\<lparr>di_user_group_member := di_user_group_member d1\<rparr>"
  have v: "username_valid ''admin''" "get_password_policy_violations ''Admin@2024!'' = []" by code_simp+
  have c: "create_user env (Inr ()) ?u salt now d1 = Inr (?a, ?d2)"
    using v n by (simp add: create_user_def strong_request_def validate_password_strength_def fk_ok_def new_account_def
        id_or_none_def existing_groups_def Let_def)
  have w2: "users_wf ?d2" by (rule wf_users [OF wf_create_user [OF w1 c]])
  have "?a \<in> set (di_users ?d2)" by (simp add: add_user_def)
  then have "get_account ?d2 (ac_id ?a) = Some ?a" "get_by_username ?d2 (ac_username ?a) = Inr (Some ?a)"
    using get_account_iff [OF w2] get_by_username_iff [OF w2] by auto
  moreover have "init_system env (Inr ()) salt now d = Inr ?d2" using d1 n c by (simp add: init_system_def)
  ultimately show ?thesis
    by (intro exI [of _ ?d2] exI [of _ ?a]) (simp add: new_account_def)
qed

text \<open>
Whoever calls the initialisation first is a superuser. The endpoint asks for no session;
while no account is named \<open>admin\<close> it creates one that is a superuser and whose password is a
constant of the source. A login with this password is answered with a password-change token,
and this token opens a session of the superuser for ten minutes.
\<close>

theorem first_caller_becomes_superuser:
  assumes "jwt_laws env" "bcrypt_law env" "directory_wf d" "''admin'' \<notin> ac_username ` set (di_users d)"
    and "k \<le> m + 599 * second"
  shows "\<exists>d' tr t. init_system env (Inr ()) salt now d = Inr d'
    \<and> login_checked env d' ''admin'' ''Admin@2024!'' m = Inr tr \<and> tr_password_change_token tr = Some t
    \<and> (\<forall>s. as_dir s = d' \<longrightarrow> redis_get (as_blacklist s) t k = None \<longrightarrow>
         (\<exists>u. load_user_context env s True k (Some t) = Inr u \<and> op_is_superuser u))"
proof -
  obtain d' a where i: "init_system env (Inr ()) salt now d = Inr d'" and n: "get_by_username d' ''admin'' = Inr (Some a)"
    and g: "get_account d' (ac_id a) = Some a" and a: "ac_is_superuser a" "ac_is_active a"
      "ac_password a = hash_password env salt ''Admin@2024!''"
    using init_system_makes_admin [OF assms(3,4)] by blast
  let ?t = "create_password_change_token env (build_auth_payload a) m"
  have "change_reasons_of a ''Admin@2024!'' m \<noteq> []"
    by (simp add: change_reasons_of_def get_login_password_change_reasons_def DEFAULT_PASSWORDS_def)
  then have l: "login_checked env d' ''admin'' ''Admin@2024!'' m = Inr (no_tokens\<lparr>tr_password_change_required := True,
      tr_password_change_token := Some ?t, tr_password_change_reasons := change_reasons_of a ''Admin@2024!'' m\<rparr>)"
    using n a verify_hash [OF assms(2)] by (simp add: login_checked_def)
  have "load_user_context env s True k (Some ?t) = Inr (context_of d' a)"
    if "as_dir s = d'" "redis_get (as_blacklist s) ?t k = None" for s
    unfolding load_user_context_iff using that g a password_change_live [OF assms(1,5), of a]
    by (auto simp: with_tenant_def build_auth_payload_def claims_for_def is_token_revoked_by_password_change_def)
  then show ?thesis
    using i l a(1) by (intro exI [of _ d'] exI conjI) (auto simp: context_of_fields)
qed

theorem first_caller_becomes_superuser_witness:
  "\<exists>d' u t. init_system sample_env (Inr ()) ''salt'' one_day sample_dir = Inr d'
     \<and> load_user_context sample_env (sample_auth d') True (2 * one_day) (Some t) = Inr u \<and> op_is_superuser u"
proof -
  have n: "''admin'' \<notin> ac_username ` set (di_users sample_dir)" by code_simp
  have k: "2 * one_day \<le> 2 * one_day + 599 * second" by (simp add: second_def)
  have s: "as_dir (sample_auth d) = d" "redis_get (as_blacklist (sample_auth d)) t j = None" for d t j
    by (simp_all add: sample_auth_def redis_get_def)
  show ?thesis
    using first_caller_becomes_superuser [OF sample_jwt_laws sample_bcrypt_law sample_directory_wf n k, of "''salt''" one_day] s by blast
qed

end
