(* ===== verification/Session_Access.thy ===== *)
theory Session_Access
  imports Access_Rights Query_Run
begin

text \<open>
  From the token of a request to a call on a database: the session of
  \<^verbatim>\<open>app/core/deps.py\<close> composed with the endpoint of \<^verbatim>\<open>app/services/query.py\<close>, over
  one directory of accounts, groups and instances.
\<close>

text \<open>The groups of an instance are the rows of \<open>instance_resource_group\<close>.\<close>

definition instances_linked :: "directory \<Rightarrow> store \<Rightarrow> bool" where
  "instances_linked d s \<longleftrightarrow> list_all (\<lambda>i. map rg_id (in_resource_groups i) =
     filter (\<lambda>r. (in_id i, r) \<in> set (di_instance_resource_group d)) (rgroup_ids d)) (st_instances s)"

lemma instance_group_link:
  "instances_linked d s \<Longrightarrow> i \<in> set (st_instances s) \<Longrightarrow> g \<in> set (in_resource_groups i) \<Longrightarrow>
     (in_id i, rg_id g) \<in> set (di_instance_resource_group d)"
  by (force simp: instances_linked_def list_all_iff dest: arg_cong [of _ _ set])

lemma allowed_query_access:
  "check_query_priv s today p r u inst db sql refs = Inr (True, reason) \<Longrightarrow> user_has_instance_access u inst"
  by (cases "user_has_instance_access u inst")
    (auto simp: check_query_priv_def query_bypass_reason_def user_has_query_bypass_def user_has_instance_access_def split: if_splits)

lemma session_instance_access:
  assumes "user_has_instance_access (context_of d a) inst"
  shows "ac_is_superuser a
    \<or> (\<exists>rid. ac_role_id a = Some rid \<and> ''query_all_instances'' \<in> set (role_codes d rid))
    \<or> (\<exists>gid. (ac_id a, gid) \<in> set (di_user_group_member d)
         \<and> (\<exists>g\<in>set (in_resource_groups inst). (gid, rg_id g) \<in> set (di_group_resource_group d)))"
  using assms unfolding user_has_instance_access_def has_perm_def shares_group_def context_of_fields context_permissions
    context_resource_groups
  by (auto split: if_splits)

text \<open>
C5: No database is reached but along the groups. When a request with a token makes a call on
an engine, the token is of an account that is active now, and this account is a superuser, or
its role has the permission for all instances now, or it is now a member of a user group that
is linked to a resource group to which the instance belongs. A change of the groups closes
the instance for sessions that are already open.
\<close>

theorem query_needs_group_chain:
  assumes "load_user_context env a up now tok = Inr u"
    and "query_endpoint qenv detail s u d op fmt ip = (calls, r, s')" "calls \<noteq> []"
    and "instances_linked (as_dir a) s"
  shows "\<exists>t c b. tok = Some t \<and> ev_decode env now t = Some c \<and> cl_sub c = Some (ac_id b)
    \<and> b \<in> set (di_users (as_dir a)) \<and> ac_is_active b
    \<and> (ac_is_superuser b
       \<or> (\<exists>rid. ac_role_id b = Some rid \<and> ''query_all_instances'' \<in> set (role_codes (as_dir a) rid))
       \<or> (\<exists>gid rid. (ac_id b, gid) \<in> set (di_user_group_member (as_dir a))
            \<and> (gid, rid) \<in> set (di_group_resource_group (as_dir a))
            \<and> (qx_instance_id d, rid) \<in> set (di_instance_resource_group (as_dir a))))"
proof -
  obtain t c uid b where f: "tok = Some t" "ev_decode env now t = Some c" "cl_sub c = Some uid"
    "get_account (as_dir a) uid = Some b" "ac_is_active b" "u = context_of (as_dir a) b"
    using assms(1) unfolding load_user_context_iff by blast
  obtain r0 s0 where run: "run_query_with_permissions qenv s u d op fmt ip = (calls, r0, s0)"
    using assms(2) by (auto simp: query_endpoint_def split: prod.splits sum.splits query_err.splits)
  obtain inst and gr :: guard_result and reason where i: "inst \<in> set (st_instances s)" "in_id inst = qx_instance_id d"
    "check_query_priv s (qe_today qenv) (qe_parse_one qenv) (qe_resolver qenv) u inst (qx_db_name d) (qx_sql d) (Some (gr_refs gr))
        = Inr (True, reason)"
    using run_calls [OF run] assms(3) by (auto simp: gates_passed_def Let_def)
  have "user_has_instance_access (context_of (as_dir a) b) inst" using allowed_query_access [OF i(3)] f(6) by simp
  from session_instance_access [OF this] instance_group_link [OF assms(4) i(1)] i(2) get_account_in [OF f(4)] f
  show ?thesis by (intro exI [of _ t] exI [of _ c] exI [of _ b]) auto
qed

definition session_dir :: directory where
  "session_dir = sample_dir\<lparr>di_users := [(sample_account 7 ''dev'' ''Dev#2024'')\<lparr>ac_role_id := None\<rparr>],
     di_rgroups := [\<lparr> rr_id = 1, rr_group_name = ''rg'', rr_group_name_cn = [], rr_is_active = True \<rparr>],
     di_instances := [(5, True)], di_user_group_member := [(7, 6)], di_group_resource_group := [(6, 1)],
     di_instance_resource_group := [(5, 1)]\<rparr>"

theorem query_needs_group_chain_witness:
  "\<exists>u calls r s'. load_user_context sample_env (sample_auth session_dir) True (30 * one_day) (Some (sample_token 7 2592000 ''access'')) = Inr u
     \<and> query_endpoint sample_query_env (\<lambda>_. ''denied'') (priv_store [sample_priv ''table'' ''app'' ''users'']) u sample_execution
         ''execute'' [] ''10.0.0.1'' = (calls, r, s')
     \<and> length calls = 1 \<and> (\<exists>b\<in>set (di_users session_dir). ac_id b = 7 \<and> ac_is_active b)"
proof -
  let ?u = "context_of session_dir ((sample_account 7 ''dev'' ''Dev#2024'')\<lparr>ac_role_id := None\<rparr>)"
  let ?q = "query_endpoint sample_query_env (\<lambda>_. ''denied'') (priv_store [sample_priv ''table'' ''app'' ''users'']) ?u sample_execution
         ''execute'' [] ''10.0.0.1''"
  have l: "load_user_context sample_env (sample_auth session_dir) True (30 * one_day) (Some (sample_token 7 2592000 ''access'')) = Inr ?u"
    by code_simp
  have c: "length (fst ?q) = 1" by code_simp
  have i: "instances_linked (as_dir (sample_auth session_dir)) (priv_store [sample_priv ''table'' ''app'' ''users''])" by code_simp
  have q: "?q = (fst ?q, fst (snd ?q), snd (snd ?q))" by simp
  have n: "fst ?q \<noteq> []" using c by auto
  have sub: "ev_decode sample_env (30 * one_day) (sample_token 7 2592000 ''access'') = Some c \<Longrightarrow> cl_sub c = Some 7" for c
    by (auto simp: sample_env_def sample_token_def split: if_splits)
  have "\<exists>b\<in>set (di_users session_dir). ac_id b = 7 \<and> ac_is_active b"
    using query_needs_group_chain [OF l q n i] sub by (force simp: sample_auth_def)
  then show ?thesis using l c q by metis
qed

end
