(* ===== verification/Json_Values.thy ===== *)
theory Json_Values
  imports Query_Guard
begin

text \<open>
  What the services do with decoded JSON (the type \<open>json\<close> of \<^verbatim>\<open>Query_Guard\<close>): look up a
  key, test a value for truth, read a list or an object.
\<close>

type_synonym json_obj = "(string \<times> json) list"

text \<open>\<open>bool\<close> of a JSON value; a number is kept as its text.\<close>

definition num_zero :: "string \<Rightarrow> bool" where
  "num_zero t \<longleftrightarrow> list_all (\<lambda>c. c \<in> {CHR ''0'', CHR ''.'', CHR ''-''}) (takeWhile (\<lambda>c. c \<notin> {CHR ''e'', CHR ''E''}) t)"

fun json_truthy :: "json \<Rightarrow> bool" where
  "json_truthy JNull = False"
| "json_truthy (JBool b) = b"
| "json_truthy (JNum t) = (\<not> num_zero t)"
| "json_truthy (JStr s) = (s \<noteq> [])"
| "json_truthy (JArr xs) = (xs \<noteq> [])"
| "json_truthy (JObj kvs) = (kvs \<noteq> [])"

definition obj_get :: "json_obj \<Rightarrow> string \<Rightarrow> json" where
  "obj_get kvs k = (case map_of kvs k of None \<Rightarrow> JNull | Some v \<Rightarrow> v)"

definition json_list :: "json \<Rightarrow> json list" where
  "json_list v = (case v of JArr xs \<Rightarrow> xs | _ \<Rightarrow> [])"

definition json_fields :: "json \<Rightarrow> json_obj" where
  "json_fields v = (case v of JObj kvs \<Rightarrow> kvs | _ \<Rightarrow> [])"

end
