(* ===== verification/License_Service.thy ===== *)
theory License_Service
  imports Auth_Service Json_Values
begin

text \<open>
  \<^verbatim>\<open>app/services/license.py\<close> and \<^verbatim>\<open>app/tasks/license.py\<close>. The state is the table of licence records and the
  columns of the instances that the quota concerns. Signatures, digests, the conversions of
  JSON values by \<open>str\<close> and \<open>int\<close>, the parser of dates, and the replies of the licence server
  are arguments.
\<close>

section \<open>Settings and values\<close>

text \<open>The licence server does not answer, answers no JSON, or answers a status and a value.\<close>

datatype server_reply = Unreachable | NotJson | Reply int json

record license_env =
  le_loads :: "string \<Rightarrow> json option"
  le_str :: "json \<Rightarrow> string"
  le_int :: "json \<Rightarrow> int option"
  le_parse_datetime :: "string \<Rightarrow> time option"
  le_isoformat :: "time \<Rightarrow> string"
  le_sha256 :: "string \<Rightarrow> string"
  le_hmac :: "string \<Rightarrow> json_obj \<Rightarrow> string"
  le_verify :: "string \<Rightarrow> string \<Rightarrow> json_obj \<Rightarrow> bool res"
  le_public_key :: string
  le_customer_id :: string
  le_deployment_id :: string
  le_secret_key :: string
  le_server_url :: string
  le_grace_days :: int
  le_challenge_minutes :: int
  le_server :: "string \<Rightarrow> json_obj \<Rightarrow> server_reply"
  le_usage :: json
  le_runtime :: "string \<Rightarrow> json"
  le_production :: bool
  le_allow_legacy :: bool
  le_auto_refresh :: bool
  le_renewal_days :: "int list"

definition LICENSE_PROJECT_CODE :: string where
  "LICENSE_PROJECT_CODE = ''sagitta-control''"

definition LICENSE_FEATURES :: "string list" where
  "LICENSE_FEATURES = [''ai'', ''archive'', ''instance'', ''masking'', ''monitor'', ''query'', ''workflow'']"

definition UNREGISTERED_TRIAL_DAYS :: int where "UNREGISTERED_TRIAL_DAYS = 7"

definition OFFLINE_TRIAL_DAYS :: int where "OFFLINE_TRIAL_DAYS = 30"

definition COMMUNITY_FEATURES :: "string list" where
  "COMMUNITY_FEATURES = [''instance'', ''query'', ''workflow'']"

definition COMMUNITY_LIMITS :: json_obj where
  "COMMUNITY_LIMITS = [(''max_users'', JNum ''0''), (''max_instances'', JNum ''5'')]"

definition json_text :: "license_env \<Rightarrow> json \<Rightarrow> string" where
  "json_text env v = (case v of JStr s \<Rightarrow> s | _ \<Rightarrow> le_str env v)"

text \<open>\<open>str(value or dflt)\<close>.\<close>

definition text_or :: "license_env \<Rightarrow> json \<Rightarrow> string \<Rightarrow> string" where
  "text_or env v dflt = (if json_truthy v then json_text env v else dflt)"

definition parse_datetime :: "license_env \<Rightarrow> json \<Rightarrow> time option res" where
  "parse_datetime env v =
     (if \<not> json_truthy v then Inr None
      else case v of
        JStr s \<Rightarrow> (case le_parse_datetime env s of None \<Rightarrow> Inl (RawException PyValueError) | Some t \<Rightarrow> Inr (Some t))
      | _ \<Rightarrow> Inl (RawException (EngineRaised ''AttributeError'')))"

section \<open>State\<close>

datatype license_status = LTrial | LLicensed | LInvalid | LCommunity

text \<open>\<open>lr_check_status\<close> is \<open>None\<close> for the text \<^verbatim>\<open>ok\<close>.\<close>

record license_record =
  lr_id :: int
  lr_source :: string
  lr_payload :: json_obj
  lr_signature :: string
  lr_status :: license_status
  lr_is_current :: bool
  lr_license_id :: string
  lr_customer_id :: string
  lr_company_name :: string
  lr_edition :: string
  lr_features :: "json list"
  lr_limits :: json_obj
  lr_activation_code :: string
  lr_activation_id :: string
  lr_server_url :: string
  lr_remote_status :: string
  lr_fingerprint :: string
  lr_issued_at :: "time option"
  lr_not_before :: "time option"
  lr_expires_at :: "time option"
  lr_online_check_at :: "time option"
  lr_check_status :: "license_status option"
  lr_check_reason :: string
  lr_created_at :: time

record quota_row =
  qi_id :: int
  qi_is_active :: bool
  qi_suspended :: bool
  qi_created_at :: time

record license_store =
  ls_records :: "license_record list"
  ls_instances :: "quota_row list"
  ls_next_id :: int

type_synonym 'a lic_outcome = "'a res \<times> license_store"

text \<open>A request that ends with an exception commits nothing.\<close>

definition rolled_back :: "license_store \<Rightarrow> 'a lic_outcome \<Rightarrow> 'a lic_outcome" where
  "rolled_back s r = (case r of (Inl e, _) \<Rightarrow> (Inl e, s) | (Inr x, s1) \<Rightarrow> (Inr x, s1))"

definition put_record :: "license_record \<Rightarrow> license_store \<Rightarrow> license_store" where
  "put_record r s = s\<lparr>ls_records := row_put lr_id r (ls_records s)\<rparr>"

definition current_record :: "license_store \<Rightarrow> license_record option" where
  "current_record s =
     (case sort_key (\<lambda>r. - lr_created_at r) (sort_key (\<lambda>r. - lr_id r) (filter lr_is_current (ls_records s))) of
        [] \<Rightarrow> None | r # _ \<Rightarrow> Some r)"

section \<open>Documents\<close>

definition deployment_fingerprint :: "license_env \<Rightarrow> string \<Rightarrow> string" where
  "deployment_fingerprint env customer_id =
     (let deployment = or_str (py_strip (le_deployment_id env)) (py_strip (le_secret_key env));
          customer = or_str customer_id (or_str (py_strip (le_customer_id env)) ''trial'')
      in le_sha256 env (''sagitta-control:'' @ customer @ '':'' @ deployment))"

text \<open>A text is parsed, anything else is taken as it is.\<close>

definition document_of :: "license_env \<Rightarrow> json \<Rightarrow> json option" where
  "document_of env raw = (case raw of JStr t \<Rightarrow> le_loads env t | _ \<Rightarrow> Some raw)"

definition parse_license_document :: "license_env \<Rightarrow> json \<Rightarrow> (json_obj \<times> string) res" where
  "parse_license_document env raw =
     (case document_of env raw of
        None \<Rightarrow> Inl (http 400 ''license JSON'')
      | Some (JObj doc) \<Rightarrow>
          (case (obj_get doc ''payload'', obj_get doc ''signature'') of
             (JObj payload, JStr signature) \<Rightarrow>
               raise_if (signature = []) (http 400 ''payload and signature'') (Inr (payload, signature))
           | _ \<Rightarrow> Inl (http 400 ''payload and signature''))
      | Some _ \<Rightarrow> Inl (http 400 ''license object''))"

definition REQUIRED_FIELDS :: "string list" where
  "REQUIRED_FIELDS = [''license_id'', ''customer_id'', ''company_name'', ''edition'', ''not_before'', ''expires_at'',
     ''features'', ''limits'', ''issued_at'']"

definition validate_payload_shape :: "json_obj \<Rightarrow> unit res" where
  "validate_payload_shape p =
     raise_if (\<not> set REQUIRED_FIELDS \<subseteq> fst ` set p) (http 400 ''missing fields'')
     (case obj_get p ''features'' of
        JArr _ \<Rightarrow> (case obj_get p ''limits'' of JObj _ \<Rightarrow> Inr () | _ \<Rightarrow> Inl (http 400 ''limits''))
      | _ \<Rightarrow> Inl (http 400 ''features''))"

definition validate_customer :: "license_env \<Rightarrow> json_obj \<Rightarrow> unit res" where
  "validate_customer env p =
     (let expected = py_strip (le_customer_id env) in
      raise_if (expected \<noteq> [] \<and> obj_get p ''customer_id'' \<noteq> JStr expected) (http 400 ''customer'') (Inr ()))"

definition validate_project :: "license_env \<Rightarrow> json_obj \<Rightarrow> unit res" where
  "validate_project env p =
     (let v = (if json_truthy (obj_get p ''project'') then obj_get p ''project'' else obj_get p ''product'');
          project = py_lower (py_strip (text_or env v []))
      in raise_if (project \<noteq> [] \<and> project \<noteq> LICENSE_PROJECT_CODE) (http 400 ''project'') (Inr ()))"

definition verify_license_document :: "license_env \<Rightarrow> json \<Rightarrow> (json_obj \<times> string) res" where
  "verify_license_document env raw =
     rbind (parse_license_document env raw) (\<lambda>(p, signature).
     rbind (validate_payload_shape p) (\<lambda>_.
     rbind (validate_customer env p) (\<lambda>_.
     rbind (validate_project env p) (\<lambda>_.
     raise_if (py_strip (le_public_key env) = []) (http 400 ''public key'')
     (rbind (le_verify env (py_strip (le_public_key env)) signature p) (\<lambda>ok.
      raise_if (\<not> ok) (http 400 ''signature'')
      (let expected = py_strip (text_or env (obj_get p ''deployment_fingerprint'') []) in
       raise_if (expected \<noteq> [] \<and> expected \<noteq> deployment_fingerprint env (text_or env (obj_get p ''customer_id'') []))
         (http 400 ''fingerprint'')
         (Inr (p, signature)))))))))"

section \<open>Offline challenges\<close>

definition sign_challenge_payload :: "license_env \<Rightarrow> json_obj \<Rightarrow> string res" where
  "sign_challenge_payload env p =
     (let secret = py_strip (le_secret_key env) in
      raise_if (secret = []) (http 500 ''challenge secret'') (Inr (le_hmac env secret p)))"

definition create_offline_challenge :: "license_env \<Rightarrow> string \<Rightarrow> string \<Rightarrow> time \<Rightarrow> json res" where
  "create_offline_challenge env customer_id nonce now =
     (let customer = or_str (py_strip customer_id) (py_strip (le_customer_id env));
          payload = [(''project'', JStr LICENSE_PROJECT_CODE), (''product'', JStr LICENSE_PROJECT_CODE),
            (''customer_id'', JStr customer), (''deployment_fingerprint'', JStr (deployment_fingerprint env customer)),
            (''nonce'', JStr nonce), (''issued_at'', JStr (le_isoformat env now)),
            (''expires_at'', JStr (le_isoformat env (now + le_challenge_minutes env * 60 * second)))]
      in raise_if (customer = []) (http 400 ''customer'')
         (rbind (sign_challenge_payload env payload) (\<lambda>signature.
           Inr (JObj [(''payload'', JObj payload), (''signature'', JStr signature)]))))"

text \<open>\<open>hmac.compare_digest\<close> raises on a text with characters outside ASCII.\<close>

definition compare_digest :: "string \<Rightarrow> string \<Rightarrow> bool res" where
  "compare_digest a b =
     (if list_ex (\<lambda>c. 128 \<le> char_code c) (a @ b) then Inl (RawException PyTypeError) else Inr (a = b))"

definition challenge_parts :: "json \<Rightarrow> (json_obj \<times> string) res" where
  "challenge_parts challenge =
     (case challenge of
        JObj c \<Rightarrow>
          (case (obj_get c ''payload'', obj_get c ''signature'') of
             (JObj p, JStr signature) \<Rightarrow> raise_if (signature = []) (http 400 ''challenge format'') (Inr (p, signature))
           | _ \<Rightarrow> Inl (http 400 ''challenge format''))
      | _ \<Rightarrow> Inl (http 400 ''challenge format''))"

definition verify_offline_challenge :: "license_env \<Rightarrow> time \<Rightarrow> json \<Rightarrow> json_obj res" where
  "verify_offline_challenge env now challenge =
     rbind (challenge_parts challenge) (\<lambda>(p, signature).
     rbind (sign_challenge_payload env p) (\<lambda>expected.
     rbind (compare_digest signature expected) (\<lambda>same.
     raise_if (\<not> same) (http 400 ''challenge signature'')
     (rbind (validate_project env p) (\<lambda>_.
      let customer = py_strip (text_or env (obj_get p ''customer_id'') []) in
      raise_if (customer = []) (http 400 ''challenge customer'')
      (rbind (parse_datetime env (JStr (text_or env (obj_get p ''expires_at'') []))) (\<lambda>expires_at.
       raise_if (case expires_at of None \<Rightarrow> False | Some t \<Rightarrow> t < now) (http 400 ''challenge expired'')
       (raise_if (text_or env (obj_get p ''deployment_fingerprint'') [] \<noteq> deployment_fingerprint env customer)
         (http 400 ''challenge fingerprint'')
         (Inr p))))))))) "

text \<open>A response file holds the challenge beside the licence; other documents pass through.\<close>

definition normalize_import_document :: "license_env \<Rightarrow> time \<Rightarrow> json \<Rightarrow> (json \<times> json_obj option) res" where
  "normalize_import_document env now raw =
     (case document_of env raw of
        Some (JObj doc) \<Rightarrow>
          if ''challenge'' \<notin> fst ` set doc \<or> ''license'' \<notin> fst ` set doc then Inr (raw, None)
          else
            rbind (verify_offline_challenge env now (obj_get doc ''challenge'')) (\<lambda>c.
            rbind (verify_license_document env (obj_get doc ''license'')) (\<lambda>(p, _).
            raise_if (obj_get p ''customer_id'' \<noteq> JStr (text_or env (obj_get c ''customer_id'') [])) (http 400 ''license customer'')
            (raise_if (text_or env (obj_get p ''deployment_fingerprint'') [] \<noteq> text_or env (obj_get c ''deployment_fingerprint'') [])
              (http 400 ''license fingerprint'')
              (Inr (obj_get doc ''license'', Some c)))))
      | _ \<Rightarrow> Inr (raw, None))"

section \<open>Trial and status\<close>

definition local_trial_days :: "license_env \<Rightarrow> int" where
  "local_trial_days env = (if py_strip (le_server_url env) \<noteq> [] then UNREGISTERED_TRIAL_DAYS else OFFLINE_TRIAL_DAYS)"

definition trial_record :: "license_env \<Rightarrow> time \<Rightarrow> int \<Rightarrow> license_record" where
  "trial_record env now i =
     \<lparr>lr_id = i, lr_source = ''trial'', lr_payload = [], lr_signature = [], lr_status = LTrial, lr_is_current = True,
      lr_license_id = ''trial'', lr_customer_id = or_str (le_customer_id env) ''trial'', lr_company_name = ''unregistered trial'',
      lr_edition = ''trial'', lr_features = map JStr LICENSE_FEATURES, lr_limits = [], lr_activation_code = [],
      lr_activation_id = [], lr_server_url = [], lr_remote_status = [], lr_fingerprint = [],
      lr_issued_at = Some now, lr_not_before = Some now, lr_expires_at = Some (now + local_trial_days env * one_day),
      lr_online_check_at = None, lr_check_status = None, lr_check_reason = ''unregistered trial'', lr_created_at = now\<rparr>"

definition add_record :: "license_record \<Rightarrow> license_store \<Rightarrow> license_store" where
  "add_record r s = s\<lparr>ls_records := ls_records s @ [r], ls_next_id := ls_next_id s + 1\<rparr>"

definition ensure_trial :: "license_env \<Rightarrow> time \<Rightarrow> license_store \<Rightarrow> license_record \<times> license_store" where
  "ensure_trial env now s =
     (case current_record s of
        Some r \<Rightarrow>
          (case (lr_source r = ''trial'', lr_issued_at r) of
             (True, Some issued_at) \<Rightarrow>
               let configured = issued_at + local_trial_days env * one_day;
                   r1 = r\<lparr>lr_expires_at := Some configured, lr_check_status := None, lr_check_reason := ''in trial''\<rparr>
               in if (case lr_expires_at r of None \<Rightarrow> True | Some t \<Rightarrow> t < configured) then (r1, put_record r1 s) else (r, s)
           | _ \<Rightarrow> (r, s))
      | None \<Rightarrow> let r = trial_record env now (ls_next_id s) in (r, add_record r s))"

definition evaluate_record :: "license_env \<Rightarrow> time \<Rightarrow> license_record \<Rightarrow> license_status \<times> string" where
  "evaluate_record env now r =
     (let fine = (if lr_source r = ''trial'' then (LTrial, ''in trial'') else (LLicensed, ''valid'')) in
      if (case lr_not_before r of None \<Rightarrow> False | Some t \<Rightarrow> now < t) then (LInvalid, ''not yet valid'')
      else if (case lr_expires_at r of None \<Rightarrow> False | Some t \<Rightarrow> t < now) then (LCommunity, ''expired'')
      else if lr_status r = LInvalid then (LInvalid, or_str (lr_check_reason r) ''invalid'')
      else if lr_source r = ''online'' \<and> 0 < le_grace_days env then
        (case (case lr_online_check_at r of Some t \<Rightarrow> Some t | None \<Rightarrow> lr_issued_at r) of
           None \<Rightarrow> (LInvalid, ''never checked online'')
         | Some anchor \<Rightarrow> if le_grace_days env * one_day < now - anchor then (LCommunity, ''grace exceeded'') else fine)
      else fine)"

record license_info =
  lv_status :: license_status
  lv_reason :: string
  lv_source :: string
  lv_license_id :: string
  lv_customer_id :: string
  lv_activation_customer_id :: string
  lv_company_name :: string
  lv_edition :: string
  lv_features :: "json list"
  lv_limits :: json_obj
  lv_activation_id :: string
  lv_remote_status :: string
  lv_fingerprint :: string
  lv_activation_fingerprint :: string
  lv_online_check_at :: "time option"
  lv_issued_at :: "time option"
  lv_not_before :: "time option"
  lv_expires_at :: "time option"
  lv_days_remaining :: "int option"
  lv_warning_level :: string

definition days_remaining :: "time \<Rightarrow> license_record \<Rightarrow> int option" where
  "days_remaining now r = map_option (\<lambda>t. max 0 ((t - now + 86399 * second) div one_day)) (lr_expires_at r)"

definition warning_level :: "license_status \<Rightarrow> int option \<Rightarrow> string" where
  "warning_level st days =
     (if st = LCommunity then ''critical''
      else case (st, days) of
        (LInvalid, _) \<Rightarrow> []
      | (_, None) \<Rightarrow> []
      | (_, Some d) \<Rightarrow> if d \<le> 7 then ''critical'' else if d \<le> 30 then ''warning'' else [])"

definition license_info_of :: "license_env \<Rightarrow> time \<Rightarrow> license_record \<Rightarrow> license_info" where
  "license_info_of env now r =
     (let (st, reason) = evaluate_record env now r;
          activation = or_str (py_strip (le_customer_id env)) (lr_customer_id r);
          fingerprint_customer = (if lr_source r = ''trial'' then activation else lr_customer_id r);
          days = days_remaining now r
      in \<lparr>lv_status = st, lv_reason = reason, lv_source = lr_source r, lv_license_id = lr_license_id r,
          lv_customer_id = lr_customer_id r, lv_activation_customer_id = activation, lv_company_name = lr_company_name r,
          lv_edition = (if st = LCommunity then ''community'' else lr_edition r),
          lv_features = (if st = LCommunity then map JStr COMMUNITY_FEATURES else lr_features r),
          lv_limits = (if st = LCommunity then COMMUNITY_LIMITS else lr_limits r),
          lv_activation_id = lr_activation_id r, lv_remote_status = lr_remote_status r,
          lv_fingerprint = or_str (lr_fingerprint r) (deployment_fingerprint env fingerprint_customer),
          lv_activation_fingerprint = deployment_fingerprint env activation,
          lv_online_check_at = lr_online_check_at r, lv_issued_at = lr_issued_at r, lv_not_before = lr_not_before r,
          lv_expires_at = lr_expires_at r, lv_days_remaining = days, lv_warning_level = warning_level st days\<rparr>)"

definition note_check :: "license_status \<Rightarrow> string \<Rightarrow> license_record \<Rightarrow> license_store \<Rightarrow> license_store" where
  "note_check st reason r s =
     (if lr_check_status r \<noteq> Some st \<or> lr_check_reason r \<noteq> reason
      then put_record (r\<lparr>lr_check_status := Some st, lr_check_reason := reason\<rparr>) s else s)"

definition get_license_status :: "license_env \<Rightarrow> time \<Rightarrow> license_store \<Rightarrow> license_info \<times> license_store" where
  "get_license_status env now s =
     (let (r, s1) = ensure_trial env now s; (st, reason) = evaluate_record env now r
      in (license_info_of env now r, note_check st reason r s1))"

section \<open>Quota of instances\<close>

text \<open>\<open>limit in (None, '', 0)\<close>: \<open>False\<close> equals 0, and empty lists and objects do not.\<close>

definition no_limit :: "json \<Rightarrow> bool" where
  "no_limit v = (case v of JNull \<Rightarrow> True | JBool b \<Rightarrow> \<not> b | JNum t \<Rightarrow> num_zero t | JStr t \<Rightarrow> t = [] | _ \<Rightarrow> False)"

definition max_instances :: "license_env \<Rightarrow> license_info \<Rightarrow> int" where
  "max_instances env info =
     (let v = obj_get (lv_limits info) ''max_instances'' in
      if json_truthy v then (case le_int env v of None \<Rightarrow> 0 | Some n \<Rightarrow> n) else 0)"

definition quota_instances :: "license_store \<Rightarrow> quota_row list" where
  "quota_instances s = sort_key qi_created_at (sort_key qi_id (filter qi_is_active (ls_instances s)))"

definition keep_ids :: "int \<Rightarrow> quota_row list \<Rightarrow> int list" where
  "keep_ids m rows =
     (let kept = map qi_id (filter (\<lambda>r. \<not> qi_suspended r) rows) in
      if m \<le> 0 \<or> int (length rows) \<le> m then map qi_id rows
      else if m < int (length kept) then take (nat m) kept
      else kept)"

text \<open>\<open>UPDATE ... SET license_suspended = b WHERE id IN ids AND license_suspended = NOT b\<close> and its row count.\<close>

definition set_suspended :: "bool \<Rightarrow> int list \<Rightarrow> license_store \<Rightarrow> license_store" where
  "set_suspended b ids s =
     s\<lparr>ls_instances := map (\<lambda>r. if qi_id r \<in> set ids then r\<lparr>qi_suspended := b\<rparr> else r) (ls_instances s)\<rparr>"

definition suspended_count :: "bool \<Rightarrow> int list \<Rightarrow> license_store \<Rightarrow> nat" where
  "suspended_count b ids s = length (filter (\<lambda>r. qi_id r \<in> set ids \<and> qi_suspended r \<noteq> b) (ls_instances s))"

definition sync_instance_suspension :: "license_env \<Rightarrow> time \<Rightarrow> license_store \<Rightarrow> (nat \<times> nat) \<times> license_store" where
  "sync_instance_suspension env now s =
     (let (info, s1) = get_license_status env now s in
      if lv_status info = LInvalid then ((0, 0), s1)
      else
        let rows = quota_instances s1;
            keep = keep_ids (max_instances env info) rows;
            drop_ids = filter (\<lambda>i. i \<notin> set keep) (map qi_id rows);
            restored = suspended_count False keep s1;
            s2 = set_suspended False keep s1;
            suspended = suspended_count True drop_ids s2
        in ((suspended, restored), set_suspended True drop_ids s2))"

record allocation =
  al_status :: license_status
  al_max_instances :: int
  al_active_total :: nat
  al_enabled_total :: nat
  al_selectable :: bool
  al_instances :: "(int \<times> bool) list"

definition instance_allocation :: "license_env \<Rightarrow> time \<Rightarrow> license_store \<Rightarrow> allocation \<times> license_store" where
  "instance_allocation env now s =
     (let (info, s1) = get_license_status env now s; m = max_instances env info; rows = quota_instances s1
      in (\<lparr>al_status = lv_status info, al_max_instances = m, al_active_total = length rows,
           al_enabled_total = length (filter (\<lambda>r. \<not> qi_suspended r) rows),
           al_selectable = (0 < m \<and> m < int (length rows)),
           al_instances = map (\<lambda>r. (qi_id r, qi_suspended r)) rows\<rparr>, s1))"

text \<open>The status check commits before the selection is refused.\<close>

definition select_active_instances :: "license_env \<Rightarrow> time \<Rightarrow> int list \<Rightarrow> license_store \<Rightarrow> allocation lic_outcome" where
  "select_active_instances env now ids s =
     (let (info, s1) = get_license_status env now s; m = max_instances env info; selected = remdups ids;
          active_ids = map qi_id (filter qi_is_active (ls_instances s1));
          rest = filter (\<lambda>i. i \<notin> set selected) active_ids
      in if m \<le> 0 then (Inl (http 400 ''no quota''), s1)
         else if selected = [] then (Inl (http 400 ''select an instance''), s1)
         else if m < int (length selected) then (Inl (http 400 ''too many instances''), s1)
         else if \<not> set selected \<subseteq> set active_ids then (Inl (http 400 ''unknown instance''), s1)
         else let (view, s2) = instance_allocation env now (set_suspended True rest (set_suspended False selected s1))
              in (Inr view, s2))"

text \<open>\<open>enforce_limit\<close>: \<open>current\<close> is the count of the query.\<close>

definition enforce_limit :: "license_env \<Rightarrow> time \<Rightarrow> string \<Rightarrow> nat \<Rightarrow> license_store \<Rightarrow> unit lic_outcome" where
  "enforce_limit env now name current s =
     (let (info, s1) = get_license_status env now s; limit = obj_get (lv_limits info) name in
      (raise_if (lv_status info = LInvalid) (http 403 (or_str (lv_reason info) ''License''))
        (if no_limit limit then Inr ()
         else (case le_int env limit of
                 None \<Rightarrow> Inr ()
               | Some n \<Rightarrow> raise_if (n \<le> int current) (http 403 ''limit'') (Inr ()))), s1))"

definition enforce_max_users :: "license_env \<Rightarrow> time \<Rightarrow> directory \<Rightarrow> license_store \<Rightarrow> unit lic_outcome" where
  "enforce_max_users env now d s =
     enforce_limit env now ''max_users'' (length (filter ac_is_active (di_users d))) s"

definition enforce_max_instances :: "license_env \<Rightarrow> time \<Rightarrow> license_store \<Rightarrow> unit lic_outcome" where
  "enforce_max_instances env now s =
     enforce_limit env now ''max_instances'' (length (filter qi_is_active (ls_instances s))) s"

section \<open>Storing a licence\<close>

definition obj_text :: "license_env \<Rightarrow> json_obj \<Rightarrow> string \<Rightarrow> string" where
  "obj_text env p k = text_or env (obj_get p k) []"

record origin =
  og_source :: string
  og_activation_code :: string
  og_activation_id :: string
  og_remote_status :: string
  og_server_url :: string
  og_challenge :: bool

definition license_record_of ::
    "license_env \<Rightarrow> time \<Rightarrow> origin \<Rightarrow> json_obj \<Rightarrow> string \<Rightarrow> int \<Rightarrow> license_record res" where
  "license_record_of env now og p signature i =
     rbind (parse_datetime env (obj_get p ''issued_at'')) (\<lambda>issued_at.
     rbind (parse_datetime env (obj_get p ''not_before'')) (\<lambda>not_before.
     rbind (parse_datetime env (obj_get p ''expires_at'')) (\<lambda>expires_at.
     Inr \<lparr>lr_id = i, lr_source = og_source og, lr_payload = p, lr_signature = signature,
       lr_status = LLicensed, lr_is_current = True,
       lr_license_id = json_text env (obj_get p ''license_id''), lr_customer_id = json_text env (obj_get p ''customer_id''),
       lr_company_name = json_text env (obj_get p ''company_name''), lr_edition = json_text env (obj_get p ''edition''),
       lr_features = json_list (obj_get p ''features''), lr_limits = json_fields (obj_get p ''limits''),
       lr_activation_code = og_activation_code og, lr_activation_id = og_activation_id og,
       lr_server_url = og_server_url og, lr_remote_status = og_remote_status og,
       lr_fingerprint = or_str (py_strip (obj_text env p ''deployment_fingerprint''))
         (deployment_fingerprint env (obj_text env p ''customer_id'')),
       lr_issued_at = issued_at, lr_not_before = not_before, lr_expires_at = expires_at,
       lr_online_check_at = (if og_source og = ''online'' then Some now else None),
       lr_check_status = None, lr_check_reason = (if og_challenge og then ''imported by challenge'' else ''imported''),
       lr_created_at = now\<rparr>)))"

definition retire_records :: "license_store \<Rightarrow> license_store" where
  "retire_records s = s\<lparr>ls_records := map (lr_is_current_update (\<lambda>_. False)) (ls_records s)\<rparr>"

text \<open>
  The state of a failure is the session's: it holds the retired records that
  the transaction has written and not committed.
\<close>

definition store_license :: "license_env \<Rightarrow> time \<Rightarrow> origin \<Rightarrow> json \<Rightarrow> license_store \<Rightarrow> license_info lic_outcome" where
  "store_license env now og raw s =
     (case verify_license_document env raw of
        Inl e \<Rightarrow> (Inl e, s)
      | Inr (p, signature) \<Rightarrow>
          (let s1 = retire_records s in
           case license_record_of env now og p signature (ls_next_id s1) of
             Inl e \<Rightarrow> (Inl e, s1)
           | Inr r \<Rightarrow>
               let s2 = add_record r s1;
                   (st, reason) = evaluate_record env now r;
                   s3 = (if st \<noteq> LLicensed
                         then put_record (r\<lparr>lr_status := st, lr_check_status := Some st, lr_check_reason := reason\<rparr>) s2
                         else s2);
                   (_, s4) = sync_instance_suspension env now s3;
                   (info, s5) = get_license_status env now s4
               in (Inr info, s5)))"

definition import_license :: "license_env \<Rightarrow> time \<Rightarrow> json \<Rightarrow> license_store \<Rightarrow> license_info lic_outcome" where
  "import_license env now raw s =
     (case normalize_import_document env now raw of
        Inl e \<Rightarrow> (Inl e, s)
      | Inr (doc, challenge) \<Rightarrow>
          let challenged = (challenge \<noteq> None \<and> challenge \<noteq> Some []) in
          if \<not> challenged \<and> le_production env \<and> \<not> le_allow_legacy env
          then (Inl (http 400 ''challenge required''), s)
          else store_license env now
            \<lparr>og_source = (if challenged then ''offline'' else ''import''), og_activation_code = [], og_activation_id = [],
             og_remote_status = [], og_server_url = [], og_challenge = challenged\<rparr> doc s)"

section \<open>The licence server\<close>

definition license_server_url :: "license_env \<Rightarrow> string" where
  "license_server_url env = rev (dropWhile (\<lambda>c. c = CHR ''/'') (rev (py_strip (le_server_url env))))"

definition call_license_server :: "license_env \<Rightarrow> string \<Rightarrow> json_obj \<Rightarrow> json_obj res" where
  "call_license_server env path payload =
     raise_if (license_server_url env = []) (http 501 ''no licence server'')
     (case le_server env path payload of
        Unreachable \<Rightarrow> Inl (http 502 ''unavailable'')
      | NotJson \<Rightarrow> Inl (http 502 ''format'')
      | Reply code v \<Rightarrow>
          raise_if (400 \<le> code)
            (http code (text_or env (obj_get (json_fields v) ''detail'') ''refused''))
            (case v of JObj kvs \<Rightarrow> Inr kvs | _ \<Rightarrow> Inl (http 502 ''format'')))"

definition project_payload :: json_obj where
  "project_payload = [(''project'', JStr LICENSE_PROJECT_CODE), (''product'', JStr LICENSE_PROJECT_CODE)]"

definition activation_fingerprint :: "license_env \<Rightarrow> string \<Rightarrow> json_obj res" where
  "activation_fingerprint env customer_id =
     (let c = py_strip (or_str customer_id (le_customer_id env)) in
      raise_if (c = []) (http 400 ''customer'')
        (Inr (project_payload @ [(''project_code'', JStr LICENSE_PROJECT_CODE), (''project_name'', JStr ''Sagitta Control''),
           (''customer_id'', JStr c), (''deployment_fingerprint'', JStr (deployment_fingerprint env c))])))"

definition trial_customer_id :: "license_env \<Rightarrow> string" where
  "trial_customer_id env =
     (let configured = py_strip (le_customer_id env);
          seed = or_str (py_strip (le_deployment_id env)) (py_strip (le_secret_key env))
      in or_str configured (''TRIAL-'' @ py_upper_ascii (take 16 (le_sha256 env (''sagitta-control-trial:'' @ seed)))))"

definition send_trial_code :: "license_env \<Rightarrow> string \<Rightarrow> string \<Rightarrow> json_obj res" where
  "send_trial_code env email phone =
     raise_if (py_strip email = []) (http 400 ''email'')
     (call_license_server env ''/api/v1/licenses/trial/send-code''
       ([(''customer_id'', JStr (trial_customer_id env)), (''contact_email'', JStr (py_strip email)),
         (''contact_phone'', JStr (py_strip phone))] @ project_payload))"

definition store_reply ::
    "license_env \<Rightarrow> time \<Rightarrow> string \<Rightarrow> string \<Rightarrow> json_obj \<Rightarrow> license_store \<Rightarrow> license_info lic_outcome" where
  "store_reply env now code dflt_id reply s =
     (if \<not> json_truthy (obj_get reply ''license'') then (Inl (http 502 ''no licence''), s)
      else store_license env now
        \<lparr>og_source = ''online'', og_activation_code = code, og_activation_id = text_or env (obj_get reply ''activation_id'') dflt_id,
         og_remote_status = text_or env (obj_get reply ''status'') ''active'', og_server_url = license_server_url env,
         og_challenge = False\<rparr> (obj_get reply ''license'') s)"

record trial_form =
  tf_company_name :: string
  tf_contact_name :: string
  tf_contact_email :: string
  tf_contact_phone :: string
  tf_verification_code :: string

definition request_trial :: "license_env \<Rightarrow> time \<Rightarrow> trial_form \<Rightarrow> license_store \<Rightarrow> license_info lic_outcome" where
  "request_trial env now form s =
     (let company = py_strip (tf_company_name form); contact = py_strip (tf_contact_name form);
          email = py_strip (tf_contact_email form); c = trial_customer_id env in
      if company = [] \<or> contact = [] \<or> email = [] then (Inl (http 400 ''company, contact and email''), s)
      else case call_license_server env ''/api/v1/licenses/trial''
          ([(''customer_id'', JStr c), (''company_name'', JStr company), (''contact_name'', JStr contact),
            (''contact_email'', JStr email), (''contact_phone'', JStr (py_strip (tf_contact_phone form))),
            (''verification_code'', JStr (py_strip (tf_verification_code form))),
            (''deployment_fingerprint'', JStr (deployment_fingerprint env c)), (''usage'', le_usage env),
            (''runtime'', le_runtime env ''trial'')] @ project_payload) of
          Inl e \<Rightarrow> (Inl e, s)
        | Inr reply \<Rightarrow> store_reply env now [] [] reply s)"

definition activate_license :: "license_env \<Rightarrow> time \<Rightarrow> string \<Rightarrow> string \<Rightarrow> license_store \<Rightarrow> license_info lic_outcome" where
  "activate_license env now activation_code customer_id s =
     (let code = py_strip activation_code; c = py_strip (or_str customer_id (le_customer_id env)) in
      if code = [] then (Inl (http 400 ''activation code''), s)
      else if c = [] then (Inl (http 400 ''customer''), s)
      else case call_license_server env ''/api/v1/licenses/activate''
          ([(''activation_code'', JStr code), (''customer_id'', JStr c),
            (''deployment_fingerprint'', JStr (deployment_fingerprint env c)), (''usage'', le_usage env),
            (''runtime'', le_runtime env ''activation'')] @ project_payload) of
          Inl e \<Rightarrow> (Inl e, s)
        | Inr reply \<Rightarrow> store_reply env now code [] reply s)"

definition refresh_request :: "license_env \<Rightarrow> license_record \<Rightarrow> json_obj" where
  "refresh_request env r =
     [(''activation_id'', JStr (lr_activation_id r)), (''license_id'', JStr (lr_license_id r)),
      (''customer_id'', JStr (lr_customer_id r)),
      (''deployment_fingerprint'', JStr (deployment_fingerprint env (lr_customer_id r))), (''usage'', le_usage env),
      (''runtime'', le_runtime env (lr_source r))] @ project_payload"

definition refresh_license :: "license_env \<Rightarrow> time \<Rightarrow> license_store \<Rightarrow> license_info lic_outcome" where
  "refresh_license env now s =
     (case current_record s of
        None \<Rightarrow> (Inl (http 400 ''not online''), s)
      | Some r \<Rightarrow>
          if lr_source r \<noteq> ''online'' then (Inl (http 400 ''not online''), s)
          else case call_license_server env ''/api/v1/licenses/refresh''
              (refresh_request env r) of
              Inl e \<Rightarrow> (Inl e, s)
            | Inr reply \<Rightarrow>
                let remote = text_or env (obj_get reply ''status'') ''active'' in
                if remote \<in> {''revoked'', ''suspended''} then
                  let r1 = r\<lparr>lr_status := LInvalid, lr_remote_status := remote, lr_online_check_at := Some now,
                        lr_check_status := Some LInvalid, lr_check_reason := remote\<rparr>;
                      (info, s1) = get_license_status env now (put_record r1 s)
                  in (Inr info, s1)
                else store_reply env now (lr_activation_code r) (lr_activation_id r) reply s)"

section \<open>Daily task\<close>

record refresh_report =
  rf_status :: license_status
  rf_refreshed :: bool
  rf_error :: "exc option"
  rf_days_remaining :: "int option"
  rf_suspended :: nat
  rf_restored :: nat
  rf_notified :: bool

text \<open>
  A failed refresh leaves its session to the rest of the task, with the writes
  it made.
\<close>

definition refresh_online_license ::
    "license_env \<Rightarrow> time \<Rightarrow> license_store \<Rightarrow> refresh_report option \<times> license_store" where
  "refresh_online_license env now s =
     (let (info, s1) = get_license_status env now s in
      if \<not> le_auto_refresh env then (None, s1)
      else
        let (info1, refreshed, err, s2) =
              (if lv_source info = ''online''
               then (case refresh_license env now s1 of
                       (Inl e, s2) \<Rightarrow> (info, False, Some e, s2)
                     | (Inr i, s2) \<Rightarrow> (i, True, None, s2))
               else (info, False, None, s1));
            ((suspended, restored), s3) = sync_instance_suspension env now s2
        in (Some \<lparr>rf_status = lv_status info1, rf_refreshed = refreshed, rf_error = err,
              rf_days_remaining = lv_days_remaining info1, rf_suspended = suspended, rf_restored = restored,
              rf_notified = (case lv_days_remaining info1 of None \<Rightarrow> False | Some d \<Rightarrow> d \<in> set (le_renewal_days env))\<rparr>, s3))"

section \<open>Access\<close>

definition LICENSE_PROTECTED_FEATURE_BY_PREFIX :: "(string \<times> string) list" where
  "LICENSE_PROTECTED_FEATURE_BY_PREFIX =
     [(''/api/v1/workflow'', ''workflow''), (''/api/v1/query'', ''query''), (''/api/v1/archive'', ''archive''),
      (''/api/v1/monitor'', ''monitor''), (''/api/v1/ai'', ''ai''), (''/api/v1/masking'', ''masking''),
      (''/api/v1/workflow-templates'', ''workflow''), (''/api/v1/instances'', ''instance'')]"

definition LICENSE_PROTECTED_SYSTEM_PREFIXES :: "string list" where
  "LICENSE_PROTECTED_SYSTEM_PREFIXES =
     [''/api/v1/system/config'', ''/api/v1/system/users'', ''/api/v1/system/groups'', ''/api/v1/system/roles'',
      ''/api/v1/system/user-groups'', ''/api/v1/system/resource-groups'', ''/api/v1/system/approval-flows'']"

definition LICENSE_EXEMPT_PREFIXES :: "string list" where
  "LICENSE_EXEMPT_PREFIXES =
     [''/api/v1/auth'', ''/api/v1/system/license'', ''/health'', ''/'', ''/docs'', ''/redoc'', ''/openapi.json'']"

definition starts_with :: "string \<Rightarrow> string \<Rightarrow> bool" where
  "starts_with s p \<longleftrightarrow> take (length p) s = p"

definition feature_for_path :: "string \<Rightarrow> string" where
  "feature_for_path path =
     (case find (\<lambda>(p, f). starts_with path p) LICENSE_PROTECTED_FEATURE_BY_PREFIX of None \<Rightarrow> [] | Some (p, f) \<Rightarrow> f)"

definition COMMUNITY_BLOCKED_PATHS :: "(string \<times> string) list" where
  "COMMUNITY_BLOCKED_PATHS = [(''/api/v1/workflow'', ''/execute'')]"

definition community_block_reason :: "string \<Rightarrow> string" where
  "community_block_reason path =
     (if list_ex (\<lambda>(p, marker). starts_with path p \<and> py_contains marker path) COMMUNITY_BLOCKED_PATHS
      then ''no execution in the community edition'' else [])"

datatype check_status = Exempt | Unprotected | Checked license_status

record license_check =
  lc_allowed :: bool
  lc_status :: check_status
  lc_reason :: string
  lc_feature :: string

definition exempt_path :: "string \<Rightarrow> bool" where
  "exempt_path path \<longleftrightarrow> list_ex (\<lambda>p. path = p \<or> starts_with path (p @ ''/'')) LICENSE_EXEMPT_PREFIXES"

text \<open>\<open>set(features)\<close> raises on a list or an object.\<close>

definition hashable :: "json \<Rightarrow> bool" where
  "hashable v = (case v of JArr _ \<Rightarrow> False | JObj _ \<Rightarrow> False | _ \<Rightarrow> True)"

definition check_access :: "license_env \<Rightarrow> time \<Rightarrow> string \<Rightarrow> string \<Rightarrow> license_store \<Rightarrow> license_check lic_outcome" where
  "check_access env now path http_method s =
     (let feature = feature_for_path path; label = or_str feature ''system'';
          answer = (\<lambda>ok st reason f. \<lparr>lc_allowed = ok, lc_status = st, lc_reason = reason, lc_feature = f\<rparr>) in
      if py_upper_ascii http_method = ''OPTIONS'' \<or> exempt_path path then (Inr (answer True Exempt [] []), s)
      else if feature = [] \<and> \<not> list_ex (starts_with path) LICENSE_PROTECTED_SYSTEM_PREFIXES
      then (Inr (answer True Unprotected [] []), s)
      else
        let (info, s1) = get_license_status env now s; blocked = community_block_reason path in
        (case lv_status info of
           LCommunity \<Rightarrow>
             Inr (if blocked \<noteq> [] then answer False (Checked LCommunity) blocked label
                  else if feature \<noteq> [] \<and> feature \<notin> set COMMUNITY_FEATURES
                  then answer False (Checked LCommunity) ''not in the community edition'' feature
                  else answer True (Checked LCommunity) [] label)
         | LInvalid \<Rightarrow> Inr (answer False (Checked LInvalid) (or_str (lv_reason info) ''invalid'') label)
         | LTrial \<Rightarrow> Inr (answer True (Checked LTrial) [] label)
         | LLicensed \<Rightarrow>
             if feature = [] then Inr (answer True (Checked LLicensed) [] label)
             else raise_if (\<not> list_all hashable (lv_features info)) (RawException PyTypeError)
               (Inr (if JStr feature \<notin> set (lv_features info)
                     then answer False (Checked LLicensed) ''not licensed'' feature
                     else answer True (Checked LLicensed) [] label)), s1))"

end
