(* ===== verification/Gateway.thy ===== *)
theory Gateway
  imports License_Service
begin

text \<open>
  What a request passes before its router: the two middlewares of
  \<^verbatim>\<open>app/main.py\<close> (the licence check outside, the CSRF check inside) and the
  cookies of \<^verbatim>\<open>app/core/auth_cookies.py\<close>. \<open>db_up\<close> says whether the licence check
  reaches the database; the random CSRF token is an argument.
\<close>

section \<open>Cookies\<close>

record cookie =
  ck_name :: string
  ck_value :: string
  ck_max_age :: int
  ck_httponly :: bool

definition ACCESS_COOKIE_NAME :: string where "ACCESS_COOKIE_NAME = ''access_token''"
definition REFRESH_COOKIE_NAME :: string where "REFRESH_COOKIE_NAME = ''refresh_token''"
definition CSRF_COOKIE_NAME :: string where "CSRF_COOKIE_NAME = ''csrf_token''"

definition set_auth_cookies :: "int \<Rightarrow> int \<Rightarrow> string \<Rightarrow> string \<Rightarrow> string \<Rightarrow> cookie list" where
  "set_auth_cookies access_minutes refresh_days access refresh csrf =
     (if access = [] \<or> refresh = [] then []
      else [\<lparr>ck_name = ACCESS_COOKIE_NAME, ck_value = access, ck_max_age = access_minutes * 60, ck_httponly = True\<rparr>,
            \<lparr>ck_name = REFRESH_COOKIE_NAME, ck_value = refresh, ck_max_age = refresh_days * 24 * 60 * 60, ck_httponly = True\<rparr>,
            \<lparr>ck_name = CSRF_COOKIE_NAME, ck_value = csrf, ck_max_age = refresh_days * 24 * 60 * 60, ck_httponly = False\<rparr>])"

definition clear_auth_cookies :: "cookie list" where
  "clear_auth_cookies =
     map (\<lambda>(name, h). \<lparr>ck_name = name, ck_value = [], ck_max_age = 0, ck_httponly = h\<rparr>)
       [(ACCESS_COOKIE_NAME, True), (REFRESH_COOKIE_NAME, True), (CSRF_COOKIE_NAME, False)]"

text \<open>A browser keeps the last value of a name and drops a cookie whose age is 0.\<close>

definition browser_store :: "cookie list \<Rightarrow> (string \<rightharpoonup> string) \<Rightarrow> (string \<rightharpoonup> string)" where
  "browser_store cs jar =
     fold (\<lambda>c j. if ck_max_age c \<le> 0 then j(ck_name c := None) else j(ck_name c \<mapsto> ck_value c)) cs jar"

section \<open>CSRF\<close>

record http_request =
  hr_method :: string
  hr_path :: string
  hr_cookies :: "string \<rightharpoonup> string"
  hr_csrf_header :: "string option"

definition SAFE_METHODS :: "string list" where
  "SAFE_METHODS = [''GET'', ''HEAD'', ''OPTIONS'', ''TRACE'']"

definition CSRF_EXEMPT_PATHS :: "string list" where
  "CSRF_EXEMPT_PATHS =
     [''/api/v1/auth/login/'', ''/api/v1/auth/login/form/'', ''/api/v1/auth/ldap/'', ''/api/v1/auth/sms/login/'',
      ''/api/v1/auth/2fa/login/verify/'', ''/api/v1/auth/password/change-required/'', ''/api/v1/auth/oauth/exchange/'']"

text \<open>\<open>None\<close>: the request goes on; an error of \<open>compare_digest\<close> is raised.\<close>

definition validate_csrf_request :: "http_request \<Rightarrow> (int \<times> string) option res" where
  "validate_csrf_request rq =
     (if py_upper_ascii (hr_method rq) \<in> set SAFE_METHODS then Inr None
      else if hr_path rq \<in> set CSRF_EXEMPT_PATHS then Inr None
      else if \<not> (truthy (hr_cookies rq ACCESS_COOKIE_NAME) \<or> truthy (hr_cookies rq REFRESH_COOKIE_NAME)) then Inr None
      else case (hr_cookies rq CSRF_COOKIE_NAME, hr_csrf_header rq) of
        (Some c, Some h) \<Rightarrow>
          if c = [] \<or> h = [] then Inr (Some (403, ''CSRF_FAILED''))
          else rbind (compare_digest c h) (\<lambda>same. Inr (if same then None else Some (403, ''CSRF_FAILED'')))
      | _ \<Rightarrow> Inr (Some (403, ''CSRF_FAILED'')))"

section \<open>Middlewares\<close>

text \<open>A failed check refuses in production and lets the request pass elsewhere.\<close>

definition license_enforcement_middleware ::
    "license_env \<Rightarrow> bool \<Rightarrow> time \<Rightarrow> http_request \<Rightarrow> license_store \<Rightarrow> (int \<times> string) option \<times> license_store" where
  "license_enforcement_middleware env db_up now rq s =
     (let failed = (if le_production env then Some (503, ''LICENSE_UNAVAILABLE'') else None) in
      if \<not> db_up then (failed, s)
      else case check_access env now (hr_path rq) (hr_method rq) s of
        (Inl _, s1) \<Rightarrow> (failed, s1)
      | (Inr c, s1) \<Rightarrow> (if lc_allowed c then None else Some (403, ''LICENSE_REQUIRED''), s1))"

text \<open>The answer before the router, or \<open>None\<close> when the router is called.\<close>

definition gateway ::
    "license_env \<Rightarrow> bool \<Rightarrow> time \<Rightarrow> http_request \<Rightarrow> license_store \<Rightarrow> (int \<times> string) option res \<times> license_store" where
  "gateway env db_up now rq s =
     (case license_enforcement_middleware env db_up now rq s of
        (Some a, s1) \<Rightarrow> (Inr (Some a), s1)
      | (None, s1) \<Rightarrow> (validate_csrf_request rq, s1))"

end
