(* ===== verification/License_Facts.thy ===== *)
theory License_Facts
  imports Gateway
begin

text \<open>
  What the licence service guarantees: which records can be current, what a
  status grants, which instances stay enabled, and which requests the gateway
  refuses.
\<close>

section \<open>Records\<close>

definition license_wf :: "license_store \<Rightarrow> bool" where
  "license_wf s \<longleftrightarrow>
     distinct (map lr_id (ls_records s)) \<and> (\<forall>r\<in>set (ls_records s). lr_id r < ls_next_id s) \<and>
     (\<forall>r\<in>set (ls_records s). \<forall>r'\<in>set (ls_records s). lr_is_current r \<and> lr_is_current r' \<longrightarrow> lr_id r = lr_id r') \<and>
     distinct (map qi_id (ls_instances s))"

text \<open>The document that a record was made from is signed, and its fields are the document's.\<close>

definition granted :: "license_env \<Rightarrow> license_record \<Rightarrow> bool" where
  "granted env r \<longleftrightarrow>
     (let p = lr_payload r in
      py_strip (le_public_key env) \<noteq> [] \<and>
      le_verify env (py_strip (le_public_key env)) (lr_signature r) p = Inr True \<and>
      validate_customer env p = Inr () \<and> validate_project env p = Inr () \<and>
      (py_strip (obj_text env p ''deployment_fingerprint'') = [] \<or>
       py_strip (obj_text env p ''deployment_fingerprint'') = deployment_fingerprint env (obj_text env p ''customer_id'')) \<and>
      JArr (lr_features r) = obj_get p ''features'' \<and> JObj (lr_limits r) = obj_get p ''limits'' \<and>
      parse_datetime env (obj_get p ''not_before'') = Inr (lr_not_before r) \<and>
      parse_datetime env (obj_get p ''expires_at'') = Inr (lr_expires_at r))"

definition trial_terms :: "license_record \<Rightarrow> bool" where
  "trial_terms r \<longleftrightarrow>
     lr_features r = map JStr LICENSE_FEATURES \<and> lr_limits r = [] \<and>
     (\<exists>t e. lr_issued_at r = Some t \<and> lr_expires_at r = Some e \<and> e \<le> t + OFFLINE_TRIAL_DAYS * one_day)"

definition sound_record :: "license_env \<Rightarrow> license_record \<Rightarrow> bool" where
  "sound_record env r \<longleftrightarrow> (if lr_source r = ''trial'' then trial_terms r else granted env r)"

definition license_inv :: "license_env \<Rightarrow> license_store \<Rightarrow> bool" where
  "license_inv env s \<longleftrightarrow> license_wf s \<and> (\<forall>r\<in>set (ls_records s). sound_record env r)"

lemma in_put_record:
  "x \<in> set (ls_records (put_record r s)) \<Longrightarrow> x \<in> set (ls_records s) \<or> x = r"
  by (auto simp: put_record_def row_put_def)

lemma put_record_ids [simp]: "map lr_id (ls_records (put_record r s)) = map lr_id (ls_records s)"
  by (simp add: put_record_def row_put_def)

lemma put_record_frame [simp]:
  "ls_next_id (put_record r s) = ls_next_id s" "ls_instances (put_record r s) = ls_instances s"
  by (simp_all add: put_record_def)

lemma license_inv_put:
  assumes "license_inv env s" "r \<in> set (ls_records s)" "lr_id r' = lr_id r" "lr_is_current r' = lr_is_current r"
    "sound_record env r'"
  shows "license_inv env (put_record r' s)"
proof -
  have sub: "x \<in> set (ls_records s) \<or> x = r'" if "x \<in> set (ls_records (put_record r' s))" for x
    using in_put_record [OF that] .
  show ?thesis
    using assms unfolding license_inv_def license_wf_def
    by (simp, metis sub)
qed

lemma license_inv_add:
  assumes "license_inv env s" "lr_id r = ls_next_id s" "sound_record env r"
    "\<forall>x\<in>set (ls_records s). \<not> lr_is_current x"
  shows "license_inv env (add_record r s)"
  using assms unfolding license_inv_def license_wf_def add_record_def by auto

lemma license_inv_retire: "license_inv env s \<Longrightarrow> license_inv env (retire_records s)"
  by (auto simp: license_inv_def license_wf_def retire_records_def o_def sound_record_def granted_def trial_terms_def Let_def)

lemma retired_not_current: "x \<in> set (ls_records (retire_records s)) \<Longrightarrow> \<not> lr_is_current x"
  by (auto simp: retire_records_def)

lemma license_inv_suspended [simp]: "license_inv env (set_suspended b ids s) = license_inv env s"
proof -
  have "map qi_id (ls_instances (set_suspended b ids s)) = map qi_id (ls_instances s)"
    by (simp add: set_suspended_def o_def if_distrib [of qi_id] cong: if_cong)
  then show ?thesis by (simp add: license_inv_def license_wf_def) (simp add: set_suspended_def)
qed

lemma current_record_Some:
  "current_record s = Some r \<Longrightarrow> r \<in> set (ls_records s) \<and> lr_is_current r"
  unfolding current_record_def
  by (auto split: list.splits) (metis (mono_tags, lifting) list.set_intros(1) mem_Collect_eq set_filter set_sort)+

lemma current_record_None:
  "current_record s = None \<longleftrightarrow> (\<forall>r\<in>set (ls_records s). \<not> lr_is_current r)"
  unfolding current_record_def
  by (auto split: list.splits) (metis (mono_tags, lifting) empty_iff list.set(1) mem_Collect_eq set_filter set_sort,
    metis (mono_tags, lifting) list.set_intros(1) mem_Collect_eq set_filter set_sort)

lemma current_record_only:
  assumes "license_wf s" "r \<in> set (ls_records s)" "lr_is_current r"
  shows "current_record s = Some r"
proof -
  obtain x where x: "current_record s = Some x" using assms(2,3) current_record_None by (metis not_None_eq)
  have mem: "x \<in> set (ls_records s)" "lr_is_current x" using current_record_Some [OF x] by simp_all
  then have "lr_id x = lr_id r" using assms unfolding license_wf_def by blast
  moreover have "inj_on lr_id (set (ls_records s))" using assms(1) by (simp add: license_wf_def distinct_map)
  ultimately have "x = r" using mem(1) assms(2) by (meson inj_onD)
  with x show ?thesis by simp
qed

section \<open>Status\<close>

lemma sound_record_cong:
  "lr_source r' = lr_source r \<Longrightarrow> lr_payload r' = lr_payload r \<Longrightarrow> lr_signature r' = lr_signature r \<Longrightarrow>
   lr_features r' = lr_features r \<Longrightarrow> lr_limits r' = lr_limits r \<Longrightarrow> lr_issued_at r' = lr_issued_at r \<Longrightarrow>
   lr_not_before r' = lr_not_before r \<Longrightarrow> lr_expires_at r' = lr_expires_at r \<Longrightarrow>
     sound_record env r' = sound_record env r"
  by (simp add: sound_record_def granted_def trial_terms_def)

lemma sound_record_check:
  "sound_record env (r\<lparr>lr_check_status := c, lr_check_reason := t\<rparr>) = sound_record env r"
  by (rule sound_record_cong) simp_all

lemma trial_days_bounds: "local_trial_days env \<le> OFFLINE_TRIAL_DAYS"
  by (simp add: local_trial_days_def UNREGISTERED_TRIAL_DAYS_def OFFLINE_TRIAL_DAYS_def)

lemma trial_days_mono: "local_trial_days env * one_day \<le> OFFLINE_TRIAL_DAYS * one_day"
  using trial_days_bounds by (simp add: one_day_def second_def)

lemma sound_trial_record: "sound_record env (trial_record env now i)"
  using trial_days_mono [of env] by (simp add: sound_record_def trial_terms_def trial_record_def)

text \<open>The two shapes of \<^verbatim>\<open>ensure_trial\<close>: a new trial, or the current record with at most its trial prolonged.\<close>

lemma ensure_trial_new:
  "current_record s = None \<Longrightarrow>
     ensure_trial env now s = (trial_record env now (ls_next_id s), add_record (trial_record env now (ls_next_id s)) s)"
  by (simp add: ensure_trial_def Let_def)

definition trial_short :: "license_env \<Rightarrow> license_record \<Rightarrow> bool" where
  "trial_short env r \<longleftrightarrow> lr_source r = ''trial'' \<and>
     (case lr_issued_at r of None \<Rightarrow> False
      | Some t \<Rightarrow> (case lr_expires_at r of None \<Rightarrow> True | Some e \<Rightarrow> e < t + local_trial_days env * one_day))"

definition prolonged :: "license_env \<Rightarrow> license_record \<Rightarrow> license_record" where
  "prolonged env r =
     r\<lparr>lr_expires_at := map_option (\<lambda>t. t + local_trial_days env * one_day) (lr_issued_at r),
       lr_check_status := None, lr_check_reason := ''in trial''\<rparr>"

lemma ensure_trial_current:
  "current_record s = Some r \<Longrightarrow>
     ensure_trial env now s = (if trial_short env r then (prolonged env r, put_record (prolonged env r) s) else (r, s))"
  by (cases "lr_source r = ''trial''"; cases "lr_issued_at r")
    (simp_all add: ensure_trial_def trial_short_def prolonged_def Let_def)

lemma not_trial_short:
  assumes "ensure_trial env now s = (r, s1)"
  shows "\<not> trial_short env r"
proof (cases "current_record s")
  case None
  then have "r = trial_record env now (ls_next_id s)" using assms ensure_trial_new by simp
  then show ?thesis by (simp add: trial_short_def trial_record_def)
next
  case (Some x)
  have "\<not> trial_short env (prolonged env x)" by (simp add: trial_short_def prolonged_def split: option.splits)
  then show ?thesis using assms ensure_trial_current [OF Some, of env now] by (auto split: if_splits)
qed

lemma ensure_trial_kept:
  assumes "current_record s = Some r" "lr_source r \<noteq> ''trial''"
  shows "ensure_trial env now s = (r, s)"
  using assms ensure_trial_current [OF assms(1)] by (simp add: trial_short_def)

lemma put_record_in:
  "r \<in> set (ls_records s) \<Longrightarrow> lr_id r' = lr_id r \<Longrightarrow> r' \<in> set (ls_records (put_record r' s))"
  by (force simp: put_record_def row_put_def)

lemma ensure_trial_inv:
  assumes "license_inv env s" "ensure_trial env now s = (r, s1)"
  shows "license_inv env s1" "r \<in> set (ls_records s1)" "lr_is_current r" "ls_instances s1 = ls_instances s"
proof -
  have "license_inv env s1 \<and> r \<in> set (ls_records s1) \<and> lr_is_current r \<and> ls_instances s1 = ls_instances s"
  proof (cases "current_record s")
    case None
    let ?t = "trial_record env now (ls_next_id s)"
    have rs: "r = ?t" "s1 = add_record ?t s" using ensure_trial_new [OF None] assms(2) by auto
    have "license_inv env s1" unfolding rs(2)
      by (rule license_inv_add [OF assms(1) _ sound_trial_record])
        (use None in \<open>simp_all add: trial_record_def current_record_None\<close>)
    then show ?thesis by (simp add: rs) (simp add: add_record_def trial_record_def)
  next
    case (Some x)
    have x: "x \<in> set (ls_records s)" "lr_is_current x" using current_record_Some [OF Some] by auto
    show ?thesis
    proof (cases "trial_short env x")
      case False
      then show ?thesis using assms x ensure_trial_current [OF Some, of env now] by simp
    next
      case True
      then have rs: "r = prolonged env x" "s1 = put_record r s"
        using assms(2) ensure_trial_current [OF Some, of env now] by auto
      have "sound_record env x" using assms(1) x by (simp add: license_inv_def)
      then have "sound_record env r"
        using True trial_days_mono [of env] by (auto simp: rs sound_record_def trial_terms_def trial_short_def prolonged_def)
      then have "license_inv env s1" using license_inv_put [OF assms(1) x(1)] by (simp add: rs prolonged_def)
      moreover have "r \<in> set (ls_records s1)" using put_record_in [OF x(1)] by (simp add: rs prolonged_def)
      ultimately show ?thesis using x rs by (simp add: prolonged_def)
    qed
  qed
  then show "license_inv env s1" "r \<in> set (ls_records s1)" "lr_is_current r" "ls_instances s1 = ls_instances s"
    by simp_all
qed

lemma note_check_inv:
  assumes "license_inv env s" "r \<in> set (ls_records s)"
  shows "license_inv env (note_check st reason r s)" "ls_instances (note_check st reason r s) = ls_instances s"
  using license_inv_put [OF assms, of "r\<lparr>lr_check_status := Some st, lr_check_reason := reason\<rparr>"] assms
  by (simp_all add: note_check_def license_inv_def sound_record_check)

lemma get_license_status_parts:
  assumes "get_license_status env now s = (info, s')"
  obtains r s1 where "ensure_trial env now s = (r, s1)" "info = license_info_of env now r"
    "s' = note_check (fst (evaluate_record env now r)) (snd (evaluate_record env now r)) r s1"
  using assms unfolding get_license_status_def by (auto simp: Let_def split: prod.splits)

lemma get_license_status_inv:
  assumes "license_inv env s" "get_license_status env now s = (info, s')"
  shows "license_inv env s'" "ls_instances s' = ls_instances s"
  using assms ensure_trial_inv note_check_inv
  by (metis get_license_status_parts)+

lemma lv_status_info: "lv_status (license_info_of env now r) = fst (evaluate_record env now r)"
  by (simp add: license_info_of_def Let_def split: prod.splits)

lemma lv_features_info:
  "lv_features (license_info_of env now r) =
     (if fst (evaluate_record env now r) = LCommunity then map JStr COMMUNITY_FEATURES else lr_features r)"
  by (simp add: license_info_of_def Let_def split: prod.splits)

lemma lv_limits_info:
  "lv_limits (license_info_of env now r) =
     (if fst (evaluate_record env now r) = LCommunity then COMMUNITY_LIMITS else lr_limits r)"
  by (simp add: license_info_of_def Let_def split: prod.splits)

lemma evaluate_licensed:
  assumes "fst (evaluate_record env now r) \<in> {LTrial, LLicensed}"
  shows "lr_source r = ''trial'' \<longleftrightarrow> fst (evaluate_record env now r) = LTrial"
    "lr_not_before r = Some nb \<Longrightarrow> nb \<le> now" "lr_expires_at r = Some e \<Longrightarrow> now \<le> e"
    "lr_status r \<noteq> LInvalid"
  using assms unfolding evaluate_record_def Let_def
  by (auto split: if_splits option.splits)

section \<open>Every operation keeps the records sound\<close>

lemma sync_state:
  assumes "sync_instance_suspension env now s = (c, s')" "get_license_status env now s = (info, s1)"
  obtains "s' = s1" | ids b ids' b' where "s' = set_suspended b ids (set_suspended b' ids' s1)"
  using assms unfolding sync_instance_suspension_def Let_def
  by (cases "lv_status info = LInvalid") (auto intro: that)

lemma sync_inv:
  assumes "license_inv env s" "sync_instance_suspension env now s = (c, s')"
  shows "license_inv env s'"
proof -
  obtain info s1 where g: "get_license_status env now s = (info, s1)" by fastforce
  have "license_inv env s1" using get_license_status_inv(1) [OF assms(1) g] .
  with assms(2) g show ?thesis by (cases rule: sync_state) simp_all
qed

lemma instance_allocation_inv:
  assumes "license_inv env s" "instance_allocation env now s = (v, s')"
  shows "license_inv env s'" "ls_instances s' = ls_instances s"
proof -
  obtain info s1 where g: "get_license_status env now s = (info, s1)" by fastforce
  then have "s' = s1" using assms(2) by (simp add: instance_allocation_def Let_def)
  then show "license_inv env s'" "ls_instances s' = ls_instances s"
    using get_license_status_inv [OF assms(1) g] by simp_all
qed

lemma select_inv:
  assumes "license_inv env s" "select_active_instances env now ids s = (v, s')"
  shows "license_inv env s'"
proof -
  obtain info s1 where g: "get_license_status env now s = (info, s1)" by fastforce
  have i: "license_inv env s1" using get_license_status_inv(1) [OF assms(1) g] .
  have al: "license_inv env s''" if "instance_allocation env now (set_suspended b x (set_suspended b' y s1)) = (w, s'')" for b x b' y w s''
    using instance_allocation_inv(1) [OF _ that] i by simp
  show ?thesis
    using assms(2) i g al
    by (auto simp: select_active_instances_def Let_def split: if_splits prod.splits)
qed

lemma check_access_inv:
  assumes "license_inv env s" "check_access env now path m s = (v, s')"
  shows "license_inv env s'"
proof -
  obtain info s1 where g: "get_license_status env now s = (info, s1)" by fastforce
  have "s' = s \<or> s' = s1" using assms(2) g by (simp add: check_access_def Let_def split: if_splits)
  then show ?thesis using get_license_status_inv(1) [OF assms(1) g] assms(1) by auto
qed

lemma enforce_limit_inv:
  assumes "license_inv env s" "enforce_limit env now name n s = (v, s')"
  shows "license_inv env s'"
proof -
  obtain info s1 where g: "get_license_status env now s = (info, s1)" by fastforce
  then have "s' = s1" using assms(2) by (simp add: enforce_limit_def Let_def)
  then show ?thesis using get_license_status_inv(1) [OF assms(1) g] by simp
qed

lemma verified_parts:
  assumes "verify_license_document env raw = Inr (p, sg)"
  shows "validate_payload_shape p = Inr ()" "validate_customer env p = Inr ()" "validate_project env p = Inr ()"
    "py_strip (le_public_key env) \<noteq> []" "le_verify env (py_strip (le_public_key env)) sg p = Inr True"
    "py_strip (obj_text env p ''deployment_fingerprint'') = [] \<or>
       py_strip (obj_text env p ''deployment_fingerprint'') = deployment_fingerprint env (obj_text env p ''customer_id'')"
  using assms unfolding verify_license_document_def Let_def obj_text_def
  by (auto simp: rbind_Inr_iff raise_if_Inr_iff)

lemma shape_parts:
  "validate_payload_shape p = Inr () \<Longrightarrow>
     JArr (json_list (obj_get p ''features'')) = obj_get p ''features'' \<and>
     JObj (json_fields (obj_get p ''limits'')) = obj_get p ''limits''"
  by (auto simp: validate_payload_shape_def json_list_def json_fields_def raise_if_Inr_iff split: json.splits)

lemma license_record_fields:
  assumes "license_record_of env now og p sg i = Inr r"
  shows "lr_id r = i" "lr_source r = og_source og" "lr_payload r = p" "lr_signature r = sg" "lr_is_current r"
    "lr_status r = LLicensed"
    "lr_features r = json_list (obj_get p ''features'')" "lr_limits r = json_fields (obj_get p ''limits'')"
    "parse_datetime env (obj_get p ''not_before'') = Inr (lr_not_before r)"
    "parse_datetime env (obj_get p ''expires_at'') = Inr (lr_expires_at r)"
proof -
  obtain a b c where "parse_datetime env (obj_get p ''issued_at'') = Inr a"
    "parse_datetime env (obj_get p ''not_before'') = Inr b" "parse_datetime env (obj_get p ''expires_at'') = Inr c"
    using assms unfolding license_record_of_def rbind_Inr_iff by (elim exE conjE) (rule that)
  then show "lr_id r = i" "lr_source r = og_source og" "lr_payload r = p" "lr_signature r = sg" "lr_is_current r"
    "lr_status r = LLicensed"
    "lr_features r = json_list (obj_get p ''features'')" "lr_limits r = json_fields (obj_get p ''limits'')"
    "parse_datetime env (obj_get p ''not_before'') = Inr (lr_not_before r)"
    "parse_datetime env (obj_get p ''expires_at'') = Inr (lr_expires_at r)"
    using assms by (auto simp: license_record_of_def)
qed

lemma stored_record_granted:
  assumes "verify_license_document env raw = Inr (p, sg)" "license_record_of env now og p sg i = Inr r"
  shows "granted env r"
  using verified_parts [OF assms(1)] shape_parts license_record_fields [OF assms(2)]
  unfolding granted_def Let_def by simp

text \<open>A stored licence replaces the current record; a failure leaves it retired in the session.\<close>

lemma store_license_cases:
  assumes "store_license env now og raw s = (v, s')"
  obtains e where "v = Inl e" "s' = s"
  | e p sg where "v = Inl e" "s' = retire_records s" "verify_license_document env raw = Inr (p, sg)"
      "license_record_of env now og p sg (ls_next_id s) = Inl e"
  | p sg r s3 c s4 info where "verify_license_document env raw = Inr (p, sg)"
      "license_record_of env now og p sg (ls_next_id s) = Inr r"
      "s3 = (if fst (evaluate_record env now r) \<noteq> LLicensed
         then put_record (r\<lparr>lr_status := fst (evaluate_record env now r),
            lr_check_status := Some (fst (evaluate_record env now r)),
            lr_check_reason := snd (evaluate_record env now r)\<rparr>) (add_record r (retire_records s))
         else add_record r (retire_records s))"
      "sync_instance_suspension env now s3 = (c, s4)" "get_license_status env now s4 = (info, s')" "v = Inr info"
proof (cases "verify_license_document env raw")
  case (Inl e)
  then show ?thesis using assms that(1) by (auto simp: store_license_def)
next
  case (Inr x)
  obtain p sg where x: "x = (p, sg)" by fastforce
  have n: "ls_next_id (retire_records s) = ls_next_id s" by (simp add: retire_records_def)
  show ?thesis
  proof (cases "license_record_of env now og p sg (ls_next_id s)")
    case (Inl e)
    then show ?thesis using assms that(2) Inr x n by (auto simp: store_license_def Let_def)
  next
    case (Inr r)
    let ?s3 = "if fst (evaluate_record env now r) \<noteq> LLicensed
      then put_record (r\<lparr>lr_status := fst (evaluate_record env now r),
         lr_check_status := Some (fst (evaluate_record env now r)),
         lr_check_reason := snd (evaluate_record env now r)\<rparr>) (add_record r (retire_records s))
      else add_record r (retire_records s)"
    obtain c s4 where c: "sync_instance_suspension env now ?s3 = (c, s4)" by fastforce
    obtain info s5 where g: "get_license_status env now s4 = (info, s5)" by fastforce
    have "(v, s') = (Inr info, s5)"
      using assms \<open>verify_license_document env raw = Inr x\<close> x n Inr c g by (simp add: store_license_def Let_def split_beta)
    then show ?thesis
      using that(3) [OF _ Inr refl c] g \<open>verify_license_document env raw = Inr x\<close> x by simp
  qed
qed

lemma evaluate_stored:
  assumes "lr_status r = LLicensed"
  shows "fst (evaluate_record env now (r\<lparr>lr_status := fst (evaluate_record env now r), lr_check_status := c, lr_check_reason := t\<rparr>))
    = fst (evaluate_record env now r)"
  using assms by (simp add: evaluate_record_def Let_def split: option.splits)

text \<open>What \<^verbatim>\<open>_store_license\<close> has committed before it looks at the instances.\<close>

lemma stored_record:
  assumes "license_inv env s" "verify_license_document env raw = Inr (p, sg)"
    "license_record_of env now og p sg (ls_next_id s) = Inr r" "og_source og \<noteq> ''trial''"
    "s3 = (if fst (evaluate_record env now r) \<noteq> LLicensed
       then put_record (r\<lparr>lr_status := fst (evaluate_record env now r),
          lr_check_status := Some (fst (evaluate_record env now r)),
          lr_check_reason := snd (evaluate_record env now r)\<rparr>) (add_record r (retire_records s))
       else add_record r (retire_records s))"
  obtains r3 where "license_inv env s3" "current_record s3 = Some r3" "lr_source r3 = og_source og"
    "lr_status r3 = fst (evaluate_record env now r3)" "fst (evaluate_record env now r3) = fst (evaluate_record env now r)"
proof -
  let ?a = "add_record r (retire_records s)"
  have f: "lr_id r = ls_next_id s" "lr_source r = og_source og" "lr_is_current r" "lr_status r = LLicensed"
    using license_record_fields [OF assms(3)] by auto
  have g: "granted env r" by (rule stored_record_granted [OF assms(2,3)])
  have sr: "sound_record env r" using g f(2) assms(4) by (simp add: sound_record_def)
  have n: "lr_id r = ls_next_id (retire_records s)" using f(1) by (simp add: retire_records_def)
  have nc: "\<forall>x\<in>set (ls_records (retire_records s)). \<not> lr_is_current x" using retired_not_current by blast
  have a: "license_inv env ?a" by (rule license_inv_add [OF license_inv_retire [OF assms(1)] n sr nc])
  have r: "r \<in> set (ls_records ?a)" by (simp add: add_record_def)
  define st reason where "st = fst (evaluate_record env now r)" and "reason = snd (evaluate_record env now r)"
  let ?r = "r\<lparr>lr_status := st, lr_check_status := Some st, lr_check_reason := reason\<rparr>"
  have s3: "s3 = (if st \<noteq> LLicensed then put_record ?r ?a else ?a)" by (simp add: assms(5) st_def reason_def)
  have wf: "license_wf x" if "license_inv env x" for x using that by (simp add: license_inv_def)
  show thesis
  proof (cases "st = LLicensed")
    case True
    have "current_record ?a = Some r" by (rule current_record_only [OF wf [OF a] r f(3)])
    then show ?thesis using that [of r] a f True s3 st_def by simp
  next
    case False
    have "sound_record env ?r = sound_record env r" by (rule sound_record_cong) simp_all
    then have inv: "license_inv env (put_record ?r ?a)" using license_inv_put [OF a r, of ?r] sr by simp
    have "?r \<in> set (ls_records (put_record ?r ?a))" by (rule put_record_in [OF r]) simp
    then have "current_record (put_record ?r ?a) = Some ?r" using current_record_only [OF wf [OF inv]] f(3) by simp
    moreover have "fst (evaluate_record env now ?r) = st" unfolding st_def by (rule evaluate_stored [OF f(4)])
    ultimately show ?thesis using that [of ?r] inv f(2) False s3 st_def by simp
  qed
qed

lemma store_license_inv:
  assumes "license_inv env s" "store_license env now og raw s = (v, s')" "og_source og \<noteq> ''trial''"
  shows "license_inv env s'"
  using assms(2)
proof (cases rule: store_license_cases)
  case (3 p sg r s3 c s4 info)
  have "license_inv env s3" by (rule stored_record [OF assms(1) 3(1,2) assms(3) 3(3)])
  then have "license_inv env s4" using sync_inv 3(4) by blast
  then show ?thesis using get_license_status_inv(1) 3(5) by blast
qed (use assms(1) license_inv_retire in simp_all)

lemma store_reply_inv:
  assumes "license_inv env s" "store_reply env now code dflt reply s = (v, s')"
  shows "license_inv env s'"
  using assms store_license_inv [OF assms(1)] by (auto simp: store_reply_def split: if_splits)

lemma import_license_inv:
  assumes "license_inv env s" "import_license env now raw s = (v, s')"
  shows "license_inv env s'"
  using assms store_license_inv [OF assms(1)]
  by (auto simp: import_license_def Let_def split: sum.splits if_splits prod.splits)

lemma request_trial_inv:
  assumes "license_inv env s" "request_trial env now form s = (v, s')"
  shows "license_inv env s'"
  using assms store_reply_inv [OF assms(1)]
  by (auto simp: request_trial_def Let_def split: sum.splits if_splits)

lemma activate_license_inv:
  assumes "license_inv env s" "activate_license env now code c s = (v, s')"
  shows "license_inv env s'"
  using assms store_reply_inv [OF assms(1)]
  by (auto simp: activate_license_def Let_def split: sum.splits if_splits)

lemma refresh_license_inv:
  assumes "license_inv env s" "refresh_license env now s = (v, s')"
  shows "license_inv env s'"
proof (cases "current_record s")
  case None
  then show ?thesis using assms by (simp add: refresh_license_def)
next
  case (Some r)
  have r: "r \<in> set (ls_records s)" "lr_is_current r" using current_record_Some [OF Some] by auto
  then have "sound_record env r" using assms(1) by (simp add: license_inv_def)
  then have p: "license_inv env (put_record (r\<lparr>lr_status := LInvalid, lr_remote_status := t, lr_online_check_at := Some now,
      lr_check_status := Some LInvalid, lr_check_reason := t\<rparr>) s)" for t
    by (intro license_inv_put [OF assms(1) r(1)]) (simp, simp, subst sound_record_cong [of _ r], simp_all)
  show ?thesis
    using assms Some store_reply_inv [OF assms(1)] get_license_status_inv(1) [OF p]
    by (auto simp: refresh_license_def Let_def split: sum.splits if_splits prod.splits)
qed

lemma refresh_online_license_inv:
  assumes "license_inv env s" "refresh_online_license env now s = (v, s')"
  shows "license_inv env s'"
proof -
  obtain info s1 where g: "get_license_status env now s = (info, s1)" by fastforce
  have i: "license_inv env s1" using get_license_status_inv(1) [OF assms(1) g] .
  obtain w s2 where r: "refresh_license env now s1 = (w, s2)" by fastforce
  have i2: "license_inv env s2" using refresh_license_inv [OF i r] .
  obtain x s3 where a: "sync_instance_suspension env now s1 = (x, s3)" by fastforce
  obtain y s4 where b: "sync_instance_suspension env now s2 = (y, s4)" by fastforce
  have "s' = s1 \<or> s' = s3 \<or> s' = s4"
    using assms(2) g r a b
    by (cases w; cases x; cases y; simp add: refresh_online_license_def Let_def split: if_splits)
  then show ?thesis using i sync_inv [OF i a] sync_inv [OF i2 b] by auto
qed

section \<open>Histories\<close>

text \<open>Requests, the middleware and the daily task, at any times and in any order.\<close>

inductive license_step :: "license_env \<Rightarrow> license_store \<Rightarrow> license_store \<Rightarrow> bool" for env where
  status: "license_step env s (snd (get_license_status env now s))"
| import: "license_step env s (snd (rolled_back s (import_license env now raw s)))"
| trial: "license_step env s (snd (rolled_back s (request_trial env now form s)))"
| activate: "license_step env s (snd (rolled_back s (activate_license env now code customer s)))"
| refresh: "license_step env s (snd (rolled_back s (refresh_license env now s)))"
| task: "license_step env s (snd (refresh_online_license env now s))"
| sync: "license_step env s (snd (sync_instance_suspension env now s))"
| allocation: "license_step env s (snd (instance_allocation env now s))"
| select: "license_step env s (snd (select_active_instances env now ids s))"
| access: "license_step env s (snd (check_access env now path m s))"
| limit: "license_step env s (snd (enforce_limit env now name n s))"

inductive license_reachable :: "license_env \<Rightarrow> license_store \<Rightarrow> bool" for env where
  start: "distinct (map qi_id insts) \<Longrightarrow>
     license_reachable env \<lparr>ls_records = [], ls_instances = insts, ls_next_id = 1\<rparr>"
| step: "license_reachable env s \<Longrightarrow> license_step env s s' \<Longrightarrow> license_reachable env s'"

lemma rolled_back_inv:
  assumes "license_inv env s" "\<And>v s'. r = (v, s') \<Longrightarrow> license_inv env s'"
  shows "license_inv env (snd (rolled_back s r))"
  using assms by (auto simp: rolled_back_def split: prod.splits sum.splits)

lemma license_step_inv:
  assumes "license_step env s s'" "license_inv env s"
  shows "license_inv env s'"
  using assms
proof (cases rule: license_step.cases)
  case (import now raw)
  then show ?thesis using rolled_back_inv [OF assms(2)] import_license_inv [OF assms(2)] by blast
next
  case (trial now form)
  then show ?thesis using rolled_back_inv [OF assms(2)] request_trial_inv [OF assms(2)] by blast
next
  case (activate now code customer)
  then show ?thesis using rolled_back_inv [OF assms(2)] activate_license_inv [OF assms(2)] by blast
next
  case (refresh now)
  then show ?thesis using rolled_back_inv [OF assms(2)] refresh_license_inv [OF assms(2)] by blast
next
  case (status now)
  then show ?thesis using get_license_status_inv(1) [OF assms(2)] by (metis prod.collapse)
next
  case (task now)
  then show ?thesis using refresh_online_license_inv [OF assms(2)] by (metis prod.collapse)
next
  case (sync now)
  then show ?thesis using sync_inv [OF assms(2)] by (metis prod.collapse)
next
  case (allocation now)
  then show ?thesis using instance_allocation_inv(1) [OF assms(2)] by (metis prod.collapse)
next
  case (select now ids)
  then show ?thesis using select_inv [OF assms(2)] by (metis prod.collapse)
next
  case (access now path m)
  then show ?thesis using check_access_inv [OF assms(2)] by (metis prod.collapse)
next
  case (limit now name n)
  then show ?thesis using enforce_limit_inv [OF assms(2)] by (metis prod.collapse)
qed

lemma license_reachable_inv: "license_reachable env s \<Longrightarrow> license_inv env s"
proof (induction rule: license_reachable.induct)
  case (start insts)
  then show ?case by (simp add: license_inv_def license_wf_def)
next
  case (step s s')
  then show ?case using license_step_inv by blast
qed

end
