(* ===== verification/License_Quota.thy ===== *)
theory License_Quota
  imports License_Facts
begin

text \<open>
  The quota of instances: a synchronisation leaves at most the licensed
  number enabled, touches no inactive instance, and does nothing the second time.
\<close>

section \<open>Asking twice\<close>

lemma evaluate_again:
  "fst (evaluate_record env now (r\<lparr>lr_check_status := c, lr_check_reason := t\<rparr>)) = fst (evaluate_record env now r)"
  by (simp add: evaluate_record_def Let_def split: option.splits)

lemma trial_short_again:
  "trial_short env (r\<lparr>lr_check_status := c, lr_check_reason := t\<rparr>) = trial_short env r"
  by (simp add: trial_short_def split: option.splits)

text \<open>After a status request, another one at the same time finds the same record.\<close>

lemma get_license_status_again:
  assumes "license_inv env s" "get_license_status env now s = (info, s1)" "ls_records s2 = ls_records s1"
    "license_wf s2"
  obtains info2 s3 where "get_license_status env now s2 = (info2, s3)" "lv_status info2 = lv_status info"
    "lv_limits info2 = lv_limits info" "ls_instances s3 = ls_instances s2"
proof -
  obtain r s0 where e: "ensure_trial env now s = (r, s0)" and i: "info = license_info_of env now r"
    and s1: "s1 = note_check (fst (evaluate_record env now r)) (snd (evaluate_record env now r)) r s0"
    using get_license_status_parts [OF assms(2)] .
  note inv = ensure_trial_inv [OF assms(1) e]
  obtain r2 where r2: "r2 \<in> set (ls_records s1)" "r2 = r \<or> (\<exists>c t. r2 = r\<lparr>lr_check_status := c, lr_check_reason := t\<rparr>)"
  proof (cases "s1 = s0")
    case True
    then show thesis using that inv(2) by blast
  next
    case False
    let ?r = "r\<lparr>lr_check_status := Some (fst (evaluate_record env now r)), lr_check_reason := snd (evaluate_record env now r)\<rparr>"
    have "s1 = put_record ?r s0" using False by (simp add: s1 note_check_def split: if_splits)
    then have "?r \<in> set (ls_records s1)" using put_record_in [OF inv(2), of ?r] by simp
    then show thesis using that by blast
  qed
  have f: "lr_is_current r2" "trial_short env r2 = trial_short env r"
    "fst (evaluate_record env now r2) = fst (evaluate_record env now r)" "lr_limits r2 = lr_limits r"
    using r2(2) inv(3) evaluate_again trial_short_again by auto
  have c: "current_record s2 = Some r2" using current_record_only [OF assms(4)] r2(1) assms(3) f(1) by simp
  have "ensure_trial env now s2 = (r2, s2)"
    using ensure_trial_current [OF c] f(2) not_trial_short [OF e] by simp
  then have "get_license_status env now s2 =
      (license_info_of env now r2, note_check (fst (evaluate_record env now r2)) (snd (evaluate_record env now r2)) r2 s2)"
    by (simp add: get_license_status_def Let_def split_beta)
  then show thesis
    using that f by (simp add: i lv_status_info lv_limits_info note_check_def)
qed

section \<open>Lists\<close>

lemma insort_key_map: "insort_key k (f x) (map f xs) = map f (insort_key (\<lambda>a. k (f a)) x xs)"
  by (induction xs) auto

lemma sort_key_map: "sort_key k (map f xs) = map f (sort_key (\<lambda>a. k (f a)) xs)"
  by (induction xs) (auto simp: insort_key_map)

lemma in_take_filter:
  "distinct (map k xs) \<Longrightarrow> filter (\<lambda>x. k x \<in> k ` set (take n (filter P xs))) xs = take n (filter P xs)"
proof (induction xs arbitrary: n)
  case (Cons a xs)
  have na: "k a \<notin> k ` set (take m (filter P xs))" for m
    using Cons.prems by (auto dest: in_set_takeD)
  show ?case
  proof (cases "P a \<and> 0 < n")
    case True
    then obtain m where m: "n = Suc m" "P a" by (auto simp: gr0_conv_Suc)
    have "filter (\<lambda>x. k x = k a \<or> k x \<in> k ` set (take m (filter P xs))) xs =
          filter (\<lambda>x. k x \<in> k ` set (take m (filter P xs))) xs"
      by (rule filter_cong [OF refl]) (use Cons.prems in \<open>force simp: image_iff\<close>)
    then show ?thesis using Cons m by simp
  next
    case False
    then show ?thesis using Cons na [of n] by auto
  qed
qed simp

lemma keep_ids_take:
  "\<exists>n P. keep_ids m rows = map qi_id (take n (filter P rows))"
proof -
  let ?K = "filter (\<lambda>r. \<not> qi_suspended r) rows"
  consider "keep_ids m rows = map qi_id rows" | "keep_ids m rows = map qi_id (take (nat m) ?K)" | "keep_ids m rows = map qi_id ?K"
    by (cases "m \<le> 0 \<or> int (length rows) \<le> m"; cases "m < int (length ?K)")
      (simp_all add: keep_ids_def Let_def take_map)
  then show ?thesis
  proof cases
    case 1
    then have "keep_ids m rows = map qi_id (take (length rows) (filter (\<lambda>_. True) rows))" by simp
    then show ?thesis by blast
  next
    case 2
    then show ?thesis by blast
  next
    case 3
    then have "keep_ids m rows = map qi_id (take (length ?K) ?K)" by simp
    then show ?thesis by blast
  qed
qed

lemma kept_rows:
  assumes "distinct (map qi_id rows)"
  shows "map qi_id (filter (\<lambda>r. qi_id r \<in> set (keep_ids m rows)) rows) = keep_ids m rows"
proof -
  obtain n P where "keep_ids m rows = map qi_id (take n (filter P rows))" using keep_ids_take by blast
  then show ?thesis using in_take_filter [OF assms] by simp
qed

section \<open>Synchronisation\<close>

definition enabled_count :: "license_store \<Rightarrow> nat" where
  "enabled_count s = length (filter (\<lambda>r. qi_is_active r \<and> \<not> qi_suspended r) (ls_instances s))"

definition quota_mark :: "int \<Rightarrow> quota_row list \<Rightarrow> quota_row \<Rightarrow> quota_row" where
  "quota_mark m rows r = (if qi_is_active r then r\<lparr>qi_suspended := qi_id r \<notin> set (keep_ids m rows)\<rparr> else r)"

lemma quota_mark_simps [simp]:
  "qi_id (quota_mark m rows r) = qi_id r" "qi_is_active (quota_mark m rows r) = qi_is_active r"
  "qi_created_at (quota_mark m rows r) = qi_created_at r"
  by (simp_all add: quota_mark_def)

lemma set_active_instances: "set (quota_instances s) = {r \<in> set (ls_instances s). qi_is_active r}"
  by (simp add: quota_instances_def)

lemma active_distinct:
  assumes "distinct (map qi_id (ls_instances s))"
  shows "distinct (map qi_id (quota_instances s))"
proof -
  have "inj_on qi_id (set (ls_instances s))" "distinct (ls_instances s)" using assms by (simp_all add: distinct_map)
  then show ?thesis by (auto simp: distinct_map set_active_instances inj_on_def) (simp add: quota_instances_def)
qed

lemma keep_ids_subset: "set (keep_ids m rows) \<subseteq> qi_id ` set rows"
proof -
  obtain n P where k: "keep_ids m rows = map qi_id (take n (filter P rows))" using keep_ids_take by blast
  show ?thesis unfolding k by (auto dest: in_set_takeD)
qed

text \<open>The two updates of a synchronisation, as one pass over the table.\<close>

lemma sync_as_mark:
  assumes "distinct (map qi_id (ls_instances s))" "rows = quota_instances s" "keep = keep_ids m rows"
  shows "set_suspended True (filter (\<lambda>i. i \<notin> set keep) (map qi_id rows)) (set_suspended False keep s) =
     s\<lparr>ls_instances := map (quota_mark m rows) (ls_instances s)\<rparr>"
proof -
  have one: "(let r1 = (if qi_id r \<in> set keep then r\<lparr>qi_suspended := False\<rparr> else r) in
      if qi_id r \<in> set (filter (\<lambda>i. i \<notin> set keep) (map qi_id rows)) then r1\<lparr>qi_suspended := True\<rparr> else r1) = quota_mark m rows r"
    if r: "r \<in> set (ls_instances s)" for r
  proof (cases "qi_is_active r")
    case True
    then have "qi_id r \<in> qi_id ` set rows" using r assms(2) by (auto simp: set_active_instances)
    then show ?thesis using True assms(3) by (simp add: quota_mark_def Let_def)
  next
    case False
    have "qi_id r \<notin> qi_id ` set rows"
    proof
      assume "qi_id r \<in> qi_id ` set rows"
      then obtain x where x: "x \<in> set (ls_instances s)" "qi_is_active x" "qi_id x = qi_id r"
        using assms(2) by (auto simp: set_active_instances)
      then have "x = r" using assms(1) r by (auto simp: distinct_map dest: inj_onD)
      then show False using x(2) False by simp
    qed
    moreover from this have "qi_id r \<notin> set keep" using keep_ids_subset assms(3) by blast
    ultimately show ?thesis using False by (simp add: quota_mark_def Let_def)
  qed
  have ids: "qi_id (if c then r\<lparr>qi_suspended := b\<rparr> else r) = qi_id r" for c b r by simp
  show ?thesis
    using one by (simp add: set_suspended_def Let_def ids cong: if_cong)
qed

lemma active_after_mark:
  "quota_instances (s\<lparr>ls_instances := map (quota_mark m rows) (ls_instances s)\<rparr>) =
     map (quota_mark m rows) (quota_instances s)"
  by (simp add: quota_instances_def filter_map o_def sort_key_map)

lemma keep_ids_again:
  assumes "distinct (map qi_id rows)" "\<forall>r\<in>set rows. qi_is_active r"
  shows "keep_ids m (map (quota_mark m rows) rows) = keep_ids m rows"
proof -
  have k: "map qi_id (filter (\<lambda>r. \<not> qi_suspended r) (map (quota_mark m rows) rows)) = keep_ids m rows"
  proof -
    have "filter (\<lambda>r. \<not> qi_suspended (quota_mark m rows r)) rows = filter (\<lambda>r. qi_id r \<in> set (keep_ids m rows)) rows"
      by (rule filter_cong [OF refl]) (use assms(2) in \<open>simp add: quota_mark_def\<close>)
    then show ?thesis using kept_rows [OF assms(1), of m] by (simp add: filter_map o_def)
  qed
  show ?thesis
  proof (cases "m \<le> 0 \<or> int (length rows) \<le> m")
    case True
    then show ?thesis by (simp add: keep_ids_def o_def)
  next
    case False
    then have "\<not> m < int (length (keep_ids m rows))" by (auto simp: keep_ids_def Let_def)
    then show ?thesis using False k by (simp add: keep_ids_def [of m "map (quota_mark m rows) rows"] Let_def)
  qed
qed

lemma enabled_after_mark:
  assumes "distinct (map qi_id (ls_instances s))"
  shows "enabled_count (s\<lparr>ls_instances := map (quota_mark m (quota_instances s)) (ls_instances s)\<rparr>) =
     length (keep_ids m (quota_instances s))"
proof -
  let ?A = "quota_instances s" and ?K = "set (keep_ids m (quota_instances s))"
  have "enabled_count (s\<lparr>ls_instances := map (quota_mark m ?A) (ls_instances s)\<rparr>) =
      length (filter (\<lambda>r. qi_is_active r \<and> qi_id r \<in> ?K) (ls_instances s))"
    by (simp add: enabled_count_def filter_map o_def) (rule arg_cong [of _ _ length], rule filter_cong, simp_all add: quota_mark_def)
  also have "\<dots> = length (filter (\<lambda>r. qi_id r \<in> ?K) (filter qi_is_active (ls_instances s)))" by (simp add: conj_commute)
  also have "\<dots> = length (filter (\<lambda>r. qi_id r \<in> ?K) ?A)"
    by (simp add: quota_instances_def filter_sort)
  also have "\<dots> = length (keep_ids m ?A)" using kept_rows [OF active_distinct [OF assms], of m] by (metis length_map)
  finally show ?thesis .
qed

lemma keep_ids_bound: "0 < m \<Longrightarrow> int (length (keep_ids m rows)) \<le> m"
  by (auto simp: keep_ids_def Let_def)

lemma sync_runs:
  assumes "license_inv env s" "get_license_status env now s = (info, s1)" "lv_status info \<noteq> LInvalid"
    "sync_instance_suspension env now s = (c, s')"
  shows "s' = s1\<lparr>ls_instances := map (quota_mark (max_instances env info) (quota_instances s)) (ls_instances s)\<rparr>"
proof -
  have i: "ls_instances s1 = ls_instances s" using get_license_status_inv(2) [OF assms(1,2)] .
  have d: "distinct (map qi_id (ls_instances s1))" using assms(1) i by (simp add: license_inv_def license_wf_def)
  have a: "quota_instances s1 = quota_instances s" by (simp add: quota_instances_def i)
  show ?thesis
    using assms(2-4) sync_as_mark [OF d refl refl, of "max_instances env info"]
    by (auto simp: sync_instance_suspension_def Let_def a i)
qed

lemma no_change_counts:
  assumes "\<forall>r\<in>set (ls_instances s). qi_id r \<in> set ids \<longrightarrow> qi_suspended r = b"
  shows "suspended_count b ids s = 0" "set_suspended b ids s = s"
proof -
  show "suspended_count b ids s = 0" using assms by (simp add: suspended_count_def filter_empty_conv)
  have "map (\<lambda>r. if qi_id r \<in> set ids then r\<lparr>qi_suspended := b\<rparr> else r) (ls_instances s) = ls_instances s"
    by (rule map_idI) (use assms in auto)
  then show "set_suspended b ids s = s" by (simp add: set_suspended_def)
qed

lemma sync_again:
  assumes "license_inv env s" "get_license_status env now s = (info, s1)" "lv_status info \<noteq> LInvalid"
    "sync_instance_suspension env now s = (c, s')"
  shows "fst (sync_instance_suspension env now s') = (0, 0)"
proof -
  let ?m = "max_instances env info" and ?A = "quota_instances s"
  have s': "s' = s1\<lparr>ls_instances := map (quota_mark ?m ?A) (ls_instances s)\<rparr>" by (rule sync_runs [OF assms])
  have "license_inv env s'" by (rule sync_inv [OF assms(1,4)])
  then have wf: "license_wf s'" by (simp add: license_inv_def)
  obtain info2 s3 where g: "get_license_status env now s' = (info2, s3)" "lv_status info2 = lv_status info"
    "lv_limits info2 = lv_limits info" "ls_instances s3 = ls_instances s'"
    using get_license_status_again [OF assms(1,2) _ wf] by (auto simp: s')
  have m: "max_instances env info2 = ?m" by (simp add: max_instances_def g(3))
  have d: "distinct (map qi_id (ls_instances s))" using assms(1) by (simp add: license_inv_def license_wf_def)
  have A: "quota_instances s3 = map (quota_mark ?m ?A) ?A"
    using active_after_mark [where s = s and m = ?m and rows = ?A] g(4) by (simp add: quota_instances_def s')
  have k: "keep_ids ?m (quota_instances s3) = keep_ids ?m ?A"
    unfolding A by (rule keep_ids_again [OF active_distinct [OF d]]) (simp add: set_active_instances)
  have ids: "map qi_id (quota_instances s3) = map qi_id ?A" by (simp add: A o_def)
  have act: "qi_is_active x" if x: "x \<in> set (ls_instances s)" "qi_id x \<in> qi_id ` set ?A" for x
    using x d by (auto simp: set_active_instances distinct_map dest: inj_onD)
  have keepers: "\<forall>r\<in>set (ls_instances s3). qi_id r \<in> set (keep_ids ?m ?A) \<longrightarrow> qi_suspended r = False"
    using act keep_ids_subset [of ?m ?A] by (auto simp: g(4) s' quota_mark_def subset_iff)
  have dropped: "\<forall>r\<in>set (ls_instances s3). qi_id r \<in> set (filter (\<lambda>i. i \<notin> set (keep_ids ?m ?A)) (map qi_id ?A)) \<longrightarrow>
      qi_suspended r = True"
    using act by (auto simp: g(4) s' quota_mark_def)
  show ?thesis
    using g(1,2) assms(3) no_change_counts [OF keepers] no_change_counts [OF dropped]
    by (simp add: sync_instance_suspension_def Let_def m k ids)
qed

end
