(* ===== verification/License_Rights.thy ===== *)
theory License_Rights
  imports License_Quota
begin

text \<open>
  The properties of the licence: what a status grants and where the grant
  comes from, what reaches a protected router, the quota of instances, the
  offline challenge, and three ways a licence behaves against its purpose.
\<close>

section \<open>What a status grants\<close>

text \<open>A signed document of this deployment, inside its dates.\<close>

definition signed_grant :: "license_env \<Rightarrow> time \<Rightarrow> json list \<Rightarrow> json_obj \<Rightarrow> bool" where
  "signed_grant env now features limits \<longleftrightarrow>
     (\<exists>p sg nb ex. py_strip (le_public_key env) \<noteq> [] \<and> le_verify env (py_strip (le_public_key env)) sg p = Inr True \<and>
        validate_customer env p = Inr () \<and> validate_project env p = Inr () \<and>
        obj_get p ''features'' = JArr features \<and> obj_get p ''limits'' = JObj limits \<and>
        parse_datetime env (obj_get p ''not_before'') = Inr nb \<and> parse_datetime env (obj_get p ''expires_at'') = Inr ex \<and>
        (case nb of None \<Rightarrow> True | Some t \<Rightarrow> t \<le> now) \<and> (case ex of None \<Rightarrow> True | Some t \<Rightarrow> now \<le> t))"

text \<open>A trial of this table, no older than the longest local trial.\<close>

definition trial_grant :: "time \<Rightarrow> license_store \<Rightarrow> bool" where
  "trial_grant now s \<longleftrightarrow>
     (\<exists>r\<in>set (ls_records s). lr_source r = ''trial'' \<and>
        (case lr_issued_at r of None \<Rightarrow> False | Some t \<Rightarrow> now \<le> t + OFFLINE_TRIAL_DAYS * one_day))"

lemma status_grants:
  assumes "license_inv env s" "get_license_status env now s = (info, s')"
  shows "case lv_status info of
      LLicensed \<Rightarrow> signed_grant env now (lv_features info) (lv_limits info)
    | LTrial \<Rightarrow> trial_grant now s'
    | LCommunity \<Rightarrow> lv_features info = map JStr COMMUNITY_FEATURES \<and> lv_limits info = COMMUNITY_LIMITS
    | LInvalid \<Rightarrow> True"
proof -
  obtain r s1 where e: "ensure_trial env now s = (r, s1)" and i: "info = license_info_of env now r"
    and s': "s' = note_check (fst (evaluate_record env now r)) (snd (evaluate_record env now r)) r s1"
    using get_license_status_parts [OF assms(2)] .
  note inv = ensure_trial_inv [OF assms(1) e]
  have sound: "sound_record env r" using inv(1,2) by (simp add: license_inv_def)
  let ?st = "fst (evaluate_record env now r)"
  have st: "lv_status info = ?st" by (simp add: i lv_status_info)
  have r': "\<exists>r'\<in>set (ls_records s'). lr_source r' = lr_source r \<and> lr_issued_at r' = lr_issued_at r"
  proof (cases "s' = s1")
    case True
    then show ?thesis using inv(2) by blast
  next
    case False
    let ?r = "r\<lparr>lr_check_status := Some ?st, lr_check_reason := snd (evaluate_record env now r)\<rparr>"
    have "s' = put_record ?r s1" using False by (simp add: s' note_check_def split: if_splits)
    then have "?r \<in> set (ls_records s')" using put_record_in [OF inv(2), of ?r] by simp
    then show ?thesis by (rule rev_bexI) simp
  qed
  show ?thesis
  proof (cases ?st)
    case LTrial
    then have "lr_source r = ''trial''" using evaluate_licensed(1) [of env now r] by simp
    moreover from this obtain t e where t: "lr_issued_at r = Some t" "lr_expires_at r = Some e"
      "e \<le> t + OFFLINE_TRIAL_DAYS * one_day" using sound by (auto simp: sound_record_def trial_terms_def)
    moreover have "now \<le> e" using evaluate_licensed(3) [of env now r e] LTrial t(2) by simp
    ultimately have "trial_grant now s'" using r' by (auto simp: trial_grant_def)
    then show ?thesis by (simp add: st LTrial)
  next
    case LLicensed
    then have "granted env r"
      using sound evaluate_licensed(1) [of env now r] by (simp add: sound_record_def)
    moreover have "case lr_not_before r of None \<Rightarrow> True | Some t \<Rightarrow> t \<le> now"
      using evaluate_licensed(2) [of env now r] LLicensed by (simp split: option.splits)
    moreover have "case lr_expires_at r of None \<Rightarrow> True | Some t \<Rightarrow> now \<le> t"
      using evaluate_licensed(3) [of env now r] LLicensed by (simp split: option.splits)
    ultimately have "signed_grant env now (lr_features r) (lr_limits r)"
      unfolding signed_grant_def granted_def Let_def by metis
    then show ?thesis unfolding st LLicensed by (simp add: i lv_features_info lv_limits_info LLicensed)
  next
    case LCommunity
    then show ?thesis unfolding st LCommunity by (simp add: i lv_features_info lv_limits_info LCommunity)
  next
    case LInvalid
    then show ?thesis unfolding st LInvalid by simp
  qed
qed

section \<open>What reaches a router\<close>

lemma starts_withE: "starts_with s p \<Longrightarrow> \<exists>rest. s = p @ rest"
  unfolding starts_with_def by (metis append_take_drop_id)

lemma feature_prefix:
  assumes "feature_for_path path = f" "f \<noteq> []"
  obtains p rest where "(p, f) \<in> set LICENSE_PROTECTED_FEATURE_BY_PREFIX" "path = p @ rest"
proof -
  obtain p g where "find (\<lambda>(p, f). starts_with path p) LICENSE_PROTECTED_FEATURE_BY_PREFIX = Some (p, g)" "g = f"
    using assms by (auto simp: feature_for_path_def split: option.splits)
  then have "(p, f) \<in> set LICENSE_PROTECTED_FEATURE_BY_PREFIX" "starts_with path p"
    using find_Some_in by fastforce+
  then show thesis using that starts_withE by blast
qed

lemma protected_not_exempt:
  assumes "feature_for_path path \<noteq> []"
  shows "\<not> exempt_path path"
proof -
  obtain p rest where "(p, feature_for_path path) \<in> set LICENSE_PROTECTED_FEATURE_BY_PREFIX" "path = p @ rest"
    using feature_prefix [OF refl assms] .
  then show ?thesis
    by (auto simp: LICENSE_PROTECTED_FEATURE_BY_PREFIX_def exempt_path_def LICENSE_EXEMPT_PREFIXES_def starts_with_def)
qed

lemma check_access_protected:
  assumes "feature_for_path path \<noteq> []" "py_upper_ascii m \<noteq> ''OPTIONS''" "check_access env now path m s = (Inr c, s')"
    "get_license_status env now s = (info, s1)" "lc_allowed c"
  shows "s' = s1 \<and> (case lv_status info of
      LLicensed \<Rightarrow> JStr (feature_for_path path) \<in> set (lv_features info)
    | LTrial \<Rightarrow> True
    | LCommunity \<Rightarrow> community_block_reason path = [] \<and> feature_for_path path \<in> set COMMUNITY_FEATURES
    | LInvalid \<Rightarrow> False)"
  using assms protected_not_exempt [OF assms(1)]
  by (cases "lv_status info")
    (auto simp: check_access_def Let_def raise_if_def or_str_def split: if_splits)

lemma gateway_production:
  assumes "gateway env db_up now rq s = (Inr None, s')" "le_production env"
  obtains c where "check_access env now (hr_path rq) (hr_method rq) s = (Inr c, s')" "lc_allowed c"
    "validate_csrf_request rq = Inr None" "db_up"
proof -
  obtain a s1 where c: "check_access env now (hr_path rq) (hr_method rq) s = (a, s1)" by fastforce
  show thesis
    using assms c that
    by (cases a) (auto simp: gateway_def license_enforcement_middleware_def Let_def split: if_splits option.splits)
qed


text \<open>A concrete deployment: its dates are the texts a, b and c, and every signature \<^verbatim>\<open>ok\<close> verifies.\<close>

definition lic_env :: license_env where
  "lic_env =
     \<lparr>le_loads = (\<lambda>_. None), le_str = (\<lambda>_. ''?''), le_int = (\<lambda>v. if v = JNum ''2'' then Some 2 else if v = JNum ''4'' then Some 4 else None),
      le_parse_datetime = (\<lambda>t. if t = ''a'' then Some 0 else if t = ''b'' then Some (20 * one_day)
        else if t = ''c'' then Some (90 * one_day) else None),
      le_isoformat = (\<lambda>t. if t = 0 then ''a'' else ''b''), le_sha256 = (\<lambda>t. t), le_hmac = (\<lambda>k p. k),
      le_verify = (\<lambda>k sg p. Inr (sg = ''ok'')), le_public_key = ''key'', le_customer_id = [], le_deployment_id = ''d1'',
      le_secret_key = ''secret'', le_server_url = ''https://licence'', le_grace_days = 3, le_challenge_minutes = 30,
      le_server = (\<lambda>_ _. Unreachable), le_usage = JNull, le_runtime = (\<lambda>_. JNull), le_production = True,
      le_allow_legacy = True, le_auto_refresh = True, le_renewal_days = [30, 7]\<rparr>"

definition lic_payload :: "string \<Rightarrow> string \<Rightarrow> json_obj" where
  "lic_payload from until =
     [(''license_id'', JStr ''L1''), (''customer_id'', JStr ''C1''), (''company_name'', JStr ''Co''), (''edition'', JStr ''ent''),
      (''not_before'', JStr from), (''expires_at'', JStr until), (''features'', JArr [JStr ''query'', JStr ''workflow'']),
      (''limits'', JObj [(''max_instances'', JNum ''2''), (''max_users'', JNum ''4'')]), (''issued_at'', JStr ''a'')]"

definition lic_document :: "string \<Rightarrow> string \<Rightarrow> json" where
  "lic_document from until = JObj [(''payload'', JObj (lic_payload from until)), (''signature'', JStr ''ok'')]"

definition lic_store :: license_store where
  "lic_store =
     \<lparr>ls_records = [], ls_instances =
        [\<lparr>qi_id = 1, qi_is_active = True, qi_suspended = False, qi_created_at = 3\<rparr>,
         \<lparr>qi_id = 2, qi_is_active = True, qi_suspended = False, qi_created_at = 1\<rparr>,
         \<lparr>qi_id = 3, qi_is_active = True, qi_suspended = True, qi_created_at = 0\<rparr>,
         \<lparr>qi_id = 4, qi_is_active = True, qi_suspended = False, qi_created_at = 2\<rparr>], ls_next_id = 1\<rparr>"

definition lic_request :: "string \<Rightarrow> http_request" where
  "lic_request path = \<lparr>hr_method = ''GET'', hr_path = path, hr_cookies = (\<lambda>_. None), hr_csrf_header = None\<rparr>"

lemma lic_reachable: "license_reachable lic_env lic_store"
  unfolding lic_store_def by (rule license_reachable.start) simp

definition licensed_store :: license_store where
  "licensed_store = snd (rolled_back lic_store (import_license lic_env 0 (lic_document ''a'' ''c'') lic_store))"

lemma licensed_reachable: "license_reachable lic_env licensed_store"
  unfolding licensed_store_def by (rule license_reachable.step [OF lic_reachable license_step.import])

lemma licensed_run: "fst (gateway lic_env True 5 (lic_request ''/api/v1/query/run'') licensed_store) = Inr None"
  by code_simp


section \<open>Quota of instances\<close>

text \<open>
C19: A synchronisation under a status other than invalid enables every active instance when the
licence has no instance limit, and otherwise leaves at most the limit enabled; it changes no
inactive instance, and a second synchronisation at the same time changes nothing.
\<close>

theorem instances_within_quota:
  assumes "license_reachable env s" "get_license_status env now s = (info, s1)" "lv_status info \<noteq> LInvalid"
    "sync_instance_suspension env now s = (c, s')"
  shows "(if max_instances env info \<le> 0 then enabled_count s' = length (quota_instances s)
          else int (enabled_count s') \<le> max_instances env info) \<and>
    filter (\<lambda>r. \<not> qi_is_active r) (ls_instances s') = filter (\<lambda>r. \<not> qi_is_active r) (ls_instances s) \<and>
    fst (sync_instance_suspension env now s') = (0, 0)"
proof -
  let ?m = "max_instances env info" and ?A = "quota_instances s"
  have inv: "license_inv env s" by (rule license_reachable_inv [OF assms(1)])
  then have d: "distinct (map qi_id (ls_instances s))" by (simp add: license_inv_def license_wf_def)
  have s': "s' = s1\<lparr>ls_instances := map (quota_mark ?m ?A) (ls_instances s)\<rparr>"
    by (rule sync_runs [OF inv assms(2-4)])
  then have e: "enabled_count s' = length (keep_ids ?m ?A)"
    using enabled_after_mark [OF d, of ?m] by (simp add: enabled_count_def)
  have n: "?m \<le> 0 \<Longrightarrow> length (keep_ids ?m ?A) = length ?A" by (simp add: keep_ids_def)
  have "filter (\<lambda>r. \<not> qi_is_active r) (map (quota_mark ?m ?A) rs) = filter (\<lambda>r. \<not> qi_is_active r) rs" for rs
    by (induction rs) (simp_all add: quota_mark_def)
  then have f: "filter (\<lambda>r. \<not> qi_is_active r) (ls_instances s') = filter (\<lambda>r. \<not> qi_is_active r) (ls_instances s)"
    by (simp add: s')
  show ?thesis
    using e n f keep_ids_bound [of ?m ?A] sync_again [OF inv assms(2-4)] by simp
qed

lemma instances_within_quota_witness:
  "int (enabled_count (snd (sync_instance_suspension lic_env 1 licensed_store))) \<le> 2"
proof -
  have l: "lv_status (fst (get_license_status lic_env 1 licensed_store)) = LLicensed \<and>
    max_instances lic_env (fst (get_license_status lic_env 1 licensed_store)) = 2" by code_simp
  then show ?thesis
    using instances_within_quota [OF licensed_reachable, of 1 "fst (get_license_status lic_env 1 licensed_store)"
      "snd (get_license_status lic_env 1 licensed_store)" "fst (sync_instance_suspension lic_env 1 licensed_store)"
      "snd (sync_instance_suspension lic_env 1 licensed_store)"]
    by simp
qed

section \<open>Licences before their time\<close>

lemma note_check_current:
  assumes "license_inv env s" "current_record s = Some r"
  obtains r' where "current_record (note_check st t r s) = Some r'" "lr_source r' = lr_source r" "lr_status r' = lr_status r"
    "\<And>now. fst (evaluate_record env now r') = fst (evaluate_record env now r)"
proof -
  have r: "r \<in> set (ls_records s)" "lr_is_current r" using current_record_Some [OF assms(2)] by auto
  have wf: "license_wf (note_check st t r s)"
    using note_check_inv(1) [OF assms(1) r(1)] by (simp add: license_inv_def)
  show thesis
  proof (cases "note_check st t r s = s")
    case True
    then show ?thesis using that assms(2) by simp
  next
    case False
    let ?r = "r\<lparr>lr_check_status := Some st, lr_check_reason := t\<rparr>"
    have e: "note_check st t r s = put_record ?r s" using False by (simp add: note_check_def split: if_splits)
    have "?r \<in> set (ls_records (note_check st t r s))" unfolding e by (rule put_record_in [OF r(1)]) simp
    then have "current_record (note_check st t r s) = Some ?r" using current_record_only [OF wf] r(2) by simp
    then show ?thesis using that [of ?r] evaluate_again by simp
  qed
qed

lemma paid_status:
  assumes "license_inv env s" "current_record s = Some r" "lr_source r \<noteq> ''trial''"
  obtains s' r' where "get_license_status env now s = (license_info_of env now r, s')" "current_record s' = Some r'"
    "lr_source r' = lr_source r" "lr_status r' = lr_status r"
    "\<And>now. fst (evaluate_record env now r') = fst (evaluate_record env now r)"
proof -
  have "get_license_status env now s =
      (license_info_of env now r, note_check (fst (evaluate_record env now r)) (snd (evaluate_record env now r)) r s)"
    using ensure_trial_kept [OF assms(2,3)] by (simp add: get_license_status_def Let_def split_beta)
  then show thesis using that note_check_current [OF assms(1,2)] by metis
qed

lemma current_record_cong: "ls_records s' = ls_records s \<Longrightarrow> current_record s' = current_record s"
  by (simp add: current_record_def)

lemma sync_records:
  assumes "get_license_status env now s = (info, s1)" "sync_instance_suspension env now s = (c, s')"
  shows "ls_records s' = ls_records s1"
  using assms(2,1) by (cases rule: sync_state) (simp_all add: set_suspended_def)

lemma invalid_stays_invalid: "lr_status r = LInvalid \<Longrightarrow> fst (evaluate_record env now r) \<in> {LInvalid, LCommunity}"
  by (simp add: evaluate_record_def Let_def split: option.splits)

lemma store_invalid:
  assumes "license_inv env s" "store_license env now og raw s = (Inr info, s')" "og_source og \<noteq> ''trial''"
    "lv_status info = LInvalid"
  obtains r where "license_inv env s'" "current_record s' = Some r" "lr_source r \<noteq> ''trial''" "lr_status r = LInvalid"
  using assms(2)
proof (cases rule: store_license_cases)
  case (3 p sg r s3 c s4 info2)
  obtain r3 where r3: "license_inv env s3" "current_record s3 = Some r3" "lr_source r3 = og_source og"
    "lr_status r3 = fst (evaluate_record env now r3)"
    by (rule stored_record [OF assms(1) 3(1,2) assms(3) 3(3)])
  have t3: "lr_source r3 \<noteq> ''trial''" using r3(3) assms(3) by simp
  obtain t r4 where t: "get_license_status env now s3 = (license_info_of env now r3, t)" "current_record t = Some r4"
    "lr_source r4 = lr_source r3" "lr_status r4 = lr_status r3"
    "\<And>now. fst (evaluate_record env now r4) = fst (evaluate_record env now r3)"
    using paid_status [OF r3(1,2) t3, where now = now] by metis
  have c4: "current_record s4 = Some r4" using current_record_cong [OF sync_records [OF t(1) 3(4)]] t(2) by simp
  have i4: "license_inv env s4" by (rule sync_inv [OF r3(1) 3(4)])
  have t4: "lr_source r4 \<noteq> ''trial''" using t(3) t3 by simp
  obtain u r5 where u: "get_license_status env now s4 = (license_info_of env now r4, u)" "current_record u = Some r5"
    "lr_source r5 = lr_source r4" "lr_status r5 = lr_status r4"
    using paid_status [OF i4 c4 t4, where now = now] by metis
  have "s' = u" "info = license_info_of env now r4" using 3(5,6) u(1) by simp_all
  then have e: "fst (evaluate_record env now r4) = LInvalid" using assms(4) by (simp add: lv_status_info)
  have "lr_status r4 = LInvalid" using e t(4,5) r3(4) by simp
  then show ?thesis using that u t4 \<open>s' = u\<close> get_license_status_inv(1) [OF i4 u(1)] by simp
qed simp_all

text \<open>
An import whose outcome is the status invalid, which is the outcome for a licence that is
not valid yet, stays without effect for good: no later status request, at any time, finds the
deployment licensed, although the same document imported after its first day would be valid.
\<close>

theorem early_license_stays_invalid:
  assumes "license_reachable env s" "import_license env now raw s = (Inr info, s')" "lv_status info = LInvalid"
  shows "lv_status (fst (get_license_status env later s')) \<in> {LInvalid, LCommunity}"
proof -
  have inv: "license_inv env s" by (rule license_reachable_inv [OF assms(1)])
  obtain og doc where st: "store_license env now og doc s = (Inr info, s')" "og_source og \<noteq> ''trial''"
    using assms(2) by (auto simp: import_license_def Let_def split: sum.splits if_splits prod.splits)
  obtain r where r: "license_inv env s'" "current_record s' = Some r" "lr_source r \<noteq> ''trial''" "lr_status r = LInvalid"
    by (rule store_invalid [OF inv st assms(3)])
  obtain u where "get_license_status env later s' = (license_info_of env later r, u)"
    using paid_status [OF r(1-3), where now = later] by metis
  then show ?thesis using invalid_stays_invalid [OF r(4)] by (simp add: lv_status_info)
qed

lemma early_license_stays_invalid_witness:
  "lv_status (fst (get_license_status lic_env (30 * one_day)
     (snd (import_license lic_env 0 (lic_document ''b'' ''c'') lic_store)))) \<in> {LInvalid, LCommunity} \<and>
   lv_status (fst (get_license_status lic_env (30 * one_day)
     (snd (import_license lic_env (30 * one_day) (lic_document ''b'' ''c'') lic_store)))) = LLicensed"
proof -
  obtain i t where i: "import_license lic_env 0 (lic_document ''b'' ''c'') lic_store = (i, t)" by fastforce
  have "(case fst (import_license lic_env 0 (lic_document ''b'' ''c'') lic_store) of
      Inr info \<Rightarrow> lv_status info = LInvalid | Inl e \<Rightarrow> False)" by code_simp
  then obtain info where "i = Inr info" "lv_status info = LInvalid" using i by (auto split: sum.splits)
  then have "lv_status (fst (get_license_status lic_env (30 * one_day) t)) \<in> {LInvalid, LCommunity}"
    using early_license_stays_invalid [OF lic_reachable, of 0 "lic_document ''b'' ''c''" info t] i by simp
  moreover have "lv_status (fst (get_license_status lic_env (30 * one_day)
     (snd (import_license lic_env (30 * one_day) (lic_document ''b'' ''c'') lic_store)))) = LLicensed" by code_simp
  ultimately show ?thesis using i by simp
qed

section \<open>A renewal that cannot be read\<close>

lemma refresh_request_check:
  "refresh_request env (r\<lparr>lr_check_status := c, lr_check_reason := t\<rparr>) = refresh_request env r"
  by (simp add: refresh_request_def)

lemma status_current_check:
  assumes "license_inv env s" "current_record s = Some r" "lr_source r \<noteq> ''trial''" "get_license_status env now s = (info, s1)"
  shows "current_record s1 = Some r \<or> (\<exists>c t. current_record s1 = Some (r\<lparr>lr_check_status := c, lr_check_reason := t\<rparr>))"
proof -
  have r: "r \<in> set (ls_records s)" "lr_is_current r" using current_record_Some [OF assms(2)] by auto
  define st t where "st = fst (evaluate_record env now r)" and "t = snd (evaluate_record env now r)"
  have s1: "s1 = note_check st t r s"
    using ensure_trial_kept [OF assms(2,3)] assms(4) by (simp add: get_license_status_def Let_def split_beta st_def t_def)
  let ?r = "r\<lparr>lr_check_status := Some st, lr_check_reason := t\<rparr>"
  show ?thesis
  proof (cases "s1 = s")
    case True
    then show ?thesis using assms(2) by simp
  next
    case False
    then have e: "s1 = put_record ?r s" by (simp add: s1 note_check_def split: if_splits)
    have "license_inv env s1" by (rule get_license_status_inv(1) [OF assms(1,4)])
    then have "current_record s1 = Some ?r"
      using current_record_only [of s1 ?r] put_record_in [OF r(1), of ?r] r(2) by (simp add: license_inv_def e)
    then show ?thesis by blast
  qed
qed

lemma retired_falls_to_trial:
  assumes "sync_instance_suspension env now (retire_records s) = (c, s')" "license_inv env s"
  obtains r where "current_record s' = Some r" "lr_source r = ''trial''" "lr_features r = map JStr LICENSE_FEATURES"
    "lr_expires_at r = Some (now + local_trial_days env * one_day)"
proof -
  let ?s = "retire_records s"
  have inv: "license_inv env ?s" by (rule license_inv_retire [OF assms(2)])
  have none: "current_record ?s = None" using retired_not_current by (simp add: current_record_None)
  define t where "t = trial_record env now (ls_next_id ?s)"
  let ?added = "add_record t ?s"
  have e: "ensure_trial env now ?s = (t, ?added)" using ensure_trial_new [OF none] by (simp add: t_def)
  note i = ensure_trial_inv [OF inv e]
  have c0: "current_record ?added = Some t" using current_record_only [OF _ i(2,3)] i(1) by (simp add: license_inv_def)
  obtain info s1 where g: "get_license_status env now ?s = (info, s1)" by fastforce
  have s1: "s1 = note_check (fst (evaluate_record env now t)) (snd (evaluate_record env now t)) t ?added"
    using g e by (simp add: get_license_status_def Let_def split_beta)
  have t: "lr_source t = ''trial''" "lr_features t = map JStr LICENSE_FEATURES"
    "lr_expires_at t = Some (now + local_trial_days env * one_day)" by (simp_all add: t_def trial_record_def)
  have "\<exists>r. current_record s1 = Some r \<and> lr_source r = lr_source t \<and> lr_features r = lr_features t \<and>
      lr_expires_at r = lr_expires_at t"
  proof (cases "s1 = ?added")
    case True
    then show ?thesis using c0 by simp
  next
    case False
    let ?r = "t\<lparr>lr_check_status := Some (fst (evaluate_record env now t)), lr_check_reason := snd (evaluate_record env now t)\<rparr>"
    have p: "s1 = put_record ?r ?added" using False by (simp add: s1 note_check_def split: if_splits)
    have "license_wf s1" using get_license_status_inv(1) [OF inv g] by (simp add: license_inv_def)
    then have "current_record s1 = Some ?r"
      using current_record_only [of s1 ?r] put_record_in [OF i(2), of ?r] i(3) by (simp add: p)
    then show ?thesis by simp
  qed
  then show thesis
    using that t current_record_cong [OF sync_records [OF g assms(1)]] by metis
qed

text \<open>
When the daily task renews an online licence and the server answers a correctly signed
document whose dates do not parse, the error is caught after the records were retired and before
the new one exists: the task commits that state, and the paid licence is replaced by a new local
trial with every feature.
\<close>

theorem unreadable_renewal_falls_to_trial:
  assumes "license_reachable env s" "current_record s = Some r" "lr_source r = ''online''" "le_auto_refresh env"
    "call_license_server env ''/api/v1/licenses/refresh'' (refresh_request env r) = Inr reply"
    "text_or env (obj_get reply ''status'') ''active'' \<notin> {''revoked'', ''suspended''}"
    "json_truthy (obj_get reply ''license'')"
    "verify_license_document env (obj_get reply ''license'') = Inr (p, sg)"
    "parse_datetime env (obj_get p ''expires_at'') = Inl e"
  shows "\<exists>r'. current_record (snd (refresh_online_license env now s)) = Some r' \<and> lr_source r' = ''trial'' \<and>
    lr_features r' = map JStr LICENSE_FEATURES \<and> lr_expires_at r' = Some (now + local_trial_days env * one_day)"
proof -
  have inv: "license_inv env s" by (rule license_reachable_inv [OF assms(1)])
  have nt: "lr_source r \<noteq> ''trial''" using assms(3) by simp
  obtain s1 where g: "get_license_status env now s = (license_info_of env now r, s1)"
    using paid_status [OF inv assms(2) nt, where now = now] by metis
  have i1: "license_inv env s1" by (rule get_license_status_inv(1) [OF inv g])
  obtain r1 where r1: "current_record s1 = Some r1" "lr_source r1 = ''online''" "refresh_request env r1 = refresh_request env r"
    using status_current_check [OF inv assms(2) nt g] assms(3) refresh_request_check by fastforce
  have bad: "\<exists>e. license_record_of env now og p sg i = Inl e" for og i
    using assms(9) by (cases "parse_datetime env (obj_get p ''issued_at'')"; cases "parse_datetime env (obj_get p ''not_before'')")
      (simp_all add: license_record_of_def)
  have stored: "\<exists>e. store_license env now og (obj_get reply ''license'') s1 = (Inl e, retire_records s1)" for og
  proof -
    obtain e where "license_record_of env now og p sg (ls_next_id (retire_records s1)) = Inl e" using bad by blast
    then show ?thesis using assms(8) by (simp add: store_license_def Let_def)
  qed
  have "refresh_license env now s1 = store_reply env now (lr_activation_code r1) (lr_activation_id r1) reply s1"
    using r1 assms(5,6) by (simp add: refresh_license_def Let_def)
  then have "\<exists>e. refresh_license env now s1 = (Inl e, retire_records s1)"
    using stored assms(7) by (simp add: store_reply_def)
  then obtain e where rf: "refresh_license env now s1 = (Inl e, retire_records s1)" ..
  obtain c s' where y: "sync_instance_suspension env now (retire_records s1) = (c, s')" by fastforce
  have "lv_source (license_info_of env now r) = ''online''"
    using assms(3) by (simp add: license_info_of_def Let_def split_beta)
  then have "snd (refresh_online_license env now s) = s'"
    using g rf y assms(4) by (simp add: refresh_online_license_def Let_def split_beta)
  then show ?thesis using retired_falls_to_trial [OF y i1] by metis
qed

text \<open>A server that activates, and later answers a document whose end is no date.\<close>

definition unreadable_reply :: json_obj where
  "unreadable_reply = [(''license'', lic_document ''a'' ''soon'')]"

definition renew_env :: license_env where
  "renew_env = lic_env\<lparr>le_server := (\<lambda>path _.
     if path = ''/api/v1/licenses/activate'' then Reply 200 (JObj [(''license'', lic_document ''a'' ''c'')])
     else Reply 200 (JObj unreadable_reply))\<rparr>"

definition renewed_store :: license_store where
  "renewed_store = snd (rolled_back lic_store (activate_license renew_env 0 ''code'' ''C1'' lic_store))"

lemma renewed_reachable: "license_reachable renew_env renewed_store"
  unfolding renewed_store_def lic_store_def
  by (rule license_reachable.step [OF license_reachable.start license_step.activate]) simp

lemma unreadable_renewal_falls_to_trial_witness:
  "\<exists>r'. current_record (snd (refresh_online_license renew_env 1 renewed_store)) = Some r' \<and> lr_source r' = ''trial'' \<and>
    lr_features r' = map JStr LICENSE_FEATURES \<and> lr_expires_at r' = Some (1 + local_trial_days renew_env * one_day)"
proof -
  have "case current_record renewed_store of None \<Rightarrow> False | Some r \<Rightarrow> lr_source r = ''online''" by code_simp
  then obtain r where r: "current_record renewed_store = Some r" "lr_source r = ''online''" by (auto split: option.splits)
  have c: "call_license_server renew_env ''/api/v1/licenses/refresh'' (refresh_request renew_env r) = Inr unreadable_reply"
  proof -
    have "license_server_url renew_env \<noteq> []" by code_simp
    then show ?thesis by (simp add: call_license_server_def renew_env_def)
  qed
  have st: "text_or renew_env (obj_get unreadable_reply ''status'') ''active'' \<notin> {''revoked'', ''suspended''}" by code_simp
  have t: "json_truthy (obj_get unreadable_reply ''license'')" by code_simp
  have v: "verify_license_document renew_env (obj_get unreadable_reply ''license'') = Inr (lic_payload ''a'' ''soon'', ''ok'')"
    by code_simp
  have e: "parse_datetime renew_env (obj_get (lic_payload ''a'' ''soon'') ''expires_at'') = Inl (RawException PyValueError)"
    by code_simp
  have a: "le_auto_refresh renew_env" by (simp add: renew_env_def lic_env_def)
  show ?thesis by (rule unreadable_renewal_falls_to_trial [OF renewed_reachable r a c st t v e])
qed

section \<open>Offline challenges\<close>

lemma py_strip_idem: "py_strip (py_strip s) = py_strip s"
proof -
  define a b where "a = py_lstrip s" and "b = rev (py_lstrip (rev a))"
  have split: "a = b @ rev (takeWhile py_isspace (rev a))"
    unfolding b_def py_lstrip_def by (metis rev_append rev_rev_ident takeWhile_dropWhile_id)
  have "py_lstrip b = b"
  proof (cases b)
    case (Cons x xs)
    then have "hd a = x" "a \<noteq> []" using split by (metis append_Cons list.sel(1), metis append_is_Nil_conv list.distinct(1))
    then have "\<not> py_isspace x" unfolding a_def py_lstrip_def using hd_dropWhile by metis
    then show ?thesis using Cons by (simp add: py_lstrip_def)
  qed (simp add: py_lstrip_def)
  moreover have "py_lstrip (rev b) = rev b" by (simp add: b_def py_lstrip_def)
  ultimately have "py_strip b = b" by (simp add: py_strip_def)
  then show ?thesis by (simp add: py_strip_def a_def b_def)
qed

text \<open>
C22: A challenge made by the deployment is accepted until its last second and gives its payload
back, and is refused as expired at any later time, when the date conversion reads what it wrote
and the signature is a non-empty ASCII text.
\<close>

theorem challenge_roundtrip:
  assumes "create_offline_challenge env customer nonce now = Inr ch"
    "\<And>t. le_parse_datetime env (le_isoformat env t) = Some t" "\<And>t. le_isoformat env t \<noteq> []"
    "\<And>k p. le_hmac env k p \<noteq> [] \<and> list_all (\<lambda>c. char_code c < 128) (le_hmac env k p)"
  shows "\<exists>p. obj_get (json_fields ch) ''payload'' = JObj p \<and>
    obj_get p ''nonce'' = JStr nonce \<and>
    verify_offline_challenge env t ch =
      (if t \<le> now + le_challenge_minutes env * 60 * second then Inr p else Inl (http 400 ''challenge expired''))"
proof -
  let ?c = "or_str (py_strip customer) (py_strip (le_customer_id env))"
  let ?x = "now + le_challenge_minutes env * 60 * second"
  let ?p = "[(''project'', JStr LICENSE_PROJECT_CODE), (''product'', JStr LICENSE_PROJECT_CODE), (''customer_id'', JStr ?c),
    (''deployment_fingerprint'', JStr (deployment_fingerprint env ?c)), (''nonce'', JStr nonce),
    (''issued_at'', JStr (le_isoformat env now)), (''expires_at'', JStr (le_isoformat env ?x))]"
  let ?k = "py_strip (le_secret_key env)"
  have k: "?k \<noteq> []" and c: "?c \<noteq> []"
    and ch: "ch = JObj [(''payload'', JObj ?p), (''signature'', JStr (le_hmac env ?k ?p))]"
    using assms(1) by (auto simp: create_offline_challenge_def sign_challenge_payload_def Let_def raise_if_def split: if_splits)
  have sg: "sign_challenge_payload env ?p = Inr (le_hmac env ?k ?p)" using k by (simp add: sign_challenge_payload_def Let_def)
  have cmp: "compare_digest (le_hmac env ?k ?p) (le_hmac env ?k ?p) = Inr True"
    using assms(4) [of ?k ?p] by (auto simp: compare_digest_def list_ex_iff list_all_iff not_le)
  have parts: "challenge_parts ch = Inr (?p, le_hmac env ?k ?p)"
    using assms(4) [of ?k ?p] by (simp add: ch challenge_parts_def obj_get_def)
  have proj: "validate_project env ?p = Inr ()"
  proof -
    have "py_lower (py_strip LICENSE_PROJECT_CODE) = LICENSE_PROJECT_CODE" by code_simp
    moreover have "LICENSE_PROJECT_CODE \<noteq> []" by (simp add: LICENSE_PROJECT_CODE_def)
    ultimately show ?thesis by (simp add: validate_project_def Let_def text_or_def json_text_def obj_get_def)
  qed
  have strip: "py_strip ?c = ?c" by (simp add: or_str_def py_strip_idem)
  have dt: "parse_datetime env (JStr (le_isoformat env ?x)) = Inr (Some ?x)"
    using assms(2) [of ?x] assms(3) [of ?x] by (simp add: parse_datetime_def)
  have f: "deployment_fingerprint env ?c = [] \<or> deployment_fingerprint env ?c \<noteq> []" by simp
  have "verify_offline_challenge env t ch = (if t \<le> ?x then Inr ?p else Inl (http 400 ''challenge expired''))"
    using c strip dt assms(3) [of ?x]
    by (simp add: verify_offline_challenge_def parts sg cmp proj text_or_def json_text_def obj_get_def Let_def raise_if_def)
  then show ?thesis by (simp add: ch json_fields_def obj_get_def)
qed

definition iso_env :: license_env where
  "iso_env = lic_env\<lparr>le_isoformat := (\<lambda>t. (if t < 0 then CHR ''-'' else CHR ''+'') # replicate (nat \<bar>t\<bar>) CHR ''i''),
     le_parse_datetime := (\<lambda>s. case s of [] \<Rightarrow> None
       | c # cs \<Rightarrow> Some (if c = CHR ''-'' then - int (length cs) else int (length cs))),
     le_hmac := (\<lambda>_ _. ''mac''), le_challenge_minutes := 0\<rparr>"

lemma challenge_roundtrip_witness:
  "\<exists>ch p. create_offline_challenge iso_env ''C1'' ''n1'' 3 = Inr ch \<and> verify_offline_challenge iso_env 3 ch = Inr p \<and>
     verify_offline_challenge iso_env 4 ch = Inl (http 400 ''challenge expired'')"
proof -
  have "case create_offline_challenge iso_env ''C1'' ''n1'' 3 of Inl e \<Rightarrow> False | Inr ch \<Rightarrow> True" by code_simp
  then obtain ch where ch: "create_offline_challenge iso_env ''C1'' ''n1'' 3 = Inr ch" by (auto split: sum.splits)
  have "\<exists>p. obj_get (json_fields ch) ''payload'' = JObj p \<and> obj_get p ''nonce'' = JStr ''n1'' \<and>
    verify_offline_challenge iso_env t ch =
      (if t \<le> 3 + le_challenge_minutes iso_env * 60 * second then Inr p else Inl (http 400 ''challenge expired''))" for t
    by (rule challenge_roundtrip [OF ch]) (simp_all add: iso_env_def char_code_def)
  from this [of 3] this [of 4] show ?thesis using ch by (auto simp: iso_env_def)
qed

end
