(* ===== verification/Gateway_Facts.thy ===== *)
theory Gateway_Facts
  imports License_Rights Access_Control Auth_Sample
begin

text \<open>
  The gateway's other properties: the double-submit check on cookie sessions,
  the routes that the licence does not see, and the licensed number of users.
\<close>

section \<open>CSRF\<close>

lemma browser_auth_cookies:
  assumes "access \<noteq> []" "refresh \<noteq> []" "0 < access_minutes" "0 < refresh_days"
  shows "browser_store (set_auth_cookies access_minutes refresh_days access refresh csrf) jar =
    jar(ACCESS_COOKIE_NAME \<mapsto> access, REFRESH_COOKIE_NAME \<mapsto> refresh, CSRF_COOKIE_NAME \<mapsto> csrf)"
  using assms by (simp add: browser_store_def set_auth_cookies_def)

lemma cookie_names: "ACCESS_COOKIE_NAME \<noteq> REFRESH_COOKIE_NAME" "ACCESS_COOKIE_NAME \<noteq> CSRF_COOKIE_NAME"
  "REFRESH_COOKIE_NAME \<noteq> CSRF_COOKIE_NAME"
  by (simp_all add: ACCESS_COOKIE_NAME_def REFRESH_COOKIE_NAME_def CSRF_COOKIE_NAME_def)

text \<open>
C32: From a browser that holds the cookies of a sign-in, a request with a method that changes
state, outside the sign-in paths, passes the CSRF check exactly when its header repeats the
token of the CSRF cookie; after the sign-out cookies the check lets every request pass.
\<close>

theorem csrf_exact:
  assumes "access \<noteq> []" "refresh \<noteq> []" "0 < access_minutes" "0 < refresh_days" "csrf \<noteq> []"
    "list_all (\<lambda>c. char_code c < 128) csrf"
    "hr_cookies rq = browser_store (set_auth_cookies access_minutes refresh_days access refresh csrf) jar"
    "py_upper_ascii (hr_method rq) \<notin> set SAFE_METHODS" "hr_path rq \<notin> set CSRF_EXEMPT_PATHS"
  shows "(validate_csrf_request rq = Inr None \<longleftrightarrow> hr_csrf_header rq = Some csrf) \<and>
    validate_csrf_request (rq\<lparr>hr_cookies := browser_store clear_auth_cookies jar\<rparr>) = Inr None"
proof
  have jar: "hr_cookies rq ACCESS_COOKIE_NAME = Some access" "hr_cookies rq CSRF_COOKIE_NAME = Some csrf"
    using assms(7) browser_auth_cookies [OF assms(1-4)] cookie_names by simp_all
  have v: "validate_csrf_request rq = (case hr_csrf_header rq of None \<Rightarrow> Inr (Some (403, ''CSRF_FAILED''))
     | Some h \<Rightarrow> if h = [] then Inr (Some (403, ''CSRF_FAILED''))
         else rbind (compare_digest csrf h) (\<lambda>same. Inr (if same then None else Some (403, ''CSRF_FAILED''))))"
    using assms(5,8,9) jar by (simp add: validate_csrf_request_def truthy_def assms(1) split: option.splits)
  have same: "rbind (compare_digest csrf h) (\<lambda>same. Inr (if same then None else Some (403, ''CSRF_FAILED''))) = Inr None \<longleftrightarrow> h = csrf"
    for h :: string
    using assms(6) by (auto simp: compare_digest_def list_ex_iff list_all_iff not_le[symmetric])
  show "validate_csrf_request rq = Inr None \<longleftrightarrow> hr_csrf_header rq = Some csrf"
    unfolding v using same assms(5) by (auto split: option.splits)
  have "browser_store clear_auth_cookies jar ACCESS_COOKIE_NAME = None" "browser_store clear_auth_cookies jar REFRESH_COOKIE_NAME = None"
    using cookie_names by (simp_all add: browser_store_def clear_auth_cookies_def)
  then show "validate_csrf_request (rq\<lparr>hr_cookies := browser_store clear_auth_cookies jar\<rparr>) = Inr None"
    by (simp add: validate_csrf_request_def truthy_def)
qed

definition post_request :: "string option \<Rightarrow> http_request" where
  "post_request header = \<lparr>hr_method = ''POST'', hr_path = ''/api/v1/query/'',
     hr_cookies = browser_store (set_auth_cookies 30 7 ''a1'' ''r1'' ''c1'') (\<lambda>_. None), hr_csrf_header = header\<rparr>"

lemma csrf_exact_witness:
  "validate_csrf_request (post_request (Some ''c1'')) = Inr None \<and> validate_csrf_request (post_request None) \<noteq> Inr None"
proof -
  have "validate_csrf_request (post_request h) = Inr None \<longleftrightarrow> hr_csrf_header (post_request h) = Some ''c1''" for h
    using csrf_exact [of "''a1''" "''r1''" 30 7 "''c1''" "post_request h" "\<lambda>_. None"]
    by (simp add: post_request_def char_code_def py_upper_ascii_def SAFE_METHODS_def CSRF_EXEMPT_PATHS_def)
  then show ?thesis by (simp add: post_request_def)
qed

section \<open>Routes the licence does not see\<close>

text \<open>
The routers of online queries, slow logs, diagnosis and SQL advice are mounted a second time
or only under prefixes the licence table does not list: such a path is let through in every state
of the licence, an invalid one included, and the same router under \<^verbatim>\<open>/api/v1/query\<close> is refused
when the licence is invalid.
\<close>

theorem alias_routes_ignore_license:
  "list_all (\<lambda>p. \<exists>c. check_access env now (p @ ''/'' @ rest) m s = (Inr c, s) \<and> lc_allowed c)
     [''/api/v1/sql-exec'', ''/api/v1/slowlog'', ''/api/v1/sql-analysis'', ''/api/v1/diagnostic'', ''/api/v1/optimize'',
      ''/api/v1/approval-flows''] \<and>
   (lv_status (fst (get_license_status env now s)) = LInvalid \<and> py_upper_ascii m \<noteq> ''OPTIONS'' \<longrightarrow>
     (\<exists>c s'. check_access env now (''/api/v1/query/'' @ rest) m s = (Inr c, s') \<and> \<not> lc_allowed c))"
proof -
  have open_path: "list_all (\<lambda>p. feature_for_path (p @ ''/'' @ rest) = [] \<and>
      \<not> list_ex (starts_with (p @ ''/'' @ rest)) LICENSE_PROTECTED_SYSTEM_PREFIXES)
     [''/api/v1/sql-exec'', ''/api/v1/slowlog'', ''/api/v1/sql-analysis'', ''/api/v1/diagnostic'', ''/api/v1/optimize'',
      ''/api/v1/approval-flows'']"
    by (simp add: feature_for_path_def LICENSE_PROTECTED_FEATURE_BY_PREFIX_def LICENSE_PROTECTED_SYSTEM_PREFIXES_def starts_with_def)
  have free: "\<exists>c. check_access env now path m s = (Inr c, s) \<and> lc_allowed c"
    if "feature_for_path path = [] \<and> \<not> list_ex (starts_with path) LICENSE_PROTECTED_SYSTEM_PREFIXES" for path
    using that by (simp add: check_access_def Let_def)
  have q: "feature_for_path (''/api/v1/query/'' @ rest) = ''query''"
    by (simp add: feature_for_path_def LICENSE_PROTECTED_FEATURE_BY_PREFIX_def starts_with_def)
  then have ne: "\<not> exempt_path (''/api/v1/query/'' @ rest)" by (intro protected_not_exempt) simp
  show ?thesis
  proof
    show "list_all (\<lambda>p. \<exists>c. check_access env now (p @ ''/'' @ rest) m s = (Inr c, s) \<and> lc_allowed c)
     [''/api/v1/sql-exec'', ''/api/v1/slowlog'', ''/api/v1/sql-analysis'', ''/api/v1/diagnostic'', ''/api/v1/optimize'',
      ''/api/v1/approval-flows'']"
      by (rule list.pred_mono_strong [OF open_path]) (rule free)
  next
    show "lv_status (fst (get_license_status env now s)) = LInvalid \<and> py_upper_ascii m \<noteq> ''OPTIONS'' \<longrightarrow>
      (\<exists>c s'. check_access env now (''/api/v1/query/'' @ rest) m s = (Inr c, s') \<and> \<not> lc_allowed c)"
      using q ne by (auto simp: check_access_def Let_def split_beta)
  qed
qed

definition early_store :: license_store where
  "early_store = snd (rolled_back lic_store (import_license lic_env 0 (lic_document ''b'' ''c'') lic_store))"

lemma alias_routes_ignore_license_witness:
  "(\<exists>c. check_access lic_env 1 ''/api/v1/sql-exec/run'' ''POST'' early_store = (Inr c, early_store) \<and> lc_allowed c) \<and>
   (\<exists>c s'. check_access lic_env 1 ''/api/v1/query/run'' ''POST'' early_store = (Inr c, s') \<and> \<not> lc_allowed c)"
proof -
  have "lv_status (fst (get_license_status lic_env 1 early_store)) = LInvalid" by code_simp
  moreover have "py_upper_ascii ''POST'' \<noteq> ''OPTIONS''" by code_simp
  ultimately show ?thesis
    using alias_routes_ignore_license [of lic_env 1 "''run''" "''POST''" early_store] by simp
qed

section \<open>The licensed number of users\<close>

definition active_users :: "directory \<Rightarrow> nat" where
  "active_users d = length (filter ac_is_active (di_users d))"

lemma create_user_adds:
  assumes "create_user env licence u salt now d = Inr (a, d')"
  shows "licence = Inr () \<and> active_users d' = active_users d + 1"
proof -
  have a: "ac_is_active (new_account env u salt now d)" by (simp add: new_account_def)
  show ?thesis
    using assms a unfolding create_user_def Let_def strong_request_def
    by (auto simp: active_users_def add_user_def rbind_Inr_iff raise_if_Inr_iff split: sum.splits if_splits)
qed

lemma enforce_limit_allows:
  assumes "fst (enforce_limit env now name n s) = Inr ()" "get_license_status env now s = (info, s1)"
    "\<not> no_limit (obj_get (lv_limits info) name)" "le_int env (obj_get (lv_limits info) name) = Some k"
  shows "lv_status info \<noteq> LInvalid \<and> int n < k"
  using assms by (simp add: enforce_limit_def Let_def raise_if_Inr_iff)

text \<open>
Whatever the form, a user is created only under a status other than invalid, and when the
licence limits the users to a number that parses, the active users number at most that limit
after the creation.
\<close>

theorem created_users_within_license:
  assumes "create_user env (fst (enforce_max_users lenv now d s)) u salt now d = Inr (a, d')"
    "get_license_status lenv now s = (info, s1)" "\<not> no_limit (obj_get (lv_limits info) ''max_users'')"
    "le_int lenv (obj_get (lv_limits info) ''max_users'') = Some k"
  shows "lv_status info \<noteq> LInvalid \<and> int (active_users d') \<le> k"
proof -
  have "fst (enforce_max_users lenv now d s) = Inr ()" "active_users d' = active_users d + 1"
    using create_user_adds [OF assms(1)] by simp_all
  moreover from this have "lv_status info \<noteq> LInvalid \<and> int (active_users d) < k"
    using enforce_limit_allows [OF _ assms(2-4)] by (simp add: enforce_max_users_def active_users_def)
  ultimately show ?thesis by simp
qed

definition dave_form :: user_create where
  "dave_form = \<lparr> uc_username = ''dave'', uc_password = ''Dave@2024!'', uc_display_name = [], uc_email = [],
     uc_phone = [], uc_dingtalk_user_id = [], uc_feishu_open_id = [], uc_wecom_userid = [], uc_is_superuser = False,
     uc_role_id = None, uc_manager_id = None, uc_employee_id = [], uc_department = [], uc_title = [], uc_user_group_ids = [] \<rparr>"

lemma created_users_within_license_witness:
  "\<exists>a d'. create_user sample_env (fst (enforce_max_users lic_env 1 sample_dir licensed_store)) dave_form ''s'' 1 sample_dir
      = Inr (a, d') \<and> int (active_users d') \<le> 4 \<and>
    fst (enforce_max_users lic_env 1 d' licensed_store) = Inl (http 403 ''limit'')"
proof -
  have "case create_user sample_env (fst (enforce_max_users lic_env 1 sample_dir licensed_store)) dave_form ''s'' 1 sample_dir of
      Inl e \<Rightarrow> False
    | Inr x \<Rightarrow> fst (enforce_max_users lic_env 1 (snd x) licensed_store) = Inl (http 403 ''limit'')" by code_simp
  then obtain a d' where r: "create_user sample_env (fst (enforce_max_users lic_env 1 sample_dir licensed_store)) dave_form ''s'' 1
      sample_dir = Inr (a, d')" "fst (enforce_max_users lic_env 1 d' licensed_store) = Inl (http 403 ''limit'')"
    by (auto split: sum.splits)
  have l: "\<not> no_limit (obj_get (lv_limits (fst (get_license_status lic_env 1 licensed_store))) ''max_users'') \<and>
    le_int lic_env (obj_get (lv_limits (fst (get_license_status lic_env 1 licensed_store))) ''max_users'') = Some 4" by code_simp
  have "int (active_users d') \<le> 4"
    using created_users_within_license [OF r(1), of "fst (get_license_status lic_env 1 licensed_store)"
      "snd (get_license_status lic_env 1 licensed_store)" 4] l by simp
  then show ?thesis using r by blast
qed

end
