(* ===== verification/Monitor_Alerts.thy ===== *)
theory Monitor_Alerts
  imports Complex_Main Models Json_Values
begin

text \<open>
  \<^verbatim>\<open>app/services/monitor_alerts.py\<close>: a snapshot of an instance is compared with the alert
  rules, which opens, refreshes and resolves alert events; users acknowledge, silence, resolve
  and close them. Floats are rationals, \<open>float()\<close> and \<open>str()\<close> of JSON values are arguments. The
  texts of events and the column \<open>updated_at\<close>, which the database keeps, are left out; the
  list takes it as an argument.
\<close>

section \<open>Rules and metrics\<close>

record alert_env =
  ae_float :: "json \<Rightarrow> rat option"
  ae_str :: "json \<Rightarrow> string"

record metric_snapshot =
  ms_id :: int
  ms_collected_at :: time
  ms_connection_usage :: "rat option"
  ms_replication_lag :: "rat option"
  ms_lock_waits :: "rat option"
  ms_extra :: json_obj

text \<open>The override of a rule replaces its default as a whole.\<close>

definition alert_rule_defaults :: json_obj where
  "alert_rule_defaults =
     [(''connection_usage'', JObj [(''operator'', JStr ''>=''), (''threshold'', JNum ''0.8''), (''duration_count'', JNum ''1'')]),
      (''replication_lag_seconds'', JObj [(''operator'', JStr ''>=''), (''threshold'', JNum ''60''), (''duration_count'', JNum ''1'')]),
      (''tablespace_used_pct'', JObj [(''operator'', JStr ''>=''), (''threshold'', JNum ''85''), (''duration_count'', JNum ''1'')]),
      (''fra_used_pct'', JObj [(''operator'', JStr ''>=''), (''threshold'', JNum ''85''), (''duration_count'', JNum ''1'')]),
      (''lock_waits'', JObj [(''operator'', JStr ''>''), (''threshold'', JNum ''0''), (''duration_count'', JNum ''1'')])]"

definition merged_rules :: "json_obj \<Rightarrow> json_obj" where
  "merged_rules override =
     map (\<lambda>(k, v). (k, case map_of override k of None \<Rightarrow> v | Some w \<Rightarrow> w)) alert_rule_defaults @
     filter (\<lambda>(k, v). k \<notin> fst ` set alert_rule_defaults) override"

definition coerce_float :: "alert_env \<Rightarrow> json \<Rightarrow> rat option" where
  "coerce_float env v = (if v = JNull \<or> v = JStr [] then None else ae_float env v)"

definition attribute_error :: exc where
  "attribute_error = RawException (EngineRaised ''AttributeError'')"

text \<open>\<open>for item in value or []\<close>: the elements, with the keys of an object and the characters of a text.\<close>

definition py_items :: "json \<Rightarrow> json list res" where
  "py_items v =
     (if \<not> json_truthy v then Inr []
      else case v of
        JArr xs \<Rightarrow> Inr xs
      | JObj kvs \<Rightarrow> Inr (map (JStr \<circ> fst) kvs)
      | JStr t \<Rightarrow> Inr (map (\<lambda>c. JStr [c]) t)
      | _ \<Rightarrow> Inl (RawException PyTypeError))"

fun object_fields :: "json list \<Rightarrow> json_obj list" where
  "object_fields [] = []"
| "object_fields (JObj kvs # xs) = kvs # object_fields xs"
| "object_fields (_ # xs) = object_fields xs"

definition max_opt :: "rat list \<Rightarrow> rat option" where
  "max_opt xs = (case xs of [] \<Rightarrow> None | x # ys \<Rightarrow> Some (foldl max x ys))"

definition metric_for_alert :: "alert_env \<Rightarrow> metric_snapshot \<Rightarrow> string \<Rightarrow> rat option res" where
  "metric_for_alert env m key =
     (if key = ''connection_usage'' then Inr (ms_connection_usage m)
      else if key = ''replication_lag_seconds'' then Inr (ms_replication_lag m)
      else if key = ''lock_waits'' then Inr (Some (case ms_lock_waits m of None \<Rightarrow> 0 | Some x \<Rightarrow> x))
      else if key = ''tablespace_used_pct'' then
        rbind (py_items (obj_get (ms_extra m) ''tablespaces'')) (\<lambda>items.
          Inr (max_opt (List.map_filter (\<lambda>kvs. coerce_float env (obj_get kvs ''used_pct'')) (object_fields items))))
      else if key = ''fra_used_pct'' then
        (let fra = obj_get (ms_extra m) ''fra'' in
         if \<not> json_truthy fra then Inr (coerce_float env JNull)
         else case fra of JObj kvs \<Rightarrow> Inr (coerce_float env (obj_get kvs ''used_pct'')) | _ \<Rightarrow> Inl attribute_error)
      else Inr None)"

definition compare_alert_value :: "rat \<Rightarrow> string \<Rightarrow> rat \<Rightarrow> bool" where
  "compare_alert_value v operator threshold =
     (if operator = ''>'' then threshold < v
      else if operator = ''<'' then v < threshold
      else if operator = ''<='' then v \<le> threshold
      else if operator = ''=='' then v = threshold
      else threshold \<le> v)"

text \<open>What a rule says of a snapshot: skipped, or the value and the threshold when it triggers.\<close>

definition rule_threshold :: "alert_env \<Rightarrow> json_obj \<Rightarrow> rat res" where
  "rule_threshold env rule =
     (case map_of rule ''threshold'' of
        None \<Rightarrow> Inr 0
      | Some v \<Rightarrow> (case ae_float env v of None \<Rightarrow> Inl (RawException PyValueError) | Some x \<Rightarrow> Inr x))"

definition rule_operator :: "alert_env \<Rightarrow> json_obj \<Rightarrow> string" where
  "rule_operator env rule =
     (let v = obj_get rule ''operator'' in
      if \<not> json_truthy v then ''>='' else case v of JStr t \<Rightarrow> t | _ \<Rightarrow> ae_str env v)"

definition rule_triggers :: "alert_env \<Rightarrow> metric_snapshot \<Rightarrow> string \<Rightarrow> json \<Rightarrow> (rat \<times> rat) option res" where
  "rule_triggers env m key rule =
     (case rule of
        JObj kvs \<Rightarrow>
          if obj_get kvs ''enabled'' = JBool False then Inr None
          else rbind (metric_for_alert env m key) (\<lambda>value.
            case value of
              None \<Rightarrow> Inr None
            | Some v \<Rightarrow> rbind (rule_threshold env kvs) (\<lambda>threshold.
                Inr (if compare_alert_value v (rule_operator env kvs) threshold then Some (v, threshold) else None)))
      | _ \<Rightarrow> Inr None)"

section \<open>Events\<close>

datatype alert_status = Firing | Acknowledged | Silenced | Resolved | Closed

record alert_event =
  ev_id :: int
  ev_instance_id :: int
  ev_rule_key :: string
  ev_critical :: bool
  ev_status :: alert_status
  ev_metric_value :: rat
  ev_threshold :: rat
  ev_snapshot_id :: int
  ev_first_seen_at :: time
  ev_last_seen_at :: time
  ev_resolved_at :: "time option"
  ev_acknowledged_at :: "time option"
  ev_acknowledged_by :: string
  ev_silenced_until :: "time option"
  ev_closed_at :: "time option"
  ev_closed_by :: string
  ev_close_reason :: string

datatype alert_note = AlertFiring int bool | AlertResolved int bool

record alert_store =
  am_events :: "alert_event list"
  am_instances :: "db_instance list"
  am_next_id :: int
  am_notes :: "alert_note list"

definition active_status :: "alert_status \<Rightarrow> bool" where
  "active_status st \<longleftrightarrow> st \<in> {Firing, Acknowledged, Silenced}"

definition put_event :: "alert_event \<Rightarrow> alert_store \<Rightarrow> alert_store" where
  "put_event e s = s\<lparr>am_events := row_put ev_id e (am_events s)\<rparr>"

definition notify :: "alert_note \<Rightarrow> alert_store \<Rightarrow> alert_store" where
  "notify n s = s\<lparr>am_notes := am_notes s @ [n]\<rparr>"

text \<open>The newest active event of a rule.\<close>

definition active_event :: "int \<Rightarrow> string \<Rightarrow> alert_store \<Rightarrow> alert_event option" where
  "active_event iid key s =
     (case sort_key (\<lambda>e. - ev_id e)
        (filter (\<lambda>e. ev_instance_id e = iid \<and> ev_rule_key e = key \<and> active_status (ev_status e)) (am_events s)) of
        [] \<Rightarrow> None | e # _ \<Rightarrow> Some e)"

definition severity_critical :: "string \<Rightarrow> rat \<Rightarrow> bool" where
  "severity_critical key v \<longleftrightarrow> key \<in> {''tablespace_used_pct'', ''fra_used_pct''} \<and> 90 \<le> v"

definition new_event :: "int \<Rightarrow> string \<Rightarrow> rat \<Rightarrow> rat \<Rightarrow> metric_snapshot \<Rightarrow> int \<Rightarrow> alert_event" where
  "new_event iid key v threshold m i =
     \<lparr>ev_id = i, ev_instance_id = iid, ev_rule_key = key, ev_critical = severity_critical key v, ev_status = Firing,
      ev_metric_value = v, ev_threshold = threshold, ev_snapshot_id = ms_id m, ev_first_seen_at = ms_collected_at m,
      ev_last_seen_at = ms_collected_at m, ev_resolved_at = None, ev_acknowledged_at = None, ev_acknowledged_by = [],
      ev_silenced_until = None, ev_closed_at = None, ev_closed_by = [], ev_close_reason = []\<rparr>"

definition refreshed_event :: "rat \<Rightarrow> rat \<Rightarrow> metric_snapshot \<Rightarrow> alert_event \<Rightarrow> alert_event" where
  "refreshed_event v threshold m e =
     e\<lparr>ev_last_seen_at := ms_collected_at m, ev_metric_value := v, ev_threshold := threshold, ev_snapshot_id := ms_id m,
       ev_status := (if ev_status e = Silenced \<and> (case ev_silenced_until e of None \<Rightarrow> False | Some t \<Rightarrow> t < ms_collected_at m)
                     then Firing else ev_status e)\<rparr>"

definition trigger_rule :: "int \<Rightarrow> string \<Rightarrow> rat \<Rightarrow> rat \<Rightarrow> metric_snapshot \<Rightarrow> alert_store \<Rightarrow> alert_store" where
  "trigger_rule iid key v threshold m s =
     (case active_event iid key s of
        Some e \<Rightarrow> put_event (refreshed_event v threshold m e) s
      | None \<Rightarrow>
          let e = new_event iid key v threshold m (am_next_id s) in
          notify (AlertFiring (ev_id e) (ev_critical e))
            (s\<lparr>am_events := am_events s @ [e], am_next_id := am_next_id s + 1\<rparr>))"

fun evaluate_rules :: "alert_env \<Rightarrow> int \<Rightarrow> metric_snapshot \<Rightarrow> json_obj \<Rightarrow> alert_store \<Rightarrow> (string list \<times> alert_store) res" where
  "evaluate_rules env iid m [] s = Inr ([], s)"
| "evaluate_rules env iid m ((key, rule) # rules) s =
     rbind (rule_triggers env m key rule) (\<lambda>hit.
     let s1 = (case hit of None \<Rightarrow> s | Some (v, threshold) \<Rightarrow> trigger_rule iid key v threshold m s) in
     rbind (evaluate_rules env iid m rules s1) (\<lambda>(keys, s2).
     Inr (if hit = None then keys else key # keys, s2)))"

definition recover_notify :: "json_obj \<Rightarrow> string \<Rightarrow> bool" where
  "recover_notify rules key =
     (case map_of rules key of
        Some (JObj kvs) \<Rightarrow> obj_get kvs ''recover_notify'' \<noteq> JBool False
      | _ \<Rightarrow> True)"

definition resolve_stale :: "json_obj \<Rightarrow> int \<Rightarrow> string list \<Rightarrow> time \<Rightarrow> alert_store \<Rightarrow> alert_store" where
  "resolve_stale rules iid triggered now s =
     (let stale = (\<lambda>e. ev_instance_id e = iid \<and> active_status (ev_status e) \<and> ev_rule_key e \<notin> set triggered) in
      s\<lparr>am_events := map (\<lambda>e. if stale e then e\<lparr>ev_status := Resolved, ev_resolved_at := Some now\<rparr> else e) (am_events s),
        am_notes := am_notes s @ map (\<lambda>e. AlertResolved (ev_id e) (ev_critical e))
          (filter (\<lambda>e. stale e \<and> recover_notify rules (ev_rule_key e)) (am_events s))\<rparr>)"

definition sync_alert_events :: "alert_env \<Rightarrow> int \<Rightarrow> json_obj \<Rightarrow> metric_snapshot \<Rightarrow> alert_store \<Rightarrow> alert_store res" where
  "sync_alert_events env iid override m s =
     (let rules = merged_rules override in
      rbind (evaluate_rules env iid m rules s) (\<lambda>(triggered, s1).
      Inr (resolve_stale rules iid triggered (ms_collected_at m) s1)))"

section \<open>Handling\<close>

definition can_access_observed :: "operator \<Rightarrow> db_instance \<Rightarrow> bool" where
  "can_access_observed u inst \<longleftrightarrow>
     op_is_superuser u \<or> has_perm u ''observability_instance_all'' \<or>
     set (op_resource_groups u) \<inter> set (map rg_id (in_resource_groups inst)) \<noteq> {}"

definition event_row :: "alert_store \<Rightarrow> int \<Rightarrow> (alert_event \<times> db_instance) option" where
  "event_row s eid =
     (case row_get ev_id eid (am_events s) of
        None \<Rightarrow> None
      | Some e \<Rightarrow> (case row_get in_id (ev_instance_id e) (am_instances s) of None \<Rightarrow> None | Some i \<Rightarrow> Some (e, i)))"

definition get_alert_event :: "alert_store \<Rightarrow> int \<Rightarrow> operator \<Rightarrow> (alert_event \<times> db_instance) res" where
  "get_alert_event s eid u =
     (case event_row s eid of
        None \<Rightarrow> Inl (not_found_exc (TextMsg ''alert event''))
      | Some (e, i) \<Rightarrow> raise_if (\<not> can_access_observed u i) (app_exc (TextMsg ''view'') 403) (Inr (e, i)))"

datatype alert_action = Ack | Silence int | Resolve | Close string | OtherAction

definition handled_event :: "operator \<Rightarrow> alert_action \<Rightarrow> time \<Rightarrow> alert_event \<Rightarrow> alert_event option" where
  "handled_event u action now e =
     (let by = or_str (op_display_name u) (op_username u);
          first_ack = (case ev_acknowledged_at e of None \<Rightarrow> Some now | Some t \<Rightarrow> Some t) in
      case action of
        Ack \<Rightarrow> Some (e\<lparr>ev_status := Acknowledged, ev_acknowledged_at := Some now, ev_acknowledged_by := by\<rparr>)
      | Silence minutes \<Rightarrow>
          Some (e\<lparr>ev_status := Silenced, ev_silenced_until := Some (now + max 1 minutes * 60 * 1000000),
            ev_acknowledged_by := by, ev_acknowledged_at := first_ack\<rparr>)
      | Resolve \<Rightarrow>
          Some (e\<lparr>ev_status := Resolved, ev_resolved_at := Some now,
            ev_acknowledged_by := or_str (ev_acknowledged_by e) by, ev_acknowledged_at := first_ack\<rparr>)
      | Close reason \<Rightarrow>
          Some (e\<lparr>ev_status := Closed, ev_closed_at := Some now, ev_closed_by := by, ev_close_reason := take 500 reason\<rparr>)
      | OtherAction \<Rightarrow> None)"

definition change_alert_event ::
    "operator \<Rightarrow> int \<Rightarrow> alert_action \<Rightarrow> time \<Rightarrow> alert_store \<Rightarrow> (alert_event \<times> alert_store) res" where
  "change_alert_event u eid action now s =
     (case event_row s eid of
        None \<Rightarrow> Inl (not_found_exc (TextMsg ''alert event''))
      | Some (e, i) \<Rightarrow>
          raise_if (\<not> can_access_observed u i) (app_exc (TextMsg ''handle'') 403)
          (case handled_event u action now e of
             None \<Rightarrow> Inl (app_exc (TextMsg ''action'') 400)
           | Some e1 \<Rightarrow>
               Inr (e1, (if action = Resolve then notify (AlertResolved (ev_id e) (ev_critical e)) else id) (put_event e1 s))))"

definition list_alert_events ::
    "(int \<Rightarrow> time) \<Rightarrow> operator \<Rightarrow> alert_status option \<Rightarrow> int \<Rightarrow> nat \<Rightarrow> nat \<Rightarrow> alert_store \<Rightarrow> nat \<times> alert_event list" where
  "list_alert_events updated u status instance_id page page_size s =
     (let visible = (\<lambda>e. case row_get in_id (ev_instance_id e) (am_instances s) of None \<Rightarrow> False
                       | Some i \<Rightarrow> can_access_observed u i);
          rows = filter (\<lambda>e. (instance_id \<noteq> 0 \<longrightarrow> ev_instance_id e = instance_id) \<and>
            (status \<noteq> None \<longrightarrow> status = Some (ev_status e)) \<and> visible e) (am_events s)
      in (length rows, page_of page page_size (sort_key (\<lambda>e. - updated (ev_id e)) rows)))"

end
