(* ===== verification/Monitor_Alert_Facts.thy ===== *)
theory Monitor_Alert_Facts
  imports Monitor_Alerts
begin

text \<open>
  After a snapshot the active events of an instance are those of the rules that
  trigger, one for each rule; handling changes the one event it names.
\<close>

section \<open>Tables\<close>

definition alerts_wf :: "alert_store \<Rightarrow> bool" where
  "alerts_wf s \<longleftrightarrow> distinct (map ev_id (am_events s)) \<and> (\<forall>e\<in>set (am_events s). ev_id e < am_next_id s)"

definition is_active_of :: "int \<Rightarrow> alert_event \<Rightarrow> bool" where
  "is_active_of iid e \<longleftrightarrow> ev_instance_id e = iid \<and> active_status (ev_status e)"

definition active_keys :: "int \<Rightarrow> alert_store \<Rightarrow> string set" where
  "active_keys iid s = ev_rule_key ` {e \<in> set (am_events s). is_active_of iid e}"

definition single_active :: "alert_store \<Rightarrow> bool" where
  "single_active s \<longleftrightarrow> (\<forall>e\<in>set (am_events s). \<forall>e'\<in>set (am_events s).
     active_status (ev_status e) \<and> active_status (ev_status e') \<and> ev_instance_id e = ev_instance_id e' \<and>
     ev_rule_key e = ev_rule_key e' \<longrightarrow> e = e')"

definition of_others :: "int \<Rightarrow> alert_store \<Rightarrow> alert_event list" where
  "of_others iid s = filter (\<lambda>e. ev_instance_id e \<noteq> iid) (am_events s)"

lemma first_Some: "(case xs of [] \<Rightarrow> None | x # _ \<Rightarrow> Some x) = Some y \<Longrightarrow> y \<in> set xs"
  by (cases xs) simp_all

lemma first_None: "(case xs of [] \<Rightarrow> None | x # _ \<Rightarrow> Some x) = None \<longleftrightarrow> set xs = {}"
  by (cases xs) simp_all

lemma active_event_Some:
  "active_event iid key s = Some e \<Longrightarrow> e \<in> set (am_events s) \<and> is_active_of iid e \<and> ev_rule_key e = key"
  unfolding active_event_def by (drule first_Some) (simp add: is_active_of_def)

lemma active_event_None: "active_event iid key s = None \<longleftrightarrow> key \<notin> active_keys iid s"
  unfolding active_event_def first_None by (auto simp: active_keys_def is_active_of_def)

lemma put_event_set:
  assumes "alerts_wf s" "e \<in> set (am_events s)" "ev_id e' = ev_id e"
  shows "set (am_events (put_event e' s)) = insert e' (set (am_events s) - {e})"
proof -
  have u: "x = e" if "x \<in> set (am_events s)" "ev_id x = ev_id e" for x
    using assms(1,2) that by (auto simp: alerts_wf_def distinct_map dest: inj_onD)
  show ?thesis using assms(2,3) u by (force simp: put_event_def row_put_def)
qed

lemma alerts_wf_put:
  "alerts_wf s \<Longrightarrow> e \<in> set (am_events s) \<Longrightarrow> ev_id e' = ev_id e \<Longrightarrow> alerts_wf (put_event e' s)"
proof -
  assume a: "alerts_wf s" "e \<in> set (am_events s)" "ev_id e' = ev_id e"
  have "map ev_id (am_events (put_event e' s)) = map ev_id (am_events s)" by (simp add: put_event_def row_put_def)
  then show ?thesis using a put_event_set [OF a] by (auto simp: alerts_wf_def put_event_def)
qed

lemma refreshed_simps [simp]:
  "ev_id (refreshed_event v t m e) = ev_id e" "ev_instance_id (refreshed_event v t m e) = ev_instance_id e"
  "ev_rule_key (refreshed_event v t m e) = ev_rule_key e"
  "active_status (ev_status (refreshed_event v t m e)) = active_status (ev_status e)"
  by (auto simp: refreshed_event_def active_status_def)

lemma new_event_simps [simp]:
  "ev_id (new_event iid key v t m i) = i" "ev_instance_id (new_event iid key v t m i) = iid"
  "ev_rule_key (new_event iid key v t m i) = key" "ev_status (new_event iid key v t m i) = Firing"
  by (simp_all add: new_event_def)

lemma row_put_others:
  "\<forall>x\<in>set xs. ev_id x = ev_id e \<longrightarrow> ev_instance_id x = iid \<Longrightarrow> ev_instance_id e = iid \<Longrightarrow>
     filter (\<lambda>x. ev_instance_id x \<noteq> iid) (row_put ev_id e xs) = filter (\<lambda>x. ev_instance_id x \<noteq> iid) xs"
  by (induction xs) (auto simp: row_put_def)

section \<open>One rule\<close>

lemma trigger_rule_keeps:
  assumes "alerts_wf s"
  shows "alerts_wf (trigger_rule iid key v t m s)"
    "active_keys iid (trigger_rule iid key v t m s) = insert key (active_keys iid s)"
    "of_others iid (trigger_rule iid key v t m s) = of_others iid s"
    "single_active s \<Longrightarrow> single_active (trigger_rule iid key v t m s)"
proof -
  let ?s = "trigger_rule iid key v t m s"
  have "alerts_wf ?s \<and> active_keys iid ?s = insert key (active_keys iid s) \<and> of_others iid ?s = of_others iid s \<and>
    (single_active s \<longrightarrow> single_active ?s)"
  proof (cases "active_event iid key s")
    case None
    let ?e = "new_event iid key v t m (am_next_id s)"
    have ev: "am_events ?s = am_events s @ [?e]" and n: "am_next_id ?s = am_next_id s + 1"
      using None by (simp_all add: trigger_rule_def notify_def Let_def)
    have new: "key \<notin> active_keys iid s" using None by (simp add: active_event_None)
    have "alerts_wf ?s" using assms by (force simp: alerts_wf_def ev n)
    moreover have "active_keys iid ?s = insert key (active_keys iid s)"
    proof -
      have "is_active_of iid ?e" by (simp add: is_active_of_def active_status_def)
      then have "{e \<in> set (am_events ?s). is_active_of iid e} = insert ?e {e \<in> set (am_events s). is_active_of iid e}"
        unfolding ev by auto
      then show ?thesis by (simp add: active_keys_def)
    qed
    moreover have "of_others iid ?s = of_others iid s" by (simp add: of_others_def ev)
    moreover have "single_active ?s" if "single_active s"
      using that new by (auto simp: single_active_def ev active_keys_def is_active_of_def)
    ultimately show ?thesis by blast
  next
    case (Some e)
    let ?e = "refreshed_event v t m e"
    note e = active_event_Some [OF Some]
    have s: "?s = put_event ?e s" using Some by (simp add: trigger_rule_def)
    have st: "set (am_events ?s) = insert ?e (set (am_events s) - {e})"
      unfolding s using put_event_set [OF assms] e by simp
    have "alerts_wf ?s" unfolding s by (rule alerts_wf_put [OF assms]) (use e in simp_all)
    moreover have "active_keys iid ?s = insert key (active_keys iid s)"
    proof -
      have "{x \<in> set (am_events ?s). is_active_of iid x} = insert ?e ({x \<in> set (am_events s). is_active_of iid x} - {e})"
        unfolding st using e by (auto simp: is_active_of_def)
      then have "active_keys iid ?s = insert key (ev_rule_key ` ({x \<in> set (am_events s). is_active_of iid x} - {e}))"
        using e by (simp add: active_keys_def)
      also have "\<dots> = insert key (active_keys iid s)" using e by (auto simp: active_keys_def)
      finally show ?thesis .
    qed
    moreover have "of_others iid ?s = of_others iid s"
    proof -
      have "ev_instance_id x = iid" if "x \<in> set (am_events s)" "ev_id x = ev_id e" for x
        using assms e that by (auto simp: alerts_wf_def distinct_map is_active_of_def dest: inj_onD)
      then show ?thesis using e unfolding s of_others_def put_event_def
        by (simp add: row_put_others is_active_of_def)
    qed
    moreover have "single_active ?s" if "single_active s"
      using that e unfolding single_active_def st by (auto simp: is_active_of_def)
    ultimately show ?thesis by blast
  qed
  then show "alerts_wf ?s" "active_keys iid ?s = insert key (active_keys iid s)" "of_others iid ?s = of_others iid s"
    "single_active s \<Longrightarrow> single_active ?s" by simp_all
qed

section \<open>All rules\<close>

text \<open>The rules that trigger on a snapshot.\<close>

definition triggered_keys :: "alert_env \<Rightarrow> metric_snapshot \<Rightarrow> json_obj \<Rightarrow> string set" where
  "triggered_keys env m rules = fst ` {(key, rule) \<in> set rules. \<exists>hit. rule_triggers env m key rule = Inr (Some hit)}"

lemma triggered_keys_Cons:
  "rule_triggers env m key rule = Inr hit \<Longrightarrow>
     triggered_keys env m ((key, rule) # rules) =
       (if hit = None then triggered_keys env m rules else insert key (triggered_keys env m rules))"
  by (cases hit) (force simp: triggered_keys_def)+

lemma evaluate_rules_keeps:
  assumes "evaluate_rules env iid m rules s = Inr (keys, s')" "alerts_wf s"
  shows "set keys = triggered_keys env m rules \<and> alerts_wf s' \<and>
    active_keys iid s' = active_keys iid s \<union> set keys \<and> of_others iid s' = of_others iid s \<and>
    (single_active s \<longrightarrow> single_active s')"
  using assms
proof (induction env iid m rules s arbitrary: keys s' rule: evaluate_rules.induct)
  case (1 env iid m s)
  then show ?case by (simp add: triggered_keys_def)
next
  case (2 env iid m key rule rules s)
  obtain hit where h: "rule_triggers env m key rule = Inr hit"
    using 2(2) by (auto simp: rbind_Inr_iff)
  define s1 where "s1 = (case hit of None \<Rightarrow> s | Some (v, threshold) \<Rightarrow> trigger_rule iid key v threshold m s)"
  obtain ks where k: "evaluate_rules env iid m rules s1 = Inr (ks, s')" "keys = (if hit = None then ks else key # ks)"
    using 2(2) h by (auto simp: rbind_Inr_iff s1_def Let_def)
  have w: "alerts_wf s1" "active_keys iid s1 = (if hit = None then active_keys iid s else insert key (active_keys iid s))"
    "of_others iid s1 = of_others iid s" "single_active s \<Longrightarrow> single_active s1"
    using trigger_rule_keeps [OF 2(3)] by (auto simp: s1_def 2(3) split: option.splits)
  show ?case
    using 2(1) [OF s1_def k(1) w(1)] w k(2) triggered_keys_Cons [OF h] by auto
qed

lemma resolve_stale_events:
  "am_events (resolve_stale rules iid keys now s) =
     map (\<lambda>e. if is_active_of iid e \<and> ev_rule_key e \<notin> set keys then e\<lparr>ev_status := Resolved, ev_resolved_at := Some now\<rparr> else e)
       (am_events s)"
  by (simp add: resolve_stale_def Let_def is_active_of_def)

lemma stale_keeps:
  assumes "alerts_wf s"
  shows "alerts_wf (resolve_stale rules iid keys now s)"
    "active_keys iid (resolve_stale rules iid keys now s) = active_keys iid s \<inter> set keys"
    "of_others iid (resolve_stale rules iid keys now s) = of_others iid s"
    "single_active s \<Longrightarrow> single_active (resolve_stale rules iid keys now s)"
proof -
  let ?s = "resolve_stale rules iid keys now s"
  let ?f = "\<lambda>e. if is_active_of iid e \<and> ev_rule_key e \<notin> set keys then e\<lparr>ev_status := Resolved, ev_resolved_at := Some now\<rparr> else e"
  have ev: "am_events ?s = map ?f (am_events s)" by (rule resolve_stale_events)
  have n: "am_next_id ?s = am_next_id s" by (simp add: resolve_stale_def Let_def)
  have f: "ev_id (?f e) = ev_id e" "ev_instance_id (?f e) = ev_instance_id e" "ev_rule_key (?f e) = ev_rule_key e"
    "is_active_of iid (?f e) \<longleftrightarrow> is_active_of iid e \<and> ev_rule_key e \<in> set keys"
    "active_status (ev_status (?f e)) \<Longrightarrow> ?f e = e" for e
    by (auto simp: is_active_of_def active_status_def)
  show "alerts_wf ?s" using assms f(1) by (auto simp: alerts_wf_def ev n o_def)
  show "active_keys iid ?s = active_keys iid s \<inter> set keys"
    unfolding active_keys_def ev using f(3,4) by (force simp: image_iff)
  show "of_others iid ?s = of_others iid s"
  proof -
    have "filter (\<lambda>e. ev_instance_id e \<noteq> iid) (map ?f xs) = filter (\<lambda>e. ev_instance_id e \<noteq> iid) xs" for xs
      by (induction xs) (simp_all add: is_active_of_def)
    then show ?thesis by (simp add: of_others_def ev)
  qed
  show "single_active ?s" if "single_active s"
  proof (unfold single_active_def, intro ballI impI)
    fix a b
    assume ab: "a \<in> set (am_events ?s)" "b \<in> set (am_events ?s)"
      "active_status (ev_status a) \<and> active_status (ev_status b) \<and> ev_instance_id a = ev_instance_id b \<and>
       ev_rule_key a = ev_rule_key b"
    obtain x where x: "x \<in> set (am_events s)" "a = ?f x" using ab(1) unfolding ev by auto
    obtain y where y: "y \<in> set (am_events s)" "b = ?f y" using ab(2) unfolding ev by auto
    have "a = x" "b = y" using f(5) [of x] f(5) [of y] x(2) y(2) ab(3) by metis+
    then show "a = b" using \<open>single_active s\<close> x(1) y(1) ab(3) unfolding single_active_def by blast
  qed
qed

text \<open>
C37: After a snapshot of an instance the rules with an active event of this instance are exactly
the rules that trigger on the snapshot; the events of the other instances are the same; and when
every rule had at most one active event before, so it has afterwards.
\<close>

theorem active_events_are_the_triggered:
  assumes "sync_alert_events env iid override m s = Inr s'" "alerts_wf s"
  shows "active_keys iid s' = triggered_keys env m (merged_rules override) \<and> of_others iid s' = of_others iid s \<and>
    alerts_wf s' \<and> (single_active s \<longrightarrow> single_active s')"
proof -
  obtain keys s1 where e: "evaluate_rules env iid m (merged_rules override) s = Inr (keys, s1)"
    and s': "s' = resolve_stale (merged_rules override) iid keys (ms_collected_at m) s1"
    using assms(1) by (auto simp: sync_alert_events_def Let_def rbind_Inr_iff)
  note a = evaluate_rules_keeps [OF e assms(2)]
  then show ?thesis unfolding s' using stale_keeps [of s1] by auto
qed

section \<open>Handling\<close>

text \<open>
An event is handled by users with access to its instance only, the other events stay as
they are, and at most one active event of a rule stays at most one, unless an event that is
resolved or closed is acknowledged or silenced.
\<close>

theorem handling_is_local:
  assumes "change_alert_event u eid action now s = Inr (e', s')" "alerts_wf s"
  shows "\<exists>e i. row_get ev_id eid (am_events s) = Some e \<and> row_get in_id (ev_instance_id e) (am_instances s) = Some i \<and>
    can_access_observed u i \<and> handled_event u action now e = Some e' \<and>
    set (am_events s') = insert e' (set (am_events s) - {e}) \<and> alerts_wf s' \<and>
    (single_active s \<and> (active_status (ev_status e) \<or> \<not> active_status (ev_status e')) \<longrightarrow> single_active s')"
proof -
  obtain e i where r: "event_row s eid = Some (e, i)" and ok: "can_access_observed u i"
    and h: "handled_event u action now e = Some e'"
    and s': "s' = (if action = Resolve then notify (AlertResolved (ev_id e) (ev_critical e)) else id) (put_event e' s)"
    using assms(1) by (auto simp: change_alert_event_def raise_if_Inr_iff split: option.splits prod.splits)
  have row: "row_get ev_id eid (am_events s) = Some e" "row_get in_id (ev_instance_id e) (am_instances s) = Some i"
    using r by (auto simp: event_row_def split: option.splits)
  have m: "e \<in> set (am_events s)" using row_get_key [OF row(1)] by simp
  have same: "ev_id e' = ev_id e" "ev_instance_id e' = ev_instance_id e" "ev_rule_key e' = ev_rule_key e"
    using h by (auto simp: handled_event_def Let_def split: alert_action.splits)
  have ev: "am_events s' = am_events (put_event e' s)" and n: "am_next_id s' = am_next_id (put_event e' s)"
    by (simp_all add: s' notify_def)
  have st: "set (am_events s') = insert e' (set (am_events s) - {e})"
    unfolding ev by (rule put_event_set [OF assms(2) m same(1)])
  have "alerts_wf s'" using alerts_wf_put [OF assms(2) m same(1)] by (simp add: alerts_wf_def ev n)
  moreover have "single_active s'" if "single_active s" "active_status (ev_status e) \<or> \<not> active_status (ev_status e')"
    using that m same unfolding single_active_def st by (metis Diff_iff insert_iff)
  ultimately show ?thesis using row ok h st by blast
qed

text \<open>
A rule whose metric is missing in the snapshot resolves its events, as if the value had
fallen below the threshold.
\<close>

theorem missing_metric_resolves:
  assumes "metric_for_alert env m key = Inr None" "sync_alert_events env iid override m s = Inr s'" "alerts_wf s"
  shows "key \<notin> active_keys iid s'"
proof -
  obtain keys s1 where e: "evaluate_rules env iid m (merged_rules override) s = Inr (keys, s1)"
    and s': "s' = resolve_stale (merged_rules override) iid keys (ms_collected_at m) s1"
    using assms(2) by (auto simp: sync_alert_events_def Let_def rbind_Inr_iff)
  note a = evaluate_rules_keeps [OF e assms(3)]
  have "rule_triggers env m key rule \<noteq> Inr (Some hit)" for rule hit
    using assms(1) by (auto simp: rule_triggers_def split: json.splits)
  then have "key \<notin> set keys" using a by (auto simp: triggered_keys_def)
  then show ?thesis using a stale_keeps(2) [of s1] by (simp add: s')
qed

text \<open>
Acknowledging or silencing a closed or resolved event opens it again: when the rule has
another active event by then, the rule has two, of which only the newer one is refreshed.
\<close>

theorem reopened_event_is_a_second_one:
  assumes "change_alert_event u eid action now s = Inr (e', s')" "alerts_wf s" "action = Ack \<or> action = Silence minutes"
    "row_get ev_id eid (am_events s) = Some e" "\<not> active_status (ev_status e)"
    "active_event (ev_instance_id e) (ev_rule_key e) s = Some other" "ev_id e < ev_id other"
  shows "\<not> single_active s' \<and>
    (\<exists>newest. active_event (ev_instance_id e) (ev_rule_key e) s' = Some newest \<and> newest \<noteq> e')"
proof -
  obtain e0 i where r: "event_row s eid = Some (e0, i)" and h: "handled_event u action now e0 = Some e'"
    and s': "s' = (if action = Resolve then notify (AlertResolved (ev_id e0) (ev_critical e0)) else id) (put_event e' s)"
    using assms(1) by (auto simp: change_alert_event_def raise_if_Inr_iff split: option.splits prod.splits)
  have e0: "e0 = e" using r assms(4) by (auto simp: event_row_def split: option.splits)
  have m: "e \<in> set (am_events s)" using row_get_key [OF assms(4)] by simp
  note o = active_event_Some [OF assms(6)]
  have same: "ev_id e' = ev_id e" "ev_instance_id e' = ev_instance_id e" "ev_rule_key e' = ev_rule_key e"
    "active_status (ev_status e')"
    using h assms(3) e0 by (auto simp: handled_event_def Let_def active_status_def)
  have ev: "am_events s' = am_events (put_event e' s)" by (simp add: s' notify_def)
  have st: "set (am_events s') = insert e' (set (am_events s) - {e})"
    unfolding ev by (rule put_event_set [OF assms(2) m same(1)])
  have ne: "other \<noteq> e" "other \<noteq> e'" using assms(7) same(1) by auto
  then have mem: "other \<in> set (am_events s')" "e' \<in> set (am_events s')" using o st by auto
  have "\<not> single_active s'"
  proof
    assume "single_active s'"
    moreover have "active_status (ev_status other) \<and> active_status (ev_status e') \<and> ev_instance_id other = ev_instance_id e' \<and>
      ev_rule_key other = ev_rule_key e'" using o same by (simp add: is_active_of_def)
    ultimately have "other = e'" using mem unfolding single_active_def by blast
    with ne(2) show False by simp
  qed
  moreover have "\<exists>newest. active_event (ev_instance_id e) (ev_rule_key e) s' = Some newest \<and> newest \<noteq> e'"
  proof -
    let ?P = "\<lambda>x. ev_instance_id x = ev_instance_id e \<and> ev_rule_key x = ev_rule_key e \<and> active_status (ev_status x)"
    let ?L = "sort_key (\<lambda>x. - ev_id x) (filter ?P (am_events s'))"
    have L: "other \<in> set ?L" using mem(1) o by (simp add: is_active_of_def)
    then obtain x xs where x: "?L = x # xs" by (cases ?L) auto
    have "sorted (map (\<lambda>x. - ev_id x) ?L)" by simp
    then have "ev_id other \<le> ev_id x" using L x by auto
    then have "x \<noteq> e'" using assms(7) same(1) by auto
    then show ?thesis using x by (simp add: active_event_def)
  qed
  ultimately show ?thesis by blast
qed

section \<open>A sample\<close>

definition alert_float :: "json \<Rightarrow> rat option" where
  "alert_float v = (if v = JNum ''0.8'' then Some (4 / 5) else if v = JNum ''60'' then Some 60 else if v = JNum ''85'' then Some 85
     else if v = JNum ''0'' then Some 0 else if v = JNum ''92'' then Some 92 else None)"

definition sample_alert_env :: alert_env where
  "sample_alert_env = \<lparr>ae_float = alert_float, ae_str = (\<lambda>_. [])\<rparr>"

definition full_snapshot :: metric_snapshot where
  "full_snapshot = \<lparr>ms_id = 3, ms_collected_at = 100, ms_connection_usage = Some (1 / 2), ms_replication_lag = None,
     ms_lock_waits = None, ms_extra = [(''tablespaces'', JArr [JObj [(''used_pct'', JNum ''92'')], JNull])]\<rparr>"

definition alert_dba :: operator where
  "alert_dba = \<lparr> op_id = 1, op_username = ''dba'', op_display_name = [], op_is_superuser = False, op_permissions = [],
     op_role = None, op_role_id = None, op_resource_groups = [5] \<rparr>"

definition old_event :: "int \<Rightarrow> string \<Rightarrow> alert_status \<Rightarrow> alert_event" where
  "old_event i key st = (new_event 7 key 90 85 full_snapshot i)\<lparr>ev_status := st\<rparr>"

definition sample_alerts :: alert_store where
  "sample_alerts = \<lparr>am_events = [old_event 1 ''tablespace_used_pct'' Closed, old_event 2 ''lock_waits'' Firing,
       old_event 3 ''tablespace_used_pct'' Firing],
     am_instances = [\<lparr> in_id = 7, in_name = ''db7'', in_db_type = ''oracle'', in_is_active = True,
       in_resource_groups = [\<lparr> rg_id = 5, rg_group_name = ''g'', rg_is_active = True \<rparr>] \<rparr>], am_next_id = 4, am_notes = []\<rparr>"

lemma sample_alerts_wf: "alerts_wf sample_alerts \<and> single_active sample_alerts"
  by (simp add: alerts_wf_def single_active_def sample_alerts_def old_event_def new_event_def active_status_def)

lemma sample_sync:
  "is_ok (sync_alert_events sample_alert_env 7 [] full_snapshot sample_alerts)"
  by code_simp

lemma active_events_are_the_triggered_witness:
  "\<exists>s'. sync_alert_events sample_alert_env 7 [] full_snapshot sample_alerts = Inr s' \<and>
     active_keys 7 s' = triggered_keys sample_alert_env full_snapshot (merged_rules []) \<and> single_active s' \<and>
     map ev_status (am_events s') = [Closed, Resolved, Firing]"
proof -
  obtain s' where s': "sync_alert_events sample_alert_env 7 [] full_snapshot sample_alerts = Inr s'"
    using sample_sync by (auto simp: is_ok_iff)
  have "(case sync_alert_events sample_alert_env 7 [] full_snapshot sample_alerts of Inl e \<Rightarrow> False
    | Inr s' \<Rightarrow> map ev_status (am_events s') = [Closed, Resolved, Firing])" by code_simp
  then have st: "map ev_status (am_events s') = [Closed, Resolved, Firing]" by (simp add: s')
  have w: "alerts_wf sample_alerts" "single_active sample_alerts" using sample_alerts_wf by simp_all
  show ?thesis
    using s' st active_events_are_the_triggered [OF s' w(1)] w(2) by (intro exI [of _ s']) simp
qed

lemma handling_is_local_witness:
  "\<exists>e' s'. change_alert_event alert_dba 2 (Silence 0) 200 sample_alerts = Inr (e', s') \<and> single_active s' \<and>
     ev_silenced_until e' = Some (200 + 60 * 1000000)"
proof -
  have "case change_alert_event alert_dba 2 (Silence 0) 200 sample_alerts of Inl e \<Rightarrow> False
    | Inr r \<Rightarrow> ev_silenced_until (fst r) = Some (200 + 60 * 1000000)" by code_simp
  then obtain e' s' where c: "change_alert_event alert_dba 2 (Silence 0) 200 sample_alerts = Inr (e', s')"
    "ev_silenced_until e' = Some (200 + 60 * 1000000)" by (auto split: sum.splits)
  have w: "alerts_wf sample_alerts" "single_active sample_alerts" using sample_alerts_wf by simp_all
  have r: "row_get ev_id 2 (am_events sample_alerts) = Some (old_event 2 ''lock_waits'' Firing)"
    by (simp add: sample_alerts_def row_get_def old_event_def)
  have "single_active s'"
    using handling_is_local [OF c(1) w(1)] w(2) r by (auto simp: old_event_def active_status_def)
  with c show ?thesis by blast
qed

lemma reopened_event_is_a_second_one_witness:
  "\<exists>e' s'. change_alert_event alert_dba 1 Ack 200 sample_alerts = Inr (e', s') \<and> \<not> single_active s'"
proof -
  have "is_ok (change_alert_event alert_dba 1 Ack 200 sample_alerts)" by code_simp
  then obtain e' s' where c: "change_alert_event alert_dba 1 Ack 200 sample_alerts = Inr (e', s')"
    by (metis is_ok_iff prod.collapse)
  let ?e = "old_event 1 ''tablespace_used_pct'' Closed" and ?o = "old_event 3 ''tablespace_used_pct'' Firing"
  have r: "row_get ev_id 1 (am_events sample_alerts) = Some ?e"
    by (simp add: sample_alerts_def row_get_def old_event_def)
  have n: "\<not> active_status (ev_status ?e)" by (simp add: old_event_def active_status_def)
  have a: "active_event (ev_instance_id ?e) (ev_rule_key ?e) sample_alerts = Some ?o"
    by (simp add: active_event_def sample_alerts_def old_event_def active_status_def new_event_def)
  have l: "ev_id ?e < ev_id ?o" by (simp add: old_event_def)
  have "\<not> single_active s'"
    using reopened_event_is_a_second_one [OF c conjunct1 [OF sample_alerts_wf] disjI1 [OF refl] r n a l] by blast
  with c show ?thesis by blast
qed

end
