(* ===== verification/Rule_Templates.thy ===== *)
theory Rule_Templates
  imports Query_Run Query_Apply_Service
begin

text \<open>
  \<^verbatim>\<open>app/services/masking_rule.py\<close>: the forms of masking rules and the SQL templates of
  workflows. The bodies of the requests are unchecked JSON objects: a field is absent, null,
  or has a value of the column's type (the driver refuses other types). On insert the ORM
  treats null as absent and stores the default of the column; on update null is written, and
  the database refuses it in a column that has to be filled. A text longer than its column
  is refused as well. \<open>ilike\<close> is the case-insensitive match of the database.
\<close>

section \<open>Fields of a body\<close>

datatype 'a field = Absent | Null | Given 'a

definition key_error :: exc where "key_error = RawException (EngineRaised ''KeyError'')"

definition data_error :: exc where "data_error = RawException (EngineRaised ''DataError'')"

definition not_null_error :: exc where "not_null_error = RawException (EngineRaised ''IntegrityError'')"

text \<open>\<open>data.get(k, dflt)\<close> as a column of a new row; \<open>data[k]\<close>.\<close>

definition insert_default :: "'a \<Rightarrow> 'a field \<Rightarrow> 'a" where
  "insert_default dflt f = (case f of Given x \<Rightarrow> x | _ \<Rightarrow> dflt)"

definition insert_required :: "'a field \<Rightarrow> 'a res" where
  "insert_required f = (case f of Absent \<Rightarrow> Inl key_error | Null \<Rightarrow> Inl not_null_error | Given x \<Rightarrow> Inr x)"

definition insert_nullable :: "'a field \<Rightarrow> 'a option" where
  "insert_nullable f = (case f of Given x \<Rightarrow> Some x | _ \<Rightarrow> None)"

text \<open>\<open>if field in data: setattr\<close>.\<close>

definition update_field :: "'a field \<Rightarrow> 'a \<Rightarrow> 'a res" where
  "update_field f old = (case f of Absent \<Rightarrow> Inr old | Null \<Rightarrow> Inl not_null_error | Given x \<Rightarrow> Inr x)"

definition update_nullable :: "'a field \<Rightarrow> 'a option \<Rightarrow> 'a option" where
  "update_nullable f old = (case f of Absent \<Rightarrow> old | Null \<Rightarrow> None | Given x \<Rightarrow> Some x)"

definition fits :: "(nat \<times> string) list \<Rightarrow> bool" where
  "fits cols \<longleftrightarrow> list_all (\<lambda>(n, t). length t \<le> n) cols"

section \<open>Masking rules\<close>

record rule_form =
  rf_rule_name :: "string field"
  rf_description :: "string field"
  rf_is_active :: "bool field"
  rf_instance_id :: "int field"
  rf_db_name :: "string field"
  rf_table_name :: "string field"
  rf_column_name :: "string field"
  rf_rule_type :: "string field"
  rf_rule_regex :: "string field"
  rf_rule_regex_replace :: "string field"
  rf_hide_group :: "int field"

record rule_store =
  rs_rules :: "masking_rule list"
  rs_next_id :: int

definition rule_fits :: "masking_rule \<Rightarrow> bool" where
  "rule_fits r = fits [(50, mk_rule_name r), (200, mk_description r), (64, mk_db_name r), (64, mk_table_name r),
     (64, mk_column_name r), (20, mk_rule_type r), (500, mk_rule_regex r), (100, mk_rule_regex_replace r), (30, mk_created_by r)]"

definition create_rule :: "operator \<Rightarrow> rule_form \<Rightarrow> time \<Rightarrow> rule_store \<Rightarrow> (masking_rule \<times> rule_store) res" where
  "create_rule u f now s =
     rbind (insert_required (rf_rule_name f)) (\<lambda>name.
     rbind (insert_required (rf_column_name f)) (\<lambda>column.
     rbind (insert_required (rf_rule_type f)) (\<lambda>ty.
     let r = \<lparr> mk_id = rs_next_id s, mk_rule_name = name, mk_description = insert_default [] (rf_description f),
           mk_is_active = insert_default True (rf_is_active f), mk_instance_id = insert_nullable (rf_instance_id f),
           mk_db_name = insert_default ''*'' (rf_db_name f), mk_table_name = insert_default ''*'' (rf_table_name f),
           mk_column_name = column, mk_rule_type = ty, mk_rule_regex = insert_default [] (rf_rule_regex f),
           mk_rule_regex_replace = insert_default ''***'' (rf_rule_regex_replace f),
           mk_hide_group = insert_default 0 (rf_hide_group f), mk_created_by = op_username u, mk_created_at = now \<rparr>
     in raise_if (\<not> rule_fits r) data_error
        (Inr (r, s\<lparr>rs_rules := rs_rules s @ [r], rs_next_id := rs_next_id s + 1\<rparr>)))))"

definition updated_rule :: "rule_form \<Rightarrow> masking_rule \<Rightarrow> masking_rule res" where
  "updated_rule f r =
     rbind (update_field (rf_rule_name f) (mk_rule_name r)) (\<lambda>name.
     rbind (update_field (rf_description f) (mk_description r)) (\<lambda>description.
     rbind (update_field (rf_is_active f) (mk_is_active r)) (\<lambda>active.
     rbind (update_field (rf_db_name f) (mk_db_name r)) (\<lambda>db_name.
     rbind (update_field (rf_table_name f) (mk_table_name r)) (\<lambda>table_name.
     rbind (update_field (rf_column_name f) (mk_column_name r)) (\<lambda>column.
     rbind (update_field (rf_rule_type f) (mk_rule_type r)) (\<lambda>ty.
     rbind (update_field (rf_rule_regex f) (mk_rule_regex r)) (\<lambda>regex.
     rbind (update_field (rf_rule_regex_replace f) (mk_rule_regex_replace r)) (\<lambda>repl.
     rbind (update_field (rf_hide_group f) (mk_hide_group r)) (\<lambda>group.
     Inr (r\<lparr>mk_rule_name := name, mk_description := description, mk_is_active := active,
       mk_instance_id := update_nullable (rf_instance_id f) (mk_instance_id r), mk_db_name := db_name,
       mk_table_name := table_name, mk_column_name := column, mk_rule_type := ty, mk_rule_regex := regex,
       mk_rule_regex_replace := repl, mk_hide_group := group\<rparr>)))))))))))"

definition update_rule :: "int \<Rightarrow> rule_form \<Rightarrow> rule_store \<Rightarrow> (masking_rule \<times> rule_store) res" where
  "update_rule rid f s =
     (case row_get mk_id rid (rs_rules s) of
        None \<Rightarrow> Inl (not_found_exc (TextMsg ''masking rule''))
      | Some r \<Rightarrow>
          rbind (updated_rule f r) (\<lambda>r1.
          raise_if (\<not> rule_fits r1) data_error (Inr (r1, s\<lparr>rs_rules := row_put mk_id r1 (rs_rules s)\<rparr>))))"

definition delete_rule :: "int \<Rightarrow> rule_store \<Rightarrow> rule_store res" where
  "delete_rule rid s =
     (case row_get mk_id rid (rs_rules s) of
        None \<Rightarrow> Inl (not_found_exc (TextMsg ''masking rule''))
      | Some r \<Rightarrow> Inr (s\<lparr>rs_rules := filter (\<lambda>x. mk_id x \<noteq> rid) (rs_rules s)\<rparr>))"

definition list_rules ::
    "(string \<Rightarrow> string \<Rightarrow> bool) \<Rightarrow> int option \<Rightarrow> bool option \<Rightarrow> string option \<Rightarrow> nat \<Rightarrow> nat \<Rightarrow> rule_store \<Rightarrow> nat \<times> masking_rule list" where
  "list_rules ilike iid active search page page_size s =
     (let keep = (\<lambda>r. (case iid of None \<Rightarrow> True | Some i \<Rightarrow> mk_instance_id r = Some i) \<and>
           (case active of None \<Rightarrow> True | Some b \<Rightarrow> mk_is_active r = b) \<and>
           (if truthy search then (case search of None \<Rightarrow> True | Some t \<Rightarrow>
              ilike (contains_pattern t) (mk_rule_name r) \<or> ilike (contains_pattern t) (mk_column_name r)) else True));
          rows = filter keep (rs_rules s)
      in (length rows, page_of page page_size (sort_key (\<lambda>r. - mk_created_at r) rows)))"

section \<open>Templates\<close>

record workflow_template =
  tm_id :: int
  tm_template_name :: string
  tm_category :: string
  tm_description :: string
  tm_scene_desc :: string
  tm_risk_hint :: string
  tm_rollback_hint :: string
  tm_instance_id :: "int option"
  tm_db_name :: string
  tm_flow_id :: "int option"
  tm_sql_content :: string
  tm_syntax_type :: int
  tm_is_active :: bool
  tm_visibility :: string
  tm_created_by :: string
  tm_created_by_id :: int
  tm_use_count :: int
  tm_created_at :: time

record template_form =
  tf_template_name :: "string field"
  tf_category :: "string field"
  tf_description :: "string field"
  tf_scene_desc :: "string field"
  tf_risk_hint :: "string field"
  tf_rollback_hint :: "string field"
  tf_instance_id :: "int field"
  tf_db_name :: "string field"
  tf_flow_id :: "int field"
  tf_sql_content :: "string field"
  tf_syntax_type :: "int field"
  tf_is_active :: "bool field"
  tf_visibility :: "string field"

record template_store =
  tp_templates :: "workflow_template list"
  tp_flow_names :: "(int \<times> string) list"
  tp_next_id :: int

definition template_fits :: "workflow_template \<Rightarrow> bool" where
  "template_fits t = fits [(50, tm_template_name t), (30, tm_category t), (200, tm_description t), (300, tm_scene_desc t),
     (300, tm_risk_hint t), (300, tm_rollback_hint t), (64, tm_db_name t), (10, tm_visibility t), (30, tm_created_by t)]"

definition can_manage_public_template :: "operator \<Rightarrow> bool" where
  "can_manage_public_template u \<longleftrightarrow> op_is_superuser u \<or> has_perm u ''sql_review'' \<or> has_perm u ''sql_execute''"

definition template_visible :: "operator \<Rightarrow> workflow_template \<Rightarrow> bool" where
  "template_visible u t \<longleftrightarrow> tm_visibility t = ''public'' \<or> tm_created_by_id t = op_id u"

definition template_flow_name :: "template_store \<Rightarrow> workflow_template \<Rightarrow> string" where
  "template_flow_name s t =
     (case tm_flow_id t of None \<Rightarrow> []
      | Some i \<Rightarrow> if i = 0 then [] else (case map_of (tp_flow_names s) i of None \<Rightarrow> [] | Some n \<Rightarrow> n))"

definition list_templates ::
    "(string \<Rightarrow> string \<Rightarrow> bool) \<Rightarrow> operator \<Rightarrow> string \<Rightarrow> string \<Rightarrow> string \<Rightarrow> bool option \<Rightarrow> nat \<Rightarrow> nat \<Rightarrow> template_store
       \<Rightarrow> nat \<times> (workflow_template \<times> string) list" where
  "list_templates ilike u search category visibility active page page_size s =
     (let keep = (\<lambda>t. template_visible u t \<and>
           (search = [] \<or> ilike (contains_pattern search) (tm_template_name t) \<or> ilike (contains_pattern search) (tm_description t)) \<and>
           (category = [] \<or> tm_category t = category) \<and> (visibility = [] \<or> tm_visibility t = visibility) \<and>
           (case active of None \<Rightarrow> True | Some b \<Rightarrow> tm_is_active t = b));
          rows = filter keep (tp_templates s);
          sorted = sort_key (\<lambda>t. \<not> tm_is_active t) (sort_key (\<lambda>t. - tm_use_count t) (sort_key (\<lambda>t. - tm_created_at t) rows))
      in (length rows, map (\<lambda>t. (t, template_flow_name s t)) (page_of page page_size sorted)))"

definition get_template :: "operator \<Rightarrow> int \<Rightarrow> template_store \<Rightarrow> (workflow_template \<times> string) res" where
  "get_template u tid s =
     (case row_get tm_id tid (filter (template_visible u) (tp_templates s)) of
        None \<Rightarrow> Inl (not_found_exc (TextMsg ''template''))
      | Some t \<Rightarrow> Inr (t, template_flow_name s t))"

definition add_template :: "workflow_template \<Rightarrow> template_store \<Rightarrow> template_store" where
  "add_template t s = s\<lparr>tp_templates := tp_templates s @ [t], tp_next_id := tp_next_id s + 1\<rparr>"

definition create_template ::
    "operator \<Rightarrow> template_form \<Rightarrow> time \<Rightarrow> template_store \<Rightarrow> (workflow_template \<times> template_store) res" where
  "create_template u f now s =
     raise_if ((tf_visibility f = Absent \<or> tf_visibility f = Given ''public'') \<and> \<not> can_manage_public_template u)
       (app_exc (TextMsg ''public template'') 403)
     (rbind (insert_required (tf_template_name f)) (\<lambda>name.
      rbind (insert_required (tf_sql_content f)) (\<lambda>sql.
      let t = \<lparr> tm_id = tp_next_id s, tm_template_name = name, tm_category = insert_default ''other'' (tf_category f),
            tm_description = insert_default [] (tf_description f), tm_scene_desc = insert_default [] (tf_scene_desc f),
            tm_risk_hint = insert_default [] (tf_risk_hint f), tm_rollback_hint = insert_default [] (tf_rollback_hint f),
            tm_instance_id = insert_nullable (tf_instance_id f), tm_db_name = insert_default [] (tf_db_name f),
            tm_flow_id = insert_nullable (tf_flow_id f), tm_sql_content = sql, tm_syntax_type = insert_default 0 (tf_syntax_type f),
            tm_is_active = insert_default True (tf_is_active f), tm_visibility = insert_default ''public'' (tf_visibility f),
            tm_created_by = op_username u, tm_created_by_id = op_id u, tm_use_count = 0, tm_created_at = now \<rparr>
      in raise_if (\<not> template_fits t) data_error (Inr (t, add_template t s)))))"

definition updated_template :: "template_form \<Rightarrow> workflow_template \<Rightarrow> workflow_template res" where
  "updated_template f t =
     rbind (update_field (tf_template_name f) (tm_template_name t)) (\<lambda>name.
     rbind (update_field (tf_category f) (tm_category t)) (\<lambda>category.
     rbind (update_field (tf_description f) (tm_description t)) (\<lambda>description.
     rbind (update_field (tf_scene_desc f) (tm_scene_desc t)) (\<lambda>scene.
     rbind (update_field (tf_risk_hint f) (tm_risk_hint t)) (\<lambda>risk.
     rbind (update_field (tf_rollback_hint f) (tm_rollback_hint t)) (\<lambda>rollback.
     rbind (update_field (tf_db_name f) (tm_db_name t)) (\<lambda>db_name.
     rbind (update_field (tf_sql_content f) (tm_sql_content t)) (\<lambda>sql.
     rbind (update_field (tf_syntax_type f) (tm_syntax_type t)) (\<lambda>syntax_type.
     rbind (update_field (tf_visibility f) (tm_visibility t)) (\<lambda>visibility.
     rbind (update_field (tf_is_active f) (tm_is_active t)) (\<lambda>active.
     Inr (t\<lparr>tm_template_name := name, tm_category := category, tm_description := description, tm_scene_desc := scene,
       tm_risk_hint := risk, tm_rollback_hint := rollback, tm_instance_id := update_nullable (tf_instance_id f) (tm_instance_id t),
       tm_db_name := db_name, tm_flow_id := update_nullable (tf_flow_id f) (tm_flow_id t), tm_sql_content := sql,
       tm_syntax_type := syntax_type, tm_visibility := visibility, tm_is_active := active\<rparr>))))))))))))"

definition owns_template :: "operator \<Rightarrow> workflow_template \<Rightarrow> bool" where
  "owns_template u t \<longleftrightarrow> op_is_superuser u \<or> tm_created_by_id t = op_id u"

definition put_template :: "workflow_template \<Rightarrow> template_store \<Rightarrow> template_store" where
  "put_template t s = s\<lparr>tp_templates := row_put tm_id t (tp_templates s)\<rparr>"

definition update_template ::
    "operator \<Rightarrow> int \<Rightarrow> template_form \<Rightarrow> template_store \<Rightarrow> (workflow_template \<times> template_store) res" where
  "update_template u tid f s =
     (case row_get tm_id tid (tp_templates s) of
        None \<Rightarrow> Inl (not_found_exc (TextMsg ''template''))
      | Some t \<Rightarrow>
          raise_if (\<not> owns_template u t) (app_exc (TextMsg ''change'') 403)
          (raise_if (tf_visibility f = Given ''public'' \<and> \<not> can_manage_public_template u) (app_exc (TextMsg ''public template'') 403)
          (rbind (updated_template f t) (\<lambda>t1.
           raise_if (\<not> template_fits t1) data_error (Inr (t1, put_template t1 s))))))"

definition delete_template :: "operator \<Rightarrow> int \<Rightarrow> template_store \<Rightarrow> template_store res" where
  "delete_template u tid s =
     (case row_get tm_id tid (tp_templates s) of
        None \<Rightarrow> Inl (not_found_exc (TextMsg ''template''))
      | Some t \<Rightarrow>
          raise_if (\<not> owns_template u t) (app_exc (TextMsg ''delete'') 403)
          (Inr (s\<lparr>tp_templates := filter (\<lambda>x. tm_id x \<noteq> tid) (tp_templates s)\<rparr>)))"

definition use_template :: "int \<Rightarrow> template_store \<Rightarrow> (workflow_template \<times> template_store) res" where
  "use_template tid s =
     (case row_get tm_id tid (tp_templates s) of
        None \<Rightarrow> Inl (not_found_exc (TextMsg ''template''))
      | Some t \<Rightarrow>
          raise_if (\<not> tm_is_active t) (app_exc (TextMsg ''inactive template'') 400)
          (let t1 = t\<lparr>tm_use_count := tm_use_count t + 1\<rparr> in Inr (t1, put_template t1 s)))"

text \<open>The suffix of a clone has three characters.\<close>

definition clone_template ::
    "operator \<Rightarrow> int \<Rightarrow> time \<Rightarrow> template_store \<Rightarrow> (workflow_template \<times> template_store) res" where
  "clone_template u tid now s =
     rbind (get_template u tid s) (\<lambda>(t, _).
     let c = t\<lparr>tm_id := tp_next_id s, tm_template_name := tm_template_name t @ ''-cp'', tm_is_active := True,
           tm_visibility := ''private'', tm_created_by := op_username u, tm_created_by_id := op_id u, tm_use_count := 0,
           tm_created_at := now\<rparr>
     in raise_if (\<not> template_fits c) data_error (Inr (c, add_template c s)))"

end
