(* ===== verification/Template_Facts.thy ===== *)
theory Template_Facts
  imports Rule_Templates
begin

text \<open>
  Who can change a template and who can read one, and what a change of a masking rule means
  for the queries that follow.
\<close>

section \<open>Requests on templates\<close>

datatype template_request =
    CreateTemplate template_form | UpdateTemplate int template_form | DeleteTemplate int
  | UseTemplate int | CloneTemplate int

text \<open>A request that raises leaves the table as it is.\<close>

definition kept_or :: "template_store \<Rightarrow> ('a \<times> template_store) res \<Rightarrow> template_store" where
  "kept_or s r = (case r of Inl _ \<Rightarrow> s | Inr (_, s1) \<Rightarrow> s1)"

fun template_step :: "operator \<Rightarrow> time \<Rightarrow> template_request \<Rightarrow> template_store \<Rightarrow> template_store" where
  "template_step u now (CreateTemplate f) s = kept_or s (create_template u f now s)"
| "template_step u now (UpdateTemplate i f) s = kept_or s (update_template u i f s)"
| "template_step u now (DeleteTemplate i) s = (case delete_template u i s of Inl _ \<Rightarrow> s | Inr s1 \<Rightarrow> s1)"
| "template_step u now (UseTemplate i) s = kept_or s (use_template i s)"
| "template_step u now (CloneTemplate i) s = kept_or s (clone_template u i now s)"

fun template_run :: "(operator \<times> time \<times> template_request) list \<Rightarrow> template_store \<Rightarrow> template_store" where
  "template_run [] s = s"
| "template_run ((u, now, r) # rs) s = template_run rs (template_step u now r s)"

definition templates_wf :: "template_store \<Rightarrow> bool" where
  "templates_wf s \<longleftrightarrow> distinct (map tm_id (tp_templates s)) \<and> (\<forall>t\<in>set (tp_templates s). tm_id t < tp_next_id s)"

lemma templates_wf_add: "templates_wf s \<Longrightarrow> tm_id t = tp_next_id s \<Longrightarrow> templates_wf (add_template t s)"
  by (force simp: templates_wf_def add_template_def)

lemma templates_wf_put: "templates_wf s \<Longrightarrow> tm_id t < tp_next_id s \<Longrightarrow> templates_wf (put_template t s)"
  by (auto simp: templates_wf_def put_template_def row_put_def o_def if_distrib [of tm_id] cong: if_cong)

lemma stored_template:
  assumes "templates_wf s" "t \<in> set (tp_templates s)"
  shows "row_get tm_id (tm_id t) (tp_templates s) = Some t"
  using assms by (simp add: templates_wf_def row_get_distinct)

lemma put_template_in:
  "t \<in> set (tp_templates s) \<Longrightarrow> tm_id t \<noteq> tm_id x \<Longrightarrow> t \<in> set (tp_templates (put_template x s))"
  by (force simp: put_template_def row_put_def)

lemma created_template:
  "create_template u f now s = Inr (t, s1) \<Longrightarrow> s1 = add_template t s \<and> tm_id t = tp_next_id s \<and>
     tm_visibility t = insert_default ''public'' (tf_visibility f) \<and> tm_created_by_id t = op_id u"
  by (auto simp: create_template_def rbind_Inr_iff raise_if_Inr_iff Let_def)

lemma updated_template_keeps:
  "updated_template f t = Inr t1 \<Longrightarrow> tm_id t1 = tm_id t \<and> tm_created_by_id t1 = tm_created_by_id t"
  unfolding updated_template_def by (auto simp: rbind_Inr_iff)

lemma cloned_template:
  "clone_template u i now s = Inr (t, s1) \<Longrightarrow> s1 = add_template t s \<and> tm_id t = tp_next_id s"
  by (auto simp: clone_template_def rbind_Inr_iff raise_if_Inr_iff Let_def split: prod.splits)

text \<open>A step of somebody else keeps a template, except for its counter.\<close>

lemma template_step_keeps:
  assumes "templates_wf s" "t \<in> set (tp_templates s)" "\<not> owns_template u t"
  shows "templates_wf (template_step u now r s) \<and>
    (\<exists>n\<ge>tm_use_count t. t\<lparr>tm_use_count := n\<rparr> \<in> set (tp_templates (template_step u now r s)))"
proof -
  have here: "\<exists>n\<ge>tm_use_count t. t\<lparr>tm_use_count := n\<rparr> \<in> set xs" if "t \<in> set xs" for xs :: "workflow_template list"
    using that by (intro exI [of _ "tm_use_count t"]) simp
  have added: "t \<in> set (tp_templates (add_template x s))" for x using assms(2) by (simp add: add_template_def)
  have low: "tm_id x < tp_next_id s" if "row_get tm_id i (tp_templates s) = Some x" for i x
    using assms(1) row_get_key [OF that] by (auto simp: templates_wf_def)
  show ?thesis
  proof (cases r)
    case (CreateTemplate f)
    then show ?thesis
      using assms(1,2) here added templates_wf_add [OF assms(1)] created_template
      by (auto simp: kept_or_def split: sum.splits) blast+
  next
    case (UpdateTemplate i f)
    show ?thesis
    proof (cases "update_template u i f s")
      case (Inl e)
      then show ?thesis using UpdateTemplate assms(1,2) here by (simp add: kept_or_def)
    next
      case (Inr x)
      obtain q t1 where g: "row_get tm_id i (tp_templates s) = Some q" "owns_template u q" "updated_template f q = Inr t1"
        "x = (t1, put_template t1 s)"
        using Inr by (auto simp: update_template_def rbind_Inr_iff raise_if_Inr_iff split: option.splits)
      have "tm_id q \<noteq> tm_id t" 
      proof
        assume "tm_id q = tm_id t"
        then have "q = t" using g(1) row_get_key [OF g(1)] stored_template [OF assms(1,2)] by simp
        then show False using g(2) assms(3) by simp
      qed
      then have "t \<in> set (tp_templates (put_template t1 s))"
        using put_template_in [OF assms(2)] updated_template_keeps [OF g(3)] by metis
      moreover have "templates_wf (put_template t1 s)"
        using templates_wf_put [OF assms(1)] updated_template_keeps [OF g(3)] low [OF g(1)] by metis
      ultimately show ?thesis using UpdateTemplate Inr g(4) here by (simp add: kept_or_def)
    qed
  next
    case (DeleteTemplate i)
    show ?thesis
    proof (cases "delete_template u i s")
      case (Inl e)
      then show ?thesis using DeleteTemplate assms(1,2) here by simp
    next
      case (Inr x)
      obtain q where g: "row_get tm_id i (tp_templates s) = Some q" "owns_template u q"
        "x = s\<lparr>tp_templates := filter (\<lambda>y. tm_id y \<noteq> i) (tp_templates s)\<rparr>"
        using Inr by (auto simp: delete_template_def raise_if_Inr_iff split: option.splits)
      have "tm_id t \<noteq> i" using g(1,2) assms stored_template [OF assms(1,2)] by auto
      then have "t \<in> set (tp_templates x)" using assms(2) g(3) by simp
      moreover have "templates_wf x" using assms(1) by (auto simp: g(3) templates_wf_def intro: distinct_map_filter)
      ultimately show ?thesis using DeleteTemplate Inr here by simp
    qed
  next
    case (UseTemplate i)
    show ?thesis
    proof (cases "use_template i s")
      case (Inl e)
      then show ?thesis using UseTemplate assms(1,2) here by (simp add: kept_or_def)
    next
      case (Inr x)
      obtain q where g: "row_get tm_id i (tp_templates s) = Some q"
        "snd x = put_template (q\<lparr>tm_use_count := tm_use_count q + 1\<rparr>) s"
        using Inr by (auto simp: use_template_def raise_if_Inr_iff Let_def split: option.splits)
      have wf: "templates_wf (snd x)" unfolding g(2) by (rule templates_wf_put [OF assms(1)]) (use low [OF g(1)] in simp)
      have "\<exists>n\<ge>tm_use_count t. t\<lparr>tm_use_count := n\<rparr> \<in> set (tp_templates (snd x))"
      proof (cases "tm_id q = tm_id t")
        case True
        then have "q = t" using g(1) row_get_key [OF g(1)] stored_template [OF assms(1,2)] by simp
        then have "t\<lparr>tm_use_count := tm_use_count t + 1\<rparr> \<in> set (tp_templates (snd x))"
          using assms(2) by (force simp: g(2) put_template_def row_put_def)
        then show ?thesis by (intro exI [of _ "tm_use_count t + 1"]) simp
      next
        case False
        then show ?thesis using here put_template_in [OF assms(2)] by (simp add: g(2))
      qed
      then show ?thesis using UseTemplate Inr wf by (cases x) (simp add: kept_or_def)
    qed
  next
    case (CloneTemplate i)
    then show ?thesis
      using assms(1,2) here added templates_wf_add [OF assms(1)] cloned_template
      by (auto simp: kept_or_def split: sum.splits) blast+
  qed
qed

text \<open>
Whatever requests other users than its creator make, superusers apart, a template stays in
the table with every field it has; only its use counter may have grown.
\<close>

theorem templates_change_by_their_owner:
  assumes "templates_wf s" "t \<in> set (tp_templates s)" "\<forall>(u, now, r)\<in>set rs. \<not> owns_template u t"
  shows "\<exists>n\<ge>tm_use_count t. t\<lparr>tm_use_count := n\<rparr> \<in> set (tp_templates (template_run rs s))"
  using assms
proof (induction rs arbitrary: s t)
  case Nil
  then show ?case by (intro exI [of _ "tm_use_count t"]) simp
next
  case (Cons a rs)
  obtain u now r where a: "a = (u, now, r)" by (cases a)
  then have "\<not> owns_template u t" using Cons.prems(3) by auto
  then obtain n where n: "templates_wf (template_step u now r s)" "tm_use_count t \<le> n"
    "t\<lparr>tm_use_count := n\<rparr> \<in> set (tp_templates (template_step u now r s))"
    using template_step_keeps [OF Cons.prems(1,2)] by blast
  have "\<forall>(u, now, r)\<in>set rs. \<not> owns_template u (t\<lparr>tm_use_count := n\<rparr>)"
    using Cons.prems(3) by (auto simp: owns_template_def)
  then obtain k where "n \<le> k" "t\<lparr>tm_use_count := n, tm_use_count := k\<rparr> \<in> set (tp_templates (template_run rs (template_step u now r s)))"
    using Cons.IH [OF n(1,3)] by auto
  then show ?case using n(2) a by (intro exI [of _ k]) simp
qed

section \<open>Reading\<close>

text \<open>
A body whose visibility is null passes the check that reserves public templates to
reviewers, and is stored with the default of the column: any user can publish a template to
everybody, while the same body without the field or with the value public is refused.
\<close>

theorem null_visibility_publishes:
  assumes "\<not> can_manage_public_template u" "tf_visibility f = Null" "create_template u f now s = Inr (t, s')" "templates_wf s"
  shows "tm_visibility t = ''public'' \<and> (\<exists>n. get_template v (tm_id t) s' = Inr (t, n)) \<and>
    create_template u (f\<lparr>tf_visibility := Absent\<rparr>) now s = Inl (app_exc (TextMsg ''public template'') 403) \<and>
    create_template u (f\<lparr>tf_visibility := Given ''public''\<rparr>) now s = Inl (app_exc (TextMsg ''public template'') 403)"
proof -
  have c: "s' = add_template t s" "tm_id t = tp_next_id s" "tm_visibility t = ''public''"
    using created_template [OF assms(3)] assms(2) by (auto simp: insert_default_def)
  have wf: "templates_wf s'" using templates_wf_add [OF assms(4) c(2)] c(1) by simp
  have t: "t \<in> set (filter (template_visible v) (tp_templates s'))"
    by (simp add: c add_template_def template_visible_def)
  have "distinct (map tm_id (filter (template_visible v) (tp_templates s')))"
    using wf by (simp add: templates_wf_def distinct_map_filter)
  then have "row_get tm_id (tm_id t) (filter (template_visible v) (tp_templates s')) = Some t"
    using row_get_distinct t by fastforce
  then show ?thesis using c(3) assms(1) by (simp add: get_template_def create_template_def raise_if_def)
qed

text \<open>
The content of an active private template is withheld from other users by the detail
request, and handed to everybody by the request that counts a use.
\<close>

theorem private_template_leaks:
  assumes "templates_wf s" "t \<in> set (tp_templates s)" "tm_is_active t" "\<not> template_visible u t"
  shows "get_template u (tm_id t) s = Inl (not_found_exc (TextMsg ''template'')) \<and>
    (\<exists>t' s'. use_template (tm_id t) s = Inr (t', s') \<and> tm_sql_content t' = tm_sql_content t)"
proof -
  have u: "x = t" if "x \<in> set (tp_templates s)" "tm_id x = tm_id t" for x
    using assms(1,2) that by (auto simp: templates_wf_def distinct_map dest: inj_onD)
  have "row_get tm_id (tm_id t) (filter (template_visible u) (tp_templates s)) = None"
    using u assms(4) by (auto simp: row_get_None_iff)
  then show ?thesis
    using stored_template [OF assms(1,2)] assms(3) by (simp add: get_template_def use_template_def raise_if_def Let_def)
qed

text \<open>A template whose name is longer than 47 characters cannot be cloned.\<close>

theorem long_name_not_cloned:
  assumes "get_template u i s = Inr (t, n)" "47 < length (tm_template_name t)"
  shows "clone_template u i now s = Inl data_error"
  using assms by (simp add: clone_template_def template_fits_def fits_def raise_if_def Let_def)

section \<open>Masking rules\<close>

definition rules_wf :: "rule_store \<Rightarrow> bool" where
  "rules_wf s \<longleftrightarrow> distinct (map mk_id (rs_rules s)) \<and> (\<forall>r\<in>set (rs_rules s). mk_id r < rs_next_id s)"

text \<open>
A deleted masking rule is in force for no query any more, and the rules in force for an
instance and a database are otherwise the same as before.
\<close>

theorem deleted_rule_out_of_force:
  assumes "delete_rule rid s = Inr s'"
  shows "get_rules_for_instance (rs_rules s') iid db =
    filter (\<lambda>r. mk_id r \<noteq> rid) (get_rules_for_instance (rs_rules s) iid db)"
  using assms by (auto simp: delete_rule_def get_rules_for_instance_def conj_commute split: option.splits)

lemma created_rule:
  assumes "create_rule u f now s = Inr (r, s')"
  shows "s' = s\<lparr>rs_rules := rs_rules s @ [r], rs_next_id := rs_next_id s + 1\<rparr>" "mk_id r = rs_next_id s"
    "mk_is_active r = insert_default True (rf_is_active f)" "mk_instance_id r = insert_nullable (rf_instance_id f)"
    "mk_db_name r = insert_default ''*'' (rf_db_name f)"
  using assms by (auto simp: create_rule_def rbind_Inr_iff raise_if_Inr_iff Let_def)

theorem created_rule_in_force:
  assumes "create_rule u f now s = Inr (r, s')" "rules_wf s"
  shows "rules_wf s' \<and> get_rules_for_instance (rs_rules s') iid db = get_rules_for_instance (rs_rules s) iid db @
    (if insert_default True (rf_is_active f) \<and> insert_nullable (rf_instance_id f) \<in> {None, Some iid} \<and>
        insert_default ''*'' (rf_db_name f) \<in> {db, ''*''} then [r] else [])"
proof -
  note c = created_rule [OF assms(1)]
  have "rules_wf s'" using assms(2) c(2) by (force simp: rules_wf_def c(1))
  moreover have "get_rules_for_instance (rs_rules s') iid db = get_rules_for_instance (rs_rules s) iid db @
    get_rules_for_instance [r] iid db" by (simp add: get_rules_for_instance_def c(1))
  moreover have "get_rules_for_instance [r] iid db = (if insert_default True (rf_is_active f) \<and>
      insert_nullable (rf_instance_id f) \<in> {None, Some iid} \<and> insert_default ''*'' (rf_db_name f) \<in> {db, ''*''} then [r] else [])"
    using c(3-5) by (auto simp: get_rules_for_instance_def)
  ultimately show ?thesis by simp
qed

section \<open>A sample\<close>

definition plain_user :: "int \<Rightarrow> operator" where
  "plain_user i = \<lparr> op_id = i, op_username = ''u'', op_display_name = [], op_is_superuser = False, op_permissions = [],
     op_role = None, op_role_id = None, op_resource_groups = [] \<rparr>"

definition blank_form :: "string field \<Rightarrow> template_form" where
  "blank_form v = \<lparr>tf_template_name = Given ''fix'', tf_category = Absent, tf_description = Null, tf_scene_desc = Absent,
     tf_risk_hint = Absent, tf_rollback_hint = Absent, tf_instance_id = Absent, tf_db_name = Absent, tf_flow_id = Absent,
     tf_sql_content = Given ''update t set x = 1'', tf_syntax_type = Absent, tf_is_active = Absent, tf_visibility = v\<rparr>"

definition private_store :: template_store where
  "private_store = template_step (plain_user 1) 5 (CreateTemplate (blank_form (Given ''private'')))
     \<lparr>tp_templates = [], tp_flow_names = [], tp_next_id = 1\<rparr>"

definition private_template :: workflow_template where
  "private_template = hd (tp_templates private_store)"

lemma private_store_facts:
  "templates_wf private_store" "private_template \<in> set (tp_templates private_store)" "tm_is_active private_template"
  "\<not> template_visible (plain_user 2) private_template" "\<not> owns_template (plain_user 2) private_template"
  by (code_simp, code_simp, code_simp, code_simp, code_simp)

lemma templates_change_by_their_owner_witness:
  "\<exists>n\<ge>tm_use_count private_template. private_template\<lparr>tm_use_count := n\<rparr> \<in> set (tp_templates
     (template_run [(plain_user 2, 6, UseTemplate 1), (plain_user 2, 7, DeleteTemplate 1), (plain_user 2, 8, CloneTemplate 1)] private_store))"
  by (rule templates_change_by_their_owner [OF private_store_facts(1,2)]) (use private_store_facts(5) in simp)

lemma private_template_leaks_witness:
  "\<exists>t' s'. use_template (tm_id private_template) private_store = Inr (t', s') \<and> tm_sql_content t' = tm_sql_content private_template"
  using private_template_leaks [OF private_store_facts(1-4)] by blast

lemma null_visibility_publishes_witness:
  "\<exists>t s'. create_template (plain_user 2) (blank_form Null) 9 private_store = Inr (t, s') \<and> tm_visibility t = ''public''"
proof -
  have n: "\<not> can_manage_public_template (plain_user 2)" by code_simp
  have "is_ok (create_template (plain_user 2) (blank_form Null) 9 private_store)" by code_simp
  then obtain t s' where c: "create_template (plain_user 2) (blank_form Null) 9 private_store = Inr (t, s')"
    by (metis is_ok_iff prod.collapse)
  have "tf_visibility (blank_form Null) = Null" by (simp add: blank_form_def)
  from null_visibility_publishes [OF n this c private_store_facts(1)] c show ?thesis by blast
qed

end
