(* ===== verification/Instance_Service.thy ===== *)
theory Instance_Service
  imports License_Service Rule_Templates
begin

text \<open>
  \<^verbatim>\<open>app/services/instance.py\<close> (without the texts of table definitions),
  \<^verbatim>\<open>app/services/instance_database.py\<close> and \<^verbatim>\<open>app/routers/instance.py\<close>: the managed instances with
  their tags, resource groups, tunnels and registered databases. The constraints of the tables
  (unique names, unique tag keys, unique database names, references, lengths of texts) are those
  of \<^verbatim>\<open>app/models/instance.py\<close>; a violation is an exception of the driver and rolls back. The
  replies of the engines are arguments.
\<close>

section \<open>Tables\<close>

record instance_row =
  ir_id :: int
  ir_name :: string
  ir_type :: string
  ir_db_type :: string
  ir_mode :: string
  ir_host :: string
  ir_port :: int
  ir_user :: string
  ir_password :: string
  ir_is_ssl :: bool
  ir_db_name :: string
  ir_show_db_name_regex :: string
  ir_remark :: string
  ir_is_active :: bool
  ir_suspended :: bool
  ir_tunnel_id :: "int option"
  ir_created_at :: time

record instance_tag =
  it_id :: int
  it_key :: string
  it_value :: string
  it_instance_id :: int

record ssh_tunnel =
  tn_id :: int
  tn_name :: string
  tn_host :: string
  tn_port :: int
  tn_user :: string
  tn_password :: "string option"
  tn_private_key :: "string option"
  tn_private_key_password :: "string option"

record registered_database = instance_database +
  rd_remark :: string
  rd_sync_at :: "time option"

record instance_store =
  is_instances :: "instance_row list"
  is_tags :: "instance_tag list"
  is_tunnels :: "ssh_tunnel list"
  is_databases :: "registered_database list"
  is_groups :: "rgroup_row list"
  is_links :: "(int \<times> int) list"
  is_records :: "license_record list"
  is_next_id :: int

type_synonym 'a inst_outcome = "'a res \<times> instance_store"

text \<open>The same rows as the other components see them.\<close>

definition instance_view :: "instance_store \<Rightarrow> instance_row \<Rightarrow> db_instance" where
  "instance_view s r =
     \<lparr>in_id = ir_id r, in_name = ir_name r, in_db_type = ir_db_type r, in_is_active = ir_is_active r,
      in_resource_groups = map rg_of_row (filter (\<lambda>g. (ir_id r, rr_id g) \<in> set (is_links s)) (is_groups s))\<rparr>"

definition quota_row_of :: "instance_row \<Rightarrow> quota_row" where
  "quota_row_of r = \<lparr>qi_id = ir_id r, qi_is_active = ir_is_active r, qi_suspended = ir_suspended r,
     qi_created_at = ir_created_at r\<rparr>"

definition license_view :: "instance_store \<Rightarrow> license_store" where
  "license_view s = \<lparr>ls_records = is_records s, ls_instances = map quota_row_of (is_instances s), ls_next_id = is_next_id s\<rparr>"

definition with_license :: "license_store \<Rightarrow> instance_store \<Rightarrow> instance_store" where
  "with_license l s = s\<lparr>is_records := ls_records l, is_next_id := ls_next_id l\<rparr>"

definition load_instance_row :: "instance_store \<Rightarrow> int \<Rightarrow> instance_row res" where
  "load_instance_row s iid =
     (case row_get ir_id iid (is_instances s) of
        None \<Rightarrow> Inl (not_found_exc (TextMsg ''instance'')) | Some r \<Rightarrow> Inr r)"

definition groups_of_instance :: "instance_store \<Rightarrow> int \<Rightarrow> int list" where
  "groups_of_instance s iid = map rr_id (filter (\<lambda>g. (iid, rr_id g) \<in> set (is_links s)) (is_groups s))"

definition tags_of_instance :: "instance_store \<Rightarrow> int \<Rightarrow> instance_tag list" where
  "tags_of_instance s iid = filter (\<lambda>t. it_instance_id t = iid) (is_tags s)"

text \<open>\<open>select(ResourceGroup).where(id.in_(ids))\<close>.\<close>

definition known_groups :: "instance_store \<Rightarrow> int list \<Rightarrow> int list" where
  "known_groups s ids = filter (\<lambda>g. g \<in> set ids) (map rr_id (is_groups s))"

definition constraint_violation :: exc where "constraint_violation = RawException (EngineRaised ''IntegrityError'')"

section \<open>Requests\<close>

definition DB_TYPES :: "string list" where
  "DB_TYPES = [''mysql'', ''tidb'', ''pgsql'', ''oracle'', ''mongo'', ''redis'', ''clickhouse'', ''elasticsearch'',
     ''opensearch'', ''mssql'', ''cassandra'', ''doris'', ''starrocks'']"

definition port_range :: "int \<Rightarrow> bool" where "port_range v \<longleftrightarrow> 1 \<le> v \<and> v \<le> 65535"

definition type_valid :: "string \<Rightarrow> bool" where "type_valid v \<longleftrightarrow> v \<in> {''master'', ''slave''}"

definition db_type_valid :: "string \<Rightarrow> bool" where "db_type_valid v \<longleftrightarrow> py_lower v \<in> set DB_TYPES"

record instance_form =
  if_name :: string
  if_type :: string
  if_db_type :: string
  if_mode :: string
  if_host :: string
  if_port :: int
  if_user :: string
  if_password :: string
  if_is_ssl :: bool
  if_db_name :: string
  if_show_db_name_regex :: string
  if_remark :: string
  if_tunnel_id :: "int option"
  if_resource_group_ids :: "int list"
  if_tags :: "(string \<times> string) list"

definition instance_form_valid :: "instance_form \<Rightarrow> bool" where
  "instance_form_valid f \<longleftrightarrow> db_type_valid (if_db_type f) \<and> type_valid (if_type f) \<and> port_range (if_port f)"

record instance_update =
  iu_name :: "string option"
  iu_type :: "string option"
  iu_host :: "string option"
  iu_port :: "int option"
  iu_user :: "string option"
  iu_password :: "string option"
  iu_is_ssl :: "bool option"
  iu_db_name :: "string option"
  iu_show_db_name_regex :: "string option"
  iu_remark :: "string option"
  iu_tunnel_id :: "int option"
  iu_resource_group_ids :: "int list option"
  iu_tags :: "(string \<times> string) list option"
  iu_is_active :: "bool option"

section \<open>Constraints of the row\<close>

definition instance_row_fits :: "instance_row \<Rightarrow> bool" where
  "instance_row_fits r \<longleftrightarrow> type_valid (ir_type r) \<and> - (2 ^ 31) \<le> ir_port r \<and> ir_port r < 2 ^ 31 \<and>
     fits [(50, ir_name r), (20, ir_db_type r), (10, ir_mode r), (200, ir_host r), (200, ir_user r),
       (500, ir_password r), (64, ir_db_name r), (1024, ir_show_db_name_regex r), (500, ir_remark r)]"

definition tags_fit :: "(string \<times> string) list \<Rightarrow> bool" where
  "tags_fit tags \<longleftrightarrow> list_all (\<lambda>(k, v). fits [(50, k), (200, v)]) tags"

definition tunnel_known :: "instance_store \<Rightarrow> int option \<Rightarrow> bool" where
  "tunnel_known s t = (case t of None \<Rightarrow> True | Some i \<Rightarrow> i \<in> tn_id ` set (is_tunnels s))"

definition name_taken :: "instance_store \<Rightarrow> int \<Rightarrow> string \<Rightarrow> bool" where
  "name_taken s iid n = list_ex (\<lambda>x. ir_id x \<noteq> iid \<and> ir_name x = n) (is_instances s)"

text \<open>What the database accepts of a row and its tags: the exception of a flush otherwise.\<close>

definition flush_instance :: "instance_store \<Rightarrow> instance_row \<Rightarrow> (string \<times> string) list \<Rightarrow> unit res" where
  "flush_instance s r tags =
     raise_if (\<not> instance_row_fits r \<or> \<not> tags_fit tags) data_error
     (raise_if (name_taken s (ir_id r) (ir_name r) \<or> \<not> tunnel_known s (ir_tunnel_id r)) constraint_violation (Inr ()))"

fun number_tags :: "int \<Rightarrow> int \<Rightarrow> (string \<times> string) list \<Rightarrow> instance_tag list" where
  "number_tags i iid [] = []"
| "number_tags i iid ((k, v) # tags) = \<lparr>it_id = i, it_key = k, it_value = v, it_instance_id = iid\<rparr> # number_tags (i + 1) iid tags"

section \<open>Instances\<close>

definition new_instance :: "'t auth_env \<Rightarrow> instance_form \<Rightarrow> int \<Rightarrow> time \<Rightarrow> instance_row" where
  "new_instance env f i now =
     \<lparr>ir_id = i, ir_name = if_name f, ir_type = if_type f, ir_db_type = if_db_type f, ir_mode = if_mode f,
      ir_host = if_host f, ir_port = if_port f, ir_user = encrypt_field env (if_user f),
      ir_password = encrypt_field env (if_password f), ir_is_ssl = if_is_ssl f, ir_db_name = if_db_name f,
      ir_show_db_name_regex = if_show_db_name_regex f, ir_remark = if_remark f, ir_is_active = True,
      ir_suspended = False, ir_tunnel_id = if_tunnel_id f, ir_created_at = now\<rparr>"

definition within_quota :: "license_env \<Rightarrow> time \<Rightarrow> instance_store \<Rightarrow> (instance_store \<Rightarrow> 'a inst_outcome) \<Rightarrow> 'a inst_outcome" where
  "within_quota lenv now s k =
     (case enforce_max_instances lenv now (license_view s) of
        (Inl e, l) \<Rightarrow> (Inl e, with_license l s)
      | (Inr _, l) \<Rightarrow> k (with_license l s))"

definition add_instance :: "instance_row \<Rightarrow> int list \<Rightarrow> (string \<times> string) list \<Rightarrow> instance_store \<Rightarrow> instance_store" where
  "add_instance r groups tags s =
     s\<lparr>is_instances := is_instances s @ [r],
       is_links := is_links s @ map (Pair (ir_id r)) (known_groups s groups),
       is_tags := is_tags s @ number_tags (is_next_id s + 1) (ir_id r) tags,
       is_next_id := is_next_id s + 1 + int (length tags)\<rparr>"

definition create_instance :: "license_env \<Rightarrow> 't auth_env \<Rightarrow> time \<Rightarrow> instance_form \<Rightarrow> instance_store \<Rightarrow> instance_row inst_outcome" where
  "create_instance lenv env now f s =
     within_quota lenv now s (\<lambda>s.
       if list_ex (\<lambda>x. ir_name x = if_name f) (is_instances s) then (Inl conflict_exc, s)
       else
         let r = new_instance env f (is_next_id s) now in
         (case flush_instance s r (if_tags f) of
            Inl e \<Rightarrow> (Inl e, s)
          | Inr _ \<Rightarrow> (Inr r, add_instance r (if_resource_group_ids f) (if_tags f) s)))"

text \<open>\<open>model_dump(exclude_none=True)\<close>: a null leaves the column.\<close>

definition or_keep :: "'a \<Rightarrow> 'a option \<Rightarrow> 'a" where
  "or_keep old v = (case v of None \<Rightarrow> old | Some x \<Rightarrow> x)"

definition updated_instance :: "'t auth_env \<Rightarrow> instance_update \<Rightarrow> instance_row \<Rightarrow> instance_row" where
  "updated_instance env v r = r
     \<lparr>ir_name := or_keep (ir_name r) (iu_name v), ir_type := or_keep (ir_type r) (iu_type v),
      ir_host := or_keep (ir_host r) (iu_host v), ir_port := or_keep (ir_port r) (iu_port v),
      ir_user := or_keep (ir_user r) (map_option (encrypt_field env) (iu_user v)),
      ir_password := or_keep (ir_password r) (map_option (encrypt_field env) (iu_password v)),
      ir_is_ssl := or_keep (ir_is_ssl r) (iu_is_ssl v), ir_db_name := or_keep (ir_db_name r) (iu_db_name v),
      ir_show_db_name_regex := or_keep (ir_show_db_name_regex r) (iu_show_db_name_regex v),
      ir_remark := or_keep (ir_remark r) (iu_remark v),
      ir_tunnel_id := (case iu_tunnel_id v of None \<Rightarrow> ir_tunnel_id r | Some t \<Rightarrow> Some t),
      ir_is_active := or_keep (ir_is_active r) (iu_is_active v)\<rparr>"

definition put_instance :: "instance_row \<Rightarrow> instance_store \<Rightarrow> instance_store" where
  "put_instance r s = s\<lparr>is_instances := row_put ir_id r (is_instances s)\<rparr>"

definition set_groups :: "int \<Rightarrow> int list option \<Rightarrow> instance_store \<Rightarrow> instance_store" where
  "set_groups iid groups s =
     (case groups of None \<Rightarrow> s
      | Some ids \<Rightarrow> s\<lparr>is_links := filter (\<lambda>l. fst l \<noteq> iid) (is_links s) @ map (Pair iid) (known_groups s ids)\<rparr>)"

definition set_tags :: "int \<Rightarrow> (string \<times> string) list option \<Rightarrow> instance_store \<Rightarrow> instance_store" where
  "set_tags iid tags s =
     (case tags of None \<Rightarrow> s
      | Some ts \<Rightarrow> s\<lparr>is_tags := filter (\<lambda>t. it_instance_id t \<noteq> iid) (is_tags s) @ number_tags (is_next_id s) iid ts,
          is_next_id := is_next_id s + int (length ts)\<rparr>)"

text \<open>One flush writes the new tags before it deletes the old ones.\<close>

definition tag_keys_clash :: "instance_store \<Rightarrow> int \<Rightarrow> (string \<times> string) list \<Rightarrow> bool" where
  "tag_keys_clash s iid tags = list_ex (\<lambda>t. it_key t \<in> fst ` set tags) (tags_of_instance s iid)"

definition update_instance ::
    "'t auth_env \<Rightarrow> int \<Rightarrow> instance_update \<Rightarrow> instance_store \<Rightarrow> (instance_row \<times> instance_store) res" where
  "update_instance env iid v s =
     rbind (load_instance_row s iid) (\<lambda>r.
     let r' = updated_instance env v r; tags = (case iu_tags v of None \<Rightarrow> [] | Some ts \<Rightarrow> ts) in
     rbind (flush_instance s r' tags) (\<lambda>_.
     raise_if (tag_keys_clash s iid tags) constraint_violation
     (Inr (r', set_tags iid (iu_tags v) (set_groups iid (iu_resource_group_ids v) (put_instance r' s))))))"

definition delete_instance :: "int \<Rightarrow> instance_store \<Rightarrow> instance_store res" where
  "delete_instance iid s =
     rbind (load_instance_row s iid) (\<lambda>r.
     raise_if (groups_of_instance s iid \<noteq> []) conflict_exc
     (Inr (put_instance (r\<lparr>ir_is_active := False\<rparr>) s)))"

text \<open>
  \<open>ilike\<close> and the order of names are those of the database. A user without the permission for
  all instances joins the links a second time when a resource group is given, which the
  database refuses because the table has no second name.
\<close>

record list_query =
  lq_page :: nat
  lq_page_size :: nat
  lq_db_type :: "string option"
  lq_search :: "string option"
  lq_resource_group_id :: "int option"
  lq_include_inactive :: bool

definition sees_all_instances :: "operator \<Rightarrow> bool" where
  "sees_all_instances u \<longleftrightarrow> op_is_superuser u \<or> has_perm u ''query_all_instances''"

definition instance_filter :: "(string \<Rightarrow> string \<Rightarrow> bool) \<Rightarrow> list_query \<Rightarrow> instance_row \<Rightarrow> bool" where
  "instance_filter ilike q r \<longleftrightarrow>
     (lq_include_inactive q \<or> ir_is_active r)
     \<and> (truthy (lq_db_type q) \<longrightarrow> ir_db_type r = py_lower (the (lq_db_type q)))
     \<and> (truthy (lq_search q) \<longrightarrow> ilike (''%'' @ the (lq_search q) @ ''%'') (ir_name r))"

definition ambiguous_table :: exc where "ambiguous_table = RawException (EngineRaised ''DuplicateAliasError'')"

definition list_rows ::
    "(string \<Rightarrow> string \<Rightarrow> bool) \<Rightarrow> operator \<Rightarrow> list_query \<Rightarrow> instance_store \<Rightarrow> instance_row list res" where
  "list_rows ilike u q s =
     (let rows = filter (instance_filter ilike q) (is_instances s);
          by_group = (case lq_resource_group_id q of None \<Rightarrow> None | Some g \<Rightarrow> if g = 0 then None else Some g)
      in if sees_all_instances u then
           Inr (case by_group of None \<Rightarrow> rows
                | Some g \<Rightarrow> concat (map (\<lambda>r. map (\<lambda>_. r) (filter (\<lambda>l. l = (ir_id r, g)) (is_links s))) rows))
         else if op_resource_groups u = [] then Inr []
         else if by_group \<noteq> None then Inl ambiguous_table
         else Inr (filter (\<lambda>r. list_ex (\<lambda>g. (ir_id r, g) \<in> set (is_links s)) (op_resource_groups u)) rows))"

definition list_instances ::
    "(string \<Rightarrow> string \<Rightarrow> bool) \<Rightarrow> (string \<Rightarrow> nat) \<Rightarrow> operator \<Rightarrow> list_query \<Rightarrow> instance_store
     \<Rightarrow> (nat \<times> instance_row list) res" where
  "list_instances ilike rank u q s =
     rbind (list_rows ilike u q s) (\<lambda>rows.
     Inr (length rows, page_of (lq_page q) (lq_page_size q) (sort_key (\<lambda>r. rank (ir_name r)) rows)))"

text \<open>The response shows the user name in clear and no password.\<close>

record instance_response =
  rp_id :: int
  rp_name :: string
  rp_type :: string
  rp_db_type :: string
  rp_mode :: string
  rp_host :: string
  rp_port :: int
  rp_user :: string
  rp_is_ssl :: bool
  rp_db_name :: string
  rp_show_db_name_regex :: string
  rp_remark :: string
  rp_is_active :: bool
  rp_suspended :: bool
  rp_tunnel_id :: "int option"
  rp_resource_group_ids :: "int list"
  rp_tags :: "(string \<times> string) list"

definition to_response :: "'t auth_env \<Rightarrow> instance_store \<Rightarrow> instance_row \<Rightarrow> instance_response" where
  "to_response env s r =
     \<lparr>rp_id = ir_id r, rp_name = ir_name r, rp_type = ir_type r, rp_db_type = ir_db_type r, rp_mode = ir_mode r,
      rp_host = ir_host r, rp_port = ir_port r, rp_user = decrypt_field env (ir_user r), rp_is_ssl = ir_is_ssl r,
      rp_db_name = ir_db_name r, rp_show_db_name_regex = ir_show_db_name_regex r, rp_remark = ir_remark r,
      rp_is_active = ir_is_active r, rp_suspended = ir_suspended r, rp_tunnel_id = ir_tunnel_id r,
      rp_resource_group_ids = groups_of_instance s (ir_id r),
      rp_tags = map (\<lambda>t. (it_key t, it_value t)) (tags_of_instance s (ir_id r))\<rparr>"

section \<open>Endpoints of instances\<close>

definition ensure_instance_access :: "operator \<Rightarrow> int \<Rightarrow> instance_store \<Rightarrow> instance_row res" where
  "ensure_instance_access u iid s =
     rbind (load_instance_row s iid) (\<lambda>r.
     raise_if (\<not> sees_all_instances u \<and> set (op_resource_groups u) \<inter> set (groups_of_instance s iid) = {})
       (http 403 ''instance outside the resource groups'') (Inr r))"

definition validate_resource_group_scope :: "operator \<Rightarrow> int list \<Rightarrow> unit res" where
  "validate_resource_group_scope u ids =
     raise_if (ids \<noteq> [] \<and> \<not> sees_all_instances u \<and> \<not> set ids \<subseteq> set (op_resource_groups u))
       (http 403 ''resource group'') (Inr ())"

definition list_endpoint where
  "list_endpoint env ilike rank u q s =
     rbind (list_instances ilike rank u q s) (\<lambda>(total, rows). Inr (total, map (to_response env s) rows))"

definition detail_endpoint :: "'t auth_env \<Rightarrow> operator \<Rightarrow> int \<Rightarrow> instance_store \<Rightarrow> instance_response res" where
  "detail_endpoint env u iid s = rbind (ensure_instance_access u iid s) (\<lambda>r. Inr (to_response env s r))"

definition create_endpoint ::
    "license_env \<Rightarrow> 't auth_env \<Rightarrow> time \<Rightarrow> operator \<Rightarrow> instance_form \<Rightarrow> instance_store \<Rightarrow> instance_response inst_outcome" where
  "create_endpoint lenv env now u f s =
     (case require_perm ''instance_manage'' u of
        Inl e \<Rightarrow> (Inl e, s)
      | Inr _ \<Rightarrow>
          if \<not> instance_form_valid f then (Inl (http 422 ''form''), s)
          else within_quota lenv now s (\<lambda>s.
            case validate_resource_group_scope u (if_resource_group_ids f) of
              Inl e \<Rightarrow> (Inl e, s)
            | Inr _ \<Rightarrow>
                (case create_instance lenv env now (f\<lparr>if_db_type := py_lower (if_db_type f)\<rparr>) s of
                   (Inl e, s) \<Rightarrow> (Inl e, s)
                 | (Inr r, s) \<Rightarrow> (Inr (to_response env s r), s))))"

definition update_endpoint ::
    "'t auth_env \<Rightarrow> operator \<Rightarrow> int \<Rightarrow> instance_update \<Rightarrow> instance_store \<Rightarrow> (instance_response \<times> instance_store) res" where
  "update_endpoint env u iid v s =
     rbind (require_perm ''instance_manage'' u) (\<lambda>_.
     rbind (ensure_instance_access u iid s) (\<lambda>_.
     rbind (validate_resource_group_scope u (case iu_resource_group_ids v of None \<Rightarrow> [] | Some ids \<Rightarrow> ids)) (\<lambda>_.
     rbind (update_instance env iid v s) (\<lambda>(r, s'). Inr (to_response env s' r, s')))))"

definition delete_endpoint :: "operator \<Rightarrow> int \<Rightarrow> instance_store \<Rightarrow> instance_store res" where
  "delete_endpoint u iid s =
     rbind (require_perm ''instance_manage'' u) (\<lambda>_.
     rbind (ensure_instance_access u iid s) (\<lambda>_. delete_instance iid s))"

section \<open>Names from an engine\<close>

text \<open>The first cell of each row; a row without cells raises.\<close>

fun first_text :: "result_row \<Rightarrow> string option" where
  "first_text (RowTuple (c # _)) = Some (case c of None \<Rightarrow> ''None'' | Some t \<Rightarrow> t)"
| "first_text (RowDict ((_, c) # _)) = Some (case c of None \<Rightarrow> ''None'' | Some t \<Rightarrow> t)"
| "first_text _ = None"

text \<open>\<open>Inl\<close> is the text of an exception.\<close>

definition names_of_reply :: "string + result_set \<Rightarrow> string + string list" where
  "names_of_reply reply =
     rbind reply (\<lambda>rs.
     if qs_error rs \<noteq> [] then Inl (qs_error rs)
     else case those (map first_text (qs_rows rs)) of None \<Rightarrow> Inl ''index out of range'' | Some names \<Rightarrow> Inr names)"

text \<open>\<open>get_databases\<close> and \<open>get_tables\<close>: the reply of the engine or an exception.\<close>

definition engine_names :: "string + result_set \<Rightarrow> string list res" where
  "engine_names reply = (case names_of_reply reply of Inl t \<Rightarrow> Inl (RawException (EngineRaised t)) | Inr names \<Rightarrow> Inr names)"

section \<open>Registered databases\<close>

definition databases_of :: "instance_store \<Rightarrow> int \<Rightarrow> registered_database list" where
  "databases_of s iid = filter (\<lambda>d. db_instance_id d = iid) (is_databases s)"

definition list_databases :: "(string \<Rightarrow> nat) \<Rightarrow> int \<Rightarrow> bool \<Rightarrow> instance_store \<Rightarrow> registered_database list" where
  "list_databases rank iid include_inactive s =
     sort_key (\<lambda>d. rank (db_db_name d)) (filter (\<lambda>d. include_inactive \<or> db_is_active d) (databases_of s iid))"

definition database_fits :: "registered_database \<Rightarrow> bool" where
  "database_fits d \<longleftrightarrow> fits [(64, db_db_name d), (200, rd_remark d)]"

definition add_database :: "int \<Rightarrow> string \<Rightarrow> string field \<Rightarrow> instance_store \<Rightarrow> (registered_database \<times> instance_store) res" where
  "add_database iid name remark s =
     rbind (load_instance_row s iid) (\<lambda>_.
     raise_if (list_ex (\<lambda>d. db_db_name d = name) (databases_of s iid)) conflict_exc
     (let d = \<lparr>db_id = is_next_id s, db_instance_id = iid, db_db_name = py_strip name, db_is_active = True,
               rd_remark = insert_default [] remark, rd_sync_at = None\<rparr> in
      raise_if (\<not> database_fits d) data_error
      (raise_if (list_ex (\<lambda>x. db_db_name x = db_db_name d) (databases_of s iid)) constraint_violation
      (Inr (d, s\<lparr>is_databases := is_databases s @ [d], is_next_id := is_next_id s + 1\<rparr>)))))"

definition database_row :: "instance_store \<Rightarrow> int \<Rightarrow> int \<Rightarrow> registered_database res" where
  "database_row s iid did =
     (case row_get db_id did (databases_of s iid) of
        None \<Rightarrow> Inl (not_found_exc (TextMsg ''record'')) | Some d \<Rightarrow> Inr d)"

definition update_database ::
    "int \<Rightarrow> int \<Rightarrow> string option \<Rightarrow> bool option \<Rightarrow> instance_store \<Rightarrow> (registered_database \<times> instance_store) res" where
  "update_database iid did remark active s =
     rbind (database_row s iid did) (\<lambda>d.
     let d' = d\<lparr>db_is_active := or_keep (db_is_active d) active, rd_remark := or_keep (rd_remark d) remark\<rparr> in
     raise_if (\<not> database_fits d') data_error (Inr (d', s\<lparr>is_databases := row_put db_id d' (is_databases s)\<rparr>)))"

definition delete_database :: "int \<Rightarrow> int \<Rightarrow> instance_store \<Rightarrow> instance_store res" where
  "delete_database iid did s =
     rbind (database_row s iid did) (\<lambda>_.
     Inr (s\<lparr>is_databases := filter (\<lambda>d. db_id d \<noteq> did) (is_databases s)\<rparr>))"

section \<open>Synchronisation with the engine\<close>

datatype sync_report = SyncFailed string | Synced nat nat nat nat

text \<open>The remark by which an earlier version marked databases that it disabled.\<close>

definition SYSTEM_REMARK :: string where "SYSTEM_REMARK = ''system database (disabled by default)''"

definition refreshed_database :: "time \<Rightarrow> registered_database \<Rightarrow> registered_database" where
  "refreshed_database now d =
     (let d1 = d\<lparr>rd_sync_at := Some now\<rparr> in
      if rd_remark d1 = SYSTEM_REMARK then d1\<lparr>db_is_active := True, rd_remark := []\<rparr> else d1)"

fun number_databases :: "int \<Rightarrow> int \<Rightarrow> time \<Rightarrow> string list \<Rightarrow> registered_database list" where
  "number_databases i iid now [] = []"
| "number_databases i iid now (n # ns) =
     \<lparr>db_id = i, db_instance_id = iid, db_db_name = n, db_is_active = True, rd_remark = [], rd_sync_at = Some now\<rparr>
       # number_databases (i + 1) iid now ns"

definition REDIS_NAMES :: "string list" where "REDIS_NAMES = map (\<lambda>n. py_str_int (int n)) [0..<16]"

definition visible_names :: "string \<Rightarrow> string + result_set \<Rightarrow> string + string list" where
  "visible_names db_type reply = (if db_type = ''redis'' then Inr REDIS_NAMES else names_of_reply reply)"

definition synced_databases :: "time \<Rightarrow> int \<Rightarrow> string list \<Rightarrow> instance_store \<Rightarrow> registered_database list" where
  "synced_databases now iid visible s =
     map (\<lambda>d. if db_instance_id d = iid then refreshed_database now d else d)
       (filter (\<lambda>d. db_instance_id d = iid \<longrightarrow> db_db_name d \<in> set visible) (is_databases s))"

definition fresh_names :: "int \<Rightarrow> string list \<Rightarrow> instance_store \<Rightarrow> string list" where
  "fresh_names iid visible s = filter (\<lambda>n. n \<notin> db_db_name ` set (databases_of s iid)) visible"

definition sync_counts :: "int \<Rightarrow> string list \<Rightarrow> nat \<Rightarrow> instance_store \<Rightarrow> sync_report" where
  "sync_counts iid visible m s =
     Synced (length (fresh_names iid visible s))
       (length (filter (\<lambda>n. n \<in> db_db_name ` set (databases_of s iid)) visible))
       (length (filter (\<lambda>d. db_db_name d \<notin> set visible) (databases_of s iid))) m"

definition store_names :: "time \<Rightarrow> int \<Rightarrow> string list \<Rightarrow> instance_store \<Rightarrow> (sync_report \<times> instance_store) res" where
  "store_names now iid names s =
     (let visible = filter (\<lambda>n. n \<noteq> []) names; fresh = fresh_names iid visible s;
          new = number_databases (is_next_id s) iid now fresh in
      raise_if (\<not> list_all database_fits new) data_error
      (raise_if (\<not> distinct fresh) constraint_violation
      (Inr (sync_counts iid visible (length names) s,
            s\<lparr>is_databases := synced_databases now iid visible s @ new, is_next_id := is_next_id s + int (length fresh)\<rparr>))))"

definition sync_from_engine ::
    "(db_instance \<Rightarrow> exc + (string + result_set)) \<Rightarrow> time \<Rightarrow> int \<Rightarrow> instance_store \<Rightarrow> (sync_report \<times> instance_store) res" where
  "sync_from_engine engine now iid s =
     (case row_get ir_id iid (filter ir_is_active (is_instances s)) of
        None \<Rightarrow> Inl (not_found_exc (TextMsg ''instance''))
      | Some r \<Rightarrow>
          rbind (engine (instance_view s r)) (\<lambda>reply.
          case visible_names (ir_db_type r) reply of
            Inl t \<Rightarrow> Inr (SyncFailed t, s)
          | Inr names \<Rightarrow> store_names now iid names s))"

section \<open>Endpoints of databases\<close>

definition registered_endpoint ::
    "(string \<Rightarrow> nat) \<Rightarrow> operator \<Rightarrow> int \<Rightarrow> bool \<Rightarrow> instance_store \<Rightarrow> registered_database list res" where
  "registered_endpoint rank u iid include_inactive s =
     rbind (ensure_instance_access u iid s) (\<lambda>_.
     Inr (list_databases rank iid (op_is_superuser u \<or> include_inactive) s))"

definition add_database_endpoint ::
    "operator \<Rightarrow> int \<Rightarrow> string field \<Rightarrow> string field \<Rightarrow> instance_store \<Rightarrow> (registered_database \<times> instance_store) res" where
  "add_database_endpoint u iid name remark s =
     rbind (require_perm ''instance_manage'' u) (\<lambda>_.
     rbind (ensure_instance_access u iid s) (\<lambda>_.
     rbind (case name of Null \<Rightarrow> Inl (RawException (EngineRaised ''AttributeError''))
            | Absent \<Rightarrow> Inr [] | Given t \<Rightarrow> Inr (py_strip t)) (\<lambda>db_name.
     raise_if (db_name = []) (http 400 ''db_name'') (add_database iid db_name remark s))))"

definition update_database_endpoint ::
    "operator \<Rightarrow> int \<Rightarrow> int \<Rightarrow> string option \<Rightarrow> bool option \<Rightarrow> instance_store \<Rightarrow> (registered_database \<times> instance_store) res" where
  "update_database_endpoint u iid did remark active s =
     rbind (require_perm ''instance_manage'' u) (\<lambda>_.
     rbind (ensure_instance_access u iid s) (\<lambda>_. update_database iid did remark active s))"

definition delete_database_endpoint :: "operator \<Rightarrow> int \<Rightarrow> int \<Rightarrow> instance_store \<Rightarrow> instance_store res" where
  "delete_database_endpoint u iid did s =
     rbind (require_perm ''instance_manage'' u) (\<lambda>_.
     rbind (ensure_instance_access u iid s) (\<lambda>_. delete_database iid did s))"

definition sync_endpoint where
  "sync_endpoint engine now u iid s =
     rbind (require_perm ''instance_manage'' u) (\<lambda>_.
     rbind (ensure_instance_access u iid s) (\<lambda>_. sync_from_engine engine now iid s))"

text \<open>The data dictionary: access to the instance and a query privilege for the scope.\<close>

definition ensure_data_dict_access ::
    "store \<Rightarrow> date \<Rightarrow> operator \<Rightarrow> int \<Rightarrow> string \<Rightarrow> string \<Rightarrow> instance_store \<Rightarrow> instance_row res" where
  "ensure_data_dict_access st today u iid db_name tb_name s =
     rbind (ensure_instance_access u iid s) (\<lambda>r.
     raise_if (\<not> fst (check_data_dict_access st today u (instance_view s r) db_name tb_name))
       (http 403 ''data dictionary'') (Inr r))"

definition get_databases_endpoint ::
    "(string \<Rightarrow> nat) \<Rightarrow> store \<Rightarrow> date \<Rightarrow> operator \<Rightarrow> int \<Rightarrow> instance_store \<Rightarrow> registered_database list res" where
  "get_databases_endpoint rank st today u iid s =
     rbind (ensure_data_dict_access st today u iid [] [] s) (\<lambda>r.
     let registered = list_databases rank iid True s in
     if op_is_superuser u then Inr registered
     else let allowed = list_data_dict_databases st today u (instance_view s r) (map db_db_name registered)
          in Inr (filter (\<lambda>d. db_db_name d \<in> set allowed) registered))"

definition get_tables_endpoint ::
    "(db_instance \<Rightarrow> string \<Rightarrow> exc + (string + result_set)) \<Rightarrow> store \<Rightarrow> date \<Rightarrow> operator \<Rightarrow> int \<Rightarrow> string
     \<Rightarrow> instance_store \<Rightarrow> string list res" where
  "get_tables_endpoint engine st today u iid db_name s =
     rbind (ensure_data_dict_access st today u iid db_name [] s) (\<lambda>r.
     rbind (engine (instance_view s r) db_name) (\<lambda>reply.
     rbind (engine_names reply) (\<lambda>tables.
     Inr (list_data_dict_tables st today u (instance_view s r) db_name tables))))"

section \<open>Tunnels\<close>

record tunnel_form =
  tu_name :: string
  tu_host :: string
  tu_port :: int
  tu_user :: string
  tu_password :: "string option"
  tu_private_key :: "string option"
  tu_private_key_password :: "string option"

definition encrypted_option :: "'t auth_env \<Rightarrow> string option \<Rightarrow> string option" where
  "encrypted_option env v = (case v of None \<Rightarrow> None | Some t \<Rightarrow> if t = [] then None else Some (encrypt_field env t))"

definition tunnel_fits :: "ssh_tunnel \<Rightarrow> bool" where
  "tunnel_fits t \<longleftrightarrow> fits [(50, tn_name t), (200, tn_host t), (100, tn_user t)] \<and>
     (case tn_password t of None \<Rightarrow> True | Some p \<Rightarrow> length p \<le> 500) \<and>
     (case tn_private_key_password t of None \<Rightarrow> True | Some p \<Rightarrow> length p \<le> 500)"

definition create_tunnel :: "'t auth_env \<Rightarrow> tunnel_form \<Rightarrow> instance_store \<Rightarrow> (ssh_tunnel \<times> instance_store) res" where
  "create_tunnel env f s =
     raise_if (list_ex (\<lambda>t. tn_name t = tu_name f) (is_tunnels s)) conflict_exc
     (let t = \<lparr>tn_id = is_next_id s, tn_name = tu_name f, tn_host = tu_host f, tn_port = tu_port f, tn_user = tu_user f,
               tn_password = encrypted_option env (tu_password f),
               tn_private_key = encrypted_option env (tu_private_key f),
               tn_private_key_password = encrypted_option env (tu_private_key_password f)\<rparr> in
      raise_if (\<not> tunnel_fits t) data_error
      (Inr (t, s\<lparr>is_tunnels := is_tunnels s @ [t], is_next_id := is_next_id s + 1\<rparr>)))"

text \<open>The reference of the instances to a deleted tunnel is set to null.\<close>

definition delete_tunnel :: "int \<Rightarrow> instance_store \<Rightarrow> instance_store res" where
  "delete_tunnel tid s =
     (case row_get tn_id tid (is_tunnels s) of
        None \<Rightarrow> Inl (not_found_exc (TextMsg ''tunnel''))
      | Some _ \<Rightarrow> Inr (s\<lparr>is_tunnels := filter (\<lambda>t. tn_id t \<noteq> tid) (is_tunnels s),
          is_instances := map (\<lambda>r. if ir_tunnel_id r = Some tid then r\<lparr>ir_tunnel_id := None\<rparr> else r) (is_instances s)\<rparr>))"

definition create_tunnel_endpoint ::
    "'t auth_env \<Rightarrow> operator \<Rightarrow> tunnel_form \<Rightarrow> instance_store \<Rightarrow> (ssh_tunnel \<times> instance_store) res" where
  "create_tunnel_endpoint env u f s =
     rbind (require_perm ''instance_manage'' u) (\<lambda>_.
     raise_if (\<not> port_range (tu_port f)) (http 422 ''port'') (create_tunnel env f s))"

definition delete_tunnel_endpoint :: "operator \<Rightarrow> int \<Rightarrow> instance_store \<Rightarrow> instance_store res" where
  "delete_tunnel_endpoint u tid s = rbind (require_perm ''instance_manage'' u) (\<lambda>_. delete_tunnel tid s)"

section \<open>Requests\<close>

text \<open>One request that may change the tables; an exception leaves what was committed before it.\<close>

datatype instance_request =
    CreateInstance instance_form
  | UpdateInstance int instance_update
  | DeleteInstance int
  | AddDatabase int "string field" "string field"
  | UpdateDatabase int int "string option" "bool option"
  | DeleteDatabase int int
  | SyncDatabases int
  | CreateTunnel tunnel_form
  | DeleteTunnel int

definition committed :: "instance_store \<Rightarrow> instance_store res \<Rightarrow> instance_store" where
  "committed s r = (case r of Inl _ \<Rightarrow> s | Inr s' \<Rightarrow> s')"

fun instance_step ::
    "license_env \<Rightarrow> 't auth_env \<Rightarrow> (db_instance \<Rightarrow> exc + (string + result_set)) \<Rightarrow> time \<Rightarrow> operator \<Rightarrow> instance_request
     \<Rightarrow> instance_store \<Rightarrow> instance_store" where
  "instance_step lenv env engine now u (CreateInstance f) s = snd (create_endpoint lenv env now u f s)"
| "instance_step lenv env engine now u (UpdateInstance i v) s = committed s (map_sum id snd (update_endpoint env u i v s))"
| "instance_step lenv env engine now u (DeleteInstance i) s = committed s (delete_endpoint u i s)"
| "instance_step lenv env engine now u (AddDatabase i n r) s =
     committed s (map_sum id snd (add_database_endpoint u i n r s))"
| "instance_step lenv env engine now u (UpdateDatabase i d r a) s =
     committed s (map_sum id snd (update_database_endpoint u i d r a s))"
| "instance_step lenv env engine now u (DeleteDatabase i d) s = committed s (delete_database_endpoint u i d s)"
| "instance_step lenv env engine now u (SyncDatabases i) s =
     committed s (map_sum id snd (sync_endpoint engine now u i s))"
| "instance_step lenv env engine now u (CreateTunnel f) s = committed s (map_sum id snd (create_tunnel_endpoint env u f s))"
| "instance_step lenv env engine now u (DeleteTunnel i) s = committed s (delete_tunnel_endpoint u i s)"

end
