(* ===== verification/Instance_Facts.thy ===== *)
theory Instance_Facts
  imports Instance_Service
begin

text \<open>
  Lemmas on the operations of \<open>Instance_Service\<close>: the well-formed tables (\<open>instances_wf\<close>) and what
  each operation does to them, the branches of the endpoints.
\<close>

section \<open>Well-formed tables\<close>

definition instance_ids :: "instance_store \<Rightarrow> int list" where "instance_ids s = map ir_id (is_instances s)"

definition rows_wf :: "int \<Rightarrow> instance_row list \<Rightarrow> ssh_tunnel list \<Rightarrow> bool" where
  "rows_wf n rows tunnels \<longleftrightarrow> 0 < n \<and> keys_wf n (map ir_id rows) \<and> distinct (map ir_name rows)
     \<and> refs_wf (map ir_tunnel_id rows) (map tn_id tunnels)
     \<and> keys_wf n (map tn_id tunnels) \<and> distinct (map tn_name tunnels)"

definition tags_wf :: "int \<Rightarrow> int list \<Rightarrow> instance_tag list \<Rightarrow> bool" where
  "tags_wf n ids tags \<longleftrightarrow> keys_wf n (map it_id tags) \<and> distinct (map (\<lambda>t. (it_instance_id t, it_key t)) tags)
     \<and> it_instance_id ` set tags \<subseteq> set ids"

definition databases_wf :: "int \<Rightarrow> int list \<Rightarrow> registered_database list \<Rightarrow> bool" where
  "databases_wf n ids dbs \<longleftrightarrow> keys_wf n (map db_id dbs) \<and> distinct (map (\<lambda>d. (db_instance_id d, db_db_name d)) dbs)
     \<and> db_instance_id ` set dbs \<subseteq> set ids"

definition group_links_wf :: "int list \<Rightarrow> int list \<Rightarrow> (int \<times> int) list \<Rightarrow> bool" where
  "group_links_wf ids groups links \<longleftrightarrow> distinct groups \<and> distinct links \<and> links_wf links ids groups"

definition instances_wf :: "instance_store \<Rightarrow> bool" where
  "instances_wf s \<longleftrightarrow> rows_wf (is_next_id s) (is_instances s) (is_tunnels s)
     \<and> tags_wf (is_next_id s) (instance_ids s) (is_tags s)
     \<and> databases_wf (is_next_id s) (instance_ids s) (is_databases s)
     \<and> group_links_wf (instance_ids s) (map rr_id (is_groups s)) (is_links s)"

lemma parts_wf_mono:
  "rows_wf n rows tunnels \<Longrightarrow> n \<le> m \<Longrightarrow> rows_wf m rows tunnels"
  "tags_wf n ids tags \<Longrightarrow> n \<le> m \<Longrightarrow> set ids \<subseteq> set ids' \<Longrightarrow> tags_wf m ids' tags"
  "databases_wf n ids dbs \<Longrightarrow> n \<le> m \<Longrightarrow> set ids \<subseteq> set ids' \<Longrightarrow> databases_wf m ids' dbs"
  "group_links_wf ids groups links \<Longrightarrow> set ids \<subseteq> set ids' \<Longrightarrow> group_links_wf ids' groups links"
  by (auto simp: rows_wf_def tags_wf_def databases_wf_def group_links_wf_def intro: keys_wf_mono links_wf_mono)

lemma keys_wf_upto:
  assumes "keys_wf n ks" "0 < n" "n \<le> i" "j < m" "n \<le> m"
  shows "keys_wf m (ks @ [i..j])"
proof -
  have k: "0 < k \<and> k < n" if "k \<in> set ks" for k using assms(1) that by (simp add: keys_wf_def list_all_iff)
  have "distinct (ks @ [i..j])" using assms(1,3) k by (fastforce simp: keys_wf_def)
  moreover have "0 < x \<and> x < m" if "x \<in> set (ks @ [i..j])" for x
    using that k [of x] assms(2-5) by auto
  ultimately show ?thesis by (simp only: keys_wf_def list_all_iff) blast
qed

lemma distinct_key_put:
  assumes "distinct (map key rows)" "distinct (map f rows)" "\<forall>x\<in>set rows. key x \<noteq> key r \<longrightarrow> f x \<noteq> f r"
  shows "distinct (map f (row_put key r rows))"
proof -
  have "distinct (map key (row_put key r rows))" using assms(1) by (simp add: map_key_row_put)
  then have "distinct (row_put key r rows)" by (simp add: distinct_map)
  moreover have "x = y" if "x \<in> set (row_put key r rows)" "y \<in> set (row_put key r rows)" "f x = f y" for x y
  proof -
    have c: "z = r \<or> z \<in> set rows \<and> key z \<noteq> key r" if "z \<in> set (row_put key r rows)" for z
      using that by (auto simp: row_put_def split: if_splits)
    have i: "inj_on f (set rows)" using assms(2) by (simp add: distinct_map)
    show "x = y" using c [OF that(1)] c [OF that(2)] that(3) assms(3) inj_onD [OF i] by metis
  qed
  ultimately show ?thesis by (simp add: distinct_map inj_on_def)
qed

lemma upto_Suc: "i # [i + 1..i + int n] = [i..i + int n]"
  by (simp add: upto.simps)

lemma number_tags_simps:
  "map it_id (number_tags i iid ts) = [i..i + int (length ts) - 1]"
  "map it_key (number_tags i iid ts) = map fst ts"
  "map (\<lambda>t. (it_instance_id t, it_key t)) (number_tags i iid ts) = map (Pair iid \<circ> fst) ts"
  "map (\<lambda>t. (it_key t, it_value t)) (number_tags i iid ts) = ts"
  "t \<in> set (number_tags i iid ts) \<Longrightarrow> it_instance_id t = iid \<and> it_key t \<in> fst ` set ts"
  by (induction i iid ts rule: number_tags.induct) (auto simp: algebra_simps upto_Suc)

lemma number_databases_simps:
  "map db_id (number_databases i iid now ns) = [i..i + int (length ns) - 1]"
  "map db_db_name (number_databases i iid now ns) = ns"
  "map (\<lambda>d. (db_instance_id d, db_db_name d)) (number_databases i iid now ns) = map (Pair iid) ns"
  "length (number_databases i iid now ns) = length ns"
  "d \<in> set (number_databases i iid now ns) \<Longrightarrow> db_instance_id d = iid \<and> db_is_active d \<and> rd_remark d = []"
  by (induction i iid now ns rule: number_databases.induct) (auto simp: algebra_simps upto_Suc)

section \<open>The licence check\<close>

lemma license_status_frame:
  assumes "get_license_status lenv now l = (info, l')"
  shows "ls_instances l' = ls_instances l" "ls_next_id l \<le> ls_next_id l'"
  using assms
  by (auto simp: get_license_status_def ensure_trial_def note_check_def put_record_def add_record_def Let_def
      split: prod.splits option.splits if_splits bool.splits)

lemma enforce_frame:
  assumes "enforce_max_instances lenv now l = (r, l')"
  shows "ls_instances l' = ls_instances l" "ls_next_id l \<le> ls_next_id l'"
  using assms license_status_frame [of lenv now l]
  by (auto simp: enforce_max_instances_def enforce_limit_def Let_def split: prod.splits)

lemma instances_wf_license: "instances_wf s \<Longrightarrow> is_next_id s \<le> ls_next_id l \<Longrightarrow> instances_wf (with_license l s)"
  by (auto simp: instances_wf_def with_license_def instance_ids_def intro: parts_wf_mono)

text \<open>The two outcomes of the check, both of which change records of licences only.\<close>

lemma within_quotaE:
  assumes "within_quota lenv now s k = (r, s')"
  obtains (refused) l e where "enforce_max_instances lenv now (license_view s) = (Inl e, l)"
      "is_next_id s \<le> ls_next_id l" "r = Inl e" "s' = with_license l s"
    | (granted) l where "enforce_max_instances lenv now (license_view s) = (Inr (), l)"
      "is_next_id s \<le> ls_next_id l" "k (with_license l s) = (r, s')"
proof -
  obtain q l where e: "enforce_max_instances lenv now (license_view s) = (q, l)" by fastforce
  have "is_next_id s \<le> ls_next_id l" using enforce_frame(2) [OF e] by (simp add: license_view_def)
  then show thesis using assms e that by (cases q) (auto simp: within_quota_def)
qed

lemma with_license_simps [simp]:
  "is_instances (with_license l s) = is_instances s" "is_tags (with_license l s) = is_tags s"
  "is_tunnels (with_license l s) = is_tunnels s" "is_databases (with_license l s) = is_databases s"
  "is_groups (with_license l s) = is_groups s" "is_links (with_license l s) = is_links s"
  by (simp_all add: with_license_def)

section \<open>Rows\<close>

lemma load_instance_Inr: "load_instance_row s i = Inr r \<longleftrightarrow> row_get ir_id i (is_instances s) = Some r"
  by (auto simp: load_instance_row_def split: option.splits)

lemma in_known_groups: "g \<in> set (known_groups s ids) \<longleftrightarrow> g \<in> set ids \<and> g \<in> rr_id ` set (is_groups s)"
  by (auto simp: known_groups_def)

lemma name_taken_iff: "name_taken s i n \<longleftrightarrow> (\<exists>x\<in>set (is_instances s). ir_id x \<noteq> i \<and> ir_name x = n)"
  by (auto simp: name_taken_def list_ex_iff)

lemma flush_instance_Inr:
  "flush_instance s r tags = Inr x \<longleftrightarrow> instance_row_fits r \<and> tags_fit tags \<and>
     \<not> name_taken s (ir_id r) (ir_name r) \<and> tunnel_known s (ir_tunnel_id r)"
  by (auto simp: flush_instance_def raise_if_Inr_iff)

lemma tunnel_known_iff: "tunnel_known s t \<longleftrightarrow> refs_wf [t] (map tn_id (is_tunnels s))"
  by (simp add: tunnel_known_def refs_wf_def split: option.splits)

lemma tags_wf_append:
  assumes "tags_wf n ids tags" "0 < n" "n \<le> i" "i + int (length ts) \<le> m" "iid \<in> set ids" "distinct (map fst ts)"
    "\<forall>t\<in>set tags. it_instance_id t = iid \<longrightarrow> it_key t \<notin> fst ` set ts"
  shows "tags_wf m ids (tags @ number_tags i iid ts)"
proof -
  have "keys_wf m (map it_id (tags @ number_tags i iid ts))"
    unfolding map_append number_tags_simps by (rule keys_wf_upto [where n = n]) (use assms(1-4) in \<open>auto simp: tags_wf_def\<close>)
  moreover have "distinct (map (\<lambda>t. (it_instance_id t, it_key t)) (number_tags i iid ts))"
    using assms(6) by (auto simp: number_tags_simps distinct_map inj_on_def)
  ultimately show ?thesis
    using assms(1,5,7) by (fastforce simp: tags_wf_def dest: number_tags_simps(5))
qed

lemma group_links_append:
  assumes "group_links_wf ids (map rr_id (is_groups s)) links" "iid \<in> set ids" "\<forall>l\<in>set links. fst l \<noteq> iid"
  shows "group_links_wf ids (map rr_id (is_groups s)) (links @ map (Pair iid) (known_groups s gs))"
proof -
  have "distinct (known_groups s gs)" using assms(1) by (simp add: group_links_wf_def known_groups_def)
  then show ?thesis using assms
    by (auto simp: group_links_wf_def distinct_map inj_on_def links_wf_def list_all_iff in_known_groups)
qed

lemma instances_wf_add:
  assumes "instances_wf s" "flush_instance s r tags = Inr x" "ir_id r = is_next_id s" "distinct (map fst tags)"
  shows "instances_wf (add_instance r groups tags s)"
proof -
  let ?ids = "instance_ids s @ [is_next_id s]" and ?m = "is_next_id s + 1 + int (length tags)"
  have f: "\<not> name_taken s (ir_id r) (ir_name r)" "tunnel_known s (ir_tunnel_id r)"
    using assms(2) by (auto simp: flush_instance_Inr)
  have w: "rows_wf (is_next_id s) (is_instances s) (is_tunnels s)" "tags_wf (is_next_id s) (instance_ids s) (is_tags s)"
    "databases_wf (is_next_id s) (instance_ids s) (is_databases s)"
    "group_links_wf (instance_ids s) (map rr_id (is_groups s)) (is_links s)" "0 < is_next_id s"
    using assms(1) by (auto simp: instances_wf_def rows_wf_def)
  have new: "is_next_id s \<notin> set (instance_ids s)"
    using w(1) by (force simp: rows_wf_def keys_wf_def list_all_iff instance_ids_def)
  have keys: "keys_wf ?m (map ir_id (is_instances s) @ [is_next_id s])"
    using keys_wf_mono [OF keys_wf_append] w(1) by (simp add: rows_wf_def)
  have "ir_name r \<notin> ir_name ` set (is_instances s)" using f(1) new assms(3) by (force simp: name_taken_iff instance_ids_def)
  then have "rows_wf ?m (is_instances s @ [r]) (is_tunnels s)"
    using w(1) keys keys_wf_mono f(2) assms(3) by (auto simp: rows_wf_def tunnel_known_iff)
  moreover have "tags_wf ?m ?ids (is_tags s @ number_tags (is_next_id s + 1) (ir_id r) tags)"
    by (rule tags_wf_append [OF parts_wf_mono(2) [OF w(2) order_refl]])
      (use w(2,5) new assms(3,4) in \<open>auto simp: tags_wf_def\<close>)
  moreover have "databases_wf ?m ?ids (is_databases s)" by (rule parts_wf_mono(3) [OF w(3)]) auto
  moreover have "group_links_wf ?ids (map rr_id (is_groups s)) (is_links s @ map (Pair (ir_id r)) (known_groups s groups))"
    by (rule group_links_append [OF parts_wf_mono(4) [OF w(4)]])
      (use w(4) new assms(3) in \<open>auto simp: group_links_wf_def links_wf_def list_all_iff\<close>)
  ultimately show ?thesis using assms(3) by (simp add: instances_wf_def add_instance_def instance_ids_def)
qed

lemma updated_instance_id [simp]: "ir_id (updated_instance env v r) = ir_id r"
  by (simp add: updated_instance_def)

lemma rows_wf_put:
  assumes "rows_wf n rows tunnels" "\<forall>x\<in>set rows. ir_id x \<noteq> ir_id r \<longrightarrow> ir_name x \<noteq> ir_name r"
    "refs_wf [ir_tunnel_id r] (map tn_id tunnels)"
  shows "rows_wf n (row_put ir_id r rows) tunnels"
  using assms distinct_key_put [of ir_id rows ir_name r] refs_wf_put [of ir_tunnel_id rows _ r ir_id]
  by (auto simp: rows_wf_def map_key_row_put keys_wf_def)

lemma tags_wf_filter: "tags_wf n ids tags \<Longrightarrow> tags_wf n ids (filter P tags)"
  unfolding tags_wf_def distinct_map by (auto simp: keys_wf_filter inj_on_def)

lemma instances_wf_put:
  assumes "instances_wf s" "\<not> name_taken s (ir_id r) (ir_name r)" "tunnel_known s (ir_tunnel_id r)"
  shows "instances_wf (put_instance r s)"
  using assms rows_wf_put [of "is_next_id s" "is_instances s" "is_tunnels s" r]
  by (auto simp: instances_wf_def put_instance_def instance_ids_def map_key_row_put tunnel_known_iff name_taken_iff)

lemma instances_wf_groups:
  assumes "instances_wf s" "iid \<in> set (instance_ids s)"
  shows "instances_wf (set_groups iid groups s)"
proof (cases groups)
  case (Some gs)
  have "group_links_wf (instance_ids s) (map rr_id (is_groups s)) (filter (\<lambda>l. fst l \<noteq> iid) (is_links s))"
    using assms(1) by (simp add: instances_wf_def group_links_wf_def links_wf_filter)
  from group_links_append [OF this assms(2), of gs] show ?thesis
    using assms(1) Some by (simp add: instances_wf_def set_groups_def instance_ids_def)
qed (use assms(1) in \<open>simp add: set_groups_def\<close>)

lemma instances_wf_tags:
  assumes "instances_wf s" "iid \<in> set (instance_ids s)" "\<And>ts. tags = Some ts \<Longrightarrow> distinct (map fst ts)"
  shows "instances_wf (set_tags iid tags s)"
proof (cases tags)
  case (Some ts)
  have w: "rows_wf (is_next_id s) (is_instances s) (is_tunnels s)" "tags_wf (is_next_id s) (instance_ids s) (is_tags s)"
    "databases_wf (is_next_id s) (instance_ids s) (is_databases s)" "0 < is_next_id s"
    using assms(1) by (auto simp: instances_wf_def rows_wf_def)
  have "tags_wf (is_next_id s + int (length ts)) (instance_ids s)
      (filter (\<lambda>t. it_instance_id t \<noteq> iid) (is_tags s) @ number_tags (is_next_id s) iid ts)"
    by (rule tags_wf_append [OF tags_wf_filter [OF w(2)]]) (use w(4) assms(2) assms(3) [OF Some] in auto)
  then show ?thesis
    using assms(1) Some parts_wf_mono(1) [OF w(1)] parts_wf_mono(3) [OF w(3)]
    by (simp add: instances_wf_def set_tags_def instance_ids_def)
qed (use assms(1) in \<open>simp add: set_tags_def\<close>)

lemma instance_ids_set [simp]:
  "instance_ids (put_instance r s) = instance_ids s" "instance_ids (set_groups i g s) = instance_ids s"
  "instance_ids (set_tags i t s) = instance_ids s" "instance_ids (with_license l s) = instance_ids s"
  by (simp_all add: instance_ids_def put_instance_def set_groups_def set_tags_def map_key_row_put split: option.splits)

lemma load_instance_id: "load_instance_row s i = Inr r \<Longrightarrow> ir_id r = i \<and> r \<in> set (is_instances s) \<and> i \<in> set (instance_ids s)"
  unfolding load_instance_Inr instance_ids_def by (auto dest: row_get_key)

lemma update_instanceD:
  assumes "update_instance env iid v s = Inr (r', s')"
  obtains r where "load_instance_row s iid = Inr r" "r' = updated_instance env v r"
    "flush_instance s r' (case iu_tags v of None \<Rightarrow> [] | Some ts \<Rightarrow> ts) = Inr ()"
    "\<not> tag_keys_clash s iid (case iu_tags v of None \<Rightarrow> [] | Some ts \<Rightarrow> ts)"
    "s' = set_tags iid (iu_tags v) (set_groups iid (iu_resource_group_ids v) (put_instance r' s))"
  using assms by (auto simp: update_instance_def rbind_Inr_iff raise_if_Inr_iff Let_def)

lemma instances_wf_update:
  assumes "instances_wf s" "update_instance env iid v s = Inr (r', s')"
    "\<And>ts. iu_tags v = Some ts \<Longrightarrow> distinct (map fst ts)"
  shows "instances_wf s'"
proof -
  obtain r where u: "load_instance_row s iid = Inr r" "r' = updated_instance env v r"
    "flush_instance s r' (case iu_tags v of None \<Rightarrow> [] | Some ts \<Rightarrow> ts) = Inr ()"
    "s' = set_tags iid (iu_tags v) (set_groups iid (iu_resource_group_ids v) (put_instance r' s))"
    using update_instanceD [OF assms(2)] by metis
  have "instances_wf (put_instance r' s)" using assms(1) u(3) by (simp add: flush_instance_Inr instances_wf_put)
  then have "instances_wf (set_groups iid (iu_resource_group_ids v) (put_instance r' s))"
    using load_instance_id [OF u(1)] by (simp add: instances_wf_groups)
  then show ?thesis unfolding u(4)
    by (rule instances_wf_tags) (use load_instance_id [OF u(1)] assms(3) in auto)
qed

lemma instances_wf_delete:
  assumes "instances_wf s" "delete_instance iid s = Inr s'"
  shows "instances_wf s'"
proof -
  obtain r where r: "load_instance_row s iid = Inr r" "s' = put_instance (r\<lparr>ir_is_active := False\<rparr>) s"
    using assms(2) by (auto simp: delete_instance_def rbind_Inr_iff raise_if_Inr_iff)
  have "r \<in> set (is_instances s)" "distinct (map ir_name (is_instances s))"
    "refs_wf (map ir_tunnel_id (is_instances s)) (map tn_id (is_tunnels s))"
    using assms(1) load_instance_id [OF r(1)] by (auto simp: instances_wf_def rows_wf_def)
  then have "\<not> name_taken s (ir_id r) (ir_name r)" "tunnel_known s (ir_tunnel_id r)"
    by (auto simp: name_taken_iff tunnel_known_iff refs_wf_def list_all_iff distinct_map dest: inj_onD)
  then show ?thesis using r(2) instances_wf_put [OF assms(1), of "r\<lparr>ir_is_active := False\<rparr>"] by simp
qed

section \<open>Databases and tunnels\<close>

lemma database_rowD: "database_row s iid did = Inr d \<Longrightarrow> d \<in> set (is_databases s) \<and> db_instance_id d = iid \<and> db_id d = did"
  by (auto simp: database_row_def databases_of_def split: option.splits dest!: row_get_key)

lemma databases_wf_append:
  assumes "databases_wf n ids dbs" "0 < n" "n + int (length names) \<le> m" "iid \<in> set ids" "distinct names"
    "map db_id new = [n..n + int (length names) - 1]" "map (\<lambda>d. (db_instance_id d, db_db_name d)) new = map (Pair iid) names"
    "\<forall>d\<in>set dbs. db_instance_id d = iid \<longrightarrow> db_db_name d \<notin> set names"
  shows "databases_wf m ids (dbs @ new)"
proof -
  have "keys_wf m (map db_id (dbs @ new))"
    unfolding map_append assms(6) by (rule keys_wf_upto [where n = n]) (use assms(1-3) in \<open>auto simp: databases_wf_def\<close>)
  moreover have "(\<lambda>d. (db_instance_id d, db_db_name d)) ` set new = Pair iid ` set names"
    using arg_cong [OF assms(7), of set] by simp
  moreover from this have "db_instance_id ` set new \<subseteq> {iid}" by (auto simp: image_iff set_eq_iff)
  moreover have "distinct (map (\<lambda>d. (db_instance_id d, db_db_name d)) new)"
    unfolding assms(7) using assms(5) by (simp add: distinct_map inj_on_def)
  moreover have "(\<lambda>d. (db_instance_id d, db_db_name d)) ` set dbs \<inter> Pair iid ` set names = {}" using assms(8) by auto
  ultimately show ?thesis using assms(1,4) by (auto simp: databases_wf_def)
qed

lemma databases_wf_filter: "databases_wf n ids dbs \<Longrightarrow> databases_wf n ids (filter P dbs)"
  unfolding databases_wf_def distinct_map by (auto simp: keys_wf_filter inj_on_def)

lemma instances_wf_databases:
  assumes "instances_wf s" "databases_wf m (instance_ids s) dbs" "is_next_id s \<le> m"
  shows "instances_wf (s\<lparr>is_databases := dbs, is_next_id := m\<rparr>)"
  using assms by (auto simp: instances_wf_def instance_ids_def intro: parts_wf_mono)

lemma instances_wf_add_database:
  assumes "instances_wf s" "add_database iid name remark s = Inr (d, s')"
  shows "instances_wf s'"
proof -
  obtain r where r: "load_instance_row s iid = Inr r" "\<not> list_ex (\<lambda>x. db_db_name x = db_db_name d) (databases_of s iid)"
    "db_id d = is_next_id s" "db_instance_id d = iid" "s' = s\<lparr>is_databases := is_databases s @ [d], is_next_id := is_next_id s + 1\<rparr>"
    using assms(2) by (auto simp: add_database_def rbind_Inr_iff raise_if_Inr_iff Let_def)
  have "databases_wf (is_next_id s + 1) (instance_ids s) (is_databases s @ [d])"
    by (rule databases_wf_append [where n = "is_next_id s" and names = "[db_db_name d]" and iid = iid])
      (use assms(1) r load_instance_id [OF r(1)] in \<open>auto simp: instances_wf_def rows_wf_def databases_of_def list_ex_iff\<close>)
  from instances_wf_databases [OF assms(1) this] show ?thesis by (simp add: r(5))
qed

lemma instances_wf_update_database:
  assumes "instances_wf s" "update_database iid did remark active s = Inr (d', s')"
  shows "instances_wf s'"
proof -
  obtain d where d: "d \<in> set (is_databases s)" "db_id d' = db_id d" "db_instance_id d' = db_instance_id d"
    "db_db_name d' = db_db_name d" "s' = s\<lparr>is_databases := row_put db_id d' (is_databases s)\<rparr>"
    using assms(2) database_rowD by (fastforce simp: update_database_def rbind_Inr_iff raise_if_Inr_iff Let_def)
  have w: "databases_wf (is_next_id s) (instance_ids s) (is_databases s)" using assms(1) by (simp add: instances_wf_def)
  then have "distinct (map (\<lambda>d. (db_instance_id d, db_db_name d)) (row_put db_id d' (is_databases s)))"
    by (intro distinct_key_put) (use d in \<open>auto simp: databases_wf_def keys_wf_def distinct_map dest: inj_onD\<close>)
  then have "databases_wf (is_next_id s) (instance_ids s) (row_put db_id d' (is_databases s))"
    using w d by (auto simp: databases_wf_def map_key_row_put dest!: set_row_put)
  from instances_wf_databases [OF assms(1) this] show ?thesis by (simp add: d(5))
qed

lemma instances_wf_delete_database:
  assumes "instances_wf s" "delete_database iid did s = Inr s'"
  shows "instances_wf s'"
proof -
  have "databases_wf (is_next_id s) (instance_ids s) (is_databases s)" using assms(1) by (simp add: instances_wf_def)
  from instances_wf_databases [OF assms(1) databases_wf_filter [OF this]] show ?thesis
    using assms(2) by (auto simp: delete_database_def rbind_Inr_iff)
qed

lemma instances_wf_create_tunnel:
  assumes "instances_wf s" "create_tunnel env f s = Inr (t, s')"
  shows "instances_wf s'"
proof -
  have t: "tn_id t = is_next_id s" "tn_name t \<notin> tn_name ` set (is_tunnels s)"
    "s' = s\<lparr>is_tunnels := is_tunnels s @ [t], is_next_id := is_next_id s + 1\<rparr>"
    using assms(2) by (auto simp: create_tunnel_def raise_if_Inr_iff Let_def list_ex_iff)
  have w: "rows_wf (is_next_id s) (is_instances s) (is_tunnels s)" "tags_wf (is_next_id s) (instance_ids s) (is_tags s)"
    "databases_wf (is_next_id s) (instance_ids s) (is_databases s)"
    using assms(1) by (auto simp: instances_wf_def)
  have "refs_wf (map ir_tunnel_id (is_instances s)) (map tn_id (is_tunnels s @ [t]))"
    by (rule refs_wf_mono [of _ "map tn_id (is_tunnels s)"]) (use w(1) in \<open>auto simp: rows_wf_def\<close>)
  moreover have "keys_wf (is_next_id s + 1) (map tn_id (is_tunnels s @ [t]))"
    using keys_wf_append [of "is_next_id s" "map tn_id (is_tunnels s)"] w(1) t(1) by (simp add: rows_wf_def)
  ultimately have "rows_wf (is_next_id s + 1) (is_instances s) (is_tunnels s @ [t])"
    using w(1) t(2) keys_wf_mono [of "is_next_id s" "map ir_id (is_instances s)" "is_next_id s + 1"] by (simp add: rows_wf_def)
  then show ?thesis
    using assms(1) parts_wf_mono(2) [OF w(2)] parts_wf_mono(3) [OF w(3)] by (simp add: instances_wf_def t(3) instance_ids_def)
qed

lemma instances_wf_delete_tunnel:
  assumes "instances_wf s" "delete_tunnel tid s = Inr s'"
  shows "instances_wf s'"
proof -
  let ?rows = "map (\<lambda>r. if ir_tunnel_id r = Some tid then r\<lparr>ir_tunnel_id := None\<rparr> else r) (is_instances s)"
    and ?tunnels = "filter (\<lambda>t. tn_id t \<noteq> tid) (is_tunnels s)"
  have s': "s' = s\<lparr>is_tunnels := ?tunnels, is_instances := ?rows\<rparr>"
    using assms(2) by (auto simp: delete_tunnel_def split: option.splits)
  have m: "map ir_id ?rows = map ir_id (is_instances s)" "map ir_name ?rows = map ir_name (is_instances s)" by auto
  have w: "rows_wf (is_next_id s) (is_instances s) (is_tunnels s)" using assms(1) by (simp add: instances_wf_def)
  have "refs_wf (map ir_tunnel_id ?rows) (map tn_id ?tunnels)"
    using w by (auto simp: rows_wf_def refs_wf_def list_all_iff split: option.splits)
  then have "rows_wf (is_next_id s) ?rows ?tunnels"
    using w keys_wf_filter unfolding rows_wf_def m by (metis (no_types, lifting) distinct_map_filter)
  then show ?thesis using assms(1) by (simp add: instances_wf_def s' instance_ids_def comp_def if_distrib cong: if_cong)
qed

section \<open>Synchronisation\<close>

lemma sync_from_engineD:
  assumes "sync_from_engine engine now iid s = Inr (rep, s')"
  obtains (failed) t where "rep = SyncFailed t" "s' = s"
    | (synced) r reply names where "row_get ir_id iid (filter ir_is_active (is_instances s)) = Some r"
      "engine (instance_view s r) = Inr reply" "visible_names (ir_db_type r) reply = Inr names"
      "store_names now iid names s = Inr (rep, s')"
proof -
  obtain r reply where r: "row_get ir_id iid (filter ir_is_active (is_instances s)) = Some r"
      "engine (instance_view s r) = Inr reply"
    and c: "(case visible_names (ir_db_type r) reply of Inl t \<Rightarrow> Inr (SyncFailed t, s)
       | Inr names \<Rightarrow> store_names now iid names s) = Inr (rep, s')"
    using assms by (auto simp: sync_from_engine_def rbind_Inr_iff split: option.splits)
  then show thesis using failed synced by (cases "visible_names (ir_db_type r) reply") auto
qed

lemma store_namesD:
  assumes "store_names now iid names s = Inr (rep, s')" "visible = filter (\<lambda>n. n \<noteq> []) names"
  shows "rep = sync_counts iid visible (length names) s" "distinct (fresh_names iid visible s)"
    "list_all database_fits (number_databases (is_next_id s) iid now (fresh_names iid visible s))"
    "s' = s\<lparr>is_databases := synced_databases now iid visible s @ number_databases (is_next_id s) iid now (fresh_names iid visible s),
            is_next_id := is_next_id s + int (length (fresh_names iid visible s))\<rparr>"
  using assms by (auto simp: store_names_def raise_if_Inr_iff Let_def)

lemma refreshed_database_simps [simp]:
  "db_id (refreshed_database now d) = db_id d" "db_instance_id (refreshed_database now d) = db_instance_id d"
  "db_db_name (refreshed_database now d) = db_db_name d"
  by (simp_all add: refreshed_database_def Let_def)

lemma synced_keeps:
  "map db_id (synced_databases now iid visible s) =
     map db_id (filter (\<lambda>d. db_instance_id d = iid \<longrightarrow> db_db_name d \<in> set visible) (is_databases s))"
  "map (\<lambda>d. (db_instance_id d, db_db_name d)) (synced_databases now iid visible s) =
     map (\<lambda>d. (db_instance_id d, db_db_name d)) (filter (\<lambda>d. db_instance_id d = iid \<longrightarrow> db_db_name d \<in> set visible) (is_databases s))"
  "map db_instance_id (synced_databases now iid visible s) =
     map db_instance_id (filter (\<lambda>d. db_instance_id d = iid \<longrightarrow> db_db_name d \<in> set visible) (is_databases s))"
  by (simp_all add: synced_databases_def comp_def if_distrib cong: if_cong)

lemma databases_wf_synced:
  assumes "databases_wf n ids (is_databases s)"
  shows "databases_wf n ids (synced_databases now iid visible s)"
proof -
  have "db_instance_id ` set (synced_databases now iid visible s) \<subseteq> db_instance_id ` set (is_databases s)"
    using arg_cong [OF synced_keeps(3) [of now iid visible s], of set] by auto
  then show ?thesis using databases_wf_filter [OF assms] unfolding databases_wf_def synced_keeps by auto
qed

lemma instances_wf_store_names:
  assumes "instances_wf s" "store_names now iid names s = Inr (rep, s')" "iid \<in> set (instance_ids s)"
  shows "instances_wf s'"
proof -
  let ?visible = "filter (\<lambda>n. n \<noteq> []) names"
  let ?fresh = "fresh_names iid ?visible s"
  note d = store_namesD [OF assms(2) refl]
  have w: "databases_wf (is_next_id s) (instance_ids s) (is_databases s)" "0 < is_next_id s"
    using assms(1) by (auto simp: instances_wf_def rows_wf_def)
  have "(\<lambda>d. (db_instance_id d, db_db_name d)) ` set (synced_databases now iid ?visible s)
      \<subseteq> (\<lambda>d. (db_instance_id d, db_db_name d)) ` set (is_databases s)"
    using arg_cong [OF synced_keeps(2) [of now iid ?visible s], of set] by auto
  then have "d \<in> set (synced_databases now iid ?visible s) \<Longrightarrow> db_instance_id d = iid \<Longrightarrow>
      db_db_name d \<in> db_db_name ` set (databases_of s iid)" for d
    by (auto simp: databases_of_def dest!: subsetD [where c = "(db_instance_id d, db_db_name d)"])
  then have "\<forall>d\<in>set (synced_databases now iid ?visible s). db_instance_id d = iid \<longrightarrow> db_db_name d \<notin> set ?fresh"
    by (auto simp: fresh_names_def)
  then have "databases_wf (is_next_id s + int (length ?fresh)) (instance_ids s)
      (synced_databases now iid ?visible s @ number_databases (is_next_id s) iid now ?fresh)"
    by (intro databases_wf_append [where n = "is_next_id s" and names = ?fresh and iid = iid])
      (use databases_wf_synced [OF w(1)] w(2) d(2) assms(3) in \<open>auto simp: number_databases_simps\<close>)
  from instances_wf_databases [OF assms(1) this] show ?thesis by (simp add: d(4))
qed

lemma instances_wf_sync:
  assumes "instances_wf s" "sync_from_engine engine now iid s = Inr (rep, s')"
  shows "instances_wf s'"
  using assms(2)
proof (cases rule: sync_from_engineD)
  case (synced r reply names)
  have "iid \<in> set (instance_ids s)" using row_get_key [OF synced(1)] by (auto simp: instance_ids_def)
  then show ?thesis using instances_wf_store_names [OF assms(1) synced(4)] by simp
qed (use assms(1) in simp)

section \<open>Every request\<close>

lemma create_instanceE:
  assumes "create_instance lenv env now f s = (res, s')"
  obtains (refused) e l where "res = Inl e" "s' = with_license l s" "is_next_id s \<le> ls_next_id l"
    | (created) r l s1 where "res = Inr r" "enforce_max_instances lenv now (license_view s) = (Inr (), l)"
      "is_next_id s \<le> ls_next_id l" "s1 = with_license l s" "r = new_instance env f (is_next_id s1) now"
      "flush_instance s1 r (if_tags f) = Inr ()" "s' = add_instance r (if_resource_group_ids f) (if_tags f) s1"
      "if_name f \<notin> ir_name ` set (is_instances s)"
proof -
  show thesis using assms unfolding create_instance_def
  proof (cases rule: within_quotaE)
    case (granted l)
    show thesis
    proof (cases "if_name f \<in> ir_name ` set (is_instances s)")
      case True
      then have "list_ex (\<lambda>x. ir_name x = if_name f) (is_instances s)" by (force simp: list_ex_iff)
      then show thesis using granted by (intro refused [of conflict_exc l]) auto
    next
      case False
      then have free: "\<not> list_ex (\<lambda>x. ir_name x = if_name f) (is_instances s)" by (force simp: list_ex_iff)
      show thesis
      proof (cases "flush_instance (with_license l s) (new_instance env f (is_next_id (with_license l s)) now) (if_tags f)")
        case (Inl e)
        then show thesis using granted free by (intro refused [of e l]) (auto simp: Let_def)
      next
        case (Inr x)
        then show thesis using granted free False by (intro created [OF _ granted(1,2) refl refl]) (auto simp: Let_def)
      qed
    qed
  qed (use refused in auto)
qed

lemma instances_wf_create:
  assumes "instances_wf s" "create_instance lenv env now f s = (res, s')" "distinct (map fst (if_tags f))"
  shows "instances_wf s'"
  using assms(2)
proof (cases rule: create_instanceE)
  case (created r l s1)
  have "instances_wf s1" using instances_wf_license assms(1) created(3,4) by simp
  from instances_wf_add [OF this created(6) _ assms(3)] show ?thesis using created(5,7) by (simp add: new_instance_def)
qed (use assms(1) instances_wf_license in auto)

lemma create_endpointE:
  assumes "create_endpoint lenv env now u f s = (res, s')"
  obtains (kept) e where "res = Inl e" "s' = s"
    | (refused) e l where "res = Inl e" "s' = with_license l s" "is_next_id s \<le> ls_next_id l"
    | (tried) l s1 q where "enforce_max_instances lenv now (license_view s) = (Inr (), l)" "is_next_id s \<le> ls_next_id l"
      "s1 = with_license l s" "require_perm ''instance_manage'' u = Inr ()" "instance_form_valid f"
      "validate_resource_group_scope u (if_resource_group_ids f) = Inr ()"
      "create_instance lenv env now (f\<lparr>if_db_type := py_lower (if_db_type f)\<rparr>) s1 = (q, s')"
      "res = map_sum id (to_response env s') q"
proof (cases "require_perm ''instance_manage'' u")
  case (Inr x)
  show thesis
  proof (cases "instance_form_valid f")
    case True
    have "within_quota lenv now s (\<lambda>s.
            case validate_resource_group_scope u (if_resource_group_ids f) of
              Inl e \<Rightarrow> (Inl e, s)
            | Inr _ \<Rightarrow>
                (case create_instance lenv env now (f\<lparr>if_db_type := py_lower (if_db_type f)\<rparr>) s of
                   (Inl e, s) \<Rightarrow> (Inl e, s)
                 | (Inr r, s) \<Rightarrow> (Inr (to_response env s r), s))) = (res, s')"
      using assms Inr True by (simp add: create_endpoint_def)
    then show thesis
    proof (cases rule: within_quotaE)
      case (granted l)
      then show thesis using refused tried Inr True
        by (auto split: sum.splits prod.splits)
    qed (use refused in auto)
  qed (use assms Inr kept in \<open>auto simp: create_endpoint_def\<close>)
qed (use assms kept in \<open>auto simp: create_endpoint_def\<close>)

lemma instances_wf_create_endpoint:
  assumes "instances_wf s" "create_endpoint lenv env now u f s = (res, s')" "distinct (map fst (if_tags f))"
  shows "instances_wf s'"
  using assms(2)
proof (cases rule: create_endpointE)
  case (tried l s1 q)
  have "instances_wf s1" using instances_wf_license assms(1) tried(2,3) by simp
  from instances_wf_create [OF this tried(7)] assms(3) show ?thesis by simp
qed (use assms(1) instances_wf_license in auto)

text \<open>The objects of a request have each key once.\<close>

fun request_ok :: "instance_request \<Rightarrow> bool" where
  "request_ok (CreateInstance f) = distinct (map fst (if_tags f))"
| "request_ok (UpdateInstance i v) = (case iu_tags v of None \<Rightarrow> True | Some ts \<Rightarrow> distinct (map fst ts))"
| "request_ok _ = True"

lemma committed_wf: "instances_wf s \<Longrightarrow> (\<And>s'. r = Inr s' \<Longrightarrow> instances_wf s') \<Longrightarrow> instances_wf (committed s r)"
  by (cases r) (auto simp: committed_def)

lemma map_snd_Inr: "map_sum id snd r = Inr s' \<longleftrightarrow> (\<exists>x. r = Inr (x, s'))"
  by (cases r) auto

lemmas endpoint_simps = update_endpoint_def delete_endpoint_def add_database_endpoint_def update_database_endpoint_def
  delete_database_endpoint_def sync_endpoint_def create_tunnel_endpoint_def delete_tunnel_endpoint_def rbind_Inr_iff
  raise_if_Inr_iff

lemma endpoints_wf:
  assumes w: "instances_wf s"
  shows "delete_endpoint u i s = Inr s' \<Longrightarrow> instances_wf s'"
    "add_database_endpoint u i nm rm s = Inr (d, s') \<Longrightarrow> instances_wf s'"
    "update_database_endpoint u i j remark active s = Inr (d, s') \<Longrightarrow> instances_wf s'"
    "delete_database_endpoint u i j s = Inr s' \<Longrightarrow> instances_wf s'"
    "sync_endpoint engine now u i s = Inr (rep, s') \<Longrightarrow> instances_wf s'"
    "create_tunnel_endpoint env u f s = Inr (t, s') \<Longrightarrow> instances_wf s'"
    "delete_tunnel_endpoint u i s = Inr s' \<Longrightarrow> instances_wf s'"
  unfolding endpoint_simps
  by (blast intro: instances_wf_delete [OF w] instances_wf_add_database [OF w] instances_wf_update_database [OF w]
      instances_wf_delete_database [OF w] instances_wf_sync [OF w] instances_wf_create_tunnel [OF w]
      instances_wf_delete_tunnel [OF w])+

end
