(* ===== verification/Instance_Access.thy ===== *)
theory Instance_Access
  imports Instance_Facts Auth_Flows License_Rights
begin

text \<open>
  The tables of the instances stay well-formed under every request; what is stored can be read
  back; a synchronisation makes the registered databases those that the engine shows; the list
  and the detail agree; and where the operations do not do what they mean to.
\<close>

section \<open>Well-formed under every request\<close>

text \<open>
C34: Every request keeps the tables of the instances well-formed, whatever the engines, the
licence and the caller: keys, names of instances and tunnels, tag keys and database names per
instance stay unique, and tags, databases, links and tunnel references point to existing rows.
\<close>

theorem instances_stay_wellformed:
  assumes "instances_wf s" "request_ok rq"
  shows "instances_wf (instance_step lenv env engine now u rq s)"
proof (cases rq)
  case (CreateInstance f)
  then show ?thesis using instances_wf_create_endpoint [OF assms(1) surjective_pairing] assms(2) by simp
next
  case (UpdateInstance i v)
  have "instances_wf s'" if e: "update_endpoint env u i v s = Inr (x, s')" for x s'
  proof -
    obtain r where "update_instance env i v s = Inr (r, s')" using e by (auto simp: endpoint_simps split: prod.splits)
    then show ?thesis by (rule instances_wf_update [OF assms(1)]) (use assms(2) UpdateInstance in simp)
  qed
  then show ?thesis using UpdateInstance assms(1) by (auto intro!: committed_wf simp: map_snd_Inr)
qed (auto simp: map_snd_Inr intro!: committed_wf [OF assms(1)] intro: endpoints_wf [OF assms(1)])

section \<open>Reading back\<close>

lemma groups_of_added:
  assumes "instances_wf s" "ir_id r = is_next_id s"
  shows "groups_of_instance (add_instance r groups tags s) (is_next_id s) = known_groups s groups"
    "map (\<lambda>t. (it_key t, it_value t)) (tags_of_instance (add_instance r groups tags s) (is_next_id s)) = tags"
proof -
  have new: "is_next_id s \<notin> set (instance_ids s)"
    using assms(1) by (force simp: instances_wf_def rows_wf_def keys_wf_def list_all_iff instance_ids_def)
  have "(is_next_id s, g) \<notin> set (is_links s)" for g
    using assms(1) new by (auto simp: instances_wf_def group_links_wf_def links_wf_def list_all_iff)
  then show "groups_of_instance (add_instance r groups tags s) (is_next_id s) = known_groups s groups"
    using assms(2) by (auto simp: groups_of_instance_def add_instance_def known_groups_def filter_map comp_def intro!: arg_cong [of _ _ "map rr_id"] filter_cong)
  have "filter (\<lambda>t. it_instance_id t = is_next_id s) (is_tags s) = []"
    using assms(1) new by (auto simp: instances_wf_def tags_wf_def filter_empty_conv)
  moreover have "filter (\<lambda>t. it_instance_id t = is_next_id s) (number_tags i (is_next_id s) tags) = number_tags i (is_next_id s) tags" for i
    using number_tags_simps(5) by (auto simp: filter_id_conv)
  ultimately show "map (\<lambda>t. (it_key t, it_value t)) (tags_of_instance (add_instance r groups tags s) (is_next_id s)) = tags"
    using assms(2) by (simp add: tags_of_instance_def add_instance_def number_tags_simps)
qed


section \<open>Databases of an instance after a synchronisation\<close>

lemma databases_of_synced:
  "databases_of (s\<lparr>is_databases := synced_databases now iid visible s @ number_databases i iid now ns, is_next_id := m\<rparr>) iid =
     map (refreshed_database now) (filter (\<lambda>d. db_db_name d \<in> set visible) (databases_of s iid)) @ number_databases i iid now ns"
proof -
  have "filter (\<lambda>d. db_instance_id d = iid) (number_databases i iid now ns) = number_databases i iid now ns"
    using number_databases_simps(5) by (auto simp: filter_id_conv)
  moreover have "filter (\<lambda>d. db_instance_id d = iid) (map (\<lambda>d. if db_instance_id d = iid then refreshed_database now d else d)
       (filter (\<lambda>d. db_instance_id d = iid \<longrightarrow> db_db_name d \<in> set visible) ds)) =
     map (refreshed_database now) (filter (\<lambda>d. db_db_name d \<in> set visible) (filter (\<lambda>d. db_instance_id d = iid) ds))" for ds
    by (induction ds) auto
  ultimately show ?thesis by (simp add: databases_of_def synced_databases_def)
qed

lemma others_of_synced:
  "filter (\<lambda>d. db_instance_id d \<noteq> iid) (synced_databases now iid visible s @ number_databases i iid now ns) =
     filter (\<lambda>d. db_instance_id d \<noteq> iid) (is_databases s)"
proof -
  have "filter (\<lambda>d. db_instance_id d \<noteq> iid) (number_databases i iid now ns) = []"
    using number_databases_simps(5) by (auto simp: filter_empty_conv)
  moreover have "filter (\<lambda>d. db_instance_id d \<noteq> iid) (map (\<lambda>d. if db_instance_id d = iid then refreshed_database now d else d)
       (filter (\<lambda>d. db_instance_id d = iid \<longrightarrow> db_db_name d \<in> set visible) ds)) = filter (\<lambda>d. db_instance_id d \<noteq> iid) ds" for ds
    by (induction ds) auto
  ultimately show ?thesis by (simp add: synced_databases_def)
qed

lemma synced_names:
  assumes "store_names now iid names s = Inr (rep, s')"
  shows "db_db_name ` set (databases_of s' iid) = set names - {[]}"
proof -
  note d = store_namesD [OF assms refl]
  have "db_db_name ` set (number_databases i iid now ns) = set ns" for i ns
    using arg_cong [OF number_databases_simps(2) [of i iid now ns], of set] by simp
  then show ?thesis unfolding d(4) databases_of_synced
    by (auto simp: fresh_names_def image_image image_Un)
qed


lemma same_key_single: "distinct (map f xs) \<Longrightarrow> \<forall>x\<in>set xs. f x = c \<Longrightarrow> xs = [] \<or> (\<exists>x. xs = [x])"
  by (cases xs; cases "tl xs") auto

text \<open>
The check of an online query (\<^verbatim>\<open>routers/query.py\<close>) after a synchronisation: for a user who is no
superuser a database can be queried exactly when the engine shows it and nobody has switched
it off.
\<close>

theorem synced_databases_are_queryable:
  assumes "store_names now iid names s = Inr (rep, s')" "instances_wf s'"
    "qe_databases env = map instance_database.truncate (is_databases s')" "\<not> op_is_superuser u" "qx_instance_id d = iid"
  shows "check_database env u d = Inr () \<longleftrightarrow>
    qx_db_name d \<in> set names - {[]} \<and> (\<exists>x\<in>set (databases_of s' iid). db_db_name x = qx_db_name d \<and> db_is_active x)"
proof -
  let ?P = "\<lambda>x. db_instance_id x = iid \<and> db_db_name x = qx_db_name d \<and> db_is_active x"
  have trunc: "filter ?P (map instance_database.truncate (is_databases s')) =
      map instance_database.truncate (filter ?P (is_databases s'))"
    by (simp add: filter_map comp_def instance_database.defs)
  have "distinct (map (\<lambda>x. (db_instance_id x, db_db_name x)) (is_databases s'))"
    using assms(2) by (simp add: instances_wf_def databases_wf_def)
  then have "distinct (map (\<lambda>x. (db_instance_id x, db_db_name x)) (filter ?P (is_databases s')))" by (rule distinct_map_filter)
  then have "filter ?P (is_databases s') = [] \<or> (\<exists>x. filter ?P (is_databases s') = [x])"
    by (rule same_key_single [where c = "(iid, qx_db_name d)"]) auto
  then consider "filter ?P (is_databases s') = []" | x where "filter ?P (is_databases s') = [x]" by auto
  then have "check_database env u d = Inr () \<longleftrightarrow> filter ?P (is_databases s') \<noteq> []"
    using assms(4,5) by cases (simp_all add: check_database_def assms(3) trunc raised_def)
  also have "\<dots> \<longleftrightarrow> (\<exists>x\<in>set (databases_of s' iid). db_db_name x = qx_db_name d \<and> db_is_active x)"
    by (auto simp: databases_of_def filter_empty_conv)
  also have "\<dots> \<longleftrightarrow> qx_db_name d \<in> set names - {[]} \<and> (\<exists>x\<in>set (databases_of s' iid). db_db_name x = qx_db_name d \<and> db_is_active x)"
    using synced_names [OF assms(1)] by (metis (no_types, lifting) imageI)
  finally show ?thesis .
qed

section \<open>Who sees which instance\<close>

text \<open>
The list of the instances, without filters and on a page that is long enough, shows a user
exactly the instances whose detail the user may open: all of them with the permission for all
instances, and otherwise those that share a resource group with the session.
\<close>

theorem listed_instances_can_be_opened:
  assumes "instances_wf s" "r \<in> set (is_instances s)" "\<not> truthy (lq_db_type q)" "\<not> truthy (lq_search q)"
    "lq_resource_group_id q = None" "lq_include_inactive q" "lq_page q = 1" "length (is_instances s) \<le> lq_page_size q"
  shows "\<exists>m items. list_endpoint env ilike rank u q s = Inr (m, items) \<and> m = length items \<and>
    (to_response env s r \<in> set items \<longleftrightarrow> detail_endpoint env u (ir_id r) s = Inr (to_response env s r))"
proof -
  define own where "own x = (sees_all_instances u \<or> list_ex (\<lambda>g. (ir_id x, g) \<in> set (is_links s)) (op_resource_groups u))" for x :: instance_row
  have rows: "list_rows ilike u q s = Inr (filter own (is_instances s))"
    using assms(3-6)
    by (cases "sees_all_instances u") (auto simp: list_rows_def instance_filter_def own_def [abs_def] Let_def)
  have "length (filter own (is_instances s)) \<le> lq_page_size q" using assms(8) length_filter_le le_trans by blast
  then have list: "list_endpoint env ilike rank u q s = Inr (length (filter own (is_instances s)),
      map (to_response env s) (sort_key (\<lambda>x. rank (ir_name x)) (filter own (is_instances s))))"
    using assms(7) by (simp add: list_endpoint_def list_instances_def rows page_of_def)
  have ids: "distinct (map ir_id (is_instances s))" "links_wf (is_links s) (instance_ids s) (map rr_id (is_groups s))"
    using assms(1) by (auto simp: instances_wf_def rows_wf_def keys_wf_def group_links_wf_def)
  have "x = r" if "x \<in> set (is_instances s)" "to_response env s x = to_response env s r" for x
    using inj_onD [of ir_id "set (is_instances s)" x r] that ids(1) assms(2) by (simp add: to_response_def distinct_map)
  then have "to_response env s r \<in> to_response env s ` set (filter own (is_instances s)) \<longleftrightarrow> own r" using assms(2) by auto
  moreover have "load_instance_row s (ir_id r) = Inr r"
    using row_get_distinct [of ir_id, OF ids(1) assms(2)] by (simp add: load_instance_Inr)
  moreover have "own r \<longleftrightarrow> sees_all_instances u \<or> set (op_resource_groups u) \<inter> set (groups_of_instance s (ir_id r)) \<noteq> {}"
  proof -
    have "g \<in> set (groups_of_instance s (ir_id r)) \<longleftrightarrow> (ir_id r, g) \<in> set (is_links s)" for g
      using ids(2) by (auto simp: groups_of_instance_def links_wf_def list_all_iff)
    then show ?thesis by (auto simp: own_def list_ex_iff)
  qed
  ultimately show ?thesis by (simp add: list detail_endpoint_def ensure_instance_access_def raise_if_def)
qed

section \<open>Flaws\<close>

text \<open>
Sending the tags of an instance with one of the keys it has is refused by the database, since
the new row is written before the old one is removed.
\<close>

theorem kept_tag_key_fails:
  assumes "t \<in> set (tags_of_instance s iid)" "iu_tags v = Some ts" "it_key t \<in> fst ` set ts"
  shows "\<not> is_ok (update_endpoint env u iid v s)"
proof -
  have "tag_keys_clash s iid ts" using assms(1,3) by (auto simp: tag_keys_clash_def list_ex_iff)
  then show ?thesis using assms(2) by (auto simp: update_endpoint_def update_instance_def res_simps Let_def)
qed

text \<open>
Without the permission for all instances no instance can be deleted: the access needs a common
resource group, and the deletion needs that there is none.
\<close>

theorem scoped_manager_never_deletes:
  assumes "\<not> sees_all_instances u"
  shows "\<not> is_ok (delete_endpoint u iid s)"
  using assms by (auto simp: delete_endpoint_def ensure_instance_access_def delete_instance_def res_simps)

text \<open>The filter by resource group fails for everybody without the permission for all instances.\<close>

theorem scoped_group_filter_fails:
  assumes "\<not> sees_all_instances u" "op_resource_groups u \<noteq> []" "lq_resource_group_id q = Some g" "g \<noteq> 0"
  shows "list_endpoint env ilike rank u q s = Inl ambiguous_table"
  using assms by (simp add: list_endpoint_def list_instances_def list_rows_def)

text \<open>
Switching an instance on again does not ask for the quota: when the licence refuses every new
instance, an instance that was switched off can still be added to the active ones.
\<close>

definition no_update :: instance_update where
  "no_update = \<lparr>iu_name = None, iu_type = None, iu_host = None, iu_port = None, iu_user = None, iu_password = None,
     iu_is_ssl = None, iu_db_name = None, iu_show_db_name_regex = None, iu_remark = None, iu_tunnel_id = None,
     iu_resource_group_ids = None, iu_tags = None, iu_is_active = None\<rparr>"

lemma update_flag:
  assumes "instances_wf s" "load_instance_row s iid = Inr r" "instance_row_fits r" "require_perm ''instance_manage'' u = Inr ()"
    "ensure_instance_access u iid s = Inr r" "validate_resource_group_scope u (case gs of None \<Rightarrow> [] | Some ids \<Rightarrow> ids) = Inr ()"
  shows "\<exists>x. update_endpoint env u iid (no_update\<lparr>iu_is_active := active, iu_resource_group_ids := gs\<rparr>) s =
    Inr (x, set_groups iid gs (put_instance (r\<lparr>ir_is_active := or_keep (ir_is_active r) active\<rparr>) s))"
proof -
  have r: "r \<in> set (is_instances s)" "distinct (map ir_name (is_instances s))"
    "refs_wf (map ir_tunnel_id (is_instances s)) (map tn_id (is_tunnels s))"
    using assms(1) load_instance_id [OF assms(2)] by (auto simp: instances_wf_def rows_wf_def)
  then have "\<not> name_taken s (ir_id r) (ir_name r)" "tunnel_known s (ir_tunnel_id r)"
    by (auto simp: name_taken_iff tunnel_known_iff refs_wf_def list_all_iff distinct_map dest: inj_onD)
  moreover have "updated_instance env (no_update\<lparr>iu_is_active := active, iu_resource_group_ids := gs\<rparr>) r =
      r\<lparr>ir_is_active := or_keep (ir_is_active r) active\<rparr>"
    by (cases r) (simp add: updated_instance_def no_update_def or_keep_def)
  ultimately show ?thesis using assms(2-6)
    by (simp add: update_endpoint_def update_instance_def no_update_def flush_instance_def tags_fit_def instance_row_fits_def
        tag_keys_clash_def list_ex_iff set_tags_def raise_if_def Let_def)
qed

theorem reactivation_bypasses_quota:
  assumes "instances_wf s" "load_instance_row s iid = Inr r" "instance_row_fits r" "\<not> ir_is_active r"
    "require_perm ''instance_manage'' u = Inr ()" "ensure_instance_access u iid s = Inr r"
    "fst (enforce_max_instances lenv now (license_view s)) = Inl e"
  shows "\<not> is_ok (fst (create_endpoint lenv env now u f s)) \<and>
    (\<exists>x s'. update_endpoint env u iid (no_update\<lparr>iu_is_active := Some True\<rparr>) s = Inr (x, s') \<and>
       load_instance_row s' iid = Inr (r\<lparr>ir_is_active := True\<rparr>))"
proof -
  have "\<not> is_ok (fst (create_endpoint lenv env now u f s))"
    using assms(7) by (auto simp: create_endpoint_def within_quota_def split: sum.splits prod.splits)
  moreover have "\<exists>x. update_endpoint env u iid (no_update\<lparr>iu_is_active := Some True\<rparr>) s =
      Inr (x, put_instance (r\<lparr>ir_is_active := True\<rparr>) s)"
    using update_flag [OF assms(1-3,5,6), where gs = None and active = "Some True" and env = env]
    by (simp add: validate_resource_group_scope_def set_groups_def or_keep_def no_update_def)
  moreover have "load_instance_row (put_instance (r\<lparr>ir_is_active := True\<rparr>) s) iid = Inr (r\<lparr>ir_is_active := True\<rparr>)"
    using assms(2) load_instance_id [OF assms(2)] by (simp add: load_instance_Inr put_instance_def row_get_put)
  ultimately show ?thesis by blast
qed

text \<open>
A manager with access through one group may send an empty list of groups: the instance leaves
all its groups, also those of others, and afterwards only users with the permission for all
instances reach it.
\<close>

theorem scoped_manager_evicts_everybody:
  assumes "instances_wf s" "load_instance_row s iid = Inr r" "instance_row_fits r"
    "require_perm ''instance_manage'' u = Inr ()" "ensure_instance_access u iid s = Inr r"
  shows "\<exists>x s'. update_endpoint env u iid (no_update\<lparr>iu_resource_group_ids := Some []\<rparr>) s = Inr (x, s') \<and>
    (\<forall>v. \<not> sees_all_instances v \<longrightarrow> \<not> is_ok (detail_endpoint env v iid s'))"
proof -
  obtain x where x: "update_endpoint env u iid (no_update\<lparr>iu_resource_group_ids := Some []\<rparr>) s =
      Inr (x, set_groups iid (Some []) (put_instance r s))"
    using update_flag [OF assms(1-5), where gs = "Some []" and active = None and env = env]
    by (auto simp: validate_resource_group_scope_def or_keep_def no_update_def)
  have "groups_of_instance (set_groups iid (Some []) (put_instance r s)) iid = []"
    by (auto simp: groups_of_instance_def set_groups_def known_groups_def put_instance_def filter_empty_conv)
  then have "\<not> is_ok (detail_endpoint env v iid (set_groups iid (Some []) (put_instance r s)))" if "\<not> sees_all_instances v" for v
    using that by (auto simp: detail_endpoint_def ensure_instance_access_def res_simps)
  then show ?thesis using x by blast
qed

section \<open>A sample\<close>

definition park_store :: instance_store where
  "park_store =
     \<lparr>is_instances = [\<lparr>ir_id = 1, ir_name = ''orders'', ir_type = ''master'', ir_db_type = ''mysql'', ir_mode = ''standalone'',
        ir_host = ''h'', ir_port = 3306, ir_user = [], ir_password = [], ir_is_ssl = False, ir_db_name = [],
        ir_show_db_name_regex = [], ir_remark = [], ir_is_active = True, ir_suspended = False, ir_tunnel_id = None,
        ir_created_at = 0\<rparr>],
      is_tags = [\<lparr>it_id = 2, it_key = ''env'', it_value = ''prod'', it_instance_id = 1\<rparr>], is_tunnels = [],
      is_databases = [\<lparr>db_id = 3, db_instance_id = 1, db_db_name = ''old'', db_is_active = True, rd_remark = [], rd_sync_at = None\<rparr>,
        \<lparr>db_id = 4, db_instance_id = 1, db_db_name = ''app'', db_is_active = False, rd_remark = ''off'', rd_sync_at = None\<rparr>],
      is_groups = [\<lparr>rr_id = 1, rr_group_name = ''g'', rr_group_name_cn = [], rr_is_active = True\<rparr>],
      is_links = [(1, 1)], is_records = [], is_next_id = 10\<rparr>"

definition park_form :: instance_form where
  "park_form = \<lparr>if_name = ''stock'', if_type = ''slave'', if_db_type = ''PgSQL'', if_mode = ''standalone'', if_host = ''h2'', if_port = 5432,
     if_user = ''app'', if_password = ''pw'', if_is_ssl = True, if_db_name = ''db'', if_show_db_name_regex = [], if_remark = [],
     if_tunnel_id = None, if_resource_group_ids = [1, 5], if_tags = [(''env'', ''test'')]\<rparr>"

definition park_engine :: "db_instance \<Rightarrow> exc + (string + result_set)" where
  "park_engine i = Inr (Inr \<lparr>qs_error = [], qs_column_list = [''name''],
     qs_rows = [RowTuple [Some ''app''], RowDict [(''name'', Some ''new'')], RowTuple [Some []]], qs_affected_rows = 0, qs_cost_time = 0\<rparr>)"

lemma park_wf: "instances_wf park_store"
  by (simp add: instances_wf_def park_store_def rows_wf_def tags_wf_def databases_wf_def group_links_wf_def keys_wf_def
      refs_wf_def links_wf_def instance_ids_def)

lemma instances_stay_wellformed_witness:
  "instances_wf (instance_step lic_env sample_env park_engine 5 root_op (CreateInstance park_form) park_store)"
  by (rule instances_stay_wellformed [OF park_wf]) (simp add: park_form_def)



end
