(* ===== verification/System_Config.thy ===== *)
theory System_Config
  imports Auth_Service License_Service
begin

text \<open>
  \<^verbatim>\<open>app/services/system_config.py\<close>: the settings kept in the database, their defaults, the form
  that shows and changes them, and the values the other services read. The tests of the
  connections are network calls and are left out, descriptions as well. The rows are in the
  order of the table.
\<close>

section \<open>Definitions\<close>

text \<open>Provider, base URL and model.\<close>

definition AI_DEFAULT_PROVIDER :: string where "AI_DEFAULT_PROVIDER = ''anthropic''"

definition AI_PROVIDER_PRESETS :: "(string \<times> string \<times> string) list" where
  "AI_PROVIDER_PRESETS =
     [(''anthropic'', ''https://api.anthropic.com'', ''claude-sonnet-4-20250514''),
      (''openai'', ''https://api.openai.com/v1'', ''gpt-4o-mini''),
      (''deepseek'', ''https://api.deepseek.com'', ''deepseek-v4-flash''),
      (''qwen'', ''https://dashscope.aliyuncs.com/compatible-mode/v1'', ''qwen-turbo''),
      (''minimax'', ''https://api.minimax.io/v1'', ''MiniMax-M2.7''),
      (''moonshot'', ''https://api.moonshot.ai/v1'', ''kimi-k2.6''),
      (''zhipu'', ''https://open.bigmodel.cn/api/paas/v4'', ''glm-4.7-flash''), (''xiaomi'', [], []),
      (''custom'', [], [])]"

definition CONFIG_GROUPS :: "string list" where
  "CONFIG_GROUPS = [''basic'', ''mail'', ''dingtalk'', ''wecom'', ''feishu'', ''ldap'', ''cas'', ''oidc'', ''sms'', ''ai'']"

text \<open>Key, group, whether it is a secret, default.\<close>

definition CONFIG_DEFINITIONS :: "(string \<times> string \<times> bool \<times> string) list" where
  "CONFIG_DEFINITIONS =
     [(''platform_name'', ''basic'', False, ''Sagitta Control''), (''platform_logo_url'', ''basic'', False, []),
      (''platform_url'', ''basic'', False, ''http://localhost''), (''sql_review_limit'', ''basic'', False, ''1000''),
      (''query_default_limit'', ''basic'', False, ''100''), (''workflow_auto_review'', ''basic'', False, ''false''),
      (''mail_host'', ''mail'', False, []), (''mail_port'', ''mail'', False, ''465''),
      (''mail_use_ssl'', ''mail'', False, ''true''), (''mail_user'', ''mail'', False, []),
      (''mail_password'', ''mail'', True, []), (''mail_from'', ''mail'', False, ''database platform''),
      (''ding_webhook'', ''dingtalk'', True, []), (''ding_secret'', ''dingtalk'', True, []),
      (''ding_enabled'', ''dingtalk'', False, ''false''), (''ding_login_app_id'', ''dingtalk'', False, []),
      (''ding_login_app_secret'', ''dingtalk'', True, []), (''ding_login_enabled'', ''dingtalk'', False, ''false''),
      (''ding_agent_id'', ''dingtalk'', False, []), (''wecom_webhook'', ''wecom'', True, []),
      (''wecom_enabled'', ''wecom'', False, ''false''), (''wecom_login_corp_id'', ''wecom'', False, []),
      (''wecom_login_agent_id'', ''wecom'', False, []), (''wecom_login_app_secret'', ''wecom'', True, []),
      (''wecom_login_enabled'', ''wecom'', False, ''false''), (''feishu_webhook'', ''feishu'', True, []),
      (''feishu_app_id'', ''feishu'', False, []), (''feishu_app_secret'', ''feishu'', True, []),
      (''feishu_enabled'', ''feishu'', False, ''false''), (''feishu_login_enabled'', ''feishu'', False, ''false''),
      (''ldap_server_uri'', ''ldap'', False, ''ldap://ldap.example.com:389''),
      (''ldap_bind_dn'', ''ldap'', False, ''cn=admin,dc=example,dc=com''),
      (''ldap_bind_password'', ''ldap'', True, []),
      (''ldap_user_search_base'', ''ldap'', False, ''ou=users,dc=example,dc=com''),
      (''ldap_user_filter'', ''ldap'', False, ''(uid=%(user)s)''),
      (''ldap_attr_username'', ''ldap'', False, ''uid''), (''ldap_attr_email'', ''ldap'', False, ''mail''),
      (''ldap_attr_display'', ''ldap'', False, ''cn''), (''ldap_attr_employee_id'', ''ldap'', False, ''employeeId''),
      (''ldap_attr_department'', ''ldap'', False, ''department''), (''ldap_attr_title'', ''ldap'', False, ''title''),
      (''ldap_enabled'', ''ldap'', False, ''false''), (''cas_server_url'', ''cas'', False, []),
      (''cas_username_attribute'', ''cas'', False, []), (''cas_enabled'', ''cas'', False, ''false''),
      (''oidc_issuer_url'', ''oidc'', False, []), (''oidc_authorization_endpoint'', ''oidc'', False, []),
      (''oidc_token_endpoint'', ''oidc'', False, []), (''oidc_userinfo_endpoint'', ''oidc'', False, []),
      (''oidc_client_id'', ''oidc'', False, []), (''oidc_client_secret'', ''oidc'', True, []),
      (''oidc_scope'', ''oidc'', False, ''openid email profile''),
      (''oidc_username_claim'', ''oidc'', False, ''preferred_username''),
      (''oidc_email_claim'', ''oidc'', False, ''email''), (''oidc_display_name_claim'', ''oidc'', False, ''name''),
      (''oidc_enabled'', ''oidc'', False, ''false''), (''sms_provider'', ''sms'', False, ''aliyun''),
      (''sms_sign_name'', ''sms'', False, []), (''sms_template_code'', ''sms'', False, []),
      (''sms_access_key_id'', ''sms'', False, []), (''sms_access_key_secret'', ''sms'', True, []),
      (''sms_endpoint'', ''sms'', False, []), (''sms_enabled'', ''sms'', False, ''false''),
      (''ai_provider'', ''ai'', False, ''anthropic''), (''ai_base_url'', ''ai'', False, []),
      (''ai_api_key'', ''ai'', True, []), (''ai_model'', ''ai'', False, ''claude-sonnet-4-20250514''),
      (''ai_enabled'', ''ai'', False, ''false'')]"

definition config_definition :: "string \<Rightarrow> (string \<times> bool \<times> string) option" where
  "config_definition key = map_of CONFIG_DEFINITIONS key"

definition CONFIG_ORDER :: "string \<Rightarrow> nat" where
  "CONFIG_ORDER key = length (takeWhile (\<lambda>d. fst d \<noteq> key) CONFIG_DEFINITIONS)"

definition ALLOWED_LOGO_PREFIXES :: "string list" where
  "ALLOWED_LOGO_PREFIXES = [''https://'', ''http://'', ''/'', ''data:image/'']"

definition AI_PRESET_BASE_URLS :: "string list" where
  "AI_PRESET_BASE_URLS = filter (\<lambda>x. x \<noteq> []) (map (\<lambda>(p, u, m). u) AI_PROVIDER_PRESETS)"

definition AI_PRESET_MODELS :: "string list" where
  "AI_PRESET_MODELS = filter (\<lambda>x. x \<noteq> []) (map (\<lambda>(p, u, m). m) AI_PROVIDER_PRESETS)"

section \<open>Defaults of the deployment\<close>

record ai_settings =
  AI_ENABLED :: string
  AI_PROVIDER :: string
  AI_API_KEY :: string
  AI_BASE_URL :: string
  AI_MODEL :: string

definition config_truthy :: "string \<Rightarrow> bool" where
  "config_truthy v \<longleftrightarrow> py_lower (py_strip v) \<in> {''1'', ''true'', ''yes'', ''on'', ''enabled''}"

definition runtime_ai_provider :: "ai_settings \<Rightarrow> string" where
  "runtime_ai_provider st =
     (let provider = py_lower (py_strip (AI_PROVIDER st)) in
      if provider \<in> {[], ''none'', ''disabled'', ''off''} then AI_DEFAULT_PROVIDER
      else if provider \<in> fst ` set AI_PROVIDER_PRESETS then provider
      else AI_DEFAULT_PROVIDER)"

definition preset_of :: "string \<Rightarrow> (string \<times> string) option" where
  "preset_of provider = map_of AI_PROVIDER_PRESETS provider"

definition runtime_default_for_key :: "ai_settings \<Rightarrow> string \<Rightarrow> string \<Rightarrow> string" where
  "runtime_default_for_key st key dflt =
     (let preset = (case preset_of (runtime_ai_provider st) of None \<Rightarrow> ([], []) | Some p \<Rightarrow> p) in
      if key = ''ai_provider'' then runtime_ai_provider st
      else if key = ''ai_api_key'' then or_str (py_strip (AI_API_KEY st)) dflt
      else if key = ''ai_base_url'' then or_str (or_str (py_strip (AI_BASE_URL st)) (fst preset)) dflt
      else if key = ''ai_model'' then or_str (or_str (py_strip (AI_MODEL st)) (snd preset)) dflt
      else if key = ''ai_enabled'' then
        (if py_strip (AI_ENABLED st) \<noteq> [] then (if config_truthy (py_strip (AI_ENABLED st)) then ''true'' else ''false'')
         else if py_strip (AI_API_KEY st) \<noteq> [] then ''true'' else dflt)
      else dflt)"

section \<open>Values of the form\<close>

text \<open>\<open>Inl\<close> is a \<open>ValueError\<close>.\<close>

definition normalize_config_value :: "string \<Rightarrow> string \<Rightarrow> string + string" where
  "normalize_config_value key raw =
     (let v = py_strip raw in
      if key = ''platform_name'' \<and> v = [] then Inr ''Sagitta Control''
      else if key = ''platform_name'' \<and> 80 < length v then Inl ''platform name''
      else if key = ''platform_logo_url'' \<and> v \<noteq> [] \<and> 700000 < length v then Inl ''logo size''
      else if key = ''platform_logo_url'' \<and> v \<noteq> [] \<and> \<not> list_ex (starts_with v) ALLOWED_LOGO_PREFIXES then Inl ''logo''
      else if key = ''ai_provider'' then
        (let p = or_str (py_lower v) AI_DEFAULT_PROVIDER in
         if p \<notin> fst ` set AI_PROVIDER_PRESETS then Inl ''provider'' else Inr p)
      else if key = ''ai_base_url'' \<and> v \<noteq> [] \<and> \<not> list_ex (starts_with v) [''https://'', ''http://''] then Inl ''base url''
      else Inr v)"

section \<open>Rows\<close>

record config_row =
  cf_key :: string
  cf_value :: string
  cf_encrypted :: bool
  cf_group :: string

definition config_row_of :: "string \<Rightarrow> config_row list \<Rightarrow> config_row option" where
  "config_row_of key rows = find (\<lambda>r. cf_key r = key) rows"

definition default_row :: "'t auth_env \<Rightarrow> ai_settings \<Rightarrow> string \<times> string \<times> bool \<times> string \<Rightarrow> config_row" where
  "default_row env st d =
     (case d of (key, grp, sensitive, dflt) \<Rightarrow>
        let v = runtime_default_for_key st key dflt; encrypted = (sensitive \<and> v \<noteq> []) in
        \<lparr>cf_key = key, cf_value = (if encrypted then encrypt_field env v else v), cf_encrypted = encrypted, cf_group = grp\<rparr>)"

definition regrouped :: "config_row \<Rightarrow> config_row" where
  "regrouped r = (case config_definition (cf_key r) of None \<Rightarrow> r | Some (grp, _) \<Rightarrow> r\<lparr>cf_group := grp\<rparr>)"

definition ensure_defaults :: "'t auth_env \<Rightarrow> ai_settings \<Rightarrow> config_row list \<Rightarrow> config_row list" where
  "ensure_defaults env st rows =
     map regrouped rows @
     map (default_row env st) (filter (\<lambda>d. config_row_of (fst d) rows = None) CONFIG_DEFINITIONS)"

definition get_value :: "'t auth_env \<Rightarrow> string \<Rightarrow> config_row list \<Rightarrow> string" where
  "get_value env key rows =
     (let dflt = (case config_definition key of None \<Rightarrow> [] | Some (_, _, d) \<Rightarrow> d) in
      case config_row_of key rows of
        None \<Rightarrow> dflt
      | Some r \<Rightarrow> if cf_value r = [] then dflt
          else if cf_encrypted r then decrypt_field env (cf_value r) else cf_value r)"

section \<open>The form\<close>

record config_entry =
  ce_key :: string
  ce_value :: string
  ce_sensitive :: bool
  ce_group :: string

definition MASK :: string where "MASK = ''******''"

definition shown_entry :: "config_row \<Rightarrow> config_entry" where
  "shown_entry r =
     (let sensitive = (case config_definition (cf_key r) of None \<Rightarrow> cf_encrypted r | Some (_, s, _) \<Rightarrow> s) in
      \<lparr>ce_key = cf_key r, ce_value = (if sensitive \<and> cf_value r \<noteq> [] then MASK else cf_value r),
       ce_sensitive = sensitive, ce_group = cf_group r\<rparr>)"

definition get_all :: "'t auth_env \<Rightarrow> ai_settings \<Rightarrow> config_row list \<Rightarrow> (string \<times> config_entry list) list \<times> config_row list" where
  "get_all env st rows =
     (let rows1 = ensure_defaults env st rows; rows2 = sort_key (\<lambda>r. CONFIG_ORDER (cf_key r)) rows1;
          group_of = (\<lambda>r. if cf_group r \<in> set CONFIG_GROUPS then cf_group r else ''basic'') in
      (filter (\<lambda>(g, es). es \<noteq> [])
         (map (\<lambda>g. (g, map shown_entry (filter (\<lambda>r. group_of r = g) rows2))) CONFIG_GROUPS), rows1))"

definition get_branding :: "'t auth_env \<Rightarrow> ai_settings \<Rightarrow> config_row list \<Rightarrow> (string \<times> string) \<times> config_row list" where
  "get_branding env st rows =
     (let rows1 = ensure_defaults env st rows in
      ((or_str (get_value env ''platform_name'' rows1) ''Sagitta Control'', get_value env ''platform_logo_url'' rows1), rows1))"

definition AUTH_METHODS :: "(string \<times> string) list" where
  "AUTH_METHODS = [(''ldap'', ''ldap_enabled''), (''cas'', ''cas_enabled''), (''dingtalk'', ''ding_login_enabled''),
     (''feishu'', ''feishu_login_enabled''), (''wecom'', ''wecom_login_enabled''), (''sms'', ''sms_enabled''),
     (''oidc'', ''oidc_enabled'')]"

definition get_public_auth_methods :: "'t auth_env \<Rightarrow> ai_settings \<Rightarrow> config_row list \<Rightarrow> (string \<times> bool) list \<times> config_row list" where
  "get_public_auth_methods env st rows =
     (let rows1 = ensure_defaults env st rows in
      (map (\<lambda>(provider, key). (provider, py_lower (get_value env key rows1) = ''true'')) AUTH_METHODS, rows1))"

section \<open>Changes\<close>

text \<open>\<open>d[k] = v\<close> and \<open>d.get(k, "")\<close> of a dictionary in its order.\<close>

fun dict_set :: "string \<Rightarrow> string \<Rightarrow> (string \<times> string) list \<Rightarrow> (string \<times> string) list" where
  "dict_set k v [] = [(k, v)]"
| "dict_set k v ((k', v') # d) = (if k' = k then (k, v) # d else (k', v') # dict_set k v d)"

definition dict_text :: "(string \<times> string) list \<Rightarrow> string \<Rightarrow> string" where
  "dict_text d k = (case map_of d k of None \<Rightarrow> [] | Some v \<Rightarrow> v)"

text \<open>A field that is empty or holds the preset of some provider takes the preset of the new one.\<close>

definition follow_preset :: "string \<Rightarrow> string \<Rightarrow> string list \<Rightarrow> string \<Rightarrow> (string \<times> string) list \<Rightarrow> (string \<times> string) list" where
  "follow_preset key preset known current d =
     (if (current = [] \<or> current \<in> set known) \<and> preset \<noteq> [] then dict_set key preset d
      else if preset = [] \<and> current \<in> set known then dict_set key [] d
      else d)"

definition normalized_updates :: "(string \<times> string) list \<Rightarrow> (string \<times> string) list" where
  "normalized_updates updates =
     (let provider = dict_text updates ''ai_provider'' in
      if provider = [] then updates
      else case preset_of (py_lower (py_strip provider)) of
        None \<Rightarrow> updates
      | Some (url, model) \<Rightarrow>
          follow_preset ''ai_base_url'' url AI_PRESET_BASE_URLS (py_strip (dict_text updates ''ai_base_url''))
            (follow_preset ''ai_model'' model AI_PRESET_MODELS (py_strip (dict_text updates ''ai_model'')) updates))"

text \<open>The summary for the audit log names the secrets that changed and shows the other values.\<close>

datatype change_note = SecretChanged string | ValueChanged string string

definition stored_value :: "'t auth_env \<Rightarrow> bool \<Rightarrow> string \<Rightarrow> string" where
  "stored_value env sensitive v = (if sensitive \<and> v \<noteq> [] then encrypt_field env v else v)"

definition put_config :: "'t auth_env \<Rightarrow> string \<Rightarrow> string \<Rightarrow> bool \<Rightarrow> string \<Rightarrow> config_row list \<Rightarrow> config_row list" where
  "put_config env key grp sensitive v rows =
     (case config_row_of key rows of
        Some _ \<Rightarrow> map (\<lambda>r. if cf_key r = key
           then r\<lparr>cf_value := stored_value env sensitive v, cf_encrypted := (sensitive \<and> v \<noteq> [])\<rparr> else r) rows
      | None \<Rightarrow> rows @ [\<lparr>cf_key = key, cf_value = stored_value env sensitive v, cf_encrypted = (sensitive \<and> v \<noteq> []), cf_group = grp\<rparr>])"

definition shown_change :: "string \<Rightarrow> string" where
  "shown_change v = (if length v \<le> 50 then v else take 50 v @ ''...'')"

fun update_items ::
    "'t auth_env \<Rightarrow> (string \<times> string) list \<Rightarrow> config_row list \<Rightarrow> string + change_note list \<times> config_row list" where
  "update_items env [] rows = Inr ([], rows)"
| "update_items env ((key, raw) # items) rows =
     (case config_definition key of
        None \<Rightarrow> update_items env items rows
      | Some (grp, sensitive, _) \<Rightarrow>
          rbind (normalize_config_value key raw) (\<lambda>v.
          if sensitive \<and> v \<in> {[], MASK} then update_items env items rows
          else rbind (update_items env items (put_config env key grp sensitive v rows)) (\<lambda>(notes, rows').
            Inr ((if sensitive then SecretChanged key else ValueChanged key (shown_change v)) # notes, rows'))))"

definition update_batch ::
    "'t auth_env \<Rightarrow> (string \<times> string) list \<Rightarrow> config_row list \<Rightarrow> string + (nat \<times> change_note list) \<times> config_row list" where
  "update_batch env updates rows =
     rbind (update_items env (normalized_updates updates) rows) (\<lambda>(notes, rows'). Inr ((length notes, notes), rows'))"

text \<open>The endpoint: the notes are the detail of the entry of the operation log.\<close>

definition update_config_endpoint ::
    "'t auth_env \<Rightarrow> operator \<Rightarrow> (string \<times> string) list \<Rightarrow> config_row list \<Rightarrow> ((nat \<times> change_note list) \<times> config_row list) res" where
  "update_config_endpoint env u updates rows =
     rbind (require_perm ''system_config_manage'' u) (\<lambda>_.
     case update_batch env updates rows of Inl t \<Rightarrow> Inl (http 400 t) | Inr x \<Rightarrow> Inr x)"

end
