(* ===== verification/Config_Facts.thy ===== *)
theory Config_Facts
  imports System_Config Auth_Flows Auth_Sample Sample_Data License_Quota
begin

text \<open>
  What a saved setting reads back as, what the form shows of the secrets, the defaults, and two
  settings that cannot be made empty.
\<close>

section \<open>Rows\<close>

lemma find_map_update: "(\<And>r. key (f r) = key r) \<Longrightarrow> find (\<lambda>r. key r = k) (map f rows) = map_option f (find (\<lambda>r. key r = k) rows)"
  by (induction rows) auto

lemma find_append: "find P (xs @ ys) = (case find P xs of None \<Rightarrow> find P ys | Some x \<Rightarrow> Some x)"
  by (induction xs) auto

lemma config_row_of_key: "config_row_of k rows = Some r \<Longrightarrow> cf_key r = k"
  unfolding config_row_of_def by (auto dest: find_Some_in)

lemma config_row_put:
  "config_row_of k (put_config env key grp sensitive v rows) =
     (if k = key then Some (case config_row_of key rows of
        Some r \<Rightarrow> r\<lparr>cf_value := stored_value env sensitive v, cf_encrypted := (sensitive \<and> v \<noteq> [])\<rparr>
      | None \<Rightarrow> \<lparr>cf_key = key, cf_value = stored_value env sensitive v, cf_encrypted = (sensitive \<and> v \<noteq> []), cf_group = grp\<rparr>)
      else config_row_of k rows)"
proof (cases "config_row_of key rows")
  case None
  then show ?thesis by (auto simp: put_config_def config_row_of_def find_append split: option.splits)
next
  case (Some r)
  then have "cf_key r = key" by (rule config_row_of_key)
  have other: "config_row_of k rows = Some q \<Longrightarrow> k \<noteq> key \<Longrightarrow> cf_key q \<noteq> key" for q by (auto dest: config_row_of_key)
  let ?f = "\<lambda>r. if cf_key r = key then r\<lparr>cf_value := stored_value env sensitive v, cf_encrypted := (sensitive \<and> v \<noteq> [])\<rparr> else r"
  have "config_row_of k (map ?f rows) = map_option ?f (config_row_of k rows)"
    unfolding config_row_of_def by (rule find_map_update) auto
  then show ?thesis using Some \<open>cf_key r = key\<close> other
    by (cases "config_row_of k rows") (auto simp: put_config_def)
qed

lemma get_value_put:
  assumes "fernet_laws env" "config_definition key = Some (grp, sensitive, dflt)"
  shows "get_value env k (put_config env key grp sensitive v rows) = (if k = key then or_str v dflt else get_value env k rows)"
proof (cases "k = key")
  case True
  have "encrypt_field env v \<noteq> []" if "v \<noteq> []" using assms(1) that by (simp add: fernet_laws_def encrypt_field_def Let_def)
  then show ?thesis using assms True decrypt_same_key [OF assms(1)]
    by (auto simp: get_value_def config_row_put stored_value_def or_str_def Let_def split: option.splits)
next
  case False
  then show ?thesis by (simp add: get_value_def config_row_put)
qed

lemma regrouped_simps [simp]:
  "cf_key (regrouped r) = cf_key r" "regrouped (regrouped r) = regrouped r" "cf_value (regrouped r) = cf_value r"
  "cf_encrypted (regrouped r) = cf_encrypted r"
  by (simp_all add: regrouped_def split: option.splits)

section \<open>Dictionaries\<close>

lemma map_of_dict_set: "map_of (dict_set k v d) = (map_of d)(k \<mapsto> v)"
  by (induction k v d rule: dict_set.induct) auto

lemma keys_dict_set: "distinct (map fst d) \<Longrightarrow> distinct (map fst (dict_set k v d))"
proof -
  have "fst ` set (dict_set k v d) = insert k (fst ` set d)" for d
    by (induction k v d rule: dict_set.induct) auto
  then show "distinct (map fst d) \<Longrightarrow> distinct (map fst (dict_set k v d))"
    by (induction k v d rule: dict_set.induct) auto
qed

lemma follow_preset_facts:
  "distinct (map fst d) \<Longrightarrow> distinct (map fst (follow_preset key preset known current d))"
  "k \<noteq> key \<Longrightarrow> map_of (follow_preset key preset known current d) k = map_of d k"
  "current = [] \<or> current \<in> set known \<Longrightarrow> preset \<noteq> [] \<Longrightarrow>
     map_of (follow_preset key preset known current d) key = Some preset"
  by (auto simp: follow_preset_def keys_dict_set map_of_dict_set)

lemma normalized_updates_facts:
  "distinct (map fst d) \<Longrightarrow> distinct (map fst (normalized_updates d))"
  "k \<notin> {''ai_model'', ''ai_base_url''} \<Longrightarrow> map_of (normalized_updates d) k = map_of d k"
  by (auto simp: normalized_updates_def follow_preset_facts Let_def split: option.splits prod.splits)

section \<open>Reading back\<close>

definition saved_value :: "string option \<Rightarrow> string \<Rightarrow> string \<Rightarrow> string" where
  "saved_value given key old =
     (case (given, config_definition key) of
        (Some raw, Some (_, sensitive, dflt)) \<Rightarrow>
          (case normalize_config_value key raw of Inl _ \<Rightarrow> old
           | Inr v \<Rightarrow> if sensitive \<and> v \<in> {[], MASK} then old else or_str v dflt)
      | _ \<Rightarrow> old)"

lemma update_items_value:
  "fernet_laws env \<Longrightarrow> update_items env items rows = Inr (nts, rows') \<Longrightarrow> distinct (map fst items) \<Longrightarrow>
    get_value env k rows' = saved_value (map_of items k) k (get_value env k rows)"
proof (induction items arbitrary: rows nts)
  case Nil
  then show ?case by (simp add: saved_value_def)
next
  case (Cons item items)
  obtain key raw where item: "item = (key, raw)" by (cases item)
  note u = Cons.prems(2) [unfolded item]
  have new: "map_of items key = None" "distinct (map fst items)" using Cons.prems(3) by (auto simp: map_of_eq_None_iff item)
  show ?case
  proof (cases "config_definition key")
    case None
    then have "get_value env k rows' = saved_value (map_of items k) k (get_value env k rows)"
      using Cons.IH [OF Cons.prems(1) _ new(2)] u by simp
    then show ?thesis using None new(1) by (auto simp: saved_value_def item)
  next
    case (Some d)
    obtain grp sensitive dflt where d: "config_definition key = Some (grp, sensitive, dflt)" using Some by (cases d) auto
    obtain v where v: "normalize_config_value key raw = Inr v" using u d by (auto simp: rbind_Inr_iff)
    show ?thesis
    proof (cases "sensitive \<and> v \<in> {[], MASK}")
      case True
      then have "get_value env k rows' = saved_value (map_of items k) k (get_value env k rows)"
        using Cons.IH [OF Cons.prems(1) _ new(2)] u d v True by simp
      then show ?thesis using True d v new(1) by (auto simp: saved_value_def item)
    next
      case False
      then obtain ns where n: "update_items env items (put_config env key grp sensitive v rows) = Inr (ns, rows')"
        using u d v by (auto simp: rbind_Inr_iff)
      have "get_value env k rows' = saved_value (map_of items k) k (get_value env k (put_config env key grp sensitive v rows))"
        using Cons.IH [OF Cons.prems(1) n new(2)] .
      then show ?thesis using False d v new(1) get_value_put [OF Cons.prems(1) d, of k v rows]
        by (auto simp: saved_value_def item)
    qed
  qed
qed

lemma updated_value:
  assumes "update_config_endpoint env u updates rows = Inr ((n, nts), rows')" "fernet_laws env" "distinct (map fst updates)"
    "k \<notin> {''ai_model'', ''ai_base_url''} \<or> ''ai_provider'' \<notin> fst ` set updates"
  shows "get_value env k rows' = saved_value (map_of updates k) k (get_value env k rows)"
proof -
  have "update_items env (normalized_updates updates) rows = Inr (nts, rows')"
    using assms(1) by (auto simp: update_config_endpoint_def update_batch_def rbind_Inr_iff split: sum.splits)
  from update_items_value [OF assms(2) this normalized_updates_facts(1) [OF assms(3)]]
  have "get_value env k rows' = saved_value (map_of (normalized_updates updates) k) k (get_value env k rows)" .
  moreover have "normalized_updates updates = updates" if "''ai_provider'' \<notin> fst ` set updates"
    using that by (simp add: normalized_updates_def dict_text_def map_of_eq_None_iff [THEN iffD2] Let_def)
  ultimately show ?thesis using assms(4) normalized_updates_facts(2) by metis
qed


section \<open>Secrets\<close>

text \<open>Rows that differ in the values of secrets only.\<close>

definition is_secret :: "config_row \<Rightarrow> bool" where "is_secret r = ce_sensitive (shown_entry r)"

definition same_but_secrets :: "config_row \<Rightarrow> config_row \<Rightarrow> bool" where
  "same_but_secrets r q \<longleftrightarrow> cf_key r = cf_key q \<and> cf_group r = cf_group q \<and> cf_encrypted r = cf_encrypted q \<and>
     (cf_value r = [] \<longleftrightarrow> cf_value q = []) \<and> (\<not> is_secret r \<longrightarrow> cf_value r = cf_value q)"

lemma shown_same: "same_but_secrets r q \<Longrightarrow> shown_entry r = shown_entry q"
  by (auto simp: same_but_secrets_def shown_entry_def is_secret_def Let_def split: option.splits)

definition projected :: "config_row \<Rightarrow> string \<times> string \<times> config_entry" where
  "projected r = (cf_key r, cf_group r, shown_entry r)"

lemma projected_same: "same_but_secrets r q \<Longrightarrow> projected r = projected q"
  using shown_same by (auto simp: projected_def same_but_secrets_def)

lemma defaults_same:
  assumes "list_all2 same_but_secrets rows rows'"
  shows "map projected (ensure_defaults env st rows) = map projected (ensure_defaults env st rows')"
proof -
  have "config_row_of k rows = None \<longleftrightarrow> config_row_of k rows' = None" for k
    using assms unfolding config_row_of_def by (induction rule: list_all2_induct) (auto simp: same_but_secrets_def)
  then have new: "filter (\<lambda>d. config_row_of (fst d) rows = None) CONFIG_DEFINITIONS =
      filter (\<lambda>d. config_row_of (fst d) rows' = None) CONFIG_DEFINITIONS" by simp
  have step: "same_but_secrets r q \<Longrightarrow> projected (regrouped r) = projected (regrouped q)" for r q
    by (rule projected_same) (auto simp: same_but_secrets_def is_secret_def regrouped_def shown_entry_def Let_def split: option.splits)
  have "map projected (map regrouped rows) = map projected (map regrouped rows')"
    using assms by (induction rule: list_all2_induct) (simp_all add: step)
  then show ?thesis by (simp add: ensure_defaults_def new)
qed

lemma get_all_projected:
  "fst (get_all env st rows) =
     (let ps = sort_key (\<lambda>p. CONFIG_ORDER (fst p)) (map projected (ensure_defaults env st rows));
          group_of = (\<lambda>p. if fst (snd p) \<in> set CONFIG_GROUPS then fst (snd p) else ''basic'') in
      filter (\<lambda>(g, es). es \<noteq> []) (map (\<lambda>g. (g, map (snd \<circ> snd) (filter (\<lambda>p. group_of p = g) ps))) CONFIG_GROUPS))"
proof -
  have "sort_key (\<lambda>p. CONFIG_ORDER (fst p)) (map projected xs) = map projected (sort_key (\<lambda>r. CONFIG_ORDER (cf_key r)) xs)" for xs
    by (simp add: sort_key_map projected_def comp_def)
  then show ?thesis by (simp add: get_all_def Let_def filter_map comp_def projected_def)
qed


section \<open>Defaults\<close>

lemma default_row_key [simp]: "cf_key (default_row env st d) = fst d"
  by (cases d) (simp add: default_row_def Let_def)

lemma definitions_distinct: "distinct (map fst CONFIG_DEFINITIONS)"
  by (simp add: CONFIG_DEFINITIONS_def)

text \<open>
The defaults are complete, once and for all: after the first request every setting has a row,
the values of the rows that were there are kept, and a second request changes nothing.
\<close>

theorem defaults_complete:
  shows "fst ` set CONFIG_DEFINITIONS \<subseteq> cf_key ` set (ensure_defaults env st rows) \<and>
    (\<forall>k. config_row_of k rows \<noteq> None \<longrightarrow> get_value env k (ensure_defaults env st rows) = get_value env k rows) \<and>
    ensure_defaults env st (ensure_defaults env st rows) = ensure_defaults env st rows"
proof -
  let ?new = "map (default_row env st) (filter (\<lambda>d. config_row_of (fst d) rows = None) CONFIG_DEFINITIONS)"
  have e: "ensure_defaults env st rows = map regrouped rows @ ?new" by (simp add: ensure_defaults_def)
  have row: "config_row_of k (ensure_defaults env st rows) = (case config_row_of k rows of
      Some r \<Rightarrow> Some (regrouped r) | None \<Rightarrow> config_row_of k ?new)" for k
    unfolding e config_row_of_def find_append find_map_update [where f = regrouped and key = cf_key, OF regrouped_simps(1)]
    by (simp split: option.splits)
  have new: "config_row_of (fst d) ?new \<noteq> None" if "d \<in> set CONFIG_DEFINITIONS" "config_row_of (fst d) rows = None" for d
  proof -
    have "default_row env st d \<in> set ?new" unfolding set_map by (rule imageI) (use that in simp)
    then have "\<exists>x. x \<in> set ?new \<and> cf_key x = fst d" using default_row_key [of env st d] by (intro exI conjI)
    then show ?thesis by (simp only: config_row_of_def find_None_iff) simp
  qed
  have all: "config_row_of (fst d) (ensure_defaults env st rows) \<noteq> None" if "d \<in> set CONFIG_DEFINITIONS" for d
    using new [OF that] by (auto simp: row split: option.splits)
  have kept: "regrouped r = r" if new: "r \<in> set ?new" for r
  proof -
    obtain d0 where d0: "d0 \<in> set CONFIG_DEFINITIONS" "r = default_row env st d0" using new by auto
    obtain k grp sensitive dflt where "d0 = (k, grp, sensitive, dflt)" using prod_cases4 by blast
    then have d: "(k, grp, sensitive, dflt) \<in> set CONFIG_DEFINITIONS" "r = default_row env st (k, grp, sensitive, dflt)" using d0 by auto
    then have "config_definition k = Some (grp, sensitive, dflt)"
      using definitions_distinct by (simp add: config_definition_def)
    then show ?thesis by (simp add: d(2) default_row_def regrouped_def Let_def)
  qed
  have "map regrouped (map regrouped rows @ ?new) = map regrouped rows @ ?new"
  proof -
    have "map regrouped (map regrouped rows) = map regrouped rows" by (simp add: comp_def)
    moreover have "map regrouped ?new = ?new" by (rule map_idI) (rule kept)
    ultimately show ?thesis by (simp only: map_append)
  qed
  moreover have "filter (\<lambda>d. config_row_of (fst d) (ensure_defaults env st rows) = None) CONFIG_DEFINITIONS = []"
    using all by (auto simp: filter_empty_conv)
  ultimately have "ensure_defaults env st (ensure_defaults env st rows) = ensure_defaults env st rows"
    by (subst (1) ensure_defaults_def) (simp add: e)
  moreover have "fst ` set CONFIG_DEFINITIONS \<subseteq> cf_key ` set (ensure_defaults env st rows)"
    using all by (fastforce simp: config_row_of_def find_None_iff)
  ultimately show ?thesis by (auto simp: get_value_def row Let_def)
qed

section \<open>Settings that cannot be emptied\<close>

text \<open>
An empty value reads as the default: a setting with a default, such as the address of the LDAP
server, cannot be switched to empty.
\<close>

theorem cleared_setting_reads_default:
  assumes "update_config_endpoint env u updates rows = Inr ((n, nts), rows')" "fernet_laws env" "distinct (map fst updates)"
    "map_of updates k = Some v" "py_strip v = []" "config_definition k = Some (grp, False, dflt)"
    "k \<notin> {''ai_model'', ''ai_base_url'', ''ai_provider'', ''platform_name''}"
  shows "get_value env k rows' = dflt"
  using updated_value [OF assms(1-3), of k] assms(4-7)
  by (simp add: saved_value_def normalize_config_value_def or_str_def)

text \<open>
A provider without a preset whose model is left empty, or holds the preset of another provider,
gets the model of the default provider.
\<close>

theorem custom_provider_reads_default_model:
  assumes "update_config_endpoint env u [(''ai_provider'', ''custom''), (''ai_model'', m)] rows = Inr ((n, nts), rows')"
    "fernet_laws env" "py_strip m = [] \<or> py_strip m \<in> set AI_PRESET_MODELS"
  shows "get_value env ''ai_provider'' rows' = ''custom'' \<and> get_value env ''ai_model'' rows' = ''claude-sonnet-4-20250514''"
proof -
  have p: "preset_of ''custom'' = Some ([], [])" "py_lower (py_strip ''custom'') = ''custom''" by code_simp+
  have "[] \<notin> set AI_PRESET_MODELS" "[] \<notin> set AI_PRESET_BASE_URLS" by (auto simp: AI_PRESET_MODELS_def AI_PRESET_BASE_URLS_def)
  then obtain m' where m': "normalized_updates [(''ai_provider'', ''custom''), (''ai_model'', m)] = [(''ai_provider'', ''custom''), (''ai_model'', m')]"
    "py_strip m' = []"
    using assms(3) p by (auto simp: normalized_updates_def dict_text_def follow_preset_def)
  have "update_items env [(''ai_provider'', ''custom''), (''ai_model'', m')] rows = Inr (nts, rows')"
    using assms(1) m'(1) by (auto simp: update_config_endpoint_def update_batch_def rbind_Inr_iff split: sum.splits)
  note v = update_items_value [OF assms(2) this]
  have d: "config_definition ''ai_provider'' = Some (''ai'', False, ''anthropic'')"
    "config_definition ''ai_model'' = Some (''ai'', False, ''claude-sonnet-4-20250514'')"
    "normalize_config_value ''ai_provider'' ''custom'' = Inr ''custom''" by code_simp+
  have "normalize_config_value ''ai_model'' m' = Inr []" using m'(2) by (simp add: normalize_config_value_def)
  then show ?thesis using v [of "''ai_provider''"] v [of "''ai_model''"] d by (simp add: saved_value_def or_str_def)
qed

section \<open>A sample\<close>

definition ldap_rows :: "config_row list" where
  "ldap_rows = [\<lparr>cf_key = ''ldap_enabled'', cf_value = ''true'', cf_encrypted = False, cf_group = ''ldap''\<rparr>,
     \<lparr>cf_key = ''ldap_bind_password'', cf_value = ''#derivedold'', cf_encrypted = True, cf_group = ''ldap''\<rparr>]"

definition ldap_updates :: "(string \<times> string) list" where
  "ldap_updates = [(''ldap_bind_password'', MASK), (''ldap_server_uri'', ''  ''), (''oidc_client_secret'', '' s3 ''), (''ldap_enabled'', ''false'')]"



end
